(* ===== verification/Guard_Prelude.thy ===== *)
theory Guard_Prelude
  imports Main "HOL-Library.Sublist" "HOL-Library.Char_ord" "HOL-Library.List_Lexorder"
begin

text \<open>
  The shared vocabulary of the development.  A Go string is a sequence of bytes, modelled as
  \<^typ>\<open>string\<close> (a \<open>char list\<close>, one \<^typ>\<open>char\<close> per byte).  This theory models what the engine uses
  of Go's \<^verbatim>\<open>strings\<close> package: prefixes and suffixes, \<^verbatim>\<open>Cut\<close>, \<^verbatim>\<open>Split\<close>, \<^verbatim>\<open>Join\<close>, \<^verbatim>\<open>Contains\<close>,
  \<^verbatim>\<open>ContainsAny\<close>, \<^verbatim>\<open>Trim\<close> and its relatives, and case mapping.  Case mapping (\<^verbatim>\<open>ToLower\<close>,
  \<^verbatim>\<open>ToUpper\<close>, \<^verbatim>\<open>EqualFold\<close>) and white space are modelled on ASCII bytes; every other byte is left
  alone.  A Go \<^verbatim>\<open>map[string]bool\<close> literal used as a set is a list of its keys.

  It also fixes the result type of a Go function that can panic, and holds the lemma
  collections \<open>go_str\<close> (string operations) and \<open>fs_frame\<close> (frame laws of stores) that the
  component theories extend and hand to the simplifier.
\<close>

named_theorems go_str \<open>laws of the modelled Go string operations\<close>
named_theorems fs_frame \<open>what a store operation leaves unchanged\<close>

section \<open>Results of functions that may panic\<close>

datatype 'a outcome = Panics | Returns 'a

fun bind_outcome :: "'a outcome \<Rightarrow> ('a \<Rightarrow> 'b outcome) \<Rightarrow> 'b outcome" where
  "bind_outcome Panics f = Panics"
| "bind_outcome (Returns x) f = f x"

lemma bind_outcome_Returns:
  "bind_outcome m f = Returns y \<longleftrightarrow> (\<exists>x. m = Returns x \<and> f x = Returns y)"
  by (cases m) auto

text \<open>Go's \<^verbatim>\<open>if err != nil { return err }\<close>.\<close>

fun and_then :: "'e + 'a \<Rightarrow> ('a \<Rightarrow> 'e + 'b) \<Rightarrow> 'e + 'b" where
  "and_then (Inl e) f = Inl e"
| "and_then (Inr x) f = f x"

lemma and_then_Inr [simp]: "and_then m f = Inr y \<longleftrightarrow> (\<exists>x. m = Inr x \<and> f x = Inr y)"
  by (cases m) auto

section \<open>Prefixes and suffixes\<close>

fun has_prefix :: "'a list \<Rightarrow> 'a list \<Rightarrow> bool" where
  "has_prefix s [] = True"
| "has_prefix [] (p # ps) = False"
| "has_prefix (c # s) (p # ps) = (c = p \<and> has_prefix s ps)"

lemma has_prefix_iff_prefix [go_str]: "has_prefix s p \<longleftrightarrow> prefix p s"
  by (induction s p rule: has_prefix.induct) auto

lemma has_prefix_append [simp]: "has_prefix (p @ t) p"
  by (simp add: has_prefix_iff_prefix)

lemma has_prefixE:
  assumes "has_prefix s p"
  obtains t where "s = p @ t"
  using assms by (auto simp: has_prefix_iff_prefix prefix_def)

definition trim_prefix :: "'a list \<Rightarrow> 'a list \<Rightarrow> 'a list" where
  "trim_prefix s p = (if has_prefix s p then drop (length p) s else s)"

lemma trim_prefix_append [simp]: "trim_prefix (p @ t) p = t"
  by (simp add: trim_prefix_def)

lemma trim_prefix_none [simp]: "\<not> has_prefix s p \<Longrightarrow> trim_prefix s p = s"
  by (simp add: trim_prefix_def)

definition has_suffix :: "'a list \<Rightarrow> 'a list \<Rightarrow> bool" where
  "has_suffix s p = has_prefix (rev s) (rev p)"

lemma has_suffix_iff_suffix [go_str]: "has_suffix s p \<longleftrightarrow> suffix p s"
  by (simp add: has_suffix_def has_prefix_iff_prefix suffix_to_prefix)

definition trim_suffix :: "'a list \<Rightarrow> 'a list \<Rightarrow> 'a list" where
  "trim_suffix s p = (if has_suffix s p then take (length s - length p) s else s)"

section \<open>Searching, cutting, splitting and joining\<close>

fun contains :: "'a list \<Rightarrow> 'a list \<Rightarrow> bool" where
  "contains [] p = (p = [])"
| "contains (c # s) p = (has_prefix (c # s) p \<or> contains s p)"

lemma contains_iff_sublist [go_str]: "contains s p \<longleftrightarrow> sublist p s"
  by (induction s p rule: contains.induct)
    (auto simp: has_prefix_iff_prefix sublist_Cons_right)

text \<open>\<^verbatim>\<open>strings.Cut\<close> with a one-byte separator: the text before the first separator, the text
  after it, and whether there was one.\<close>

definition cut :: "'a \<Rightarrow> 'a list \<Rightarrow> 'a list \<times> 'a list \<times> bool" where
  "cut c s = (takeWhile (\<lambda>x. x \<noteq> c) s, drop 1 (dropWhile (\<lambda>x. x \<noteq> c) s), c \<in> set s)"

abbreviation cut_name :: "'a \<Rightarrow> 'a list \<Rightarrow> 'a list" where
  "cut_name c s \<equiv> fst (cut c s)"

lemma cut_found: "c \<in> set s \<Longrightarrow> cut c s = (a, b, True) \<Longrightarrow> s = a @ c # b"
proof -
  assume "c \<in> set s" and "cut c s = (a, b, True)"
  then have a: "a = takeWhile (\<lambda>x. x \<noteq> c) s" and b: "b = drop 1 (dropWhile (\<lambda>x. x \<noteq> c) s)"
    by (auto simp: cut_def)
  from \<open>c \<in> set s\<close> obtain y ys where d: "dropWhile (\<lambda>x. x \<noteq> c) s = y # ys"
    by (cases "dropWhile (\<lambda>x. x \<noteq> c) s") (auto simp: dropWhile_eq_Nil_conv)
  moreover from d have "y = c" using hd_dropWhile [of "\<lambda>x. x \<noteq> c" s] by auto
  ultimately show ?thesis using a b takeWhile_dropWhile_id [of "\<lambda>x. x \<noteq> c" s] by simp
qed

fun split_on :: "'a \<Rightarrow> 'a list \<Rightarrow> 'a list list" where
  "split_on c [] = [[]]"
| "split_on c (x # xs) =
     (if x = c then [] # split_on c xs
      else (case split_on c xs of [] \<Rightarrow> [[x]] | y # ys \<Rightarrow> (x # y) # ys))"

fun join :: "'a list \<Rightarrow> 'a list list \<Rightarrow> 'a list" where
  "join sep [] = []"
| "join sep [x] = x"
| "join sep (x # y # ys) = x @ sep @ join sep (y # ys)"

lemma set_join: "x \<in> set (join sep xss) \<Longrightarrow> x \<in> set sep \<or> (\<exists>xs\<in>set xss. x \<in> set xs)"
  by (induction sep xss rule: join.induct) auto

lemma split_on_not_Nil [simp]: "split_on c s \<noteq> []"
  by (induction s) (auto split: list.splits)

lemma join_split_on [go_str]: "join [c] (split_on c s) = s"
proof (induction s)
  case Nil
  show ?case by simp
next
  case (Cons x xs)
  obtain y ys where y: "split_on c xs = y # ys"
    by (cases "split_on c xs") auto
  show ?case
  proof (cases "x = c")
    case True
    with Cons y show ?thesis by simp
  next
    case False
    have "join [c] ((x # y) # ys) = x # join [c] (y # ys)" by (cases ys) auto
    with False Cons y show ?thesis by simp
  qed
qed

lemma split_on_pieces [go_str]: "p \<in> set (split_on c s) \<Longrightarrow> c \<notin> set p"
  by (induction s arbitrary: p) (auto split: if_splits list.splits)

lemma split_on_no_sep: "c \<notin> set s \<Longrightarrow> split_on c s = [s]"
  by (induction s) auto

lemma split_on_append: "c \<notin> set a \<Longrightarrow> split_on c (a @ c # b) = a # split_on c b"
  by (induction a) auto

lemma split_on_snoc_sep: "split_on c (s @ [c]) = split_on c s @ [[]]"
  by (induction s) (auto split: list.splits)

lemma split_on_join:
  "xs \<noteq> [] \<Longrightarrow> \<forall>x\<in>set xs. c \<notin> set x \<Longrightarrow> split_on c (join [c] xs) = xs"
proof (induction xs rule: induct_list012)
  case (3 x y zs)
  then show ?case by (simp add: split_on_append)
qed (auto simp: split_on_no_sep)

section \<open>Trimming\<close>

definition trim_right :: "'a list \<Rightarrow> 'a list \<Rightarrow> 'a list" where
  "trim_right s cs = rev (dropWhile (\<lambda>c. c \<in> set cs) (rev s))"

definition trim :: "'a list \<Rightarrow> 'a list \<Rightarrow> 'a list" where
  "trim s cs = trim_right (dropWhile (\<lambda>c. c \<in> set cs) s) cs"

definition ascii_space :: string where
  "ascii_space = [CHR '' '', CHR 0x09, CHR 0x0A, CHR 0x0B, CHR 0x0C, CHR 0x0D]"

definition trim_space :: "string \<Rightarrow> string" where
  "trim_space s = trim s ascii_space"

definition contains_any :: "'a list \<Rightarrow> 'a list \<Rightarrow> bool" where
  "contains_any s cs = list_ex (\<lambda>c. c \<in> set cs) s"

section \<open>Case mapping on ASCII\<close>

definition upper_letters :: string where
  "upper_letters = ''ABCDEFGHIJKLMNOPQRSTUVWXYZ''"

definition lower_letters :: string where
  "lower_letters = ''abcdefghijklmnopqrstuvwxyz''"

definition ascii_lower :: "char \<Rightarrow> char" where
  "ascii_lower c = (case map_of (zip upper_letters lower_letters) c of Some d \<Rightarrow> d | None \<Rightarrow> c)"

definition ascii_upper :: "char \<Rightarrow> char" where
  "ascii_upper c = (case map_of (zip lower_letters upper_letters) c of Some d \<Rightarrow> d | None \<Rightarrow> c)"

definition to_lower :: "string \<Rightarrow> string" where
  "to_lower s = map ascii_lower s"

definition to_upper :: "string \<Rightarrow> string" where
  "to_upper s = map ascii_upper s"

definition equal_fold :: "string \<Rightarrow> string \<Rightarrow> bool" where
  "equal_fold a b \<longleftrightarrow> to_lower a = to_lower b"

definition is_lower :: "char \<Rightarrow> bool" where
  "is_lower c \<longleftrightarrow> CHR ''a'' \<le> c \<and> c \<le> CHR ''z''"

definition is_upper :: "char \<Rightarrow> bool" where
  "is_upper c \<longleftrightarrow> CHR ''A'' \<le> c \<and> c \<le> CHR ''Z''"

definition is_digit :: "char \<Rightarrow> bool" where
  "is_digit c \<longleftrightarrow> CHR ''0'' \<le> c \<and> c \<le> CHR ''9''"

definition is_letter :: "char \<Rightarrow> bool" where
  "is_letter c \<longleftrightarrow> is_lower c \<or> is_upper c"

lemma map_of_zip_in: "map_of (zip xs ys) x = Some y \<Longrightarrow> x \<in> set xs \<and> y \<in> set ys"
  by (drule map_of_SomeD) (auto dest: set_zip_leftD set_zip_rightD)

lemma upper_lower_disjoint: "c \<in> set lower_letters \<Longrightarrow> c \<notin> set upper_letters"
  by (auto simp: upper_letters_def lower_letters_def)

lemma ascii_lower_fixed: "c \<notin> set upper_letters \<Longrightarrow> ascii_lower c = c"
  by (auto simp: ascii_lower_def dest: map_of_zip_in split: option.splits)

lemma ascii_lower_idem [simp]: "ascii_lower (ascii_lower c) = ascii_lower c"
proof (cases "map_of (zip upper_letters lower_letters) c")
  case None
  then have "ascii_lower c = c" by (simp add: ascii_lower_def)
  then show ?thesis by simp
next
  case (Some d)
  then have "ascii_lower c = d" by (simp add: ascii_lower_def)
  moreover have "ascii_lower d = d"
    using map_of_zip_in [OF Some] by (simp add: ascii_lower_fixed upper_lower_disjoint)
  ultimately show ?thesis by simp
qed

lemma ascii_lower_char:
  assumes "d \<notin> set upper_letters" and "d \<notin> set lower_letters"
  shows "ascii_lower c = d \<longleftrightarrow> c = d"
proof
  assume d: "ascii_lower c = d"
  show "c = d"
  proof (cases "map_of (zip upper_letters lower_letters) c")
    case None
    with d show ?thesis by (simp add: ascii_lower_def)
  next
    case (Some e)
    with d have "e = d" by (simp add: ascii_lower_def)
    with map_of_zip_in [OF Some] assms(2) show ?thesis by simp
  qed
qed (use assms in \<open>simp add: ascii_lower_fixed\<close>)

lemma to_lower_idem [simp, go_str]: "to_lower (to_lower s) = to_lower s"
  by (simp add: to_lower_def)

lemma to_lower_Cons: "to_lower (c # s) = ascii_lower c # to_lower s"
  by (simp add: to_lower_def)

lemma to_lower_append [simp]: "to_lower (a @ b) = to_lower a @ to_lower b"
  by (simp add: to_lower_def)

lemma equal_fold_refl [simp]: "equal_fold s s"
  by (simp add: equal_fold_def)

lemma equal_fold_sym: "equal_fold a b \<Longrightarrow> equal_fold b a"
  by (simp add: equal_fold_def)

lemma equal_fold_trans: "equal_fold a b \<Longrightarrow> equal_fold b c \<Longrightarrow> equal_fold a c"
  by (simp add: equal_fold_def)

section \<open>Decimal numbers\<close>

definition digits :: string where "digits = ''0123456789''"

fun itoa :: "nat \<Rightarrow> string" where
  "itoa n = (if n < 10 then [digits ! n] else itoa (n div 10) @ [digits ! (n mod 10)])"

declare itoa.simps [simp del]

definition digit_value :: "char \<Rightarrow> int" where
  "digit_value c = of_char c - 48"

definition decimal_value :: "string \<Rightarrow> int" where
  "decimal_value ds = foldl (\<lambda>acc c. 10 * acc + digit_value c) 0 ds"

text \<open>\<^verbatim>\<open>strconv.Atoi\<close> on a 64-bit host: an optional sign, at least one digit, nothing else, and a
  value in the range of \<^verbatim>\<open>int\<close>.\<close>

definition atoi :: "string \<Rightarrow> int option" where
  "atoi s =
     (let neg = has_prefix s ''-'';
          ds = (if neg \<or> has_prefix s ''+'' then tl s else s);
          n = (if neg then - decimal_value ds else decimal_value ds)
      in if ds \<noteq> '''' \<and> list_all is_digit ds \<and> - (2 ^ 63) \<le> n \<and> n < 2 ^ 63 then Some n else None)"

section \<open>Association lists standing for Go maps\<close>

text \<open>
  Go leaves the iteration order of a map open.  A map that the code iterates is an association
  list in some order; the theorems hold for every list, hence for every order.
\<close>

definition lookup_default :: "'v \<Rightarrow> ('k \<times> 'v) list \<Rightarrow> 'k \<Rightarrow> 'v" where
  "lookup_default d m k = (case map_of m k of Some v \<Rightarrow> v | None \<Rightarrow> d)"

fun upd_assoc :: "'k \<Rightarrow> 'v \<Rightarrow> ('k \<times> 'v) list \<Rightarrow> ('k \<times> 'v) list" where
  "upd_assoc k v [] = [(k, v)]"
| "upd_assoc k v ((a, b) # m) = (if a = k then (k, v) # m else (a, b) # upd_assoc k v m)"

definition del_assoc :: "'k \<Rightarrow> ('k \<times> 'v) list \<Rightarrow> ('k \<times> 'v) list" where
  "del_assoc k m = filter (\<lambda>p. fst p \<noteq> k) m"

lemma map_of_upd_assoc [simp]: "map_of (upd_assoc k v m) = (map_of m)(k \<mapsto> v)"
  by (induction m) (auto simp: fun_eq_iff)

lemma map_of_del_assoc [simp]: "map_of (del_assoc k m) = (map_of m)(k := None)"
  by (induction m) (auto simp: del_assoc_def fun_eq_iff)

lemma keys_upd_assoc: "set (map fst (upd_assoc k v m)) = insert k (set (map fst m))"
  by (induction k v m rule: upd_assoc.induct) (simp_all add: insert_commute)

lemma distinct_upd_assoc: "distinct (map fst m) \<Longrightarrow> distinct (map fst (upd_assoc k v m))"
proof (induction m)
  case (Cons p m)
  then show ?case using keys_upd_assoc [of k v m] by (cases p) auto
qed simp

lemma distinct_del_assoc: "distinct (map fst m) \<Longrightarrow> distinct (map fst (del_assoc k m))"
  by (induction m) (auto simp: del_assoc_def)

lemma length_upd_assoc:
  "length (upd_assoc k v m) = (if k \<in> fst ` set m then length m else Suc (length m))"
  by (induction k v m rule: upd_assoc.induct) simp_all

lemma length_upd_assoc_present: "map_of m k = Some x \<Longrightarrow> length (upd_assoc k v m) = length m"
  by (induction m) auto

lemma length_upd_assoc_le: "length (upd_assoc k v m) \<le> Suc (length m)"
  by (simp add: length_upd_assoc)

lemma length_del_assoc_le: "length (del_assoc k m) \<le> length m"
  by (simp add: del_assoc_def)

section \<open>Bytes outside ASCII in message literals\<close>

text \<open>The UTF-8 bytes of the em dash that several of the program's messages contain.\<close>

definition em_dash :: string where
  "em_dash = [CHR 0xE2, CHR 0x80, CHR 0x94]"

abbreviation dquote :: char where "dquote \<equiv> CHR 0x22"

abbreviation backslash :: char where "backslash \<equiv> CHR 0x5C"

lemma find_first_match:
  "\<forall>q\<in>set before. \<not> P q \<Longrightarrow> P r \<Longrightarrow> find P (before @ r # after) = Some r"
  by (induction before) auto

end
