(* ===== verification/Policy_Model.thy ===== *)
theory Policy_Model
  imports Guard_Prelude
begin

text \<open>
  The policy data model: \<^verbatim>\<open>src/internal/policy/policy.go\<close> and \<^verbatim>\<open>src/internal/policy/base.go\<close>.

  \<^verbatim>\<open>Capability\<close> and \<^verbatim>\<open>Decision\<close> are Go string types with named constants; they are datatypes here,
  with one constructor for every other string, since an Overlay file can put any string in a
  rule's decision.  A \<^verbatim>\<open>map[string]bool\<close> of waivers is an association list.  Errors are values of
  \<open>policy_error\<close>.

  The lemmas give the web-host validator a declarative reading (a host is accepted exactly when
  it is a short list of well-formed labels) and show what a sorted waiver list contains.
\<close>

section \<open>Capabilities, postures and decisions\<close>

datatype capability =
    CapabilityNone
  | CapabilityCommand
  | CapabilityReadDiscovery
  | CapabilityMutation
  | CapabilityWebFetch
  | CapabilityWebSearch
  | CapabilityDelegation
  | CapabilityExternal
  | CapabilitySafeControl
  | CapabilityDeny
  | CapabilityUnknown
  | CapabilityOther string

datatype policy_error =
    InvalidUnknownToolPosture string
  | InvalidWebHost string
  | OverlayRuleLoosens string
  | InvalidApproval
  | InvalidWebResearchEnforcement
  | RepositoryPathNotAbsolute string
  | RepositoryPathCollision string string
  | UndecodableConfig

type_synonym posture = string

abbreviation UnknownAudit :: posture where "UnknownAudit \<equiv> ''audit''"
abbreviation UnknownDeny :: posture where "UnknownDeny \<equiv> ''deny''"

definition ParseUnknownToolPosture :: "string \<Rightarrow> policy_error + posture" where
  "ParseUnknownToolPosture value =
     (if value = UnknownAudit \<or> value = UnknownDeny then Inr value
      else Inl (InvalidUnknownToolPosture value))"

datatype decision = NoDecision | Allow | Ask | Deny | Complete | OtherDecision string

definition decision_of_string :: "string \<Rightarrow> decision" where
  "decision_of_string s =
     (if s = '''' then NoDecision
      else if s = ''allow'' then Allow
      else if s = ''ask'' then Ask
      else if s = ''deny'' then Deny
      else if s = ''complete'' then Complete
      else OtherDecision s)"

fun Severity :: "decision \<Rightarrow> int" where
  "Severity Allow = 0"
| "Severity Ask = 1"
| "Severity Deny = 2"
| "Severity Complete = 2"
| "Severity NoDecision = - 1"
| "Severity (OtherDecision s) = - 1"

definition Blocks :: "decision \<Rightarrow> bool" where
  "Blocks d \<longleftrightarrow> d = Deny"

section \<open>Verdicts, rules and policies\<close>

record verdict =
  vDecision :: decision
  vRuleID :: string
  vOriginRuleID :: string
  vReason :: string
  vAuditKind :: string
  vOperatorAction :: string
  vRequestID :: string
  vApprovalURL :: string

definition IsZero :: "verdict \<Rightarrow> bool" where
  "IsZero v \<longleftrightarrow> vDecision v = NoDecision"

text \<open>A composite literal that names only the decision, the rule and the reason leaves every
  other field at its zero value.\<close>

definition mk_verdict :: "decision \<Rightarrow> string \<Rightarrow> string \<Rightarrow> verdict" where
  "mk_verdict d rule reason =
     \<lparr>vDecision = d, vRuleID = rule, vOriginRuleID = '''', vReason = reason, vAuditKind = '''',
      vOperatorAction = '''', vRequestID = '''', vApprovalURL = ''''\<rparr>"

lemma mk_verdict_fields [simp]:
  "vDecision (mk_verdict d i r) = d"
  "vRuleID (mk_verdict d i r) = i"
  "vReason (mk_verdict d i r) = r"
  "vOriginRuleID (mk_verdict d i r) = ''''"
  by (simp_all add: mk_verdict_def)

record rule =
  rID :: string
  rTool :: string
  rPattern :: string
  rDecision :: decision
  rReason :: string

record slots =
  SafeRoots :: "string list"
  SecretDirs :: "string list"
  SecretGlobs :: "string list"
  SecretAskGlobs :: "string list"
  SecretAllow :: "string list"
  EgressAllowlist :: "string list"
  WebHosts :: "string list"
  AuditLog :: string

record odoo_recipe_config =
  odooModule :: string
  odooTestDatabase :: string
  odooRelaxNG :: string

text \<open>\<^verbatim>\<open>RecipeConfig\<close> has the optional Odoo pointer as its only field, and \<^verbatim>\<open>clone\<close> copies it; values
  are immutable here, so a clone is the value itself.\<close>

type_synonym recipe_config = "odoo_recipe_config option"

record policy =
  WebResearchOff :: bool
  Slots :: slots
  Recipes :: recipe_config
  Rules :: "rule list"
  Waived :: "(string \<times> bool) list"
  UnknownToolPosture :: posture

definition waived :: "policy \<Rightarrow> string \<Rightarrow> bool" where
  "waived pol rule = lookup_default False (Waived pol) rule"

section \<open>Web hosts\<close>

definition host_char :: "char \<Rightarrow> bool" where
  "host_char ch \<longleftrightarrow> is_lower ch \<or> is_digit ch \<or> ch = CHR ''-''"

definition valid_label :: "string \<Rightarrow> bool" where
  "valid_label label \<longleftrightarrow>
     label \<noteq> '''' \<and> length label \<le> 63 \<and> hd label \<noteq> CHR ''-'' \<and> last label \<noteq> CHR ''-'' \<and>
     list_all host_char label"

definition ValidateWebHost :: "string \<Rightarrow> policy_error option" where
  "ValidateWebHost host =
     (if host = '''' \<or> host \<noteq> to_lower host \<or> length host > 253 \<or> has_suffix host ''.''
      then Some (InvalidWebHost host)
      else if list_all valid_label (split_on CHR ''.'' host) then None
      else Some (InvalidWebHost host))"

definition WebHostGrantCommand :: "string list \<Rightarrow> string" where
  "WebHostGrantCommand hosts =
     ''guardrail egress grant --scope repo --host '' @ join '','' hosts"

section \<open>Waiver lists\<close>

definition SortedWaivers :: "policy option \<Rightarrow> string list" where
  "SortedWaivers p =
     (case p of None \<Rightarrow> []
      | Some pol \<Rightarrow> sort (map fst (filter snd (Waived pol))))"

section \<open>The Base policy\<close>

text \<open>\<^verbatim>\<open>fileShape\<close> is what the TOML decoder (a library) fills; decoding is a parameter of
  \<open>LoadBase\<close>: \<open>None\<close> is its error.\<close>

record file_rule =
  frID :: string
  frTool :: string
  frPattern :: string
  frDecision :: string
  frReason :: string

record file_shape =
  fsUnknownToolPosture :: string
  fsSafeRoots :: "string list"
  fsSecretDirs :: "string list"
  fsSecretGlobs :: "string list"
  fsSecretAskGlobs :: "string list"
  fsSecretAllow :: "string list"
  fsEgressAllowlist :: "string list"
  fsAuditLog :: string
  fsRules :: "file_rule list"

definition rule_of_file :: "file_rule \<Rightarrow> rule" where
  "rule_of_file r =
     \<lparr>rID = frID r, rTool = frTool r, rPattern = frPattern r,
      rDecision = decision_of_string (frDecision r), rReason = frReason r\<rparr>"

definition toPolicy :: "file_shape \<Rightarrow> posture \<Rightarrow> policy" where
  "toPolicy f posture =
     \<lparr>WebResearchOff = False,
      Slots = \<lparr>SafeRoots = fsSafeRoots f, SecretDirs = fsSecretDirs f,
               SecretGlobs = fsSecretGlobs f, SecretAskGlobs = fsSecretAskGlobs f,
               SecretAllow = fsSecretAllow f, EgressAllowlist = fsEgressAllowlist f,
               WebHosts = [], AuditLog = fsAuditLog f\<rparr>,
      Recipes = None,
      Rules = map rule_of_file (fsRules f),
      Waived = [],
      UnknownToolPosture = posture\<rparr>"

definition LoadBase :: "file_shape option \<Rightarrow> policy_error + policy" where
  "LoadBase decoded =
     (case decoded of
        None \<Rightarrow> Inl UndecodableConfig
      | Some f \<Rightarrow>
          (case ParseUnknownToolPosture (fsUnknownToolPosture f) of
             Inl e \<Rightarrow> Inl e
           | Inr posture \<Rightarrow> Inr (toPolicy f posture)))"

section \<open>Facts about the data model\<close>

lemma Severity_bounds: "- 1 \<le> Severity d \<and> Severity d \<le> 2"
  by (cases d) auto

lemma Severity_pos_iff: "0 < Severity d \<longleftrightarrow> d = Ask \<or> d = Deny \<or> d = Complete"
  by (cases d) auto

lemma Severity_two_iff: "Severity d = 2 \<longleftrightarrow> d = Deny \<or> d = Complete"
  by (cases d) auto

lemma host_char_not_upper: "host_char ch \<Longrightarrow> ch \<notin> set upper_letters"
  by (auto simp: host_char_def is_lower_def is_digit_def upper_letters_def less_eq_char_def)

lemma host_char_no_comma: "\<not> host_char CHR '',''"
  by (simp add: host_char_def is_lower_def is_digit_def less_eq_char_def)

lemma valid_label_chars: "valid_label l \<Longrightarrow> ch \<in> set l \<Longrightarrow> host_char ch"
  by (simp add: valid_label_def list_all_iff)

lemma valid_label_not_empty: "\<not> valid_label ''''"
  by (simp add: valid_label_def)

lemma split_on_chars: "ch \<in> set s \<Longrightarrow> ch = c \<or> (\<exists>p\<in>set (split_on c s). ch \<in> set p)"
  by (induction s) (auto split: list.splits)

lemma valid_labels_char:
  "list_all valid_label (split_on CHR ''.'' host) \<Longrightarrow> ch \<in> set host \<Longrightarrow>
   ch = CHR ''.'' \<or> host_char ch"
  using split_on_chars [of ch host "CHR ''.''"] valid_label_chars
  unfolding list_all_iff by blast

lemma valid_labels_lower:
  assumes "list_all valid_label (split_on CHR ''.'' host)"
  shows "to_lower host = host"
proof -
  have "CHR ''.'' \<notin> set upper_letters" by (simp add: upper_letters_def)
  then have "ascii_lower ch = ch" if "ch \<in> set host" for ch
    using valid_labels_char [OF assms that] host_char_not_upper ascii_lower_fixed by blast
  then show ?thesis by (simp add: to_lower_def map_idI)
qed

lemma split_on_trailing: "split_on c (a @ [c]) = split_on c a @ [[]]"
  by (induction a) (auto split: list.splits)

lemma valid_labels_no_trailing_dot:
  assumes "list_all valid_label (split_on CHR ''.'' host)"
  shows "\<not> has_suffix host ''.'' \<and> host \<noteq> ''''"
proof
  show "\<not> has_suffix host ''.''"
  proof
    assume "has_suffix host ''.''"
    then obtain a where "host = a @ [CHR ''.'']"
      by (auto simp: has_suffix_iff_suffix suffix_def)
    with assms show False by (simp add: split_on_trailing valid_label_not_empty)
  qed
  show "host \<noteq> ''''" using assms by (auto simp: valid_label_not_empty)
qed

lemma ValidateWebHost_iff:
  "ValidateWebHost host = None \<longleftrightarrow>
     length host \<le> 253 \<and> list_all valid_label (split_on CHR ''.'' host)"
  using valid_labels_lower [of host] valid_labels_no_trailing_dot [of host]
  by (auto simp: ValidateWebHost_def)

lemma ValidateWebHost_no_comma: "ValidateWebHost host = None \<Longrightarrow> CHR '','' \<notin> set host"
  using valid_labels_char [of host "CHR '',''"] host_char_no_comma
  by (auto simp: ValidateWebHost_iff)

lemma set_SortedWaivers:
  assumes "distinct (map fst (Waived pol))"
  shows "x \<in> set (SortedWaivers (Some pol)) \<longleftrightarrow> waived pol x"
proof -
  have "x \<in> set (SortedWaivers (Some pol)) \<longleftrightarrow> (x, True) \<in> set (Waived pol)"
    by (force simp: SortedWaivers_def)
  also have "\<dots> \<longleftrightarrow> map_of (Waived pol) x = Some True"
    using assms by simp
  finally show ?thesis by (auto simp: waived_def lookup_default_def split: option.splits)
qed

lemma sorted_SortedWaivers: "sorted (SortedWaivers p)"
  by (cases p) (auto simp: SortedWaivers_def)

end
