(* ===== verification/Go_Path.thy ===== *)
theory Go_Path
  imports Guard_Prelude
begin

text \<open>
  Paths.  The first part models what the engine uses of Go's \<^verbatim>\<open>path/filepath\<close> on a POSIX host
  (separator \<^verbatim>\<open>/\<close>, no volume names): \<^verbatim>\<open>IsAbs\<close>, \<^verbatim>\<open>Clean\<close>, \<^verbatim>\<open>Join\<close>, \<^verbatim>\<open>Rel\<close> and \<^verbatim>\<open>Base\<close>.  \<^verbatim>\<open>Clean\<close> is the
  component reading of the documented lexical rules, and it is proved idempotent.

  The second part models \<^verbatim>\<open>src/internal/pathutil/resolve.go\<close>.  The file system is a parameter: the
  record \<open>filesystem\<close> holds the answers of \<^verbatim>\<open>os.Lstat\<close> and \<^verbatim>\<open>filepath.EvalSymlinks\<close>.  The loop of
  \<^verbatim>\<open>ResolveThroughExistingAncestor\<close> is a partial function (\<open>None\<close> is "does not return"), and it is
  proved to return on every absolute path, whatever the file system answers.
\<close>

section \<open>Lexical operations\<close>

abbreviation slash :: char where "slash \<equiv> CHR ''/''"

definition is_abs :: "string \<Rightarrow> bool" where
  "is_abs p = has_prefix p ''/''"

fun clean_step :: "bool \<Rightarrow> string list \<Rightarrow> string \<Rightarrow> string list" where
  "clean_step rooted st c =
     (if c = '''' \<or> c = ''.'' then st
      else if c = ''..'' then
        (case st of
           [] \<Rightarrow> if rooted then [] else [''..'']
         | t # ts \<Rightarrow> if t = ''..'' then ''..'' # st else ts)
      else c # st)"

definition clean_comps :: "bool \<Rightarrow> string list \<Rightarrow> string list" where
  "clean_comps rooted cs = rev (foldl (clean_step rooted) [] cs)"

definition clean :: "string \<Rightarrow> string" where
  "clean p =
     (let rooted = is_abs p; cs = clean_comps rooted (split_on slash p)
      in if rooted then slash # join ''/'' cs
         else if cs = [] then ''.'' else join ''/'' cs)"

definition join_path :: "string \<Rightarrow> string \<Rightarrow> string" where
  "join_path a b =
     (if a = '''' \<and> b = '''' then ''''
      else if a = '''' then clean b
      else if b = '''' then clean a
      else clean (a @ ''/'' @ b))"

definition path_comps :: "string \<Rightarrow> string list" where
  "path_comps p = filter (\<lambda>c. c \<noteq> '''' \<and> c \<noteq> ''.'') (split_on slash p)"

fun strip_common :: "string list \<Rightarrow> string list \<Rightarrow> string list \<times> string list" where
  "strip_common (b # bs) (t # ts) = (if b = t then strip_common bs ts else (b # bs, t # ts))"
| "strip_common bs ts = (bs, ts)"

text \<open>\<^verbatim>\<open>filepath.Rel\<close>: \<open>None\<close> is its error result.\<close>

definition rel :: "string \<Rightarrow> string \<Rightarrow> string option" where
  "rel base targ =
     (let b = clean base; t = clean targ
      in if t = b then Some ''.''
         else if is_abs b \<noteq> is_abs t then None
         else (case strip_common (path_comps b) (path_comps t) of
                 (bs, ts) \<Rightarrow>
                   if bs \<noteq> [] \<and> hd bs = ''..'' then None
                   else Some (join ''/'' (replicate (length bs) ''..'' @ ts))))"

text \<open>\<^verbatim>\<open>path.Base\<close>.\<close>

definition strip_trailing_slashes :: "string \<Rightarrow> string" where
  "strip_trailing_slashes p = trim_right p ''/''"

definition last_component :: "string \<Rightarrow> string" where
  "last_component p = rev (takeWhile (\<lambda>c. c \<noteq> slash) (rev p))"

definition path_base :: "string \<Rightarrow> string" where
  "path_base p =
     (if p = '''' then ''.''
      else let core = strip_trailing_slashes p
           in if core = '''' then ''/'' else last_component core)"

section \<open>Resolving through the nearest existing ancestor\<close>

datatype stat_result = Exists | NotExist | StatError

record filesystem =
  fs_lstat :: "string \<Rightarrow> stat_result"
  fs_eval_symlinks :: "string \<Rightarrow> string option"

definition peelTrailingComponent :: "string \<Rightarrow> (string \<times> string) option" where
  "peelTrailingComponent p =
     (let core = strip_trailing_slashes p
      in if core = '''' then None
         else let component = last_component core;
                  parent = rev (dropWhile (\<lambda>c. c \<noteq> slash) (rev core))
              in Some (if parent = '''' then ''.'' else parent, component))"

definition append_component :: "string \<Rightarrow> string \<Rightarrow> string" where
  "append_component r c = (if r \<noteq> [] \<and> last r \<noteq> slash then r @ ''/'' else r) @ c"

partial_function (option) resolve_loop ::
  "filesystem \<Rightarrow> string list \<Rightarrow> string \<Rightarrow> (unit + string) option" where
  "resolve_loop fs missing current =
     (case fs_lstat fs current of
        Exists \<Rightarrow>
          (case fs_eval_symlinks fs current of
             None \<Rightarrow> Some (Inl ())
           | Some resolved \<Rightarrow> Some (Inr (clean (foldl append_component resolved missing))))
      | StatError \<Rightarrow> Some (Inl ())
      | NotExist \<Rightarrow>
          (case peelTrailingComponent current of
             None \<Rightarrow> Some (Inl ())
           | Some (parent, component) \<Rightarrow> resolve_loop fs (component # missing) parent))"

declare resolve_loop.simps [code]

definition ResolveThroughExistingAncestor :: "filesystem \<Rightarrow> string \<Rightarrow> (unit + string) option" where
  "ResolveThroughExistingAncestor fs p =
     resolve_loop fs [] (if p = '''' then ''.'' else p)"

lemma ascii_lower_slash: "ascii_lower c = slash \<longleftrightarrow> c = slash"
  by (rule ascii_lower_char) (simp_all add: upper_letters_def lower_letters_def)

section \<open>Clean is idempotent\<close>

text \<open>A cleaned component list has no empty, dot or separator-bearing component, and dot-dot
  occurs only as a leading run of an unrooted path.\<close>

definition plain_comp :: "string \<Rightarrow> bool" where
  "plain_comp c \<longleftrightarrow> c \<noteq> '''' \<and> c \<noteq> ''.'' \<and> c \<noteq> ''..'' \<and> slash \<notin> set c"

fun clean_stack :: "bool \<Rightarrow> string list \<Rightarrow> bool" where
  "clean_stack rooted [] = True"
| "clean_stack rooted (c # st) =
     (if plain_comp c then clean_stack rooted st
      else c = ''..'' \<and> \<not> rooted \<and> list_all (\<lambda>x. x = ''..'') st)"

lemma clean_stack_dots: "\<not> rooted \<Longrightarrow> list_all (\<lambda>x. x = ''..'') st \<Longrightarrow> clean_stack rooted st"
  by (induction st) (auto simp: plain_comp_def)

lemma clean_stack_top_dots:
  "clean_stack rooted (''..'' # st) \<Longrightarrow> \<not> rooted \<and> list_all (\<lambda>x. x = ''..'') st"
  by (auto simp: plain_comp_def split: if_splits)

lemma clean_stack_tail: "clean_stack rooted (t # ts) \<Longrightarrow> clean_stack rooted ts"
  by (cases "plain_comp t") (auto intro: clean_stack_dots)

lemma clean_step_dots:
  "clean_step rooted st ''..'' =
     (case st of [] \<Rightarrow> if rooted then [] else [''..'']
      | t # ts \<Rightarrow> if t = ''..'' then ''..'' # st else ts)"
  by simp

lemma clean_step_skip: "c = '''' \<or> c = ''.'' \<Longrightarrow> clean_step rooted st c = st"
  by simp

lemma clean_step_plain: "plain_comp c \<Longrightarrow> clean_step rooted st c = c # st"
  by (simp add: plain_comp_def)

lemmas clean_step_cases = clean_step_dots clean_step_skip clean_step_plain

declare clean_step.simps [simp del]

lemma clean_step_stack:
  assumes "clean_stack rooted st" and "slash \<notin> set c"
  shows "clean_stack rooted (clean_step rooted st c)"
proof (cases "c = ''..''")
  case False
  with assms have "plain_comp c \<or> c = '''' \<or> c = ''.''" by (auto simp: plain_comp_def)
  with assms show ?thesis by (auto simp: clean_step_cases)
next
  case True
  show ?thesis
  proof (cases st)
    case Nil
    with True show ?thesis by (simp add: clean_step_cases plain_comp_def)
  next
    case (Cons t ts)
    show ?thesis
    proof (cases "t = ''..''")
      case dots: True
      with assms Cons have "\<not> rooted \<and> list_all (\<lambda>x. x = ''..'') ts"
        by (blast dest: clean_stack_top_dots)
      with True Cons dots show ?thesis by (simp add: clean_step_cases plain_comp_def)
    next
      case notdots: False
      have "clean_stack rooted ts" using assms(1) unfolding Cons by (rule clean_stack_tail)
      with True Cons notdots show ?thesis by (simp add: clean_step_cases)
    qed
  qed
qed

lemma clean_foldl_stack:
  "clean_stack rooted st \<Longrightarrow> \<forall>c\<in>set cs. slash \<notin> set c \<Longrightarrow>
   clean_stack rooted (foldl (clean_step rooted) st cs)"
proof (induction cs arbitrary: st)
  case (Cons c cs)
  from Cons.prems have "clean_stack rooted (clean_step rooted st c)"
    by (intro clean_step_stack) auto
  with Cons show ?case by simp
qed simp

text \<open>Pushing the reverse of a cleaned stack rebuilds that stack.\<close>

lemma clean_stack_rebuild:
  "clean_stack rooted st \<Longrightarrow> foldl (clean_step rooted) [] (rev st) = st"
proof (induction st)
  case (Cons c st)
  then have st: "foldl (clean_step rooted) [] (rev st) = st"
    by (blast dest: clean_stack_tail)
  have push: "foldl (clean_step rooted) [] (rev (c # st)) = clean_step rooted st c"
    using st by simp
  show ?case
  proof (cases "plain_comp c")
    case True
    show ?thesis unfolding push using True by (rule clean_step_plain)
  next
    case False
    with Cons.prems have "c = ''..''" and "\<not> rooted" and "list_all (\<lambda>x. x = ''..'') st" by auto
    then show ?thesis unfolding push by (cases st) (auto simp: clean_step_cases)
  qed
qed simp

lemma clean_stack_comps:
  "clean_stack rooted st \<Longrightarrow> c \<in> set st \<Longrightarrow> c \<noteq> '''' \<and> c \<noteq> ''.'' \<and> slash \<notin> set c"
proof (induction st)
  case (Cons x st)
  show ?case
  proof (cases "plain_comp x")
    case True
    then have "c = x \<Longrightarrow> ?thesis" by (simp add: plain_comp_def)
    moreover have "clean_stack rooted st" using Cons.prems(1) by (rule clean_stack_tail)
    ultimately show ?thesis using Cons.IH Cons.prems(2) by auto
  next
    case False
    with Cons.prems have "c = ''..''" by (auto simp: list_all_iff)
    then show ?thesis by simp
  qed
qed simp

lemma clean_comps_stack:
  "clean_stack rooted (rev (clean_comps rooted (split_on slash p)))"
  unfolding clean_comps_def
  by (simp add: clean_foldl_stack split_on_pieces)

lemma clean_comps_fixed:
  "clean_stack rooted (rev cs) \<Longrightarrow> clean_comps rooted cs = cs"
  using clean_stack_rebuild [of rooted "rev cs"] by (simp add: clean_comps_def)

lemma clean_comps_skip_empty: "clean_comps rooted ('''' # cs) = clean_comps rooted cs"
  by (simp add: clean_comps_def clean_step_cases)

lemma join_head_not_slash:
  assumes "clean_stack rooted (rev cs)" and "cs \<noteq> []"
  shows "\<not> is_abs (join ''/'' cs)"
proof -
  obtain c cs' where cs: "cs = c # cs'" using assms(2) by (cases cs) auto
  with assms(1) have c: "c \<noteq> ''''" "slash \<notin> set c"
    using clean_stack_comps [of rooted "rev cs" c] by auto
  then obtain x xs where "c = x # xs" "x \<noteq> slash" by (cases c) auto
  then show ?thesis by (cases cs') (auto simp: cs is_abs_def)
qed

lemma split_clean_join:
  assumes "clean_stack rooted (rev cs)" and "cs \<noteq> []"
  shows "split_on slash (join ''/'' cs) = cs"
  using assms clean_stack_comps [of rooted "rev cs"] by (simp add: split_on_join)

lemma clean_rooted_fixed:
  assumes "clean_stack True (rev cs)"
  shows "clean (slash # join ''/'' cs) = slash # join ''/'' cs"
proof -
  have "clean_comps True (split_on slash (slash # join ''/'' cs)) = cs"
  proof (cases "cs = []")
    case True
    then show ?thesis by (simp add: clean_comps_def clean_step_cases)
  next
    case False
    with assms show ?thesis
      by (simp add: split_clean_join clean_comps_skip_empty clean_comps_fixed)
  qed
  then show ?thesis by (simp add: clean_def is_abs_def Let_def)
qed

lemma clean_unrooted_fixed:
  assumes "clean_stack False (rev cs)" and "cs \<noteq> []"
  shows "clean (join ''/'' cs) = join ''/'' cs"
  using assms join_head_not_slash [OF assms]
  by (simp add: clean_def Let_def split_clean_join clean_comps_fixed)

lemma clean_dot [simp]: "clean ''.'' = ''.''"
  by (simp add: clean_def is_abs_def clean_comps_def Let_def clean_step_cases)

lemma clean_idem [simp]: "clean (clean p) = clean p"
proof -
  let ?cs = "clean_comps (is_abs p) (split_on slash p)"
  have st: "clean_stack (is_abs p) (rev ?cs)" by (rule clean_comps_stack)
  show ?thesis
  proof (cases "is_abs p")
    case True
    with st show ?thesis by (simp add: clean_def [of p] Let_def clean_rooted_fixed)
  next
    case False
    with st show ?thesis
      by (cases "?cs = []") (simp_all add: clean_def [of p] Let_def clean_unrooted_fixed)
  qed
qed

lemma is_abs_clean [simp]: "is_abs (clean p) = is_abs p"
proof -
  let ?cs = "clean_comps (is_abs p) (split_on slash p)"
  have st: "clean_stack (is_abs p) (rev ?cs)" by (rule clean_comps_stack)
  show ?thesis
  proof (cases "is_abs p")
    case True
    then show ?thesis by (simp add: clean_def Let_def is_abs_def)
  next
    case False
    then have "is_abs (clean p) = False"
      using join_head_not_slash [OF st]
      by (cases "?cs = []") (simp_all add: clean_def [of p] Let_def, simp add: is_abs_def)
    with False show ?thesis by simp
  qed
qed

section \<open>The ancestor walk returns\<close>

lemma strip_trailing_abs:
  "is_abs p \<Longrightarrow> strip_trailing_slashes p \<noteq> '''' \<Longrightarrow> is_abs (strip_trailing_slashes p)"
proof -
  assume "is_abs p" and ne: "strip_trailing_slashes p \<noteq> ''''"
  have "suffix (dropWhile (\<lambda>c. c \<in> set ''/'') (rev p)) (rev p)" by (rule suffix_dropWhile)
  then have "prefix (strip_trailing_slashes p) p"
    by (simp add: strip_trailing_slashes_def trim_right_def suffix_to_prefix)
  with \<open>is_abs p\<close> ne show ?thesis
    by (cases p; cases "strip_trailing_slashes p") (auto simp: is_abs_def)
qed

lemma length_strip_trailing: "length (strip_trailing_slashes p) \<le> length p"
  using length_dropWhile_le [of "\<lambda>c. c \<in> set ''/''" "rev p"]
  by (simp add: strip_trailing_slashes_def trim_right_def)

lemma last_strip_trailing:
  "strip_trailing_slashes p \<noteq> '''' \<Longrightarrow> last (strip_trailing_slashes p) \<noteq> slash"
  using hd_dropWhile [of "\<lambda>c. c = slash" "rev p"]
  by (simp add: strip_trailing_slashes_def trim_right_def last_rev)

lemma peel_abs:
  assumes "is_abs p" and "peelTrailingComponent p = Some (parent, component)"
  shows "is_abs parent \<and> length parent < length p"
proof -
  let ?core = "strip_trailing_slashes p"
  let ?par = "rev (dropWhile (\<lambda>c. c \<noteq> slash) (rev ?core))"
  from assms(2) have ne: "?core \<noteq> ''''"
    by (auto simp: peelTrailingComponent_def Let_def split: if_splits)
  then have abs: "is_abs ?core" using assms(1) by (rule strip_trailing_abs [rotated])
  then obtain rest where core: "?core = slash # rest"
    by (cases ?core) (auto simp: is_abs_def)
  have mem: "slash \<in> set (rev ?core)" by (simp add: core)
  then have par_ne: "?par \<noteq> ''''" by (simp add: dropWhile_eq_Nil_conv)
  have pre: "prefix ?par ?core"
    using suffix_dropWhile [of "\<lambda>c. c \<noteq> slash" "rev ?core"] by (simp add: suffix_to_prefix)
  have "?par \<noteq> ?core"
  proof
    assume "?par = ?core"
    then have "last ?core = slash"
      using par_ne mem hd_dropWhile [of "\<lambda>c. c \<noteq> slash" "rev ?core"] by (metis last_rev rev_is_Nil_conv)
    then show False using last_strip_trailing [OF ne] by simp
  qed
  with pre have "length ?par < length ?core"
    by (metis prefix_length_less strict_prefixI)
  moreover have "is_abs ?par" using pre par_ne core by (cases ?par) (auto simp: is_abs_def)
  moreover have "parent = ?par"
    using assms(2) ne par_ne by (auto simp: peelTrailingComponent_def Let_def)
  ultimately show ?thesis using length_strip_trailing [of p] by simp
qed

lemma resolve_loop_returns: "is_abs p \<Longrightarrow> \<exists>r. resolve_loop fs missing p = Some r"
proof (induction "length p" arbitrary: p missing rule: less_induct)
  case less
  show ?case
  proof (cases "fs_lstat fs p = NotExist \<and> peelTrailingComponent p \<noteq> None")
    case True
    then obtain parent component where peel: "peelTrailingComponent p = Some (parent, component)"
      by auto
    with less.prems have "is_abs parent" and "length parent < length p"
      by (auto dest: peel_abs)
    then obtain r where "resolve_loop fs (component # missing) parent = Some r"
      using less.hyps by blast
    with True peel show ?thesis by (subst resolve_loop.simps) simp
  next
    case False
    then show ?thesis
      by (subst resolve_loop.simps) (auto split: stat_result.splits option.splits)
  qed
qed

lemma ResolveThroughExistingAncestor_returns:
  "is_abs p \<Longrightarrow> \<exists>r. ResolveThroughExistingAncestor fs p = Some r"
  using resolve_loop_returns [of p fs "[]"]
  by (cases "p = ''''") (simp_all add: ResolveThroughExistingAncestor_def is_abs_def)

end
