(* ===== verification/Operator_Config.thy ===== *)
theory Operator_Config
  imports Policy_Model Go_Path
begin

text \<open>
  The Operator config and its command grants: \<^verbatim>\<open>src/internal/policy/operator.go\<close>,
  \<^verbatim>\<open>src/internal/policy/grants.go\<close> and \<^verbatim>\<open>src/cmd/guardrail/grant_transaction.go\<close>.

  Instants are integers, nanoseconds counted from Go's zero time, so \<^verbatim>\<open>IsZero\<close> is \<open>= 0\<close>.  A nil
  pointer is \<open>None\<close>.  \<^verbatim>\<open>Repos\<close> is an association list in the order Go happens to iterate it.
  \<^verbatim>\<open>EvalSymlinks\<close> comes from the \<open>filesystem\<close> parameter and TOML decoding is an argument of
  \<open>LoadOperatorConfig\<close>.  What is on disk is the configuration itself: the TOML text in between
  is not modelled.

  The lemmas show that a loaded configuration is well formed, that the never-waivable and
  never-grantable rules are beyond any configuration, that matching and spending resolve a
  repository to the same entry, and that spending pays for every allow.
\<close>

type_synonym time = int

abbreviation time_is_zero :: "time \<Rightarrow> bool" where "time_is_zero t \<equiv> t = 0"

abbreviation minutes :: "int \<Rightarrow> int" where "minutes n \<equiv> n * 60000000000"

section \<open>Rules no relaxation may touch\<close>

definition neverWaivable :: "string list" where
  "neverWaivable = [''tokenize-failed'', ''panic-recovered'', ''P3.unresolved'']"

definition outwardReachAsks :: "string list" where
  "outwardReachAsks =
     [''capability-external'', ''capability-web-search'', ''unknown-native-tool'', ''P1.power'']"

definition NeverRelaxable :: "string \<Rightarrow> bool" where
  "NeverRelaxable ruleID \<longleftrightarrow> ruleID \<in> set outwardReachAsks"

definition NeverGrantable :: "string \<Rightarrow> bool" where
  "NeverGrantable ruleID \<longleftrightarrow> NeverRelaxable ruleID \<or> ruleID \<in> set neverWaivable"

section \<open>Command grants\<close>

definition DefaultGrantExpiry :: int where "DefaultGrantExpiry = minutes 30"

definition MaxGrantExpiry :: int where "MaxGrantExpiry = minutes (24 * 60)"

record command_grant =
  cgRuleID :: string
  cgCommand :: string
  cgUses :: int
  cgExpiresAt :: time

definition RemainingUses :: "command_grant \<Rightarrow> int" where
  "RemainingUses g = (if cgUses g < 0 then 0 else cgUses g)"

definition Live :: "command_grant \<Rightarrow> time \<Rightarrow> bool" where
  "Live g now =
     (if NeverGrantable (cgRuleID g) \<or> RemainingUses g = 0 then False
      else time_is_zero (cgExpiresAt g) \<or> now < cgExpiresAt g)"

definition IssuedUses :: "int \<Rightarrow> int" where
  "IssuedUses requested = (if requested < 1 then 1 else requested)"

definition BoundedGrantExpiry :: "time \<Rightarrow> int \<Rightarrow> time" where
  "BoundedGrantExpiry now requested =
     (let r = (if requested \<le> 0 then DefaultGrantExpiry else requested);
          r' = (if r > MaxGrantExpiry then MaxGrantExpiry else r)
      in now + r')"

section \<open>The configuration\<close>

record repo_grant =
  rgWaive :: "string list"
  rgSecretAllow :: bool
  rgAuditLog :: bool
  rgEgressAllowlist :: "string list"
  rgWebHosts :: "string list"
  rgCommands :: "command_grant list"

definition empty_repo_grant :: repo_grant where
  "empty_repo_grant =
     \<lparr>rgWaive = [], rgSecretAllow = False, rgAuditLog = False, rgEgressAllowlist = [],
      rgWebHosts = [], rgCommands = []\<rparr>"

record operator_config =
  GlobalWebHosts :: "string list"
  WebResearchEnforcement :: string
  Approval :: string
  Repos :: "(string \<times> repo_grant) list"

abbreviation ApprovalPrompt :: string where "ApprovalPrompt \<equiv> ''prompt''"
abbreviation ApprovalPasskey :: string where "ApprovalPasskey \<equiv> ''passkey''"

definition ApprovalMode :: "operator_config option \<Rightarrow> string" where
  "ApprovalMode o' =
     (case o' of
        Some op \<Rightarrow> if Approval op = ApprovalPasskey then ApprovalPasskey else ApprovalPrompt
      | None \<Rightarrow> ApprovalPrompt)"

definition operatorTopLevelKeys :: "string list" where
  "operatorTopLevelKeys = [''web_hosts'', ''web_research'', ''approval'']"

definition emptyOperatorConfig :: operator_config where
  "emptyOperatorConfig =
     \<lparr>GlobalWebHosts = [], WebResearchEnforcement = '''', Approval = '''', Repos = []\<rparr>"

text \<open>What the library decoder yields: the three typed top-level settings, and every top-level
  table with its decoding (\<open>None\<close> where it does not decode as a grant).\<close>

record operator_file =
  ofApproval :: "string option"
  ofEnforcement :: string
  ofGlobalHosts :: "string list"
  ofTables :: "(string \<times> repo_grant option) list"

datatype operator_read =
    PathUnresolved
  | FileMissing
  | FileUnreadable
  | FileUndecodable
  | FileDecoded operator_file

definition first_invalid_host :: "string list \<Rightarrow> policy_error option" where
  "first_invalid_host hosts =
     (case filter (\<lambda>h. ValidateWebHost h \<noteq> None) hosts of
        [] \<Rightarrow> None
      | h # _ \<Rightarrow> ValidateWebHost h)"

fun decode_tables :: "(string \<times> repo_grant option) list \<Rightarrow> policy_error + (string \<times> repo_grant) list"
where
  "decode_tables [] = Inr []"
| "decode_tables ((key, g) # rest) =
     (if key \<in> set operatorTopLevelKeys then decode_tables rest
      else (case g of
              None \<Rightarrow> Inl UndecodableConfig
            | Some grant \<Rightarrow>
                (case decode_tables rest of
                   Inl e \<Rightarrow> Inl e
                 | Inr repos \<Rightarrow> Inr ((key, grant) # repos))))"

fun normalize_repos ::
  "(string \<times> string) list \<Rightarrow> (string \<times> repo_grant) list \<Rightarrow> (string \<times> repo_grant) list \<Rightarrow>
   policy_error + (string \<times> repo_grant) list"
where
  "normalize_repos rawPaths normalized [] = Inr normalized"
| "normalize_repos rawPaths normalized ((repo, grant) # rest) =
     (if \<not> is_abs repo then Inl (RepositoryPathNotAbsolute repo)
      else (case first_invalid_host (rgWebHosts grant) of
              Some e \<Rightarrow> Inl e
            | None \<Rightarrow>
                (let cleaned = clean repo
                 in case map_of rawPaths cleaned of
                      Some previous \<Rightarrow> Inl (RepositoryPathCollision previous repo)
                    | None \<Rightarrow>
                        normalize_repos (upd_assoc cleaned repo rawPaths)
                          (upd_assoc cleaned grant normalized) rest)))"

definition LoadOperatorConfig :: "operator_read \<Rightarrow> operator_config \<times> policy_error option" where
  "LoadOperatorConfig r =
     (case r of
        PathUnresolved \<Rightarrow> (emptyOperatorConfig, Some UndecodableConfig)
      | FileMissing \<Rightarrow> (emptyOperatorConfig, None)
      | FileUnreadable \<Rightarrow> (emptyOperatorConfig, Some UndecodableConfig)
      | FileUndecodable \<Rightarrow> (emptyOperatorConfig, Some UndecodableConfig)
      | FileDecoded f \<Rightarrow>
          (let approval = (case ofApproval f of None \<Rightarrow> '''' | Some a \<Rightarrow> a);
               mode = ofEnforcement f
           in if ofApproval f \<noteq> None \<and> approval \<noteq> ApprovalPrompt \<and> approval \<noteq> ApprovalPasskey
              then (emptyOperatorConfig, Some InvalidApproval)
              else if mode \<noteq> '''' \<and> mode \<noteq> ''on'' \<and> mode \<noteq> ''off''
              then (emptyOperatorConfig, Some InvalidWebResearchEnforcement)
              else (case first_invalid_host (ofGlobalHosts f) of
                      Some e \<Rightarrow> (emptyOperatorConfig, Some e)
                    | None \<Rightarrow>
                        (case decode_tables (ofTables f) of
                           Inl e \<Rightarrow> (emptyOperatorConfig, Some e)
                         | Inr repos \<Rightarrow>
                             (case normalize_repos [] [] repos of
                                Inl e \<Rightarrow> (emptyOperatorConfig, Some e)
                              | Inr normalized \<Rightarrow>
                                  (\<lparr>GlobalWebHosts = ofGlobalHosts f,
                                    WebResearchEnforcement = mode,
                                    Approval = approval,
                                    Repos = normalized\<rparr>, None))))))"

section \<open>Looking a repository up\<close>

definition resolvePathForCompare :: "filesystem \<Rightarrow> string \<Rightarrow> string" where
  "resolvePathForCompare fs path =
     (case fs_eval_symlinks fs path of Some resolved \<Rightarrow> resolved | None \<Rightarrow> path)"

definition same_physical :: "filesystem \<Rightarrow> string \<Rightarrow> string \<times> repo_grant \<Rightarrow> bool" where
  "same_physical fs cleaned entry \<longleftrightarrow>
     resolvePathForCompare fs (clean (fst entry)) = resolvePathForCompare fs cleaned"

definition grant :: "filesystem \<Rightarrow> operator_config option \<Rightarrow> string \<Rightarrow> repo_grant option" where
  "grant fs o' repoRoot =
     (case o' of
        None \<Rightarrow> None
      | Some op \<Rightarrow>
          if \<not> is_abs repoRoot then None
          else (let cleaned = clean repoRoot
                in case map_of (Repos op) cleaned of
                     Some g \<Rightarrow> Some g
                   | None \<Rightarrow> map_option snd (find (same_physical fs cleaned) (Repos op))))"

definition GrantKey :: "filesystem \<Rightarrow> operator_config option \<Rightarrow> string \<Rightarrow> string" where
  "GrantKey fs o' repoRoot =
     (let cleaned = clean repoRoot
      in case o' of
           None \<Rightarrow> cleaned
         | Some op \<Rightarrow>
             (case map_of (Repos op) cleaned of
                Some _ \<Rightarrow> cleaned
              | None \<Rightarrow>
                  (case find (same_physical fs cleaned) (Repos op) of
                     Some (root, _) \<Rightarrow> clean root
                   | None \<Rightarrow> cleaned)))"

definition AllowsWaiver :: "filesystem \<Rightarrow> operator_config option \<Rightarrow> string \<Rightarrow> string \<Rightarrow> bool" where
  "AllowsWaiver fs o' repoRoot ruleID =
     (if ruleID \<in> set neverWaivable then False
      else (case grant fs o' repoRoot of None \<Rightarrow> False | Some g \<Rightarrow> ruleID \<in> set (rgWaive g)))"

definition AllowsSecretAllow :: "filesystem \<Rightarrow> operator_config option \<Rightarrow> string \<Rightarrow> bool" where
  "AllowsSecretAllow fs o' repoRoot =
     (case grant fs o' repoRoot of None \<Rightarrow> False | Some g \<Rightarrow> rgSecretAllow g)"

definition AllowsAuditLog :: "filesystem \<Rightarrow> operator_config option \<Rightarrow> string \<Rightarrow> bool" where
  "AllowsAuditLog fs o' repoRoot =
     (case grant fs o' repoRoot of None \<Rightarrow> False | Some g \<Rightarrow> rgAuditLog g)"

definition AllowsEgress :: "filesystem \<Rightarrow> operator_config option \<Rightarrow> string \<Rightarrow> string \<Rightarrow> bool" where
  "AllowsEgress fs o' repoRoot entry =
     (case grant fs o' repoRoot of None \<Rightarrow> False | Some g \<Rightarrow> entry \<in> set (rgEgressAllowlist g))"

definition AllowsGlobalWebHost :: "operator_config option \<Rightarrow> string \<Rightarrow> bool" where
  "AllowsGlobalWebHost o' host =
     (case o' of None \<Rightarrow> False
      | Some op \<Rightarrow> ValidateWebHost host = None \<and> host \<in> set (GlobalWebHosts op))"

definition AllowsWebHost :: "filesystem \<Rightarrow> operator_config option \<Rightarrow> string \<Rightarrow> string \<Rightarrow> bool" where
  "AllowsWebHost fs o' repoRoot host =
     (case grant fs o' repoRoot of None \<Rightarrow> False
      | Some g \<Rightarrow> ValidateWebHost host = None \<and> host \<in> set (rgWebHosts g))"

text \<open>The test one command grant has to pass, shared by matching and spending.\<close>

definition grant_matches :: "string \<Rightarrow> string \<Rightarrow> time \<Rightarrow> command_grant \<Rightarrow> bool" where
  "grant_matches ruleID command now c \<longleftrightarrow>
     cgRuleID c = ruleID \<and> cgCommand c = command \<and> Live c now"

definition AllowsCommand ::
  "filesystem \<Rightarrow> operator_config option \<Rightarrow> string \<Rightarrow> string \<Rightarrow> string \<Rightarrow> time \<Rightarrow> bool" where
  "AllowsCommand fs o' repoRoot ruleID command now =
     (if NeverGrantable ruleID then False
      else (case grant fs o' repoRoot of
              None \<Rightarrow> False
            | Some g \<Rightarrow> list_ex (grant_matches ruleID command now) (rgCommands g)))"

section \<open>Spending a grant\<close>

text \<open>The steps around the mutation that touch the machine: preparing the journal directory,
  taking the operator lock and recovering journals; loading the file; writing it back.\<close>

datatype write_outcome = Written | NotWritten | WrittenButUnsynced

record grant_io =
  gioPrepared :: bool
  gioLoadFails :: bool
  gioWrite :: write_outcome

definition mutateCommandGrants ::
  "filesystem \<Rightarrow> grant_io \<Rightarrow> string \<Rightarrow> (command_grant list \<Rightarrow> command_grant list) \<Rightarrow>
   operator_config \<Rightarrow> bool \<times> operator_config" where
  "mutateCommandGrants fs gio repo mutate disk =
     (if \<not> gioPrepared gio \<or> gioLoadFails gio then (False, disk)
      else (let cleaned = GrantKey fs (Some disk) repo;
                entry = lookup_default empty_repo_grant (Repos disk) cleaned;
                entry' = entry\<lparr>rgCommands := mutate (rgCommands entry)\<rparr>;
                op = disk\<lparr>Repos := upd_assoc cleaned entry' (Repos disk)\<rparr>
            in case gioWrite gio of
                 Written \<Rightarrow> (True, op)
               | NotWritten \<Rightarrow> (False, disk)
               | WrittenButUnsynced \<Rightarrow> (False, op)))"

fun spend_first ::
  "string \<Rightarrow> string \<Rightarrow> time \<Rightarrow> command_grant list \<Rightarrow> bool \<times> command_grant list" where
  "spend_first ruleID command now [] = (False, [])"
| "spend_first ruleID command now (g # gs) =
     (if grant_matches ruleID command now g then (True, g\<lparr>cgUses := RemainingUses g - 1\<rparr> # gs)
      else (case spend_first ruleID command now gs of (spent, gs') \<Rightarrow> (spent, g # gs')))"

text \<open>The result is \<open>(err = nil, spent, disk afterwards)\<close>; \<open>spent\<close> is set by the mutation, which
  runs only when the steps before it succeed.\<close>

definition consumeCommandGrant ::
  "filesystem \<Rightarrow> grant_io \<Rightarrow> string \<Rightarrow> string \<Rightarrow> string \<Rightarrow> time \<Rightarrow> operator_config \<Rightarrow>
   bool \<times> bool \<times> operator_config" where
  "consumeCommandGrant fs gio repo ruleID command now disk =
     (let res = mutateCommandGrants fs gio repo (\<lambda>gs. snd (spend_first ruleID command now gs)) disk;
          ran = gioPrepared gio \<and> \<not> gioLoadFails gio;
          entry = lookup_default empty_repo_grant (Repos disk) (GrantKey fs (Some disk) repo);
          spent = ran \<and> fst (spend_first ruleID command now (rgCommands entry))
      in (fst res, spent, snd res))"

section \<open>Facts: untouchable rules\<close>

lemma AllowsWaiver_never: "r \<in> set neverWaivable \<Longrightarrow> \<not> AllowsWaiver fs o' root r"
  by (simp add: AllowsWaiver_def)

lemma AllowsCommand_never: "NeverGrantable r \<Longrightarrow> \<not> AllowsCommand fs o' root r c now"
  by (simp add: AllowsCommand_def)

lemma NeverRelaxable_NeverGrantable: "NeverRelaxable r \<Longrightarrow> NeverGrantable r"
  by (simp add: NeverGrantable_def)

section \<open>Facts: grants\<close>

lemma IssuedUses_pos: "1 \<le> IssuedUses n"
  by (simp add: IssuedUses_def)

lemma BoundedGrantExpiry_bounds:
  "now < BoundedGrantExpiry now d \<and> BoundedGrantExpiry now d \<le> now + MaxGrantExpiry"
  by (simp add: BoundedGrantExpiry_def Let_def MaxGrantExpiry_def DefaultGrantExpiry_def)

lemma RemainingUses_nonneg [simp]: "0 \<le> RemainingUses g"
  by (simp add: RemainingUses_def)

lemma Live_remaining: "Live g now \<Longrightarrow> 1 \<le> RemainingUses g"
  by (auto simp: Live_def RemainingUses_def split: if_splits)

lemma spend_first_spent_iff:
  "fst (spend_first r c now gs) \<longleftrightarrow> list_ex (grant_matches r c now) gs"
  by (induction gs) (auto split: prod.splits)

text \<open>The uses still recorded for one rule and command.\<close>

definition uses_left :: "string \<Rightarrow> string \<Rightarrow> command_grant list \<Rightarrow> int" where
  "uses_left r c gs = sum_list (map RemainingUses (filter (\<lambda>g. cgRuleID g = r \<and> cgCommand g = c) gs))"

lemma uses_left_Nil [simp]: "uses_left r c [] = 0"
  by (simp add: uses_left_def)

lemma uses_left_Cons [simp]:
  "uses_left r c (g # gs) =
     (if cgRuleID g = r \<and> cgCommand g = c then RemainingUses g else 0) + uses_left r c gs"
  by (simp add: uses_left_def)

lemma uses_left_nonneg: "0 \<le> uses_left r c gs"
  by (induction gs) auto

lemma spend_first_pays:
  "uses_left r c (snd (spend_first r c now gs)) =
     uses_left r c gs - (if fst (spend_first r c now gs) then 1 else 0)"
proof (induction gs)
  case (Cons g gs)
  have "grant_matches r c now g \<Longrightarrow>
        RemainingUses (g\<lparr>cgUses := RemainingUses g - 1\<rparr>) = RemainingUses g - 1"
    using Live_remaining [of g now] by (auto simp: grant_matches_def RemainingUses_def)
  with Cons show ?case by (auto simp: grant_matches_def split: prod.splits)
qed simp

lemma spend_first_other:
  "(r', c') \<noteq> (r, c) \<Longrightarrow> uses_left r' c' (snd (spend_first r c now gs)) = uses_left r' c' gs"
  by (induction gs) (auto simp: grant_matches_def split: prod.splits)

section \<open>Facts: a loaded configuration\<close>

text \<open>Every key is absolute and clean, every key occurs once, every host is valid.\<close>

definition good_repo :: "string \<times> repo_grant \<Rightarrow> bool" where
  "good_repo e \<longleftrightarrow>
     is_abs (fst e) \<and> clean (fst e) = fst e \<and> first_invalid_host (rgWebHosts (snd e)) = None"

definition wf_operator_config :: "operator_config \<Rightarrow> bool" where
  "wf_operator_config op \<longleftrightarrow>
     distinct (map fst (Repos op)) \<and>
     list_all good_repo (Repos op) \<and>
     first_invalid_host (GlobalWebHosts op) = None \<and>
     Approval op \<in> {'''', ApprovalPrompt, ApprovalPasskey} \<and>
     WebResearchEnforcement op \<in> {'''', ''on'', ''off''}"

lemma first_invalid_host_None:
  "first_invalid_host hosts = None \<longleftrightarrow> (\<forall>h\<in>set hosts. ValidateWebHost h = None)"
proof -
  have "first_invalid_host hosts = None \<longleftrightarrow> filter (\<lambda>h. ValidateWebHost h \<noteq> None) hosts = []"
  proof (cases "filter (\<lambda>h. ValidateWebHost h \<noteq> None) hosts")
    case Nil
    then show ?thesis by (simp add: first_invalid_host_def)
  next
    case (Cons h hs)
    then have "ValidateWebHost h \<noteq> None"
      by (metis (mono_tags, lifting) filter_eq_ConsD)
    with Cons show ?thesis by (simp add: first_invalid_host_def)
  qed
  then show ?thesis by (auto simp: filter_empty_conv)
qed

lemma set_upd_assoc_subset: "set (upd_assoc k v m) \<subseteq> insert (k, v) (set m)"
  by (induction k v m rule: upd_assoc.induct) auto

lemma normalize_repos_wf:
  "normalize_repos raw norm repos = Inr out \<Longrightarrow> distinct (map fst norm) \<Longrightarrow>
   list_all good_repo norm \<Longrightarrow> distinct (map fst out) \<and> list_all good_repo out"
proof (induction raw norm repos rule: normalize_repos.induct)
  case (2 raw norm repo g rest)
  let ?n = "upd_assoc (clean repo) g norm"
  from "2.prems"(1) have abs: "is_abs repo" and hosts: "first_invalid_host (rgWebHosts g) = None"
    and fresh: "map_of raw (clean repo) = None"
    and rest: "normalize_repos (upd_assoc (clean repo) repo raw) ?n rest = Inr out"
    by (auto simp: Let_def split: if_splits option.splits)
  have new: "good_repo (clean repo, g)" using abs hosts by (simp add: good_repo_def)
  have "list_all good_repo ?n"
    using set_upd_assoc_subset [of "clean repo" g norm] "2.prems"(3) new
    by (auto simp: list_all_iff)
  moreover have "distinct (map fst ?n)" using "2.prems"(2) by (rule distinct_upd_assoc)
  ultimately show ?case
    using "2.IH" [of "clean repo"] abs hosts fresh rest by simp
qed simp

lemma LoadOperatorConfig_wf: "wf_operator_config (fst (LoadOperatorConfig r))"
proof (cases "snd (LoadOperatorConfig r) = None \<and> (\<exists>f. r = FileDecoded f)")
  case False
  then have "fst (LoadOperatorConfig r) = emptyOperatorConfig"
    by (cases r) (auto simp: LoadOperatorConfig_def Let_def split: option.splits sum.splits)
  then show ?thesis by (simp add: wf_operator_config_def emptyOperatorConfig_def first_invalid_host_def)
next
  case True
  then obtain f where r: "r = FileDecoded f" and ok: "snd (LoadOperatorConfig r) = None" by auto
  obtain repos norm where t: "decode_tables (ofTables f) = Inr repos"
    and n: "normalize_repos [] [] repos = Inr norm"
    and g: "first_invalid_host (ofGlobalHosts f) = None"
    using r ok
    by (auto simp: LoadOperatorConfig_def Let_def split: option.splits sum.splits if_splits)
  have "distinct (map fst norm) \<and> list_all good_repo norm"
    using normalize_repos_wf [OF n] by simp
  with g r ok t n show ?thesis
    by (auto simp: LoadOperatorConfig_def wf_operator_config_def Let_def
        split: option.splits if_splits)
qed

section \<open>Facts: matching and spending agree\<close>

lemma find_in_set: "find P xs = Some x \<Longrightarrow> x \<in> set xs \<and> P x"
  by (induction xs) (auto split: if_splits)

lemma grant_at_GrantKey:
  assumes "wf_operator_config op" and "grant fs (Some op) root = Some g"
  shows "map_of (Repos op) (GrantKey fs (Some op) root) = Some g"
proof (cases "map_of (Repos op) (clean root)")
  case (Some h)
  with assms show ?thesis by (auto simp: grant_def GrantKey_def Let_def split: if_splits)
next
  case None
  with assms obtain k where f: "find (same_physical fs (clean root)) (Repos op) = Some (k, g)"
    by (auto simp: grant_def Let_def split: if_splits)
  then have mem: "(k, g) \<in> set (Repos op)" by (blast dest: find_in_set)
  from assms(1) have wf: "list_all good_repo (Repos op)" "distinct (map fst (Repos op))"
    by (simp_all add: wf_operator_config_def)
  from wf(1) mem have "good_repo (k, g)" unfolding list_all_iff by blast
  then have "clean k = k" by (simp add: good_repo_def)
  with None f mem wf(2) show ?thesis by (simp add: GrantKey_def Let_def)
qed

lemma consume_spends_match:
  assumes "wf_operator_config op" and "AllowsCommand fs (Some op) root r c now"
    and "gioPrepared gio" and "\<not> gioLoadFails gio"
  shows "fst (snd (consumeCommandGrant fs gio root r c now op))"
proof -
  from assms(2) obtain g where g: "grant fs (Some op) root = Some g"
    and m: "list_ex (grant_matches r c now) (rgCommands g)"
    by (auto simp: AllowsCommand_def split: if_splits option.splits)
  from grant_at_GrantKey [OF assms(1) g] have
    "lookup_default empty_repo_grant (Repos op) (GrantKey fs (Some op) root) = g"
    by (simp add: lookup_default_def)
  with m assms(3,4) show ?thesis
    by (simp add: consumeCommandGrant_def Let_def spend_first_spent_iff)
qed

end
