(* ===== verification/Session_Store.thy ===== *)
theory Session_Store
  imports Operator_Config
begin

text \<open>
  Per-session state and its transactions: \<^verbatim>\<open>src/internal/session/session.go\<close> and
  \<^verbatim>\<open>transaction_gate.go\<close>.

  The disk is a record of two directories, each a map from file names to files; a file is the state
  it decodes to, or bad (unreadable, a link, or not JSON).  Writing a state and reading it back gives
  the state, so the JSON text is not modelled; the SHA-256 digest in a file name is an argument.  A
  \<open>txn_io\<close> says how the operating-system steps around one transaction went.  The store-wide lock
  makes transactions sequential, so one transaction is one function on the disk.

  The locale \<open>transactional\<close> is what the rest of the program relies on: a transaction that does not
  commit leaves the state as it was, one that commits stores exactly what the callback computed.
\<close>

section \<open>State\<close>

record pending_approval =
  paOriginRuleID :: string
  paExpiresAt :: time

record approval_request =
  arID :: string
  arPlane :: string
  arSessionDigest :: string
  arRepoRoot :: string
  arHost :: string
  arScope :: string
  arReasonDigest :: string
  arAction :: string
  arParameters :: "(string \<times> string) list"
  arIssuedAt :: time
  arExpiresAt :: time
  arStatus :: string

record session_state =
  SawPrivateRead :: bool
  SawNetworkCall :: bool
  PendingApprovals :: "(string \<times> pending_approval) list"
  NightModeAnnouncements :: "(string \<times> string) list"
  ApprovalRequests :: "(string \<times> approval_request) list"
  UpdatedAt :: string

definition zero_state :: session_state where
  "zero_state =
     \<lparr>SawPrivateRead = False, SawNetworkCall = False, PendingApprovals = [],
      NightModeAnnouncements = [], ApprovalRequests = [], UpdatedAt = ''''\<rparr>"

section \<open>The disk\<close>

datatype session_file = StateFile session_state | BadFile

record session_disk =
  sdV2 :: "string \<Rightarrow> session_file option"
  sdLegacy :: "string \<Rightarrow> session_file option"

text \<open>\<^verbatim>\<open>Path\<close> inside the session directory: \<open>None\<close> for an empty session id.\<close>

definition Path :: "(string \<Rightarrow> string) \<Rightarrow> string \<Rightarrow> string option" where
  "Path digest sessionID =
     (if sessionID = '''' then None else Some (digest sessionID @ ''.json''))"

definition legacyFilename :: "string \<Rightarrow> string option" where
  "legacyFilename sessionID =
     (if sessionID = '''' \<or> sessionID = ''.'' \<or> sessionID = ''..'' then None
      else if contains_any sessionID [slash, backslash] \<or> contains sessionID ''..'' then None
      else Some (sessionID @ ''.json''))"

definition readLegacyState :: "session_disk \<Rightarrow> string \<Rightarrow> session_file option" where
  "readLegacyState d sessionID =
     (case legacyFilename sessionID of None \<Rightarrow> None | Some name \<Rightarrow> sdLegacy d name)"

definition read_state :: "session_disk \<Rightarrow> string \<Rightarrow> string \<Rightarrow> session_file option" where
  "read_state d path sessionID =
     (case sdV2 d path of Some f \<Rightarrow> Some f | None \<Rightarrow> readLegacyState d sessionID)"

section \<open>Transactions\<close>

datatype 'e txn_error =
    EmptySessionID
  | StoreUnavailable
  | LockUnavailable
  | StateUnreadable
  | CallbackFailed 'e
  | PersistFailed
  | ReleaseFailed "'e txn_error option"
  | TransactionCommitted

record txn_io =
  tioDirectories :: bool
  tioLocked :: bool
  tioWritten :: bool
  tioUnlocked :: bool
  tioStaleV2 :: "string list"
  tioStaleLegacy :: "string list"
  tioNow :: string

definition release_error :: "txn_io \<Rightarrow> 'e txn_error \<Rightarrow> 'e txn_error" where
  "release_error tio e = (if tioUnlocked tio then e else ReleaseFailed (Some e))"

text \<open>The sweep of files older than a day.  The file just renamed into place has a fresh
  modification time, so the sweep keeps it; the legacy file the state came from is preserved by
  name.\<close>

definition prune :: "txn_io \<Rightarrow> string \<Rightarrow> string \<Rightarrow> session_disk \<Rightarrow> session_disk" where
  "prune tio path legacyPath d =
     d\<lparr>sdV2 := (\<lambda>p. if p \<in> set (tioStaleV2 tio) \<and> p \<noteq> path then None else sdV2 d p),
       sdLegacy := (\<lambda>p. if p \<in> set (tioStaleLegacy tio) \<and> p \<noteq> legacyPath then None
                        else sdLegacy d p)\<rparr>"

definition Transaction ::
  "(string \<Rightarrow> string) \<Rightarrow> txn_io \<Rightarrow> string \<Rightarrow> (session_state \<Rightarrow> 'e option \<times> session_state) \<Rightarrow>
   session_disk \<Rightarrow> 'e txn_error option \<times> session_disk" where
  "Transaction digest tio sessionID update d =
     (case Path digest sessionID of
        None \<Rightarrow> (Some EmptySessionID, d)
      | Some path \<Rightarrow>
          if \<not> tioDirectories tio then (Some StoreUnavailable, d)
          else if \<not> tioLocked tio then (Some LockUnavailable, d)
          else (let file = read_state d path sessionID;
                    legacyPath = (if sdV2 d path = None \<and> file \<noteq> None
                                  then sessionID @ ''.json'' else '''')
                in case file of
                     Some BadFile \<Rightarrow> (Some (release_error tio StateUnreadable), d)
                   | _ \<Rightarrow>
                       (let state = (case file of Some (StateFile s) \<Rightarrow> s | _ \<Rightarrow> zero_state)
                        in case update state of
                             (Some e, _) \<Rightarrow> (Some (release_error tio (CallbackFailed e)), d)
                           | (None, state') \<Rightarrow>
                               if \<not> tioWritten tio
                               then (Some (release_error tio PersistFailed), d)
                               else (if tioUnlocked tio then None else Some TransactionCommitted,
                                     prune tio path legacyPath
                                       (d\<lparr>sdV2 := (sdV2 d)(path \<mapsto>
                                            StateFile (state'\<lparr>UpdatedAt := tioNow tio\<rparr>))\<rparr>)))))"

text \<open>An error that matches \<^verbatim>\<open>ErrTransactionCommitted\<close> reports a commit.\<close>

definition committed :: "'e txn_error option \<Rightarrow> bool" where
  "committed e \<longleftrightarrow> e = None \<or> e = Some TransactionCommitted"

section \<open>The in-process gate\<close>

text \<open>One gate per lock path: whether its token is free, and the callers using it.  Acquiring
  registers the caller; it is admitted when the token is free.  A caller that times out or finishes
  is unregistered, and the last one removes the gate.\<close>

record transaction_gate =
  tgToken :: bool
  tgUsers :: int

type_synonym gates = "string \<Rightarrow> transaction_gate option"

definition gate_register :: "string \<Rightarrow> gates \<Rightarrow> gates" where
  "gate_register path gs =
     (case gs path of
        None \<Rightarrow> gs(path \<mapsto> \<lparr>tgToken = True, tgUsers = 1\<rparr>)
      | Some g \<Rightarrow> gs(path \<mapsto> g\<lparr>tgUsers := tgUsers g + 1\<rparr>))"

definition gate_admit :: "string \<Rightarrow> gates \<Rightarrow> gates option" where
  "gate_admit path gs =
     (case gs path of
        Some g \<Rightarrow> if tgToken g then Some (gs(path \<mapsto> g\<lparr>tgToken := False\<rparr>)) else None
      | None \<Rightarrow> None)"

definition releaseLocalTransactionGate :: "string \<Rightarrow> gates \<Rightarrow> gates" where
  "releaseLocalTransactionGate path gs =
     (case gs path of
        None \<Rightarrow> gs
      | Some g \<Rightarrow>
          (let g' = g\<lparr>tgUsers := tgUsers g - 1\<rparr>
           in if tgUsers g' = 0 then gs(path := None) else gs(path \<mapsto> g')))"

definition gate_finish :: "string \<Rightarrow> gates \<Rightarrow> gates" where
  "gate_finish path gs =
     (case gs path of
        None \<Rightarrow> gs
      | Some g \<Rightarrow> releaseLocalTransactionGate path (gs(path \<mapsto> g\<lparr>tgToken := True\<rparr>)))"

text \<open>The interleavings of callers: each step is one atomic section of the source.  The state is the
  gate table with the number of waiting and of admitted callers.\<close>

record gate_world =
  gwGates :: gates
  gwWaiting :: nat
  gwInside :: nat

inductive gate_step :: "string \<Rightarrow> gate_world \<Rightarrow> gate_world \<Rightarrow> bool" for path where
  arrive: "gate_step path w
     (w\<lparr>gwGates := gate_register path (gwGates w), gwWaiting := Suc (gwWaiting w)\<rparr>)"
| admit: "gwWaiting w = Suc n \<Longrightarrow> gate_admit path (gwGates w) = Some gs \<Longrightarrow>
    gate_step path w (w\<lparr>gwGates := gs, gwWaiting := n, gwInside := Suc (gwInside w)\<rparr>)"
| timeout: "gwWaiting w = Suc n \<Longrightarrow>
    gate_step path w (w\<lparr>gwGates := releaseLocalTransactionGate path (gwGates w), gwWaiting := n\<rparr>)"
| finish: "gwInside w = Suc n \<Longrightarrow>
    gate_step path w (w\<lparr>gwGates := gate_finish path (gwGates w), gwInside := n\<rparr>)"

inductive_cases gate_stepE: "gate_step path w w'"

definition gate_start :: gate_world where
  "gate_start = \<lparr>gwGates = (\<lambda>_. None), gwWaiting = 0, gwInside = 0\<rparr>"

section \<open>The contract of a transaction\<close>

locale transactional =
  fixes transact :: "('s \<Rightarrow> 'e option \<times> 's) \<Rightarrow> 'd \<Rightarrow> bool \<times> 'd"
    and view :: "'d \<Rightarrow> 's"
    and stamp :: "'s \<Rightarrow> 's"
  assumes rollback: "\<not> fst (transact f d) \<Longrightarrow> snd (transact f d) = d"
    and commit: "fst (transact f d) \<Longrightarrow>
      fst (f (view d)) = None \<and> view (snd (transact f d)) = stamp (snd (f (view d)))"
begin

lemma failed_callback: "fst (f (view d)) \<noteq> None \<Longrightarrow> snd (transact f d) = d"
  using rollback commit by metis

lemma preserves:
  assumes "\<And>s. I s \<Longrightarrow> fst (f s) = None \<Longrightarrow> I (stamp (snd (f s)))" and "I (view d)"
  shows "I (view (snd (transact f d)))"
  using assms rollback commit by metis

end

definition session_view :: "(string \<Rightarrow> string) \<Rightarrow> string \<Rightarrow> session_disk \<Rightarrow> session_state" where
  "session_view digest sessionID d =
     (case read_state d (digest sessionID @ ''.json'') sessionID of
        Some (StateFile s) \<Rightarrow> s | _ \<Rightarrow> zero_state)"

definition session_transact ::
  "(string \<Rightarrow> string) \<Rightarrow> txn_io \<Rightarrow> string \<Rightarrow> (session_state \<Rightarrow> 'e option \<times> session_state) \<Rightarrow>
   session_disk \<Rightarrow> bool \<times> session_disk" where
  "session_transact digest tio sessionID update d =
     (case Transaction digest tio sessionID update d of (e, d') \<Rightarrow> (committed e, d'))"

lemma prune_own: "sdV2 (prune tio path l d) path = sdV2 d path"
  by (simp add: prune_def)

lemma release_error_not_committed:
  "e \<noteq> TransactionCommitted \<Longrightarrow> \<not> committed (Some (release_error tio e))"
  by (auto simp: release_error_def committed_def)

text \<open>A transaction that reached its callback, in one equation.\<close>

lemma Transaction_callback:
  assumes "sessionID \<noteq> ''''" and "tioDirectories tio" and "tioLocked tio"
    and "read_state d (digest sessionID @ ''.json'') sessionID \<noteq> Some BadFile"
  shows "\<exists>l. Transaction digest tio sessionID f d =
     (case f (session_view digest sessionID d) of
        (Some e, _) \<Rightarrow> (Some (release_error tio (CallbackFailed e)), d)
      | (None, state') \<Rightarrow>
          if \<not> tioWritten tio then (Some (release_error tio PersistFailed), d)
          else (if tioUnlocked tio then None else Some TransactionCommitted,
                prune tio (digest sessionID @ ''.json'') l
                  (d\<lparr>sdV2 := (sdV2 d)(digest sessionID @ ''.json'' \<mapsto>
                       StateFile (state'\<lparr>UpdatedAt := tioNow tio\<rparr>))\<rparr>)))"
proof (cases "read_state d (digest sessionID @ ''.json'') sessionID")
  case None
  with assms show ?thesis by (auto simp: Transaction_def Path_def session_view_def Let_def)
next
  case (Some sf)
  with assms obtain st where "sf = StateFile st" by (cases sf) auto
  with Some assms show ?thesis by (auto simp: Transaction_def Path_def session_view_def Let_def)
qed

lemma Transaction_not_run:
  assumes "sessionID = '''' \<or> \<not> tioDirectories tio \<or> \<not> tioLocked tio \<or>
    read_state d (digest sessionID @ ''.json'') sessionID = Some BadFile"
  shows "\<exists>e. Transaction digest tio sessionID f d = (Some e, d) \<and> e \<noteq> TransactionCommitted"
  using assms by (auto simp: Transaction_def Path_def Let_def release_error_def)

lemma session_transact_cases:
  "(snd (session_transact digest tio sessionID f d) = d \<and>
    \<not> fst (session_transact digest tio sessionID f d)) \<or>
   (fst (session_transact digest tio sessionID f d) \<and>
    fst (f (session_view digest sessionID d)) = None \<and>
    sdV2 (snd (session_transact digest tio sessionID f d)) (digest sessionID @ ''.json'') =
      Some (StateFile ((snd (f (session_view digest sessionID d)))\<lparr>UpdatedAt := tioNow tio\<rparr>)))"
proof (cases "sessionID = '''' \<or> \<not> tioDirectories tio \<or> \<not> tioLocked tio \<or>
    read_state d (digest sessionID @ ''.json'') sessionID = Some BadFile")
  case True
  then obtain e where "Transaction digest tio sessionID f d = (Some e, d)" "e \<noteq> TransactionCommitted"
    using Transaction_not_run by blast
  then show ?thesis by (simp add: session_transact_def committed_def)
next
  case False
  then obtain l where run: "Transaction digest tio sessionID f d =
     (case f (session_view digest sessionID d) of
        (Some e, _) \<Rightarrow> (Some (release_error tio (CallbackFailed e)), d)
      | (None, state') \<Rightarrow>
          if \<not> tioWritten tio then (Some (release_error tio PersistFailed), d)
          else (if tioUnlocked tio then None else Some TransactionCommitted,
                prune tio (digest sessionID @ ''.json'') l
                  (d\<lparr>sdV2 := (sdV2 d)(digest sessionID @ ''.json'' \<mapsto>
                       StateFile (state'\<lparr>UpdatedAt := tioNow tio\<rparr>))\<rparr>)))"
    using Transaction_callback [of sessionID tio d digest f] by blast
  obtain e st where "f (session_view digest sessionID d) = (e, st)" by fastforce
  with run show ?thesis
    by (cases e) (auto simp: session_transact_def prune_own release_error_not_committed
        committed_def release_error_def)
qed

interpretation session: transactional "session_transact digest tio sessionID"
  "session_view digest sessionID" "\<lambda>s. s\<lparr>UpdatedAt := tioNow tio\<rparr>" for digest tio sessionID
proof
  fix f :: "session_state \<Rightarrow> 'e option \<times> session_state" and d
  show "snd (session_transact digest tio sessionID f d) = d"
    if "\<not> fst (session_transact digest tio sessionID f d)"
    using that session_transact_cases [of digest tio sessionID f d] by blast
  show "fst (f (session_view digest sessionID d)) = None \<and>
      session_view digest sessionID (snd (session_transact digest tio sessionID f d)) =
        (snd (f (session_view digest sessionID d)))\<lparr>UpdatedAt := tioNow tio\<rparr>"
    if "fst (session_transact digest tio sessionID f d)"
    using that session_transact_cases [of digest tio sessionID f d]
    by (simp add: session_view_def [of digest sessionID "snd (session_transact digest tio sessionID f d)"]
        read_state_def)
qed

text \<open>C23: A session transaction is atomic: when its callback reports an error nothing on disk changes,
  and when it commits the session's stored state is exactly what the callback computed from the
  state before, with a fresh time stamp.\<close>

theorem Transaction_atomic:
  assumes "Transaction digest tio sessionID update d = (e, d')"
  shows "(\<not> committed e \<longrightarrow> d' = d) \<and>
         (fst (update (session_view digest sessionID d)) \<noteq> None \<longrightarrow> d' = d \<and> \<not> committed e) \<and>
         (committed e \<longrightarrow> session_view digest sessionID d' =
            (snd (update (session_view digest sessionID d)))\<lparr>UpdatedAt := tioNow tio\<rparr>)"
proof -
  have run: "session_transact digest tio sessionID update d = (committed e, d')"
    using assms by (simp add: session_transact_def)
  show ?thesis
    using session.rollback [of digest tio sessionID update d]
      session.commit [of digest tio sessionID update d]
    by (cases "committed e") (auto simp: run)
qed

theorem Transaction_atomic_witness:
  "session_view id ''s1'' (snd (Transaction id
     \<lparr>tioDirectories = True, tioLocked = True, tioWritten = True, tioUnlocked = True,
      tioStaleV2 = [], tioStaleLegacy = [], tioNow = ''now''\<rparr> ''s1''
     (\<lambda>s. (None :: unit option, s\<lparr>SawPrivateRead := True\<rparr>))
     \<lparr>sdV2 = (\<lambda>_. None), sdLegacy = (\<lambda>_. None)\<rparr>)) =
   zero_state\<lparr>SawPrivateRead := True, UpdatedAt := ''now''\<rparr>"
proof -
  let ?tio = "\<lparr>tioDirectories = True, tioLocked = True, tioWritten = True, tioUnlocked = True,
      tioStaleV2 = [], tioStaleLegacy = [], tioNow = ''now''\<rparr>"
  let ?d = "\<lparr>sdV2 = (\<lambda>_. None), sdLegacy = (\<lambda>_. None)\<rparr>"
  let ?f = "\<lambda>s. (None :: unit option, s\<lparr>SawPrivateRead := True\<rparr>)"
  have v: "session_view id ''s1'' ?d = zero_state"
    by (simp add: session_view_def read_state_def readLegacyState_def split: option.splits)
  have "fst (Transaction id ?tio ''s1'' ?f ?d) = None"
    by (simp add: Transaction_def Path_def read_state_def readLegacyState_def Let_def
        split: option.splits)
  then show ?thesis
    using Transaction_atomic [of id ?tio "''s1''" ?f ?d "fst (Transaction id ?tio ''s1'' ?f ?d)"
        "snd (Transaction id ?tio ''s1'' ?f ?d)"] v
    by (simp add: committed_def prod_eq_iff)
qed

section \<open>The gate admits one caller at a time\<close>

definition gate_inv :: "string \<Rightarrow> gate_world \<Rightarrow> bool" where
  "gate_inv path w \<longleftrightarrow>
     (case gwGates w path of
        None \<Rightarrow> gwWaiting w = 0 \<and> gwInside w = 0
      | Some g \<Rightarrow>
          tgUsers g = int (gwWaiting w + gwInside w) \<and> 0 < gwWaiting w + gwInside w \<and>
          gwInside w = (if tgToken g then 0 else 1))"

lemma gate_step_inv: "gate_step path w w' \<Longrightarrow> gate_inv path w \<Longrightarrow> gate_inv path w'"
proof (induction rule: gate_step.induct)
  case (arrive w)
  then show ?case by (auto simp: gate_inv_def gate_register_def split: option.splits)
next
  case (admit w n gs)
  then show ?case by (auto simp: gate_inv_def gate_admit_def split: option.splits if_splits)
next
  case (timeout w n)
  then show ?case
    by (auto simp: gate_inv_def releaseLocalTransactionGate_def Let_def split: option.splits if_splits)
next
  case (finish w n)
  then show ?case
    by (auto simp: gate_inv_def gate_finish_def releaseLocalTransactionGate_def Let_def
        split: option.splits if_splits)
qed



end
