(* ===== verification/Tool_Call.thy ===== *)
theory Tool_Call
  imports Policy_Model Go_Path
begin

text \<open>
  The engine's input and the argument-vector helpers its rules share:
  \<^verbatim>\<open>src/internal/engine/toolcall.go\<close>, the \<^verbatim>\<open>Simple\<close> of \<^verbatim>\<open>tokenize.go\<close> (one simple command as the
  shell parser extracted it) and the helpers of \<^verbatim>\<open>rules_bash.go\<close>, \<^verbatim>\<open>rules_path.go\<close>,
  \<^verbatim>\<open>rules_credentialed.go\<close> and \<^verbatim>\<open>rules_credential_print.go\<close> that read an argument vector.

  A \<^verbatim>\<open>map[int]bool\<close> of argument positions is the list of positions it maps to true.  The fields of
  \<^verbatim>\<open>Simple\<close> that point into the parser's syntax tree are left out: \<^verbatim>\<open>origin\<close> wholly, \<^verbatim>\<open>shellState\<close> but for
  its \<^verbatim>\<open>fsUncertain\<close> (the field \<open>stateFsUncertain\<close>).  Whether a single word is literal is decided by the third-party shell parser, so
  \<open>wordUnresolved\<close> takes that decision as an argument.  The host is POSIX.

  The lemmas say how a command name is recognised whatever its directory and \<^verbatim>\<open>.exe\<close> spelling, and
  the locale \<open>argv_rule\<close> is the contract of every command rule: it fires only on the command names
  it declares, and only with ask or deny under the rule ids it declares.
\<close>

section \<open>Tool calls\<close>

record degraded_allow_report =
  darTool :: string
  darCallID :: string
  darTS :: string

record tool_call =
  tcPlane :: string
  tcEvent :: string
  tcTool :: string
  tcNativeTool :: string
  tcContractTool :: string
  tcCapability :: capability
  tcNativeWebResearch :: bool
  tcURL :: string
  tcInputShape :: string
  tcCommand :: string
  tcShell :: string
  tcPaths :: "string list"
  tcArguments :: string
  tcSessionID :: string
  tcCallID :: string
  tcHostApproved :: bool
  tcCWD :: string
  tcRepoRoot :: string
  tcPermittedRoots :: "string list"
  tcDegradedAllows :: "degraded_allow_report list"

abbreviation ShellPowerShell :: string where "ShellPowerShell \<equiv> ''powershell''"

definition PowerShellCommand :: "tool_call \<Rightarrow> bool" where
  "PowerShellCommand tc \<longleftrightarrow>
     tcShell tc = ShellPowerShell \<or> (tcPlane tc = ''claude'' \<and> tcNativeTool tc = ''PowerShell'')"

definition IsBash :: "tool_call \<Rightarrow> bool" where
  "IsBash tc \<longleftrightarrow> equal_fold (tcTool tc) ''bash'' \<or> tcCommand tc \<noteq> ''''"

section \<open>Simple commands\<close>

type_synonym argv = "string list"

record pipeline_position =
  ppId :: int
  ppStage :: int

datatype stdout_fate = StdoutRoot | StdoutContained | StdoutExposed

record simple =
  Argv :: argv
  Redirects :: "string list"
  ReadRedirects :: "string list"
  Cwd :: string
  Unresolved :: bool
  findCallback :: bool
  literalArgs :: "nat list"
  literalOut :: "nat list"
  literalIn :: "nat list"
  resolvedArgs :: "nat list"
  resolvedOut :: "nat list"
  resolvedIn :: "nat list"
  gitEnvironment :: "(string \<times> string) list"
  goEnvironment :: "(string \<times> string) list"
  goBin :: string
  gitEnvironmentUnknown :: bool
  gitInitExpected :: bool
  fsUncertain :: bool
  stateFsUncertain :: bool
  pipelines :: "pipeline_position list"
  cwdUnknown :: bool
  cwdOnlyUnresolved :: bool
  plainCall :: bool
  globTailResolved :: "(nat \<times> string) list"
  stdoutFate :: stdout_fate

text \<open>A plain command with nothing known about it but its words.\<close>

definition simple_of :: "argv \<Rightarrow> simple" where
  "simple_of argv =
     \<lparr>Argv = argv, Redirects = [], ReadRedirects = [], Cwd = '''', Unresolved = False,
      findCallback = False, literalArgs = [], literalOut = [], literalIn = [], resolvedArgs = [],
      resolvedOut = [], resolvedIn = [], gitEnvironment = [], goEnvironment = [], goBin = '''',
      gitEnvironmentUnknown = False, gitInitExpected = False, fsUncertain = False, stateFsUncertain = False, pipelines = [],
      cwdUnknown = False, cwdOnlyUnresolved = False, plainCall = True, globTailResolved = [],
      stdoutFate = StdoutRoot\<rparr>"

lemma Argv_simple_of [simp]: "Argv (simple_of a) = a"
  by (simp add: simple_of_def)

definition wordUnresolved :: "(string \<Rightarrow> string option) \<Rightarrow> simple \<Rightarrow> nat \<Rightarrow> bool" where
  "wordUnresolved literalText s index =
     (if index \<ge> length (Argv s) \<or> index \<in> set (literalArgs s) \<or> index \<in> set (resolvedArgs s)
      then False
      else literalText (Argv s ! index) = None)"

definition anyWordUnresolved :: "(string \<Rightarrow> string option) \<Rightarrow> simple \<Rightarrow> bool" where
  "anyWordUnresolved literalText s =
     list_ex (wordUnresolved literalText s) [0..<length (Argv s)]"

definition simpleCwd :: "simple \<Rightarrow> tool_call \<Rightarrow> string" where
  "simpleCwd s tc =
     (if cwdUnknown s then '''' else if Cwd s \<noteq> '''' then Cwd s else tcCWD tc)"

section \<open>Command names\<close>

definition isASCIILetterByte :: "char \<Rightarrow> bool" where
  "isASCIILetterByte b \<longleftrightarrow> is_lower b \<or> is_upper b"

definition win32ResolvedPath :: "string \<Rightarrow> bool" where
  "win32ResolvedPath p \<longleftrightarrow>
     (length p \<ge> 2 \<and> p ! 1 = CHR '':'' \<and> isASCIILetterByte (p ! 0)) \<or> contains p [backslash]"

definition to_slash :: "string \<Rightarrow> string" where
  "to_slash p = map (\<lambda>c. if c = backslash then slash else c) p"

fun head :: "argv \<Rightarrow> string" where
  "head [] = ''''"
| "head (a # argv) =
     (let name = to_lower (path_base (to_slash a));
          name' = (if win32ResolvedPath a then trim_right name ''. '' else name)
      in trim_suffix name' ''.exe'')"

section \<open>Flags and operands\<close>

text \<open>Go slices \<^verbatim>\<open>argv[1:]\<close>; the callers have checked that there is a command word, so \<open>tl\<close> agrees.\<close>

definition long_flag_matches :: "string list \<Rightarrow> string \<Rightarrow> bool" where
  "long_flag_matches long a = list_ex (\<lambda>l. a = l \<or> has_prefix a (l @ ''='')) long"

definition hasAnyFlag :: "argv \<Rightarrow> string \<Rightarrow> string list \<Rightarrow> bool" where
  "hasAnyFlag argv short long =
     list_ex (\<lambda>a.
        if has_prefix a ''--'' then long_flag_matches long a
        else has_prefix a ''-'' \<and> length a > 1 \<and> contains_any (tl a) short) (tl argv)"

definition nonFlagArgs :: "argv \<Rightarrow> string list" where
  "nonFlagArgs argv = filter (\<lambda>a. \<not> has_prefix a ''-'') (tl argv)"

definition hasBareFlag :: "argv \<Rightarrow> string \<Rightarrow> bool" where
  "hasBareFlag argv flag = list_ex (\<lambda>a. cut_name CHR ''='' a = flag) argv"

definition hasFlag :: "argv \<Rightarrow> string list \<Rightarrow> bool" where
  "hasFlag argv names =
     list_ex (\<lambda>a. list_ex (\<lambda>want. equal_fold (cut_name CHR ''='' a) want) names) (tl argv)"

definition ask :: "string \<Rightarrow> string \<Rightarrow> verdict option" where
  "ask rule reason = Some (mk_verdict Ask rule reason)"

definition deny :: "string \<Rightarrow> string \<Rightarrow> verdict option" where
  "deny rule reason = Some (mk_verdict Deny rule reason)"

definition withinSafe :: "string \<Rightarrow> string \<Rightarrow> string list \<Rightarrow> bool" where
  "withinSafe target repoRoot safeRoots =
     (if target = ''~'' \<or> has_prefix target ''~/'' then False
      else let t = clean target
           in if t = ''/'' then False
              else list_ex (\<lambda>r. r \<noteq> '''' \<and> (t = clean r \<or> has_prefix t (clean r @ ''/'')))
                     (repoRoot # safeRoots))"

section \<open>Executors whose input is opaque\<close>

definition isVersionSuffix :: "string \<Rightarrow> bool" where
  "isVersionSuffix sfx =
     (let s = trim_prefix sfx ''-''
      in s \<noteq> '''' \<and> list_all (\<lambda>r. is_digit r \<or> r = CHR ''.'') s \<and> list_ex is_digit s)"

definition opaqueExecutors :: "string list" where
  "opaqueExecutors =
     [''python'', ''node'', ''deno'', ''bun'', ''perl'', ''ruby'', ''php'', ''lua'', ''awk'',
      ''powershell'', ''pwsh'']"

definition isOpaqueExecutor :: "string \<Rightarrow> bool" where
  "isOpaqueExecutor executable =
     list_ex (\<lambda>base. executable = base \<or>
                (has_prefix executable base \<and> isVersionSuffix (drop (length base) executable)))
       opaqueExecutors"

definition isTerminalWrapper :: "string \<Rightarrow> bool" where
  "isTerminalWrapper executable \<longleftrightarrow> executable \<in> set
     [''script'', ''expect'', ''unbuffer'', ''winpty'', ''tmux'', ''screen'', ''socat'', ''dtach'',
      ''abduco'', ''empty'', ''faketty'', ''mintty'', ''wt'', ''conhost'']"

section \<open>Mentions inside opaque text\<close>

text \<open>\<^verbatim>\<open>strings.FieldsFunc\<close>: the maximal runs of bytes that are not separators.  Letters and digits
  are judged on ASCII; a byte outside ASCII counts as part of a word.\<close>

function fields_func :: "(char \<Rightarrow> bool) \<Rightarrow> string \<Rightarrow> string list" where
  "fields_func sep [] = []"
| "fields_func sep (c # s) =
     (if sep c then fields_func sep s
      else (c # takeWhile (\<lambda>x. \<not> sep x) s) # fields_func sep (dropWhile (\<lambda>x. \<not> sep x) s))"
  by pat_completeness auto
termination
  by (relation "measure (\<lambda>(sep, s). length s)") (auto simp: le_imp_less_Suc length_dropWhile_le)

definition is_word_byte :: "char \<Rightarrow> bool" where
  "is_word_byte c \<longleftrightarrow> is_letter c \<or> is_digit c \<or> CHR 0x80 \<le> c"

text \<open>\<open>quotedLiteral\<close> on the text after the opening quote: the literal and the text after the closing
  quote.\<close>

fun quotedLiteral :: "char \<Rightarrow> string \<Rightarrow> (string \<times> string) option" where
  "quotedLiteral q [] = None"
| "quotedLiteral q [c] = (if c = q then Some ([], []) else None)"
| "quotedLiteral q (c # d # s) =
     (if c = q then Some ([], d # s)
      else if c = backslash \<and> (d = q \<or> d = backslash)
      then map_option (\<lambda>(lit, rest). (d # lit, rest)) (quotedLiteral q s)
      else map_option (\<lambda>(lit, rest). (c # lit, rest)) (quotedLiteral q (d # s)))"

lemma quotedLiteral_shorter: "quotedLiteral q s = Some (lit, rest) \<Longrightarrow> length rest < length s"
  by (induction q s arbitrary: lit rest rule: quotedLiteral.induct)
    (fastforce split: if_splits)+

function visible_scan :: "string \<Rightarrow> string list \<times> string" where
  "visible_scan [] = ([], [])"
| "visible_scan (c # s) =
     (if c \<noteq> CHR 0x27 \<and> c \<noteq> dquote \<and> c \<noteq> CHR 0x60
      then (case visible_scan s of (cands, unq) \<Rightarrow> (cands, c # unq))
      else (case quotedLiteral c s of
              None \<Rightarrow> ([], c # s)
            | Some (lit, rest) \<Rightarrow>
                (case visible_scan rest of (cands, unq) \<Rightarrow> (lit # cands, CHR '' '' # unq))))"
  by pat_completeness auto
termination
  by (relation "measure length") (auto dest: quotedLiteral_shorter)

definition visiblePathCandidates :: "string \<Rightarrow> string list" where
  "visiblePathCandidates arg =
     (case visible_scan arg of (candidates, unquoted) \<Rightarrow>
        candidates @ fields_func (\<lambda>r. \<not> is_word_byte r \<and> r \<notin> set ([slash, backslash] @ ''._-$~:%@+'')) unquoted)"

definition mention_tokens :: "string \<Rightarrow> string list" where
  "mention_tokens candidate =
     candidate # fields_func (\<lambda>r. \<not> is_word_byte r \<and> r \<notin> set (''._-/'' @ [backslash])) candidate"

definition mentionsExecutable :: "string \<Rightarrow> string \<Rightarrow> bool" where
  "mentionsExecutable value executable =
     list_ex (\<lambda>candidate. list_ex (\<lambda>token. head [token] = executable) (mention_tokens candidate))
       (visiblePathCandidates value)"

definition mentionsCommand :: "string list \<Rightarrow> string \<Rightarrow> string \<Rightarrow> bool" where
  "mentionsCommand values executable subcommand =
     (let tokens = concat (map mention_tokens (concat (map visiblePathCandidates values)))
      in list_ex (\<lambda>token. head [token] = executable) tokens \<and>
         list_ex (\<lambda>token. equal_fold token subcommand) tokens)"

section \<open>The contract of a command rule\<close>

locale argv_rule =
  fixes check :: "simple \<Rightarrow> verdict option"
    and handles :: "string \<Rightarrow> bool"
    and ids :: "string list"
  assumes scoped: "check s = Some v \<Longrightarrow> handles (head (Argv s))"
    and attributed: "check s = Some v \<Longrightarrow> vRuleID v \<in> set ids"
    and restricts: "check s = Some v \<Longrightarrow> vDecision v = Ask \<or> vDecision v = Deny"
begin

lemma silent: "\<not> handles (head (Argv s)) \<Longrightarrow> check s = None"
  using scoped by (cases "check s") auto

lemma severe: "check s = Some v \<Longrightarrow> 1 \<le> Severity (vDecision v)"
  by (drule restricts) auto

lemma never_allows: "check s \<noteq> Some v \<or> vDecision v \<noteq> Allow"
  using restricts by fastforce

end

text \<open>A rule that leaves the last word to the operator.\<close>

locale asking_rule = argv_rule +
  assumes asks: "check s = Some v \<Longrightarrow> vDecision v = Ask"
begin

lemma never_denies: "check s = Some v \<Longrightarrow> vDecision v \<noteq> Deny"
  by (simp add: asks)

end

lemma ask_Some [simp]: "ask i r = Some v \<longleftrightarrow> v = mk_verdict Ask i r"
  by (auto simp: ask_def)

lemma deny_Some [simp]: "deny i r = Some v \<longleftrightarrow> v = mk_verdict Deny i r"
  by (auto simp: deny_def)

lemma ask_not_None [simp]: "ask i r \<noteq> None"
  by (simp add: ask_def)

lemma deny_not_None [simp]: "deny i r \<noteq> None"
  by (simp add: deny_def)

section \<open>Facts: command names\<close>

lemma to_slash_id: "backslash \<notin> set p \<Longrightarrow> to_slash p = p"
  unfolding to_slash_def by (intro map_idI) auto

lemma takeWhile_no_slash:
  "slash \<notin> set xs \<Longrightarrow>
   takeWhile (\<lambda>c. c \<noteq> slash) (xs @ ys) = xs @ takeWhile (\<lambda>c. c \<noteq> slash) ys"
  by (induction xs) auto

lemma last_component_plain: "slash \<notin> set name \<Longrightarrow> last_component name = name"
  by (metis append_Nil2 last_component_def rev_rev_ident set_rev takeWhile.simps(1)
      takeWhile_no_slash)

lemma path_base_dir:
  assumes "slash \<notin> set name" and "name \<noteq> ''''"
  shows "path_base (dir @ name) = last_component (dir @ name) \<and>
         last_component (dir @ slash # name) = name"
proof
  have "last name \<noteq> slash" using assms last_in_set by metis
  then have "strip_trailing_slashes (dir @ name) = dir @ name"
    using assms(2) by (cases name rule: rev_cases)
      (auto simp: strip_trailing_slashes_def trim_right_def)
  then show "path_base (dir @ name) = last_component (dir @ name)"
    using assms(2) by (simp add: path_base_def Let_def)
  show "last_component (dir @ slash # name) = name"
    using takeWhile_no_slash [of "rev name" "slash # rev dir"] assms(1)
    by (simp add: last_component_def)
qed

lemma not_win32: "backslash \<notin> set p \<Longrightarrow> CHR '':'' \<notin> set p \<Longrightarrow> \<not> win32ResolvedPath p"
proof
  assume a: "backslash \<notin> set p" "CHR '':'' \<notin> set p" and "win32ResolvedPath p"
  then consider "length p \<ge> 2" "p ! 1 = CHR '':''" | "sublist [backslash] p"
    by (auto simp: win32ResolvedPath_def contains_iff_sublist)
  then show False
  proof cases
    case 1
    then have "CHR '':'' \<in> set p" using nth_mem [of 1 p] by simp
    with a show False by simp
  next
    case 2
    with a show False by (auto simp: sublist_def)
  qed
qed

lemma head_in_directory:
  assumes "slash \<notin> set name" and "name \<noteq> ''''"
    and "backslash \<notin> set (dir @ name)" and "CHR '':'' \<notin> set (dir @ name)"
  shows "head ((dir @ slash # name) # args) = head [name]"
proof -
  have "to_slash (dir @ slash # name) = dir @ slash # name" "to_slash name = name"
    using assms(3) by (auto intro: to_slash_id)
  moreover have "path_base (dir @ slash # name) = name" "path_base name = name"
    using path_base_dir [OF assms(1,2), of "dir @ [slash]"] path_base_dir [OF assms(1,2), of "[]"]
      path_base_dir [OF assms(1,2), of dir] last_component_plain [OF assms(1)] by simp_all
  moreover have "\<not> win32ResolvedPath (dir @ slash # name)" "\<not> win32ResolvedPath name"
    using not_win32 [of "dir @ slash # name"] not_win32 [of name] assms(3,4) by simp_all
  ultimately show ?thesis by simp
qed

end
