(* ===== verification/Relaxation.thy ===== *)
theory Relaxation
  imports Session_Store Tool_Call
begin

text \<open>
  The steps that turn an ask into an allow, and the one that turns an allow into an ask:
  \<^verbatim>\<open>night.go\<close>, \<^verbatim>\<open>grant.go\<close>, \<^verbatim>\<open>trifecta_signals.go\<close> and \<^verbatim>\<open>opencode_approval.go\<close> under
  \<^verbatim>\<open>src/internal/engine\<close>.

  The session state a pointer gives access to is passed in and returned; a nil pointer is \<open>None\<close>.
  SHA-256, UTF-8 validation and the JSON decoder are arguments of \<open>OpenCodeApprovalKey\<close>; whether a
  call touches private data or the network is an argument of \<open>ApplyTrifecta\<close>.

  The locale \<open>ask_relaxer\<close> is the contract every relaxation keeps: it changes nothing but an ask, and
  the allow it makes names the rule it answered.  \<open>guarded_relaxer\<close> adds a set of rules it never
  answers.  Relaxers compose, and each one of the source is an instance.
\<close>

section \<open>The contract of a relaxation\<close>

locale ask_relaxer =
  fixes relax :: "verdict \<Rightarrow> verdict"
  assumes traced: "relax v = v \<or>
    (vDecision v = Ask \<and> vDecision (relax v) = Allow \<and> vOriginRuleID (relax v) = vRuleID v)"
begin

lemma keeps_deny: "vDecision v = Deny \<Longrightarrow> relax v = v"
  using traced [of v] by auto

lemma keeps_allow: "vDecision v = Allow \<Longrightarrow> relax v = v"
  using traced [of v] by auto

lemma blocks_iff: "Blocks (vDecision (relax v)) \<longleftrightarrow> Blocks (vDecision v)"
  using traced [of v] by (auto simp: Blocks_def)

lemma severity_le: "Severity (vDecision (relax v)) \<le> Severity (vDecision v)"
  using traced [of v] by auto

lemma idempotent: "relax (relax v) = relax v"
  using traced [of v] keeps_allow by metis

end

locale guarded_relaxer = ask_relaxer +
  fixes guarded :: "string \<Rightarrow> bool"
  assumes guard: "guarded (vRuleID v) \<Longrightarrow> relax v = v"
begin

lemma guarded_ask_stays: "vDecision v = Ask \<Longrightarrow> guarded (vRuleID v) \<Longrightarrow> vDecision (relax v) = Ask"
  by (simp add: guard)

lemma answered_not_guarded: "relax v \<noteq> v \<Longrightarrow> \<not> guarded (vOriginRuleID (relax v))"
  using traced [of v] guard [of v] by auto

end

lemma compose_relaxers:
  assumes "ask_relaxer f" and "ask_relaxer g"
  shows "ask_relaxer (\<lambda>v. g (f v))"
proof
  fix v
  show "g (f v) = v \<or> (vDecision v = Ask \<and> vDecision (g (f v)) = Allow \<and>
      vOriginRuleID (g (f v)) = vRuleID v)"
    using ask_relaxer.traced [OF assms(1), of v] ask_relaxer.keeps_allow [OF assms(2), of "f v"]
      ask_relaxer.traced [OF assms(2), of v] by auto
qed

lemma guarded_relaxerI:
  assumes "ask_relaxer f" and "\<And>v. P (vRuleID v) \<Longrightarrow> f v = v"
  shows "guarded_relaxer f P"
  using assms by (simp add: guarded_relaxer_def guarded_relaxer_axioms_def)

lemma compose_guarded:
  assumes "guarded_relaxer f P" and "guarded_relaxer g Q"
  shows "guarded_relaxer (\<lambda>v. g (f v)) (\<lambda>r. P r \<and> Q r)"
proof (rule guarded_relaxerI)
  show "ask_relaxer (\<lambda>v. g (f v))"
    using assms by (blast intro: compose_relaxers guarded_relaxer.axioms(1))
  show "g (f v) = v" if "P (vRuleID v) \<and> Q (vRuleID v)" for v
    using that guarded_relaxer.guard [OF assms(1), of v] guarded_relaxer.guard [OF assms(2), of v]
    by simp
qed

section \<open>Night mode and command grants\<close>

definition relaxed :: "string \<Rightarrow> string \<Rightarrow> verdict \<Rightarrow> verdict" where
  "relaxed rule reason v = (mk_verdict Allow rule reason)\<lparr>vOriginRuleID := vRuleID v\<rparr>"

lemma relaxed_fields [simp]:
  "vDecision (relaxed i r v) = Allow" "vRuleID (relaxed i r v) = i"
  "vOriginRuleID (relaxed i r v) = vRuleID v"
  by (simp_all add: relaxed_def)

definition ApplyNightMode :: "verdict \<Rightarrow> bool \<Rightarrow> verdict" where
  "ApplyNightMode v active =
     (if \<not> active \<or> vDecision v \<noteq> Ask \<or> NeverRelaxable (vRuleID v) then v
      else relaxed ''ask-allowed-by-night-mode'' ''allowed by active night mode'' v)"

definition GrantRuleID :: string where
  "GrantRuleID = ''ask-allowed-by-operator-grant''"

definition ApplyCommandGrant ::
  "filesystem \<Rightarrow> verdict \<Rightarrow> tool_call \<Rightarrow> operator_config option \<Rightarrow> time \<Rightarrow> verdict" where
  "ApplyCommandGrant fs v tc op now =
     (if vDecision v \<noteq> Ask \<or> tcCommand tc = '''' \<or> tcRepoRoot tc = '''' then v
      else if \<not> AllowsCommand fs op (tcRepoRoot tc) (vRuleID v) (tcCommand tc) now then v
      else relaxed GrantRuleID ''allowed by an operator-issued grant for this exact command'' v)"

section \<open>The lethal trifecta\<close>

definition TrifectaTrackingEnabled :: "policy \<Rightarrow> bool" where
  "TrifectaTrackingEnabled pol \<longleftrightarrow> \<not> waived pol ''P7.trifecta''"

definition trackingUnavailable :: verdict where
  "trackingUnavailable =
     mk_verdict Ask ''P7.tracking-unavailable''
       (''session tracking is unavailable; approval is required because P7 cannot retain this '' @
        ''private-data or network signal'')"

definition trifectaAsk :: verdict where
  "trifectaAsk =
     mk_verdict Ask ''P7.trifecta''
       (''this session already touched both private data and network egress '' @ em_dash @
        '' pausing on the second leg of the lethal trifecta pattern'')"

definition ApplyTrifecta ::
  "verdict \<Rightarrow> bool \<Rightarrow> bool \<Rightarrow> session_state option \<Rightarrow> policy \<Rightarrow> verdict option \<times> session_state option"
where
  "ApplyTrifecta v isPrivate isNet st pol =
     (if \<not> TrifectaTrackingEnabled pol then (None, st)
      else (case st of
              None \<Rightarrow>
                (if vDecision v = Allow \<and> (isPrivate \<or> isNet) then Some trackingUnavailable else None,
                 None)
            | Some s \<Rightarrow>
                (let secondLeg = (isPrivate \<and> SawNetworkCall s) \<or> (isNet \<and> SawPrivateRead s);
                     s' = s\<lparr>SawPrivateRead := SawPrivateRead s \<or> isPrivate,
                            SawNetworkCall := SawNetworkCall s \<or> isNet\<rparr>
                 in (if vDecision v = Allow \<and> secondLeg then Some trifectaAsk else None, Some s'))))"

section \<open>OpenCode approvals\<close>

definition openCodeApprovalDomain :: string where
  "openCodeApprovalDomain = ''agent-guardrails/opencode-approval/v1''"

definition openCodeApprovalTTL :: int where
  "openCodeApprovalTTL = minutes 10"

definition maxPendingOpenCodeApprovals :: nat where
  "maxPendingOpenCodeApprovals = 128"

definition hex_value :: "char \<Rightarrow> nat option" where
  "hex_value c =
     (if is_digit c then Some (of_char c - 48)
      else if CHR ''a'' \<le> c \<and> c \<le> CHR ''f'' then Some (of_char c - 87)
      else if CHR ''A'' \<le> c \<and> c \<le> CHR ''F'' then Some (of_char c - 55)
      else None)"

definition jsonHexQuad :: "string \<Rightarrow> nat option" where
  "jsonHexQuad raw =
     (case raw of
        a # b # c # d # _ \<Rightarrow>
          (case (hex_value a, hex_value b, hex_value c, hex_value d) of
             (Some w, Some x, Some y, Some z) \<Rightarrow> Some (((w * 16 + x) * 16 + y) * 16 + z)
           | _ \<Rightarrow> None)
      | _ \<Rightarrow> None)"

text \<open>\<^verbatim>\<open>validJSONSurrogates\<close>: the flag says whether the scan is inside a string.\<close>

function surrogate_scan :: "bool \<Rightarrow> string \<Rightarrow> bool" where
  "surrogate_scan inside [] = True"
| "surrogate_scan False (c # s) = surrogate_scan (c = dquote) s"
| "surrogate_scan True (c # s) =
     (if c = dquote then surrogate_scan False s
      else if c \<noteq> backslash then surrogate_scan True s
      else (case s of
              [] \<Rightarrow> False
            | e # t \<Rightarrow>
                if e \<noteq> CHR ''u'' then surrogate_scan True t
                else (case jsonHexQuad t of
                        None \<Rightarrow> False
                      | Some codePoint \<Rightarrow>
                          (let u = drop 4 t
                           in if 0xd800 \<le> codePoint \<and> codePoint \<le> 0xdbff then
                                length u \<ge> 6 \<and> u ! 0 = backslash \<and> u ! 1 = CHR ''u'' \<and>
                                (case jsonHexQuad (drop 2 u) of
                                   None \<Rightarrow> False
                                 | Some low \<Rightarrow>
                                     0xdc00 \<le> low \<and> low \<le> 0xdfff \<and> surrogate_scan True (drop 6 u))
                              else if 0xdc00 \<le> codePoint \<and> codePoint \<le> 0xdfff then False
                              else surrogate_scan True u))))"
  by pat_completeness auto
termination
  by (relation "measure (\<lambda>(inside, s). length s)") auto

definition validJSONSurrogates :: "string \<Rightarrow> bool" where
  "validJSONSurrogates raw = surrogate_scan False raw"

text \<open>\<^verbatim>\<open>binary.BigEndian.PutUint64\<close> of a length, and the text the key hashes: every field preceded by its
  length.\<close>

fun be_bytes :: "nat \<Rightarrow> nat \<Rightarrow> string" where
  "be_bytes 0 n = []"
| "be_bytes (Suc k) n = be_bytes k (n div 256) @ [char_of (n mod 256)]"

definition be64 :: "nat \<Rightarrow> string" where
  "be64 n = be_bytes 8 n"

definition framed :: "string list \<Rightarrow> string" where
  "framed fs = concat (map (\<lambda>f. be64 (length f) @ f) fs)"

text \<open>The JSON canonicaliser is the argument \<open>canonicalJSON\<close>: the strict decoder followed by the
  encoder, \<open>None\<close> when the text is not one JSON value without duplicate names.\<close>

definition canonicalOpenCodeArguments ::
  "(string \<Rightarrow> bool) \<Rightarrow> (string \<Rightarrow> string option) \<Rightarrow> string \<Rightarrow> string option" where
  "canonicalOpenCodeArguments utf8Valid canonicalJSON raw =
     (if \<not> utf8Valid raw \<or> \<not> validJSONSurrogates raw then None else canonicalJSON raw)"

definition OpenCodeApprovalKey ::
  "(string \<Rightarrow> string) \<Rightarrow> (string \<Rightarrow> string option) \<Rightarrow> tool_call \<Rightarrow> string option" where
  "OpenCodeApprovalKey sha256hex canonicalArguments tc =
     (if tcPlane tc \<noteq> ''opencode'' \<or> tcEvent tc \<noteq> ''pre'' \<or> tcSessionID tc = '''' \<or>
         tcCWD tc = '''' \<or> tcTool tc = '''' \<or> tcArguments tc = '''' then None
      else (case canonicalArguments (tcArguments tc) of
              None \<Rightarrow> None
            | Some canonical \<Rightarrow>
                Some (sha256hex (framed
                  [openCodeApprovalDomain, tcSessionID tc, tcCWD tc, tcTool tc, canonical]))))"

definition live_pending :: "time \<Rightarrow> (string \<times> pending_approval) list \<Rightarrow> (string \<times> pending_approval) list"
where
  "live_pending now ps = filter (\<lambda>p. now < paExpiresAt (snd p)) ps"

definition ApplyOpenCodeApproval ::
  "verdict \<Rightarrow> string \<Rightarrow> session_state option \<Rightarrow> time \<Rightarrow> verdict \<times> session_state option" where
  "ApplyOpenCodeApproval v key st now =
     (case st of
        None \<Rightarrow> (v, st)
      | Some s \<Rightarrow>
          if key = '''' then (v, st)
          else (let ps = live_pending now (PendingApprovals s);
                    keep = (\<lambda>qs. Some (s\<lparr>PendingApprovals := qs\<rparr>))
                in if vDecision v = Allow \<or> vDecision v = Deny then (v, keep (del_assoc key ps))
                   else if vDecision v = Ask then
                     (if vRuleID v = '''' then (v, keep (del_assoc key ps))
                      else (case map_of ps key of
                              Some pending \<Rightarrow>
                                if paOriginRuleID pending = vRuleID v then
                                  (relaxed ''ask-approved-by-retry''
                                     ''approved by exact OpenCode retry after user confirmation'' v,
                                   keep (del_assoc key ps))
                                else (v, keep (upd_assoc key
                                       \<lparr>paOriginRuleID = vRuleID v,
                                        paExpiresAt = now + openCodeApprovalTTL\<rparr> ps))
                            | None \<Rightarrow>
                                if length ps \<ge> maxPendingOpenCodeApprovals then (v, keep ps)
                                else (v, keep (upd_assoc key
                                       \<lparr>paOriginRuleID = vRuleID v,
                                        paExpiresAt = now + openCodeApprovalTTL\<rparr> ps))))
                   else (v, keep ps)))"

definition ApplyOpenCodeHostApproval ::
  "verdict \<Rightarrow> string \<Rightarrow> session_state option \<Rightarrow> verdict \<times> session_state option" where
  "ApplyOpenCodeHostApproval v key st =
     (case st of
        None \<Rightarrow> (v, st)
      | Some s \<Rightarrow>
          if key = '''' \<or> vDecision v \<noteq> Ask \<or> vRuleID v = '''' then (v, st)
          else (relaxed ''ask-approved-by-host'' ''approved by the OpenCode host permission dialog'' v,
                Some (s\<lparr>PendingApprovals := del_assoc key (PendingApprovals s)\<rparr>)))"

section \<open>Every relaxation keeps the contract\<close>

interpretation night: guarded_relaxer "\<lambda>v. ApplyNightMode v active" NeverRelaxable for active
  by unfold_locales (auto simp: ApplyNightMode_def)

interpretation command_grant: guarded_relaxer "\<lambda>v. ApplyCommandGrant fs v tc op now" NeverGrantable
  for fs tc op now
  by unfold_locales (auto simp: ApplyCommandGrant_def AllowsCommand_never)

interpretation retry: ask_relaxer "\<lambda>v. fst (ApplyOpenCodeApproval v key st now)" for key st now
  by unfold_locales (auto simp: ApplyOpenCodeApproval_def Let_def split: option.splits)

interpretation host_approval: ask_relaxer "\<lambda>v. fst (ApplyOpenCodeHostApproval v key st)" for key st
  by unfold_locales (auto simp: ApplyOpenCodeHostApproval_def split: option.splits)

section \<open>The second leg of the trifecta\<close>

text \<open>The signals of a session over a run of calls, each with its private and network flags.\<close>

definition trifecta_run :: "policy \<Rightarrow> session_state \<Rightarrow> (verdict \<times> bool \<times> bool) list \<Rightarrow> session_state" where
  "trifecta_run pol st calls =
     foldl (\<lambda>s (v, p, n). the (snd (ApplyTrifecta v p n (Some s) pol))) st calls"

lemma ApplyTrifecta_state:
  "TrifectaTrackingEnabled pol \<Longrightarrow>
   snd (ApplyTrifecta v p n (Some s) pol) =
     Some (s\<lparr>SawPrivateRead := SawPrivateRead s \<or> p, SawNetworkCall := SawNetworkCall s \<or> n\<rparr>)"
  by (simp add: ApplyTrifecta_def Let_def)

lemma trifecta_run_signals:
  "TrifectaTrackingEnabled pol \<Longrightarrow>
   SawPrivateRead (trifecta_run pol s calls) = (SawPrivateRead s \<or> list_ex (\<lambda>(v, p, n). p) calls) \<and>
   SawNetworkCall (trifecta_run pol s calls) = (SawNetworkCall s \<or> list_ex (\<lambda>(v, p, n). n) calls)"
proof (induction calls arbitrary: s)
  case (Cons c calls)
  obtain v p n where c: "c = (v, p, n)" by (cases c)
  show ?case
    using Cons.IH [OF Cons.prems, of "s\<lparr>SawPrivateRead := SawPrivateRead s \<or> p,
        SawNetworkCall := SawNetworkCall s \<or> n\<rparr>"] Cons.prems
    by (simp add: trifecta_run_def c ApplyTrifecta_state)
qed (simp add: trifecta_run_def)


definition plain_policy :: policy where
  "plain_policy =
     \<lparr>WebResearchOff = False,
      Slots = \<lparr>SafeRoots = [], SecretDirs = [], SecretGlobs = [], SecretAskGlobs = [],
               SecretAllow = [], EgressAllowlist = [], WebHosts = [], AuditLog = ''''\<rparr>,
      Recipes = None, Rules = [], Waived = [], UnknownToolPosture = UnknownAudit\<rparr>"


section \<open>Approvals are single use and bounded\<close>

lemma length_live_pending: "length (live_pending now ps) \<le> length ps"
  by (simp add: live_pending_def)

lemma map_of_live_pending:
  "distinct (map fst ps) \<Longrightarrow>
   map_of (live_pending now ps) k = (case map_of ps k of
      Some p \<Rightarrow> if now < paExpiresAt p then Some p else None | None \<Rightarrow> None)"
proof (induction ps)
  case (Cons p ps)
  then have "fst p = k \<Longrightarrow> map_of ps k = None"
    by (metis distinct.simps(2) list.map(2) map_of_eq_None_iff set_map)
  with Cons show ?case by (auto simp: live_pending_def split: option.splits)
qed (simp add: live_pending_def)

text \<open>C28: An OpenCode retry approval is bound, timely and single use: a call is approved by retry only
  when its exact key holds an unexpired pending entry for the same rule; the approval removes the
  entry, so the next identical call asks again; and the table never grows past its bound.\<close>

theorem OpenCodeApproval_single_use:
  assumes "vDecision v = Ask" and "key \<noteq> ''''" and "distinct (map fst (PendingApprovals s))"
    and "ApplyOpenCodeApproval v key (Some s) now = (v', Some s')"
  shows "(vDecision v' = Allow \<longrightarrow>
            (\<exists>p. map_of (PendingApprovals s) key = Some p \<and> paOriginRuleID p = vRuleID v \<and>
                 now < paExpiresAt p) \<and>
            map_of (PendingApprovals s') key = None \<and>
            vDecision (fst (ApplyOpenCodeApproval v key (Some s') now)) = Ask) \<and>
         length (PendingApprovals s') \<le> max (length (PendingApprovals s)) maxPendingOpenCodeApprovals"
proof -
  let ?ps = "live_pending now (PendingApprovals s)"
  have len: "length ?ps \<le> length (PendingApprovals s)" by (rule length_live_pending)
  have dlen: "length (del_assoc key ?ps) \<le> length ?ps" by (rule length_del_assoc_le)
  have lp: "live_pending now (del_assoc key ?ps) = del_assoc key ?ps"
    by (auto simp: live_pending_def del_assoc_def intro: filter_cong)
  show ?thesis
  proof (cases "vRuleID v \<noteq> '''' \<and> (\<exists>p. map_of ?ps key = Some p \<and> paOriginRuleID p = vRuleID v)")
    case True
    then obtain p where p: "map_of ?ps key = Some p" "paOriginRuleID p = vRuleID v" by blast
    have s': "s' = s\<lparr>PendingApprovals := del_assoc key ?ps\<rparr>" "vDecision v' = Allow"
      using assms True p by (auto simp: ApplyOpenCodeApproval_def Let_def)
    have "map_of (PendingApprovals s) key = Some p \<and> now < paExpiresAt p"
      using p(1) assms(3) by (auto simp: map_of_live_pending split: option.splits if_splits)
    moreover have "vDecision (fst (ApplyOpenCodeApproval v key (Some s') now)) = Ask"
      using assms(1,2) True by (simp add: s' ApplyOpenCodeApproval_def Let_def lp)
    ultimately show ?thesis using p(2) len dlen by (auto simp: s')
  next
    case False
    then have "v' = v" using assms by (auto simp: ApplyOpenCodeApproval_def Let_def
          split: option.splits if_splits)
    moreover have "length (PendingApprovals s') \<le>
        max (length (PendingApprovals s)) maxPendingOpenCodeApprovals"
      using assms False len dlen length_upd_assoc_le [of key _ ?ps]
      by (auto simp: ApplyOpenCodeApproval_def Let_def length_upd_assoc_present le_max_iff_disj
          split: option.splits if_splits) (metis Suc_leI not_le order_trans)+
    ultimately show ?thesis using assms(1) by simp
  qed
qed

definition retry_state :: session_state where
  "retry_state =
     zero_state\<lparr>PendingApprovals := [(''k'', \<lparr>paOriginRuleID = ''P1.chmod'', paExpiresAt = 100\<rparr>)]\<rparr>"

theorem OpenCodeApproval_single_use_witness:
  "vDecision (fst (ApplyOpenCodeApproval (mk_verdict Ask ''P1.chmod'' '''') ''k'' (Some retry_state) 5)) = Allow \<and>
   vDecision (fst (ApplyOpenCodeApproval (mk_verdict Ask ''P1.chmod'' '''') ''k''
     (snd (ApplyOpenCodeApproval (mk_verdict Ask ''P1.chmod'' '''') ''k'' (Some retry_state) 5)) 5)) = Ask"
proof -
  let ?v = "mk_verdict Ask ''P1.chmod'' ''''"
  let ?r = "ApplyOpenCodeApproval ?v ''k'' (Some retry_state) 5"
  have a: "vDecision (fst ?r) = Allow" and b: "snd ?r = Some (the (snd ?r))" by code_simp+
  have "distinct (map fst (PendingApprovals retry_state))" by code_simp
  moreover have "?r = (fst ?r, Some (the (snd ?r)))" using b by (metis prod.collapse)
  ultimately show ?thesis
    using OpenCodeApproval_single_use [of ?v "''k''" retry_state 5 "fst ?r" "the (snd ?r)"] a b
    by simp
qed

section \<open>The approval key binds the call\<close>

lemma length_be_bytes [simp]: "length (be_bytes k n) = k"
  by (induction k arbitrary: n) auto

lemma be_bytes_inj: "be_bytes k n = be_bytes k m \<Longrightarrow> n mod 256 ^ k = m mod 256 ^ k"
proof (induction k arbitrary: n m)
  case (Suc k)
  then have "be_bytes k (n div 256) = be_bytes k (m div 256)"
    and lo: "(char_of (n mod 256) :: char) = char_of (m mod 256)"
    by (simp_all only: be_bytes.simps append1_eq_conv)
  from this(1) have hi: "(n div 256) mod 256 ^ k = (m div 256) mod 256 ^ k" by (rule Suc.IH)
  from lo have "n mod 256 = m mod 256"
    by (metis mod_mod_trivial of_char_of)
  with hi show ?case by (simp add: mod_mult2_eq)
qed simp

lemma be64_inj:
  assumes "be64 n = be64 m" and "n < 2 ^ 64" and "m < 2 ^ 64"
  shows "n = m"
proof -
  have "n mod 256 ^ 8 = m mod 256 ^ 8"
    using assms(1) unfolding be64_def by (rule be_bytes_inj)
  moreover have "(256 :: nat) ^ 8 = 2 ^ 64" by simp
  ultimately show ?thesis using assms(2,3) by simp
qed

lemma framed_inj:
  "framed xs = framed ys \<Longrightarrow> length xs = length ys \<Longrightarrow> list_all (\<lambda>f. length f < 2 ^ 64) xs \<Longrightarrow>
   list_all (\<lambda>f. length f < 2 ^ 64) ys \<Longrightarrow> xs = ys"
proof (induction xs arbitrary: ys)
  case (Cons x xs)
  then obtain y ys' where ys: "ys = y # ys'" by (cases ys) auto
  have eq: "be64 (length x) @ (x @ framed xs) = be64 (length y) @ (y @ framed ys')"
    using Cons.prems(1) by (simp add: framed_def ys)
  then have "be64 (length x) = be64 (length y)" and rest: "x @ framed xs = y @ framed ys'"
    by (auto simp: be64_def append_eq_append_conv)
  then have "length x = length y" using Cons.prems(3,4) ys by (auto intro: be64_inj)
  with rest have "x = y" and "framed xs = framed ys'" by auto
  with Cons ys show ?case by simp
qed simp

text \<open>The OpenCode approval key binds the exact call: two calls with the same key come from the
  same session and directory with the same tool and the same canonical arguments, or the two hashed
  texts are a collision of the hash function.\<close>

lemma OpenCodeApprovalKey_binds:
  assumes "OpenCodeApprovalKey sha canon tc = Some k" and "OpenCodeApprovalKey sha canon tc' = Some k"
    and "list_all (\<lambda>t. length (tcSessionID t) < 2 ^ 64 \<and> length (tcCWD t) < 2 ^ 64 \<and>
           length (tcTool t) < 2 ^ 64 \<and> length (the (canon (tcArguments t))) < 2 ^ 64) [tc, tc']"
  shows "(tcSessionID tc = tcSessionID tc' \<and> tcCWD tc = tcCWD tc' \<and> tcTool tc = tcTool tc' \<and>
          canon (tcArguments tc) = canon (tcArguments tc')) \<or>
         (\<exists>x y. x \<noteq> y \<and> sha x = sha y)"
proof -
  obtain a b where a: "canon (tcArguments tc) = Some a" and b: "canon (tcArguments tc') = Some b"
    using assms(1,2) by (auto simp: OpenCodeApprovalKey_def split: if_splits option.splits)
  let ?f = "[openCodeApprovalDomain, tcSessionID tc, tcCWD tc, tcTool tc, a]"
  let ?g = "[openCodeApprovalDomain, tcSessionID tc', tcCWD tc', tcTool tc', b]"
  have sha: "sha (framed ?f) = sha (framed ?g)"
    using assms(1,2) a b by (auto simp: OpenCodeApprovalKey_def split: if_splits)
  show ?thesis
  proof (cases "framed ?f = framed ?g")
    case True
    have "length openCodeApprovalDomain < 2 ^ 64" by (simp add: openCodeApprovalDomain_def)
    then have "?f = ?g"
      using True assms(3) a b by (intro framed_inj) auto
    with a b show ?thesis by simp
  next
    case False
    with sha show ?thesis by blast
  qed
qed

definition opencode_call :: tool_call where
  "opencode_call =
     \<lparr>tcPlane = ''opencode'', tcEvent = ''pre'', tcTool = ''Bash'', tcNativeTool = ''bash'',
      tcContractTool = ''bash'', tcCapability = CapabilityCommand, tcNativeWebResearch = False,
      tcURL = '''', tcInputShape = '''', tcCommand = ''chmod -R 700 x'', tcShell = '''', tcPaths = [],
      tcArguments = ''{}'', tcSessionID = ''s1'', tcCallID = '''', tcHostApproved = False,
      tcCWD = ''/repo'', tcRepoRoot = ''/repo'', tcPermittedRoots = [], tcDegradedAllows = []\<rparr>"

end
