(* ===== verification/Ledger.thy ===== *)
theory Ledger
  imports Guard_Prelude
begin

text \<open>
  What the program's three one-time authorizations have in common.  Command grants, exact-action
  records and approval tickets are all stores in which an operator's decision adds uses and a call
  takes one away.  A run of a store is a sequence of its operations, each of which may report that
  uses were authorized or that one was spent.

  The locale \<open>ledger\<close> asks of one operation that it keeps the store well formed and that what it
  spends it takes from the store or was just authorized; its lemma is the claim over every run.
\<close>

section \<open>Runs and their events\<close>

datatype 'k ledger_event = NoEvent | Authorized 'k nat | Spent 'k

fun ledger_run :: "('o \<Rightarrow> 's \<Rightarrow> 'k ledger_event \<times> 's) \<Rightarrow> 'o list \<Rightarrow> 's \<Rightarrow> 'k ledger_event list \<times> 's" where
  "ledger_run step [] st = ([], st)"
| "ledger_run step (op # ops) st =
     (case step op st of
        (ev, st') \<Rightarrow> (case ledger_run step ops st' of (evs, st'') \<Rightarrow> (ev # evs, st'')))"

lemma ledger_run_invariant:
  assumes "I st" and "\<And>op s. op \<in> set ops \<Longrightarrow> I s \<Longrightarrow> I (snd (step op s))"
  shows "I (snd (ledger_run step ops st))"
  using assms
proof (induction ops arbitrary: st)
  case (Cons op ops)
  then have "I (snd (ledger_run step ops (snd (step op st))))" by simp
  then show ?case by (simp add: case_prod_beta)
qed simp

fun authorized_by :: "'k \<Rightarrow> 'k ledger_event \<Rightarrow> nat" where
  "authorized_by k (Authorized j n) = (if j = k then n else 0)"
| "authorized_by k _ = 0"

fun spent_by :: "'k \<Rightarrow> 'k ledger_event \<Rightarrow> nat" where
  "spent_by k (Spent j) = (if j = k then 1 else 0)"
| "spent_by k _ = 0"

definition authorized_uses :: "'k \<Rightarrow> 'k ledger_event list \<Rightarrow> nat" where
  "authorized_uses k evs = sum_list (map (authorized_by k) evs)"

definition spent_uses :: "'k \<Rightarrow> 'k ledger_event list \<Rightarrow> nat" where
  "spent_uses k evs = sum_list (map (spent_by k) evs)"

lemma uses_simps [simp]:
  "authorized_uses k [] = 0" "spent_uses k [] = 0"
  "authorized_uses k (e # es) = authorized_by k e + authorized_uses k es"
  "spent_uses k (e # es) = spent_by k e + spent_uses k es"
  by (simp_all add: authorized_uses_def spent_uses_def)

section \<open>The contract\<close>

locale ledger =
  fixes step :: "'o \<Rightarrow> 's \<Rightarrow> 'k ledger_event \<times> 's"
    and level :: "'k \<Rightarrow> 's \<Rightarrow> nat"
    and ok :: "'s \<Rightarrow> bool"
  assumes step_pays: "ok st \<Longrightarrow> step op st = (ev, st') \<Longrightarrow>
    ok st' \<and> level k st' + spent_by k ev \<le> level k st + authorized_by k ev"
begin

lemma run_pays:
  "ok st \<Longrightarrow> ledger_run step ops st = (evs, st') \<Longrightarrow>
   ok st' \<and> level k st' + spent_uses k evs \<le> level k st + authorized_uses k evs"
proof (induction ops arbitrary: st evs)
  case (Cons op ops)
  obtain ev st1 where s: "step op st = (ev, st1)" by fastforce
  obtain evs1 where rest: "ledger_run step ops st1 = (evs1, st')" and evs: "evs = ev # evs1"
    using Cons.prems(2) s by (auto split: prod.splits)
  have one: "ok st1 \<and> level k st1 + spent_by k ev \<le> level k st + authorized_by k ev"
    using Cons.prems(1) s by (rule step_pays)
  with Cons.IH [OF _ rest] have "ok st' \<and>
      level k st' + spent_uses k evs1 \<le> level k st1 + authorized_uses k evs1" by blast
  with one show ?case by (simp add: evs)
qed simp

lemma spent_le_authorized:
  assumes "ok st" and "level k st = 0"
  shows "spent_uses k (fst (ledger_run step ops st)) \<le> authorized_uses k (fst (ledger_run step ops st))"
  using run_pays [OF assms(1), of ops "fst (ledger_run step ops st)" "snd (ledger_run step ops st)" k]
    assms(2) by simp

end

section \<open>A measure on association lists\<close>

definition entry_sum :: "('v \<Rightarrow> nat) \<Rightarrow> ('a \<times> 'v) list \<Rightarrow> nat" where
  "entry_sum f m = sum_list (map (\<lambda>e. f (snd e)) m)"

lemma entry_sum_simps [simp]:
  "entry_sum f [] = 0"
  "entry_sum f (e # m) = f (snd e) + entry_sum f m"
  by (simp_all add: entry_sum_def)

lemma entry_sum_upd:
  "distinct (map fst m) \<Longrightarrow>
   entry_sum f (upd_assoc k v m) + (case map_of m k of Some x \<Rightarrow> f x | None \<Rightarrow> 0) =
   entry_sum f m + f v"
proof (induction m)
  case (Cons p m)
  obtain k' x where p: "p = (k', x)" by (cases p)
  have "map_of m k = None" if "k' = k"
    using Cons.prems that by (simp add: p map_of_eq_None_iff)
  with Cons p show ?case by (auto split: option.splits)
qed simp

lemma entry_sum_filter: "entry_sum f (filter P m) \<le> entry_sum f m"
  by (induction m) auto

lemma entry_sum_del_le: "entry_sum f (del_assoc k m) \<le> entry_sum f m"
  unfolding del_assoc_def by (rule entry_sum_filter)

lemma entry_sum_del:
  "map_of m k = Some x \<Longrightarrow> entry_sum f (del_assoc k m) + f x \<le> entry_sum f m"
proof (induction m)
  case (Cons p m)
  show ?case
  proof (cases "fst p = k")
    case True
    then show ?thesis using Cons.prems entry_sum_del_le [of f k m] by (auto simp: del_assoc_def)
  next
    case False
    then show ?thesis using Cons by (auto simp: del_assoc_def split: if_splits)
  qed
qed simp

end
