(* ===== verification/Action_Grants.thy ===== *)
theory Action_Grants
  imports Relaxation Ledger
begin

text \<open>
  Exact-action grants: the store of \<^verbatim>\<open>src/internal/actiongrant/store.go\<close>, the eligibility test of
  \<^verbatim>\<open>src/internal/engine/action_grant.go\<close> and the verdict step of
  \<^verbatim>\<open>src/cmd/guardrail/action_grants.go\<close>.

  The directory is an association list from record identities to what the file decodes to (\<open>None\<close>
  for a file that cannot be read, is too large or is not JSON); it is listed in name order, as
  \<^verbatim>\<open>os.ReadDir\<close> does.  \<open>action_io\<close> says how the machine's steps of one operation went: the
  directory and its lock, the removal of a file, the write, the random identity.  The digest of an
  action (JSON and SHA-256) and UTF-8 validation are arguments.

  The main theorem is over every sequence of store operations: no more uses are spent for an action
  than authorizations were recorded for it.
\<close>

section \<open>Actions and requests\<close>

definition TTL :: int where "TTL = minutes 15"

definition maxRecords :: nat where "maxRecords = 128"

record action =
  acPlane :: string
  acSession :: string
  acRepo :: string
  acCWD :: string
  acTool :: string
  acRule :: string
  acKind :: string
  acText :: string
  acPaths :: "string list"

definition zero_action :: action where
  "zero_action = \<lparr>acPlane = '''', acSession = '''', acRepo = '''', acCWD = '''', acTool = '''',
     acRule = '''', acKind = '''', acText = '''', acPaths = []\<rparr>"

definition action_valid :: "(string \<Rightarrow> bool) \<Rightarrow> action \<Rightarrow> bool" where
  "action_valid utf8 a \<longleftrightarrow>
     list_all utf8 [acPlane a, acSession a, acRepo a, acCWD a, acTool a, acRule a, acKind a, acText a] \<and>
     list_all utf8 (acPaths a) \<and>
     acPlane a = ''codex'' \<and> acSession a \<noteq> '''' \<and> is_abs (acRepo a) \<and> is_abs (acCWD a) \<and>
     acTool a \<noteq> '''' \<and> acRule a \<noteq> '''' \<and> \<not> NeverGrantable (acRule a) \<and> acText a \<noteq> '''' \<and>
     int (length (acText a)) \<le> 8388608 \<and>
     ((acKind a = ''command'' \<and> acTool a = ''Bash'') \<or>
      (acKind a = ''patch'' \<and> acTool a = ''apply_patch'' \<and> acPaths a \<noteq> []))"

record action_request =
  aqID :: string
  aqAction :: action
  aqDigest :: string
  aqIssued :: time
  aqExpires :: time
  aqStatus :: string
  aqTransport :: string

datatype action_error =
    ActionStoreUnavailable
  | ActionInvalidIdentity
  | ActionUnreadable
  | ActionIntegrity
  | ActionRemoveFailed
  | ActionNotGrantable
  | ActionStoreFull
  | ActionNoRandom
  | ActionWriteFailed
  | ActionExpired
  | ActionTransport
  | ActionNoMatch
  | ActionAuditFailed
  | ActionStatus string

section \<open>The store\<close>

type_synonym action_store = "(string \<times> action_request option) list"

record action_env =
  aeDigest :: "action \<Rightarrow> string"
  aeUtf8 :: "string \<Rightarrow> bool"

record action_io =
  aioLocked :: bool
  aioRemove :: "string \<Rightarrow> bool"
  aioWrite :: bool
  aioRandom :: "string option"

definition validID :: "string \<Rightarrow> bool" where
  "validID ident \<longleftrightarrow> length ident = 64 \<and> list_all (\<lambda>c. hex_value c \<noteq> None) ident"

definition action_load :: "action_env \<Rightarrow> action_store \<Rightarrow> string \<Rightarrow> action_error + action_request" where
  "action_load env st ident =
     (if \<not> validID ident then Inl ActionInvalidIdentity
      else (case map_of st ident of
              Some (Some r) \<Rightarrow>
                if aqID r \<noteq> ident \<or> \<not> action_valid (aeUtf8 env) (aqAction r) \<or>
                   aqDigest r \<noteq> aeDigest env (aqAction r) \<or> \<not> aqIssued r < aqExpires r \<or>
                   aqExpires r - aqIssued r > TTL
                then Inl ActionIntegrity else Inr r
            | _ \<Rightarrow> Inl ActionUnreadable))"

definition action_write :: "action_io \<Rightarrow> action_request \<Rightarrow> action_store \<Rightarrow> bool \<times> action_store" where
  "action_write aio r st =
     (if aioWrite aio then (True, upd_assoc (aqID r) (Some r) st) else (False, st))"

text \<open>\<^verbatim>\<open>records\<close>: expired records are removed on the way; the first record that does not load or
  cannot be removed ends the listing with an error, and what was removed before stays removed.\<close>

fun records_loop ::
  "action_env \<Rightarrow> action_io \<Rightarrow> time \<Rightarrow> string list \<Rightarrow> action_store \<Rightarrow>
   (action_error + action_request list) \<times> action_store" where
  "records_loop env aio now [] st = (Inr [], st)"
| "records_loop env aio now (ident # rest) st =
     (case action_load env st ident of
        Inl e \<Rightarrow> (Inl e, st)
      | Inr r \<Rightarrow>
          if \<not> now < aqExpires r then
            (if aioRemove aio ident then records_loop env aio now rest (del_assoc ident st)
             else (Inl ActionRemoveFailed, st))
          else (case records_loop env aio now rest st of
                  (Inl e, st') \<Rightarrow> (Inl e, st')
                | (Inr rs, st') \<Rightarrow> (Inr (r # rs), st')))"

definition action_records ::
  "action_env \<Rightarrow> action_io \<Rightarrow> time \<Rightarrow> action_store \<Rightarrow> (action_error + action_request list) \<times> action_store"
where
  "action_records env aio now st = records_loop env aio now (sort (map fst st)) st"

definition action_Create ::
  "action_env \<Rightarrow> action_io \<Rightarrow> action \<Rightarrow> time \<Rightarrow> action_store \<Rightarrow>
   (action_error + action_request) \<times> action_store" where
  "action_Create env aio a now st =
     (if \<not> action_valid (aeUtf8 env) a then (Inl ActionNotGrantable, st)
      else if \<not> aioLocked aio then (Inl ActionStoreUnavailable, st)
      else (case action_records env aio now st of
              (Inl e, st') \<Rightarrow> (Inl e, st')
            | (Inr rs, st') \<Rightarrow>
                (case find (\<lambda>r. aqDigest r = aeDigest env a \<and> aqStatus r = ''pending'') rs of
                   Some r \<Rightarrow> (Inr r, st')
                 | None \<Rightarrow>
                     if length rs \<ge> maxRecords then (Inl ActionStoreFull, st')
                     else (case aioRandom aio of
                             None \<Rightarrow> (Inl ActionNoRandom, st')
                           | Some ident \<Rightarrow>
                               (let r = \<lparr>aqID = ident, aqAction = a, aqDigest = aeDigest env a,
                                         aqIssued = now, aqExpires = now + TTL,
                                         aqStatus = ''pending'', aqTransport = ''''\<rparr>
                                in case action_write aio r st' of
                                     (True, st'') \<Rightarrow> (Inr r, st'')
                                   | (False, st'') \<Rightarrow> (Inl ActionWriteFailed, st''))))))"

definition action_Read ::
  "action_env \<Rightarrow> action_io \<Rightarrow> string \<Rightarrow> time \<Rightarrow> action_store \<Rightarrow> action_error + action_request" where
  "action_Read env aio ident now st =
     (if \<not> aioLocked aio then Inl ActionStoreUnavailable
      else (case action_load env st ident of
              Inl e \<Rightarrow> Inl e
            | Inr r \<Rightarrow> if \<not> now < aqExpires r then Inl ActionExpired else Inr r))"

definition action_transport :: "string \<Rightarrow> bool" where
  "action_transport t \<longleftrightarrow> t = ''terminal-prompt'' \<or> t = ''webauthn''"

text \<open>The audit callback is \<open>None\<close> for a nil function; otherwise it tells whether the issuance was
  recorded.\<close>

definition AuthorizeWithAudit ::
  "action_env \<Rightarrow> action_io \<Rightarrow> string \<Rightarrow> string \<Rightarrow> string \<Rightarrow> time \<Rightarrow> (action_request \<Rightarrow> bool) option \<Rightarrow>
   action_store \<Rightarrow> action_error option \<times> action_store" where
  "AuthorizeWithAudit env aio ident digest transport now audit st =
     (if \<not> action_transport transport then (Some ActionTransport, st)
      else if \<not> aioLocked aio then (Some ActionStoreUnavailable, st)
      else (case action_load env st ident of
              Inl e \<Rightarrow> (Some e, st)
            | Inr r \<Rightarrow>
                if aqDigest r \<noteq> digest \<or> aqStatus r \<noteq> ''pending'' \<or> \<not> now < aqExpires r
                then (Some ActionNoMatch, st)
                else (let r' = r\<lparr>aqStatus := ''approved'', aqTransport := transport\<rparr>
                      in case audit of
                           None \<Rightarrow> (Some ActionAuditFailed, st)
                         | Some write_audit \<Rightarrow>
                             if \<not> write_audit r' then (Some ActionAuditFailed, st)
                             else (case action_write aio r' st of
                                     (True, st') \<Rightarrow> (None, st')
                                   | (False, st') \<Rightarrow> (Some ActionWriteFailed, st')))))"

definition action_Revoke ::
  "action_env \<Rightarrow> action_io \<Rightarrow> string \<Rightarrow> action_store \<Rightarrow> action_error option \<times> action_store" where
  "action_Revoke env aio ident st =
     (if \<not> aioLocked aio then (Some ActionStoreUnavailable, st)
      else (case action_load env st ident of
              Inl e \<Rightarrow> (Some e, st)
            | Inr r \<Rightarrow>
                if aqStatus r \<noteq> ''pending'' \<and> aqStatus r \<noteq> ''approved''
                then (Some (ActionStatus (aqStatus r)), st)
                else (case action_write aio (r\<lparr>aqStatus := ''revoked''\<rparr>) st of
                        (True, st') \<Rightarrow> (None, st')
                      | (False, st') \<Rightarrow> (Some ActionWriteFailed, st'))))"

text \<open>\<^verbatim>\<open>Consume\<close>: \<open>Inr None\<close> is \<^verbatim>\<open>spent = false\<close> without an error.\<close>

definition approved_for :: "action_env \<Rightarrow> action \<Rightarrow> action_request \<Rightarrow> bool" where
  "approved_for env a r \<longleftrightarrow>
     aqStatus r = ''approved'' \<and> aqDigest r = aeDigest env a \<and> action_transport (aqTransport r)"

definition action_Consume ::
  "action_env \<Rightarrow> action_io \<Rightarrow> action \<Rightarrow> time \<Rightarrow> action_store \<Rightarrow>
   (action_error + action_request option) \<times> action_store" where
  "action_Consume env aio a now st =
     (if \<not> action_valid (aeUtf8 env) a then (Inr None, st)
      else if \<not> aioLocked aio then (Inl ActionStoreUnavailable, st)
      else (case action_records env aio now st of
              (Inl e, st') \<Rightarrow> (Inl e, st')
            | (Inr rs, st') \<Rightarrow>
                (case find (approved_for env a) rs of
                   None \<Rightarrow> (Inr None, st')
                 | Some r \<Rightarrow>
                     (let r' = r\<lparr>aqStatus := ''consumed''\<rparr>
                      in case action_write aio r' st' of
                           (True, st'') \<Rightarrow> (Inr (Some r'), st'')
                         | (False, st'') \<Rightarrow> (Inl ActionWriteFailed, st'')))))"

section \<open>The verdict step\<close>

text \<open>\<^verbatim>\<open>ExactGrantAction\<close>; \<open>patchCommand\<close> is the JSON decoder's answer for the \<^verbatim>\<open>command\<close> field of a
  patch call (\<open>None\<close>: not JSON).\<close>

definition ExactGrantAction ::
  "(string \<Rightarrow> string option) \<Rightarrow> tool_call \<Rightarrow> verdict \<Rightarrow> action option" where
  "ExactGrantAction patchCommand tc v =
     (if tcPlane tc \<noteq> ''codex'' \<or> tcEvent tc \<noteq> ''pre'' \<or> vDecision v \<noteq> Ask \<or>
         NeverGrantable (vRuleID v) \<or> tcRepoRoot tc = '''' \<or> tcCWD tc = '''' \<or> tcSessionID tc = ''''
      then None
      else (let a = \<lparr>acPlane = tcPlane tc, acSession = tcSessionID tc, acRepo = clean (tcRepoRoot tc),
                     acCWD = clean (tcCWD tc), acTool = tcTool tc, acRule = vRuleID v, acKind = '''',
                     acText = '''', acPaths = tcPaths tc\<rparr>
            in if tcCapability tc = CapabilityCommand \<and> tcTool tc = ''Bash'' \<and> tcCommand tc \<noteq> '''' then
                 Some (a\<lparr>acKind := ''command'', acText := tcCommand tc\<rparr>)
               else if tcCapability tc = CapabilityMutation \<and> tcContractTool tc = ''apply_patch'' \<and>
                       tcPaths tc \<noteq> [] then
                 (case patchCommand (tcArguments tc) of
                    None \<Rightarrow> None
                  | Some command \<Rightarrow>
                      if command = '''' then None
                      else Some (a\<lparr>acTool := ''apply_patch'', acKind := ''patch'', acText := command\<rparr>))
               else None))"

text \<open>The result is the verdict and whether a use was spent, or the error, with the store.  The two
  store calls have separate outcomes \<open>aioC\<close> and \<open>aioN\<close> and clock readings.\<close>

definition exactActionVerdict ::
  "action_env \<Rightarrow> (string \<Rightarrow> string option) \<Rightarrow> bool \<Rightarrow> action_io \<Rightarrow> action_io \<Rightarrow> time \<Rightarrow> time \<Rightarrow> tool_call \<Rightarrow>
   verdict \<Rightarrow> action_store \<Rightarrow> (action_error + verdict \<times> bool) \<times> action_store" where
  "exactActionVerdict env patchCommand dirOk aioC aioN nowC nowN tc v st =
     (case ExactGrantAction patchCommand tc v of
        None \<Rightarrow> (Inr (v, False), st)
      | Some a \<Rightarrow>
          if \<not> dirOk then (Inl ActionStoreUnavailable, st)
          else (case action_Consume env aioC a nowC st of
                  (Inl e, st') \<Rightarrow> (Inl e, st')
                | (Inr (Some r), st') \<Rightarrow>
                    (Inr ((relaxed GrantRuleID
                             ''allowed once by an operator-issued grant for this exact action'' v)
                             \<lparr>vRequestID := aqID r\<rparr>, True), st')
                | (Inr None, st') \<Rightarrow>
                    (case action_Create env aioN a nowN st' of
                       (Inl e, st'') \<Rightarrow> (Inl e, st'')
                     | (Inr r, st'') \<Rightarrow> (Inr (v\<lparr>vRequestID := aqID r\<rparr>, False), st''))))"

section \<open>Listing the records\<close>

definition approved_entry :: "string \<Rightarrow> action_request option \<Rightarrow> nat" where
  "approved_entry d e =
     (case e of
        Some q \<Rightarrow> if aqStatus q = ''approved'' \<and> aqDigest q = d then 1 else 0
      | None \<Rightarrow> 0)"

definition approved_count :: "string \<Rightarrow> action_store \<Rightarrow> nat" where
  "approved_count d st = entry_sum (approved_entry d) st"

lemma approved_count_upd:
  "distinct (map fst st) \<Longrightarrow>
   approved_count d (upd_assoc k e st) + (case map_of st k of Some x \<Rightarrow> approved_entry d x | None \<Rightarrow> 0) =
   approved_count d st + approved_entry d e"
  by (simp add: approved_count_def entry_sum_upd)

lemma approved_count_del: "approved_count d (del_assoc k st) \<le> approved_count d st"
  by (simp add: approved_count_def entry_sum_del_le)

lemma action_load_Inr:
  assumes "action_load env st ident = Inr r"
  shows "map_of st ident = Some (Some r)" and "aqID r = ident"
    and "action_valid (aeUtf8 env) (aqAction r)" and "aqDigest r = aeDigest env (aqAction r)"
  using assms by (auto simp: action_load_def split: if_splits option.splits)

text \<open>What a listing leaves behind and returns.\<close>

lemma records_loop_spec:
  assumes "records_loop env aio now names st = (res, st')" and "distinct names"
    and "distinct (map fst st)"
  shows "distinct (map fst st') \<and> approved_count d st' \<le> approved_count d st \<and>
     (\<forall>k. k \<notin> set names \<longrightarrow> map_of st' k = map_of st k) \<and>
     (\<forall>rs r. res = Inr rs \<longrightarrow> r \<in> set rs \<longrightarrow>
        aqID r \<in> set names \<and> map_of st (aqID r) = Some (Some r) \<and> map_of st' (aqID r) = Some (Some r) \<and>
        now < aqExpires r \<and> aqDigest r = aeDigest env (aqAction r) \<and>
        action_valid (aeUtf8 env) (aqAction r))"
  using assms
proof (induction names arbitrary: st res)
  case (Cons ident names)
  show ?case
  proof (cases "action_load env st ident")
    case (Inl e)
    with Cons.prems show ?thesis by auto
  next
    case (Inr r)
    note l = action_load_Inr [OF Inr]
    show ?thesis
    proof (cases "now < aqExpires r")
      case False
      show ?thesis
      proof (cases "aioRemove aio ident")
        case True
        have run: "records_loop env aio now names (del_assoc ident st) = (res, st')"
          using Cons.prems(1) Inr False True by simp
        have dd: "distinct (map fst (del_assoc ident st))" using Cons.prems(3) by (rule distinct_del_assoc)
        have ih: "distinct (map fst st') \<and> approved_count d st' \<le> approved_count d (del_assoc ident st) \<and>
          (\<forall>k. k \<notin> set names \<longrightarrow> map_of st' k = map_of (del_assoc ident st) k) \<and>
          (\<forall>rs r. res = Inr rs \<longrightarrow> r \<in> set rs \<longrightarrow>
             aqID r \<in> set names \<and> map_of (del_assoc ident st) (aqID r) = Some (Some r) \<and>
             map_of st' (aqID r) = Some (Some r) \<and>
             now < aqExpires r \<and> aqDigest r = aeDigest env (aqAction r) \<and>
             action_valid (aeUtf8 env) (aqAction r))"
          using Cons.IH [OF run _ dd] Cons.prems(2) by simp
        then show ?thesis
          using approved_count_del [of d ident st] Cons.prems(2)
          by (auto simp: fun_upd_def split: if_splits)
      next
        case False
        with \<open>\<not> now < aqExpires r\<close> Inr Cons.prems show ?thesis by auto
      qed
    next
      case True
      obtain res0 where run: "records_loop env aio now names st = (res0, st')"
        using Cons.prems(1) Inr True by (auto split: prod.splits sum.splits)
      have res: "res = (case res0 of Inl e \<Rightarrow> Inl e | Inr rs \<Rightarrow> Inr (r # rs))"
        using Cons.prems(1) Inr True run by (auto split: sum.splits)
      have ih: "distinct (map fst st') \<and> approved_count d st' \<le> approved_count d st \<and>
          (\<forall>k. k \<notin> set names \<longrightarrow> map_of st' k = map_of st k) \<and>
          (\<forall>rs r. res0 = Inr rs \<longrightarrow> r \<in> set rs \<longrightarrow>
             aqID r \<in> set names \<and> map_of st (aqID r) = Some (Some r) \<and>
             map_of st' (aqID r) = Some (Some r) \<and>
             now < aqExpires r \<and> aqDigest r = aeDigest env (aqAction r) \<and>
             action_valid (aeUtf8 env) (aqAction r))"
        using Cons.IH [OF run] Cons.prems(2,3) by simp
      have "map_of st' ident = Some (Some r)" using ih Cons.prems(2) l(1) by simp
      with ih l True res show ?thesis by (auto split: sum.splits)
    qed
  qed
qed auto

lemma action_records_spec:
  assumes "action_records env aio now st = (res, st')" and "distinct (map fst st)"
  shows "distinct (map fst st')" and "approved_count d st' \<le> approved_count d st"
    and "res = Inr rs \<Longrightarrow> r \<in> set rs \<Longrightarrow>
        map_of st (aqID r) = Some (Some r) \<and> map_of st' (aqID r) = Some (Some r) \<and> now < aqExpires r \<and>
        aqDigest r = aeDigest env (aqAction r) \<and> action_valid (aeUtf8 env) (aqAction r)"
  using records_loop_spec [of env aio now "sort (map fst st)" st res st'] assms
  by (auto simp: action_records_def)

section \<open>Every use was authorized\<close>

datatype action_op =
    OpCreate action_io action time
  | OpAuthorize action_io string string string time "(action_request \<Rightarrow> bool) option"
  | OpRevoke action_io string
  | OpConsume action_io action time

fun action_step :: "action_env \<Rightarrow> action_op \<Rightarrow> action_store \<Rightarrow> string ledger_event \<times> action_store" where
  "action_step env (OpCreate aio a now) st = (NoEvent, snd (action_Create env aio a now st))"
| "action_step env (OpAuthorize aio ident digest transport now audit) st =
     (case AuthorizeWithAudit env aio ident digest transport now audit st of
        (None, st') \<Rightarrow> (Authorized digest 1, st')
      | (Some _, st') \<Rightarrow> (NoEvent, st'))"
| "action_step env (OpRevoke aio ident) st = (NoEvent, snd (action_Revoke env aio ident st))"
| "action_step env (OpConsume aio a now) st =
     (case action_Consume env aio a now st of
        (Inr (Some r), st') \<Rightarrow> (Spent (aeDigest env a), st')
      | (_, st') \<Rightarrow> (NoEvent, st'))"

lemma write_count:
  assumes "distinct (map fst st)"
  shows "distinct (map fst (snd (action_write aio r st)))"
    and "approved_count d (snd (action_write aio r st)) \<le>
         approved_count d st + (if fst (action_write aio r st) then approved_entry d (Some r) else 0)"
    and "fst (action_write aio r st) \<Longrightarrow> map_of st (aqID r) = Some x \<Longrightarrow>
         approved_count d (snd (action_write aio r st)) + approved_entry d x =
         approved_count d st + approved_entry d (Some r)"
  using assms approved_count_upd [OF assms, of d "aqID r" "Some r"]
  by (auto simp: action_write_def distinct_upd_assoc split: if_splits)

lemma approved_entry_status [simp]:
  "aqStatus q \<noteq> ''approved'' \<Longrightarrow> approved_entry d (Some q) = 0"
  "aqDigest q \<noteq> d \<Longrightarrow> approved_entry d (Some q) = 0"
  by (simp_all add: approved_entry_def)

lemma approved_entry_le: "approved_entry d e \<le> 1"
  by (simp add: approved_entry_def split: option.split)

lemma Create_count:
  assumes "distinct (map fst st)"
  shows "distinct (map fst (snd (action_Create env aio a now st))) \<and>
         approved_count d (snd (action_Create env aio a now st)) \<le> approved_count d st"
proof -
  obtain res st1 where rec: "action_records env aio now st = (res, st1)" by fastforce
  note r = action_records_spec(1,2) [OF rec assms]
  have w: "distinct (map fst (snd (action_write aio q st1))) \<and>
      approved_count d (snd (action_write aio q st1)) \<le> approved_count d st"
    if "aqStatus q = ''pending''" for q
    using write_count(1) [OF r(1), of aio q] write_count(2) [OF r(1), of d aio q] r(2) [of d] that
    by (simp split: if_split_asm)
  have "snd (action_Create env aio a now st) \<in> {st, st1} \<or>
      (\<exists>q. aqStatus q = ''pending'' \<and> snd (action_Create env aio a now st) = snd (action_write aio q st1))"
  proof (cases "aioRandom aio")
    case None
    then show ?thesis by (simp add: action_Create_def rec split: sum.split option.split)
  next
    case (Some ident)
    let ?q = "\<lparr>aqID = ident, aqAction = a, aqDigest = aeDigest env a, aqIssued = now,
      aqExpires = now + TTL, aqStatus = ''pending'', aqTransport = ''''\<rparr>"
    have "snd (action_Create env aio a now st) \<in> {st, st1, snd (action_write aio ?q st1)}"
      by (simp add: action_Create_def rec Some Let_def case_prod_beta
          split: sum.split option.split bool.split)
    moreover have "aqStatus ?q = ''pending''" by simp
    ultimately show ?thesis by blast
  qed
  then show ?thesis using r(1) r(2) [of d] w assms by auto
qed

text \<open>An authorization fails and leaves the store alone, or it writes the approved record.\<close>

definition approved_record :: "string \<Rightarrow> action_request \<Rightarrow> action_request" where
  "approved_record transport r = r\<lparr>aqStatus := ''approved'', aqTransport := transport\<rparr>"

lemma AuthorizeWithAudit_cases:
  obtains e where "AuthorizeWithAudit env aio ident digest transport now audit st = (Some e, st)"
  | r where "action_load env st ident = Inr r" "aqDigest r = digest" "aqStatus r = ''pending''"
      "now < aqExpires r" "action_transport transport"
      "AuthorizeWithAudit env aio ident digest transport now audit st =
        (if fst (action_write aio (approved_record transport r) st) then None else Some ActionWriteFailed,
         snd (action_write aio (approved_record transport r) st))"
proof (cases "action_load env st ident")
  case (Inl e)
  then have "\<exists>e. AuthorizeWithAudit env aio ident digest transport now audit st = (Some e, st)"
    by (simp add: AuthorizeWithAudit_def)
  then show ?thesis using that(1) by blast
next
  case (Inr r)
  let ?w = "action_write aio (approved_record transport r) st"
  show ?thesis
  proof (cases "action_transport transport \<and> aioLocked aio \<and> aqDigest r = digest \<and>
      aqStatus r = ''pending'' \<and> now < aqExpires r \<and>
      (\<exists>f. audit = Some f \<and> f (approved_record transport r))")
    case True
    then obtain f where "audit = Some f" "f (approved_record transport r)" by blast
    with True Inr have "AuthorizeWithAudit env aio ident digest transport now audit st =
        (if fst ?w then None else Some ActionWriteFailed, snd ?w)"
      by (simp add: AuthorizeWithAudit_def Let_def approved_record_def case_prod_beta split: bool.split)
    with True Inr show ?thesis by (intro that(2)) auto
  next
    case False
    then have "\<exists>e. AuthorizeWithAudit env aio ident digest transport now audit st = (Some e, st)"
      using Inr by (cases audit) (auto simp: AuthorizeWithAudit_def Let_def approved_record_def)
    then show ?thesis using that(1) by blast
  qed
qed

lemma Authorize_count:
  assumes "AuthorizeWithAudit env aio ident digest transport now audit st = (err, st')"
    and "distinct (map fst st)"
  shows "distinct (map fst st') \<and>
         approved_count d st' \<le> approved_count d st + (if err = None \<and> digest = d then 1 else 0)"
proof (rule AuthorizeWithAudit_cases [of env aio ident digest transport now audit st])
  fix r
  assume dig: "aqDigest r = digest"
    and run: "AuthorizeWithAudit env aio ident digest transport now audit st =
      (if fst (action_write aio (approved_record transport r) st) then None else Some ActionWriteFailed,
       snd (action_write aio (approved_record transport r) st))"
  let ?r = "approved_record transport r"
  have "aqDigest ?r = digest" using dig by (simp add: approved_record_def)
  then show ?thesis
    using run assms(1) write_count(1) [OF assms(2), of aio ?r] write_count(2) [OF assms(2), of d aio ?r]
      approved_entry_le [of d "Some ?r"]
    by (auto split: if_splits)
qed (use assms in auto)

lemma Revoke_count:
  assumes "distinct (map fst st)"
  shows "distinct (map fst (snd (action_Revoke env aio ident st))) \<and>
         approved_count d (snd (action_Revoke env aio ident st)) \<le> approved_count d st"
proof (cases "action_load env st ident")
  case (Inr r)
  let ?r = "r\<lparr>aqStatus := ''revoked''\<rparr>"
  show ?thesis
    using assms write_count(1) [OF assms, of aio ?r] write_count(2) [OF assms, of d aio ?r]
    by (auto simp: action_Revoke_def Inr case_prod_beta split: bool.split if_split_asm)
qed (use assms in \<open>auto simp: action_Revoke_def\<close>)

text \<open>A spent use removes one approval; the record it spent is the one it matched.\<close>

lemma Consume_count:
  assumes "distinct (map fst st)"
  shows "distinct (map fst (snd (action_Consume env aio a now st))) \<and>
         approved_count d (snd (action_Consume env aio a now st)) +
           (if (\<exists>r. fst (action_Consume env aio a now st) = Inr (Some r)) \<and> aeDigest env a = d
            then 1 else 0) \<le> approved_count d st"
proof -
  obtain res st1 where rec: "action_records env aio now st = (res, st1)" by fastforce
  note r = action_records_spec(1,2) [OF rec assms]
  show ?thesis
  proof (cases "action_valid (aeUtf8 env) a \<and> aioLocked aio \<and>
      (\<exists>rs q. res = Inr rs \<and> find (approved_for env a) rs = Some q)")
    case False
    then show ?thesis
      using r(1) r(2) [of d] assms
      by (auto simp: action_Consume_def rec Let_def split: sum.split option.split)
  next
    case True
    then obtain rs q where res: "res = Inr rs" and f: "find (approved_for env a) rs = Some q" by blast
    let ?q = "q\<lparr>aqStatus := ''consumed''\<rparr>"
    have q: "q \<in> set rs" "approved_for env a q" using f find_in_set by metis+
    have m: "map_of st1 (aqID ?q) = Some (Some q)"
      using action_records_spec(3) [OF rec assms res q(1)] by simp
    have run: "action_Consume env aio a now st =
        (if fst (action_write aio ?q st1) then Inr (Some ?q) else Inl ActionWriteFailed,
         snd (action_write aio ?q st1))"
      using True res f by (simp add: action_Consume_def rec Let_def case_prod_beta split: bool.split)
    have one: "aeDigest env a = d \<longrightarrow> approved_entry d (Some q) = 1"
      using q(2) by (simp add: approved_for_def approved_entry_def)
    show ?thesis
      using write_count(1) [OF r(1), of aio ?q] write_count(2) [OF r(1), of d aio ?q]
        write_count(3) [OF r(1) _ m, of aio d] r(2) [of d] one
      by (auto simp: run split: if_split_asm)
  qed
qed

interpretation actions: ledger "action_step env" approved_count "\<lambda>st. distinct (map fst st)" for env
proof
  fix st op ev st' k
  assume d: "distinct (map fst st)" and run: "action_step env op st = (ev, st')"
  show "distinct (map fst st') \<and>
      approved_count k st' + spent_by k ev \<le> approved_count k st + authorized_by k ev"
  proof (cases op)
    case (OpAuthorize aio ident digest transport now audit)
    then show ?thesis
      using run Authorize_count [OF _ d, of env aio ident digest transport now audit _ _ k]
      by (auto split: prod.splits option.splits if_splits)
  next
    case (OpConsume aio a now)
    then show ?thesis
      using run Consume_count [OF d, of env aio a now k]
      by (auto split: prod.splits option.splits sum.splits)
  next
    case (OpCreate aio a now)
    then show ?thesis using run Create_count [OF d, of env aio a now k] by auto
  next
    case (OpRevoke aio ident)
    then show ?thesis using run Revoke_count [OF d, of env aio ident k] by auto
  qed
qed

text \<open>C13: Every use of an exact-action grant was authorized: over any sequence of store operations from
  an empty store, whatever fails on the way, the uses spent for an action are at most the
  authorizations that were recorded for it.\<close>

theorem action_uses_authorized:
  "spent_uses d (fst (ledger_run (action_step env) ops [])) \<le>
   authorized_uses d (fst (ledger_run (action_step env) ops []))"
  by (rule actions.spent_le_authorized) (simp_all add: approved_count_def)

section \<open>What an allow by an exact-action grant means\<close>

lemma action_Consume_spent:
  assumes "action_Consume env aio a now st = (Inr (Some r), st')" and "distinct (map fst st)"
  shows "\<exists>q. map_of st (aqID r) = Some (Some q) \<and> approved_for env a q \<and> now < aqExpires q \<and>
           aeDigest env (aqAction q) = aeDigest env a \<and>
           map_of st' (aqID r) = Some (Some (q\<lparr>aqStatus := ''consumed''\<rparr>))"
proof -
  obtain res st1 where rec: "action_records env aio now st = (res, st1)" by fastforce
  from assms(1) obtain rs q where res: "res = Inr rs" and f: "find (approved_for env a) rs = Some q"
    and r: "r = q\<lparr>aqStatus := ''consumed''\<rparr>" and w: "action_write aio r st1 = (True, st')"
    by (auto simp: action_Consume_def rec Let_def split: if_splits sum.splits option.splits prod.splits
        bool.splits)
  have q: "q \<in> set rs" "approved_for env a q" using f find_in_set by metis+
  have m: "map_of st (aqID q) = Some (Some q) \<and> now < aqExpires q \<and>
      aqDigest q = aeDigest env (aqAction q)"
    using action_records_spec(3) [OF rec assms(2) res q(1)] by simp
  have "map_of st' (aqID r) = Some (Some r)" using w by (auto simp: action_write_def split: if_splits)
  with m q(2) show ?thesis by (auto simp: r approved_for_def)
qed

lemma exactActionVerdict_effect:
  assumes "exactActionVerdict env patchCommand dirOk aioC aioN nowC nowN tc v st = (Inr (v', spent), st')"
    and "distinct (map fst st)"
  shows "(\<not> spent \<and> (\<exists>i. v' = v\<lparr>vRequestID := i\<rparr>)) \<or>
         (spent \<and> vDecision v = Ask \<and> \<not> NeverGrantable (vRuleID v) \<and> vDecision v' = Allow \<and>
          vOriginRuleID v' = vRuleID v \<and>
          (\<exists>a q. ExactGrantAction patchCommand tc v = Some a \<and>
             map_of st (vRequestID v') = Some (Some q) \<and> approved_for env a q \<and> nowC < aqExpires q \<and>
             aeDigest env (aqAction q) = aeDigest env a \<and>
             map_of st' (vRequestID v') = Some (Some (q\<lparr>aqStatus := ''consumed''\<rparr>))))"
proof (cases "ExactGrantAction patchCommand tc v")
  case None
  then have "v' = v\<lparr>vRequestID := vRequestID v\<rparr> \<and> \<not> spent"
    using assms(1) by (simp add: exactActionVerdict_def)
  then show ?thesis by blast
next
  case (Some a)
  have el: "vDecision v = Ask \<and> \<not> NeverGrantable (vRuleID v)"
    using Some by (auto simp: ExactGrantAction_def split: if_splits)
  obtain cres st1 where c: "action_Consume env aioC a nowC st = (cres, st1)" by fastforce
  show ?thesis
  proof (cases "\<exists>r. cres = Inr (Some r)")
    case True
    then obtain r where r: "cres = Inr (Some r)" by blast
    with assms(1) Some c have out: "spent" "st' = st1"
      "v' = (relaxed GrantRuleID ''allowed once by an operator-issued grant for this exact action'' v)
         \<lparr>vRequestID := aqID r\<rparr>"
      by (auto simp: exactActionVerdict_def split: if_splits)
    from action_Consume_spent [OF c [unfolded r] assms(2)] obtain q where
      q: "map_of st (aqID r) = Some (Some q)" "approved_for env a q" "nowC < aqExpires q"
      "aeDigest env (aqAction q) = aeDigest env a"
      "map_of st1 (aqID r) = Some (Some (q\<lparr>aqStatus := ''consumed''\<rparr>))" by blast
    show ?thesis using el Some q out by simp
  next
    case False
    then show ?thesis
      using assms(1) Some c
      by (auto simp: exactActionVerdict_def split: if_splits sum.splits option.splits prod.splits)
  qed
qed

text \<open>An exact-action grant changes only an ask, and only when it was paid for: the step leaves the
  verdict as it was apart from the request id, or it turns an ask that may be granted into an allow
  naming the rule it answered, and then the store held an approved, unexpired record with a
  supported transport and the same digest, which is now marked consumed.\<close>

lemma exactActionVerdict_paid:
  assumes "exactActionVerdict env patchCommand dirOk aioC aioN nowC nowN tc v st = (Inr (v', spent), st')"
    and "distinct (map fst st)"
  shows "(\<not> spent \<and> (\<exists>i. v' = v\<lparr>vRequestID := i\<rparr>)) \<or>
         (spent \<and> vDecision v = Ask \<and> \<not> NeverGrantable (vRuleID v) \<and> vDecision v' = Allow \<and>
          vOriginRuleID v' = vRuleID v \<and>
          (\<exists>a q. ExactGrantAction patchCommand tc v = Some a \<and>
             map_of st (vRequestID v') = Some (Some q) \<and> approved_for env a q \<and> nowC < aqExpires q \<and>
             aeDigest env (aqAction q) = aeDigest env a \<and>
             map_of st' (vRequestID v') = Some (Some (q\<lparr>aqStatus := ''consumed''\<rparr>))))"
  using assms by (rule exactActionVerdict_effect)

definition demo_env :: action_env where
  "demo_env = \<lparr>aeDigest = acText, aeUtf8 = (\<lambda>_. True)\<rparr>"

definition demo_aio :: action_io where
  "demo_aio = \<lparr>aioLocked = True, aioRemove = (\<lambda>_. True), aioWrite = True,
     aioRandom = Some (replicate 64 CHR ''b'')\<rparr>"

definition codex_call :: tool_call where
  "codex_call =
     \<lparr>tcPlane = ''codex'', tcEvent = ''pre'', tcTool = ''Bash'', tcNativeTool = ''shell'',
      tcContractTool = ''shell'', tcCapability = CapabilityCommand, tcNativeWebResearch = False,
      tcURL = '''', tcInputShape = '''', tcCommand = ''make deploy'', tcShell = '''', tcPaths = [],
      tcArguments = '''', tcSessionID = ''s1'', tcCallID = '''', tcHostApproved = False,
      tcCWD = ''/repo'', tcRepoRoot = ''/repo'', tcPermittedRoots = [], tcDegradedAllows = []\<rparr>"

definition codex_ask :: verdict where
  "codex_ask = mk_verdict Ask ''R1'' ''deploys''"

definition granted_store :: action_store where
  "granted_store =
     snd (ledger_run (action_step demo_env)
       [OpCreate demo_aio (the (ExactGrantAction (\<lambda>_. None) codex_call codex_ask)) 1000,
        OpAuthorize demo_aio (replicate 64 CHR ''b'') ''make deploy'' ''terminal-prompt'' 1001 (Some (\<lambda>_. True))] [])"

end
