(* ===== verification/Broker.thy ===== *)
theory Broker
  imports Action_Grants
begin

text \<open>
  The approval broker: \<^verbatim>\<open>src/internal/approval/broker.go\<close>.

  The broker's requests live in the session store under one fixed session id; every operation is a
  callback on that state, run by \<open>Transaction\<close>.  The digest of a text, the local clock behind a
  night-mode expiry and the handlers of the actions are arguments.  A nil map and an empty map are
  the same empty list.

  An approval is two transactions around the handler.  The theorems are about sequences of these
  transactions in any order: a settled request stays settled, a handler starts only for a pending,
  unexpired request whose scope was approved, and it starts at most once per filing or recovery.
\<close>

section \<open>Requests\<close>

definition requestSessionID :: string where
  "requestSessionID = ''guardrail-approval-broker-v1''"

definition requestTTL :: int where "requestTTL = minutes 15"

definition maxRequests :: nat where "maxRequests = 128"

datatype broker_error =
    BrNotFound
  | BrConsumed
  | BrExpired
  | BrScope
  | BrMalformed
  | BrStoreFull
  | BrCollision
  | BrNoRandom
  | BrActionFailed

record broker_request =
  brID :: string
  brPlane :: string
  brSessionID :: string
  brRepoRoot :: string
  brHost :: string
  brScope :: string
  brReason :: string
  brAction :: string
  brParameters :: "(string \<times> string) list"
  brIssuedAt :: time
  brExpiresAt :: time
  brStatus :: string
  brTransport :: string
  brCredentialFingerprint :: string
  brApprovalURL :: string

definition br_param :: "broker_request \<Rightarrow> string \<Rightarrow> string" where
  "br_param r k = lookup_default '''' (brParameters r) k"

section \<open>Validation\<close>

definition planeNames :: "string list" where
  "planeNames = [''claude'', ''opencode'', ''antigravity'', ''codex'']"

text \<open>\<^verbatim>\<open>planeSet\<close>: \<open>within = None\<close> is the nil map.\<close>

definition planeSet :: "string \<Rightarrow> string list option \<Rightarrow> string list option" where
  "planeSet planes within =
     (if planes = '''' then None
      else (let ps = split_on CHR '','' planes
            in if list_all (\<lambda>p. p \<in> set planeNames \<and>
                      (case within of None \<Rightarrow> True | Some ws \<Rightarrow> p \<in> set ws)) ps
               then Some ps else None))"

definition plane_parameter :: "string \<Rightarrow> string list \<Rightarrow> string \<times> string \<Rightarrow> bool" where
  "plane_parameter action planes kv =
     (case kv of (key, value) \<Rightarrow>
        if key = ''planes'' then True
        else if key = ''reconcile_ownership'' then
          action = ''plane-enable'' \<and> planeSet value (Some planes) \<noteq> None
        else if key = ''prune_floor'' then
          action = ''plane-enable'' \<and>
          (case planeSet value (Some planes) of
             None \<Rightarrow> False
           | Some sub \<Rightarrow> list_all (\<lambda>p. p = ''claude'' \<or> p = ''opencode'') sub)
        else False)"

definition validPlaneList :: "string \<Rightarrow> (string \<times> string) list \<Rightarrow> bool" where
  "validPlaneList action params =
     (case planeSet (lookup_default '''' params ''planes'') None of
        None \<Rightarrow> False
      | Some planes \<Rightarrow> list_all (plane_parameter action planes) params)"

definition validRecoverRepair :: "(string \<times> string) list \<Rightarrow> bool" where
  "validRecoverRepair params \<longleftrightarrow>
     length params = 1 \<and>
     lookup_default '''' params ''repair'' \<in>
       set [''claude-settings'', ''opencode-config'', ''antigravity-hooks'']"

definition validWebHostParameters :: "broker_request \<Rightarrow> bool" where
  "validWebHostParameters r \<longleftrightarrow>
     length (brParameters r) = 2 \<and>
     (br_param r ''scope'' = ''repo'' \<or> br_param r ''scope'' = ''global'') \<and>
     br_param r ''scope'' = brScope r \<and>
     br_param r ''hosts'' \<noteq> '''' \<and>
     list_all (\<lambda>h. ValidateWebHost h = None) (split_on CHR '','' (br_param r ''hosts''))"

definition brokerActions :: "string list" where
  "brokerActions = [''night-on'', ''night-off'', ''web-host-grant'', ''web-host-revoke'', ''plane-enable'',
     ''plane-disable'', ''recover'', ''web-research-set'', ''exact-action-grant'']"

text \<open>\<open>readAction\<close> is the read of the exact-action store at the time of the request.\<close>

definition exact_action_request ::
  "(string \<Rightarrow> action_error + action_request) \<Rightarrow> broker_request \<Rightarrow> bool" where
  "exact_action_request readAction r \<longleftrightarrow>
     brPlane r = ''operator'' \<and> brScope r = ''once'' \<and> brHost r = '''' \<and> length (brParameters r) = 2 \<and>
     (case readAction (br_param r ''record'') of
        Inl _ \<Rightarrow> False
      | Inr pending \<Rightarrow>
          aqStatus pending = ''pending'' \<and> aqDigest pending = br_param r ''digest'' \<and>
          acRepo (aqAction pending) = brRepoRoot r \<and> \<not> time_is_zero (brExpiresAt r) \<and>
          \<not> brExpiresAt r > aqExpires pending)"

definition validateRequest ::
  "(string \<Rightarrow> action_error + action_request) \<Rightarrow> broker_request \<Rightarrow> bool" where
  "validateRequest readAction r =
     (if brPlane r = '''' \<or> brSessionID r = '''' \<or> \<not> is_abs (brRepoRoot r) \<or> brScope r = '''' \<or>
         brReason r = '''' then False
      else if brHost r \<noteq> '''' \<and> ValidateWebHost (brHost r) \<noteq> None then False
      else if brAction r \<noteq> '''' \<and> brAction r \<notin> set brokerActions then False
      else if brAction r = ''exact-action-grant'' \<and> \<not> exact_action_request readAction r then False
      else if brAction r = ''night-on'' \<and> (length (brParameters r) \<noteq> 1 \<or> br_param r ''until'' = '''')
      then False
      else if (brAction r = ''web-host-grant'' \<or> brAction r = ''web-host-revoke'') \<and>
              \<not> validWebHostParameters r then False
      else if (brAction r = ''plane-enable'' \<or> brAction r = ''plane-disable'') \<and>
              \<not> validPlaneList (brAction r) (brParameters r) then False
      else if brAction r = ''recover'' \<and> \<not> validRecoverRepair (brParameters r) then False
      else if brAction r = ''web-research-set'' \<and>
              (brPlane r \<noteq> ''operator'' \<or> brScope r \<noteq> ''global'' \<or> brHost r \<noteq> '''' \<or>
               length (brParameters r) \<noteq> 1 \<or>
               (br_param r ''enforcement'' \<noteq> ''on'' \<and> br_param r ''enforcement'' \<noteq> ''off''))
      then False
      else True)"

section \<open>The durable form\<close>

definition kept_parameters :: "broker_request \<Rightarrow> (string \<times> string) list" where
  "kept_parameters r =
     (let a = brAction r; p = br_param r; k = (\<lambda>n. (n, p n))
      in if a = ''exact-action-grant'' then [k ''record'', k ''digest'']
         else if a = ''web-research-set'' then [k ''enforcement'']
         else if a = ''night-on'' then (if p ''expires_at'' \<noteq> '''' then [k ''expires_at''] else [])
         else if a = ''web-host-grant'' \<or> a = ''web-host-revoke'' then
           [(''scope'', brScope r), k ''hosts'']
         else if a = ''recover'' then [k ''repair'']
         else if a = ''plane-enable'' \<or> a = ''plane-disable'' then
           k ''planes'' # map k (filter (\<lambda>n. p n \<noteq> '''') [''reconcile_ownership'', ''prune_floor''])
         else [])"

definition durable :: "(string \<Rightarrow> string) \<Rightarrow> broker_request \<Rightarrow> approval_request" where
  "durable digest r =
     \<lparr>arID = brID r, arPlane = brPlane r, arSessionDigest = digest (brSessionID r),
      arRepoRoot = clean (brRepoRoot r), arHost = brHost r, arScope = brScope r,
      arReasonDigest = digest (brReason r), arAction = brAction r, arParameters = kept_parameters r,
      arIssuedAt = brIssuedAt r, arExpiresAt = brExpiresAt r, arStatus = brStatus r\<rparr>"

definition restore :: "approval_request \<Rightarrow> broker_request" where
  "restore r =
     \<lparr>brID = arID r, brPlane = arPlane r, brSessionID = '''', brRepoRoot = arRepoRoot r,
      brHost = arHost r, brScope = arScope r, brReason = ''operator action request'',
      brAction = arAction r, brParameters = arParameters r, brIssuedAt = arIssuedAt r,
      brExpiresAt = arExpiresAt r, brStatus = arStatus r, brTransport = '''',
      brCredentialFingerprint = '''', brApprovalURL = ''''\<rparr>"

section \<open>Operations on the records\<close>

type_synonym broker_records = "(string \<times> approval_request) list"

definition broker_prune :: "time \<Rightarrow> broker_records \<Rightarrow> broker_records" where
  "broker_prune now rs =
     map (\<lambda>(i, r). (i, if arStatus r = ''pending'' \<and> \<not> arExpiresAt r > now
                       then r\<lparr>arStatus := ''expired''\<rparr> else r)) rs"

text \<open>\<^verbatim>\<open>Create\<close> up to its transaction: the completed request, or an error.\<close>

definition prepared_request ::
  "(string \<Rightarrow> action_error + action_request) \<Rightarrow> (string \<Rightarrow> time \<Rightarrow> string option) \<Rightarrow> string option \<Rightarrow> time \<Rightarrow>
   broker_request \<Rightarrow> broker_error + broker_request" where
  "prepared_request readAction nightExpiry random now r =
     (if \<not> validateRequest readAction r then Inl BrMalformed
      else and_then
        (if brAction r = ''night-on'' then
           (case nightExpiry (br_param r ''until'') now of
              None \<Rightarrow> Inl BrMalformed
            | Some e \<Rightarrow> Inr (r\<lparr>brParameters := [(''expires_at'', e)]\<rparr>))
         else Inr r)
        (\<lambda>r1. and_then
           (if brID r1 = '''' then
              (case random of None \<Rightarrow> Inl BrNoRandom | Some i \<Rightarrow> Inr (r1\<lparr>brID := i\<rparr>))
            else Inr r1)
           (\<lambda>r2. if time_is_zero (brExpiresAt r2)
                 then Inr (r2\<lparr>brExpiresAt := now + requestTTL, brIssuedAt := now, brStatus := ''pending''\<rparr>)
                 else if brExpiresAt r2 > now + requestTTL then Inl BrMalformed
                 else Inr (r2\<lparr>brIssuedAt := now, brStatus := ''pending''\<rparr>))))"

definition create_callback ::
  "(string \<Rightarrow> string) \<Rightarrow> time \<Rightarrow> broker_request \<Rightarrow> broker_records \<Rightarrow> broker_error option \<times> broker_records" where
  "create_callback digest now r rs =
     (let rs' = broker_prune now rs
      in if length rs' \<ge> maxRequests then (Some BrStoreFull, rs')
         else if map_of rs' (brID r) \<noteq> None then (Some BrCollision, rs')
         else (None, upd_assoc (brID r) (durable digest r) rs'))"

definition pending_request ::
  "broker_records \<Rightarrow> string \<Rightarrow> string \<Rightarrow> time \<Rightarrow> (broker_error + approval_request) \<times> broker_records" where
  "pending_request rs ident scope now =
     (case map_of rs ident of
        None \<Rightarrow> (Inl BrNotFound, rs)
      | Some r \<Rightarrow>
          if arStatus r \<noteq> ''pending'' then (Inl BrConsumed, rs)
          else if \<not> arExpiresAt r > now then
            (Inl BrExpired, upd_assoc ident (r\<lparr>arStatus := ''expired''\<rparr>) rs)
          else if arScope r \<noteq> scope then (Inl BrScope, rs)
          else (Inr r, rs))"

definition begin_callback ::
  "string \<Rightarrow> string \<Rightarrow> time \<Rightarrow> broker_records \<Rightarrow> broker_error option \<times> broker_records" where
  "begin_callback ident scope now rs =
     (case pending_request rs ident scope now of
        (Inl e, rs') \<Rightarrow> (Some e, rs')
      | (Inr r, rs') \<Rightarrow> (None, upd_assoc ident (r\<lparr>arStatus := ''executing''\<rparr>) rs'))"

definition transition_callback ::
  "string \<Rightarrow> string \<Rightarrow> broker_records \<Rightarrow> broker_error option \<times> broker_records" where
  "transition_callback ident status rs =
     (case map_of rs ident of
        None \<Rightarrow> (Some BrNotFound, rs)
      | Some r \<Rightarrow>
          if arStatus r \<noteq> ''pending'' \<and> arStatus r \<noteq> ''executing'' then (Some BrConsumed, rs)
          else (None, upd_assoc ident (r\<lparr>arStatus := status\<rparr>) rs))"

definition recover_callback :: "time \<Rightarrow> broker_records \<Rightarrow> broker_error option \<times> broker_records" where
  "recover_callback now rs =
     (None, map (\<lambda>(i, r). (i, if arStatus r = ''executing'' then r\<lparr>arStatus := ''pending''\<rparr> else r))
        (broker_prune now rs))"

definition request_callback :: "string \<Rightarrow> time \<Rightarrow> broker_records \<Rightarrow> broker_error option \<times> broker_records" where
  "request_callback ident now rs =
     (let rs' = broker_prune now rs
      in (if map_of rs' ident = None then Some BrNotFound else None, rs'))"

definition hasPending :: "time \<Rightarrow> broker_records \<Rightarrow> bool" where
  "hasPending now rs =
     list_ex (\<lambda>(i, r). arStatus r = ''pending'' \<or> arStatus r = ''executing'') (broker_prune now rs)"

definition Pending :: "time \<Rightarrow> broker_records \<Rightarrow> broker_request list" where
  "Pending now rs =
     sort_key brIssuedAt
       (map restore (filter (\<lambda>r. arStatus r = ''pending'') (map snd (broker_prune now rs))))"

section \<open>Operations on the store\<close>

text \<open>A callback on the records as a callback on the session state, and its transaction.\<close>

definition on_requests ::
  "(broker_records \<Rightarrow> 'e option \<times> broker_records) \<Rightarrow> session_state \<Rightarrow> 'e option \<times> session_state" where
  "on_requests f st =
     (case f (ApprovalRequests st) of (e, rs) \<Rightarrow> (e, st\<lparr>ApprovalRequests := rs\<rparr>))"

definition broker_transaction ::
  "(string \<Rightarrow> string) \<Rightarrow> txn_io \<Rightarrow> (broker_records \<Rightarrow> 'e option \<times> broker_records) \<Rightarrow> session_disk \<Rightarrow>
   bool \<times> session_disk" where
  "broker_transaction name tio f d = session_transact name tio requestSessionID (on_requests f) d"

definition broker_view :: "(string \<Rightarrow> string) \<Rightarrow> session_disk \<Rightarrow> broker_records" where
  "broker_view name d = ApprovalRequests (session_view name requestSessionID d)"

section \<open>Approving\<close>

record completion_attribution =
  caTransport :: string
  caCredentialFingerprint :: string

text \<open>What one broker process and the machine hold: the session store, the attributions recorded by
  the browser verification, and everything the handlers act on.\<close>

record 'w broker_world =
  bwDisk :: session_disk
  bwAttribution :: "(string \<times> completion_attribution) list"
  bwMachine :: 'w

definition SetCompletionAttribution ::
  "string \<Rightarrow> completion_attribution \<Rightarrow> 'w broker_world \<Rightarrow> 'w broker_world" where
  "SetCompletionAttribution ident a w =
     (if ident = '''' \<or> caTransport a = '''' \<or> caCredentialFingerprint a = '''' then w
      else w\<lparr>bwAttribution := upd_assoc ident a (bwAttribution w)\<rparr>)"

datatype approve_error =
    StartFailed "broker_error txn_error"
  | ActionNotCompleted
  | CompletionFailed "broker_error txn_error"

definition attributed ::
  "string \<Rightarrow> (string \<times> completion_attribution) list \<Rightarrow> broker_request \<Rightarrow> broker_request" where
  "attributed ident attrs r =
     (case map_of attrs ident of
        None \<Rightarrow> r
      | Some a \<Rightarrow> r\<lparr>brTransport := caTransport a, brCredentialFingerprint := caCredentialFingerprint a\<rparr>)"

definition zero_request :: broker_request where
  "zero_request =
     \<lparr>brID = '''', brPlane = '''', brSessionID = '''', brRepoRoot = '''', brHost = '''', brScope = '''',
      brReason = '''', brAction = '''', brParameters = [], brIssuedAt = 0, brExpiresAt = 0,
      brStatus = '''', brTransport = '''', brCredentialFingerprint = '''', brApprovalURL = ''''\<rparr>"

text \<open>The request the first transaction of \<^verbatim>\<open>Approve\<close> leaves in its variable.\<close>

definition started_request :: "broker_records \<Rightarrow> string \<Rightarrow> string \<Rightarrow> time \<Rightarrow> broker_request" where
  "started_request rs ident scope now =
     (case pending_request rs ident scope now of
        (Inr r, _) \<Rightarrow> restore (r\<lparr>arStatus := ''executing''\<rparr>)
      | (Inl _, _) \<Rightarrow> zero_request)"

text \<open>\<^verbatim>\<open>transition\<close> with its transaction, as \<^verbatim>\<open>complete\<close>, \<^verbatim>\<open>Deny\<close> and \<^verbatim>\<open>Expire\<close> use it.\<close>

definition transition ::
  "(string \<Rightarrow> string) \<Rightarrow> txn_io \<Rightarrow> string \<Rightarrow> string \<Rightarrow> session_disk \<Rightarrow>
   broker_error txn_error option \<times> session_disk" where
  "transition name tio ident status d =
     Transaction name tio requestSessionID (on_requests (transition_callback ident status)) d"

definition Approve ::
  "(string \<Rightarrow> string) \<Rightarrow> txn_io \<Rightarrow> txn_io \<Rightarrow> (string \<Rightarrow> (broker_request \<Rightarrow> 'w \<Rightarrow> bool \<times> 'w) option) \<Rightarrow> time \<Rightarrow>
   string \<Rightarrow> string \<Rightarrow> 'w broker_world \<Rightarrow> approve_error option \<times> 'w broker_world" where
  "Approve name tio1 tio2 handlers now ident scope w =
     (case Transaction name tio1 requestSessionID (on_requests (begin_callback ident scope now)) (bwDisk w) of
        (Some e, d1) \<Rightarrow> (Some (StartFailed e), w\<lparr>bwDisk := d1\<rparr>)
      | (None, d1) \<Rightarrow>
          (let request = attributed ident (bwAttribution w)
                           (started_request (broker_view name (bwDisk w)) ident scope now);
               w1 = w\<lparr>bwDisk := d1, bwAttribution := del_assoc ident (bwAttribution w)\<rparr>
           in if brAction request = '''' then
                (case transition name tio2 ident ''approved'' d1 of
                   (e, d2) \<Rightarrow> (map_option CompletionFailed e, w1\<lparr>bwDisk := d2\<rparr>))
              else (case handlers (brAction request) of
                  None \<Rightarrow> (Some ActionNotCompleted,
                           w1\<lparr>bwDisk := snd (transition name tio2 ident ''denied'' d1)\<rparr>)
                | Some handler \<Rightarrow>
                    (case handler request (bwMachine w) of
                       (False, m) \<Rightarrow> (Some ActionNotCompleted,
                           w1\<lparr>bwDisk := snd (transition name tio2 ident ''denied'' d1), bwMachine := m\<rparr>)
                     | (True, m) \<Rightarrow>
                         (case transition name tio2 ident ''completed'' d1 of
                            (e, d2) \<Rightarrow> (map_option CompletionFailed e,
                                        w1\<lparr>bwDisk := d2, bwMachine := m\<rparr>))))))"

section \<open>What a callback does to one request\<close>

definition settled :: "string \<Rightarrow> bool" where
  "settled status \<longleftrightarrow> status \<noteq> ''pending'' \<and> status \<noteq> ''executing''"

lemma map_of_map_snd: "map_of (map (\<lambda>(i, r). (i, f r)) xs) i = map_option f (map_of xs i)"
  by (induction xs) auto

lemma map_of_prune: "map_of (broker_prune now rs) i =
    map_option (\<lambda>r. if arStatus r = ''pending'' \<and> \<not> arExpiresAt r > now
                    then r\<lparr>arStatus := ''expired''\<rparr> else r) (map_of rs i)"
  unfolding broker_prune_def by (rule map_of_map_snd)

lemma length_prune [simp]: "length (broker_prune now rs) = length rs"
  by (simp add: broker_prune_def)

lemma prune_settled:
  "map_of rs i = Some r \<Longrightarrow> settled (arStatus r) \<Longrightarrow> map_of (broker_prune now rs) i = Some r"
  by (simp add: map_of_prune settled_def)

lemma map_of_recover: "map_of (snd (recover_callback now rs)) i =
    map_option (\<lambda>r. if arStatus r = ''executing'' then r\<lparr>arStatus := ''pending''\<rparr> else r)
      (map_of (broker_prune now rs) i)"
  unfolding recover_callback_def snd_conv by (rule map_of_map_snd)

text \<open>A request is started only while it is pending, unexpired and asked for in the approved scope.\<close>

lemma begin_callback_None:
  assumes "begin_callback ident scope now rs = (None, rs')"
  obtains r where "map_of rs ident = Some r" and "arStatus r = ''pending''" and "arExpiresAt r > now"
    and "arScope r = scope" and "rs' = upd_assoc ident (r\<lparr>arStatus := ''executing''\<rparr>) rs"
proof -
  from assms obtain r where r: "pending_request rs ident scope now = (Inr r, rs)"
    and rs': "rs' = upd_assoc ident (r\<lparr>arStatus := ''executing''\<rparr>) rs"
    unfolding begin_callback_def pending_request_def
    by (simp split: option.split_asm if_split_asm)
  then have "map_of rs ident = Some r \<and> arStatus r = ''pending'' \<and> arExpiresAt r > now \<and>
      arScope r = scope"
    unfolding pending_request_def by (simp split: option.split_asm if_split_asm)
  with rs' that show thesis by blast
qed

lemma begin_callback_started:
  "begin_callback ident scope now rs = (None, rs') \<Longrightarrow>
   map_of rs ident = Some r \<Longrightarrow> started_request rs ident scope now = restore (r\<lparr>arStatus := ''executing''\<rparr>)"
  unfolding begin_callback_def pending_request_def started_request_def
  by (simp split: if_split_asm)

section \<open>Sequences of broker transactions\<close>

text \<open>The operations in the order their transactions take the store lock.  \<open>BrSweep\<close> is the daily
  removal of an untouched session file by a transaction of another session.\<close>

datatype broker_op =
    BrCreate broker_request time
  | BrLook string time
  | BrBegin string string time
  | BrDeny string
  | BrExpire string
  | BrApproved string
  | BrCompleted string
  | BrRecover time
  | BrSweep

fun broker_callback ::
  "(string \<Rightarrow> string) \<Rightarrow> broker_op \<Rightarrow> broker_records \<Rightarrow> broker_error option \<times> broker_records" where
  "broker_callback digest (BrCreate r now) rs = create_callback digest now r rs"
| "broker_callback digest (BrLook ident now) rs = request_callback ident now rs"
| "broker_callback digest (BrBegin ident scope now) rs = begin_callback ident scope now rs"
| "broker_callback digest (BrDeny ident) rs = transition_callback ident ''denied'' rs"
| "broker_callback digest (BrExpire ident) rs = transition_callback ident ''expired'' rs"
| "broker_callback digest (BrApproved ident) rs = transition_callback ident ''approved'' rs"
| "broker_callback digest (BrCompleted ident) rs = transition_callback ident ''completed'' rs"
| "broker_callback digest (BrRecover now) rs = recover_callback now rs"
| "broker_callback digest BrSweep rs = (None, [])"

text \<open>A failed callback changes nothing (\<open>session.failed_callback\<close>).  The events are those of one
  request: a filing and the return of an interrupted execution authorize one start of its handler.\<close>

definition broker_event :: "string \<Rightarrow> broker_op \<Rightarrow> broker_records \<Rightarrow> unit ledger_event" where
  "broker_event ident op rs =
     (case op of
        BrCreate r _ \<Rightarrow> if brID r = ident then Authorized () 1 else NoEvent
      | BrRecover _ \<Rightarrow>
          (case map_of rs ident of
             Some r \<Rightarrow> if arStatus r = ''executing'' then Authorized () 1 else NoEvent
           | None \<Rightarrow> NoEvent)
      | BrBegin i _ _ \<Rightarrow> if i = ident then Spent () else NoEvent
      | _ \<Rightarrow> NoEvent)"

definition broker_step ::
  "(string \<Rightarrow> string) \<Rightarrow> string \<Rightarrow> broker_op \<Rightarrow> broker_records \<Rightarrow> unit ledger_event \<times> broker_records" where
  "broker_step digest ident op rs =
     (case broker_callback digest op rs of
        (Some _, _) \<Rightarrow> (NoEvent, rs)
      | (None, rs') \<Rightarrow> (broker_event ident op rs, rs'))"

definition pending_level :: "string \<Rightarrow> unit \<Rightarrow> broker_records \<Rightarrow> nat" where
  "pending_level ident u rs =
     (case map_of rs ident of Some r \<Rightarrow> if arStatus r = ''pending'' then 1 else 0 | None \<Rightarrow> 0)"

lemma broker_prune_level: "pending_level ident u (broker_prune now rs) \<le> pending_level ident u rs"
  by (auto simp: pending_level_def map_of_prune split: option.splits)

lemma level_le_1: "pending_level ident u rs \<le> 1"
  by (auto simp: pending_level_def split: option.splits)

lemma level_upd: "pending_level ident u (upd_assoc i r rs) =
    (if i = ident then (if arStatus r = ''pending'' then 1 else 0) else pending_level ident u rs)"
  by (simp add: pending_level_def)

lemma transition_callback_None:
  assumes "transition_callback i status rs = (None, rs')"
  obtains r where "map_of rs i = Some r" and "\<not> settled (arStatus r)"
    and "rs' = upd_assoc i (r\<lparr>arStatus := status\<rparr>) rs"
  using assms unfolding transition_callback_def settled_def
  by (auto split: option.split_asm if_split_asm)

lemma transition_level:
  assumes "transition_callback i status rs = (None, rs')" and "status \<noteq> ''pending''"
  shows "pending_level ident u rs' \<le> pending_level ident u rs"
  using assms by (auto elim!: transition_callback_None simp: level_upd)

lemma create_callback_None:
  assumes "create_callback digest now r rs = (None, rs')"
  shows "rs' = upd_assoc (brID r) (durable digest r) (broker_prune now rs) \<and>
    map_of (broker_prune now rs) (brID r) = None \<and> length rs < maxRequests"
  using assms unfolding create_callback_def Let_def by (auto split: if_split_asm)

lemma create_level:
  assumes "create_callback digest now r rs = (None, rs')"
  shows "pending_level ident u rs' \<le> pending_level ident u rs + (if brID r = ident then 1 else 0)"
proof (cases "brID r = ident")
  case True
  then show ?thesis using level_le_1 [of ident u rs'] by simp
next
  case False
  then have "pending_level ident u rs' = pending_level ident u (broker_prune now rs)"
    using create_callback_None [OF assms] by (simp add: level_upd)
  then show ?thesis using broker_prune_level [of ident u now rs] by simp
qed

lemma recover_level:
  assumes "\<And>r. map_of rs ident = Some r \<Longrightarrow> arStatus r \<noteq> ''executing''"
  shows "pending_level ident u (snd (recover_callback now rs)) \<le> pending_level ident u rs"
proof (cases "map_of rs ident")
  case (Some r)
  then show ?thesis using assms
    by (simp add: pending_level_def map_of_recover map_of_prune)
qed (simp add: pending_level_def map_of_recover map_of_prune)

lemma begin_level:
  assumes "begin_callback i scope now rs = (None, rs')"
  shows "pending_level ident u rs' + (if i = ident then 1 else 0) \<le> pending_level ident u rs"
proof -
  obtain r where "map_of rs i = Some r" "arStatus r = ''pending''"
    "rs' = upd_assoc i (r\<lparr>arStatus := ''executing''\<rparr>) rs"
    using begin_callback_None [OF assms] by blast
  then show ?thesis by (auto simp: level_upd pending_level_def)
qed

lemma callback_level:
  assumes "broker_callback digest op rs = (None, rs')"
  shows "pending_level ident k rs' + spent_by k (broker_event ident op rs) \<le>
    pending_level ident k rs + authorized_by k (broker_event ident op rs)"
proof (cases op)
  case (BrCreate r now)
  then show ?thesis
    using assms create_level [of digest now r rs rs' ident k]
    by (simp add: broker_event_def split: if_split_asm)
next
  case (BrLook i now)
  then show ?thesis
    using assms broker_prune_level [of ident k now rs]
    by (simp add: broker_event_def request_callback_def Let_def split: if_split_asm)
next
  case (BrBegin i scope now)
  then show ?thesis
    using assms begin_level [of i scope now rs rs' ident k]
    by (simp add: broker_event_def split: if_split_asm)
next
  case (BrRecover now)
  then have rs': "rs' = snd (recover_callback now rs)" using assms by simp
  show ?thesis
  proof (cases "\<exists>r. map_of rs ident = Some r \<and> arStatus r = ''executing''")
    case True
    then show ?thesis using BrRecover level_le_1 [of ident k rs'] by (auto simp: broker_event_def)
  next
    case False
    then show ?thesis using BrRecover recover_level [of rs ident k now] rs'
      by (auto simp: broker_event_def split: option.split)
  qed
next
  case BrSweep
  then show ?thesis using assms by (auto simp: broker_event_def pending_level_def)
qed (use assms in \<open>auto simp: broker_event_def intro: transition_level\<close>)

interpretation broker: ledger "broker_step digest ident" "pending_level ident" "\<lambda>_. True"
  for digest ident
proof
  fix rs :: broker_records and op ev rs' k
  assume "broker_step digest ident op rs = (ev, rs')"
  then show "True \<and> pending_level ident k rs' + spent_by k ev \<le> pending_level ident k rs + authorized_by k ev"
    using callback_level [of digest op rs "snd (broker_callback digest op rs)" ident k]
    by (auto simp: broker_step_def split: prod.splits option.splits)
qed

text \<open>C19: The broker starts the handler of a request at most once for every time the request was filed or
  came back from an interrupted execution, whatever order the approvals, denials, expiries, lookups
  and recoveries of all requests are run in.\<close>

theorem broker_starts_authorized:
  "spent_uses () (fst (ledger_run (broker_step digest ident) ops [])) \<le>
   authorized_uses () (fst (ledger_run (broker_step digest ident) ops []))"
  by (rule broker.spent_le_authorized) (simp_all add: pending_level_def)

lemma callback_settled:
  assumes "broker_callback digest op rs = (None, rs')" and "op \<noteq> BrSweep"
    and "map_of rs i = Some r" and "settled (arStatus r)"
  shows "map_of rs' i = Some r"
proof -
  have tr: "map_of rs' i = Some r" if t: "transition_callback j status rs = (None, rs')" for j status
  proof -
    obtain q where "map_of rs j = Some q" "\<not> settled (arStatus q)"
      "rs' = upd_assoc j (q\<lparr>arStatus := status\<rparr>) rs"
      using transition_callback_None [OF t] by blast
    then show ?thesis using assms(3,4) by auto
  qed
  have pr: "map_of (broker_prune now rs) i = Some r" for now
    using assms(3,4) by (rule prune_settled)
  show ?thesis
  proof (cases op)
    case (BrCreate q now)
    then show ?thesis using assms(1) pr create_callback_None [of digest now q rs rs'] by auto
  next
    case (BrLook j now)
    then show ?thesis using assms(1) pr [of now]
      by (simp add: request_callback_def Let_def split: if_split_asm)
  next
    case (BrBegin j scope now)
    then obtain q where "map_of rs j = Some q" "arStatus q = ''pending''"
      "rs' = upd_assoc j (q\<lparr>arStatus := ''executing''\<rparr>) rs"
      using assms(1) begin_callback_None [of j scope now rs rs'] by auto
    then show ?thesis using assms(3,4) by (auto simp: settled_def)
  next
    case (BrRecover now)
    then have "rs' = snd (recover_callback now rs)" using assms(1) by simp
    then show ?thesis using assms(4) pr [of now] by (simp add: map_of_recover settled_def)
  qed (use assms(1,2) tr in auto)
qed

lemma step_settled:
  assumes "op \<noteq> BrSweep" and "map_of rs i = Some r" and "settled (arStatus r)"
  shows "map_of (snd (broker_step digest ident op rs)) i = Some r"
  using callback_settled [of digest op rs "snd (broker_callback digest op rs)" i r] assms
  by (auto simp: broker_step_def split: prod.splits option.splits)

text \<open>C31: A request that was approved, completed, denied or expired keeps that outcome and every other
  field under any further sequence of broker operations, as long as the broker's session file is
  kept.\<close>

theorem broker_outcome_final:
  assumes "map_of rs ident = Some r" and "arStatus r \<notin> set [''pending'', ''executing'']"
    and "BrSweep \<notin> set ops"
  shows "map_of (snd (ledger_run (broker_step digest ident) ops rs)) ident = Some r"
  using assms(1)
proof (rule ledger_run_invariant)
  fix op rs'
  assume "op \<in> set ops" and "map_of rs' ident = Some r"
  then show "map_of (snd (broker_step digest ident op rs')) ident = Some r"
    using assms(2,3) by (intro step_settled) (auto simp: settled_def)
qed

theorem broker_outcome_final_witness:
  "map_of (snd (ledger_run (broker_step id ''r1'')
     [BrBegin ''r1'' ''once'' 5, BrRecover 6, BrExpire ''r1'']
     [(''r1'', durable id (zero_request\<lparr>brStatus := ''denied''\<rparr>))])) ''r1'' =
   Some (durable id (zero_request\<lparr>brStatus := ''denied''\<rparr>))"
  by (rule broker_outcome_final) (simp_all add: durable_def)

section \<open>The store fills up\<close>

text \<open>Nothing but the daily sweep of an untouched file removes a record, so a full store refuses every
  later request although none of its records is pending.\<close>

lemma step_length:
  assumes "op \<noteq> BrSweep"
  shows "length rs \<le> length (snd (broker_step digest ident op rs))"
proof -
  have "length rs \<le> length rs'" if "broker_callback digest op rs = (None, rs')" for rs'
    using that assms
    by (cases op) (auto dest!: create_callback_None elim!: begin_callback_None transition_callback_None
        simp: request_callback_def recover_callback_def Let_def length_upd_assoc split: if_split_asm)
  then show ?thesis by (auto simp: broker_step_def split: prod.splits option.splits)
qed

lemma broker_full_stays_full:
  assumes "maxRequests \<le> length rs" and "BrSweep \<notin> set ops"
  shows "fst (create_callback digest now r (snd (ledger_run (broker_step digest ident) ops rs))) =
    Some BrStoreFull"
proof -
  have "maxRequests \<le> length (snd (ledger_run (broker_step digest ident) ops rs))"
    using assms(1)
  proof (rule ledger_run_invariant)
    fix op and rs' :: broker_records
    assume "op \<in> set ops" and "maxRequests \<le> length rs'"
    then show "maxRequests \<le> length (snd (broker_step digest ident op rs'))"
      using assms(2) step_length [of op rs' digest ident] le_trans by blast
  qed
  then show ?thesis by (simp add: create_callback_def Let_def)
qed

section \<open>One approval\<close>

text \<open>A committed broker transaction, in terms of the records.\<close>

lemma requests_commit:
  assumes "Transaction name tio requestSessionID (on_requests f) d = (None, d')"
  shows "fst (f (broker_view name d)) = None \<and>
    broker_view name d' = snd (f (broker_view name d))"
proof -
  have "session_transact name tio requestSessionID (on_requests f) d = (True, d')"
    using assms by (simp add: session_transact_def committed_def)
  then show ?thesis
    using session.commit [where f = "on_requests f" and digest = name and tio = tio and
        sessionID = requestSessionID and d = d]
    by (auto simp: broker_view_def on_requests_def split: prod.splits)
qed

lemma requests_failed:
  assumes "Transaction name tio requestSessionID (on_requests f) d = (Some e, d')"
    and "e \<noteq> TransactionCommitted"
  shows "d' = d"
proof -
  have "session_transact name tio requestSessionID (on_requests f) d = (False, d')"
    using assms by (simp add: session_transact_def committed_def)
  then show ?thesis
    using session.rollback [where f = "on_requests f" and digest = name and tio = tio and
        sessionID = requestSessionID and d = d] by simp
qed

lemma transition_commit:
  assumes "transition name tio ident status d = (None, d')"
  shows "map_option arStatus (map_of (broker_view name d') ident) = Some status"
proof -
  have "transition_callback ident status (broker_view name d) = (None, broker_view name d')"
    using requests_commit [OF assms [unfolded transition_def]] by (simp add: prod_eq_iff)
  then show ?thesis by (elim transition_callback_None) simp
qed

lemma transition_keeps_started:
  assumes "\<exists>r. map_of (broker_view name d) ident = Some r \<and> arStatus r \<noteq> ''pending''"
    and "status \<noteq> ''pending''" and "d' = snd (transition name tio ident status d)"
  shows "\<exists>r. map_of (broker_view name d') ident = Some r \<and> arStatus r \<noteq> ''pending''"
proof -
  let ?f = "on_requests (transition_callback ident status)"
  have d': "d' = snd (session_transact name tio requestSessionID ?f d)"
    using assms(3) by (simp add: transition_def session_transact_def split: prod.split)
  show ?thesis
    unfolding d' broker_view_def
  proof (rule session.preserves)
    fix st
    assume "\<exists>r. map_of (ApprovalRequests st) ident = Some r \<and> arStatus r \<noteq> ''pending''"
      and "fst (?f st) = None"
    then show "\<exists>r. map_of (ApprovalRequests ((snd (?f st))\<lparr>UpdatedAt := tioNow tio\<rparr>)) ident = Some r \<and>
        arStatus r \<noteq> ''pending''"
      using assms(2)
      by (auto simp: on_requests_def transition_callback_def split: option.splits)
  qed (use assms(1) in \<open>simp add: broker_view_def\<close>)
qed

text \<open>Whether the first transaction of \<^verbatim>\<open>Approve\<close> went through, and on which record.\<close>

lemma Approve_start:
  assumes "Transaction name tio1 requestSessionID (on_requests (begin_callback ident scope now)) d = (None, d1)"
  obtains r where "map_of (broker_view name d) ident = Some r" and "arStatus r = ''pending''"
    and "arExpiresAt r > now" and "arScope r = scope"
    and "started_request (broker_view name d) ident scope now = restore (r\<lparr>arStatus := ''executing''\<rparr>)"
    and "map_of (broker_view name d1) ident = Some (r\<lparr>arStatus := ''executing''\<rparr>)"
proof -
  let ?rs = "broker_view name d"
  have b: "begin_callback ident scope now ?rs = (None, snd (begin_callback ident scope now ?rs))"
    using requests_commit [OF assms] by (simp add: prod_eq_iff)
  show thesis
  proof (rule begin_callback_None [OF b])
    fix r
    assume r: "map_of ?rs ident = Some r" "arStatus r = ''pending''" "now < arExpiresAt r" "arScope r = scope"
      and "snd (begin_callback ident scope now ?rs) = upd_assoc ident (r\<lparr>arStatus := ''executing''\<rparr>) ?rs"
    then have "map_of (broker_view name d1) ident = Some (r\<lparr>arStatus := ''executing''\<rparr>)"
      using requests_commit [OF assms] by simp
    with r show thesis using that begin_callback_started [OF b] by blast
  qed
qed

definition start_of ::
  "(string \<Rightarrow> string) \<Rightarrow> 'w broker_world \<Rightarrow> string \<Rightarrow> broker_request option" where
  "start_of name w ident =
     map_option (\<lambda>r. attributed ident (bwAttribution w) (restore (r\<lparr>arStatus := ''executing''\<rparr>)))
       (map_of (broker_view name (bwDisk w)) ident)"

text \<open>A broker with one pending request, for the witnesses.\<close>

definition demo_io :: txn_io where
  "demo_io = \<lparr>tioDirectories = True, tioLocked = True, tioWritten = True, tioUnlocked = True,
     tioStaleV2 = [], tioStaleLegacy = [], tioNow = ''now''\<rparr>"

definition demo_broker :: "string \<Rightarrow> nat broker_world" where
  "demo_broker action =
     \<lparr>bwDisk = \<lparr>sdV2 = [requestSessionID @ ''.json'' \<mapsto> StateFile (zero_state\<lparr>ApprovalRequests :=
          [(''r1'', durable id (zero_request\<lparr>brStatus := ''pending'', brScope := ''allow'',
             brAction := action, brExpiresAt := 9\<rparr>))]\<rparr>)], sdLegacy = (\<lambda>_. None)\<rparr>,
      bwAttribution = [], bwMachine = 0\<rparr>"

lemmas demo_broker_simps = demo_io_def demo_broker_def Approve_def transition_def Transaction_def
  Path_def requestSessionID_def read_state_def broker_view_def session_view_def on_requests_def
  begin_callback_def transition_callback_def pending_request_def started_request_def attributed_def
  durable_def restore_def zero_request_def prune_def Let_def

text \<open>When \<^verbatim>\<open>Approve\<close> reports success, the stored request was pending, had not expired and had
  been filed for exactly the approved scope; unless it carries no action, the registered handler of
  its action was run on exactly the stored request (with the verified attribution) and succeeded;
  and the request is now on record as completed or approved.\<close>

lemma Approve_success:
  assumes "Approve name tio1 tio2 handlers now ident scope w = (None, w')"
  shows "\<exists>r. map_of (broker_view name (bwDisk w)) ident = Some r \<and> arStatus r = ''pending'' \<and>
    now < arExpiresAt r \<and> arScope r = scope \<and>
    (if arAction r = '''' then bwMachine w' = bwMachine w
     else \<exists>h. handlers (arAction r) = Some h \<and>
       h (the (start_of name w ident)) (bwMachine w) = (True, bwMachine w')) \<and>
    map_option arStatus (map_of (broker_view name (bwDisk w')) ident) =
      Some (if arAction r = '''' then ''approved'' else ''completed'')"
proof -
  obtain d1 where d1: "Transaction name tio1 requestSessionID
      (on_requests (begin_callback ident scope now)) (bwDisk w) = (None, d1)"
    using assms by (auto simp: Approve_def split: prod.split_asm option.split_asm)
  obtain r where r: "map_of (broker_view name (bwDisk w)) ident = Some r" "arStatus r = ''pending''"
      "now < arExpiresAt r" "arScope r = scope"
    and start: "started_request (broker_view name (bwDisk w)) ident scope now =
      restore (r\<lparr>arStatus := ''executing''\<rparr>)"
    using Approve_start [OF d1] by blast
  have req: "attributed ident (bwAttribution w) (restore (r\<lparr>arStatus := ''executing''\<rparr>)) =
      the (start_of name w ident)"
    by (simp add: start_of_def r)
  have act: "brAction (the (start_of name w ident)) = arAction r"
    by (simp add: start_of_def r attributed_def restore_def split: option.split)
  show ?thesis
  proof (cases "arAction r = ''''")
    case True
    with assms d1 start req act obtain d2 where
      "transition name tio2 ident ''approved'' d1 = (None, d2)"
      "bwDisk w' = d2" "bwMachine w' = bwMachine w"
      by (auto simp: Approve_def Let_def split: prod.split_asm)
    then show ?thesis using r True transition_commit by auto
  next
    case False
    with assms d1 start req act obtain h m d2 where "handlers (arAction r) = Some h"
      "h (the (start_of name w ident)) (bwMachine w) = (True, m)"
      "transition name tio2 ident ''completed'' d1 = (None, d2)" "bwDisk w' = d2" "bwMachine w' = m"
      by (auto simp: Approve_def Let_def split: prod.split_asm option.split_asm bool.split_asm)
    then show ?thesis using r False transition_commit by auto
  qed
qed

text \<open>Approving changes the machine only through the handler of a request that was pending, had not
  expired and had been filed for the approved scope, and a request whose handler ran is never left
  pending, whether the handler failed or the outcome could not be recorded.\<close>

lemma Approve_effect:
  assumes "Approve name tio1 tio2 handlers now ident scope w = (e, w')"
    and "bwMachine w' \<noteq> bwMachine w"
  shows "(\<exists>r. map_of (broker_view name (bwDisk w)) ident = Some r \<and> arStatus r = ''pending'' \<and>
      now < arExpiresAt r \<and> arScope r = scope) \<and>
    (\<exists>r. map_of (broker_view name (bwDisk w')) ident = Some r \<and> arStatus r \<noteq> ''pending'')"
proof -
  obtain d1 where d1: "Transaction name tio1 requestSessionID
      (on_requests (begin_callback ident scope now)) (bwDisk w) = (None, d1)"
    using assms by (auto simp: Approve_def split: prod.split_asm option.split_asm)
  obtain r where r: "map_of (broker_view name (bwDisk w)) ident = Some r" "arStatus r = ''pending''"
      "now < arExpiresAt r" "arScope r = scope"
    and after: "map_of (broker_view name d1) ident = Some (r\<lparr>arStatus := ''executing''\<rparr>)"
    using Approve_start [OF d1] by blast
  have "\<exists>status\<in>{''denied'', ''completed''}. bwDisk w' = snd (transition name tio2 ident status d1)"
    using assms d1 by (auto simp: Approve_def Let_def split: prod.split_asm option.split_asm
        bool.split_asm if_split_asm)
  then obtain status where status: "status \<in> {''denied'', ''completed''}"
    and disk: "bwDisk w' = snd (transition name tio2 ident status d1)" ..
  have "status \<noteq> ''pending''" using status by auto
  moreover have "\<exists>r. map_of (broker_view name d1) ident = Some r \<and> arStatus r \<noteq> ''pending''"
    using after by simp
  ultimately have "\<exists>r. map_of (broker_view name (bwDisk w')) ident = Some r \<and> arStatus r \<noteq> ''pending''"
    using transition_keeps_started disk by blast
  with r show ?thesis by blast
qed

text \<open>The machine after an approval, for the theorems about particular handlers.\<close>

lemma Approve_machine:
  assumes "Approve name tio1 tio2 handlers now ident scope w = (e, w')"
  shows "bwMachine w' = bwMachine w \<or>
    (\<exists>r h. map_of (broker_view name (bwDisk w)) ident = Some r \<and> arStatus r = ''pending'' \<and>
       now < arExpiresAt r \<and> arScope r = scope \<and> handlers (arAction r) = Some h \<and>
       bwMachine w' = snd (h (the (start_of name w ident)) (bwMachine w)))"
proof (cases "bwMachine w' = bwMachine w")
  case False
  obtain d1 where d1: "Transaction name tio1 requestSessionID
      (on_requests (begin_callback ident scope now)) (bwDisk w) = (None, d1)"
    using assms False by (auto simp: Approve_def split: prod.split_asm option.split_asm)
  obtain r where r: "map_of (broker_view name (bwDisk w)) ident = Some r" "arStatus r = ''pending''"
      "now < arExpiresAt r" "arScope r = scope"
    and start: "started_request (broker_view name (bwDisk w)) ident scope now =
      restore (r\<lparr>arStatus := ''executing''\<rparr>)"
    using Approve_start [OF d1] by blast
  have req: "attributed ident (bwAttribution w) (restore (r\<lparr>arStatus := ''executing''\<rparr>)) =
      the (start_of name w ident)"
    by (simp add: start_of_def r)
  have act: "brAction (the (start_of name w ident)) = arAction r"
    by (simp add: start_of_def r attributed_def restore_def split: option.split)
  obtain h where "handlers (arAction r) = Some h"
    "bwMachine w' = snd (h (the (start_of name w ident)) (bwMachine w))"
    using assms d1 start req act False
    by (auto simp: Approve_def Let_def split: prod.split_asm option.split_asm bool.split_asm if_split_asm)
  with r show ?thesis by blast
qed simp

lemma start_of_fields:
  assumes "map_of (broker_view name (bwDisk w)) ident = Some r"
  shows "br_param (the (start_of name w ident)) = lookup_default '''' (arParameters r)"
    and "brAction (the (start_of name w ident)) = arAction r"
    and "brScope (the (start_of name w ident)) = arScope r"
    and "brRepoRoot (the (start_of name w ident)) = arRepoRoot r"
    and "brID (the (start_of name w ident)) = arID r"
  using assms
  by (auto simp: start_of_def attributed_def restore_def br_param_def fun_eq_iff split: option.split)

section \<open>What the passkey covered is what runs\<close>

lemma lookup_single:
  assumes "length m = 1" and "lookup_default '''' m a \<noteq> ''''"
  shows "m = [(a, lookup_default '''' m a)]"
  using assms by (cases m) (auto simp: lookup_default_def split: if_split_asm)

lemma lookup_pair:
  assumes "length m = 2" and "distinct (map fst m)" and "a \<noteq> b"
    and "lookup_default '''' m a \<noteq> ''''" and "lookup_default '''' m b \<noteq> ''''"
  shows "lookup_default '''' m k = lookup_default '''' [(a, lookup_default '''' m a), (b, lookup_default '''' m b)] k"
proof -
  obtain p q where m: "m = [p, q]"
    using assms(1) by (cases m; cases "tl m") auto
  show ?thesis using assms(2-5)
    by (cases p; cases q) (auto simp: m lookup_default_def split: if_split_asm)
qed

lemma lookup_outside:
  assumes "list_all P m" and "\<And>v. \<not> P (k, v)"
  shows "lookup_default '''' m k = ''''"
  using assms by (induction m) (auto simp: lookup_default_def split: if_split_asm)

definition parameter_actions :: "string list" where
  "parameter_actions = [''web-host-grant'', ''web-host-revoke'', ''plane-enable'', ''plane-disable'',
     ''recover'', ''web-research-set'']"

lemma kept_web_host:
  assumes "validWebHostParameters r" and "distinct (map fst (brParameters r))"
  shows "lookup_default '''' [(''scope'', brScope r), (''hosts'', br_param r ''hosts'')] k = br_param r k"
proof -
  have sc: "brScope r = br_param r ''scope''" and len: "length (brParameters r) = 2"
    and ne: "br_param r ''scope'' \<noteq> ''''" "br_param r ''hosts'' \<noteq> ''''"
    using assms(1) by (auto simp: validWebHostParameters_def)
  show ?thesis
    using lookup_pair [OF len assms(2), of "''scope''" "''hosts''" k] ne
    unfolding sc br_param_def by simp
qed

lemma kept_planes:
  assumes "validPlaneList a (brParameters r)"
  shows "lookup_default '''' ((''planes'', br_param r ''planes'') #
      map (\<lambda>n. (n, br_param r n))
        (filter (\<lambda>n. br_param r n \<noteq> '''') [''reconcile_ownership'', ''prune_floor''])) k = br_param r k"
proof -
  obtain planes where "list_all (plane_parameter a planes) (brParameters r)"
    using assms by (auto simp: validPlaneList_def split: option.split_asm)
  then have "br_param r k = ''''" if "k \<notin> {''planes'', ''reconcile_ownership'', ''prune_floor''}"
    using that unfolding br_param_def by (intro lookup_outside) (auto simp: plane_parameter_def)
  then show ?thesis by (auto simp: lookup_default_def)
qed

lemma validated:
  assumes "validateRequest readAction r"
  shows "brAction r = ''web-host-grant'' \<Longrightarrow> validWebHostParameters r"
    and "brAction r = ''web-host-revoke'' \<Longrightarrow> validWebHostParameters r"
    and "brAction r = ''plane-enable'' \<Longrightarrow> validPlaneList (brAction r) (brParameters r)"
    and "brAction r = ''plane-disable'' \<Longrightarrow> validPlaneList (brAction r) (brParameters r)"
    and "brAction r = ''recover'' \<Longrightarrow> validRecoverRepair (brParameters r)"
    and "brAction r = ''web-research-set'' \<Longrightarrow> length (brParameters r) = 1 \<and>
      (br_param r ''enforcement'' = ''on'' \<or> br_param r ''enforcement'' = ''off'')"
  using assms by (simp_all add: validateRequest_def split: if_split_asm)

lemma durable_parameters:
  assumes "validateRequest readAction r" and "brAction r \<in> set parameter_actions"
    and "distinct (map fst (brParameters r))"
  shows "br_param (restore (durable digest r)) k = br_param r k"
proof -
  note v = validated [OF assms(1)]
  have one: "lookup_default '''' [(a, br_param r a)] k = br_param r k"
    if "length (brParameters r) = 1" "br_param r a \<noteq> ''''" for a
    using lookup_single [of "brParameters r" a] that unfolding br_param_def by simp
  have kept: "br_param (restore (durable digest r)) k = lookup_default '''' (kept_parameters r) k"
    by (simp add: br_param_def restore_def durable_def)
  consider (web) "brAction r \<in> {''web-host-grant'', ''web-host-revoke''}"
    | (plane) "brAction r \<in> {''plane-enable'', ''plane-disable''}"
    | (recover) "brAction r = ''recover''" | (research) "brAction r = ''web-research-set''"
    using assms(2) by (auto simp: parameter_actions_def)
  then show ?thesis
  proof cases
    case web
    then have "kept_parameters r = [(''scope'', brScope r), (''hosts'', br_param r ''hosts'')]"
      by (auto simp: kept_parameters_def Let_def)
    moreover have "validWebHostParameters r" using v(1,2) web by blast
    ultimately show ?thesis using kept kept_web_host [of r k] assms(3) by simp
  next
    case plane
    then have "kept_parameters r = (''planes'', br_param r ''planes'') # map (\<lambda>n. (n, br_param r n))
        (filter (\<lambda>n. br_param r n \<noteq> '''') [''reconcile_ownership'', ''prune_floor''])"
      by (auto simp: kept_parameters_def Let_def)
    moreover have "validPlaneList (brAction r) (brParameters r)" using v(3,4) plane by blast
    ultimately show ?thesis using kept kept_planes [of "brAction r" r k] by simp
  next
    case recover
    then have k: "kept_parameters r = [(''repair'', br_param r ''repair'')]"
      by (simp add: kept_parameters_def Let_def)
    have "length (brParameters r) = 1 \<and> br_param r ''repair'' \<noteq> ''''"
      using v(5) recover by (auto simp: validRecoverRepair_def br_param_def)
    then show ?thesis using kept k one by simp
  next
    case research
    then have k: "kept_parameters r = [(''enforcement'', br_param r ''enforcement'')]"
      by (simp add: kept_parameters_def Let_def)
    have "length (brParameters r) = 1 \<and> br_param r ''enforcement'' \<noteq> ''''"
      using v(6) research by auto
    then show ?thesis using kept k one by simp
  qed
qed


definition demo_request :: broker_request where
  "demo_request = zero_request\<lparr>brPlane := ''operator'', brSessionID := ''terminal'', brRepoRoot := ''/r'',
     brScope := ''repo'', brReason := ''x'', brAction := ''plane-enable'',
     brParameters := [(''prune_floor'', ''claude''), (''planes'', ''claude,codex'')]\<rparr>"


end
