(* ===== verification/Action_Audit.thy ===== *)
theory Action_Audit
  imports Broker
begin

text \<open>
  The audit journal of approved actions: \<^verbatim>\<open>src/cmd/guardrail/action_audit.go\<close>.

  An approved action is bracketed: a requested record is written and a journal opened before it
  changes anything; afterwards the journal is marked, the completed record written and the journal
  removed.  A marked journal found later is finished without applying the action again.

  The state is the audit log and the directory of journals, by file name.  Files that are not journals
  are kept as what a reader makes of them.  The outcomes of the file operations of one call are a
  record; the digest of a request id is an argument.  The invariant: whatever is interrupted, every
  open journal has its requested record in the log, and the log only grows.
\<close>

section \<open>Records and journals\<close>

record audit_entry =
  aePlane :: string
  aeTool :: string
  aeEvent :: string
  aeDecision :: string
  aeOperatorAction :: string
  aeRequestID :: string
  aeTransport :: string
  aeCredentialFingerprint :: string

record action_audit_journal =
  ajRecord :: audit_entry
  ajMutated :: bool

text \<open>What is found at a name: a journal, something that does not decode, a file another process
  holds, or an entry that is no regular \<^verbatim>\<open>.json\<close> file.  Temporary files of a journal being replaced are
  skipped by the code and left out here.\<close>

datatype audit_file =
    AuditJournal action_audit_journal
  | AuditUndecodable
  | AuditInUse
  | AuditUnsafe

record audit_state =
  asLog :: "audit_entry list"
  asFiles :: "(string \<times> audit_file) list"

record audit_io =
  auDir :: bool
  auListed :: bool
  auRecords :: "string \<Rightarrow> bool"
  auRemoves :: "string \<Rightarrow> bool"
  auRequested :: bool
  auOpened :: write_outcome
  auMarked :: write_outcome

definition actionAuditPath :: "(string \<Rightarrow> string) \<Rightarrow> string \<Rightarrow> string" where
  "actionAuditPath digest ident = digest ident @ ''.json''"

definition actionAuditRecord :: "broker_request \<Rightarrow> string \<Rightarrow> audit_entry" where
  "actionAuditRecord r decision =
     \<lparr>aePlane = brPlane r, aeTool = ''guardrail'', aeEvent = ''operator-action'', aeDecision = decision,
      aeOperatorAction = brAction r, aeRequestID = brID r, aeTransport = brTransport r,
      aeCredentialFingerprint = brCredentialFingerprint r\<rparr>"

section \<open>Operations\<close>

datatype audit_load = LoadedJournal action_audit_journal | NoJournal | JournalBusy | JournalInvalid

definition loadActionAudit :: "string \<Rightarrow> audit_state \<Rightarrow> audit_load" where
  "loadActionAudit path st =
     (case map_of (asFiles st) path of
        None \<Rightarrow> NoJournal
      | Some (AuditJournal j) \<Rightarrow>
          if aeOperatorAction (ajRecord j) = '''' \<or> aeDecision (ajRecord j) \<noteq> ''completed''
          then JournalInvalid else LoadedJournal j
      | Some AuditInUse \<Rightarrow> JournalBusy
      | Some _ \<Rightarrow> JournalInvalid)"

definition writeActionAuditJournal ::
  "write_outcome \<Rightarrow> string \<Rightarrow> action_audit_journal \<Rightarrow> audit_state \<Rightarrow> bool \<times> audit_state" where
  "writeActionAuditJournal wo path j st =
     (wo = Written,
      if wo = NotWritten then st else st\<lparr>asFiles := upd_assoc path (AuditJournal j) (asFiles st)\<rparr>)"

definition finishActionAudit ::
  "audit_io \<Rightarrow> string \<Rightarrow> action_audit_journal \<Rightarrow> audit_state \<Rightarrow> bool \<times> audit_state" where
  "finishActionAudit aio path j st =
     (if \<not> auRecords aio path then (False, st)
      else (let st1 = st\<lparr>asLog := asLog st @ [ajRecord j]\<rparr>
            in if auRemoves aio path then (True, st1\<lparr>asFiles := del_assoc path (asFiles st1)\<rparr>)
               else (False, st1)))"

fun recover_audits ::
  "audit_io \<Rightarrow> string \<Rightarrow> string list \<Rightarrow> audit_state \<Rightarrow> bool \<times> audit_state" where
  "recover_audits aio skip [] st = (True, st)"
| "recover_audits aio skip (name # names) st =
     (if map_of (asFiles st) name = Some AuditUnsafe then (False, st)
      else if name = skip then recover_audits aio skip names st
      else (case loadActionAudit name st of
              NoJournal \<Rightarrow> recover_audits aio skip names st
            | JournalBusy \<Rightarrow> recover_audits aio skip names st
            | JournalInvalid \<Rightarrow> (False, st)
            | LoadedJournal j \<Rightarrow>
                if ajMutated j then
                  (case finishActionAudit aio name j st of
                     (False, st') \<Rightarrow> (False, st')
                   | (True, st') \<Rightarrow> recover_audits aio skip names st')
                else recover_audits aio skip names st))"

definition recoverActionAuditsExcept :: "audit_io \<Rightarrow> string \<Rightarrow> audit_state \<Rightarrow> bool \<times> audit_state" where
  "recoverActionAuditsExcept aio skip st =
     (if \<not> auDir aio \<or> \<not> auListed aio then (False, st)
      else recover_audits aio skip (map fst (asFiles st)) st)"

text \<open>The result of \<^verbatim>\<open>startActionAudit\<close>: an error (\<open>None\<close>), or whether the action is already done.\<close>

definition startActionAudit ::
  "(string \<Rightarrow> string) \<Rightarrow> audit_io \<Rightarrow> broker_request \<Rightarrow> audit_state \<Rightarrow> bool option \<times> audit_state" where
  "startActionAudit digest aio r st =
     (let path = actionAuditPath digest (brID r)
      in if \<not> auDir aio then (None, st)
         else (case recoverActionAuditsExcept aio path st of
            (False, st1) \<Rightarrow> (None, st1)
          | (True, st1) \<Rightarrow>
              (case loadActionAudit path st1 of
                 LoadedJournal j \<Rightarrow>
                   if ajMutated j then (Some True, snd (finishActionAudit aio path j st1))
                   else (Some False, st1)
               | JournalInvalid \<Rightarrow> (None, st1)
               | JournalBusy \<Rightarrow> (None, st1)
               | NoJournal \<Rightarrow>
                   if \<not> auRequested aio then (None, st1)
                   else (let st2 = st1\<lparr>asLog := asLog st1 @ [actionAuditRecord r ''requested'']\<rparr>
                         in case writeActionAuditJournal (auOpened aio) path
                              \<lparr>ajRecord = actionAuditRecord r ''completed'', ajMutated = False\<rparr> st2 of
                              (True, st3) \<Rightarrow> (Some False, st3)
                            | (False, st3) \<Rightarrow> (None, st3)))))"

definition completeActionAudit ::
  "(string \<Rightarrow> string) \<Rightarrow> audit_io \<Rightarrow> broker_request \<Rightarrow> audit_state \<Rightarrow> bool \<times> audit_state" where
  "completeActionAudit digest aio r st =
     (let path = actionAuditPath digest (brID r)
      in if \<not> auDir aio then (False, st)
         else (case loadActionAudit path st of
            LoadedJournal j \<Rightarrow>
              (let j' = j\<lparr>ajMutated := True\<rparr>
               in case writeActionAuditJournal (auMarked aio) path j' st of
                    (False, st1) \<Rightarrow> (False, st1)
                  | (True, st1) \<Rightarrow> finishActionAudit aio path j' st1)
          | _ \<Rightarrow> (False, st)))"

text \<open>The bracket the handlers of night mode, web hosts and web research share: start, apply, complete.
  A failed completion is left to recovery.\<close>

definition audited ::
  "(string \<Rightarrow> string) \<Rightarrow> audit_io \<Rightarrow> broker_request \<Rightarrow> ('m \<Rightarrow> bool \<times> 'm) \<Rightarrow> audit_state \<times> 'm \<Rightarrow>
   bool \<times> audit_state \<times> 'm" where
  "audited digest aio r mutate s =
     (case s of (st, m) \<Rightarrow>
        (case startActionAudit digest aio r st of
           (None, st1) \<Rightarrow> (False, st1, m)
         | (Some True, st1) \<Rightarrow> (True, st1, m)
         | (Some False, st1) \<Rightarrow>
             (case mutate m of
                (False, m') \<Rightarrow> (False, st1, m')
              | (True, m') \<Rightarrow> (True, snd (completeActionAudit digest aio r st1), m'))))"

section \<open>The log accounts for every open journal\<close>

definition announced :: "audit_entry list \<Rightarrow> audit_entry \<Rightarrow> bool" where
  "announced entries e \<longleftrightarrow>
     list_ex (\<lambda>x. aeDecision x = ''requested'' \<and> aeRequestID x = aeRequestID e \<and>
                 aeOperatorAction x = aeOperatorAction e) entries"

text \<open>Journals are filed under the digest of their request.\<close>

definition audit_ok :: "(string \<Rightarrow> string) \<Rightarrow> audit_state \<Rightarrow> bool" where
  "audit_ok digest st \<longleftrightarrow>
     (\<forall>name j. map_of (asFiles st) name = Some (AuditJournal j) \<longrightarrow>
        announced (asLog st) (ajRecord j) \<and> name = actionAuditPath digest (aeRequestID (ajRecord j)))"

text \<open>What any step may do to the audit state.\<close>

definition grows :: "(string \<Rightarrow> string) \<Rightarrow> audit_state \<Rightarrow> audit_state \<Rightarrow> bool" where
  "grows digest st st' \<longleftrightarrow> prefix (asLog st) (asLog st') \<and> (audit_ok digest st \<longrightarrow> audit_ok digest st')"

lemma grows_refl [simp]: "grows digest st st"
  by (simp add: grows_def)

lemma grows_trans: "grows digest a b \<Longrightarrow> grows digest b c \<Longrightarrow> grows digest a c"
  by (auto simp: grows_def)

lemma announced_append: "announced xs e \<Longrightarrow> announced (xs @ ys) e"
  by (simp add: announced_def)

lemma finish_grows: "grows digest st (snd (finishActionAudit aio path j st))"
  by (auto simp: finishActionAudit_def grows_def audit_ok_def Let_def announced_append split: if_split_asm)

lemma recover_grows: "grows digest st (snd (recover_audits aio skip names st))"
proof (induction names arbitrary: st)
  case (Cons name names)
  have fin: "grows digest st st'" if "finishActionAudit aio name j st = (b, st')" for j b st'
    using finish_grows [of digest st aio name j] that by simp
  show ?case
  proof (cases "loadActionAudit name st")
    case (LoadedJournal j)
    obtain b st' where f: "finishActionAudit aio name j st = (b, st')" by fastforce
    show ?thesis
      using LoadedJournal f fin [OF f] Cons.IH [of st] grows_trans [OF fin [OF f] Cons.IH [of st']]
      by (cases b) simp_all
  qed (use Cons in simp_all)
qed simp

lemma recover_except_grows: "grows digest st (snd (recoverActionAuditsExcept aio skip st))"
  by (simp add: recoverActionAuditsExcept_def recover_grows)

lemma audit_ok_loaded:
  "audit_ok digest st \<Longrightarrow> loadActionAudit path st = LoadedJournal j \<Longrightarrow>
   announced (asLog st) (ajRecord j) \<and> path = actionAuditPath digest (aeRequestID (ajRecord j))"
  by (auto simp: loadActionAudit_def audit_ok_def split: option.split_asm audit_file.split_asm if_split_asm)

lemma announced_requested: "announced (es @ [actionAuditRecord r ''requested'']) (actionAuditRecord r d)"
  by (simp add: announced_def actionAuditRecord_def)

lemma open_grows:
  assumes "st2 = st1\<lparr>asLog := asLog st1 @ [actionAuditRecord r ''requested'']\<rparr>"
    and "writeActionAuditJournal wo (actionAuditPath digest (brID r))
      \<lparr>ajRecord = actionAuditRecord r ''completed'', ajMutated = False\<rparr> st2 = (b, st3)"
  shows "grows digest st1 st3 \<and> announced (asLog st3) (actionAuditRecord r d)"
proof -
  have "asLog st3 = asLog st1 @ [actionAuditRecord r ''requested'']"
    using assms by (auto simp: writeActionAuditJournal_def split: if_split_asm)
  moreover have "audit_ok digest st3" if "audit_ok digest st1"
    using assms that announced_requested [of "asLog st1" r "''completed''"]
    by (auto simp: writeActionAuditJournal_def audit_ok_def announced_append actionAuditRecord_def
        split: if_split_asm)
  ultimately show ?thesis using announced_requested [of "asLog st1" r d] by (simp add: grows_def)
qed

lemma start_grows:
  assumes "startActionAudit digest aio r st = (res, st')"
  shows "grows digest st st'"
proof -
  let ?path = "actionAuditPath digest (brID r)"
  obtain c st1 where rec: "recoverActionAuditsExcept aio ?path st = (c, st1)" by fastforce
  have g1: "grows digest st st1" using recover_except_grows [of digest st aio ?path] rec by simp
  have "grows digest st1 st' \<or> st' = st"
  proof (cases "auDir aio \<and> c")
    case True
    show ?thesis
    proof (cases "loadActionAudit ?path st1")
      case (LoadedJournal j)
      then show ?thesis using assms True rec finish_grows [of digest st1 aio ?path j]
        by (auto simp: startActionAudit_def Let_def split: if_split_asm)
    next
      case NoJournal
      let ?st2 = "st1\<lparr>asLog := asLog st1 @ [actionAuditRecord r ''requested'']\<rparr>"
      obtain b st3 where w: "writeActionAuditJournal (auOpened aio) ?path
          \<lparr>ajRecord = actionAuditRecord r ''completed'', ajMutated = False\<rparr> ?st2 = (b, st3)" by fastforce
      have "st' = st1 \<or> st' = st3"
        using assms True rec NoJournal w
        by (auto simp: startActionAudit_def Let_def split: if_split_asm bool.split_asm)
      then show ?thesis using open_grows [OF refl w] by auto
    qed (use assms True rec in \<open>auto simp: startActionAudit_def Let_def\<close>)
  next
    case False
    then show ?thesis using assms rec
      by (auto simp: startActionAudit_def Let_def split: if_split_asm)
  qed
  then show ?thesis using g1 by (auto intro: grows_trans)
qed

text \<open>An action that is to be applied has been announced.\<close>

lemma start_announced:
  assumes "audit_ok digest st" and "startActionAudit digest aio r st = (Some False, st')"
    and "\<And>i. digest i = digest (brID r) \<Longrightarrow> i = brID r"
  shows "\<exists>e\<in>set (asLog st'). aeDecision e = ''requested'' \<and> aeRequestID e = brID r"
proof -
  let ?path = "actionAuditPath digest (brID r)"
  obtain c st1 where rec: "recoverActionAuditsExcept aio ?path st = (c, st1)" by fastforce
  have ok1: "audit_ok digest st1"
    using recover_except_grows [of digest st aio ?path] rec assms(1) by (simp add: grows_def)
  have run: "auDir aio \<and> c" using assms(2) rec
    by (cases c) (auto simp: startActionAudit_def Let_def split: if_split_asm)
  show ?thesis
  proof (cases "loadActionAudit ?path st1")
    case (LoadedJournal j)
    then have "st' = st1" using assms(2) run rec
      by (auto simp: startActionAudit_def Let_def split: if_split_asm)
    moreover have "announced (asLog st1) (ajRecord j)" and "aeRequestID (ajRecord j) = brID r"
      using audit_ok_loaded [OF ok1 LoadedJournal] assms(3) by (auto simp: actionAuditPath_def)
    ultimately show ?thesis by (auto simp: announced_def list_ex_iff)
  next
    case NoJournal
    let ?st2 = "st1\<lparr>asLog := asLog st1 @ [actionAuditRecord r ''requested'']\<rparr>"
    obtain b st3 where w: "writeActionAuditJournal (auOpened aio) ?path
        \<lparr>ajRecord = actionAuditRecord r ''completed'', ajMutated = False\<rparr> ?st2 = (b, st3)" by fastforce
    have "st' = st3" using assms(2) run rec NoJournal w
      by (auto simp: startActionAudit_def Let_def split: if_split_asm bool.split_asm)
    then show ?thesis using open_grows [OF refl w, of "''requested''"]
      by (auto simp: announced_def list_ex_iff actionAuditRecord_def)
  qed (use assms(2) run rec in \<open>auto simp: startActionAudit_def Let_def\<close>)
qed

lemma complete_grows: "grows digest st (snd (completeActionAudit digest aio r st))"
proof (cases "auDir aio")
  case True
  let ?path = "actionAuditPath digest (brID r)"
  show ?thesis
  proof (cases "loadActionAudit ?path st")
    case (LoadedJournal j)
    let ?j = "j\<lparr>ajMutated := True\<rparr>"
    obtain b st1 where w: "writeActionAuditJournal (auMarked aio) ?path ?j st = (b, st1)" by fastforce
    have "grows digest st st1"
      using w audit_ok_loaded [OF _ LoadedJournal, of digest]
      by (auto simp: grows_def writeActionAuditJournal_def audit_ok_def split: if_split_asm)
    then show ?thesis
      using True LoadedJournal w finish_grows [of digest st1 aio ?path ?j] grows_trans
      by (cases b) (auto simp: completeActionAudit_def Let_def)
  qed (use True in \<open>simp_all add: completeActionAudit_def\<close>)
qed (simp add: completeActionAudit_def Let_def)

lemma audited_grows:
  assumes "audited digest aio r mutate (st, m) = (b, st', m')"
  shows "grows digest st st'"
proof -
  obtain res st1 where s: "startActionAudit digest aio r st = (res, st1)" by fastforce
  have "grows digest st1 st'"
    using assms s complete_grows [of digest st1 aio r]
    by (auto simp: audited_def split: option.split_asm bool.split_asm prod.split_asm)
  then show ?thesis using start_grows [OF s] grows_trans by blast
qed

end
