(* ===== verification/Command_Grants.thy ===== *)
theory Command_Grants
  imports Operator_Config Ledger
begin

text \<open>
  Issuing, revoking and spending command grants: \<^verbatim>\<open>src/cmd/guardrail/grants.go\<close> over the mutation of
  \<^verbatim>\<open>src/cmd/guardrail/grant_transaction.go\<close>.

  The flags are given parsed (\<open>None\<close> when \<^verbatim>\<open>parseGrantFlags\<close> refuses them), with the repository already
  cleaned; the operator's answer is the line read (\<open>None\<close> when nothing could be read).  An exit code
  is a natural number.  The ceremony's text and the audit records are output only.

  The operator configuration on disk is a ledger: no more uses of a command are spent in a
  repository than the operator confirmed for that repository, rule and exact command.
\<close>

section \<open>Issuing and revoking\<close>

record grant_request =
  grRepo :: string
  grRuleID :: string
  grCommand :: string
  grUses :: int
  grWindow :: int

definition withoutGrant :: "command_grant list \<Rightarrow> string \<Rightarrow> string \<Rightarrow> command_grant list" where
  "withoutGrant existing ruleID command =
     filter (\<lambda>g. \<not> (cgRuleID g = ruleID \<and> cgCommand g = command)) existing"

definition confirmGrant :: "string option \<Rightarrow> bool" where
  "confirmGrant line =
     (case line of None \<Rightarrow> False | Some l \<Rightarrow> equal_fold (trim_space l) ''yes'')"

definition issued_grant :: "grant_request \<Rightarrow> time \<Rightarrow> command_grant" where
  "issued_grant req now =
     \<lparr>cgRuleID = grRuleID req, cgCommand = grCommand req, cgUses = IssuedUses (grUses req),
      cgExpiresAt = BoundedGrantExpiry now (grWindow req)\<rparr>"

definition cmdApprovalsGrant ::
  "filesystem \<Rightarrow> grant_io \<Rightarrow> bool \<Rightarrow> grant_request option \<Rightarrow> string option \<Rightarrow> time \<Rightarrow> operator_config \<Rightarrow>
   nat \<times> operator_config" where
  "cmdApprovalsGrant fs gio operatorTerminal flags line now disk =
     (if \<not> operatorTerminal then (2, disk)
      else (case flags of
              None \<Rightarrow> (2, disk)
            | Some req \<Rightarrow>
                if NeverGrantable (grRuleID req) then (2, disk)
                else if \<not> confirmGrant line then (1, disk)
                else (case mutateCommandGrants fs gio (grRepo req)
                        (\<lambda>gs. withoutGrant gs (grRuleID req) (grCommand req) @ [issued_grant req now]) disk of
                        (True, disk') \<Rightarrow> (0, disk')
                      | (False, disk') \<Rightarrow> (1, disk'))))"

definition cmdApprovalsRevoke ::
  "filesystem \<Rightarrow> grant_io \<Rightarrow> grant_request option \<Rightarrow> operator_config \<Rightarrow> nat \<times> operator_config" where
  "cmdApprovalsRevoke fs gio flags disk =
     (case flags of
        None \<Rightarrow> (2, disk)
      | Some req \<Rightarrow>
          (let entry = lookup_default empty_repo_grant (Repos disk) (GrantKey fs (Some disk) (grRepo req));
               removed = length (withoutGrant (rgCommands entry) (grRuleID req) (grCommand req)) \<noteq>
                         length (rgCommands entry)
           in case mutateCommandGrants fs gio (grRepo req)
                     (\<lambda>gs. withoutGrant gs (grRuleID req) (grCommand req)) disk of
                (False, disk') \<Rightarrow> (1, disk')
              | (True, disk') \<Rightarrow> (if removed then 0 else 1, disk')))"

section \<open>The configuration as a ledger\<close>

datatype grant_op =
    OpIssue grant_io bool "grant_request option" "string option" time
  | OpRevokeGrant grant_io "grant_request option"
  | OpSpend grant_io string string string time

definition issue_event ::
  "filesystem \<Rightarrow> bool \<Rightarrow> grant_request option \<Rightarrow> string option \<Rightarrow> operator_config \<Rightarrow>
   (string \<times> string \<times> string) ledger_event" where
  "issue_event fs terminal flags line disk =
     (case flags of
        Some req \<Rightarrow>
          if terminal \<and> confirmGrant line \<and> \<not> NeverGrantable (grRuleID req)
          then Authorized (GrantKey fs (Some disk) (grRepo req), grRuleID req, grCommand req)
                 (nat (IssuedUses (grUses req)))
          else NoEvent
      | None \<Rightarrow> NoEvent)"

fun grant_step ::
  "filesystem \<Rightarrow> grant_op \<Rightarrow> operator_config \<Rightarrow> (string \<times> string \<times> string) ledger_event \<times> operator_config"
where
  "grant_step fs (OpIssue gio terminal flags line now) disk =
     (issue_event fs terminal flags line disk, snd (cmdApprovalsGrant fs gio terminal flags line now disk))"
| "grant_step fs (OpRevokeGrant gio flags) disk = (NoEvent, snd (cmdApprovalsRevoke fs gio flags disk))"
| "grant_step fs (OpSpend gio repo ruleID command now) disk =
     (case consumeCommandGrant fs gio repo ruleID command now disk of
        (good, spent, disk') \<Rightarrow>
          (if good \<and> spent then Spent (GrantKey fs (Some disk) repo, ruleID, command) else NoEvent, disk'))"

definition grant_level :: "string \<times> string \<times> string \<Rightarrow> operator_config \<Rightarrow> nat" where
  "grant_level k disk =
     (case k of (key, r, c) \<Rightarrow>
        nat (uses_left r c (rgCommands (lookup_default empty_repo_grant (Repos disk) key))))"

lemma mutate_level:
  assumes "mutateCommandGrants fs gio repo f disk = (good, disk')"
  shows "disk' = disk \<and> \<not> good \<or>
    grant_level (key, r, c) disk' =
      (if key = GrantKey fs (Some disk) repo
       then nat (uses_left r c (f (rgCommands (lookup_default empty_repo_grant (Repos disk) key))))
       else grant_level (key, r, c) disk)"
  using assms
  by (auto simp: mutateCommandGrants_def Let_def grant_level_def lookup_default_def
      split: if_splits write_outcome.splits)

lemma uses_left_append: "uses_left r c (xs @ ys) = uses_left r c xs + uses_left r c ys"
  by (simp add: uses_left_def)

lemma uses_left_without:
  "uses_left r c (withoutGrant gs r' c') = (if r = r' \<and> c = c' then 0 else uses_left r c gs)"
  by (induction gs) (auto simp: withoutGrant_def)

lemma RemainingUses_issued: "RemainingUses (issued_grant req now) = IssuedUses (grUses req)"
  by (simp add: issued_grant_def RemainingUses_def IssuedUses_def)

lemma issue_level:
  "grant_level k (snd (cmdApprovalsGrant fs gio terminal flags line now disk)) \<le>
   grant_level k disk + authorized_by k (issue_event fs terminal flags line disk)"
proof (cases "\<exists>req. flags = Some req \<and> terminal \<and> confirmGrant line \<and> \<not> NeverGrantable (grRuleID req)")
  case True
  then obtain req where req: "flags = Some req" "terminal" "confirmGrant line"
    "\<not> NeverGrantable (grRuleID req)" by blast
  obtain key r c where k: "k = (key, r, c)" by (cases k)
  let ?f = "\<lambda>gs. withoutGrant gs (grRuleID req) (grCommand req) @ [issued_grant req now]"
  obtain good disk' where m: "mutateCommandGrants fs gio (grRepo req) ?f disk = (good, disk')" by fastforce
  have run: "snd (cmdApprovalsGrant fs gio terminal flags line now disk) = disk'"
    using req m by (cases good) (simp_all add: cmdApprovalsGrant_def)
  have rest: "cgRuleID (issued_grant req now) = grRuleID req" "cgCommand (issued_grant req now) = grCommand req"
    by (simp_all add: issued_grant_def)
  have ev: "issue_event fs terminal flags line disk =
      Authorized (GrantKey fs (Some disk) (grRepo req), grRuleID req, grCommand req)
        (nat (IssuedUses (grUses req)))"
    using req by (simp add: issue_event_def)
  show ?thesis
    unfolding run ev k using mutate_level [OF m, of key r c]
    by (auto simp: uses_left_append uses_left_without rest RemainingUses_issued grant_level_def)
next
  case False
  then show ?thesis by (auto simp: cmdApprovalsGrant_def split: option.splits)
qed

lemma revoke_level: "grant_level k (snd (cmdApprovalsRevoke fs gio flags disk)) \<le> grant_level k disk"
proof (cases flags)
  case (Some req)
  obtain key r c where k: "k = (key, r, c)" by (cases k)
  let ?f = "\<lambda>gs. withoutGrant gs (grRuleID req) (grCommand req)"
  obtain good disk' where m: "mutateCommandGrants fs gio (grRepo req) ?f disk = (good, disk')" by fastforce
  have "snd (cmdApprovalsRevoke fs gio flags disk) = disk'"
    using Some m by (cases good) (simp_all add: cmdApprovalsRevoke_def Let_def)
  then show ?thesis
    using mutate_level [OF m, of key r c] by (auto simp: k uses_left_without grant_level_def)
qed (simp add: cmdApprovalsRevoke_def)

lemma spend_level:
  assumes "consumeCommandGrant fs gio repo ruleID command now disk = (good, spent, disk')"
  shows "grant_level k disk' +
           (if good \<and> spent \<and> k = (GrantKey fs (Some disk) repo, ruleID, command) then 1 else 0) \<le>
         grant_level k disk"
proof -
  obtain key r c where k: "k = (key, r, c)" by (cases k)
  let ?f = "\<lambda>gs. snd (spend_first ruleID command now gs)"
  let ?gs = "rgCommands (lookup_default empty_repo_grant (Repos disk) (GrantKey fs (Some disk) repo))"
  have m: "mutateCommandGrants fs gio repo ?f disk = (good, disk')"
    using assms by (simp add: consumeCommandGrant_def Let_def prod_eq_iff)
  have s: "spent \<longrightarrow> fst (spend_first ruleID command now ?gs)"
    using assms by (auto simp: consumeCommandGrant_def Let_def)
  have same: "uses_left ruleID command (?f ?gs) =
      uses_left ruleID command ?gs - (if fst (spend_first ruleID command now ?gs) then 1 else 0)"
    by (rule spend_first_pays)
  have nonneg: "0 \<le> uses_left ruleID command (?f ?gs)" by (rule uses_left_nonneg)
  show ?thesis
  proof (cases "disk' = disk \<and> \<not> good")
    case False
    then have lev: "grant_level (key, r, c) disk' =
        (if key = GrantKey fs (Some disk) repo
         then nat (uses_left r c (?f (rgCommands (lookup_default empty_repo_grant (Repos disk) key))))
         else grant_level (key, r, c) disk)"
      using mutate_level [OF m, of key r c] by blast
    show ?thesis
    proof (cases "key = GrantKey fs (Some disk) repo \<and> (r, c) = (ruleID, command)")
      case True
      with lev same nonneg s show ?thesis by (auto simp: k grant_level_def split: if_splits)
    next
      case False
      with lev spend_first_other [of r c ruleID command now ?gs] show ?thesis
        by (auto simp: k grant_level_def)
    qed
  qed simp
qed

interpretation command_grants: ledger "grant_step fs" grant_level "\<lambda>_. True" for fs
proof
  fix st op ev st' k
  assume run: "grant_step fs op st = (ev, st')"
  show "True \<and> grant_level k st' + spent_by k ev \<le> grant_level k st + authorized_by k ev"
  proof (cases op)
    case (OpIssue gio terminal flags line now)
    moreover have "spent_by k (issue_event fs terminal flags line st) = 0"
      by (simp add: issue_event_def split: option.split)
    ultimately show ?thesis using run issue_level [of k fs gio terminal flags line now st] by auto
  next
    case (OpRevokeGrant gio flags)
    then show ?thesis using run revoke_level [of k fs gio flags st] by auto
  next
    case (OpSpend gio repo ruleID command now)
    obtain good spent d where c: "consumeCommandGrant fs gio repo ruleID command now st = (good, spent, d)"
      by (metis prod_cases3)
    with OpSpend run spend_level [OF c, of k] show ?thesis by (auto split: if_splits)
  qed
qed

text \<open>C14: Command grants are spent only as often as the operator confirmed: over any sequence of issuing,
  revoking and spending from a configuration with no uses recorded, whatever writes fail on the way,
  the calls allowed by a grant for a repository, rule and exact command are at most the uses an
  operator at a terminal confirmed for that triple.\<close>

theorem command_uses_authorized:
  assumes "grant_level k disk = 0"
  shows "spent_uses k (fst (ledger_run (grant_step fs) ops disk)) \<le>
         authorized_uses k (fst (ledger_run (grant_step fs) ops disk))"
  using assms by (intro command_grants.spent_le_authorized) simp_all

definition demo_fs :: filesystem where
  "demo_fs = \<lparr>fs_lstat = (\<lambda>_. NotExist), fs_eval_symlinks = (\<lambda>_. None)\<rparr>"

definition good_gio :: grant_io where
  "good_gio = \<lparr>gioPrepared = True, gioLoadFails = False, gioWrite = Written\<rparr>"

definition deploy_grant :: grant_request where
  "deploy_grant =
     \<lparr>grRepo = ''/repo'', grRuleID = ''R1'', grCommand = ''make deploy'', grUses = 0, grWindow = 0\<rparr>"

definition grant_session :: "grant_op list" where
  "grant_session =
     [OpIssue good_gio True (Some deploy_grant) (Some (''Yes'' @ [CHR 0x0A])) 1000,
      OpSpend good_gio ''/repo'' ''R1'' ''make deploy'' 1001,
      OpSpend good_gio ''/repo'' ''R1'' ''make deploy'' 1002]"

theorem command_uses_authorized_witness:
  "spent_uses (''/repo'', ''R1'', ''make deploy'')
     (fst (ledger_run (grant_step demo_fs) grant_session emptyOperatorConfig)) = 1"
proof -
  let ?k = "(''/repo'', ''R1'', ''make deploy'')"
  let ?evs = "fst (ledger_run (grant_step demo_fs) grant_session emptyOperatorConfig)"
  have "grant_level ?k emptyOperatorConfig = 0" by code_simp
  then have "spent_uses ?k ?evs \<le> authorized_uses ?k ?evs" by (rule command_uses_authorized)
  moreover have "authorized_uses ?k ?evs = 1" "spent_uses ?k ?evs \<noteq> 0" by code_simp+
  ultimately show ?thesis by linarith
qed

text \<open>A grant that matches can be paid for: on a well-formed configuration, whenever a call's command
  is allowed by a recorded grant, spending under the lock finds that grant, takes exactly one use of
  it and leaves every other rule and command of the repository as it was.\<close>

lemma consume_pays_match:
  assumes "wf_operator_config op" and "AllowsCommand fs (Some op) root r c now"
  shows "\<exists>op'. consumeCommandGrant fs good_gio root r c now op = (True, True, op') \<and>
           (let key = GrantKey fs (Some op) root;
                left = (\<lambda>cfg r c. uses_left r c (rgCommands (lookup_default empty_repo_grant (Repos cfg) key)))
            in left op' r c = left op r c - 1 \<and>
               (\<forall>r' c'. (r', c') \<noteq> (r, c) \<longrightarrow> left op' r' c' = left op r' c'))"
proof -
  have "fst (snd (consumeCommandGrant fs good_gio root r c now op))"
    using consume_spends_match [OF assms] by (simp add: good_gio_def)
  then show ?thesis
    using spend_first_pays [of r c now] spend_first_other [of _ _ r c now]
    by (auto simp: consumeCommandGrant_def mutateCommandGrants_def good_gio_def Let_def lookup_default_def)
qed

end
