(* ===== verification/Allowances.thy ===== *)
theory Allowances
  imports Command_Grants
begin

text \<open>
  Web-host allowances and their write-ahead journal:
  \<^verbatim>\<open>src/cmd/guardrail/allowance_transaction.go\<close> and \<^verbatim>\<open>src/cmd/guardrail/egress.go\<close>.

  A repository allowance lives in two files, the repository's overlay and the Operator config.  Both
  are written from an authenticated journal, so that an interrupted change is finished by the next
  one.  The disk holds decoded documents (the TOML and JSON texts in between are not modelled); the
  authentication code is an argument.  Each record of outcomes says how the file operations of one
  call went; an interruption at an operation is that operation's failure, since every failure returns
  at once and the lock is released with the process.

  The abstract state is what the two files say once the journal has been replayed.  The refinement
  theorem: whatever fails, a change is either wholly made or not at all.
\<close>

section \<open>Documents\<close>

datatype toml_value =
    TomlString string
  | TomlOther string
  | TomlArray "toml_value list"
  | TomlTable "(string \<times> toml_value) list"

type_synonym toml_table = "(string \<times> toml_value) list"

datatype overlay_content = OverlayBad | OverlayDoc nat toml_table

definition updateHost :: "string list \<Rightarrow> string \<Rightarrow> bool \<Rightarrow> string list" where
  "updateHost hosts host granting =
     (if granting then (if host \<in> set hosts then hosts else hosts @ [host])
      else filter (\<lambda>existing. existing \<noteq> host) hosts)"

fun toml_string :: "toml_value \<Rightarrow> string option" where
  "toml_string (TomlString s) = Some s"
| "toml_string _ = None"

definition overlay_slots :: "toml_table \<Rightarrow> toml_table" where
  "overlay_slots raw = (case map_of raw ''slots'' of Some (TomlTable t) \<Rightarrow> t | _ \<Rightarrow> [])"

definition slot_hosts :: "toml_table \<Rightarrow> string list" where
  "slot_hosts slots =
     (case map_of slots ''web_hosts'' of
        Some (TomlArray vs) \<Rightarrow> List.map_filter toml_string vs
      | _ \<Rightarrow> [])"

definition with_hosts :: "toml_table \<Rightarrow> string list \<Rightarrow> toml_table" where
  "with_hosts raw hosts =
     upd_assoc ''slots''
       (TomlTable (upd_assoc ''web_hosts'' (TomlArray (map TomlString hosts)) (overlay_slots raw))) raw"

text \<open>\<^verbatim>\<open>overlayWebHostContent\<close>: \<open>None\<close> is an error, a missing file is an empty table with mode 0644.\<close>

definition overlayWebHostContent ::
  "overlay_content option \<Rightarrow> string \<Rightarrow> bool \<Rightarrow> (nat \<times> toml_table) option" where
  "overlayWebHostContent content host granting =
     (case content of
        Some OverlayBad \<Rightarrow> None
      | Some (OverlayDoc m raw) \<Rightarrow>
          Some (m, with_hosts raw (updateHost (slot_hosts (overlay_slots raw)) host granting))
      | None \<Rightarrow> Some (420, with_hosts [] (updateHost [] host granting)))"

section \<open>The disk\<close>

record allowance_journal =
  ajOverlayPath :: string
  ajOverlayAfter :: toml_table
  ajOverlayMode :: nat
  ajOperatorPath :: string
  ajOperatorAfter :: operator_config
  ajMAC :: string

datatype journal_file = JournalBad | Journal allowance_journal

record allowance_disk =
  adOverlays :: "string \<Rightarrow> overlay_content option"
  adOperator :: operator_config
  adJournals :: "(string \<times> journal_file) list"
  adKey :: "string option"

text \<open>Outcomes of one recovery and of one change.  \<open>rioNewKey\<close> is the key generated when there is
  none, with the outcome of writing it.\<close>

record recover_io =
  rioDir :: bool
  rioKeyReadable :: bool
  rioNewKey :: "(string \<times> write_outcome) option"
  rioOverlay :: write_outcome
  rioOperatorDir :: bool
  rioOperator :: write_outcome
  rioRemove :: write_outcome

record allowance_io =
  alLocked :: bool
  alListed :: bool
  alBefore :: "recover_io list"
  alLoads :: bool
  alOperatorDir :: bool
  alKey :: recover_io
  alWrite :: write_outcome
  alAfter :: recover_io

section \<open>The journal\<close>

definition allowanceKey :: "recover_io \<Rightarrow> allowance_disk \<Rightarrow> string option \<times> allowance_disk" where
  "allowanceKey rio d =
     (case adKey d of
        Some k \<Rightarrow> (if rioKeyReadable rio then Some k else None, d)
      | None \<Rightarrow>
          (case rioNewKey rio of
             None \<Rightarrow> (None, d)
           | Some (k, wo) \<Rightarrow>
               (if wo = Written then Some k else None,
                if wo = NotWritten then d else d\<lparr>adKey := Some k\<rparr>)))"

definition journal_mac :: "(string \<Rightarrow> allowance_journal \<Rightarrow> string) \<Rightarrow> string \<Rightarrow> allowance_journal \<Rightarrow> string" where
  "journal_mac mac k j = mac k (j\<lparr>ajMAC := ''''\<rparr>)"

definition writeAllowanceJournal ::
  "(string \<Rightarrow> allowance_journal \<Rightarrow> string) \<Rightarrow> recover_io \<Rightarrow> write_outcome \<Rightarrow> string \<Rightarrow> allowance_journal \<Rightarrow>
   allowance_disk \<Rightarrow> bool \<times> allowance_disk" where
  "writeAllowanceJournal mac rio wo name j d =
     (case allowanceKey rio d of
        (None, d1) \<Rightarrow> (False, d1)
      | (Some k, d1) \<Rightarrow>
          (wo = Written,
           if wo = NotWritten then d1
           else d1\<lparr>adJournals := upd_assoc name (Journal (j\<lparr>ajMAC := journal_mac mac k j\<rparr>)) (adJournals d1)\<rparr>))"

definition write_overlay :: "write_outcome \<Rightarrow> allowance_journal \<Rightarrow> allowance_disk \<Rightarrow> allowance_disk" where
  "write_overlay wo j d =
     (if wo = NotWritten then d
      else d\<lparr>adOverlays := (adOverlays d)(ajOverlayPath j \<mapsto> OverlayDoc (ajOverlayMode j) (ajOverlayAfter j))\<rparr>)"

definition write_operator :: "write_outcome \<Rightarrow> operator_config \<Rightarrow> allowance_disk \<Rightarrow> allowance_disk" where
  "write_operator wo op d = (if wo = NotWritten then d else d\<lparr>adOperator := op\<rparr>)"

definition remove_journal :: "write_outcome \<Rightarrow> string \<Rightarrow> allowance_disk \<Rightarrow> allowance_disk" where
  "remove_journal wo name d =
     (if wo = NotWritten then d else d\<lparr>adJournals := del_assoc name (adJournals d)\<rparr>)"

definition replay_journal ::
  "recover_io \<Rightarrow> string \<Rightarrow> allowance_journal \<Rightarrow> allowance_disk \<Rightarrow> bool \<times> allowance_disk" where
  "replay_journal rio name j d =
     (let d1 = write_overlay (rioOverlay rio) j d
      in if rioOverlay rio \<noteq> Written \<or> \<not> rioOperatorDir rio then (False, d1)
         else (let d2 = write_operator (rioOperator rio) (ajOperatorAfter j) d1
               in if rioOperator rio \<noteq> Written then (False, d2)
                  else (rioRemove rio = Written, remove_journal (rioRemove rio) name d2)))"

definition recoverAllowanceJournal ::
  "(string \<Rightarrow> allowance_journal \<Rightarrow> string) \<Rightarrow> string \<Rightarrow> recover_io \<Rightarrow> string \<Rightarrow> allowance_disk \<Rightarrow>
   bool \<times> allowance_disk" where
  "recoverAllowanceJournal mac opPath rio name d =
     (if \<not> rioDir rio then (False, d)
      else (case map_of (adJournals d) name of
              None \<Rightarrow> (True, d)
            | Some JournalBad \<Rightarrow> (False, d)
            | Some (Journal j) \<Rightarrow>
                (case allowanceKey rio d of
                   (None, d1) \<Rightarrow> (False, d1)
                 | (Some k, d1) \<Rightarrow>
                     if ajMAC j \<noteq> journal_mac mac k j then (False, d1)
                     else if \<not> is_abs (ajOverlayPath j) \<or> ajOperatorPath j \<noteq> opPath then (False, d1)
                     else replay_journal rio name j d1)))"

text \<open>The recovery loop over the directory listing; the list of outcomes has one entry per file.\<close>

fun recover_listed ::
  "(string \<Rightarrow> allowance_journal \<Rightarrow> string) \<Rightarrow> string \<Rightarrow> recover_io list \<Rightarrow> string list \<Rightarrow> allowance_disk \<Rightarrow>
   bool \<times> allowance_disk" where
  "recover_listed mac opPath rios [] d = (True, d)"
| "recover_listed mac opPath [] (name # names) d = (False, d)"
| "recover_listed mac opPath (rio # rios) (name # names) d =
     (case recoverAllowanceJournal mac opPath rio name d of
        (False, d') \<Rightarrow> (False, d')
      | (True, d') \<Rightarrow> recover_listed mac opPath rios names d')"

definition recoverAllowanceJournals ::
  "(string \<Rightarrow> allowance_journal \<Rightarrow> string) \<Rightarrow> string \<Rightarrow> bool \<Rightarrow> recover_io list \<Rightarrow> allowance_disk \<Rightarrow>
   bool \<times> allowance_disk" where
  "recoverAllowanceJournals mac opPath listed rios d =
     (if \<not> listed then (False, d) else recover_listed mac opPath rios (map fst (adJournals d)) d)"

section \<open>Changing an allowance\<close>

definition applyGlobalWebHost ::
  "(string \<Rightarrow> allowance_journal \<Rightarrow> string) \<Rightarrow> string \<Rightarrow> allowance_io \<Rightarrow> string \<Rightarrow> bool \<Rightarrow> allowance_disk \<Rightarrow>
   bool \<times> allowance_disk" where
  "applyGlobalWebHost mac opPath aio host granting d =
     (if \<not> alLocked aio then (False, d)
      else (case recoverAllowanceJournals mac opPath (alListed aio) (alBefore aio) d of
              (False, d1) \<Rightarrow> (False, d1)
            | (True, d1) \<Rightarrow>
                if \<not> alLoads aio \<or> \<not> alOperatorDir aio then (False, d1)
                else (alWrite aio = Written,
                      write_operator (alWrite aio)
                        ((adOperator d1)\<lparr>GlobalWebHosts := updateHost (GlobalWebHosts (adOperator d1)) host granting\<rparr>)
                        d1)))"

definition overlay_path :: "string \<Rightarrow> string" where
  "overlay_path repo = join_path repo ''guardrail.toml''"

definition operator_with_host :: "string \<Rightarrow> string \<Rightarrow> bool \<Rightarrow> operator_config \<Rightarrow> operator_config" where
  "operator_with_host repo host granting op =
     (let entry = lookup_default empty_repo_grant (Repos op) repo
      in op\<lparr>Repos := upd_assoc repo
           (entry\<lparr>rgWebHosts := updateHost (rgWebHosts entry) host granting\<rparr>) (Repos op)\<rparr>)"

text \<open>The name of a repository's journal is the digest of its cleaned path.\<close>

definition mustAllowanceJournalPath :: "(string \<Rightarrow> string) \<Rightarrow> string \<Rightarrow> string" where
  "mustAllowanceJournalPath digest repo = digest (clean repo) @ ''.json''"

definition applyRepoWebHost ::
  "(string \<Rightarrow> allowance_journal \<Rightarrow> string) \<Rightarrow> (string \<Rightarrow> string) \<Rightarrow> string \<Rightarrow> allowance_io \<Rightarrow> string \<Rightarrow> string \<Rightarrow>
   bool \<Rightarrow> allowance_disk \<Rightarrow> bool \<times> allowance_disk" where
  "applyRepoWebHost mac digest opPath aio repo host granting d =
     (if \<not> alLocked aio then (False, d)
      else (case recoverAllowanceJournals mac opPath (alListed aio) (alBefore aio) d of
              (False, d1) \<Rightarrow> (False, d1)
            | (True, d1) \<Rightarrow>
                if \<not> alLoads aio then (False, d1)
                else (case overlayWebHostContent (adOverlays d1 (overlay_path repo)) host granting of
                        None \<Rightarrow> (False, d1)
                      | Some (m, doc) \<Rightarrow>
                          if \<not> alOperatorDir aio then (False, d1)
                          else (let name = mustAllowanceJournalPath digest repo;
                                    j = \<lparr>ajOverlayPath = overlay_path repo, ajOverlayAfter = doc,
                                         ajOverlayMode = m, ajOperatorPath = opPath,
                                         ajOperatorAfter = operator_with_host repo host granting (adOperator d1),
                                         ajMAC = ''''\<rparr>
                                in case writeAllowanceJournal mac (alKey aio) (alWrite aio) name j d1 of
                                     (False, d2) \<Rightarrow> (False, d2)
                                   | (True, d2) \<Rightarrow> recoverAllowanceJournal mac opPath (alAfter aio) name d2))))"

text \<open>\<^verbatim>\<open>applyWebHostBatch\<close>, over the application of one host.  \<open>rev applied\<close> is the list of applied hosts.\<close>

fun undo_batch :: "(string \<Rightarrow> bool \<Rightarrow> 'd \<Rightarrow> bool \<times> 'd) \<Rightarrow> bool \<Rightarrow> string list \<Rightarrow> 'd \<Rightarrow> 'd" where
  "undo_batch apply granting [] d = d"
| "undo_batch apply granting (h # applied) d = undo_batch apply granting applied (snd (apply h (\<not> granting) d))"

fun batch_loop ::
  "(string \<Rightarrow> bool \<Rightarrow> 'd \<Rightarrow> bool \<times> 'd) \<Rightarrow> bool \<Rightarrow> string list \<Rightarrow> string list \<Rightarrow> 'd \<Rightarrow> bool \<times> 'd" where
  "batch_loop apply granting applied [] d = (True, d)"
| "batch_loop apply granting applied (h # hosts) d =
     (case apply h granting d of
        (True, d') \<Rightarrow> batch_loop apply granting (h # applied) hosts d'
      | (False, d') \<Rightarrow> (False, undo_batch apply granting applied d'))"

definition applyWebHostBatch ::
  "string list \<Rightarrow> bool \<Rightarrow> (string \<Rightarrow> bool \<Rightarrow> 'd \<Rightarrow> bool \<times> 'd) \<Rightarrow> 'd \<Rightarrow> bool \<times> 'd" where
  "applyWebHostBatch hosts granting apply d = batch_loop apply granting [] hosts d"

section \<open>Changes that survive interruptions\<close>

text \<open>Attempts one after the other, each interrupted or not.\<close>

fun attempts :: "('io \<Rightarrow> 'd \<Rightarrow> bool \<times> 'd) \<Rightarrow> 'io list \<Rightarrow> 'd \<Rightarrow> 'd" where
  "attempts change [] d = d"
| "attempts change (i # is) d = attempts change is (snd (change i d))"

text \<open>A change that may be interrupted anywhere: it keeps the store consistent, it is seen to have
  happened wholly or not at all, and it has happened when it reports so.\<close>

locale crash_atomic =
  fixes consistent :: "'d \<Rightarrow> bool"
    and seen :: "'d \<Rightarrow> 'a"
    and change :: "'io \<Rightarrow> 'd \<Rightarrow> bool \<times> 'd"
    and spec :: "'a \<Rightarrow> 'a"
  assumes keeps: "consistent d \<Longrightarrow> consistent (snd (change i d))"
    and atomic: "consistent d \<Longrightarrow> seen (snd (change i d)) = seen d \<or> seen (snd (change i d)) = spec (seen d)"
    and made: "consistent d \<Longrightarrow> fst (change i d) \<Longrightarrow> seen (snd (change i d)) = spec (seen d)"
    and spec_idem: "spec (spec a) = spec a"
begin

lemma attempts_consistent: "consistent d \<Longrightarrow> consistent (attempts change is d)"
  by (induction "is" arbitrary: d) (auto intro: keeps)

lemma attempts_atomic:
  "consistent d \<Longrightarrow> seen (attempts change is d) = seen d \<or> seen (attempts change is d) = spec (seen d)"
proof (induction "is" arbitrary: d)
  case (Cons i "is")
  then have "seen (attempts change is (snd (change i d))) = seen (snd (change i d)) \<or>
      seen (attempts change is (snd (change i d))) = spec (seen (snd (change i d)))"
    using keeps by blast
  then show ?case using atomic [OF Cons.prems, of i] spec_idem by auto
qed simp

lemma retry_converges:
  assumes "consistent d" and "fst (change i (attempts change is d))"
  shows "seen (snd (change i (attempts change is d))) = spec (seen d)"
  using made [OF attempts_consistent [OF assms(1)] assms(2)] attempts_atomic [OF assms(1), of "is"]
    spec_idem by auto

end

section \<open>What the files say once the journal is replayed\<close>

type_synonym allowance_view = "(string \<Rightarrow> overlay_content option) \<times> operator_config"

definition valid_journal ::
  "(string \<Rightarrow> allowance_journal \<Rightarrow> string) \<Rightarrow> string \<Rightarrow> string option \<Rightarrow> journal_file \<Rightarrow> bool" where
  "valid_journal mac opPath key jf =
     (case (key, jf) of
        (Some k, Journal j) \<Rightarrow>
          ajMAC j = journal_mac mac k j \<and> is_abs (ajOverlayPath j) \<and> ajOperatorPath j = opPath
      | _ \<Rightarrow> False)"

text \<open>At most one journal is pending, and it is one that recovery accepts.\<close>

definition journal_ok :: "(string \<Rightarrow> allowance_journal \<Rightarrow> string) \<Rightarrow> string \<Rightarrow> allowance_disk \<Rightarrow> bool" where
  "journal_ok mac opPath d =
     (case adJournals d of
        [] \<Rightarrow> True
      | [(name, jf)] \<Rightarrow> valid_journal mac opPath (adKey d) jf
      | _ \<Rightarrow> False)"

definition journal_effect :: "allowance_journal \<Rightarrow> allowance_view \<Rightarrow> allowance_view" where
  "journal_effect j v =
     ((fst v)(ajOverlayPath j \<mapsto> OverlayDoc (ajOverlayMode j) (ajOverlayAfter j)), ajOperatorAfter j)"

definition allowance_view :: "allowance_disk \<Rightarrow> allowance_view" where
  "allowance_view d =
     (case adJournals d of
        (name, Journal j) # _ \<Rightarrow> journal_effect j (adOverlays d, adOperator d)
      | _ \<Rightarrow> (adOverlays d, adOperator d))"

lemma journal_okE:
  assumes "journal_ok mac opPath d"
  obtains (none) "adJournals d = []"
    | (one) name k j where "adJournals d = [(name, Journal j)]" and "adKey d = Some k"
        and "ajMAC j = journal_mac mac k j" and "is_abs (ajOverlayPath j)" and "ajOperatorPath j = opPath"
proof (cases "adJournals d")
  case Nil
  then show thesis by (rule none)
next
  case (Cons e rest)
  obtain name jf where e: "e = (name, jf)" by (cases e)
  have "rest = []" using assms Cons e by (cases rest) (auto simp: journal_ok_def)
  then have v: "valid_journal mac opPath (adKey d) jf" using assms Cons e by (simp add: journal_ok_def)
  then obtain k j where "adKey d = Some k" "jf = Journal j"
    by (cases "adKey d"; cases jf) (auto simp: valid_journal_def)
  then show thesis using one v Cons e \<open>rest = []\<close> by (simp add: valid_journal_def)
qed

lemma view_cases [simp]:
  "adJournals d = [] \<Longrightarrow> allowance_view d = (adOverlays d, adOperator d)"
  "adJournals d = [(name, Journal j)] \<Longrightarrow> allowance_view d = journal_effect j (adOverlays d, adOperator d)"
  by (simp_all add: allowance_view_def)

lemma replay_journal_view:
  assumes "adJournals d = [(name, Journal j)]" and "replay_journal rio name j d = (b, d')"
  shows "allowance_view d' = allowance_view d \<and> adKey d' = adKey d \<and>
    (adJournals d' = [] \<or> \<not> b \<and> adJournals d' = [(name, Journal j)])"
  using assms
  by (auto simp: replay_journal_def write_overlay_def write_operator_def remove_journal_def Let_def
      del_assoc_def journal_effect_def split: if_split_asm)

lemma recover_view:
  assumes "journal_ok mac opPath d" and "recoverAllowanceJournal mac opPath rio name d = (b, d')"
  shows "journal_ok mac opPath d' \<and> allowance_view d' = allowance_view d \<and>
    (b \<and> name \<in> fst ` set (adJournals d) \<longrightarrow> adJournals d' = []) \<and> (adJournals d = [] \<longrightarrow> d' = d)"
  using assms(1)
proof (cases rule: journal_okE)
  case none
  with assms show ?thesis by (auto simp: recoverAllowanceJournal_def split: if_split_asm)
next
  case (one n k j)
  show ?thesis
  proof (cases "rioDir rio \<and> name = n \<and> rioKeyReadable rio")
    case True
    then have "replay_journal rio name j d = (b, d')"
      using one assms(2) by (simp add: recoverAllowanceJournal_def allowanceKey_def)
    with one True replay_journal_view [of d name j rio b d'] show ?thesis
      by (auto simp: journal_ok_def valid_journal_def)
  next
    case False
    then have "d' = d \<and> (b \<longrightarrow> name \<noteq> n)"
      using one assms(2) by (auto simp: recoverAllowanceJournal_def allowanceKey_def split: if_split_asm)
    with assms(1) one show ?thesis by auto
  qed
qed

lemma recover_all_view:
  assumes "journal_ok mac opPath d" and "recoverAllowanceJournals mac opPath listed rios d = (b, d')"
  shows "journal_ok mac opPath d' \<and> allowance_view d' = allowance_view d \<and> (b \<longrightarrow> adJournals d' = [])"
  using assms(1)
proof (cases rule: journal_okE)
  case none
  with assms show ?thesis by (auto simp: recoverAllowanceJournals_def split: if_split_asm)
next
  case (one n k j)
  show ?thesis
  proof (cases "listed \<and> rios \<noteq> []")
    case True
    then obtain rio rest where rios: "rios = rio # rest" by (cases rios) auto
    obtain c d1 where r: "recoverAllowanceJournal mac opPath rio n d = (c, d1)" by fastforce
    have "b = c \<and> d' = d1"
      using assms(2) True one(1) rios r by (auto simp: recoverAllowanceJournals_def split: bool.split_asm)
    then show ?thesis using recover_view [OF assms(1) r] one(1) by simp
  next
    case False
    then have "\<not> b \<and> d' = d"
      using assms(2) one(1) by (auto simp: recoverAllowanceJournals_def split: if_split_asm)
    with assms(1) show ?thesis by simp
  qed
qed

section \<open>The changes refine their specifications\<close>

definition global_update :: "string \<Rightarrow> bool \<Rightarrow> allowance_view \<Rightarrow> allowance_view" where
  "global_update host granting v =
     (fst v, (snd v)\<lparr>GlobalWebHosts := updateHost (GlobalWebHosts (snd v)) host granting\<rparr>)"

definition repo_update :: "string \<Rightarrow> string \<Rightarrow> bool \<Rightarrow> allowance_view \<Rightarrow> allowance_view" where
  "repo_update repo host granting v =
     (case overlayWebHostContent (fst v (overlay_path repo)) host granting of
        None \<Rightarrow> v
      | Some (m, doc) \<Rightarrow>
          ((fst v)(overlay_path repo \<mapsto> OverlayDoc m doc), operator_with_host repo host granting (snd v)))"

lemma updateHost_idem: "updateHost (updateHost hs h g) h g = updateHost hs h g"
  by (auto simp: updateHost_def)

lemma set_updateHost: "set (updateHost hs h g) = (if g then insert h (set hs) else set hs - {h})"
  by (auto simp: updateHost_def)

lemma slot_hosts_with [simp]: "slot_hosts (overlay_slots (with_hosts raw hosts)) = hosts"
  by (simp add: with_hosts_def overlay_slots_def slot_hosts_def map_filter_def comp_def)

lemma upd_assoc_upd [simp]: "upd_assoc k v (upd_assoc k u m) = upd_assoc k v m"
  by (induction k u m rule: upd_assoc.induct) auto

lemma with_hosts_with [simp]: "with_hosts (with_hosts raw a) b = with_hosts raw b"
  by (simp add: with_hosts_def overlay_slots_def)

lemma operator_with_host_idem:
  "operator_with_host repo h g (operator_with_host repo h g op) = operator_with_host repo h g op"
  by (simp add: operator_with_host_def Let_def lookup_default_def updateHost_idem)

lemma overlay_content_idem:
  "overlayWebHostContent c h g = Some (m, doc) \<Longrightarrow> overlayWebHostContent (Some (OverlayDoc m doc)) h g = Some (m, doc)"
  by (auto simp: overlayWebHostContent_def updateHost_idem split: option.splits overlay_content.splits)

lemma repo_update_idem: "repo_update repo h g (repo_update repo h g v) = repo_update repo h g v"
proof (cases "overlayWebHostContent (fst v (overlay_path repo)) h g")
  case (Some p)
  then obtain m doc where p: "overlayWebHostContent (fst v (overlay_path repo)) h g = Some (m, doc)"
    by (cases p) auto
  from overlay_content_idem [OF p] p show ?thesis
    by (simp add: repo_update_def operator_with_host_idem)
qed (simp add: repo_update_def)

lemma global_change:
  assumes "journal_ok mac opPath d" and "applyGlobalWebHost mac opPath aio host granting d = (b, d')"
  shows "journal_ok mac opPath d' \<and>
    (allowance_view d' = allowance_view d \<or> allowance_view d' = global_update host granting (allowance_view d)) \<and>
    (b \<longrightarrow> allowance_view d' = global_update host granting (allowance_view d))"
proof -
  obtain c d1 where r: "recoverAllowanceJournals mac opPath (alListed aio) (alBefore aio) d = (c, d1)"
    by fastforce
  note after = recover_all_view [OF assms(1) r]
  show ?thesis
  proof (cases "alLocked aio \<and> c \<and> alLoads aio \<and> alOperatorDir aio")
    case True
    have j: "adJournals d1 = []" and v: "allowance_view d = (adOverlays d1, adOperator d1)"
      using after True by auto
    have "b \<longleftrightarrow> alWrite aio = Written"
      and d': "d' = write_operator (alWrite aio) ((adOperator d1)\<lparr>GlobalWebHosts :=
        updateHost (GlobalWebHosts (adOperator d1)) host granting\<rparr>) d1"
      using True r assms(2) by (auto simp: applyGlobalWebHost_def)
    with j v show ?thesis
      by (auto simp: write_operator_def journal_ok_def global_update_def split: if_split_asm)
  next
    case False
    then have "\<not> b" and "d' = d \<or> d' = d1"
      using r assms(2) by (auto simp: applyGlobalWebHost_def split: if_split_asm bool.split_asm)
    then show ?thesis using after assms(1) by auto
  qed
qed

lemma write_journal_view:
  assumes "adJournals d = []" and "writeAllowanceJournal mac rio wo name j d = (b, d')"
    and "is_abs (ajOverlayPath j)" and "ajOperatorPath j = opPath"
  shows "journal_ok mac opPath d' \<and>
    (\<not> b \<and> allowance_view d' = allowance_view d \<or> name \<in> fst ` set (adJournals d') \<and>
       allowance_view d' = journal_effect j (allowance_view d))"
proof -
  obtain ko d1 where k: "allowanceKey rio d = (ko, d1)" by fastforce
  then have d1: "adJournals d1 = []" "allowance_view d1 = allowance_view d" "ko \<noteq> None \<longrightarrow> adKey d1 = ko"
    using assms(1) by (auto simp: allowanceKey_def split: option.split_asm if_split_asm)
  show ?thesis
  proof (cases "ko \<noteq> None \<and> wo \<noteq> NotWritten")
    case True
    then obtain key where "ko = Some key" by blast
    with True k assms d1 show ?thesis
      by (auto simp: writeAllowanceJournal_def journal_ok_def valid_journal_def journal_effect_def
          journal_mac_def)
  next
    case False
    then have "\<not> b \<and> d' = d1"
      using k assms(2) by (auto simp: writeAllowanceJournal_def split: option.split_asm)
    with d1 show ?thesis by (simp add: journal_ok_def)
  qed
qed

lemma is_abs_overlay_path: "is_abs repo \<Longrightarrow> is_abs (overlay_path repo)"
proof -
  assume "is_abs repo"
  then have "repo \<noteq> ''''" and "is_abs (repo @ ''/'' @ ''guardrail.toml'')"
    by (cases repo; simp add: is_abs_def)+
  then show ?thesis unfolding overlay_path_def join_path_def by (simp del: append.simps)
qed

lemma repo_change:
  assumes "journal_ok mac opPath d" and "is_abs repo"
    and "applyRepoWebHost mac digest opPath aio repo host granting d = (b, d')"
  shows "journal_ok mac opPath d' \<and>
    (allowance_view d' = allowance_view d \<or> allowance_view d' = repo_update repo host granting (allowance_view d)) \<and>
    (b \<longrightarrow> allowance_view d' = repo_update repo host granting (allowance_view d))"
proof -
  obtain c d1 where r: "recoverAllowanceJournals mac opPath (alListed aio) (alBefore aio) d = (c, d1)"
    by fastforce
  note after = recover_all_view [OF assms(1) r]
  let ?content = "overlayWebHostContent (adOverlays d1 (overlay_path repo)) host granting"
  show ?thesis
  proof (cases "alLocked aio \<and> c \<and> alLoads aio \<and> ?content \<noteq> None \<and> alOperatorDir aio")
    case True
    then obtain m doc where content: "?content = Some (m, doc)" by auto
    have j: "adJournals d1 = []" and v: "allowance_view d = (adOverlays d1, adOperator d1)"
      using after True by auto
    let ?name = "mustAllowanceJournalPath digest repo"
    let ?j = "\<lparr>ajOverlayPath = overlay_path repo, ajOverlayAfter = doc, ajOverlayMode = m,
      ajOperatorPath = opPath, ajOperatorAfter = operator_with_host repo host granting (adOperator d1),
      ajMAC = ''''\<rparr>"
    obtain w d2 where wr: "writeAllowanceJournal mac (alKey aio) (alWrite aio) ?name ?j d1 = (w, d2)"
      by fastforce
    have upd: "journal_effect ?j (allowance_view d1) = repo_update repo host granting (allowance_view d)"
      using content v j by (simp add: journal_effect_def repo_update_def)
    have wv: "journal_ok mac opPath d2 \<and> (\<not> w \<and> allowance_view d2 = allowance_view d \<or>
        ?name \<in> fst ` set (adJournals d2) \<and> allowance_view d2 = repo_update repo host granting (allowance_view d))"
      using write_journal_view [OF j wr] is_abs_overlay_path [OF assms(2)] after upd by simp
    show ?thesis
    proof (cases w)
      case True
      then have rec: "recoverAllowanceJournal mac opPath (alAfter aio) ?name d2 = (b, d')"
        using assms(3) \<open>alLocked aio \<and> c \<and> alLoads aio \<and> ?content \<noteq> None \<and> alOperatorDir aio\<close> r content wr
        by (simp add: applyRepoWebHost_def Let_def)
      show ?thesis using recover_view [OF _ rec] wv True by auto
    next
      case False
      then have "\<not> b \<and> d' = d2"
        using assms(3) True r content wr by (simp add: applyRepoWebHost_def Let_def)
      then show ?thesis using wv by auto
    qed
  next
    case False
    then have "\<not> b" and "d' = d \<or> d' = d1"
      using r assms(3) by (auto simp: applyRepoWebHost_def split: if_split_asm bool.split_asm option.split_asm)
    then show ?thesis using after assms(1) by auto
  qed
qed

interpretation global_host: crash_atomic "journal_ok mac opPath" allowance_view
  "\<lambda>aio. applyGlobalWebHost mac opPath aio host granting" "global_update host granting"
  for mac opPath host granting
proof
  fix d aio
  assume "journal_ok mac opPath d"
  note c = global_change [OF this prod.collapse [symmetric], of aio host granting]
  show "journal_ok mac opPath (snd (applyGlobalWebHost mac opPath aio host granting d))"
    and "allowance_view (snd (applyGlobalWebHost mac opPath aio host granting d)) = allowance_view d \<or>
      allowance_view (snd (applyGlobalWebHost mac opPath aio host granting d)) =
        global_update host granting (allowance_view d)"
    and "fst (applyGlobalWebHost mac opPath aio host granting d) \<Longrightarrow>
      allowance_view (snd (applyGlobalWebHost mac opPath aio host granting d)) =
        global_update host granting (allowance_view d)"
    using c by blast+
next
  show "global_update host granting (global_update host granting v) = global_update host granting v" for v
    by (simp add: global_update_def updateHost_idem)
qed

text \<open>The request's repository is absolute (\<^verbatim>\<open>executeWebHostApproval\<close> checks it), so the change of an
  allowance is stated for a rooted path.\<close>

interpretation repo_host: crash_atomic "journal_ok mac opPath" allowance_view
  "\<lambda>aio. applyRepoWebHost mac digest opPath aio (slash # repo) host granting"
  "repo_update (slash # repo) host granting"
  for mac digest opPath repo host granting
proof
  fix d aio
  assume "journal_ok mac opPath d"
  moreover have "is_abs (slash # repo)" by (simp add: is_abs_def)
  ultimately have c: "journal_ok mac opPath d'" "allowance_view d' = allowance_view d \<or>
      allowance_view d' = repo_update (slash # repo) host granting (allowance_view d)"
    "b \<longrightarrow> allowance_view d' = repo_update (slash # repo) host granting (allowance_view d)"
    if "applyRepoWebHost mac digest opPath aio (slash # repo) host granting d = (b, d')" for b d'
    using repo_change [OF _ _ that] by blast+
  show "journal_ok mac opPath (snd (applyRepoWebHost mac digest opPath aio (slash # repo) host granting d))"
    and "allowance_view (snd (applyRepoWebHost mac digest opPath aio (slash # repo) host granting d)) =
        allowance_view d \<or>
      allowance_view (snd (applyRepoWebHost mac digest opPath aio (slash # repo) host granting d)) =
        repo_update (slash # repo) host granting (allowance_view d)"
    and "fst (applyRepoWebHost mac digest opPath aio (slash # repo) host granting d) \<Longrightarrow>
      allowance_view (snd (applyRepoWebHost mac digest opPath aio (slash # repo) host granting d)) =
        repo_update (slash # repo) host granting (allowance_view d)"
    using c [OF prod.collapse [symmetric]] by blast+
next
  show "repo_update (slash # repo) host granting (repo_update (slash # repo) host granting v) =
      repo_update (slash # repo) host granting v" for v
    by (rule repo_update_idem)
qed

text \<open>C18: A repository web-host change is crash-safe.  After any number of attempts, each interrupted at
  any file operation or not, what the overlay and the Operator config say once the journal is
  replayed is either what they said before the first attempt or exactly the change; and once an
  attempt reports success it is the change.\<close>

theorem repo_web_host_crash_safe:
  assumes "journal_ok mac opPath d"
  shows "(let d' = attempts (\<lambda>aio. applyRepoWebHost mac digest opPath aio (slash # repo) host granting) tries d
     in (allowance_view d' = allowance_view d \<or>
         allowance_view d' = repo_update (slash # repo) host granting (allowance_view d)) \<and>
        (case applyRepoWebHost mac digest opPath aio (slash # repo) host granting d' of
           (good, d'') \<Rightarrow> good \<longrightarrow>
             allowance_view d'' = repo_update (slash # repo) host granting (allowance_view d)))"
  using repo_host.attempts_atomic [OF assms] repo_host.retry_converges [OF assms]
  by (simp add: Let_def case_prod_beta)

definition smooth_recover :: recover_io where
  "smooth_recover = \<lparr>rioDir = True, rioKeyReadable = True, rioNewKey = Some (''k'', Written),
     rioOverlay = Written, rioOperatorDir = True, rioOperator = Written, rioRemove = Written\<rparr>"

definition smooth_io :: allowance_io where
  "smooth_io = \<lparr>alLocked = True, alListed = True, alBefore = [smooth_recover], alLoads = True,
     alOperatorDir = True, alKey = smooth_recover, alWrite = Written, alAfter = smooth_recover\<rparr>"

definition fresh_disk :: allowance_disk where
  "fresh_disk = \<lparr>adOverlays = (\<lambda>_. None), adOperator = emptyOperatorConfig, adJournals = [], adKey = None\<rparr>"

lemmas smooth_simps = smooth_recover_def smooth_io_def fresh_disk_def applyRepoWebHost_def
  applyGlobalWebHost_def recoverAllowanceJournals_def recoverAllowanceJournal_def allowanceKey_def
  writeAllowanceJournal_def replay_journal_def write_overlay_def write_operator_def remove_journal_def
  overlayWebHostContent_def with_hosts_def overlay_slots_def updateHost_def operator_with_host_def
  journal_mac_def lookup_default_def empty_repo_grant_def emptyOperatorConfig_def del_assoc_def
  mustAllowanceJournalPath_def Let_def

text \<open>The first attempt stops between the two files; the second finds the journal and finishes it.\<close>

theorem repo_web_host_crash_safe_witness:
  "(let change = (\<lambda>aio. applyRepoWebHost (\<lambda>k j. ''m'') id ''/op'' aio ''/r'' ''example.com'' True);
        d' = attempts change [smooth_io\<lparr>alAfter := smooth_recover\<lparr>rioOperator := NotWritten\<rparr>\<rparr>] fresh_disk
    in adJournals d' \<noteq> [] \<and>
       allowance_view (snd (change smooth_io d')) = repo_update ''/r'' ''example.com'' True (allowance_view fresh_disk))"
proof -
  let ?change = "\<lambda>aio. applyRepoWebHost (\<lambda>k j. ''m'') id ''/op'' aio ''/r'' ''example.com'' True"
  let ?tries = "[smooth_io\<lparr>alAfter := smooth_recover\<lparr>rioOperator := NotWritten\<rparr>\<rparr>]"
  have ok: "journal_ok (\<lambda>k j. ''m'') ''/op'' fresh_disk" by (simp add: journal_ok_def fresh_disk_def)
  have abs: "is_abs (overlay_path ''/r'')" by (rule is_abs_overlay_path) (simp add: is_abs_def)
  have "adJournals (attempts ?change ?tries fresh_disk) \<noteq> []"
    and "fst (?change smooth_io (attempts ?change ?tries fresh_disk))"
    using abs by (simp_all add: smooth_simps)
  then show ?thesis
    using repo_web_host_crash_safe [OF ok, of id "''r''" "''example.com''" True ?tries smooth_io]
    by (simp add: Let_def case_prod_beta)
qed

section \<open>A half-made change grants nothing\<close>

text \<open>A host is effective in a repository when its overlay lists it and the Operator config allows it.\<close>

definition effective_hosts :: "string \<Rightarrow> allowance_view \<Rightarrow> string set" where
  "effective_hosts repo v =
     (case fst v (overlay_path repo) of
        Some (OverlayDoc m raw) \<Rightarrow>
          set (slot_hosts (overlay_slots raw)) \<inter>
          set (rgWebHosts (lookup_default empty_repo_grant (Repos (snd v)) repo))
      | _ \<Rightarrow> {})"

abbreviation on_disk :: "allowance_disk \<Rightarrow> allowance_view" where
  "on_disk d \<equiv> (adOverlays d, adOperator d)"

lemma half_made_effective:
  assumes "overlayWebHostContent (fst v (overlay_path repo)) host granting = Some (m, doc)"
  shows "effective_hosts repo ((fst v)(overlay_path repo \<mapsto> OverlayDoc m doc), snd v) \<in>
    {effective_hosts repo v, effective_hosts repo (repo_update repo host granting v)}"
proof -
  define hosts where "hosts = (case fst v (overlay_path repo) of
      Some (OverlayDoc m raw) \<Rightarrow> slot_hosts (overlay_slots raw) | _ \<Rightarrow> [])"
  define allowed where "allowed = rgWebHosts (lookup_default empty_repo_grant (Repos (snd v)) repo)"
  have doc: "slot_hosts (overlay_slots doc) = updateHost hosts host granting"
    using assms by (auto simp: overlayWebHostContent_def hosts_def split: option.splits overlay_content.splits)
  have half: "effective_hosts repo ((fst v)(overlay_path repo \<mapsto> OverlayDoc m doc), snd v) =
      set (updateHost hosts host granting) \<inter> set allowed"
    by (simp add: effective_hosts_def doc allowed_def)
  have after: "effective_hosts repo (repo_update repo host granting v) =
      set (updateHost hosts host granting) \<inter> set (updateHost allowed host granting)"
    using assms by (simp add: effective_hosts_def repo_update_def doc allowed_def operator_with_host_def
        lookup_default_def Let_def)
  have before: "effective_hosts repo v = set hosts \<inter> set allowed"
    by (auto simp: effective_hosts_def hosts_def allowed_def split: option.splits overlay_content.splits)
  show ?thesis
    unfolding half after before by (cases granting; cases "host \<in> set allowed") (auto simp: set_updateHost)
qed

lemma key_on_disk:
  "on_disk (snd (allowanceKey rio d)) = on_disk d \<and> adJournals (snd (allowanceKey rio d)) = adJournals d"
  by (auto simp: allowanceKey_def split: option.split)

definition overlay_effect :: "allowance_journal \<Rightarrow> allowance_view \<Rightarrow> allowance_view" where
  "overlay_effect j v = (fst (journal_effect j v), snd v)"

lemma replay_on_disk:
  "on_disk (snd (replay_journal rio name j d)) \<in>
     {on_disk d, overlay_effect j (on_disk d), journal_effect j (on_disk d)}"
  by (auto simp: replay_journal_def write_overlay_def write_operator_def remove_journal_def
      overlay_effect_def journal_effect_def Let_def)

lemma recover_on_disk:
  assumes "map_of (adJournals d) name = Some (Journal j)"
  shows "on_disk (snd (recoverAllowanceJournal mac opPath rio name d)) \<in>
    {on_disk d, overlay_effect j (on_disk d), journal_effect j (on_disk d)}"
proof -
  obtain ko d1 where k: "allowanceKey rio d = (ko, d1)" by fastforce
  then have d1: "on_disk d1 = on_disk d" using key_on_disk [of rio d] by simp
  have "on_disk (snd (recoverAllowanceJournal mac opPath rio name d)) \<in>
      {on_disk d, on_disk d1, on_disk (snd (replay_journal rio name j d1))}"
    using assms k by (auto simp: recoverAllowanceJournal_def split: option.split)
  then show ?thesis using replay_on_disk [of rio name j d1] d1 by auto
qed

lemma write_journal_on_disk:
  assumes "writeAllowanceJournal mac rio wo name j d = (b, d')"
  shows "on_disk d' = on_disk d \<and>
    (b \<longrightarrow> (\<exists>m. map_of (adJournals d') name = Some (Journal (j\<lparr>ajMAC := m\<rparr>))))"
proof -
  obtain ko d1 where k: "allowanceKey rio d = (ko, d1)" by fastforce
  then have "on_disk d1 = on_disk d" using key_on_disk [of rio d] by simp
  with k assms show ?thesis
    by (auto simp: writeAllowanceJournal_def split: option.split_asm if_split_asm)
qed

lemma repo_change_effective:
  assumes "adJournals d = []"
    and "applyRepoWebHost mac digest opPath aio repo host granting d = (b, d')"
  shows "effective_hosts repo (on_disk d') \<in>
    {effective_hosts repo (on_disk d), effective_hosts repo (repo_update repo host granting (on_disk d))}"
proof (cases "overlayWebHostContent (adOverlays d (overlay_path repo)) host granting")
  case None
  with assms have "d' = d"
    by (auto simp: applyRepoWebHost_def recoverAllowanceJournals_def split: if_split_asm bool.split_asm)
  then show ?thesis by simp
next
  case (Some content)
  then obtain m doc where content:
    "overlayWebHostContent (adOverlays d (overlay_path repo)) host granting = Some (m, doc)"
    by (cases content) auto
  let ?name = "mustAllowanceJournalPath digest repo"
  let ?j = "\<lparr>ajOverlayPath = overlay_path repo, ajOverlayAfter = doc, ajOverlayMode = m,
    ajOperatorPath = opPath, ajOperatorAfter = operator_with_host repo host granting (adOperator d),
    ajMAC = ''''\<rparr>"
  obtain w d2 where wr: "writeAllowanceJournal mac (alKey aio) (alWrite aio) ?name ?j d = (w, d2)"
    by fastforce
  have d2: "on_disk d2 = on_disk d" using write_journal_on_disk [OF wr] by blast
  have after: "on_disk (snd (recoverAllowanceJournal mac opPath (alAfter aio) ?name d2)) \<in>
      {on_disk d, ((adOverlays d)(overlay_path repo \<mapsto> OverlayDoc m doc), adOperator d),
       repo_update repo host granting (on_disk d)}" if written: w
  proof -
    obtain mc where "map_of (adJournals d2) ?name = Some (Journal (?j\<lparr>ajMAC := mc\<rparr>))"
      using write_journal_on_disk [OF wr] written by blast
    from recover_on_disk [OF this, of mac opPath "alAfter aio"] content d2 show ?thesis
      by (simp add: overlay_effect_def journal_effect_def repo_update_def)
  qed
  have "on_disk d' \<in> {on_disk d, ((adOverlays d)(overlay_path repo \<mapsto> OverlayDoc m doc), adOperator d),
       repo_update repo host granting (on_disk d)}"
  proof -
    have "d' = d \<or> d' = (if w then snd (recoverAllowanceJournal mac opPath (alAfter aio) ?name d2) else d2)"
      using assms content wr
      by (cases w) (simp_all add: applyRepoWebHost_def recoverAllowanceJournals_def Let_def
          split: if_split_asm)
    then show ?thesis using after d2 by (cases w) auto
  qed
  then consider (before) "on_disk d' = on_disk d"
    | (half) "on_disk d' = ((adOverlays d)(overlay_path repo \<mapsto> OverlayDoc m doc), adOperator d)"
    | (after) "on_disk d' = repo_update repo host granting (on_disk d)"
    by blast
  then show ?thesis
  proof cases
    case half
    show ?thesis
      using half_made_effective [of "on_disk d" repo host granting m doc] content
      unfolding half fst_conv snd_conv by blast
  qed (simp_all only: insert_iff simp_thms)
qed

text \<open>At no point of an interrupted change does a repository reach a host that it could reach neither
  before nor after: on the files as they are, before any recovery, the effective hosts are those from
  before the change or those it was meant to leave.\<close>

lemma half_made_change_grants_nothing:
  assumes "adJournals d = []"
    and "applyRepoWebHost mac digest opPath aio repo host granting d = (b, d')"
  shows "effective_hosts repo (on_disk d') = effective_hosts repo (on_disk d) \<or>
    effective_hosts repo (on_disk d') = effective_hosts repo (repo_update repo host granting (on_disk d))"
  using repo_change_effective [OF assms] by simp

section \<open>Batches\<close>

text \<open>A batch whose later host fails is undone by revoking the hosts before it, also the ones that were
  already granted; a batch of revocations is undone by granting, also hosts that were never granted;
  and a host whose write reports an error after it took effect is not undone.\<close>

definition batch_apply :: "(string \<Rightarrow> allowance_io) \<Rightarrow> string \<Rightarrow> bool \<Rightarrow> allowance_disk \<Rightarrow> bool \<times> allowance_disk" where
  "batch_apply io host granting = applyGlobalWebHost (\<lambda>k j. ''m'') ''/op'' (io host) host granting"

definition hosts_after_batch ::
  "bool \<Rightarrow> write_outcome \<Rightarrow> string list \<Rightarrow> string list \<Rightarrow> bool \<times> string list" where
  "hosts_after_batch granting second before hosts =
     (case applyWebHostBatch hosts granting
             (batch_apply (\<lambda>h. if h = ''b.com'' then smooth_io\<lparr>alWrite := second\<rparr> else smooth_io))
             (fresh_disk\<lparr>adOperator := emptyOperatorConfig\<lparr>GlobalWebHosts := before\<rparr>\<rparr>) of
        (good, d) \<Rightarrow> (good, GlobalWebHosts (adOperator d)))"

lemma batch_rollback_revokes_existing:
  "hosts_after_batch True NotWritten [''a.com''] [''a.com'', ''b.com''] = (False, [])"
  by (simp add: hosts_after_batch_def batch_apply_def applyWebHostBatch_def smooth_simps)

lemma batch_lands_half_granted:
  "hosts_after_batch True WrittenButUnsynced [] [''a.com'', ''b.com''] = (False, [''b.com''])"
  by (simp add: hosts_after_batch_def batch_apply_def applyWebHostBatch_def smooth_simps)

lemma failed_revoke_grants:
  "hosts_after_batch False NotWritten [] [''a.com'', ''b.com''] = (False, [''a.com''])"
  by (simp add: hosts_after_batch_def batch_apply_def applyWebHostBatch_def smooth_simps)

text \<open>\<^verbatim>\<open>applyRepoWebHost\<close> files the host under the path it was given, while matching falls back to the
  entry of the same physical directory: the new entry hides the old one.\<close>

definition linked_fs :: filesystem where
  "linked_fs = \<lparr>fs_lstat = (\<lambda>p. Exists), fs_eval_symlinks = (\<lambda>p. Some ''/real'')\<rparr>"

lemma repo_host_hides_other_spelling:
  "AllowsWaiver linked_fs (Some (emptyOperatorConfig\<lparr>Repos := [(''/real'', empty_repo_grant\<lparr>rgWaive := [''P5.x'']\<rparr>)]\<rparr>))
     ''/link'' ''P5.x''"
  "\<not> AllowsWaiver linked_fs (Some (operator_with_host ''/link'' ''a.com'' True
        (emptyOperatorConfig\<lparr>Repos := [(''/real'', empty_repo_grant\<lparr>rgWaive := [''P5.x'']\<rparr>)]\<rparr>)))
     ''/link'' ''P5.x''"
  by code_simp+

end
