(* ===== verification/Operator_Action.thy ===== *)
theory Operator_Action
  imports Operator_Config Tool_Call
begin

text \<open>
  The canonical operator commands: \<^verbatim>\<open>src/internal/engine/operator_action.go\<close>.

  An action's parameters are an association list; reading a missing key gives the empty string, as
  in Go.  The two regular expressions are anchored at both ends, so each is written as the predicate
  on the whole string it accepts; \<^verbatim>\<open>time.Parse\<close> of an \<^verbatim>\<open>hh:mm\<close> that the first one accepted fails
  exactly when the hour is above 23.

  The theorems show that nothing outside a small alphabet is ever an operator action, that the
  grant command the engine prints is recognised, and when a grant is already satisfied.
\<close>

section \<open>Actions\<close>

record op_action =
  oaName :: string
  oaParameters :: "(string \<times> string) list"
  oaCommand :: string

definition op_param :: "op_action \<Rightarrow> string \<Rightarrow> string" where
  "op_param a k = lookup_default '''' (oaParameters a) k"

definition Brokered :: "op_action \<Rightarrow> bool" where
  "Brokered a \<longleftrightarrow> oaName a \<in> set [''night-on'', ''night-off'', ''web-host-grant'', ''web-host-revoke'']"

definition Summary :: "op_action \<Rightarrow> string" where
  "Summary a =
     (let p = op_param a; n = oaName a
      in if n = ''setup'' then
           (let planes = (if p ''planes'' \<noteq> '''' then ''planes '' @ p ''planes'' else ''every detected plane'')
            in if p ''state'' = ''disabled''
               then ''remove guardrail from '' @ planes @ '' (guardrail setup --state disabled)''
               else ''register guardrail on '' @ planes @ '' (guardrail setup)'')
         else if n = ''plane-enable'' \<or> n = ''plane-disable'' then
           (let target = (if p ''target'' = ''--all'' then ''every detected plane''
                          else ''the '' @ p ''target'' @ '' plane'')
            in if n = ''plane-disable'' then ''remove guardrail from '' @ target
               else ''register guardrail on '' @ target)
         else if n = ''recover'' then
           ''repair '' @ p ''repair'' @ '' (guardrail recovery: backup, then re-register)''
         else if n = ''web-research-set'' then
           (if p ''enforcement'' = ''off'' then ''turn native web-research enforcement off, machine-wide''
            else ''turn native web-research enforcement on (strict), machine-wide'')
         else if n = ''night-on'' then
           ''turn night mode on until '' @ p ''until'' @ '' (asks become allows)''
         else if n = ''night-off'' then ''turn night mode off''
         else if n = ''web-host-grant'' then
           ''let guardrail fetch reach '' @ p ''hosts'' @ '' ('' @ p ''scope'' @ '' scope)''
         else if n = ''web-host-revoke'' then
           ''withdraw guardrail fetch access to '' @ p ''hosts'' @ '' ('' @ p ''scope'' @ '' scope)''
         else n)"

definition lifecyclePlanes :: "string list" where
  "lifecyclePlanes = [''claude'', ''opencode'', ''antigravity'', ''codex'']"

definition lifecycleRepairs :: "string list" where
  "lifecycleRepairs = [''claude-settings'', ''opencode-config'', ''antigravity-hooks'']"

section \<open>Lifecycle commands\<close>

definition canonical_byte :: "char \<Rightarrow> bool" where
  "canonical_byte c \<longleftrightarrow>
     is_lower c \<or> is_digit c \<or> c \<in> set [CHR ''.'', CHR '','', CHR ''='', CHR ''-'', CHR '':'', CHR '' '']"

definition canonicalCommandBytes :: "string \<Rightarrow> bool" where
  "canonicalCommandBytes command = list_all canonical_byte command"

definition setup_flag :: "string \<Rightarrow> string \<Rightarrow> (string \<times> string) list \<Rightarrow> (string \<times> string) list option" where
  "setup_flag name value values =
     (if map_of values name \<noteq> None \<or> value = '''' then None else Some ((name, value) # values))"

fun setup_flags :: "string list \<Rightarrow> (string \<times> string) list \<Rightarrow> (string \<times> string) list option" where
  "setup_flags [] values = Some values"
| "setup_flags [t] values =
     (case cut CHR ''='' (trim_prefix t ''--'') of
        (name, value, inline) \<Rightarrow>
          if \<not> has_prefix t ''--'' \<or> (name \<noteq> ''state'' \<and> name \<noteq> ''planes'') \<or> \<not> inline then None
          else setup_flag name value values)"
| "setup_flags (t # u # ts) values =
     (case cut CHR ''='' (trim_prefix t ''--'') of
        (name, value, inline) \<Rightarrow>
          if \<not> has_prefix t ''--'' \<or> (name \<noteq> ''state'' \<and> name \<noteq> ''planes'') then None
          else if inline then
            (case setup_flag name value values of None \<Rightarrow> None | Some vs \<Rightarrow> setup_flags (u # ts) vs)
          else if has_prefix u ''-'' then None
          else (case setup_flag name u values of None \<Rightarrow> None | Some vs \<Rightarrow> setup_flags ts vs))"

definition parseLifecycleCommand :: "string \<Rightarrow> op_action option" where
  "parseLifecycleCommand command =
     (if \<not> has_prefix command ''guardrail '' \<or> \<not> canonicalCommandBytes command then None
      else (let tokens = split_on CHR '' '' command; kind = tokens ! 1;
                act = (\<lambda>n ps. Some \<lparr>oaName = n, oaParameters = ps, oaCommand = command\<rparr>)
            in if '''' \<in> set tokens then None
               else if kind = ''setup'' then
                 (case setup_flags (drop 2 tokens) [] of
                    None \<Rightarrow> None
                  | Some values \<Rightarrow>
                      (let state = (if lookup_default '''' values ''state'' = '''' then ''enabled''
                                    else lookup_default '''' values ''state'')
                       in if state \<noteq> ''enabled'' \<and> state \<noteq> ''disabled'' then None
                          else (case map_of values ''planes'' of
                                  None \<Rightarrow> act ''setup'' [(''state'', state)]
                                | Some planes \<Rightarrow>
                                    (let ps = split_on CHR '','' planes
                                     in if list_all (\<lambda>p. p \<in> set lifecyclePlanes) ps \<and> distinct ps
                                        then act ''setup'' [(''planes'', planes), (''state'', state)]
                                        else None))))
               else if kind = ''plane'' then
                 (if length tokens \<noteq> 4 \<or> (tokens ! 2 \<noteq> ''enable'' \<and> tokens ! 2 \<noteq> ''disable'') \<or>
                     (tokens ! 3 \<notin> set lifecyclePlanes \<and> tokens ! 3 \<noteq> ''--all'') then None
                  else act (''plane-'' @ tokens ! 2) [(''target'', tokens ! 3)])
               else if kind = ''recover'' then
                 (if length tokens \<noteq> 3 \<or> tokens ! 2 \<notin> set lifecycleRepairs then None
                  else act ''recover'' [(''repair'', tokens ! 2)])
               else if kind = ''web-research'' then
                 (if length tokens \<noteq> 3 \<or> (tokens ! 2 \<noteq> ''on'' \<and> tokens ! 2 \<noteq> ''off'') then None
                  else act ''web-research-set'' [(''enforcement'', tokens ! 2)])
               else None))"

section \<open>Night and web-host commands\<close>

text \<open>\<^verbatim>\<open>nightUntilCommand\<close> with the parse of the time it captured.\<close>

definition night_clock :: "string \<Rightarrow> bool" where
  "night_clock t \<longleftrightarrow>
     length t = 5 \<and> CHR ''0'' \<le> t ! 0 \<and> t ! 0 \<le> CHR ''2'' \<and> is_digit (t ! 1) \<and> t ! 2 = CHR '':'' \<and>
     CHR ''0'' \<le> t ! 3 \<and> t ! 3 \<le> CHR ''5'' \<and> is_digit (t ! 4)"

definition night_prefix :: string where
  "night_prefix = ''guardrail night on --until ''"

definition clock_parses :: "string \<Rightarrow> bool" where
  "clock_parses t \<longleftrightarrow> \<not> (t ! 0 = CHR ''2'' \<and> t ! 1 > CHR ''3'')"

text \<open>\<^verbatim>\<open>webHostBatch\<close>: hosts of at least two labels, separated by commas.\<close>

definition batch_host :: "string \<Rightarrow> bool" where
  "batch_host h \<longleftrightarrow>
     2 \<le> length (split_on CHR ''.'' h) \<and> list_all valid_label (split_on CHR ''.'' h)"

definition webHostBatch :: "string \<Rightarrow> bool" where
  "webHostBatch hosts = list_all batch_host (split_on CHR '','' hosts)"

definition web_flag :: "string \<Rightarrow> string \<Rightarrow> (string \<times> string) list \<Rightarrow> (string \<times> string) list option" where
  "web_flag name value values =
     (if (name \<noteq> ''scope'' \<and> name \<noteq> ''host'') \<or> value = '''' \<or> contains value ''='' then None
      else if map_of values name \<noteq> None then None
      else Some ((name, value) # values))"

fun web_flags :: "string list \<Rightarrow> (string \<times> string) list \<Rightarrow> (string \<times> string) list option" where
  "web_flags [] values = Some values"
| "web_flags [t] values =
     (if t = '''' \<or> \<not> has_prefix t ''--'' then None
      else (case cut CHR ''='' (drop 2 t) of
              (name, value, hasValue) \<Rightarrow> if hasValue then web_flag name value values else None))"
| "web_flags (t # u # ts) values =
     (if t = '''' \<or> \<not> has_prefix t ''--'' then None
      else (case cut CHR ''='' (drop 2 t) of
              (name, value, hasValue) \<Rightarrow>
                if hasValue then
                  (case web_flag name value values of None \<Rightarrow> None | Some vs \<Rightarrow> web_flags (u # ts) vs)
                else if has_prefix u ''-'' then None
                else (case web_flag name u values of None \<Rightarrow> None | Some vs \<Rightarrow> web_flags ts vs)))"

definition web_host_prefix :: string where
  "web_host_prefix = ''guardrail egress ''"

definition parseWebHostCommand :: "string \<Rightarrow> (string \<times> string \<times> string) option" where
  "parseWebHostCommand command =
     (if \<not> has_prefix command web_host_prefix \<or>
         \<not> list_all (\<lambda>c. canonical_byte c \<and> c \<noteq> CHR '':'') command then None
      else (let tokens = split_on CHR '' '' (drop (length web_host_prefix) command)
            in if length tokens < 3 \<or> (hd tokens \<noteq> ''grant'' \<and> hd tokens \<noteq> ''revoke'') then None
               else (case web_flags (tl tokens) [] of
                       None \<Rightarrow> None
                     | Some values \<Rightarrow>
                         (let scope = lookup_default '''' values ''scope'';
                              hosts = lookup_default '''' values ''host''
                          in if length values \<noteq> 2 \<or> (scope \<noteq> ''repo'' \<and> scope \<noteq> ''global'') \<or>
                                \<not> webHostBatch hosts then None
                             else if \<not> list_all (\<lambda>h. ValidateWebHost h = None) (split_on CHR '','' hosts)
                             then None
                             else Some (hd tokens, scope, hosts)))))"

section \<open>Recognition\<close>

definition OperatorAction :: "tool_call \<Rightarrow> op_action option" where
  "OperatorAction tc =
     (let c = tcCommand tc
      in if \<not> IsBash tc then None
         else if c = ''guardrail night off'' then
           Some \<lparr>oaName = ''night-off'', oaParameters = [], oaCommand = c\<rparr>
         else if has_prefix c night_prefix \<and> night_clock (drop (length night_prefix) c) then
           (let t = drop (length night_prefix) c
            in if \<not> clock_parses t then None
               else Some \<lparr>oaName = ''night-on'', oaParameters = [(''until'', t)], oaCommand = c\<rparr>)
         else (case parseWebHostCommand c of
                 Some (verb, scope, hosts) \<Rightarrow>
                   Some \<lparr>oaName = ''web-host-'' @ verb,
                         oaParameters = [(''scope'', scope), (''hosts'', hosts)], oaCommand = c\<rparr>
               | None \<Rightarrow> parseLifecycleCommand c))"

definition OperatorActionSatisfied ::
  "op_action \<Rightarrow> policy option \<Rightarrow> operator_config option \<Rightarrow> string option" where
  "OperatorActionSatisfied a pol op =
     (case pol of
        None \<Rightarrow> None
      | Some pl \<Rightarrow>
          if oaName a \<noteq> ''web-host-grant'' then None
          else (let scope = op_param a ''scope'';
                    hosts = split_on CHR '','' (op_param a ''hosts'');
                    answer = (\<lambda>allowed. if list_all (\<lambda>h. h \<in> set allowed) hosts
                       then Some (''egress to '' @ join '', '' hosts @ '' is already authorized at '' @
                                  scope @ '' scope; no request filed'')
                       else None)
                in if scope = ''repo'' then answer (WebHosts (Slots pl))
                   else if scope = ''global'' then
                     (case op of None \<Rightarrow> None | Some o' \<Rightarrow> answer (GlobalWebHosts o'))
                   else None))"

section \<open>Only canonical text is an action\<close>

lemma night_clock_chars:
  assumes "night_clock t"
  shows "list_all canonical_byte t"
proof -
  obtain a b c d e where t: "t = [a, b, c, d, e]"
    using assms by (auto simp: night_clock_def numeral_eq_Suc length_Suc_conv)
  have "is_digit a \<and> is_digit b \<and> c = CHR '':'' \<and> is_digit d \<and> is_digit e"
    using assms by (auto simp: night_clock_def t is_digit_def less_eq_char_def)
  then show ?thesis by (simp add: t canonical_byte_def)
qed

lemma parseLifecycleCommand_Some:
  assumes "parseLifecycleCommand c = Some a"
  shows "has_prefix c ''guardrail '' \<and> canonicalCommandBytes c \<and> oaCommand a = c \<and>
     oaName a \<in> set [''setup'', ''plane-enable'', ''plane-disable'', ''recover'', ''web-research-set'']"
  using assms unfolding parseLifecycleCommand_def Let_def
  by (auto split: if_split_asm option.split_asm)

lemma parseWebHostCommand_Some:
  assumes "parseWebHostCommand c = Some (verb, scope, hosts)"
  shows "has_prefix c ''guardrail '' \<and> canonicalCommandBytes c \<and> verb \<in> {''grant'', ''revoke''} \<and>
     scope \<in> {''repo'', ''global''} \<and> list_all (\<lambda>h. ValidateWebHost h = None) (split_on CHR '','' hosts)"
proof -
  have "has_prefix c web_host_prefix" using assms by (auto simp: parseWebHostCommand_def split: if_splits)
  then have "has_prefix c ''guardrail ''"
    by (auto simp: web_host_prefix_def has_prefix_iff_prefix prefix_def)
  moreover have "canonicalCommandBytes c"
    using assms by (auto simp: parseWebHostCommand_def canonicalCommandBytes_def list_all_iff
        split: if_splits)
  ultimately show ?thesis
    using assms unfolding parseWebHostCommand_def Let_def
    by (auto split: if_split_asm option.split_asm)
qed

text \<open>Only canonical text is ever an operator action: a call recognised as one is a shell call
  whose whole command starts with the program's name and is written in lower-case letters, digits and
  six punctuation characters, so it holds no quoting, substitution, chaining, pipe or redirection,
  and the action carries exactly that command and one of nine names.\<close>

lemma OperatorAction_canonical:
  assumes "OperatorAction tc = Some a"
  shows "IsBash tc \<and> has_prefix (tcCommand tc) ''guardrail '' \<and> canonicalCommandBytes (tcCommand tc) \<and>
         oaCommand a = tcCommand tc \<and>
         oaName a \<in> set [''night-on'', ''night-off'', ''web-host-grant'', ''web-host-revoke'', ''setup'',
           ''plane-enable'', ''plane-disable'', ''recover'', ''web-research-set'']"
proof -
  let ?c = "tcCommand tc" and ?t = "drop (length night_prefix) (tcCommand tc)"
  have bash: "IsBash tc" using assms by (auto simp: OperatorAction_def Let_def split: if_splits)
  consider "?c = ''guardrail night off''"
    | "?c \<noteq> ''guardrail night off''" "has_prefix ?c night_prefix" "night_clock ?t"
    | "?c \<noteq> ''guardrail night off''" "\<not> (has_prefix ?c night_prefix \<and> night_clock ?t)" by blast
  then show ?thesis
  proof cases
    case 1
    with assms bash show ?thesis
      by (auto simp: OperatorAction_def canonicalCommandBytes_def canonical_byte_def is_lower_def
          less_eq_char_def)
  next
    case 2
    then obtain t where c: "?c = night_prefix @ t" by (metis has_prefixE)
    have "list_all canonical_byte night_prefix"
      by (simp add: night_prefix_def canonical_byte_def is_lower_def less_eq_char_def)
    then have "canonicalCommandBytes ?c"
      using night_clock_chars [OF 2(3)] by (simp add: canonicalCommandBytes_def c)
    moreover have "has_prefix ?c ''guardrail ''" by (simp add: c night_prefix_def)
    ultimately show ?thesis
      using assms bash 2 by (auto simp: OperatorAction_def Let_def split: if_split_asm)
  next
    case 3
    show ?thesis
    proof (cases "parseWebHostCommand ?c")
      case None
      then have "parseLifecycleCommand ?c = Some a"
        using assms bash 3 by (auto simp: OperatorAction_def Let_def split: if_split_asm)
      from parseLifecycleCommand_Some [OF this] bash show ?thesis by auto
    next
      case (Some p)
      obtain verb scope hosts where p: "p = (verb, scope, hosts)" by (cases p)
      have "a = \<lparr>oaName = ''web-host-'' @ verb,
          oaParameters = [(''scope'', scope), (''hosts'', hosts)], oaCommand = ?c\<rparr>"
        using assms bash 3 Some p by (auto simp: OperatorAction_def Let_def split: if_split_asm)
      with parseWebHostCommand_Some [OF Some [unfolded p]] bash show ?thesis by auto
    qed
  qed
qed

definition grant_call :: "string \<Rightarrow> tool_call" where
  "grant_call command =
     \<lparr>tcPlane = ''claude'', tcEvent = ''pre'', tcTool = ''Bash'', tcNativeTool = ''Bash'',
      tcContractTool = ''Bash'', tcCapability = CapabilityCommand, tcNativeWebResearch = False,
      tcURL = '''', tcInputShape = '''', tcCommand = command, tcShell = '''', tcPaths = [],
      tcArguments = '''', tcSessionID = ''s1'', tcCallID = '''', tcHostApproved = False,
      tcCWD = ''/repo'', tcRepoRoot = ''/repo'', tcPermittedRoots = [], tcDegradedAllows = []\<rparr>"

section \<open>The printed grant command is recognised\<close>

lemma batch_host_chars:
  "batch_host h \<Longrightarrow> ch \<in> set h \<Longrightarrow> ch = CHR ''.'' \<or> host_char ch"
  using valid_labels_char by (auto simp: batch_host_def)

lemma host_list_char:
  assumes "\<forall>h\<in>set hosts. batch_host h" and "ch \<in> set (join '','' hosts)"
  shows "ch = CHR '','' \<or> ch = CHR ''.'' \<or> host_char ch"
  using set_join [OF assms(2)] assms(1) batch_host_chars by fastforce

lemma host_char_canonical: "host_char ch \<Longrightarrow> canonical_byte ch"
  by (auto simp: host_char_def canonical_byte_def)

lemma host_char_plain: "host_char ch \<Longrightarrow> ch \<noteq> CHR '':'' \<and> ch \<noteq> CHR '' '' \<and> ch \<noteq> CHR ''=''"
  by (auto simp: host_char_def is_lower_def is_digit_def less_eq_char_def)

lemma host_list_first:
  assumes "\<forall>h\<in>set hosts. batch_host h" and "hosts \<noteq> []"
  shows "join '','' hosts \<noteq> '''' \<and> \<not> has_prefix (join '','' hosts) ''-''"
proof -
  obtain h hs where hosts: "hosts = h # hs" using assms(2) by (cases hosts) auto
  obtain l ls where s: "split_on CHR ''.'' h = l # ls" by (cases "split_on CHR ''.'' h") auto
  have "valid_label l" using assms(1) s by (simp add: hosts batch_host_def)
  moreover have "h = join ''.'' (l # ls)" using join_split_on [of "CHR ''.''" h] s by simp
  then have "\<exists>t. h = l @ t" by (cases ls) auto
  then obtain t where "h = l @ t" by blast
  moreover have "\<exists>u. join '','' hosts = h @ u" by (cases hs) (auto simp: hosts)
  ultimately show ?thesis by (cases l) (auto simp: valid_label_def)
qed

lemma webHostBatch_join:
  assumes "\<forall>h\<in>set hosts. batch_host h" and "hosts \<noteq> []"
  shows "split_on CHR '','' (join '','' hosts) = hosts"
proof (rule split_on_join [OF assms(2)])
  show "\<forall>x\<in>set hosts. CHR '','' \<notin> set x"
    using assms(1) batch_host_chars host_char_no_comma by fastforce
qed

text \<open>C33: The grant command the engine names in a denial is one it recognises: for any non-empty list of
  valid hosts of at least two labels, the text \<open>WebHostGrantCommand\<close> prints parses back to the
  web-host grant of exactly those hosts at repository scope.\<close>

theorem WebHostGrantCommand_recognised:
  assumes "hosts \<noteq> []" and "\<forall>h\<in>set hosts. ValidateWebHost h = None \<and> CHR ''.'' \<in> set h"
    and "tcCommand tc = WebHostGrantCommand hosts"
  shows "OperatorAction tc =
           Some \<lparr>oaName = ''web-host-grant'',
                 oaParameters = [(''scope'', ''repo''), (''hosts'', join '','' hosts)],
                 oaCommand = WebHostGrantCommand hosts\<rparr>"
proof -
  let ?j = "join '','' hosts" and ?c = "WebHostGrantCommand hosts"
  have b: "\<forall>h\<in>set hosts. batch_host h"
  proof
    fix h assume "h \<in> set hosts"
    then have v: "list_all valid_label (split_on CHR ''.'' h)" "CHR ''.'' \<in> set h"
      using assms(2) by (auto simp: ValidateWebHost_iff)
    obtain x y where "h = x @ CHR ''.'' # y" "CHR ''.'' \<notin> set x"
      using v(2) by (metis split_list_first)
    then have "2 \<le> length (split_on CHR ''.'' h)" by (simp add: split_on_append Suc_le_eq)
    with v(1) show "batch_host h" by (simp add: batch_host_def)
  qed
  have j: "?j \<noteq> '''' \<and> \<not> has_prefix ?j ''-''" using host_list_first [OF b assms(1)] .
  have js: "split_on CHR '','' ?j = hosts" using webHostBatch_join [OF b assms(1)] .
  have plain: "CHR '' '' \<notin> set ?j" "CHR ''='' \<notin> set ?j"
    using host_list_char [OF b] host_char_plain by fastforce+
  have "list_all (\<lambda>c. canonical_byte c \<and> c \<noteq> CHR '':'') ?j"
    using host_list_char [OF b] host_char_plain host_char_canonical
    by (fastforce simp: list_all_iff canonical_byte_def)
  then have bytes: "list_all (\<lambda>c. canonical_byte c \<and> c \<noteq> CHR '':'') ?c"
    by (simp add: WebHostGrantCommand_def canonical_byte_def is_lower_def is_digit_def less_eq_char_def)
  have toks: "split_on CHR '' '' (drop (length web_host_prefix) ?c) =
      [''grant'', ''--scope'', ''repo'', ''--host'', ?j]"
    using plain(1) by (simp add: WebHostGrantCommand_def web_host_prefix_def split_on_no_sep)
  have "\<not> contains ?j ''=''" using plain(2) by (auto simp: contains_iff_sublist sublist_def)
  then have flags: "web_flags [''--scope'', ''repo'', ''--host'', ?j] [] =
      Some [(''host'', ?j), (''scope'', ''repo'')]"
    using j by (simp add: web_flag_def cut_def)
  have parse: "parseWebHostCommand ?c = Some (''grant'', ''repo'', ?j)"
    using bytes toks flags js b assms(2)
    by (simp add: parseWebHostCommand_def Let_def webHostBatch_def list_all_iff lookup_default_def)
      (simp add: WebHostGrantCommand_def web_host_prefix_def)
  have "\<not> has_prefix ?c night_prefix" "?c \<noteq> ''guardrail night off''" "?c \<noteq> ''''"
    by (simp_all add: WebHostGrantCommand_def night_prefix_def)
  with parse assms(3) show ?thesis by (simp add: OperatorAction_def IsBash_def Let_def)
qed

theorem WebHostGrantCommand_recognised_witness:
  "\<exists>a. OperatorAction (grant_call ''guardrail egress grant --scope repo --host go.dev,pkg.go.dev'') = Some a \<and>
     oaName a = ''web-host-grant''"
proof -
  let ?hosts = "[''go.dev'', ''pkg.go.dev'']"
  have "\<forall>h\<in>set ?hosts. ValidateWebHost h = None \<and> CHR ''.'' \<in> set h" by code_simp
  moreover have "tcCommand (grant_call ''guardrail egress grant --scope repo --host go.dev,pkg.go.dev'') =
      WebHostGrantCommand ?hosts" by code_simp
  ultimately show ?thesis using WebHostGrantCommand_recognised [of ?hosts] by simp
qed

text \<open>A single-label host is valid, so a denial names its grant command, but that command is not
  recognised as an operator action.\<close>

lemma single_label_grant_unrecognised:
  "ValidateWebHost ''intranet'' = None \<and>
   OperatorAction (grant_call (WebHostGrantCommand [''intranet''])) = None"
  by code_simp

end
