(* ===== verification/Tickets.thy ===== *)
theory Tickets
  imports Operator_Action Ledger
begin

text \<open>
  Approval tickets: \<^verbatim>\<open>src/internal/approval/ticket.go\<close>.

  The directory is an association list from file names to what the file decodes to (\<open>None\<close> for a
  file that is not a ticket).  SHA-256 with the domain prefix is an argument, as is the canonical
  form of a directory (\<^verbatim>\<open>CanonicalTicketDir\<close> asks the operating system).  A glob with one star is the
  test on prefix and suffix it performs.  \<open>ticket_io\<close> says how the machine's steps went.

  \<^verbatim>\<open>ClaimTicket\<close> lists its candidates before it takes the lock, so between the two any other operation
  may run: here the list of candidates is an argument of the locked part, and the theorem holds for
  every list, hence for every interleaving of claimants.
\<close>

section \<open>Tickets\<close>

definition TicketTTL :: int where "TicketTTL = minutes 10"

record ticket =
  tkVersion :: int
  tkCommand :: string
  tkCWD :: string
  tkRepoRoot :: string
  tkPlane :: string
  tkAction :: string
  tkSessionDigest :: string
  tkIssuedAt :: time
  tkExpiresAt :: time

type_synonym ticket_store = "(string \<times> ticket option) list"

record ticket_env =
  teSessionDigest :: "string \<Rightarrow> string"
  teDigest :: "string list \<Rightarrow> string"
  teCanonicalDir :: "string \<Rightarrow> string"

record ticket_io =
  tkioDir :: bool
  tkioWrite :: bool
  tkioLock :: bool
  tkioRemove :: "string \<Rightarrow> bool"

definition sessionPrefix :: "ticket_env \<Rightarrow> string \<Rightarrow> string" where
  "sessionPrefix env sessionID = take 16 (teSessionDigest env sessionID)"

definition bindingDigest :: "ticket_env \<Rightarrow> string \<Rightarrow> string \<Rightarrow> string" where
  "bindingDigest env command cwd = teDigest env [command, teCanonicalDir env cwd]"

definition ticket_name :: "ticket_env \<Rightarrow> string \<Rightarrow> string \<Rightarrow> string \<Rightarrow> string" where
  "ticket_name env sessionID command cwd =
     sessionPrefix env sessionID @ ''-'' @ bindingDigest env command cwd @ ''.json''"

definition ticket_valid :: "ticket_env \<Rightarrow> ticket \<Rightarrow> string \<Rightarrow> string \<Rightarrow> time \<Rightarrow> bool" where
  "ticket_valid env t command cwd now \<longleftrightarrow>
     tkVersion t = 1 \<and> tkCommand t = command \<and> tkCWD t = teCanonicalDir env cwd \<and>
     now < tkExpiresAt t \<and> \<not> tkIssuedAt t > now + minutes 1"

section \<open>Operations\<close>

definition pruneExpiredTickets :: "ticket_io \<Rightarrow> time \<Rightarrow> ticket_store \<Rightarrow> ticket_store" where
  "pruneExpiredTickets io now st =
     filter (\<lambda>(name, t).
        \<not> (contains name ''-'' \<and> has_suffix name ''.json'' \<and>
           (case t of None \<Rightarrow> True | Some k \<Rightarrow> \<not> now < tkExpiresAt k) \<and> tkioRemove io name)) st"

definition stamped_ticket :: "ticket_env \<Rightarrow> string \<Rightarrow> time \<Rightarrow> ticket \<Rightarrow> ticket" where
  "stamped_ticket env sessionID now t =
     t\<lparr>tkVersion := 1, tkCWD := teCanonicalDir env (tkCWD t),
       tkSessionDigest := teSessionDigest env sessionID, tkIssuedAt := now,
       tkExpiresAt := now + TicketTTL\<rparr>"

definition IssueTicket ::
  "ticket_env \<Rightarrow> ticket_io \<Rightarrow> ticket \<Rightarrow> string \<Rightarrow> time \<Rightarrow> ticket_store \<Rightarrow> bool \<times> ticket_store" where
  "IssueTicket env io t0 sessionID now st =
     (if tkCommand t0 = '''' \<or> tkCWD t0 = '''' then (False, st)
      else if \<not> tkioDir io then (False, st)
      else (let t = stamped_ticket env sessionID now t0;
                st1 = pruneExpiredTickets io now st
            in if \<not> tkioWrite io then (False, st1)
               else (True, upd_assoc (ticket_name env sessionID (tkCommand t) (tkCWD t)) (Some t) st1)))"

definition ticketCandidates :: "ticket_env \<Rightarrow> string \<Rightarrow> string \<Rightarrow> ticket_store \<Rightarrow> string list" where
  "ticketCandidates env command cwd st =
     filter (\<lambda>name. has_suffix name (''-'' @ bindingDigest env command cwd @ ''.json''))
       (sort (map fst st))"

definition PeekTicket :: "ticket_env \<Rightarrow> string \<Rightarrow> string \<Rightarrow> time \<Rightarrow> ticket_store \<Rightarrow> bool" where
  "PeekTicket env command cwd now st =
     list_ex (\<lambda>name. case map_of st name of
                       Some (Some t) \<Rightarrow> ticket_valid env t command cwd now | _ \<Rightarrow> False)
       (ticketCandidates env command cwd st)"

text \<open>The locked loop: read, remove, then use only what was removed and holds.\<close>

fun claim_loop ::
  "ticket_env \<Rightarrow> ticket_io \<Rightarrow> string \<Rightarrow> string \<Rightarrow> time \<Rightarrow> string list \<Rightarrow> ticket_store \<Rightarrow>
   ticket option \<times> ticket_store" where
  "claim_loop env io command cwd now [] st = (None, st)"
| "claim_loop env io command cwd now (name # rest) st =
     (case map_of st name of
        None \<Rightarrow> claim_loop env io command cwd now rest st
      | Some content \<Rightarrow>
          if \<not> tkioRemove io name then claim_loop env io command cwd now rest st
          else (case content of
                  Some t \<Rightarrow>
                    if ticket_valid env t command cwd now then (Some t, del_assoc name st)
                    else claim_loop env io command cwd now rest (del_assoc name st)
                | None \<Rightarrow> claim_loop env io command cwd now rest (del_assoc name st)))"

definition claim_locked ::
  "ticket_env \<Rightarrow> ticket_io \<Rightarrow> string \<Rightarrow> string \<Rightarrow> time \<Rightarrow> string list \<Rightarrow> ticket_store \<Rightarrow>
   ticket option \<times> ticket_store" where
  "claim_locked env io command cwd now candidates st =
     (if candidates = [] \<or> \<not> tkioLock io then (None, st)
      else claim_loop env io command cwd now candidates st)"

text \<open>A claim that runs alone.\<close>

definition ClaimTicket ::
  "ticket_env \<Rightarrow> ticket_io \<Rightarrow> string \<Rightarrow> string \<Rightarrow> time \<Rightarrow> ticket_store \<Rightarrow> ticket option \<times> ticket_store" where
  "ClaimTicket env io command cwd now st =
     claim_locked env io command cwd now (ticketCandidates env command cwd st) st"

definition session_ticket :: "ticket_env \<Rightarrow> string \<Rightarrow> string \<Rightarrow> bool" where
  "session_ticket env sessionID name \<longleftrightarrow>
     has_prefix name (sessionPrefix env sessionID @ ''-'') \<and> has_suffix name ''.json'' \<and>
     length (sessionPrefix env sessionID @ ''-'') + 5 \<le> length name"

definition VoidSessionTickets ::
  "ticket_env \<Rightarrow> ticket_io \<Rightarrow> string \<Rightarrow> string \<Rightarrow> string \<Rightarrow> ticket_store \<Rightarrow> bool \<times> ticket_store" where
  "VoidSessionTickets env io sessionID keepCommand keepCWD st =
     (if \<not> tkioDir io then (True, st)
      else (let keep = (if keepCommand \<noteq> '''' then ticket_name env sessionID keepCommand keepCWD else '''');
                doomed = (\<lambda>name. session_ticket env sessionID name \<and> name \<noteq> keep)
            in (list_all (\<lambda>(name, _). doomed name \<longrightarrow> tkioRemove io name) st,
                filter (\<lambda>(name, _). \<not> (doomed name \<and> tkioRemove io name)) st)))"

section \<open>A ticket is spent at most once\<close>

definition ticket_entry :: "string \<times> string \<Rightarrow> ticket option \<Rightarrow> nat" where
  "ticket_entry k t =
     (case t of Some x \<Rightarrow> if (tkCommand x, tkCWD x) = k then 1 else 0 | None \<Rightarrow> 0)"

definition ticket_level :: "string \<times> string \<Rightarrow> ticket_store \<Rightarrow> nat" where
  "ticket_level k st = entry_sum (ticket_entry k) st"

datatype ticket_op =
    OpTicket ticket_io ticket string time
  | OpClaim ticket_io string string time "string list"
  | OpVoid ticket_io string string string

fun ticket_step ::
  "ticket_env \<Rightarrow> ticket_op \<Rightarrow> ticket_store \<Rightarrow> (string \<times> string) ledger_event \<times> ticket_store" where
  "ticket_step env (OpTicket io t sessionID now) st =
     (case IssueTicket env io t sessionID now st of
        (True, st') \<Rightarrow> (Authorized (tkCommand t, teCanonicalDir env (tkCWD t)) 1, st')
      | (False, st') \<Rightarrow> (NoEvent, st'))"
| "ticket_step env (OpClaim io command cwd now candidates) st =
     (case claim_locked env io command cwd now candidates st of
        (Some t, st') \<Rightarrow> (Spent (command, teCanonicalDir env cwd), st')
      | (None, st') \<Rightarrow> (NoEvent, st'))"
| "ticket_step env (OpVoid io sessionID keepCommand keepCWD) st =
     (NoEvent, snd (VoidSessionTickets env io sessionID keepCommand keepCWD st))"

lemma distinct_fst_filter: "distinct (map fst m) \<Longrightarrow> distinct (map fst (filter P m))"
  by (induction m) auto

lemma prune_level:
  "distinct (map fst st) \<Longrightarrow>
   distinct (map fst (pruneExpiredTickets io now st)) \<and>
   ticket_level k (pruneExpiredTickets io now st) \<le> ticket_level k st"
  unfolding pruneExpiredTickets_def ticket_level_def
  by (intro conjI distinct_fst_filter entry_sum_filter)

lemma upd_level:
  "distinct (map fst st) \<Longrightarrow>
   ticket_level k (upd_assoc name t st) \<le> ticket_level k st + ticket_entry k t"
  using entry_sum_upd [of st "ticket_entry k" name t] by (simp add: ticket_level_def)

lemma claim_loop_level:
  assumes "claim_loop env io command cwd now names st = (res, st')" and "distinct (map fst st)"
  shows "distinct (map fst st') \<and>
    ticket_level k st' + (if res \<noteq> None \<and> k = (command, teCanonicalDir env cwd) then 1 else 0) \<le>
    ticket_level k st \<and>
    (\<forall>t. res = Some t \<longrightarrow> ticket_valid env t command cwd now)"
  using assms
proof (induction names arbitrary: st)
  case (Cons name rest)
  show ?case
  proof (cases "map_of st name")
    case None
    with Cons.prems(1) have "claim_loop env io command cwd now rest st = (res, st')" by simp
    from Cons.IH [OF this Cons.prems(2)] show ?thesis .
  next
    case (Some content)
    let ?d = "del_assoc name st"
    have d: "distinct (map fst ?d)" using Cons.prems(2) by (rule distinct_del_assoc)
    have lev: "ticket_level k ?d + ticket_entry k content \<le> ticket_level k st"
      unfolding ticket_level_def using Some by (rule entry_sum_del)
    show ?thesis
    proof (cases "tkioRemove io name")
      case False
      with Cons.prems(1) Some have "claim_loop env io command cwd now rest st = (res, st')" by simp
      from Cons.IH [OF this Cons.prems(2)] show ?thesis .
    next
      case True
      show ?thesis
      proof (cases "\<exists>t. content = Some t \<and> ticket_valid env t command cwd now")
        case hit: True
        then obtain t where t: "content = Some t" "ticket_valid env t command cwd now" by blast
        with Cons.prems(1) Some True have "res = Some t" "st' = ?d" by auto
        with d lev t show ?thesis by (auto simp: ticket_entry_def ticket_valid_def split: if_splits)
      next
        case False
        with Cons.prems(1) Some True have "claim_loop env io command cwd now rest ?d = (res, st')"
          by (auto split: option.splits)
        from Cons.IH [OF this d] lev show ?thesis by auto
      qed
    qed
  qed
qed auto

interpretation tickets: ledger "ticket_step env" ticket_level "\<lambda>st. distinct (map fst st)" for env
proof
  fix st op ev st' k
  assume d: "distinct (map fst st)" and run: "ticket_step env op st = (ev, st')"
  show "distinct (map fst st') \<and> ticket_level k st' + spent_by k ev \<le> ticket_level k st + authorized_by k ev"
  proof (cases op)
    case (OpTicket io t sessionID now)
    note p = prune_level [OF d, of io now k]
    have p1: "distinct (map fst (pruneExpiredTickets io now st))" using p by blast
    let ?t = "stamped_ticket env sessionID now t"
    let ?name = "ticket_name env sessionID (tkCommand ?t) (tkCWD ?t)"
    have "ticket_level k (upd_assoc ?name (Some ?t) (pruneExpiredTickets io now st)) \<le>
        ticket_level k st + ticket_entry k (Some ?t)"
      using upd_level [OF p1, of k ?name "Some ?t"] p by linarith
    moreover have "ticket_entry k (Some ?t) =
        authorized_by k (Authorized (tkCommand t, teCanonicalDir env (tkCWD t)) 1)"
      by (simp add: ticket_entry_def stamped_ticket_def)
    ultimately show ?thesis
      using run d p distinct_upd_assoc [OF p1]
      by (auto simp: OpTicket IssueTicket_def Let_def split: if_splits)
  next
    case (OpClaim io command cwd now candidates)
    then show ?thesis
      using run d claim_loop_level [OF _ d, of env io command cwd now candidates _ _ k]
      by (auto simp: claim_locked_def split: prod.splits option.splits if_splits)
  next
    case (OpVoid io sessionID keepCommand keepCWD)
    then show ?thesis
      using run d by (auto simp: VoidSessionTickets_def Let_def ticket_level_def entry_sum_filter
          distinct_fst_filter split: if_splits)
  qed
qed

text \<open>C15: A host approval is spent at most once: over any interleaving of issuing, voiding and claiming
  from an empty ticket directory, where every claimant may work from a stale list of candidates, the
  successful claims for a command in a directory are at most the tickets issued for that pair.\<close>

theorem tickets_spent_once:
  "spent_uses (command, dir) (fst (ledger_run (ticket_step env) ops [])) \<le>
   authorized_uses (command, dir) (fst (ledger_run (ticket_step env) ops []))"
  by (rule tickets.spent_le_authorized) (simp_all add: ticket_level_def)

section \<open>Issue and claim\<close>

lemma claim_loop_succeeds:
  assumes "map_of st name = Some (Some t)" and "ticket_valid env t command cwd now"
    and "name \<in> set names" and "\<forall>n. tkioRemove io n"
  shows "\<exists>t'. fst (claim_loop env io command cwd now names st) = Some t' \<and>
    ticket_valid env t' command cwd now"
  using assms(1,3)
proof (induction names arbitrary: st)
  case (Cons n rest)
  show ?case
  proof (cases "n = name")
    case True
    with Cons.prems assms(2,4) show ?thesis by simp
  next
    case False
    then have rest: "name \<in> set rest" using Cons.prems(2) by simp
    have keep: "map_of (del_assoc n st) name = Some (Some t)" using Cons.prems(1) False by simp
    show ?thesis
      using Cons.IH [OF Cons.prems(1) rest] Cons.IH [OF keep rest] assms(4)
      by (auto split: option.split)
  qed
qed simp

text \<open>C34: A recorded approval reaches the run it was given for: once a ticket is issued, a claim for the
  same command in any spelling of the same directory within ten minutes sees it and obtains a valid
  ticket, provided nothing else touched the directory in between.\<close>

theorem issued_ticket_claimable:
  assumes "\<forall>d. teCanonicalDir env (teCanonicalDir env d) = teCanonicalDir env d"
    and "IssueTicket env io t sessionID now st = (True, st')"
    and "teCanonicalDir env cwd = teCanonicalDir env (tkCWD t)"
    and "now \<le> later" and "later < now + TicketTTL" and "tkioLock io'" and "\<forall>n. tkioRemove io' n"
  shows "PeekTicket env (tkCommand t) cwd later st' \<and>
         (\<exists>t'. fst (ClaimTicket env io' (tkCommand t) cwd later st') = Some t' \<and>
               ticket_valid env t' (tkCommand t) cwd later)"
proof -
  let ?t = "stamped_ticket env sessionID now t"
  let ?name = "ticket_name env sessionID (tkCommand ?t) (tkCWD ?t)"
  have st': "st' = upd_assoc ?name (Some ?t) (pruneExpiredTickets io now st)"
    using assms(2) by (auto simp: IssueTicket_def Let_def split: if_splits)
  have valid: "ticket_valid env ?t (tkCommand t) cwd later"
    using assms(3-5) by (simp add: ticket_valid_def stamped_ticket_def)
  have bind: "bindingDigest env (tkCommand ?t) (tkCWD ?t) = bindingDigest env (tkCommand t) cwd"
    using assms(1,3) by (simp add: bindingDigest_def stamped_ticket_def)
  have at: "map_of st' ?name = Some (Some ?t)" by (simp add: st')
  then have "?name \<in> fst ` set st'" by (metis domI dom_map_of_conv_image_fst)
  moreover have "has_suffix ?name (''-'' @ bindingDigest env (tkCommand t) cwd @ ''.json'')"
    unfolding ticket_name_def bind has_suffix_iff_suffix by (simp add: suffix_def)
  ultimately have cand: "?name \<in> set (ticketCandidates env (tkCommand t) cwd st')"
    by (simp add: ticketCandidates_def)
  have "PeekTicket env (tkCommand t) cwd later st'"
    unfolding PeekTicket_def list_ex_iff using cand at valid by (intro bexI [of _ ?name]) simp_all
  moreover have "ticketCandidates env (tkCommand t) cwd st' \<noteq> []" using cand by auto
  ultimately show ?thesis
    using claim_loop_succeeds [OF at valid cand assms(7)] assms(6)
    by (simp add: ClaimTicket_def claim_locked_def)
qed

definition demo_tenv :: ticket_env where
  "demo_tenv = \<lparr>teSessionDigest = (\<lambda>s. replicate 16 CHR ''a'' @ s), teDigest = join ''#'', teCanonicalDir = clean\<rparr>"

definition good_tio :: ticket_io where
  "good_tio = \<lparr>tkioDir = True, tkioWrite = True, tkioLock = True, tkioRemove = (\<lambda>_. True)\<rparr>"

definition demo_ticket :: ticket where
  "demo_ticket =
     \<lparr>tkVersion = 0, tkCommand = ''guardrail night off'', tkCWD = ''/repo'', tkRepoRoot = ''/repo'',
      tkPlane = ''claude'', tkAction = ''night-off'', tkSessionDigest = '''', tkIssuedAt = 0, tkExpiresAt = 0\<rparr>"

theorem issued_ticket_claimable_witness:
  "\<exists>t'. fst (ClaimTicket demo_tenv good_tio ''guardrail night off'' ''/repo/./x/..'' 1010
     (snd (IssueTicket demo_tenv good_tio demo_ticket ''s1'' 1000 []))) = Some t'"
proof -
  let ?i = "IssueTicket demo_tenv good_tio demo_ticket ''s1'' 1000 []"
  have "\<forall>d. teCanonicalDir demo_tenv (teCanonicalDir demo_tenv d) = teCanonicalDir demo_tenv d"
    "\<forall>n. tkioRemove good_tio n" "tkioLock good_tio" "tkCommand demo_ticket = ''guardrail night off''"
    by (simp_all add: demo_tenv_def good_tio_def demo_ticket_def)
  moreover have "?i = (True, snd ?i)" "(1010::int) < 1000 + TicketTTL"
    "teCanonicalDir demo_tenv ''/repo/./x/..'' = teCanonicalDir demo_tenv (tkCWD demo_ticket)"
    by code_simp+
  moreover have "(1000::int) \<le> 1010" by simp
  ultimately show ?thesis
    using issued_ticket_claimable [of demo_tenv good_tio demo_ticket "''s1''" 1000 "[]" "snd ?i"
        "''/repo/./x/..''" 1010 good_tio] by metis
qed

end
