(* ===== verification/Approved_Actions.thy ===== *)
theory Approved_Actions
  imports Action_Audit Allowances Tickets
begin

text \<open>
  The operator actions and the two ways they are approved: the handlers of
  \<^verbatim>\<open>src/cmd/guardrail/night.go\<close>, \<^verbatim>\<open>egress.go\<close>, \<^verbatim>\<open>web_research.go\<close> and \<^verbatim>\<open>action_grants.go\<close>, the marker of
  \<^verbatim>\<open>src/internal/night/night.go\<close>, the terminal commands of \<^verbatim>\<open>egress_cli.go\<close>, and \<^verbatim>\<open>ApplyLocal\<close> of
  \<^verbatim>\<open>src/internal/approval/apply_local.go\<close>.

  A handler acts on one machine: the audit state, the night marker, the allowances with the Operator
  config, and the exact-action store.  Time formatting is an argument.  The theorems follow an
  approval to its effect: what a broker approval changes is what its stored request names.
\<close>

section \<open>The night marker\<close>

record marker =
  mkUntil :: time
  mkSetBy :: string

datatype night_file = MarkerFile marker | MarkerBad

record night_state =
  nsMarker :: marker
  nsActive :: bool

definition no_marker :: marker where
  "no_marker = \<lparr>mkUntil = 0, mkSetBy = ''''\<rparr>"

text \<open>\<^verbatim>\<open>MarkerBad\<close> is a file that is not private, not readable, or does not decode to the two keys.\<close>

definition night_Load :: "night_file option \<Rightarrow> time \<Rightarrow> night_state option" where
  "night_Load f now =
     (case f of
        None \<Rightarrow> Some \<lparr>nsMarker = no_marker, nsActive = False\<rparr>
      | Some MarkerBad \<Rightarrow> None
      | Some (MarkerFile mk) \<Rightarrow>
          if time_is_zero (mkUntil mk) then None
          else if mkSetBy mk = '''' then None
          else Some \<lparr>nsMarker = mk, nsActive = (now < mkUntil mk)\<rparr>)"

text \<open>Writing the marker: the outcome is that of the rename; \<open>WrittenButUnsynced\<close> stands for the failed
  check of the installed file.\<close>

definition night_Write :: "write_outcome \<Rightarrow> marker \<Rightarrow> night_file option \<Rightarrow> bool \<times> night_file option" where
  "night_Write wo mk f =
     (if time_is_zero (mkUntil mk) then (False, f)
      else if mkSetBy mk = '''' then (False, f)
      else (wo = Written, if wo = NotWritten then f else Some (MarkerFile mk)))"

definition night_Remove :: "bool \<Rightarrow> night_file option \<Rightarrow> bool \<times> night_file option" where
  "night_Remove removes f = (case f of None \<Rightarrow> (True, None) | Some x \<Rightarrow> if removes then (True, None) else (False, Some x))"

definition night_Banner :: "(time \<Rightarrow> string) \<Rightarrow> night_state \<Rightarrow> string" where
  "night_Banner format s =
     (if \<not> nsActive s then '''' else ''NIGHT MODE until '' @ format (mkUntil (nsMarker s)))"

lemma night_round_trip:
  assumes "night_Write wo mk f = (True, f')"
  shows "night_Load f' now = Some \<lparr>nsMarker = mk, nsActive = (now < mkUntil mk)\<rparr>"
  using assms by (auto simp: night_Write_def night_Load_def split: if_split_asm)

section \<open>The machine\<close>

record machine =
  mcNight :: "night_file option"
  mcAllowances :: allowance_disk
  mcActions :: action_store

text \<open>What a handler needs of its surroundings: outcomes, codecs and identities.\<close>

record handler_env =
  haPathOK :: bool
  haParseTime :: "string \<Rightarrow> time option"
  haFormatTime :: "time \<Rightarrow> string"
  haSetBy :: "string option"
  haNightWrite :: write_outcome
  haNightRemoves :: bool
  haMAC :: "string \<Rightarrow> allowance_journal \<Rightarrow> string"
  haJournalDigest :: "string \<Rightarrow> string"
  haOperatorPath :: string
  haRepoDir :: bool
  haAllowance :: "string \<Rightarrow> bool \<Rightarrow> allowance_io"
  haActionEnv :: action_env
  haActionIO :: action_io
  haActionStore :: bool
  haActionAudit :: "string \<Rightarrow> action_request \<Rightarrow> bool"
  haNow :: time

section \<open>The handlers\<close>

definition night_mutation :: "handler_env \<Rightarrow> broker_request \<Rightarrow> machine \<Rightarrow> bool \<times> machine" where
  "night_mutation env r m =
     (if \<not> haPathOK env then (False, m)
      else if brAction r = ''night-off'' then
        (case night_Remove (haNightRemoves env) (mcNight m) of (good, f) \<Rightarrow> (good, m\<lparr>mcNight := f\<rparr>))
      else (case haParseTime env (br_param r ''expires_at'') of
              None \<Rightarrow> (False, m)
            | Some until \<Rightarrow>
                if haFormatTime env until \<noteq> br_param r ''expires_at'' then (False, m)
                else (case haSetBy env of
                        None \<Rightarrow> (False, m)
                      | Some setBy \<Rightarrow>
                          (case night_Write (haNightWrite env) \<lparr>mkUntil = until, mkSetBy = setBy\<rparr> (mcNight m) of
                             (good, f) \<Rightarrow> (good, m\<lparr>mcNight := f\<rparr>)))))"

definition executeNightApproval ::
  "(string \<Rightarrow> string) \<Rightarrow> audit_io \<Rightarrow> handler_env \<Rightarrow> broker_request \<Rightarrow> audit_state \<times> machine \<Rightarrow>
   bool \<times> audit_state \<times> machine" where
  "executeNightApproval digest aio env r s = audited digest aio r (night_mutation env r) s"

definition apply_host ::
  "handler_env \<Rightarrow> bool \<Rightarrow> string \<Rightarrow> string \<Rightarrow> bool \<Rightarrow> allowance_disk \<Rightarrow> bool \<times> allowance_disk" where
  "apply_host env globally repo host granting d =
     (if globally then applyGlobalWebHost (haMAC env) (haOperatorPath env) (haAllowance env host granting) host granting d
      else applyRepoWebHost (haMAC env) (haJournalDigest env) (haOperatorPath env) (haAllowance env host granting)
             repo host granting d)"

definition web_host_mutation :: "handler_env \<Rightarrow> broker_request \<Rightarrow> machine \<Rightarrow> bool \<times> machine" where
  "web_host_mutation env r m =
     (let hosts = split_on CHR '','' (br_param r ''hosts'');
          granting = (brAction r = ''web-host-grant'');
          globally = (brScope r = ''global'')
      in if \<not> globally \<and> \<not> haRepoDir env then (False, m)
         else (case applyWebHostBatch hosts granting (apply_host env globally (clean (brRepoRoot r)))
                      (mcAllowances m) of
                 (good, d) \<Rightarrow> (good, m\<lparr>mcAllowances := d\<rparr>)))"

definition executeWebHostApproval ::
  "(string \<Rightarrow> string) \<Rightarrow> audit_io \<Rightarrow> handler_env \<Rightarrow> broker_request \<Rightarrow> audit_state \<times> machine \<Rightarrow>
   bool \<times> audit_state \<times> machine" where
  "executeWebHostApproval digest aio env r s =
     (if (brAction r \<noteq> ''web-host-grant'' \<and> brAction r \<noteq> ''web-host-revoke'') \<or> \<not> is_abs (brRepoRoot r) \<or>
         (brScope r \<noteq> ''repo'' \<and> brScope r \<noteq> ''global'') then (False, s)
      else if list_ex (\<lambda>h. ValidateWebHost h \<noteq> None) (split_on CHR '','' (br_param r ''hosts'')) then (False, s)
      else audited digest aio r (web_host_mutation env r) s)"

text \<open>\<^verbatim>\<open>mutateWebResearchConfig\<close>: \<open>mutate\<close> gives \<open>None\<close> when it leaves the file alone.\<close>

definition mutateWebResearchConfig ::
  "handler_env \<Rightarrow> allowance_io \<Rightarrow> (operator_config \<Rightarrow> operator_config option) \<Rightarrow> allowance_disk \<Rightarrow>
   bool \<times> allowance_disk" where
  "mutateWebResearchConfig env aio mutate d =
     (if \<not> alLocked aio then (False, d)
      else (case recoverAllowanceJournals (haMAC env) (haOperatorPath env) (alListed aio) (alBefore aio) d of
              (False, d1) \<Rightarrow> (False, d1)
            | (True, d1) \<Rightarrow>
                if \<not> alLoads aio then (False, d1)
                else (case mutate (adOperator d1) of
                        None \<Rightarrow> (True, d1)
                      | Some op \<Rightarrow>
                          if \<not> alOperatorDir aio then (False, d1)
                          else (alWrite aio = Written, write_operator (alWrite aio) op d1))))"

definition setWebResearchEnforcement ::
  "handler_env \<Rightarrow> allowance_io \<Rightarrow> string \<Rightarrow> allowance_disk \<Rightarrow> bool \<times> allowance_disk" where
  "setWebResearchEnforcement env aio mode d =
     (if mode \<noteq> ''on'' \<and> mode \<noteq> ''off'' then (False, d)
      else mutateWebResearchConfig env aio (\<lambda>op. Some (op\<lparr>WebResearchEnforcement := mode\<rparr>)) d)"

definition web_research_mutation :: "handler_env \<Rightarrow> broker_request \<Rightarrow> machine \<Rightarrow> bool \<times> machine" where
  "web_research_mutation env r m =
     (case setWebResearchEnforcement env (haAllowance env '''' True) (br_param r ''enforcement'') (mcAllowances m) of
        (good, d) \<Rightarrow> (good, m\<lparr>mcAllowances := d\<rparr>))"

definition executeWebResearchApproval ::
  "(string \<Rightarrow> string) \<Rightarrow> audit_io \<Rightarrow> handler_env \<Rightarrow> broker_request \<Rightarrow> audit_state \<times> machine \<Rightarrow>
   bool \<times> audit_state \<times> machine" where
  "executeWebResearchApproval digest aio env r s =
     (if brAction r \<noteq> ''web-research-set'' \<or> brPlane r \<noteq> ''operator'' \<or> brScope r \<noteq> ''global'' \<or>
         length (brParameters r) \<noteq> 1 \<or>
         (br_param r ''enforcement'' \<noteq> ''on'' \<and> br_param r ''enforcement'' \<noteq> ''off'') then (False, s)
      else audited digest aio r (web_research_mutation env r) s)"

text \<open>The exact-action handler writes its audit record inside the authorization.\<close>

definition executeExactActionGrant ::
  "handler_env \<Rightarrow> broker_request \<Rightarrow> audit_state \<times> machine \<Rightarrow> bool \<times> audit_state \<times> machine" where
  "executeExactActionGrant env r s =
     (case s of (st, m) \<Rightarrow>
        if \<not> haActionStore env then (False, s)
        else (case action_Read (haActionEnv env) (haActionIO env) (br_param r ''record'') (haNow env) (mcActions m) of
                Inl _ \<Rightarrow> (False, s)
              | Inr pending \<Rightarrow>
                  if aqDigest pending \<noteq> br_param r ''digest'' \<or> acRepo (aqAction pending) \<noteq> brRepoRoot r then (False, s)
                  else if brTransport r \<noteq> ''webauthn'' \<or> brCredentialFingerprint r = '''' then (False, s)
                  else (case AuthorizeWithAudit (haActionEnv env) (haActionIO env) (br_param r ''record'')
                              (br_param r ''digest'') (brTransport r) (haNow env)
                              (Some (haActionAudit env (brCredentialFingerprint r))) (mcActions m) of
                          (e, acts) \<Rightarrow> (e = None, st, m\<lparr>mcActions := acts\<rparr>))))"

section \<open>Registered handlers and local approvals\<close>

text \<open>The handlers of \<^verbatim>\<open>RegisterAction\<close>.  Those of the plane and recovery actions, which edit host
  configuration files, are an argument.\<close>

type_synonym operator_state = "audit_state \<times> machine"

definition registered ::
  "(string \<Rightarrow> (broker_request \<Rightarrow> operator_state \<Rightarrow> bool \<times> operator_state) option) \<Rightarrow> (string \<Rightarrow> string) \<Rightarrow>
   audit_io \<Rightarrow> handler_env \<Rightarrow> string \<Rightarrow> (broker_request \<Rightarrow> operator_state \<Rightarrow> bool \<times> operator_state) option" where
  "registered host_actions digest aio env action =
     (if action = ''night-on'' \<or> action = ''night-off'' then Some (executeNightApproval digest aio env)
      else if action = ''web-host-grant'' \<or> action = ''web-host-revoke'' then
        Some (executeWebHostApproval digest aio env)
      else if action = ''web-research-set'' then Some (executeWebResearchApproval digest aio env)
      else if action = ''exact-action-grant'' then Some (executeExactActionGrant env)
      else host_actions action)"

text \<open>\<^verbatim>\<open>ApplyLocal\<close>: an error is \<open>Inl\<close>; a request whose handler failed is returned with status failed.\<close>

definition local_request ::
  "(string \<Rightarrow> string) \<Rightarrow> (string \<Rightarrow> time \<Rightarrow> string option) \<Rightarrow> string option \<Rightarrow> time \<Rightarrow> string \<Rightarrow> broker_request \<Rightarrow>
   broker_error + broker_request" where
  "local_request digest nightExpiry random now transport r =
     and_then
       (if brAction r = ''night-on'' then
          (case nightExpiry (br_param r ''until'') now of
             None \<Rightarrow> Inl BrMalformed
           | Some e \<Rightarrow> Inr (r\<lparr>brParameters := [(''expires_at'', e)]\<rparr>))
        else Inr r)
       (\<lambda>r1. case random of
               None \<Rightarrow> Inl BrNoRandom
             | Some i \<Rightarrow>
                 Inr ((restore (durable digest (r1\<lparr>brID := i, brIssuedAt := now,
                        brExpiresAt := now + requestTTL, brStatus := ''executing''\<rparr>)))
                      \<lparr>brSessionID := brSessionID r1, brTransport := transport\<rparr>))"

definition ApplyLocal ::
  "(string \<Rightarrow> string) \<Rightarrow> (string \<Rightarrow> action_error + action_request) \<Rightarrow> (string \<Rightarrow> time \<Rightarrow> string option) \<Rightarrow>
   string option \<Rightarrow> time \<Rightarrow> (string \<Rightarrow> (broker_request \<Rightarrow> 'w \<Rightarrow> bool \<times> 'w) option) \<Rightarrow> broker_request \<Rightarrow> string \<Rightarrow> 'w \<Rightarrow>
   (broker_error + broker_request) \<times> 'w" where
  "ApplyLocal digest readAction nightExpiry random now handlers r transport w =
     (if transport = '''' then (Inl BrMalformed, w)
      else if \<not> validateRequest readAction r then (Inl BrMalformed, w)
      else (case local_request digest nightExpiry random now transport r of
              Inl e \<Rightarrow> (Inl e, w)
            | Inr applied \<Rightarrow>
                (case handlers (brAction applied) of
                   None \<Rightarrow> (Inl BrActionFailed, w)
                 | Some handler \<Rightarrow>
                     (case handler applied w of
                        (False, w') \<Rightarrow> (Inr (applied\<lparr>brStatus := ''failed''\<rparr>), w')
                      | (True, w') \<Rightarrow> (Inr (applied\<lparr>brStatus := ''completed''\<rparr>), w')))))"

section \<open>Which hosts a change can add\<close>

text \<open>The allowances of the Operator config, machine-wide (\<open>None\<close>) and by repository entry.\<close>

definition allowed_hosts :: "operator_config \<Rightarrow> (string option \<times> string) set" where
  "allowed_hosts op =
     {(None, h) | h. h \<in> set (GlobalWebHosts op)} \<union>
     {(Some repo, h) | repo h. h \<in> set (rgWebHosts (lookup_default empty_repo_grant (Repos op) repo))}"

abbreviation allowances :: "machine \<Rightarrow> (string option \<times> string) set" where
  "allowances m \<equiv> allowed_hosts (snd (allowance_view (mcAllowances m)))"

lemma allowed_global:
  "allowed_hosts (snd (global_update h g v)) \<subseteq> insert (None, h) (allowed_hosts (snd v))"
  by (auto simp: allowed_hosts_def global_update_def set_updateHost split: if_split_asm)

lemma allowed_repo:
  "allowed_hosts (snd (repo_update repo h g v)) \<subseteq> insert (Some repo, h) (allowed_hosts (snd v))"
proof (cases "overlayWebHostContent (fst v (overlay_path repo)) h g")
  case (Some c)
  then show ?thesis
    by (cases c) (auto simp: allowed_hosts_def repo_update_def operator_with_host_def Let_def
        lookup_default_def set_updateHost split: if_split_asm)
qed (auto simp: repo_update_def)

definition host_target :: "bool \<Rightarrow> string \<Rightarrow> string option" where
  "host_target globally repo = (if globally then None else Some repo)"

lemma apply_host_allowed:
  assumes "journal_ok (haMAC env) (haOperatorPath env) d" and "is_abs repo"
    and "apply_host env globally repo host granting d = (b, d')"
  shows "journal_ok (haMAC env) (haOperatorPath env) d' \<and>
    allowed_hosts (snd (allowance_view d')) \<subseteq>
      insert (host_target globally repo, host) (allowed_hosts (snd (allowance_view d)))"
proof (cases globally)
  case True
  then have "applyGlobalWebHost (haMAC env) (haOperatorPath env) (haAllowance env host granting) host granting d = (b, d')"
    using assms(3) by (simp add: apply_host_def)
  from global_change [OF assms(1) this] allowed_global [of host granting "allowance_view d"] True
  show ?thesis by (auto simp: host_target_def)
next
  case False
  then have "applyRepoWebHost (haMAC env) (haJournalDigest env) (haOperatorPath env)
      (haAllowance env host granting) repo host granting d = (b, d')"
    using assms(3) by (simp add: apply_host_def)
  from repo_change [OF assms(1,2) this] allowed_repo [of repo host granting "allowance_view d"] False
  show ?thesis by (auto simp: host_target_def)
qed

abbreviation host_ok :: "handler_env \<Rightarrow> machine \<Rightarrow> bool" where
  "host_ok env m \<equiv> journal_ok (haMAC env) (haOperatorPath env) (mcAllowances m)"

text \<open>What one step on the allowances may do, given the hosts it was asked for.\<close>

definition adds_only ::
  "handler_env \<Rightarrow> (string option \<times> string) set \<Rightarrow> allowance_disk \<Rightarrow> allowance_disk \<Rightarrow> bool" where
  "adds_only env new d d' \<longleftrightarrow>
     journal_ok (haMAC env) (haOperatorPath env) d \<longrightarrow>
     journal_ok (haMAC env) (haOperatorPath env) d' \<and>
     allowed_hosts (snd (allowance_view d')) \<subseteq> new \<union> allowed_hosts (snd (allowance_view d))"

lemma adds_only_refl [simp]: "adds_only env new d d"
  by (simp add: adds_only_def)

lemma adds_only_trans: "adds_only env new a b \<Longrightarrow> adds_only env new b c \<Longrightarrow> adds_only env new a c"
  by (auto simp: adds_only_def)

lemma apply_host_adds:
  assumes "is_abs repo" and "host \<in> set hosts"
  shows "adds_only env {(host_target globally repo, h) | h. h \<in> set hosts} d
    (snd (apply_host env globally repo host granting d))"
  using apply_host_allowed [OF _ assms(1) prod.collapse [symmetric], of env d globally host granting] assms(2)
  by (auto simp: adds_only_def)

lemma undo_batch_adds:
  assumes "\<And>h g d. h \<in> set hosts \<Longrightarrow> adds_only env new d (snd (f h g d))" and "set applied \<subseteq> set hosts"
  shows "adds_only env new d (undo_batch f granting applied d)"
  using assms(2)
proof (induction applied arbitrary: d)
  case (Cons h applied)
  then show ?case using assms(1) [of h d "\<not> granting"] adds_only_trans by fastforce
qed simp

lemma batch_adds:
  assumes "\<And>h g d. h \<in> set hosts \<Longrightarrow> adds_only env new d (snd (f h g d))"
    and "set applied \<subseteq> set hosts" and "set rest \<subseteq> set hosts"
  shows "adds_only env new d (snd (batch_loop f granting applied rest d))"
  using assms(2,3)
proof (induction rest arbitrary: applied d)
  case (Cons h rest)
  obtain b d1 where f: "f h granting d = (b, d1)" by fastforce
  then have one: "adds_only env new d d1" using assms(1) [of h d granting] Cons.prems(2) by simp
  have "adds_only env new d1 (snd (batch_loop f granting (h # applied) rest d1))"
    using Cons by simp
  moreover have "adds_only env new d1 (undo_batch f granting applied d1)"
    using undo_batch_adds [of hosts env new f applied d1 granting] assms(1) Cons.prems(1) by blast
  ultimately show ?case using f one adds_only_trans by (cases b) fastforce+
qed simp

text \<open>The bracket runs its mutation at most once.\<close>

lemma audited_cases:
  assumes "audited digest aio r mutate (st, m) = (b, st', m')"
  shows "m' = m \<or> m' = snd (mutate m)"
  using assms by (auto simp: audited_def split: prod.split_asm option.split_asm bool.split_asm)

definition request_hosts :: "broker_request \<Rightarrow> (string option \<times> string) set" where
  "request_hosts r =
     (if brAction r = ''web-host-grant'' \<or> brAction r = ''web-host-revoke'' then
        {(host_target (brScope r = ''global'') (clean (brRepoRoot r)), h) | h.
           h \<in> set (split_on CHR '','' (br_param r ''hosts''))}
      else {})"

lemma web_host_adds:
  assumes "executeWebHostApproval digest aio env r (st, m) = (b, st', m')"
  shows "adds_only env (request_hosts r) (mcAllowances m) (mcAllowances m')"
proof (cases "(brAction r = ''web-host-grant'' \<or> brAction r = ''web-host-revoke'') \<and> is_abs (brRepoRoot r)")
  case True
  let ?hosts = "split_on CHR '','' (br_param r ''hosts'')"
  let ?new = "{(host_target (brScope r = ''global'') (clean (brRepoRoot r)), h) | h. h \<in> set ?hosts}"
  have new: "request_hosts r = ?new" using True by (auto simp: request_hosts_def)
  have "adds_only env ?new d (snd (batch_loop (apply_host env (brScope r = ''global'') (clean (brRepoRoot r)))
      granting [] ?hosts d))" for granting d
    using True by (intro batch_adds [of ?hosts] apply_host_adds) auto
  then have "adds_only env ?new (mcAllowances m) (mcAllowances (snd (web_host_mutation env r m)))"
    by (auto simp: web_host_mutation_def applyWebHostBatch_def Let_def case_prod_beta)
  moreover have "m' = m \<or> m' = snd (web_host_mutation env r m)"
    using assms audited_cases [of digest aio r "web_host_mutation env r" st m b st' m']
    by (auto simp: executeWebHostApproval_def split: if_split_asm)
  ultimately show ?thesis unfolding new by auto
next
  case False
  then have "m' = m" using assms by (auto simp: executeWebHostApproval_def split: if_split_asm)
  then show ?thesis by simp
qed

lemma web_research_adds:
  assumes "executeWebResearchApproval digest aio env r (st, m) = (b, st', m')"
  shows "adds_only env {} (mcAllowances m) (mcAllowances m')"
proof -
  have mut: "adds_only env {} d (snd (setWebResearchEnforcement env aio mode d))" for aio mode d
  proof -
    obtain c d1 where r: "recoverAllowanceJournals (haMAC env) (haOperatorPath env) (alListed aio) (alBefore aio) d =
        (c, d1)" by fastforce
    have rec: "adds_only env {} d d1" using recover_all_view [OF _ r] by (simp add: adds_only_def)
    let ?d2 = "write_operator (alWrite aio) ((adOperator d1)\<lparr>WebResearchEnforcement := mode\<rparr>) d1"
    have same: "allowed_hosts (op\<lparr>WebResearchEnforcement := mode\<rparr>) = allowed_hosts op" for op
      by (simp add: allowed_hosts_def)
    have "adds_only env {} d ?d2" if c
    proof -
      have "journal_ok (haMAC env) (haOperatorPath env) d \<longrightarrow> adJournals d1 = []"
        using recover_all_view [OF _ r] that by blast
      then show ?thesis using rec same [of "adOperator d1"]
        by (auto simp: adds_only_def write_operator_def journal_ok_def)
    qed
    moreover have "snd (setWebResearchEnforcement env aio mode d) = d \<or>
        snd (setWebResearchEnforcement env aio mode d) = d1 \<or>
        c \<and> snd (setWebResearchEnforcement env aio mode d) = ?d2"
      using r by (cases c) (auto simp: setWebResearchEnforcement_def mutateWebResearchConfig_def)
    ultimately show ?thesis using rec adds_only_refl by metis
  qed
  have "m' = m \<or> m' = snd (web_research_mutation env r m)"
    using assms audited_cases [of digest aio r "web_research_mutation env r" st m b st' m']
    by (auto simp: executeWebResearchApproval_def split: if_split_asm)
  then show ?thesis using mut by (auto simp: web_research_mutation_def case_prod_beta)
qed

lemma night_allowances:
  assumes "executeNightApproval digest aio env r (st, m) = (b, st', m')"
  shows "mcAllowances m' = mcAllowances m"
  using assms audited_cases [of digest aio r "night_mutation env r" st m b st' m']
  by (auto simp: executeNightApproval_def night_mutation_def split: if_split_asm option.split_asm prod.split_asm)

lemma exact_action_allowances:
  assumes "executeExactActionGrant env r (st, m) = (b, st', m')"
  shows "mcAllowances m' = mcAllowances m"
  using assms
  by (auto simp: executeExactActionGrant_def split: if_split_asm sum.split_asm prod.split_asm)

lemma registered_cases:
  "registered host_actions digest aio env a \<in>
     {Some (executeNightApproval digest aio env), Some (executeWebHostApproval digest aio env),
      Some (executeWebResearchApproval digest aio env), Some (executeExactActionGrant env), host_actions a}"
  by (simp add: registered_def)

lemma registered_adds:
  assumes "registered host_actions digest aio env (brAction r) = Some h" and "h r (st, m) = (b, st', m')"
    and "\<And>a h r s. host_actions a = Some h \<Longrightarrow> mcAllowances (snd (snd (h r s))) = mcAllowances (snd s)"
  shows "adds_only env (request_hosts r) (mcAllowances m) (mcAllowances m')"
proof -
  consider (night) "h = executeNightApproval digest aio env" | (web) "h = executeWebHostApproval digest aio env"
    | (research) "h = executeWebResearchApproval digest aio env" | (exact) "h = executeExactActionGrant env"
    | (host) "host_actions (brAction r) = Some h"
    using registered_cases [of host_actions digest aio env "brAction r"] assms(1) by auto
  then show ?thesis
  proof cases
    case research
    then have "adds_only env {} (mcAllowances m) (mcAllowances m')" using assms(2) web_research_adds by blast
    then show ?thesis by (auto simp: adds_only_def)
  next
    case host
    from assms(3) [OF this, of r "(st, m)"] assms(2) show ?thesis by simp
  next
    case night
    then show ?thesis using assms(2) night_allowances by simp
  next
    case exact
    then show ?thesis using assms(2) exact_action_allowances by simp
  next
    case web
    then show ?thesis using assms(2) web_host_adds by blast
  qed
qed

text \<open>C16: A web host becomes allowed only because an approved request names it.  Whatever the broker's
  Approve is called with and whichever file operations fail, every machine-wide or repository
  allowance in force afterwards was in force before, or is of a host listed in a stored request that
  was pending, unexpired, a web-host request, and filed for exactly the approved scope and repository.\<close>

theorem allowances_need_approval:
  assumes "Approve name tio1 tio2 (registered host_actions digest aio env) now ident scope w = (e, w')"
    and "host_ok env (snd (bwMachine w))"
    and "\<And>a h r s. host_actions a = Some h \<Longrightarrow> mcAllowances (snd (snd (h r s))) = mcAllowances (snd s)"
    and "(target, host) \<in> allowances (snd (bwMachine w'))" and "(target, host) \<notin> allowances (snd (bwMachine w))"
  shows "\<exists>r. map_of (broker_view name (bwDisk w)) ident = Some r \<and> arStatus r = ''pending'' \<and>
    now < arExpiresAt r \<and> arScope r = scope \<and> arAction r \<in> {''web-host-grant'', ''web-host-revoke''} \<and>
    host \<in> set (split_on CHR '','' (lookup_default '''' (arParameters r) ''hosts'')) \<and>
    target = (if scope = ''global'' then None else Some (clean (arRepoRoot r)))"
proof -
  have "bwMachine w' \<noteq> bwMachine w" using assms(4,5) by auto
  then obtain r h where r: "map_of (broker_view name (bwDisk w)) ident = Some r" "arStatus r = ''pending''"
      "now < arExpiresAt r" "arScope r = scope"
    and h: "registered host_actions digest aio env (arAction r) = Some h"
    and run: "bwMachine w' = snd (h (the (start_of name w ident)) (bwMachine w))"
    using Approve_machine [OF assms(1)] by blast
  let ?req = "the (start_of name w ident)"
  note f = start_of_fields [OF r(1)]
  have "adds_only env (request_hosts ?req) (mcAllowances (snd (bwMachine w))) (mcAllowances (snd (bwMachine w')))"
    using registered_adds [of host_actions digest aio env ?req h "fst (bwMachine w)" "snd (bwMachine w)"
        "fst (h ?req (bwMachine w))" "fst (bwMachine w')" "snd (bwMachine w')"] h f(2) run assms(3)
    by (simp add: prod_eq_iff)
  then have "(target, host) \<in> request_hosts ?req" using assms(2,4,5) by (auto simp: adds_only_def)
  then have "arAction r \<in> {''web-host-grant'', ''web-host-revoke''}"
    and "host \<in> set (split_on CHR '','' (lookup_default '''' (arParameters r) ''hosts''))"
    and "target = (if scope = ''global'' then None else Some (clean (arRepoRoot r)))"
    using f r(4) by (auto simp: request_hosts_def host_target_def split: if_split_asm)
  with r show ?thesis by blast
qed

definition demo_audit_io :: audit_io where
  "demo_audit_io = \<lparr>auDir = True, auListed = True, auRecords = (\<lambda>_. True), auRemoves = (\<lambda>_. True),
     auRequested = True, auOpened = Written, auMarked = Written\<rparr>"

definition demo_handlers :: handler_env where
  "demo_handlers = \<lparr>haPathOK = True, haParseTime = (\<lambda>_. Some 9), haFormatTime = (\<lambda>_. ''9''),
     haSetBy = Some ''host:1'', haNightWrite = Written, haNightRemoves = True, haMAC = (\<lambda>k j. ''m''),
     haJournalDigest = id, haOperatorPath = ''/op'', haRepoDir = True, haAllowance = (\<lambda>h g. smooth_io),
     haActionEnv = demo_env, haActionIO = demo_aio, haActionStore = True, haActionAudit = (\<lambda>f r. True),
     haNow = 5\<rparr>"

definition demo_world :: "approval_request \<Rightarrow> operator_state broker_world" where
  "demo_world r =
     \<lparr>bwDisk = \<lparr>sdV2 = [requestSessionID @ ''.json'' \<mapsto> StateFile (zero_state\<lparr>ApprovalRequests := [(''r1'', r)]\<rparr>)],
                 sdLegacy = (\<lambda>_. None)\<rparr>,
      bwAttribution = [],
      bwMachine = (\<lparr>asLog = [], asFiles = []\<rparr>, \<lparr>mcNight = None, mcAllowances = fresh_disk, mcActions = []\<rparr>)\<rparr>"

definition demo_web_request :: approval_request where
  "demo_web_request = durable id (zero_request\<lparr>brID := ''r1'', brStatus := ''pending'', brScope := ''global'',
     brRepoRoot := ''/r'', brAction := ''web-host-grant'', brExpiresAt := 9,
     brParameters := [(''scope'', ''global''), (''hosts'', ''example.com'')]\<rparr>)"

definition demo_approve :: "operator_state broker_world" where
  "demo_approve = snd (Approve id demo_io demo_io (registered (\<lambda>_. None) id demo_audit_io demo_handlers)
     5 ''r1'' ''global'' (demo_world demo_web_request))"

theorem allowances_need_approval_witness:
  "\<exists>r. map_of (broker_view id (bwDisk (demo_world demo_web_request))) ''r1'' = Some r \<and>
     arStatus r = ''pending'' \<and> arAction r \<in> {''web-host-grant'', ''web-host-revoke''} \<and>
     ''example.com'' \<in> set (split_on CHR '','' (lookup_default '''' (arParameters r) ''hosts''))"
proof -
  have run: "Approve id demo_io demo_io (registered (\<lambda>_. None) id demo_audit_io demo_handlers)
      5 ''r1'' ''global'' (demo_world demo_web_request) =
    (fst (Approve id demo_io demo_io (registered (\<lambda>_. None) id demo_audit_io demo_handlers)
      5 ''r1'' ''global'' (demo_world demo_web_request)), demo_approve)"
    by (simp add: demo_approve_def)
  have ok: "host_ok demo_handlers (snd (bwMachine (demo_world demo_web_request)))"
    by (simp add: demo_world_def fresh_disk_def journal_ok_def)
  have "GlobalWebHosts (snd (allowance_view (mcAllowances (snd (bwMachine demo_approve))))) = [''example.com'']"
    by code_simp
  then have new: "(None, ''example.com'') \<in> allowances (snd (bwMachine demo_approve))"
    by (simp add: allowed_hosts_def)
  have old: "(None, ''example.com'') \<notin> allowances (snd (bwMachine (demo_world demo_web_request)))"
    by (simp add: allowed_hosts_def demo_world_def fresh_disk_def allowance_view_def emptyOperatorConfig_def)
  show ?thesis using allowances_need_approval [OF run ok _ new old] by auto
qed

section \<open>Every change is announced\<close>

lemma audited_announced:
  assumes "audited digest aio r mutate (st, m) = (b, st', m')" and "m' \<noteq> m" and "audit_ok digest st"
    and "\<And>i. digest i = digest (brID r) \<Longrightarrow> i = brID r"
  shows "\<exists>e\<in>set (asLog st'). aeDecision e = ''requested'' \<and> aeRequestID e = brID r"
proof -
  obtain st1 where s: "startActionAudit digest aio r st = (Some False, st1)"
    and "prefix (asLog st1) (asLog st')"
    using assms(1,2) complete_grows [of digest _ aio r]
    by (auto simp: audited_def grows_def split: prod.split_asm option.split_asm bool.split_asm)
  then have "set (asLog st1) \<subseteq> set (asLog st')" by (auto simp: prefix_def)
  then show ?thesis using start_announced [OF assms(3) s assms(4)] by blast
qed

text \<open>The actions whose handlers run inside the audit bracket.\<close>

definition journaled_actions :: "string list" where
  "journaled_actions = [''night-on'', ''night-off'', ''web-host-grant'', ''web-host-revoke'', ''web-research-set'']"

lemma journaled_handler:
  assumes "a \<in> set journaled_actions" and "registered host_actions digest aio env a = Some h"
    and "h r (st, m) = (b, st', m')"
  shows "m' = m \<or> (\<exists>mutate. audited digest aio r mutate (st, m) = (b, st', m'))"
proof -
  have "h = executeNightApproval digest aio env \<or> h = executeWebHostApproval digest aio env \<or>
      h = executeWebResearchApproval digest aio env"
    using assms(1,2) by (auto simp: journaled_actions_def registered_def)
  then show ?thesis using assms(3)
    unfolding executeNightApproval_def executeWebHostApproval_def executeWebResearchApproval_def
    by (elim disjE) (auto split: if_split_asm)
qed

text \<open>C30: No approved night, web-host or web-research action changes the machine before the log says
  so: whatever fails, if the approval changed the marker, the allowances or the action store, the
  audit log holds the requested record of that very request.\<close>

theorem approved_change_announced:
  assumes "Approve name tio1 tio2 (registered host_actions digest aio env) now ident scope w = (e, w')"
    and "map_of (broker_view name (bwDisk w)) ident = Some r" and "arAction r \<in> set journaled_actions"
    and "audit_ok digest (fst (bwMachine w))" and "\<And>i. digest i = digest (arID r) \<Longrightarrow> i = arID r"
    and "snd (bwMachine w') \<noteq> snd (bwMachine w)"
  shows "\<exists>x\<in>set (asLog (fst (bwMachine w'))). aeDecision x = ''requested'' \<and> aeRequestID x = arID r"
proof -
  let ?req = "the (start_of name w ident)"
  obtain h where h: "registered host_actions digest aio env (arAction r) = Some h"
    and run: "bwMachine w' = snd (h ?req (bwMachine w))"
    using Approve_machine [OF assms(1)] assms(2,6) by auto
  have eq: "h ?req (fst (bwMachine w), snd (bwMachine w)) =
      (fst (h ?req (bwMachine w)), fst (bwMachine w'), snd (bwMachine w'))"
    by (simp add: run prod_eq_iff)
  obtain mutate where "audited digest aio ?req mutate (fst (bwMachine w), snd (bwMachine w)) =
      (fst (h ?req (bwMachine w)), fst (bwMachine w'), snd (bwMachine w'))"
    using journaled_handler [OF assms(3) h eq] assms(6) by blast
  from audited_announced [OF this assms(6,4)] assms(5) start_of_fields(5) [OF assms(2)]
  show ?thesis by simp
qed

theorem approved_change_announced_witness:
  "\<exists>x\<in>set (asLog (fst (bwMachine demo_approve))). aeDecision x = ''requested'' \<and> aeRequestID x = ''r1''"
proof -
  have run: "Approve id demo_io demo_io (registered (\<lambda>_. None) id demo_audit_io demo_handlers)
      5 ''r1'' ''global'' (demo_world demo_web_request) =
    (fst (Approve id demo_io demo_io (registered (\<lambda>_. None) id demo_audit_io demo_handlers)
      5 ''r1'' ''global'' (demo_world demo_web_request)), demo_approve)"
    by (simp add: demo_approve_def)
  have r: "map_of (broker_view id (bwDisk (demo_world demo_web_request))) ''r1'' = Some demo_web_request"
    by (simp add: demo_world_def broker_view_def session_view_def read_state_def requestSessionID_def)
  have a: "arAction demo_web_request \<in> set journaled_actions" "arID demo_web_request = ''r1''"
    by (simp_all add: demo_web_request_def durable_def journaled_actions_def)
  have ok: "audit_ok id (fst (bwMachine (demo_world demo_web_request)))"
    by (simp add: audit_ok_def demo_world_def)
  have "adKey (mcAllowances (snd (bwMachine demo_approve))) \<noteq> None \<or>
      GlobalWebHosts (adOperator (mcAllowances (snd (bwMachine demo_approve)))) = [''example.com'']"
    by code_simp
  then have "snd (bwMachine demo_approve) \<noteq> snd (bwMachine (demo_world demo_web_request))"
    by (auto simp: demo_world_def fresh_disk_def emptyOperatorConfig_def)
  then show ?thesis using approved_change_announced [OF run r a(1) ok _] a(2) by auto
qed

end
