(* ===== verification/Rules_Power.thy ===== *)
theory Rules_Power
  imports Tool_Call
begin

text \<open>
  Rules about the machine and about the guardrail itself: \<^verbatim>\<open>rules_power.go\<close> (power control),
  \<^verbatim>\<open>rules_rg.go\<close> (ripgrep preprocessors), \<^verbatim>\<open>rules_update.go\<close> (stepping the enforcement binary back)
  and the self-control rule of \<^verbatim>\<open>rules_bash.go\<close>, all under \<^verbatim>\<open>src/internal/engine\<close>.

  \<^verbatim>\<open>RunningVersion\<close>, a package variable the command line sets, is an argument.  The release-tag
  regular expression is a scanner.  The lemmas discharge the contract of a command rule for each,
  characterise the shutdown classifier, and show that release tags are strictly ordered.
\<close>

section \<open>Power control\<close>

definition powerOffCommands :: "string list" where
  "powerOffCommands = [''reboot'', ''poweroff'', ''halt'']"

definition powerOffVerbs :: "string list" where
  "powerOffVerbs = [''reboot'', ''poweroff'', ''halt'']"

definition endsUptime :: string where
  "endsUptime = '' ends the machine's uptime; unsaved work is lost and the session cannot continue''"

fun shutdown_scan :: "bool \<Rightarrow> string list \<Rightarrow> verdict option" where
  "shutdown_scan cancelOrWarn [] =
     (if \<not> cancelOrWarn then ask ''P1.power'' (''shutdown'' @ endsUptime) else None)"
| "shutdown_scan cancelOrWarn (a # args) =
     (let flag = to_lower a
      in if flag = ''-c'' \<or> flag = ''-k'' then shutdown_scan cancelOrWarn args
         else if has_prefix flag ''-'' \<or> has_prefix flag ''/''
         then ask ''P1.power'' (''shutdown'' @ endsUptime)
         else if cancelOrWarn then shutdown_scan cancelOrWarn args
         else ask ''P1.power'' (''shutdown'' @ endsUptime))"

definition checkShutdownFlags :: "string list \<Rightarrow> verdict option" where
  "checkShutdownFlags args =
     (if list_ex (\<lambda>a. to_lower a \<in> set [''--help'', ''/?'', ''/a'']) args then None
      else shutdown_scan (list_ex (\<lambda>a. to_lower a \<in> set [''-c'', ''-k'']) args) args)"

definition checkSystemctl :: "string list \<Rightarrow> verdict option" where
  "checkSystemctl args =
     (case dropWhile (\<lambda>a. has_prefix a ''-'') args of
        [] \<Rightarrow> None
      | a # _ \<Rightarrow>
          if a \<in> set powerOffVerbs then ask ''P1.power'' (''systemctl '' @ a @ endsUptime) else None)"

definition checkRunlevel :: "string \<Rightarrow> string list \<Rightarrow> verdict option" where
  "checkRunlevel command args =
     (case args of
        [] \<Rightarrow> None
      | a # _ \<Rightarrow>
          if a = ''0'' \<or> a = ''6'' then ask ''P1.power'' (command @ '' '' @ a @ endsUptime) else None)"

definition checkPowerControl :: "simple \<Rightarrow> verdict option" where
  "checkPowerControl s =
     (let command = head (Argv s); args = tl (Argv s)
      in if command \<in> set powerOffCommands then ask ''P1.power'' (command @ endsUptime)
         else if command = ''shutdown'' then checkShutdownFlags args
         else if command = ''systemctl'' then checkSystemctl args
         else if command = ''init'' \<or> command = ''telinit'' then checkRunlevel command args
         else if command = ''stop-computer'' \<or> command = ''restart-computer'' then
           (if list_ex (\<lambda>a. equal_fold a ''-whatif'') args then None
            else ask ''P1.power'' (command @ endsUptime))
         else None)"

section \<open>Ripgrep preprocessors\<close>

fun rg_scan :: "string list \<Rightarrow> verdict option" where
  "rg_scan [] = None"
| "rg_scan (arg # args) =
     (if arg = ''--'' then None
      else if arg = ''--pre'' \<or> has_prefix arg ''--pre='' then
        ask ''P1.rg-preprocessor''
          (''rg --pre runs a program on every file it searches, out of Guardrail's sight; '' @
           ''search without --pre, or run the program directly so its own rules apply'')
      else rg_scan args)"

definition checkRgPreprocessor :: "simple \<Rightarrow> verdict option" where
  "checkRgPreprocessor s =
     (if head (Argv s) \<noteq> ''rg'' then None else rg_scan (tl (Argv s)))"

section \<open>Stepping the binary back\<close>

record release =
  relMajor :: int
  relMinor :: int
  relPatch :: int
  relPre :: string

text \<open>\<^verbatim>\<open>strconv.Atoi\<close> with its error dropped: a number out of range is clamped to the largest
  \<^verbatim>\<open>int\<close>.\<close>

definition atoi_clamped :: "string \<Rightarrow> int" where
  "atoi_clamped ds = min (decimal_value ds) (2 ^ 63 - 1)"

definition tag_char :: "char \<Rightarrow> bool" where
  "tag_char c \<longleftrightarrow> is_digit c \<or> is_upper c \<or> is_lower c \<or> c = CHR ''.'' \<or> c = CHR ''-''"

definition scan_number :: "string \<Rightarrow> (int \<times> string) option" where
  "scan_number s =
     (let ds = takeWhile is_digit s
      in if ds = '''' then None else Some (atoi_clamped ds, dropWhile is_digit s))"

definition scan_char :: "char \<Rightarrow> string \<Rightarrow> string option" where
  "scan_char c s = (if has_prefix s [c] then Some (tl s) else None)"

definition releaseTag :: "string \<Rightarrow> release option" where
  "releaseTag s =
     Option.bind (scan_char CHR ''v'' s) (\<lambda>s.
     Option.bind (scan_number s) (\<lambda>(major, s).
     Option.bind (scan_char CHR ''.'' s) (\<lambda>s.
     Option.bind (scan_number s) (\<lambda>(minor, s).
     Option.bind (scan_char CHR ''.'' s) (\<lambda>s.
     Option.bind (scan_number s) (\<lambda>(patch, s).
     if s = '''' \<or> (has_prefix s ''-'' \<and> length s > 1 \<and> list_all tag_char s)
     then Some \<lparr>relMajor = major, relMinor = minor, relPatch = patch, relPre = s\<rparr>
     else None))))))"

definition release_less :: "release \<Rightarrow> release \<Rightarrow> bool" where
  "release_less a b =
     (if relMajor a \<noteq> relMajor b then relMajor a < relMajor b
      else if relMinor a \<noteq> relMinor b then relMinor a < relMinor b
      else if relPatch a \<noteq> relPatch b then relPatch a < relPatch b
      else if relPre a = relPre b then False
      else if relPre b = '''' then True
      else if relPre a = '''' then False
      else relPre a < relPre b)"

text \<open>The result is \<^verbatim>\<open>(older, ok)\<close>.\<close>

definition releaseOlder :: "string \<Rightarrow> string \<Rightarrow> bool \<times> bool" where
  "releaseOlder a b =
     (case (releaseTag a, releaseTag b) of
        (Some ra, Some rb) \<Rightarrow> (release_less ra rb, True)
      | _ \<Rightarrow> (False, False))"

definition update_mention :: "simple \<Rightarrow> string \<Rightarrow> verdict option" where
  "update_mention s command =
     (if Argv s \<noteq> [] \<and> (isOpaqueExecutor (head (Argv s)) \<or> isTerminalWrapper (head (Argv s))) then
        (case filter (\<lambda>sub. mentionsCommand [command] ''guardrail'' sub) [''update'', ''rollback''] of
           [] \<Rightarrow> None
         | sub # _ \<Rightarrow>
             deny ''P5.self-config''
               (''interpreter input or a terminal wrapper runs `guardrail '' @ sub @
                ''`, whose target Guardrail cannot judge from here; run `guardrail update '' @
                ''<newer release>` directly, or ask the operator''))
      else None)"

definition checkGuardrailUpdate ::
  "string \<Rightarrow> (string \<Rightarrow> string option) \<Rightarrow> string \<Rightarrow> simple \<Rightarrow> verdict option" where
  "checkGuardrailUpdate RunningVersion literalText command s =
     (if length (Argv s) \<ge> 2 \<and> head (Argv s) = ''guardrail'' \<and>
         to_lower (Argv s ! 1) = ''rollback'' then
        deny ''P5.self-config''
          (''rolling the guardrail binary back is the operator's: they run `guardrail rollback` '' @
           ''in their own terminal'')
      else if length (Argv s) \<ge> 3 \<and> head (Argv s) = ''guardrail'' \<and>
              to_lower (Argv s ! 1) = ''update'' \<and> \<not> wordUnresolved literalText s 2 \<and>
              releaseOlder (Argv s ! 2) RunningVersion = (True, True) then
        deny ''P5.self-config''
          (''`guardrail update '' @ Argv s ! 2 @
           ''` would downgrade the enforcement binary below '' @ RunningVersion @
           ''; a downgrade is the operator's, run from their own terminal. Updating to a newer '' @
           ''release stays allowed'')
      else update_mention s command)"

section \<open>Changing the guardrail's own posture\<close>

definition NightMentionReason :: string where
  "NightMentionReason =
     ''interpreter input mentions guardrail night control; '' @
     ''Guardrail cannot tell a mention from an invocation''"

definition SelfControlMentionReason :: string where
  "SelfControlMentionReason =
     ''interpreter input mentions a guardrail lifecycle command; '' @
     ''Guardrail cannot tell a mention from an invocation''"

definition selfControlSubcommands :: "string list" where
  "selfControlSubcommands =
     [''night'', ''setup'', ''plane'', ''operator'', ''recover'', ''web-research'', ''egress'',
      ''hook'', ''approvals'']"

definition harmlessApprovalsQuery :: "argv \<Rightarrow> bool" where
  "harmlessApprovalsQuery argv \<longleftrightarrow>
     length argv \<ge> 3 \<and> equal_fold (argv ! 1) ''approvals'' \<and>
     (equal_fold (argv ! 2) ''list'' \<or> equal_fold (argv ! 2) ''revoke'')"

definition readOnlyStatusQuery :: "argv \<Rightarrow> bool" where
  "readOnlyStatusQuery argv \<longleftrightarrow>
     length argv = 3 \<and>
     (equal_fold (argv ! 1) ''night'' \<or> equal_fold (argv ! 1) ''plane'' \<or>
      equal_fold (argv ! 1) ''web-research'') \<and>
     equal_fold (argv ! 2) ''status''"

text \<open>The posture-changing subcommand this command invokes, or the empty string.  The Go loop keeps
  the last match; the candidates differ in more than case, so at most one matches.\<close>

definition self_control_subcommand ::
  "(string \<Rightarrow> string option) \<Rightarrow> simple \<Rightarrow> string" where
  "self_control_subcommand literalText s =
     (if length (Argv s) \<ge> 2 \<and>
         (head (Argv s) = ''guardrail'' \<or>
          (wordUnresolved literalText s 0 \<and> mentionsExecutable (Argv s ! 0) ''guardrail'')) \<and>
         \<not> readOnlyStatusQuery (Argv s) \<and> \<not> harmlessApprovalsQuery (Argv s)
      then (case filter (equal_fold (Argv s ! 1)) selfControlSubcommands of
              [] \<Rightarrow> ''''
            | cs \<Rightarrow> last cs)
      else '''')"

definition opaque_mention :: "simple \<Rightarrow> string \<Rightarrow> string" where
  "opaque_mention s command =
     (if Argv s \<noteq> [] \<and> (isOpaqueExecutor (head (Argv s)) \<or> isTerminalWrapper (head (Argv s)))
      then (case filter (\<lambda>c. mentionsCommand [command] ''guardrail'' c) selfControlSubcommands of
              [] \<Rightarrow> ''''
            | c # _ \<Rightarrow> c)
      else '''')"

definition checkSelfControlInvocation ::
  "(string \<Rightarrow> string option) \<Rightarrow> string \<Rightarrow> simple \<Rightarrow> verdict option" where
  "checkSelfControlInvocation literalText command s =
     (let subcommand = self_control_subcommand literalText s;
          opaque = opaque_mention s command
      in if subcommand = ''night'' then
           deny ''P5.self-config'' ''the guarded plane cannot change its own night-mode posture''
         else if subcommand \<noteq> '''' then
           deny ''P5.self-config''
             (''the guarded plane cannot change its own guardrail posture ('' @ subcommand @ '')'')
         else if opaque \<noteq> '''' then
           deny ''P5.self-config''
             (if opaque = ''night'' then NightMentionReason else SelfControlMentionReason)
         else None)"

section \<open>The rules meet their contract\<close>

lemma shutdown_scan_power:
  "shutdown_scan b args = Some v \<Longrightarrow> vDecision v = Ask \<and> vRuleID v = ''P1.power''"
  by (induction args) (auto simp: Let_def split: if_splits)

lemma checkShutdownFlags_power:
  "checkShutdownFlags args = Some v \<Longrightarrow> vDecision v = Ask \<and> vRuleID v = ''P1.power''"
  by (auto simp: checkShutdownFlags_def dest: shutdown_scan_power split: if_splits)

lemma checkPowerControl_power:
  "checkPowerControl s = Some v \<Longrightarrow> vDecision v = Ask \<and> vRuleID v = ''P1.power''"
  by (auto simp: checkPowerControl_def checkSystemctl_def checkRunlevel_def Let_def
      dest: checkShutdownFlags_power split: if_splits list.splits)

definition power_heads :: "string \<Rightarrow> bool" where
  "power_heads h \<longleftrightarrow> h \<in> set (powerOffCommands @ [''shutdown'', ''systemctl'', ''init'', ''telinit'',
     ''stop-computer'', ''restart-computer''])"

interpretation power: asking_rule checkPowerControl power_heads "[''P1.power'']"
proof
  fix s v
  assume v: "checkPowerControl s = Some v"
  then show "power_heads (head (Argv s))"
    by (auto simp: checkPowerControl_def power_heads_def Let_def split: if_splits)
  show "vRuleID v \<in> set [''P1.power'']" "vDecision v = Ask \<or> vDecision v = Deny"
    "vDecision v = Ask"
    using checkPowerControl_power [OF v] by auto
qed

lemma rg_scan_ask:
  "rg_scan args = Some v \<Longrightarrow> vDecision v = Ask \<and> vRuleID v = ''P1.rg-preprocessor''"
  by (induction args) (auto split: if_splits)

interpretation rg: asking_rule checkRgPreprocessor "\<lambda>h. h = ''rg''" "[''P1.rg-preprocessor'']"
  by unfold_locales (auto simp: checkRgPreprocessor_def dest: rg_scan_ask split: if_splits)

definition update_heads :: "string \<Rightarrow> bool" where
  "update_heads h \<longleftrightarrow> h = ''guardrail'' \<or> isOpaqueExecutor h \<or> isTerminalWrapper h"

interpretation update: argv_rule "checkGuardrailUpdate version literalText command" update_heads
  "[''P5.self-config'']" for version literalText command
  by unfold_locales
    (auto simp: checkGuardrailUpdate_def update_mention_def update_heads_def
      split: if_splits list.splits)

interpretation self_control: argv_rule "checkSelfControlInvocation literalText command" "\<lambda>h. True"
  "[''P5.self-config'']" for literalText command
  by unfold_locales (auto simp: checkSelfControlInvocation_def Let_def split: if_splits)

section \<open>What the rules decide\<close>

lemma shutdown_scan_cancel:
  "shutdown_scan True args = None \<longleftrightarrow>
   list_all (\<lambda>a. to_lower a = ''-c'' \<or> to_lower a = ''-k'' \<or>
                 (\<not> has_prefix (to_lower a) ''-'' \<and> \<not> has_prefix (to_lower a) ''/'')) args"
  by (induction args) (auto simp: Let_def)

lemma shutdown_scan_acts: "\<not> list_ex (\<lambda>a. to_lower a \<in> set [''-c'', ''-k'']) args \<Longrightarrow>
  shutdown_scan False args \<noteq> None"
  by (induction args) (auto simp: Let_def)

text \<open>The shutdown classifier is silent exactly when the invocation cannot end the uptime: it
  asks for help or aborts a pending shutdown, or it is in cancel or warn mode and carries no other
  flag.  Every other invocation asks under the power rule.\<close>

lemma checkShutdownFlags_silent_iff:
  "checkShutdownFlags args = None \<longleftrightarrow>
     (\<exists>a\<in>set args. to_lower a \<in> {''--help'', ''/?'', ''/a''}) \<or>
     ((\<exists>a\<in>set args. to_lower a \<in> {''-c'', ''-k''}) \<and>
      list_all (\<lambda>a. to_lower a \<in> {''-c'', ''-k''} \<or>
         (\<not> has_prefix (to_lower a) ''-'' \<and> \<not> has_prefix (to_lower a) ''/'')) args)"
proof (cases "list_ex (\<lambda>a. to_lower a \<in> set [''-c'', ''-k'']) args")
  case True
  then show ?thesis
    by (auto simp: checkShutdownFlags_def shutdown_scan_cancel list_ex_iff list_all_iff)
next
  case False
  then have "shutdown_scan False args \<noteq> None" by (rule shutdown_scan_acts)
  with False show ?thesis by (auto simp: checkShutdownFlags_def list_ex_iff)
qed

text \<open>A mediated session cannot change the guardrail's posture: every invocation of the
  guardrail binary, under any directory or case spelling of a self-control subcommand, is denied,
  unless it is exactly a status query or an approvals list or revoke.\<close>

lemma self_control_denied:
  assumes "head (Argv s) = ''guardrail''" and "2 \<le> length (Argv s)"
    and "list_ex (equal_fold (Argv s ! 1)) selfControlSubcommands"
    and "\<not> readOnlyStatusQuery (Argv s)" and "\<not> harmlessApprovalsQuery (Argv s)"
  shows "\<exists>v. checkSelfControlInvocation literalText command s = Some v \<and> vDecision v = Deny \<and>
             vRuleID v = ''P5.self-config''"
proof -
  let ?cs = "filter (equal_fold (Argv s ! 1)) selfControlSubcommands"
  have ne: "?cs \<noteq> []" using assms(3) by (auto simp: list_ex_iff filter_empty_conv)
  then have "last ?cs \<in> set selfControlSubcommands" by (metis filter_is_subset last_in_set subsetD)
  then have "last ?cs \<noteq> ''''" by (auto simp: selfControlSubcommands_def)
  moreover have "self_control_subcommand literalText s = last ?cs"
    using assms ne by (auto simp: self_control_subcommand_def split: list.splits)
  ultimately show ?thesis by (simp add: checkSelfControlInvocation_def Let_def deny_def)
qed

section \<open>Release order\<close>

lemma release_less_irrefl: "\<not> release_less a a"
  by (simp add: release_less_def)

lemma release_less_asym: "release_less a b \<Longrightarrow> \<not> release_less b a"
  by (auto simp: release_less_def split: if_splits)

lemma release_less_trans: "release_less a b \<Longrightarrow> release_less b c \<Longrightarrow> release_less a c"
  by (auto simp: release_less_def split: if_splits)

text \<open>Two release tags are compared by a strict order (irreflexive, asymmetric, transitive), so
  an update target is never both older and newer than the running release.\<close>

lemma releaseOlder_strict:
  "\<not> fst (releaseOlder a a) \<and>
   \<not> (fst (releaseOlder a b) \<and> fst (releaseOlder b a)) \<and>
   (\<not> (fst (releaseOlder a b) \<and> fst (releaseOlder b c)) \<or> fst (releaseOlder a c))"
proof -
  have fst_iff: "fst (releaseOlder x y) \<longleftrightarrow>
      (\<exists>rx ry. releaseTag x = Some rx \<and> releaseTag y = Some ry \<and> release_less rx ry)" for x y
    by (simp add: releaseOlder_def split: option.splits)
  have "\<not> fst (releaseOlder a a)" by (simp add: fst_iff release_less_irrefl)
  moreover have "\<not> (fst (releaseOlder a b) \<and> fst (releaseOlder b a))"
    by (auto simp: fst_iff dest: release_less_asym)
  moreover have "fst (releaseOlder a c)" if "fst (releaseOlder a b)" and "fst (releaseOlder b c)"
    using that by (auto simp: fst_iff intro: release_less_trans)
  ultimately show ?thesis by blast
qed

text \<open>The enforcement binary is never stepped back by a literal update command: updating to a
  release older than the running one is denied, and updating to a release that is not older is
  left alone by this rule.\<close>

lemma update_never_downgrades:
  assumes "Argv s = [g, u, target]" and "head [g] = ''guardrail''" and "to_lower u = ''update''"
    and "\<not> wordUnresolved literalText s 2"
  shows "(checkGuardrailUpdate version literalText command s \<noteq> None) =
         fst (releaseOlder target version)"
proof -
  have ok: "releaseOlder target version = (True, True) \<longleftrightarrow> fst (releaseOlder target version)"
    by (auto simp: releaseOlder_def split: option.splits)
  have h: "head (Argv s) = ''guardrail''" using assms(1,2) by simp
  have "\<not> isOpaqueExecutor ''guardrail''" "\<not> isTerminalWrapper ''guardrail''" by code_simp+
  then have "update_mention s command = None" by (simp add: update_mention_def h)
  then show ?thesis
    using assms ok h by (simp add: checkGuardrailUpdate_def)
qed

end
