(* ===== verification/Rules_Gh.thy ===== *)
theory Rules_Gh
  imports Tool_Call
begin

text \<open>
  The GitHub CLI rules: \<^verbatim>\<open>src/internal/engine/rules_gh.go\<close> (\<^verbatim>\<open>gh api\<close> calls that rewrite repository
  protection) and \<^verbatim>\<open>rules_gh_porcelain.go\<close> (the subcommands that mutate account or repository
  state).  The subcommand table is an association list with the source's entries.

  The lemmas discharge the contract of a command rule and show which table entry a command reaches
  whatever flags stand around it, that one endpoint is judged the same under its three spellings,
  and that a read is never asked about.
\<close>

section \<open>The api command\<close>

definition ghAPIBodyFlags :: "string list" where
  "ghAPIBodyFlags = [''-f'', ''-F'', ''--field'', ''--raw-field'', ''--input'']"

definition gh_body_attached :: "string \<Rightarrow> bool" where
  "gh_body_attached arg =
     list_ex (\<lambda>flag. has_prefix flag ''--'' \<and> has_prefix arg (flag @ ''='')) ghAPIBodyFlags"

fun gh_method_scan :: "string \<Rightarrow> bool \<Rightarrow> string list \<Rightarrow> string \<times> bool" where
  "gh_method_scan method body [] = (method, body)"
| "gh_method_scan method body (arg # rest) =
     (if arg = ''-X'' \<or> arg = ''--method'' then
        (case rest of
           [] \<Rightarrow> (method, body)
         | m # rest' \<Rightarrow> gh_method_scan (to_upper m) body rest')
      else if has_prefix arg ''--method='' then
        gh_method_scan (to_upper (trim_prefix arg ''--method='')) body rest
      else gh_method_scan method (body \<or> arg \<in> set ghAPIBodyFlags \<or> gh_body_attached arg) rest)"

definition ghAPIMethod :: "argv \<Rightarrow> string" where
  "ghAPIMethod argv =
     (case gh_method_scan '''' False (drop 2 argv) of (method, body) \<Rightarrow>
        if method \<noteq> '''' then method else if body then ''POST'' else ''GET'')"

definition ghProtectionPaths :: "string list" where
  "ghProtectionPaths =
     [''rulesets'', ''branches/'', ''actions/permissions'', ''actions/secrets'',
      ''actions/variables'', ''environments'', ''immutable-releases'', ''vulnerability-alerts'',
      ''automated-security-fixes'', ''private-vulnerability-reporting'',
      ''code-scanning/default-setup'', ''collaborators'', ''hooks'', ''keys'']"

definition ghAPIValueFlags :: "string list" where
  "ghAPIValueFlags =
     [''-X'', ''--method'', ''-H'', ''--header'', ''--hostname'', ''--jq'', ''--template'', ''-t'',
      ''--cache'', ''--input'', ''-f'', ''-F'', ''--field'', ''--raw-field'']"

fun gh_endpoint_scan :: "string list \<Rightarrow> string" where
  "gh_endpoint_scan [] = ''''"
| "gh_endpoint_scan (arg # rest) =
     (if has_prefix arg ''-'' then
        (if arg \<in> set ghAPIValueFlags \<and> rest \<noteq> [] then gh_endpoint_scan (tl rest)
         else gh_endpoint_scan rest)
      else arg)"

definition ghAPIEndpoint :: "argv \<Rightarrow> string" where
  "ghAPIEndpoint argv = gh_endpoint_scan (drop 2 argv)"

definition strip_host :: "string \<Rightarrow> string \<Rightarrow> string" where
  "strip_host scheme path =
     (if has_prefix path scheme then
        (let p = trim_prefix path scheme
         in if slash \<in> set p then dropWhile (\<lambda>c. c \<noteq> slash) p else p)
      else path)"

definition ghNormalizedAPIPath :: "string \<Rightarrow> string" where
  "ghNormalizedAPIPath endpoint =
     (let path = to_lower (trim_space endpoint);
          path = strip_host ''http://'' (strip_host ''https://'' path);
          path = trim_prefix path ''/''
      in takeWhile (\<lambda>c. c \<noteq> CHR ''?'' \<and> c \<noteq> CHR ''#'') path)"

definition gh_family :: "string \<Rightarrow> bool" where
  "gh_family tail =
     list_ex (\<lambda>family. tail = trim_suffix family ''/'' \<or> has_prefix tail family) ghProtectionPaths"

definition ghPathRewritesProtection :: "string \<Rightarrow> bool" where
  "ghPathRewritesProtection path =
     (let segments = split_on slash path
      in if length segments > 3 \<and> segments ! 0 = ''repos'' then
           gh_family (join ''/'' (drop 3 segments))
         else if length segments > 2 \<and> segments ! 0 = ''orgs'' then
           gh_family (join ''/'' (drop 2 segments))
         else length segments = 3 \<and> segments ! 0 = ''repos'')"

definition ghGraphqlMutates :: "argv \<Rightarrow> bool" where
  "ghGraphqlMutates argv = list_ex (\<lambda>arg. contains (to_lower arg) ''mutation'') (drop 2 argv)"

definition checkGhAPIProtection :: "simple \<Rightarrow> verdict option" where
  "checkGhAPIProtection s =
     (let argv = Argv s
      in if head argv \<noteq> ''gh'' \<or> length argv < 3 \<or> argv ! 1 \<noteq> ''api'' then None
         else (let method = ghAPIMethod argv; endpoint = ghAPIEndpoint argv
               in if method = ''GET'' \<or> method = ''HEAD'' then None
                  else if equal_fold endpoint ''graphql'' then
                    (if ghGraphqlMutates argv then
                       ask ''P2.gh-protection''
                         (''a GitHub GraphQL mutation can rewrite repository protections under '' @
                          ''the operator's token'')
                     else None)
                  else if \<not> ghPathRewritesProtection (ghNormalizedAPIPath endpoint) then None
                  else ask ''P2.gh-protection''
                         (method @ '' '' @ endpoint @
                          '' rewrites repository protection under the operator's token'')))"

section \<open>The porcelain\<close>

record gh_porcelain_verdict =
  gpvDeny :: bool
  gpvRuleID :: string
  gpvReason :: string

definition gh_deny :: "string \<Rightarrow> string \<Rightarrow> gh_porcelain_verdict" where
  "gh_deny i r = \<lparr>gpvDeny = True, gpvRuleID = i, gpvReason = r\<rparr>"

definition gh_ask :: "string \<Rightarrow> string \<Rightarrow> gh_porcelain_verdict" where
  "gh_ask i r = \<lparr>gpvDeny = False, gpvRuleID = i, gpvReason = r\<rparr>"

definition ghPorcelainRules :: "(string \<times> gh_porcelain_verdict) list" where
  "ghPorcelainRules =
     [(''repo delete'', gh_deny ''P2.gh-repo-delete''
         (''deletes the repository under the operator's token; this is not reversible by '' @
          ''changing a setting back'')),
      (''secret set'', gh_ask ''P2.gh-protection''
         ''writes an Actions secret under the operator's token''),
      (''secret delete'', gh_ask ''P2.gh-protection''
         ''removes an Actions secret under the operator's token''),
      (''variable set'', gh_ask ''P2.gh-protection''
         ''writes an Actions variable under the operator's token''),
      (''variable delete'', gh_ask ''P2.gh-protection''
         ''removes an Actions variable under the operator's token''),
      (''repo edit'', gh_ask ''P2.gh-protection''
         (''rewrites repository settings (visibility, merge and security flags) under the '' @
          ''operator's token'')),
      (''ruleset delete'', gh_ask ''P2.gh-protection''
         ''removes a repository ruleset under the operator's token''),
      (''ruleset edit'', gh_ask ''P2.gh-protection''
         ''rewrites a repository ruleset under the operator's token''),
      (''ruleset create'', gh_ask ''P2.gh-protection''
         ''creates a repository ruleset under the operator's token''),
      (''repo archive'', gh_ask ''P2.gh-repo-admin''
         ''archives the repository under the operator's token''),
      (''repo unarchive'', gh_ask ''P2.gh-repo-admin''
         ''unarchives the repository under the operator's token''),
      (''repo rename'', gh_ask ''P2.gh-repo-admin''
         ''renames the repository under the operator's token''),
      (''repo transfer'', gh_ask ''P2.gh-repo-admin''
         ''transfers the repository to another owner under the operator's token''),
      (''auth switch'', gh_ask ''P2.gh-auth-scope'' ''changes which account later gh calls run as''),
      (''auth logout'', gh_ask ''P2.gh-auth-logout''
         ''removes the stored credential later gh calls depend on''),
      (''ssh-key add'', gh_ask ''P2.gh-account-key''
         ''adds an SSH key granting durable access to the account''),
      (''ssh-key delete'', gh_ask ''P2.gh-account-key''
         ''removes an SSH key the operator's own access may depend on''),
      (''gpg-key add'', gh_ask ''P2.gh-account-key''
         ''adds a GPG key that signs commits as the operator''),
      (''gpg-key delete'', gh_ask ''P2.gh-account-key''
         ''removes a GPG key the operator's signature verification depends on''),
      (''release create'', gh_ask ''P6.publish'' ''publishes a release under the operator's token''),
      (''release delete'', gh_ask ''P6.publish''
         ''deletes a published release consumers may already have fetched''),
      (''release edit'', gh_ask ''P6.publish''
         ''rewrites a published release under the operator's token''),
      (''release upload'', gh_ask ''P6.publish''
         ''adds assets to a published release under the operator's token''),
      (''pr merge'', gh_ask ''P2.gh-pr-merge''
         ''merges into the target branch under the operator's token''),
      (''workflow run'', gh_ask ''P2.gh-workflow-dispatch''
         ''dispatches a workflow that runs with the repository's secrets''),
      (''workflow enable'', gh_ask ''P2.gh-workflow-dispatch''
         ''changes whether a workflow runs under the operator's token''),
      (''workflow disable'', gh_ask ''P2.gh-workflow-dispatch''
         ''changes whether a workflow runs under the operator's token'')]"

definition ghScopeFlags :: "string list" where
  "ghScopeFlags = [''-s'', ''--scopes'', ''--scope'']"

definition ghGroupVerb :: "argv \<Rightarrow> string \<times> string" where
  "ghGroupVerb argv =
     (case filter (\<lambda>a. \<not> has_prefix a ''-'') (tl argv) of
        grp # verb # _ \<Rightarrow> (grp, verb)
      | [grp] \<Rightarrow> (grp, '''')
      | [] \<Rightarrow> ('''', ''''))"

fun gh_flag_scan :: "string \<Rightarrow> string list \<Rightarrow> bool" where
  "gh_flag_scan flag [] = False"
| "gh_flag_scan flag (arg # rest) =
     (if arg = ''--'' then False
      else if arg = flag \<or> has_prefix arg (flag @ ''='') then True
      else gh_flag_scan flag rest)"

definition ghHasFlag :: "argv \<Rightarrow> string \<Rightarrow> bool" where
  "ghHasFlag argv flag = gh_flag_scan flag (tl argv)"

definition ghHasScopeFlag :: "argv \<Rightarrow> bool" where
  "ghHasScopeFlag argv =
     list_ex (\<lambda>arg. arg \<in> set ghScopeFlags \<or>
        (case cut CHR ''='' arg of (name, _, found) \<Rightarrow> found \<and> name \<in> set ghScopeFlags)) argv"

definition checkGhPorcelain :: "simple \<Rightarrow> verdict option" where
  "checkGhPorcelain s =
     (let argv = Argv s
      in if head argv \<noteq> ''gh'' then None
         else (case ghGroupVerb argv of (grp, verb) \<Rightarrow>
                 if grp = '''' then None
                 else if grp = ''auth'' \<and> (verb = ''refresh'' \<or> verb = ''login'') \<and>
                         ghHasScopeFlag argv then
                   ask ''P2.gh-auth-scope''
                     ''widens the scopes of the token every later gh call runs under''
                 else if grp = ''auth'' \<and> verb = ''login'' \<and> ghHasFlag argv ''--with-token'' then
                   ask ''P2.gh-auth-scope''
                     (''logs in with a supplied token, changing which account later gh calls '' @
                      ''run as'')
                 else (case map_of ghPorcelainRules (grp @ '' '' @ verb) of
                         None \<Rightarrow> None
                       | Some rule \<Rightarrow>
                           if gpvDeny rule then deny (gpvRuleID rule) (gpvReason rule)
                           else ask (gpvRuleID rule) (gpvReason rule))))"

section \<open>The rules meet their contract\<close>

interpretation gh_api: asking_rule checkGhAPIProtection "\<lambda>h. h = ''gh''" "[''P2.gh-protection'']"
  by unfold_locales (auto simp: checkGhAPIProtection_def Let_def split: if_splits)

definition gh_rule_ids :: "string list" where
  "gh_rule_ids =
     [''P2.gh-repo-delete'', ''P2.gh-protection'', ''P2.gh-repo-admin'', ''P2.gh-auth-scope'',
      ''P2.gh-auth-logout'', ''P2.gh-account-key'', ''P6.publish'', ''P2.gh-pr-merge'',
      ''P2.gh-workflow-dispatch'']"

lemma gh_table_ids: "list_all (\<lambda>e. gpvRuleID (snd e) \<in> set gh_rule_ids) ghPorcelainRules"
  by code_simp

lemma gh_lookup_id: "map_of ghPorcelainRules k = Some r \<Longrightarrow> gpvRuleID r \<in> set gh_rule_ids"
  using gh_table_ids map_of_SomeD [of ghPorcelainRules k r] unfolding list_all_iff by fastforce

interpretation gh_porcelain: argv_rule checkGhPorcelain "\<lambda>h. h = ''gh''" gh_rule_ids
proof
  fix s v
  assume v: "checkGhPorcelain s = Some v"
  then show "head (Argv s) = ''gh''" by (auto simp: checkGhPorcelain_def Let_def split: if_splits)
  have "''P2.gh-auth-scope'' \<in> set gh_rule_ids" by (simp add: gh_rule_ids_def)
  with v show "vRuleID v \<in> set gh_rule_ids"
    by (auto simp: checkGhPorcelain_def Let_def dest: gh_lookup_id
        split: if_splits option.splits prod.splits)
  from v show "vDecision v = Ask \<or> vDecision v = Deny"
    by (auto simp: checkGhPorcelain_def Let_def split: if_splits option.splits prod.splits)
qed

section \<open>What the rules decide\<close>

text \<open>The porcelain rule reads a gh command as its first two non-flag words: whatever flags stand
  between and after them, deleting the repository is denied, and every other entry of the table
  asks under the entry's own rule id.\<close>

lemma gh_porcelain_decides:
  assumes "head [gh] = ''gh''" and "list_all (\<lambda>a. has_prefix a ''-'') (pre @ mid)"
    and "\<not> has_prefix grp ''-''" and "\<not> has_prefix verb ''-''" and "grp \<noteq> ''''"
    and "\<not> (grp = ''auth'' \<and> (verb = ''refresh'' \<or> verb = ''login''))"
    and "map_of ghPorcelainRules (grp @ '' '' @ verb) = Some rule"
    and "Argv s = gh # pre @ grp # mid @ verb # rest"
  shows "checkGhPorcelain s = Some (mk_verdict (if gpvDeny rule then Deny else Ask)
           (gpvRuleID rule) (gpvReason rule))"
proof -
  have dash: "filter (\<lambda>a. \<not> has_prefix a ''-'') xs = []" if "list_all (\<lambda>a. has_prefix a ''-'') xs" for xs
    using that by (simp add: filter_empty_conv list_all_iff)
  have "ghGroupVerb (Argv s) = (grp, verb)"
    using assms(2-4,8) by (simp add: ghGroupVerb_def dash)
  moreover have "head (Argv s) = ''gh''" using assms(1,8) by simp
  ultimately show ?thesis
    using assms(5-7) by (auto simp: checkGhPorcelain_def Let_def ask_def deny_def)
qed

lemma to_lower_slash: "has_prefix (to_lower p) ''/'' \<longleftrightarrow> has_prefix p ''/''"
  by (cases p) (auto simp: to_lower_def ascii_lower_slash)

lemma dropWhile_unmatched: "list_all (\<lambda>c. \<not> P c) s \<Longrightarrow> dropWhile P s = s"
  by (cases s) auto

lemma trim_space_id: "list_all (\<lambda>c. c \<notin> set ascii_space) s \<Longrightarrow> trim_space s = s"
proof -
  assume a: "list_all (\<lambda>c. c \<notin> set ascii_space) s"
  then have "list_all (\<lambda>c. c \<notin> set ascii_space) (rev s)" by (simp add: list_all_iff)
  with a show ?thesis
    by (simp add: trim_space_def trim_def trim_right_def dropWhile_unmatched)
qed

declare to_lower_Cons [simp]

lemma not_http_url:
  "\<not> has_prefix q ''http'' \<Longrightarrow> strip_host ''http://'' (strip_host ''https://'' q) = q"
  by (cases "has_prefix q ''https://''"; cases "has_prefix q ''http://''")
    (auto simp: strip_host_def has_prefix_iff_prefix prefix_def)

lemma slash_not_http: "\<not> has_prefix (slash # q) ''http''"
  by simp

lemma to_lower_host: "slash \<notin> set host \<Longrightarrow> slash \<notin> set (to_lower host)"
  by (metis ascii_lower_slash imageE list.set_map to_lower_def)

lemma https_url:
  "slash \<notin> set host \<Longrightarrow> strip_host ''https://'' (''https://'' @ host @ slash # q) = slash # q"
proof -
  assume h: "slash \<notin> set host"
  have "dropWhile (\<lambda>c. c \<noteq> slash) (host @ slash # q) = slash # q"
    using h by (induction host) auto
  moreover have "trim_prefix (''https://'' @ host @ slash # q) ''https://'' = host @ slash # q"
    by (rule trim_prefix_append)
  ultimately show ?thesis by (simp add: strip_host_def Let_def)
qed

lemma https_lower: "to_lower ''https://'' = ''https://''"
  by (simp add: ascii_lower_def upper_letters_def lower_letters_def to_lower_def)

text \<open>One protection endpoint is judged the same under its spellings: with a leading slash, or as
  a full https URL on any host, the normalised path of an endpoint is that of its bare form.\<close>

lemma ghNormalizedAPIPath_spellings:
  assumes "list_all (\<lambda>c. c \<notin> set ascii_space) (host @ p)"
    and "\<not> has_prefix (to_lower p) ''http''" and "\<not> has_prefix p ''/''" and "slash \<notin> set host"
  shows "ghNormalizedAPIPath (''/'' @ p) = ghNormalizedAPIPath p \<and>
         ghNormalizedAPIPath (''https://'' @ host @ ''/'' @ p) = ghNormalizedAPIPath p"
proof -
  let ?q = "to_lower p" and ?h = "to_lower host"
  have ts: "trim_space p = p" "trim_space (''/'' @ p) = ''/'' @ p"
    "trim_space (''https://'' @ host @ ''/'' @ p) = ''https://'' @ host @ ''/'' @ p"
    using assms(1) by (auto intro!: trim_space_id simp: ascii_space_def)
  have norm: "ghNormalizedAPIPath e =
      takeWhile (\<lambda>c. c \<noteq> CHR ''?'' \<and> c \<noteq> CHR ''#'') ?q"
    if "trim_space e = e" and
      "trim_prefix (strip_host ''http://'' (strip_host ''https://'' (to_lower e))) ''/'' = ?q" for e
    using that by (simp add: ghNormalizedAPIPath_def Let_def)
  have tp: "trim_prefix (''/'' @ ?q) ''/'' = ?q" by (rule trim_prefix_append)
  have sl: "ascii_lower slash = slash" by (simp add: ascii_lower_slash)
  have "ghNormalizedAPIPath p = takeWhile (\<lambda>c. c \<noteq> CHR ''?'' \<and> c \<noteq> CHR ''#'') ?q"
    using assms(2,3) by (intro norm ts) (simp add: not_http_url to_lower_slash trim_prefix_none)
  moreover have "ghNormalizedAPIPath (''/'' @ p) =
      takeWhile (\<lambda>c. c \<noteq> CHR ''?'' \<and> c \<noteq> CHR ''#'') ?q"
    using tp by (intro norm ts) (simp add: not_http_url sl)
  moreover have "ghNormalizedAPIPath (''https://'' @ host @ ''/'' @ p) =
      takeWhile (\<lambda>c. c \<noteq> CHR ''?'' \<and> c \<noteq> CHR ''#'') ?q"
  proof (intro norm ts)
    have "to_lower (''https://'' @ host @ ''/'' @ p) = ''https://'' @ ?h @ slash # ?q"
      using https_lower by (simp add: sl del: to_lower_Cons) (simp add: sl)
    moreover have "strip_host ''http://'' (slash # ?q) = slash # ?q"
      by (simp add: strip_host_def)
    ultimately show "trim_prefix (strip_host ''http://'' (strip_host ''https://''
        (to_lower (''https://'' @ host @ ''/'' @ p)))) ''/'' = ?q"
      using https_url [OF to_lower_host [OF assms(4)], of ?q] tp by simp
  qed
  ultimately show ?thesis by simp
qed

section \<open>Spellings the rules do not see\<close>

text \<open>The CLI accepts a short option with its value attached, and a flag with a separate value before
  the verb; the scanners do not.\<close>

lemma gh_attached_method_unseen:
  "checkGhAPIProtection (simple_of [''gh'', ''api'', ''-XDELETE'',
     ''repos/o/r/branches/main/protection'']) = None \<and>
   checkGhAPIProtection (simple_of [''gh'', ''api'', ''-X'', ''DELETE'',
     ''repos/o/r/branches/main/protection'']) \<noteq> None"
  by code_simp

lemma gh_flag_value_hides_verb:
  "checkGhPorcelain (simple_of [''gh'', ''secret'', ''-R'', ''o/r'', ''set'', ''TOKEN'']) = None \<and>
   checkGhPorcelain (simple_of [''gh'', ''secret'', ''set'', ''-R'', ''o/r'', ''TOKEN'']) \<noteq> None"
  by code_simp

end
