(* ===== verification/Rules_Git.thy ===== *)
theory Rules_Git
  imports Tool_Call
begin

text \<open>
  The git rules: \<^verbatim>\<open>src/internal/engine/rules_git.go\<close> (without the functions that read the repository
  on disk) and the git helpers of \<^verbatim>\<open>rules_bash.go\<close>.

  The command is a list of words.  \<open>gitSubcommandIndex\<close> finds the subcommand past the global options;
  \<open>parseGitPushArgs\<close> and \<open>parseGitConfig\<close> are the two option parsers; \<open>checkGit\<close> and \<open>checkGitSafety\<close>
  are the rules.  Whether a \<^verbatim>\<open>git config\<close> write lands in the call's own repository is read from the
  file system; that answer is the argument \<open>targetsRepo\<close>.  Regular expressions are scanners.

  The lemmas discharge the contract of a command rule, show that no global option hides a
  subcommand, and that every spelling of a forced push is denied.
\<close>

section \<open>Finding the subcommand\<close>

definition gitValueFlags :: "string list" where
  "gitValueFlags =
     [''-C'', ''-c'', ''--namespace'', ''--git-dir'', ''--work-tree'', ''--exec-path'',
      ''--attr-source'', ''--super-prefix'', ''--config-env'']"

definition gitValuelessGlobals :: "string list" where
  "gitValuelessGlobals =
     [''-p'', ''-P'', ''--no-pager'', ''--paginate'', ''--bare'', ''--literal-pathspecs'',
      ''--no-replace-objects'', ''--help'', ''--version'', ''--no-optional-locks'']"

fun git_sub_scan :: "nat \<Rightarrow> string list \<Rightarrow> nat option" where
  "git_sub_scan i [] = None"
| "git_sub_scan i (a # rest) =
     (if \<not> has_prefix a ''-'' then Some i
      else if a \<in> set gitValueFlags then git_sub_scan (i + 2) (drop 1 rest)
      else git_sub_scan (i + 1) rest)"

definition gitSubcommandIndex :: "argv \<Rightarrow> nat option" where
  "gitSubcommandIndex argv = git_sub_scan 1 (tl argv)"

definition gitSubcommand :: "argv \<Rightarrow> string" where
  "gitSubcommand argv =
     (case gitSubcommandIndex argv of None \<Rightarrow> '''' | Some i \<Rightarrow> argv ! i)"

definition gitSubcommandArg :: "argv \<Rightarrow> string" where
  "gitSubcommandArg argv =
     (case gitSubcommandIndex argv of
        None \<Rightarrow> ''''
      | Some i \<Rightarrow> if i + 1 < length argv then argv ! (i + 1) else '''')"

text \<open>The words after the subcommand.\<close>

definition git_args :: "argv \<Rightarrow> string list" where
  "git_args argv =
     (case gitSubcommandIndex argv of None \<Rightarrow> [] | Some i \<Rightarrow> drop (i + 1) argv)"

fun git_unknown_scan :: "string list \<Rightarrow> string" where
  "git_unknown_scan [] = ''''"
| "git_unknown_scan (a # rest) =
     (let base = cut_name CHR ''='' a
      in if \<not> has_prefix a ''-'' then ''''
         else if base \<in> set gitValueFlags then
           (if contains a ''='' then git_unknown_scan rest else git_unknown_scan (drop 1 rest))
         else if base \<in> set gitValuelessGlobals then git_unknown_scan rest
         else if \<not> has_prefix a ''--'' then git_unknown_scan rest
         else a)"

definition gitSubcommandUnknownFlag :: "argv \<Rightarrow> string" where
  "gitSubcommandUnknownFlag argv = git_unknown_scan (tl argv)"

section \<open>Option tables\<close>

datatype value_mode = NoValue | RequiredValue | OptionalValue

record git_option =
  goName :: string
  goMode :: value_mode
  goNegatable :: bool

definition gopt :: "string \<Rightarrow> value_mode \<Rightarrow> bool \<Rightarrow> git_option" where
  "gopt n m neg = \<lparr>goName = n, goMode = m, goNegatable = neg\<rparr>"

definition gitUpdateRefLongOptions :: "git_option list" where
  "gitUpdateRefLongOptions =
     map (\<lambda>n. gopt n NoValue False) [''no-deref'', ''stdin'', ''create-reflog'', ''batch-updates'']"

definition gitSwitchLongOptions :: "git_option list" where
  "gitSwitchLongOptions =
     [gopt ''create'' RequiredValue False, gopt ''force-create'' RequiredValue False,
      gopt ''detach'' NoValue False, gopt ''guess'' NoValue False, gopt ''no-guess'' NoValue False,
      gopt ''discard-changes'' NoValue False, gopt ''force'' NoValue False,
      gopt ''merge'' NoValue False, gopt ''conflict'' RequiredValue False,
      gopt ''quiet'' NoValue False, gopt ''progress'' NoValue False,
      gopt ''no-progress'' NoValue False, gopt ''recurse-submodules'' OptionalValue False,
      gopt ''no-recurse-submodules'' NoValue False, gopt ''orphan'' RequiredValue False,
      gopt ''ignore-other-worktrees'' NoValue False, gopt ''track'' OptionalValue False,
      gopt ''no-track'' NoValue False]"

definition gitRmLongOptions :: "git_option list" where
  "gitRmLongOptions =
     [gopt ''force'' NoValue False, gopt ''dry-run'' NoValue False, gopt ''cached'' NoValue False,
      gopt ''ignore-unmatch'' NoValue False, gopt ''quiet'' NoValue False,
      gopt ''sparse'' NoValue False, gopt ''pathspec-from-file'' RequiredValue False,
      gopt ''pathspec-file-nul'' NoValue False]"

definition gitPushLongOptions :: "git_option list" where
  "gitPushLongOptions =
     [gopt ''verbose'' NoValue True, gopt ''quiet'' NoValue True, gopt ''repo'' RequiredValue True,
      gopt ''all'' NoValue True, gopt ''branches'' NoValue True, gopt ''mirror'' NoValue True,
      gopt ''delete'' NoValue True, gopt ''tags'' NoValue True, gopt ''dry-run'' NoValue True,
      gopt ''porcelain'' NoValue True, gopt ''force'' NoValue True,
      gopt ''force-with-lease'' OptionalValue True, gopt ''force-if-includes'' NoValue True,
      gopt ''recurse-submodules'' RequiredValue True, gopt ''thin'' NoValue True,
      gopt ''receive-pack'' RequiredValue True, gopt ''exec'' RequiredValue True,
      gopt ''set-upstream'' NoValue True, gopt ''progress'' NoValue True,
      gopt ''prune'' NoValue True, gopt ''verify'' NoValue True,
      gopt ''follow-tags'' NoValue True, gopt ''signed'' OptionalValue True,
      gopt ''atomic'' NoValue True, gopt ''push-option'' RequiredValue True,
      gopt ''ipv4'' NoValue False, gopt ''ipv6'' NoValue False]"

definition resolveGitLongOption :: "string \<Rightarrow> git_option list \<Rightarrow> git_option option" where
  "resolveGitLongOption name options =
     (case find (\<lambda>opt. goName opt = name) options of
        Some opt \<Rightarrow> Some opt
      | None \<Rightarrow>
          (case filter (\<lambda>opt. has_prefix (goName opt) name) options of
             [match] \<Rightarrow> Some match
           | _ \<Rightarrow> None))"

text \<open>The long option of \<^verbatim>\<open>git push\<close> and whether it is negated.\<close>

definition resolveGitPushLongOption :: "string \<Rightarrow> (git_option \<times> bool) option" where
  "resolveGitPushLongOption name =
     (let negated = has_prefix name ''no-'';
          n = trim_prefix name ''no-''
      in case find (\<lambda>opt. goName opt = n \<and> (\<not> negated \<or> goNegatable opt)) gitPushLongOptions of
           Some opt \<Rightarrow> Some (opt, negated)
         | None \<Rightarrow>
             (case filter (\<lambda>opt. (\<not> negated \<or> goNegatable opt) \<and> has_prefix (goName opt) n)
                     gitPushLongOptions of
                [match] \<Rightarrow> Some (match, negated)
              | _ \<Rightarrow> None))"

text \<open>One cluster of short options: whether a wanted flag occurs before a value option, and otherwise
  whether the value is the next word.\<close>

fun short_cluster :: "string \<Rightarrow> string \<Rightarrow> string \<Rightarrow> bool \<times> bool" where
  "short_cluster flags values [] = (False, False)"
| "short_cluster flags values (c # cs) =
     (if c \<in> set flags then (True, False)
      else if c \<in> set values then (False, cs = [])
      else short_cluster flags values cs)"

fun git_option_scan ::
  "string \<Rightarrow> string \<Rightarrow> git_option list \<Rightarrow> string \<Rightarrow> string list \<Rightarrow> bool" where
  "git_option_scan shortFlags longFlag longOptions shortValues [] = False"
| "git_option_scan shortFlags longFlag longOptions shortValues (arg # rest) =
     (if arg = ''--'' then False
      else if has_prefix arg ''--'' then
        (case cut CHR ''='' (trim_prefix arg ''--'') of (name, _, attached) \<Rightarrow>
           (case resolveGitLongOption name longOptions of
              None \<Rightarrow> git_option_scan shortFlags longFlag longOptions shortValues rest
            | Some opt \<Rightarrow>
                if attached \<and> goMode opt = NoValue
                then git_option_scan shortFlags longFlag longOptions shortValues rest
                else if goName opt = longFlag then True
                else if goMode opt = RequiredValue \<and> \<not> attached
                then git_option_scan shortFlags longFlag longOptions shortValues (drop 1 rest)
                else git_option_scan shortFlags longFlag longOptions shortValues rest))
      else if has_prefix arg ''-'' \<and> length arg > 1 then
        (case short_cluster shortFlags shortValues (tl arg) of (hit, takesNext) \<Rightarrow>
           hit \<or> git_option_scan shortFlags longFlag longOptions shortValues
                   (if takesNext then drop 1 rest else rest))
      else git_option_scan shortFlags longFlag longOptions shortValues rest)"

definition gitOptionPresent ::
  "argv \<Rightarrow> string \<Rightarrow> string \<Rightarrow> git_option list \<Rightarrow> string \<Rightarrow> bool" where
  "gitOptionPresent argv shortFlags longFlag longOptions shortValues =
     git_option_scan shortFlags longFlag longOptions shortValues (git_args argv)"

section \<open>Push arguments\<close>

record git_push_args =
  gpForce :: bool
  gpForceWithLease :: bool
  gpDelete :: bool
  gpTags :: bool
  gpOperands :: "string list"

fun push_short :: "string \<Rightarrow> git_push_args \<Rightarrow> git_push_args \<times> bool" where
  "push_short [] st = (st, False)"
| "push_short (c # cs) st =
     (if c = CHR ''f'' then push_short cs (st\<lparr>gpForce := True\<rparr>)
      else if c = CHR ''d'' then push_short cs (st\<lparr>gpDelete := True\<rparr>)
      else if c = CHR ''o'' then (st, cs = [])
      else push_short cs st)"

definition push_long :: "string \<Rightarrow> bool \<Rightarrow> git_push_args \<Rightarrow> git_push_args" where
  "push_long name negated st =
     (if name = ''force'' then st\<lparr>gpForce := \<not> negated\<rparr>
      else if name = ''force-with-lease'' then st\<lparr>gpForceWithLease := \<not> negated\<rparr>
      else if name = ''delete'' then st\<lparr>gpDelete := \<not> negated\<rparr>
      else if name = ''tags'' then st\<lparr>gpTags := \<not> negated\<rparr>
      else st)"

fun push_scan :: "bool \<Rightarrow> git_push_args \<Rightarrow> string list \<Rightarrow> git_push_args" where
  "push_scan ended st [] = st"
| "push_scan ended st (a # rest) =
     (if \<not> ended \<and> a = ''--'' then push_scan True st rest
      else if \<not> ended \<and> has_prefix a ''--'' then
        (let base = cut_name CHR ''='' a; attached = contains a ''=''
         in case resolveGitPushLongOption (trim_prefix base ''--'') of
              None \<Rightarrow> push_scan ended st rest
            | Some (opt, negated) \<Rightarrow>
                if (negated \<and> attached) \<or> (\<not> negated \<and> attached \<and> goMode opt = NoValue)
                then push_scan ended st rest
                else push_scan ended (push_long (goName opt) negated st)
                       (if \<not> negated \<and> \<not> attached \<and> goMode opt = RequiredValue
                        then drop 1 rest else rest))
      else if \<not> ended \<and> has_prefix a ''-'' \<and> length a > 1 then
        (case push_short (tl a) st of (st', consumeNext) \<Rightarrow>
           push_scan ended st' (if consumeNext then drop 1 rest else rest))
      else push_scan ended (st\<lparr>gpOperands := gpOperands st @ [a]\<rparr>) rest)"

definition no_push_args :: git_push_args where
  "no_push_args =
     \<lparr>gpForce = False, gpForceWithLease = False, gpDelete = False, gpTags = False, gpOperands = []\<rparr>"

definition parseGitPushArgs :: "argv \<Rightarrow> git_push_args" where
  "parseGitPushArgs argv =
     (if gitSubcommand argv \<noteq> ''push'' then no_push_args
      else push_scan False no_push_args (git_args argv))"

text \<open>The first operand is the remote; the refspecs are the rest.\<close>

definition gpRefspecs :: "git_push_args \<Rightarrow> string list" where
  "gpRefspecs args = drop 1 (gpOperands args)"

section \<open>Refspecs\<close>

definition is_alnum :: "char \<Rightarrow> bool" where
  "is_alnum c \<longleftrightarrow> is_digit c \<or> is_letter c"

text \<open>The optional last group of the version pattern: a separator, an alphanumeric, and a run of
  alphanumerics, dots and dashes.\<close>

definition version_suffix :: "string \<Rightarrow> bool" where
  "version_suffix r =
     (case r of
        sep # c # cs \<Rightarrow>
          sep \<in> set ''-+.'' \<and> is_alnum c \<and>
          list_all (\<lambda>x. is_alnum x \<or> x = CHR ''.'' \<or> x = CHR ''-'') cs
      | _ \<Rightarrow> False)"

function version_rest :: "string \<Rightarrow> bool" where
  "version_rest [] = True"
| "version_rest (c # r) =
     (version_suffix (c # r) \<or>
      (c = CHR ''.'' \<and> takeWhile is_digit r \<noteq> [] \<and> version_rest (dropWhile is_digit r)))"
  by pat_completeness auto
termination
  by (relation "measure length") (auto simp: le_imp_less_Suc length_dropWhile_le)

definition versionShapedRef :: "string \<Rightarrow> bool" where
  "versionShapedRef dst =
     (let r = (if has_prefix dst ''v'' \<or> has_prefix dst ''V'' then tl dst else dst)
      in dst \<noteq> '''' \<and> takeWhile is_digit r \<noteq> '''' \<and> version_rest (dropWhile is_digit r))"

definition after_last_colon :: "string \<Rightarrow> string" where
  "after_last_colon a = rev (takeWhile (\<lambda>c. c \<noteq> CHR '':'') (rev a))"

definition refspec_dst :: "string \<Rightarrow> string" where
  "refspec_dst a = trim_prefix (after_last_colon a) ''+''"

definition refspec_tag :: "string \<Rightarrow> bool" where
  "refspec_tag a =
     (let dst = refspec_dst a
      in if has_prefix dst ''refs/tags/'' then True
         else if has_prefix dst ''refs/'' then False
         else versionShapedRef dst)"

definition refspec_protected :: "string \<Rightarrow> bool" where
  "refspec_protected a =
     (let dst = trim_prefix (refspec_dst a) ''refs/heads/'' in dst = ''main'' \<or> dst = ''master'')"

definition check_push_refspecs :: "git_push_args \<Rightarrow> verdict option" where
  "check_push_refspecs args =
     (let refspecs = gpRefspecs args
      in case filter (\<lambda>a. has_prefix a ''+'') refspecs of
           forceRefspec # _ \<Rightarrow>
             deny ''P2.git-push-force'' (''a leading + in a refspec is a force push: '' @ forceRefspec)
         | [] \<Rightarrow>
             (case filter (\<lambda>a. has_prefix a '':'') refspecs of
                deleteRefspec # _ \<Rightarrow>
                  ask ''P2.git-push-delete''
                    (''an empty source in a refspec deletes the remote ref: '' @ deleteRefspec)
              | [] \<Rightarrow>
                  if gpDelete args then
                    ask ''P2.git-push-delete'' ''git push --delete deletes remote refs''
                  else if list_ex refspec_protected refspecs then
                    ask ''P2.git-push-protected'' ''push to a protected branch''
                  else if gpTags args then
                    ask ''P2.git-push-protected'' ''pushing tags can overwrite released versions''
                  else (case filter refspec_tag refspecs of
                          tagRefspec # _ \<Rightarrow>
                            ask ''P2.git-push-protected'' (''publishes a release pointer: '' @ tagRefspec)
                        | [] \<Rightarrow> None)))"

section \<open>Clean\<close>

text \<open>A cluster of short options of \<^verbatim>\<open>git clean\<close>: whether \<^verbatim>\<open>n\<close> occurs before an \<^verbatim>\<open>e\<close>, and otherwise
  whether the \<^verbatim>\<open>e\<close> takes the next word.\<close>

fun clean_scan :: "string list \<Rightarrow> bool" where
  "clean_scan [] = False"
| "clean_scan (arg # rest) =
     (if arg = ''--'' then False
      else if arg = ''--dry-run'' then True
      else if arg = ''--exclude'' then clean_scan (drop 1 rest)
      else if has_prefix arg ''--'' \<or> \<not> has_prefix arg ''-'' then clean_scan rest
      else (case short_cluster ''n'' ''e'' (tl arg) of (hit, takesNext) \<Rightarrow>
              hit \<or> clean_scan (if takesNext then drop 1 rest else rest)))"

definition gitCleanDryRun :: "argv \<Rightarrow> bool" where
  "gitCleanDryRun argv = clean_scan (git_args argv)"

section \<open>Git config\<close>

record git_config =
  gcOperation :: string
  gcScope :: string
  gcSubjects :: "string list"
  gcLocalRepo :: bool
  gcUncertain :: bool

record config_scan =
  csOperation :: string
  csScope :: string
  csUncertain :: bool
  csOperands :: "string list"

definition set_operation :: "string \<Rightarrow> config_scan \<Rightarrow> config_scan" where
  "set_operation next st =
     st\<lparr>csOperation := next,
        csUncertain := csUncertain st \<or> (csOperation st \<noteq> '''' \<and> csOperation st \<noteq> next)\<rparr>"

definition set_scope :: "string \<Rightarrow> config_scan \<Rightarrow> config_scan" where
  "set_scope next st =
     st\<lparr>csScope := next,
        csUncertain := csUncertain st \<or> (csScope st \<noteq> ''local'' \<and> csScope st \<noteq> next)\<rparr>"

definition uncertain_if :: "bool \<Rightarrow> config_scan \<Rightarrow> config_scan" where
  "uncertain_if b st = st\<lparr>csUncertain := csUncertain st \<or> b\<rparr>"

definition config_operations :: "string list" where
  "config_operations =
     [''add'', ''replace-all'', ''unset'', ''unset-all'', ''rename-section'', ''remove-section'',
      ''edit'', ''get'', ''get-all'', ''get-regexp'', ''get-urlmatch'', ''get-color'',
      ''get-colorbool'', ''list'']"

definition config_plain_flags :: "string list" where
  "config_plain_flags =
     [''fixed-value'', ''show-origin'', ''show-scope'', ''name-only'', ''includes'', ''no-includes'',
      ''null'', ''bool'', ''int'', ''bool-or-int'', ''bool-or-str'', ''path'', ''expiry-date'']"

text \<open>A long option with the words after it; the result is the new state and the words left.\<close>

definition config_long ::
  "string \<Rightarrow> string \<Rightarrow> bool \<Rightarrow> config_scan \<Rightarrow> string list \<Rightarrow> config_scan \<times> string list" where
  "config_long name attached hasAttached st rest =
     (if name \<in> set [''local'', ''global'', ''system'', ''worktree''] then
        (set_scope name (uncertain_if hasAttached st), rest)
      else if name \<in> set [''file'', ''blob'', ''type''] then
        (if \<not> hasAttached \<and> rest = [] then (uncertain_if True st, rest)
         else (let value = (if hasAttached then attached else hd rest);
                   rest' = (if hasAttached then rest else tl rest);
                   st' = uncertain_if (value = '''') st
               in (if name = ''type'' then st' else set_scope name st', rest')))
      else if name \<in> set config_operations then
        (set_operation name (uncertain_if hasAttached st), rest)
      else if name \<in> set config_plain_flags then (uncertain_if hasAttached st, rest)
      else (uncertain_if True st, rest))"

fun config_short :: "string \<Rightarrow> config_scan \<Rightarrow> string list \<Rightarrow> config_scan \<times> string list" where
  "config_short [] st rest = (st, rest)"
| "config_short (c # cs) st rest =
     (if c = CHR ''e'' then config_short cs (set_operation ''edit'' st) rest
      else if c = CHR ''l'' then config_short cs (set_operation ''list'' st) rest
      else if c = CHR ''z'' \<or> c = CHR ''n'' \<or> c = CHR ''t'' then config_short cs st rest
      else if c = CHR ''f'' then
        (if cs = [] \<and> rest = [] then (uncertain_if True st, rest)
         else (let value = (if cs = [] then hd rest else cs);
                   rest' = (if cs = [] then tl rest else rest)
               in (set_scope ''file'' (uncertain_if (value = '''') st), rest')))
      else config_short cs (uncertain_if True st) rest)"

lemma config_long_shorter: "length (snd (config_long n a h st rest)) \<le> length rest"
  by (simp add: config_long_def Let_def)

lemma config_short_shorter: "length (snd (config_short cs st rest)) \<le> length rest"
  by (induction cs st rest rule: config_short.induct) (simp_all add: Let_def)

function config_words :: "bool \<Rightarrow> config_scan \<Rightarrow> string list \<Rightarrow> config_scan" where
  "config_words ended st [] = st"
| "config_words ended st (arg # rest) =
     (if ended \<or> csOperands st \<noteq> [] then
        config_words ended (st\<lparr>csOperands := csOperands st @ [arg]\<rparr>) rest
      else if arg = ''--'' then config_words True st rest
      else if \<not> has_prefix arg ''-'' \<or> arg = ''-'' then
        config_words ended (st\<lparr>csOperands := csOperands st @ [arg]\<rparr>) rest
      else if has_prefix arg ''--'' then
        (case cut CHR ''='' (trim_prefix arg ''--'') of (name, attached, hasAttached) \<Rightarrow>
           (case config_long name attached hasAttached st rest of (st', rest') \<Rightarrow>
              config_words ended st' rest'))
      else (case config_short (tl arg) st rest of (st', rest') \<Rightarrow> config_words ended st' rest'))"
  by pat_completeness auto
termination
  by (relation "measure (\<lambda>(ended, st, args). length args)")
    (auto simp: case_prod_unfold le_imp_less_Suc config_long_shorter config_short_shorter)

definition valid_operand_count :: "string \<Rightarrow> nat \<Rightarrow> bool" where
  "valid_operand_count operation n =
     (if operation = ''positional'' then n \<le> 3
      else if operation = ''add'' then n = 2
      else if operation = ''replace-all'' then n = 2 \<or> n = 3
      else if operation = ''unset'' \<or> operation = ''unset-all'' then n = 1 \<or> n = 2
      else if operation = ''rename-section'' then n = 2
      else if operation = ''remove-section'' then n = 1
      else if operation = ''edit'' \<or> operation = ''list'' then n = 0
      else if operation \<in> set [''get'', ''get-all'', ''get-regexp'', ''get-color'', ''get-colorbool'']
      then n = 1 \<or> n = 2
      else if operation = ''get-urlmatch'' then n = 2
      else False)"

definition blob_operations :: "string list" where
  "blob_operations = [''read'', ''list'', ''get'', ''get-all'', ''get-regexp'', ''get-urlmatch'']"

definition classify_config :: "bool \<Rightarrow> config_scan \<Rightarrow> git_config" where
  "classify_config localRepo st =
     (let operation = (if csOperation st = '''' then ''positional'' else csOperation st);
          operands = csOperands st;
          n = length operands;
          positionalWrite = (operation = ''positional'' \<and> n \<ge> 2);
          keyWrite = operation \<in> set [''add'', ''replace-all'', ''unset'', ''unset-all''];
          sections = operation \<in> set [''rename-section'', ''remove-section'']
      in if \<not> valid_operand_count operation n then
           \<lparr>gcOperation = (if positionalWrite then ''write'' else operation), gcScope = csScope st,
            gcSubjects = (if positionalWrite then [to_lower (hd operands)] else []),
            gcLocalRepo = localRepo, gcUncertain = True\<rparr>
         else (let op = (if positionalWrite \<or> keyWrite then ''write'' else operation)
               in \<lparr>gcOperation = op, gcScope = csScope st,
                   gcSubjects = (if positionalWrite \<or> keyWrite then [to_lower (hd operands)]
                                 else if sections then map to_lower operands else []),
                   gcLocalRepo = localRepo,
                   gcUncertain = csUncertain st \<or>
                     (csScope st = ''blob'' \<and> op \<notin> set blob_operations)\<rparr>))"

definition parseGitConfig :: "bool \<Rightarrow> simple \<Rightarrow> git_config" where
  "parseGitConfig localRepo s =
     (if gitSubcommand (Argv s) \<noteq> ''config'' then
        \<lparr>gcOperation = ''read'', gcScope = ''local'', gcSubjects = [], gcLocalRepo = localRepo,
         gcUncertain = True\<rparr>
      else classify_config localRepo
             (config_words False
                \<lparr>csOperation = '''', csScope = ''local'', csUncertain = False, csOperands = []\<rparr>
                (git_args (Argv s))))"

definition sectionOperation :: "string \<Rightarrow> bool" where
  "sectionOperation operation \<longleftrightarrow> operation = ''rename-section'' \<or> operation = ''remove-section''"

definition dangerousGitConfigSubject :: "string \<Rightarrow> string \<Rightarrow> bool" where
  "dangerousGitConfigSubject subject operation =
     (if sectionOperation operation then
        subject \<in> set [''core'', ''credential'', ''include'', ''includeif'', ''alias'']
      else subject \<in> set [''core.hookspath'', ''core.fsmonitor'', ''core.sshcommand'', ''core.pager'',
                          ''core.editor'', ''include.path''] \<or>
           has_prefix subject ''credential.'' \<or> has_prefix subject ''includeif.'' \<or>
           has_prefix subject ''alias.'')"

definition approvedGitConfigSubject :: "string \<Rightarrow> string \<Rightarrow> bool" where
  "approvedGitConfigSubject subject operation =
     (if sectionOperation operation then subject \<in> set [''user'', ''advice'', ''color'']
      else subject = ''init.defaultbranch'' \<or> subject = ''commit.gpgsign'' \<or>
           has_prefix subject ''user.'' \<or> has_prefix subject ''advice.'' \<or>
           has_prefix subject ''color.'')"

definition config_reads :: "string list" where
  "config_reads =
     [''read'', ''positional'', ''list'', ''get'', ''get-all'', ''get-regexp'', ''get-urlmatch'',
      ''get-color'', ''get-colorbool'']"

definition checkGitConfig :: "git_config \<Rightarrow> verdict option" where
  "checkGitConfig parsed =
     (if gcUncertain parsed then
        ask ''P2.git-config-write'' ''git config arguments could not be classified safely''
      else if gcOperation parsed \<in> set config_reads then None
      else (case filter (\<lambda>x. dangerousGitConfigSubject x (gcOperation parsed)) (gcSubjects parsed) of
              subject # _ \<Rightarrow>
                deny ''P2.git-config-write''
                  (''git config writes a protected key or section: '' @ subject)
            | [] \<Rightarrow>
                if gcScope parsed \<in> set [''global'', ''system'', ''file''] then
                  deny ''P2.git-config-write''
                    ''git config writes outside repository-local configuration''
                else if gcScope parsed = ''worktree'' then
                  ask ''P2.git-config-write'' ''git config writes worktree-specific configuration''
                else if \<not> gcLocalRepo parsed then
                  ask ''P2.git-config-write''
                    ''git config targets a repository other than the ToolCall repository''
                else if gcOperation parsed = ''edit'' then
                  ask ''P2.git-config-write''
                    ''git config opens repository configuration for unrestricted editing''
                else (case filter (\<lambda>x. \<not> approvedGitConfigSubject x (gcOperation parsed))
                             (gcSubjects parsed) of
                        subject # _ \<Rightarrow>
                          ask ''P2.git-config-write''
                            (''git config writes an unclassified key or section: '' @ subject)
                      | [] \<Rightarrow> None)))"

section \<open>The rules\<close>

definition checkGit :: "simple \<Rightarrow> verdict option" where
  "checkGit s =
     (if head (Argv s) \<noteq> ''git'' \<or> length (Argv s) < 2 then None
      else (let sub = gitSubcommand (Argv s)
            in if sub = ''push'' then
                 (let args = parseGitPushArgs (Argv s)
                  in if gpForce args \<or> gpForceWithLease args then
                       deny ''P1.git-push-force'' ''git push --force overwrites remote history''
                     else None)
               else if sub = ''clean'' then
                 (if gitCleanDryRun (Argv s) then None
                  else if hasAnyFlag (Argv s) ''fxd'' [''--force''] then
                    deny ''P1.git-clean''
                      ''git clean -f/-x/-d deletes untracked files irrecoverably''
                  else None)
               else None))"

text \<open>The switch of \<^verbatim>\<open>checkGitSafety\<close>: \<open>None\<close> falls through to the check of unknown global options,
  \<open>Some r\<close> returns \<open>r\<close>.\<close>

definition return_if :: "bool \<Rightarrow> verdict option \<Rightarrow> verdict option option" where
  "return_if b r = (if b then Some r else None)"

definition git_config_case :: "string \<Rightarrow> verdict option \<Rightarrow> verdict option option" where
  "git_config_case unknown verdict =
     (case verdict of
        Some v \<Rightarrow> if vDecision v = Deny \<or> unknown = '''' then Some verdict else None
      | None \<Rightarrow> if unknown = '''' then Some None else None)"

definition git_push_case :: "simple \<Rightarrow> verdict option option" where
  "git_push_case s =
     (let args = parseGitPushArgs (Argv s)
      in if gpForce args \<or> gpForceWithLease args then Some None
         else (case check_push_refspecs args of None \<Rightarrow> None | Some v \<Rightarrow> Some (Some v)))"

definition git_safety_switch ::
  "(simple \<Rightarrow> bool) \<Rightarrow> string \<Rightarrow> string \<Rightarrow> simple \<Rightarrow> verdict option option" where
  "git_safety_switch targetsRepo unknown sub s =
     (let argv = Argv s; arg = gitSubcommandArg argv
      in if sub = ''reset'' then
           return_if (hasAnyFlag argv '''' [''--hard'', ''--keep''])
             (deny ''P2.git-reset-hard''
                ''git reset --hard/--keep discards the working tree and index irrecoverably'')
         else if sub = ''config'' then
           git_config_case unknown (checkGitConfig (parseGitConfig (targetsRepo s) s))
         else if sub = ''checkout'' \<or> sub = ''restore'' then
           return_if (''.'' \<in> set (nonFlagArgs argv))
             (ask ''P2.git-checkout-restore''
                (''git '' @ sub @ '' . silently reverts uncommitted changes''))
         else if sub = ''branch'' then
           return_if (hasAnyFlag argv ''D'' [] \<or>
                 (hasAnyFlag argv '''' [''--delete''] \<and> hasAnyFlag argv '''' [''--force'']))
             (ask ''P2.git-branch-delete'' ''git branch -D force-deletes an unmerged branch'')
         else if sub = ''commit'' then
           return_if (hasAnyFlag argv '''' [''--amend''])
             (ask ''P2.git-history-rewrite'' ''git commit --amend rewrites the last commit'')
         else if sub = ''filter-branch'' \<or> sub = ''filter-repo'' then
           Some (ask ''P2.git-history-rewrite'' (''git '' @ sub @ '' rewrites history''))
         else if sub = ''reflog'' then
           return_if (arg = ''expire'')
             (ask ''P2.git-history-rewrite''
                ''git reflog expire removes the safety net for history rewrites'')
         else if sub = ''gc'' then
           return_if (hasAnyFlag argv '''' [''--prune=now''])
             (ask ''P2.git-history-rewrite''
                ''git gc --prune=now permanently drops unreachable objects'')
         else if sub = ''remote'' then
           return_if (arg = ''add'' \<or> arg = ''set-url'')
             (ask ''P2.git-remote-add''
                ''adding/changing a remote adds a reachable exfil destination'')
         else if sub = ''stash'' then
           return_if (arg = ''clear'' \<or> arg = ''drop'')
             (ask ''P2.git-stash-clear''
                ''discards stashed work with no reflog for the stash contents'')
         else if sub = ''update-ref'' then
           return_if (gitOptionPresent argv ''d'' '''' gitUpdateRefLongOptions ''m'')
             (ask ''P2.git-ref-delete'' ''git update-ref -d deletes a ref'')
         else if sub = ''worktree'' then
           return_if (arg = ''remove'')
             (ask ''P2.git-worktree-remove'' ''git worktree remove discards a working tree'')
         else if sub = ''switch'' then
           return_if (gitOptionPresent argv '''' ''discard-changes'' gitSwitchLongOptions ''cC'')
             (ask ''P2.git-discard'' ''git switch --discard-changes throws away uncommitted work'')
         else if sub = ''rm'' then
           return_if (gitOptionPresent argv ''rf'' ''force'' gitRmLongOptions '''')
             (ask ''P2.git-rm'' ''git rm -r/-f removes tracked files'')
         else if sub = ''push'' then git_push_case s
         else None)"

definition checkGitSafety :: "(simple \<Rightarrow> bool) \<Rightarrow> simple \<Rightarrow> verdict option" where
  "checkGitSafety targetsRepo s =
     (if head (Argv s) \<noteq> ''git'' \<or> length (Argv s) < 2 then None
      else (let unknown = gitSubcommandUnknownFlag (Argv s)
            in case git_safety_switch targetsRepo unknown (gitSubcommand (Argv s)) s of
                 Some r \<Rightarrow> r
               | None \<Rightarrow>
                   if unknown \<noteq> '''' then
                     ask ''P2.git-unknown-global''
                       (''unrecognized git global option '' @ unknown @
                        '' before the subcommand; cannot verify what this runs'')
                   else None))"

text \<open>\<^verbatim>\<open>gitInitCurrentDirectory\<close>, the directory a plain \<^verbatim>\<open>git init\<close> has just initialised, and the
  boundary of the temporary roots.\<close>

definition gitInitCurrentDirectory :: "simple \<Rightarrow> string option" where
  "gitInitCurrentDirectory s =
     (if head (Argv s) \<noteq> ''git'' \<or> cwdUnknown s then None
      else if gitSubcommand (Argv s) \<noteq> ''init'' then None
      else if list_all (\<lambda>a. a = ''-q'' \<or> a = ''--quiet'' \<or> a = ''--'') (git_args (Argv s))
      then Some (clean (Cwd s))
      else None)"

definition normalizeGitIdentityArgs :: "string list \<Rightarrow> string list" where
  "normalizeGitIdentityArgs args =
     concat (map (\<lambda>arg. if has_prefix arg ''-C'' \<and> length arg > 2 then [''-C'', drop 2 arg] else [arg])
       args)"

definition tempRootBoundary :: "string \<Rightarrow> string list \<Rightarrow> string option" where
  "tempRootBoundary dir roots =
     map_option clean
       (find (\<lambda>root. clean root \<noteq> '''' \<and> clean root \<noteq> ''/'' \<and>
                     has_prefix (clean dir) (clean root @ ''/'')) roots)"

section \<open>The rules meet their contract\<close>

definition git_rule_ids :: "string list" where
  "git_rule_ids =
     [''P2.git-reset-hard'', ''P2.git-config-write'', ''P2.git-checkout-restore'',
      ''P2.git-branch-delete'', ''P2.git-history-rewrite'', ''P2.git-remote-add'',
      ''P2.git-stash-clear'', ''P2.git-ref-delete'', ''P2.git-worktree-remove'',
      ''P2.git-discard'', ''P2.git-rm'', ''P2.git-push-force'', ''P2.git-push-delete'',
      ''P2.git-push-protected'', ''P2.git-unknown-global'']"

definition git_verdict_ok :: "verdict \<Rightarrow> bool" where
  "git_verdict_ok v \<longleftrightarrow> vRuleID v \<in> set git_rule_ids \<and> (vDecision v = Ask \<or> vDecision v = Deny)"

lemma git_ok_ask: "i \<in> set git_rule_ids \<Longrightarrow> git_verdict_ok (mk_verdict Ask i r)"
  by (simp add: git_verdict_ok_def)

lemma git_ok_deny: "i \<in> set git_rule_ids \<Longrightarrow> git_verdict_ok (mk_verdict Deny i r)"
  by (simp add: git_verdict_ok_def)

lemma git_ids: 
  "''P2.git-reset-hard'' \<in> set git_rule_ids" "''P2.git-config-write'' \<in> set git_rule_ids"
  "''P2.git-checkout-restore'' \<in> set git_rule_ids" "''P2.git-branch-delete'' \<in> set git_rule_ids"
  "''P2.git-history-rewrite'' \<in> set git_rule_ids" "''P2.git-remote-add'' \<in> set git_rule_ids"
  "''P2.git-stash-clear'' \<in> set git_rule_ids" "''P2.git-ref-delete'' \<in> set git_rule_ids"
  "''P2.git-worktree-remove'' \<in> set git_rule_ids" "''P2.git-discard'' \<in> set git_rule_ids"
  "''P2.git-rm'' \<in> set git_rule_ids" "''P2.git-push-force'' \<in> set git_rule_ids"
  "''P2.git-push-delete'' \<in> set git_rule_ids" "''P2.git-push-protected'' \<in> set git_rule_ids"
  "''P2.git-unknown-global'' \<in> set git_rule_ids"
  by (simp_all add: git_rule_ids_def)

lemmas git_ok = git_ok_ask git_ok_deny git_ids

text \<open>A branch of the switch is well behaved when every verdict it returns is.\<close>

definition returns_ok :: "verdict option option \<Rightarrow> bool" where
  "returns_ok r \<longleftrightarrow> (\<forall>v. r = Some (Some v) \<longrightarrow> git_verdict_ok v)"

lemma returns_ok_if: "returns_ok x \<Longrightarrow> returns_ok y \<Longrightarrow> returns_ok (if b then x else y)"
  by simp

lemma returns_ok_None: "returns_ok None"
  by (simp add: returns_ok_def)

lemma returns_ok_ask:
  "i \<in> set git_rule_ids \<Longrightarrow> returns_ok (return_if b (ask i r))"
  "i \<in> set git_rule_ids \<Longrightarrow> returns_ok (Some (ask i r))"
  by (auto simp: returns_ok_def return_if_def git_ok_ask)

lemma returns_ok_deny: "i \<in> set git_rule_ids \<Longrightarrow> returns_ok (return_if b (deny i r))"
  by (auto simp: returns_ok_def return_if_def git_ok_deny)

lemma check_push_refspecs_ok: "check_push_refspecs args = Some v \<Longrightarrow> git_verdict_ok v"
  by (auto simp: check_push_refspecs_def Let_def git_ok split: list.splits if_splits)

lemma checkGitConfig_ok: "checkGitConfig c = Some v \<Longrightarrow> git_verdict_ok v"
  by (auto simp: checkGitConfig_def git_ok split: list.splits if_splits)

lemma returns_ok_config: "returns_ok (git_config_case u (checkGitConfig c))"
  by (auto simp: returns_ok_def git_config_case_def intro: checkGitConfig_ok
      split: option.splits if_splits)

lemma returns_ok_push: "returns_ok (git_push_case s)"
  by (auto simp: returns_ok_def git_push_case_def Let_def intro: check_push_refspecs_ok
      split: option.splits if_splits)

lemmas returns_ok_intros =
  returns_ok_if returns_ok_None returns_ok_ask returns_ok_deny returns_ok_config returns_ok_push
  git_ids

lemma git_safety_switch_ok: "returns_ok (git_safety_switch t u sub s)"
  unfolding git_safety_switch_def Let_def by (intro returns_ok_intros)

interpretation git: argv_rule checkGit "\<lambda>h. h = ''git''" "[''P1.git-push-force'', ''P1.git-clean'']"
  by unfold_locales (auto simp: checkGit_def Let_def split: if_splits)

interpretation git_safety: argv_rule "checkGitSafety targetsRepo" "\<lambda>h. h = ''git''" git_rule_ids
  for targetsRepo
proof
  fix s v
  assume v: "checkGitSafety targetsRepo s = Some v"
  then show "head (Argv s) = ''git''" by (auto simp: checkGitSafety_def split: if_splits)
  have "git_verdict_ok v"
    using v git_safety_switch_ok [of targetsRepo "gitSubcommandUnknownFlag (Argv s)"
        "gitSubcommand (Argv s)" s]
    by (auto simp: checkGitSafety_def Let_def git_ok returns_ok_def split: if_splits option.splits)
  then show "vRuleID v \<in> set git_rule_ids" "vDecision v = Ask \<or> vDecision v = Deny"
    by (simp_all add: git_verdict_ok_def)
qed

section \<open>Global options do not hide a subcommand\<close>

text \<open>A well-formed run of global options: value options with their value, and other dash words.\<close>

fun git_globals :: "string list \<Rightarrow> bool" where
  "git_globals [] = True"
| "git_globals [a] = (has_prefix a ''-'' \<and> a \<notin> set gitValueFlags)"
| "git_globals (a # b # rest) =
     (if a \<in> set gitValueFlags then git_globals rest
      else has_prefix a ''-'' \<and> git_globals (b # rest))"

lemma gitValueFlags_dash: "a \<in> set gitValueFlags \<Longrightarrow> has_prefix a ''-''"
  by (auto simp: gitValueFlags_def)

lemma git_sub_scan_globals:
  "git_globals g \<Longrightarrow> \<not> has_prefix sub ''-'' \<Longrightarrow>
   git_sub_scan i (g @ sub # args) = Some (i + length g)"
proof (induction g arbitrary: i rule: git_globals.induct)
  case (3 a b rest)
  then show ?case by (auto simp: gitValueFlags_dash simp del: git_globals.simps(1,2) split: if_splits)
qed auto

lemma gitSubcommandIndex_globals:
  assumes "git_globals g" and "\<not> has_prefix sub ''-''"
  shows "gitSubcommandIndex (git # g @ sub # args) = Some (Suc (length g))"
  using git_sub_scan_globals [OF assms, of 1 args] by (simp add: gitSubcommandIndex_def)

lemma gitSubcommand_globals:
  assumes "git_globals g" and "\<not> has_prefix sub ''-''"
  shows "gitSubcommand (git # g @ sub # args) = sub" "git_args (git # g @ sub # args) = args"
  using gitSubcommandIndex_globals [OF assms, of git args]
  by (simp_all add: gitSubcommand_def git_args_def nth_append)

section \<open>Forced pushes\<close>

definition operand :: "string \<Rightarrow> bool" where
  "operand w \<longleftrightarrow> \<not> has_prefix w ''-''"

lemma operand_not_long: "operand w \<Longrightarrow> \<not> has_prefix w ''--''"
  by (cases w) (auto simp: operand_def)

lemma push_scan_operands:
  "list_all operand ws \<Longrightarrow>
   push_scan False st (ws @ rest) = push_scan False (st\<lparr>gpOperands := gpOperands st @ ws\<rparr>) rest"
proof (induction ws arbitrary: st)
  case (Cons w ws)
  then have "\<not> has_prefix w ''-''" "\<not> has_prefix w ''--''" "w \<noteq> ''--''"
    using operand_not_long by (auto simp: operand_def)
  with Cons show ?case by simp
qed simp

lemma push_scan_force:
  assumes "f \<in> set [''-f'', ''--force'', ''--force-with-lease'']"
  shows "push_scan False st (f # rest) = push_scan False (st\<lparr>gpForce := True\<rparr>) rest \<or>
         push_scan False st (f # rest) = push_scan False (st\<lparr>gpForceWithLease := True\<rparr>) rest"
proof -
  have "resolveGitPushLongOption ''force'' = Some (gopt ''force'' NoValue True, False)"
    "resolveGitPushLongOption ''force-with-lease'' =
      Some (gopt ''force-with-lease'' OptionalValue True, False)"
    by code_simp+
  with assms show ?thesis
    by (auto simp: Let_def cut_def trim_prefix_def push_long_def gopt_def)
qed

text \<open>A push whose words are operands with one force word among them.\<close>

lemma parse_forced_push:
  assumes "git_globals g" and "f \<in> set [''-f'', ''--force'', ''--force-with-lease'']"
    and "list_all operand before" and "list_all operand after"
  shows "gpForce (parseGitPushArgs (git # g @ ''push'' # before @ f # after)) \<or>
         gpForceWithLease (parseGitPushArgs (git # g @ ''push'' # before @ f # after))"
proof -
  let ?st = "no_push_args\<lparr>gpOperands := gpOperands no_push_args @ before\<rparr>"
  have "parseGitPushArgs (git # g @ ''push'' # before @ f # after) = push_scan False ?st (f # after)"
    using gitSubcommand_globals [OF assms(1), of "''push''" git "before @ f # after"] assms(3)
    by (simp add: parseGitPushArgs_def push_scan_operands del: push_scan.simps)
  moreover have "push_scan False st after = st\<lparr>gpOperands := gpOperands st @ after\<rparr>" for st
    using push_scan_operands [OF assms(4), of st "[]"] by simp
  ultimately show ?thesis
    using push_scan_force [OF assms(2), of ?st after] by (auto simp del: push_scan.simps)
qed

text \<open>A push whose words are all operands keeps them in order.\<close>

lemma parse_plain_push:
  assumes "git_globals g" and "list_all operand ops"
  shows "parseGitPushArgs (git # g @ ''push'' # ops) = no_push_args\<lparr>gpOperands := ops\<rparr>"
  using gitSubcommand_globals [OF assms(1), of "''push''" git ops]
    push_scan_operands [OF assms(2), of no_push_args "[]"]
  by (simp add: parseGitPushArgs_def no_push_args_def)



section \<open>Unknown options and config writes\<close>

text \<open>A git invocation with an unrecognised long option before its subcommand is never silently
  allowed: one of the two git rules returns a verdict.\<close>

lemma unknown_git_global_never_silent:
  assumes "head (Argv s) = ''git''" and "2 \<le> length (Argv s)"
    and "gitSubcommandUnknownFlag (Argv s) \<noteq> ''''"
  shows "checkGit s \<noteq> None \<or> checkGitSafety targetsRepo s \<noteq> None"
proof (cases "gitSubcommand (Argv s) = ''push'' \<and>
    (gpForce (parseGitPushArgs (Argv s)) \<or> gpForceWithLease (parseGitPushArgs (Argv s)))")
  case True
  with assms show ?thesis by (auto simp: checkGit_def Let_def)
next
  case False
  let ?u = "gitSubcommandUnknownFlag (Argv s)" and ?sub = "gitSubcommand (Argv s)"
  have "git_config_case ?u c \<noteq> Some None" for c
    using assms(3) by (auto simp: git_config_case_def split: option.splits)
  moreover have "?sub = ''push'' \<Longrightarrow> git_push_case s \<noteq> Some None"
    using False by (auto simp: git_push_case_def Let_def split: option.splits)
  moreover have "return_if b (ask i r) \<noteq> Some None" "return_if b (deny i r) \<noteq> Some None" for b i r
    by (simp_all add: return_if_def)
  ultimately have "git_safety_switch targetsRepo ?u ?sub s \<noteq> Some None"
    by (simp add: git_safety_switch_def Let_def)
  with assms show ?thesis
    by (auto simp: checkGitSafety_def Let_def split: option.splits)
qed

text \<open>A git config invocation that the rule lets through is a read, or a write in the call's own
  repository, outside the worktree, global, system and file scopes, whose every key or section is
  on the approved list and none is on the protected list.\<close>

lemma checkGitConfig_silent:
  assumes "checkGitConfig p = None"
  shows "gcOperation p \<in> set config_reads \<or>
         (gcLocalRepo p \<and> gcOperation p \<noteq> ''edit'' \<and>
          gcScope p \<notin> {''global'', ''system'', ''file'', ''worktree''} \<and>
          (\<forall>x\<in>set (gcSubjects p). approvedGitConfigSubject x (gcOperation p) \<and>
             \<not> dangerousGitConfigSubject x (gcOperation p)))"
proof (cases "gcOperation p \<in> set config_reads")
  case False
  with assms have "filter (\<lambda>x. dangerousGitConfigSubject x (gcOperation p)) (gcSubjects p) = []"
    and "filter (\<lambda>x. \<not> approvedGitConfigSubject x (gcOperation p)) (gcSubjects p) = []"
    and "gcLocalRepo p" "gcOperation p \<noteq> ''edit''"
    and "gcScope p \<notin> {''global'', ''system'', ''file'', ''worktree''}"
    by (auto simp: checkGitConfig_def split: if_splits list.splits)
  then show ?thesis by (auto simp: filter_empty_conv)
qed simp

section \<open>Spellings the rules do not see\<close>

text \<open>Git accepts a unique prefix of a long option and combines \<^verbatim>\<open>-d -f\<close> into a forced branch deletion;
  the exact-match rules do not, and a mirror push sets none of the flags the push rule reads.\<close>

lemma git_reset_abbreviation_unseen:
  "checkGit (simple_of [''git'', ''reset'', ''--har'']) = None \<and>
   checkGitSafety (\<lambda>s. True) (simple_of [''git'', ''reset'', ''--har'']) = None"
  by code_simp

lemma git_branch_df_unseen:
  "checkGit (simple_of [''git'', ''branch'', ''-d'', ''-f'', ''topic'']) = None \<and>
   checkGitSafety (\<lambda>s. True) (simple_of [''git'', ''branch'', ''-d'', ''-f'', ''topic'']) = None"
  by code_simp

lemma git_push_mirror_unseen:
  "checkGit (simple_of [''git'', ''push'', ''--mirror'', ''origin'']) = None \<and>
   checkGitSafety (\<lambda>s. True) (simple_of [''git'', ''push'', ''--mirror'', ''origin'']) = None"
  by code_simp

end
