(* ===== verification/Rules_Credentialed.thy ===== *)
theory Rules_Credentialed
  imports Rules_Git
begin

text \<open>
  Commands that act with, or print, a credential: \<^verbatim>\<open>src/internal/engine/rules_credentialed.go\<close> and
  \<^verbatim>\<open>rules_credential_print.go\<close>, with \<^verbatim>\<open>consumeEnv\<close> of \<^verbatim>\<open>tokenize.go\<close>.  The verb tables are association
  lists of the source's entries.  The variable-reference regular expression is a scanner.

  The lemmas discharge the contract of a command rule, and show that an explicit context or other
  flag value is never taken for the verb, that only a local cluster context silences a cluster
  mutation, and that a credential printer is silent only when its output is contained.
\<close>

section \<open>Tables\<close>

type_synonym verb_table = "(string \<times> string list) list"

definition in_table :: "verb_table \<Rightarrow> string \<Rightarrow> string \<Rightarrow> bool" where
  "in_table t command verb \<longleftrightarrow> verb \<in> set (lookup_default [] t command)"

definition localKubeContexts :: "string list" where
  "localKubeContexts = [''kind-'', ''minikube'', ''docker-desktop'', ''k3d-'', ''rancher-desktop'']"

definition publishVerbs :: verb_table where
  "publishVerbs =
     [(''npm'', [''publish'']), (''pnpm'', [''publish'']), (''yarn'', [''publish'']),
      (''cargo'', [''publish'']), (''twine'', [''upload'']), (''gem'', [''push''])]"

definition registryPushVerbs :: verb_table where
  "registryPushVerbs =
     [(''docker'', [''push'']), (''podman'', [''push'']), (''oras'', [''push''])]"

definition clusterMutateVerbs :: verb_table where
  "clusterMutateVerbs =
     [(''kubectl'', [''delete'', ''apply'', ''scale'', ''patch'', ''replace'', ''drain'', ''rollout'',
        ''create'', ''edit'', ''cordon'', ''uncordon'', ''taint'']),
      (''helm'', [''install'', ''upgrade'', ''uninstall'', ''rollback'', ''delete''])]"

definition deployVerbs :: verb_table where
  "deployVerbs =
     [(''wrangler'', [''deploy'', ''publish'']), (''firebase'', [''deploy'']),
      (''netlify'', [''deploy'']), (''supabase'', [''db''])]"

definition cloudCLIs :: "string list" where
  "cloudCLIs = [''aws'', ''gcloud'', ''az'', ''doctl'', ''flyctl'', ''fly'']"

definition cloudReadVerbs :: "string list" where
  "cloudReadVerbs =
     [''ls'', ''list'', ''show'', ''describe'', ''get'', ''status'', ''version'', ''help'',
      ''config'', ''whoami'']"

definition infraMutateVerbs :: verb_table where
  "infraMutateVerbs =
     [(''terraform'', [''apply'', ''destroy'', ''import'', ''taint'', ''untaint'']),
      (''pulumi'', [''up'', ''destroy'', ''refresh'', ''import''])]"

definition credentialedWrappers :: "string list" where
  "credentialedWrappers = [''npx'']"

definition credentialedRunners :: verb_table where
  "credentialedRunners =
     [(''pnpm'', [''dlx'', ''exec'']), (''yarn'', [''dlx'']), (''npm'', [''exec''])]"

definition credentialedForwarders :: verb_table where
  "credentialedForwarders = [(''yarn'', [''npm''])]"

definition credentialedValueFlags :: "string list" where
  "credentialedValueFlags =
     [''--context'', ''--namespace'', ''-n'', ''--kubeconfig'', ''--cluster'', ''--user'',
      ''--profile'', ''--region'', ''-f'', ''--filename'', ''-o'', ''--output'', ''--project'',
      ''--resource-group'', ''-g'', ''--subscription'']"

section \<open>Reading the command\<close>

definition credentialedDryRun :: "argv \<Rightarrow> bool" where
  "credentialedDryRun argv =
     list_ex (\<lambda>arg. cut_name CHR ''='' arg \<in> set [''--dry-run'', ''-dry-run'', ''--dryrun'']) argv"

definition KubeContextNameIsLocal :: "string \<Rightarrow> bool" where
  "KubeContextNameIsLocal value =
     list_ex (\<lambda>p. value = trim_suffix p ''-'' \<or> has_prefix value p) localKubeContexts"

fun kubeContextIsLocal :: "argv \<Rightarrow> bool" where
  "kubeContextIsLocal [] = False"
| "kubeContextIsLocal (arg # rest) =
     (case cut CHR ''='' arg of (name, inline, found) \<Rightarrow>
        if name \<noteq> ''--context'' then kubeContextIsLocal rest
        else KubeContextNameIsLocal
               (if \<not> found \<and> rest \<noteq> [] then hd rest else inline))"

fun credentialedTarget :: "argv \<Rightarrow> argv" where
  "credentialedTarget [] = []"
| "credentialedTarget [a] = [a]"
| "credentialedTarget (a # b # rest) =
     (if head [a] \<in> set credentialedWrappers then credentialedTarget (b # rest)
      else if rest \<noteq> [] \<and> in_table credentialedRunners (head [a]) b then credentialedTarget rest
      else if in_table credentialedForwarders (head [a]) b then credentialedTarget (b # rest)
      else a # b # rest)"

fun credential_operand_scan :: "bool \<Rightarrow> string list \<Rightarrow> string list" where
  "credential_operand_scan skip [] = []"
| "credential_operand_scan skip (arg # rest) =
     (if skip then credential_operand_scan False rest
      else if has_prefix arg ''-'' then
        (case cut CHR ''='' arg of (name, _, inline) \<Rightarrow>
           credential_operand_scan (\<not> inline \<and> name \<in> set credentialedValueFlags) rest)
      else arg # credential_operand_scan False rest)"

definition credentialOperands :: "argv \<Rightarrow> string list" where
  "credentialOperands argv = credential_operand_scan False (tl argv)"

text \<open>\<^verbatim>\<open>credentialedVerb\<close> runs the same scan and returns at the first operand.\<close>

fun credential_verb_scan :: "bool \<Rightarrow> string list \<Rightarrow> string" where
  "credential_verb_scan skip [] = ''''"
| "credential_verb_scan skip (arg # rest) =
     (if skip then credential_verb_scan False rest
      else if has_prefix arg ''-'' then
        (case cut CHR ''='' arg of (name, _, inline) \<Rightarrow>
           credential_verb_scan (\<not> inline \<and> name \<in> set credentialedValueFlags) rest)
      else arg)"

definition credentialedVerb :: "argv \<Rightarrow> string" where
  "credentialedVerb argv = credential_verb_scan False (tl argv)"

definition cloudReadOperation :: "argv \<Rightarrow> bool" where
  "cloudReadOperation argv =
     list_ex (\<lambda>operand. cut_name CHR '':'' operand \<in> set cloudReadVerbs \<or>
         list_ex (has_prefix operand) [''describe-'', ''list-'', ''get-'', ''search-'', ''check-''])
       (nonFlagArgs argv)"

definition operandsStartWith :: "string list \<Rightarrow> string list \<Rightarrow> bool" where
  "operandsStartWith operands want \<longleftrightarrow>
     length want \<le> length operands \<and>
     list_all (\<lambda>(o', w). equal_fold o' w) (zip operands want)"

section \<open>Commands whose output is a credential\<close>

definition isASCIILetters :: "string \<Rightarrow> bool" where
  "isASCIILetters value \<longleftrightarrow> list_all isASCIILetterByte value \<and> value \<noteq> ''''"

definition shortFlagSet :: "argv \<Rightarrow> string \<Rightarrow> bool" where
  "shortFlagSet argv letters =
     list_ex (\<lambda>arg. length arg \<ge> 2 \<and> arg ! 0 = CHR ''-'' \<and> arg ! 1 \<noteq> CHR ''-'' \<and>
        list_ex (\<lambda>letter. letter \<in> set (tl arg) \<and> isASCIILetters (tl arg)) letters) (tl argv)"

definition awsSecretConfigKey :: "string \<Rightarrow> bool" where
  "awsSecretConfigKey key =
     list_ex (contains (to_lower key)) [''secret'', ''token'', ''access_key'', ''password'']"

definition npmAuthConfigKey :: "string \<Rightarrow> bool" where
  "npmAuthConfigKey key = list_ex (contains (to_lower key)) [''_auth'', ''token'', ''password'']"

definition git_credential_printer :: "argv \<Rightarrow> string" where
  "git_credential_printer argv =
     (case gitSubcommandIndex argv of
        None \<Rightarrow> ''''
      | Some i \<Rightarrow>
          if i + 1 \<ge> length argv then ''''
          else (let sub = to_lower (argv ! i); operand = to_lower (argv ! (i + 1))
                in if sub = ''credential'' \<and> operand = ''fill'' then ''git credential fill''
                   else if has_prefix sub ''credential-'' \<and> operand = ''get'' then
                     ''git '' @ sub @ '' get''
                   else ''''))"

definition aws_credential_printer :: "argv \<Rightarrow> string list \<Rightarrow> string" where
  "aws_credential_printer argv ops =
     (let starts = operandsStartWith ops
      in if starts [''configure'', ''get''] \<and> length ops \<ge> 3 \<and> awsSecretConfigKey (ops ! 2) then
           ''aws configure get '' @ ops ! 2
         else if starts [''configure'', ''export-credentials''] then
           ''aws configure export-credentials''
         else if list_ex (\<lambda>w. starts [''sts'', w])
                   [''get-session-token'', ''get-federation-token'', ''assume-role'',
                    ''assume-role-with-web-identity'', ''assume-role-with-saml''] then
           ''aws sts '' @ ops ! 1
         else if starts [''ecr'', ''get-login-password''] \<or>
                 starts [''ecr-public'', ''get-login-password''] \<or>
                 starts [''ecr'', ''get-authorization-token''] \<or>
                 starts [''codeartifact'', ''get-authorization-token''] then
           ''aws '' @ ops ! 0 @ '' '' @ ops ! 1
         else if starts [''secretsmanager'', ''get-secret-value''] then
           ''aws secretsmanager get-secret-value''
         else if (starts [''ssm'', ''get-parameter''] \<or> starts [''ssm'', ''get-parameters'']) \<and>
                 hasFlag argv [''--with-decryption''] then
           ''aws ssm '' @ ops ! 1 @ '' --with-decryption''
         else '''')"

definition gcloud_credential_printer :: "string list \<Rightarrow> string" where
  "gcloud_credential_printer ops =
     (let starts = operandsStartWith ops
      in if starts [''auth'', ''print-access-token''] \<or> starts [''auth'', ''print-identity-token'']
         then ''gcloud auth '' @ ops ! 1
         else if starts [''auth'', ''application-default'', ''print-access-token''] then
           ''gcloud auth application-default print-access-token''
         else if starts [''config'', ''config-helper''] then ''gcloud config config-helper''
         else if starts [''secrets'', ''versions'', ''access''] then ''gcloud secrets versions access''
         else '''')"

text \<open>The switch of \<^verbatim>\<open>credentialPrinter\<close> on the command name.\<close>

definition credential_printer_switch :: "string \<Rightarrow> argv \<Rightarrow> string list \<Rightarrow> string" where
  "credential_printer_switch command argv ops =
     (let starts = operandsStartWith ops
      in if command = ''gh'' then
           (if starts [''auth'', ''token''] then ''gh auth token''
            else if starts [''auth'', ''status''] \<and> hasFlag argv [''-t'', ''--show-token''] then
              ''gh auth status --show-token''
            else if starts [''auth'', ''git-credential'', ''get''] then ''gh auth git-credential get''
            else '''')
         else if command = ''glab'' then
           (if starts [''auth'', ''status''] \<and> hasFlag argv [''-t'', ''--show-token''] then
              ''glab auth status --show-token'' else '''')
         else if command = ''git'' then git_credential_printer argv
         else if command = ''security'' then
           (if ops \<noteq> [] \<and> (equal_fold (ops ! 0) ''find-generic-password'' \<or>
                            equal_fold (ops ! 0) ''find-internet-password'') \<and>
               shortFlagSet argv ''wg'' then ''security '' @ ops ! 0 @ '' -w''
            else if starts [''dump-keychain''] \<and> shortFlagSet argv ''d'' then
              ''security dump-keychain -d''
            else '''')
         else if command = ''secret-tool'' then
           (if starts [''lookup''] \<or> starts [''search''] then ''secret-tool '' @ ops ! 0 else '''')
         else if command = ''az'' then
           (if starts [''account'', ''get-access-token''] then ''az account get-access-token''
            else if starts [''acr'', ''login''] \<and> hasFlag argv [''--expose-token''] then
              ''az acr login --expose-token''
            else '''')
         else if command = ''aws'' then aws_credential_printer argv ops
         else if command = ''gcloud'' then gcloud_credential_printer ops
         else if command = ''kubectl'' then
           (if starts [''config'', ''view''] \<and> hasFlag argv [''--raw''] then
              ''kubectl config view --raw''
            else if starts [''create'', ''token''] then ''kubectl create token''
            else '''')
         else if command \<in> set [''npm'', ''pnpm'', ''yarn''] then
           (if starts [''config'', ''get''] \<and> length ops \<ge> 3 \<and> npmAuthConfigKey (ops ! 2) then
              command @ '' config get '' @ ops ! 2 else '''')
         else if command = ''op'' then
           (if starts [''read''] then ''op read''
            else if starts [''item'', ''get''] \<and> hasFlag argv [''--reveal''] then
              ''op item get --reveal''
            else '''')
         else if command = ''vault'' then
           (if starts [''kv'', ''get''] then ''vault kv get''
            else if starts [''read''] then ''vault read''
            else if starts [''print'', ''token''] then ''vault print token''
            else if starts [''token'', ''create''] then ''vault token create''
            else '''')
         else if command = ''heroku'' then
           (if starts [''auth:token''] then ''heroku auth:token'' else '''')
         else if command = ''fly'' \<or> command = ''flyctl'' then
           (if starts [''auth'', ''token''] then command @ '' auth token'' else '''')
         else if command = ''pass'' \<or> command = ''gopass'' then
           (if starts [''show''] then command @ '' show'' else '''')
         else if command = ''get-secret'' then
           (if hasFlag argv [''-asplaintext''] then ''Get-Secret -AsPlainText'' else '''')
         else if command = ''convertfrom-securestring'' then
           (if hasFlag argv [''-asplaintext''] then ''ConvertFrom-SecureString -AsPlainText''
            else '''')
         else '''')"

definition credentialPrinter :: "argv \<Rightarrow> string" where
  "credentialPrinter argv =
     (let command = head argv;
          ops = credentialOperands argv;
          what = credential_printer_switch command argv ops
      in if what \<noteq> '''' then what
         else if has_prefix command ''docker-credential-'' \<and> ops \<noteq> [] \<and>
                 (to_lower (ops ! 0) = ''get'' \<or> to_lower (ops ! 0) = ''list'') then
           command @ '' '' @ to_lower (ops ! 0)
         else if has_prefix command ''git-credential-'' \<and> operandsStartWith ops [''get''] then
           command @ '' get''
         else '''')"

section \<open>Mutations under a credential\<close>

definition checkCredentialedCLI :: "simple \<Rightarrow> verdict option" where
  "checkCredentialedCLI s =
     (let argv = credentialedTarget (Argv s); command = head argv; verb = credentialedVerb argv
      in if argv = [] \<or> credentialedDryRun argv then None
         else if in_table publishVerbs command verb then
           ask ''P6.publish'' (command @ '' '' @ verb @
             '' publishes a package that consumers can pull and that cannot reliably be unpublished'')
         else if in_table registryPushVerbs command verb then
           ask ''P6.publish'' (command @ '' '' @ verb @ '' publishes an image consumers pull by tag'')
         else if command = ''docker'' \<and> verb = ''buildx'' \<and> hasBareFlag argv ''--push'' then
           ask ''P6.publish'' ''docker buildx build --push publishes an image consumers pull by tag''
         else if in_table clusterMutateVerbs command verb then
           (if kubeContextIsLocal argv then None
            else ask ''P6.cluster-mutate'' (command @ '' '' @ verb @
                   '' changes cluster state, and the context is not a local cluster''))
         else if in_table infraMutateVerbs command verb then
           ask ''P6.cloud-mutate'' (command @ '' '' @ verb @
             '' changes provisioned infrastructure and is metered'')
         else if in_table deployVerbs command verb then
           ask ''P6.deploy'' (command @ '' '' @ verb @ '' puts a change in front of the public'')
         else if command = ''vercel'' then
           (if hasBareFlag argv ''--prod'' then
              ask ''P6.deploy'' ''vercel --prod deploys to production'' else None)
         else if command \<in> set cloudCLIs then
           (if credentialPrinter argv \<noteq> '''' then None
            else if verb = '''' \<or> verb \<in> set cloudReadVerbs \<or> cloudReadOperation argv then None
            else ask ''P6.cloud-mutate'' (command @ '' '' @ verb @
                   '' is not a known read operation on a metered cloud account''))
         else None)"

section \<open>Commands that print the environment\<close>

text \<open>\<^verbatim>\<open>consumeEnv\<close>: the command \<^verbatim>\<open>env\<close> runs, or \<open>None\<close> for an option it does not know.\<close>

fun consumeEnv :: "string list \<Rightarrow> string list option" where
  "consumeEnv [] = Some []"
| "consumeEnv (a # rest) =
     (if a = ''--'' then Some rest
      else if a \<in> set [''-i'', ''--ignore-environment'', ''-v'', ''--debug'', ''-0'', ''--null'']
      then consumeEnv rest
      else if a = ''-u'' \<or> a = ''--unset'' then
        (case rest of [] \<Rightarrow> None | _ # rest' \<Rightarrow> consumeEnv rest')
      else if has_prefix a ''-'' then None
      else if contains a ''='' then consumeEnv rest
      else Some (a # rest))"

definition secretVariableName :: "string \<Rightarrow> bool" where
  "secretVariableName name =
     list_ex (contains (to_upper name))
       [''TOKEN'', ''SECRET'', ''PASSWORD'', ''PASSWD'', ''API_KEY'', ''PRIVATE_KEY'', ''CREDENTIAL'']"

definition envDriveCommands :: "string list" where
  "envDriveCommands =
     [''get-childitem'', ''gci'', ''dir'', ''ls'', ''get-item'', ''gi'', ''get-content'', ''gc'',
      ''cat'', ''type'', ''get-itemproperty'', ''gp'']"

definition env_drive_arg :: "string \<Rightarrow> bool" where
  "env_drive_arg arg =
     (let value = (case cut CHR '':'' arg of (name, inline, ok) \<Rightarrow>
                     if ok \<and> has_prefix name ''-'' then inline else arg);
          name = trim (drop 4 value) [backslash, slash]
      in has_prefix (to_lower value) ''env:'' \<and>
         (name = '''' \<or> contains_any name ''*?['' \<or> secretVariableName name))"

definition environmentDump :: "argv \<Rightarrow> string" where
  "environmentDump argv =
     (let command = head argv
      in if command = ''env'' then (if consumeEnv (tl argv) = Some [] then ''env'' else '''')
         else if command = ''printenv'' then
           (let names = nonFlagArgs argv
            in if names = [] then ''printenv''
               else (case filter secretVariableName names of
                       [] \<Rightarrow> '''' | name # _ \<Rightarrow> ''printenv '' @ name))
         else if command = ''set'' then (if length argv = 1 then ''set'' else '''')
         else if command \<in> set envDriveCommands then
           (case filter env_drive_arg (tl argv) of
              [] \<Rightarrow> '''' | arg # _ \<Rightarrow> hd argv @ '' '' @ arg)
         else '''')"

section \<open>Echoing a secret variable\<close>

definition ident_start :: "char \<Rightarrow> bool" where
  "ident_start c \<longleftrightarrow> is_letter c \<or> c = CHR ''_''"

definition ident_char :: "char \<Rightarrow> bool" where
  "ident_char c \<longleftrightarrow> ident_start c \<or> is_digit c"

definition ident_at :: "string \<Rightarrow> bool" where
  "ident_at s = (case s of [] \<Rightarrow> False | c # _ \<Rightarrow> ident_start c)"

text \<open>The variable-reference pattern on the text after a dollar sign: the matched text and the
  name.\<close>

definition match_reference :: "string \<Rightarrow> (string \<times> string) option" where
  "match_reference s =
     (let brace = (if has_prefix s ''{'' then ''{'' else '''');
          t = drop (length brace) s;
          drive = (if equal_fold (take 4 t) ''env:'' \<and> ident_at (drop 4 t) then take 4 t else '''');
          u = drop (length drive) t;
          name = takeWhile ident_char u
      in if ident_at u then Some (''$'' @ brace @ drive @ name, name) else None)"

fun find_references :: "nat \<Rightarrow> string \<Rightarrow> (string \<times> string) list" where
  "find_references skip [] = []"
| "find_references skip (c # s) =
     (if skip > 0 then find_references (skip - 1) s
      else if c = CHR ''$'' then
        (case match_reference s of
           None \<Rightarrow> find_references 0 s
         | Some (m, name) \<Rightarrow> (m, name) # find_references (length m - 1) s)
      else find_references 0 s)"

definition echoCommands :: "string list" where
  "echoCommands =
     [''echo'', ''printf'', ''print'', ''write-output'', ''write'', ''write-host'',
      ''write-information'']"

definition readable_word :: "simple \<Rightarrow> nat \<Rightarrow> bool" where
  "readable_word s i \<longleftrightarrow> i \<notin> set (literalArgs s) \<and> i \<notin> set (resolvedArgs s)"

definition secret_reference :: "string \<Rightarrow> string option" where
  "secret_reference arg =
     map_option fst (find (\<lambda>r. secretVariableName (snd r)) (find_references 0 arg))"

definition secretVariableEcho :: "simple \<Rightarrow> string" where
  "secretVariableEcho s =
     (case Argv s of
        [] \<Rightarrow> ''''
      | a # args \<Rightarrow>
          if \<not> readable_word s 0 then ''''
          else if has_prefix a ''$'' \<and>
                  (case find_references 0 a of [] \<Rightarrow> False | (_, name) # _ \<Rightarrow> secretVariableName name)
          then a
          else if head (Argv s) \<notin> set echoCommands then ''''
          else (case filter (\<lambda>(i, arg). readable_word s i \<and> secret_reference arg \<noteq> None)
                       (zip [1..<length (Argv s)] args) of
                  [] \<Rightarrow> ''''
                | (_, arg) # _ \<Rightarrow> a @ '' '' @ the (secret_reference arg)))"

section \<open>The print rule\<close>

datatype exposure_kind = ExposureNone | ExposureCredential | ExposureEnvironment | ExposureVariable

definition credentialExposure :: "simple \<Rightarrow> string \<times> exposure_kind" where
  "credentialExposure s =
     (let argv = credentialedTarget (Argv s)
      in if argv = [] then ('''', ExposureNone)
         else if credentialPrinter argv \<noteq> '''' then (credentialPrinter argv, ExposureCredential)
         else if environmentDump argv \<noteq> '''' then (environmentDump argv, ExposureEnvironment)
         else if secretVariableEcho s \<noteq> '''' then (secretVariableEcho s, ExposureVariable)
         else ('''', ExposureNone))"

definition discardTarget :: "string \<Rightarrow> bool" where
  "discardTarget target \<longleftrightarrow> target = ''/dev/null'' \<or> equal_fold target ''nul''"

definition writesOutputFile :: "simple \<Rightarrow> bool" where
  "writesOutputFile s = list_ex (\<lambda>t. \<not> discardTarget t) (Redirects s)"

definition credentialPrintRule :: string where
  "credentialPrintRule = ''P4.credential-print''"

definition exposure_reason :: "string \<Rightarrow> exposure_kind \<Rightarrow> string" where
  "exposure_reason what kind =
     (case kind of
        ExposureEnvironment \<Rightarrow>
          what @ '' prints environment variables, secrets included, into the session, and everything '' @
          ''a command prints is sent to the model provider. Read the one non-secret variable you '' @
          ''need (printenv HOME), or hand a secret to the program that needs it without printing '' @
          ''it: NAME='' @ [dquote] @ ''$NAME'' @ [dquote] @ '' program.''
      | ExposureVariable \<Rightarrow>
          what @ '' prints a secret-looking variable into the session, and everything a command '' @
          ''prints is sent to the model provider. Pass it to the program that needs it as an '' @
          ''argument or environment value instead (program --token '' @ [dquote] @ ''$NAME'' @ [dquote] @
          ''), or pipe it into a --password-stdin login.''
      | _ \<Rightarrow>
          what @ '' prints a credential, and everything a command prints enters the session and is '' @
          ''sent to the model provider. Hand the value straight to the command that needs it '' @
          ''instead: NAME=$('' @ what @ '') program, program --token '' @ [dquote] @ ''$('' @ what @ '')'' @
          [dquote] @ '', or '' @ what @ '' | program --password-stdin. Not through echo, printf, cat, '' @
          ''tee, a variable of its own, a file, or a pipe into anything but a credential consumer.'')"

definition checkCredentialPrint :: "simple \<Rightarrow> verdict option" where
  "checkCredentialPrint s =
     (case credentialExposure s of (what, kind) \<Rightarrow>
        if kind = ExposureNone \<or> (stdoutFate s = StdoutContained \<and> \<not> writesOutputFile s) then None
        else ask credentialPrintRule (exposure_reason what kind))"

section \<open>The rules meet their contract\<close>

interpretation credentialed: asking_rule checkCredentialedCLI "\<lambda>h. True"
  "[''P6.publish'', ''P6.cluster-mutate'', ''P6.cloud-mutate'', ''P6.deploy'']"
  by unfold_locales (auto simp: checkCredentialedCLI_def Let_def split: if_splits)

interpretation credential_print: asking_rule checkCredentialPrint "\<lambda>h. True" "[''P4.credential-print'']"
  by unfold_locales
    (auto simp: checkCredentialPrint_def credentialPrintRule_def split: prod.splits if_splits)

section \<open>What the rules decide\<close>

lemma credential_verb_scan_operand:
  "credential_verb_scan b args =
     (case credential_operand_scan b args of [] \<Rightarrow> '''' | w # _ \<Rightarrow> w)"
  by (induction b args rule: credential_verb_scan.induct) (auto split: prod.splits)

lemma cut_no_sep: "c \<notin> set s \<Longrightarrow> cut c s = (s, [], False)"
  unfolding cut_def by (induction s) auto

lemma valueFlag_shape:
  "f \<in> set credentialedValueFlags \<Longrightarrow> has_prefix f ''-'' \<and> CHR ''='' \<notin> set f"
  by (auto simp: credentialedValueFlags_def)

text \<open>The value of an option is never mistaken for the verb: a mutating cluster verb asks whatever
  value options (each followed by its value) stand before it, unless the command is a dry run or
  names a local cluster context.\<close>

lemma cluster_mutation_asks:
  assumes "in_table clusterMutateVerbs (head [cli]) verb"
    and "list_all (\<lambda>(f, v). f \<in> set credentialedValueFlags) opts"
    and "Argv s = cli # concat (map (\<lambda>(f, v). [f, v]) opts) @ verb # rest"
    and "\<not> credentialedDryRun (Argv s)" and "\<not> kubeContextIsLocal (Argv s)"
  shows "\<exists>r. checkCredentialedCLI s = Some (mk_verdict Ask ''P6.cluster-mutate'' r)"
proof -
  let ?words = "concat (map (\<lambda>(f, v). [f, v]) opts) @ verb # rest"
  have cli: "head [cli] \<in> {''kubectl'', ''helm''}" and dash: "\<not> has_prefix verb ''-''"
    using assms(1)
    by (auto simp: in_table_def clusterMutateVerbs_def lookup_default_def split: if_splits)
  have scan: "credential_verb_scan False (concat (map (\<lambda>(f, v). [f, v]) os) @ verb # rest) = verb"
    if "list_all (\<lambda>(f, v). f \<in> set credentialedValueFlags) os" for os :: "(string \<times> string) list"
    using that
  proof (induction os)
    case (Cons o' os)
    obtain f v where o': "o' = (f, v)" by (cases o')
    with Cons.prems have f: "f \<in> set credentialedValueFlags" by simp
    then have "has_prefix f ''-''" "cut CHR ''='' f = (f, [], False)"
      using valueFlag_shape [OF f] by (simp_all add: cut_no_sep)
    with Cons o' f show ?case by simp
  qed (use dash in simp)
  have "credentialedTarget (Argv s) = Argv s"
    using cli assms(3)
    by (cases ?words) (auto simp: credentialedWrappers_def in_table_def credentialedRunners_def
        credentialedForwarders_def lookup_default_def)
  moreover have "credentialedVerb (Argv s) = verb" "head (Argv s) = head [cli]"
    using scan [OF assms(2)] by (simp_all add: credentialedVerb_def assms(3))
  moreover have "\<not> in_table publishVerbs (head [cli]) verb"
    "\<not> in_table registryPushVerbs (head [cli]) verb" "head [cli] \<noteq> ''docker''"
    using cli by (auto simp: in_table_def publishVerbs_def registryPushVerbs_def lookup_default_def)
  ultimately show ?thesis
    using assms(1,4,5) by (auto simp: checkCredentialedCLI_def Let_def ask_def assms(3))
qed

text \<open>A command whose output is a credential runs without an ask only when its standard output is
  contained and it writes no file: for every command the printer table recognises, the rule is
  silent exactly then.\<close>

lemma credential_printer_contained:
  assumes "credentialPrinter (credentialedTarget (Argv s)) \<noteq> ''''" and "Argv s \<noteq> []"
  shows "checkCredentialPrint s = None \<longleftrightarrow>
         stdoutFate s = StdoutContained \<and> (\<forall>t\<in>set (Redirects s). discardTarget t)"
proof -
  have "xs \<noteq> [] \<Longrightarrow> credentialedTarget xs \<noteq> []" for xs
    by (induction xs rule: credentialedTarget.induct) auto
  then have "credentialedTarget (Argv s) \<noteq> []" using assms(2) by blast
  then have "snd (credentialExposure s) = ExposureCredential"
    using assms(1) by (simp add: credentialExposure_def Let_def)
  then show ?thesis
    by (auto simp: checkCredentialPrint_def writesOutputFile_def list_ex_iff split: prod.splits)
qed

section \<open>Spellings the rules do not see\<close>

text \<open>The read-operation test looks at every operand, so a resource named like a read verb silences a
  mutation.\<close>

lemma cloud_mutation_hidden_by_operand:
  "checkCredentialedCLI (simple_of [''gcloud'', ''compute'', ''instances'', ''delete'', ''status'']) = None \<and>
   checkCredentialedCLI (simple_of [''gcloud'', ''compute'', ''instances'', ''delete'', ''web-1'']) \<noteq> None"
  by code_simp

end
