(* ===== verification/Rules_Install.thy ===== *)
theory Rules_Install
  imports Tool_Call
begin

text \<open>
  Rules about code that comes from elsewhere: \<^verbatim>\<open>rules_install_spellings.go\<close>, \<^verbatim>\<open>rules_go.go\<close> and the
  download and package rules of \<^verbatim>\<open>rules_net.go\<close>, under \<^verbatim>\<open>src/internal/engine\<close>.

  The Python launcher and drive-letter regular expressions are scanners.  \<^verbatim>\<open>checkGoToolchain\<close> denies on
  an arbitrary entry of a Go map; here it is the head of the list.  The lemmas discharge the
  contract of a command rule, characterise the pipeline rule, and show that no global flag of the
  go command moves a subcommand past the rules.
\<close>

section \<open>Downloads piped into an interpreter\<close>

definition fetchTools :: "string list" where
  "fetchTools =
     [''curl'', ''wget'', ''invoke-webrequest'', ''iwr'', ''invoke-restmethod'', ''irm'']"

definition interpreters :: "string list" where
  "interpreters =
     [''sh'', ''bash'', ''zsh'', ''dash'', ''python'', ''python3'', ''perl'', ''ruby'', ''node'',
      ''invoke-expression'', ''iex'', ''powershell'', ''pwsh'']"

definition netTools :: "string list" where
  "netTools =
     [''curl'', ''wget'', ''nc'', ''ncat'', ''socat'', ''scp'', ''rsync'', ''ftp'', ''telnet'',
      ''ssh'', ''sftp'', ''invoke-webrequest'', ''iwr'', ''invoke-restmethod'', ''irm'']"

definition laterPipelineStage :: "simple \<Rightarrow> simple \<Rightarrow> bool" where
  "laterPipelineStage earlier later =
     list_ex (\<lambda>l. list_ex (\<lambda>r. ppId l = ppId r \<and> ppStage l < ppStage r) (pipelines later))
       (pipelines earlier)"

fun checkDownloadPipeShell :: "simple list \<Rightarrow> verdict option" where
  "checkDownloadPipeShell [] = None"
| "checkDownloadPipeShell (fetch # rest) =
     (if head (Argv fetch) \<in> set fetchTools \<and>
         list_ex (\<lambda>i. head (Argv i) \<in> set interpreters \<and> laterPipelineStage fetch i) rest
      then deny ''P6.download-pipe-shell''
             ''downloaded content reaches an interpreter later in the same pipeline''
      else checkDownloadPipeShell rest)"

section \<open>Package installs\<close>

definition installAsk :: "string \<Rightarrow> verdict option" where
  "installAsk reason = ask ''P6.package-install'' reason"

definition pythonLauncherName :: "string \<Rightarrow> bool" where
  "pythonLauncherName h \<longleftrightarrow>
     h = ''py'' \<or>
     (has_prefix h ''python'' \<and> list_all (\<lambda>c. is_digit c \<or> c = CHR ''.'') (drop 6 h))"

definition pipModuleArgv :: "argv \<Rightarrow> argv" where
  "pipModuleArgv argv =
     (if length argv \<ge> 3 \<and> pythonLauncherName (head argv) \<and> argv ! 1 = ''-m'' \<and>
         (argv ! 2 = ''pip'' \<or> argv ! 2 = ''pip3'')
      then ''pip'' # drop 3 argv else argv)"

definition windowsDriveSpec :: "string \<Rightarrow> bool" where
  "windowsDriveSpec spec \<longleftrightarrow>
     length spec \<ge> 3 \<and> is_letter (spec ! 0) \<and> spec ! 1 = CHR '':'' \<and>
     (spec ! 2 = backslash \<or> spec ! 2 = slash)"

definition isLocalPackageSpec :: "string \<Rightarrow> bool" where
  "isLocalPackageSpec spec \<longleftrightarrow>
     spec = ''.'' \<or> spec = ''..'' \<or> has_prefix spec ''./'' \<or> has_prefix spec ''../'' \<or>
     has_prefix spec [CHR ''.'', backslash] \<or> has_prefix spec [CHR ''.'', CHR ''.'', backslash] \<or>
     has_prefix spec ''/'' \<or> has_prefix spec ''~/'' \<or> has_prefix spec ''file:'' \<or>
     windowsDriveSpec spec"

definition launcherFlagsAreInert :: "string list" where
  "launcherFlagsAreInert = [''-y'', ''--yes'', ''-q'', ''--quiet'', ''--silent'']"

definition launcherVerdict :: "argv \<Rightarrow> string \<Rightarrow> string list \<Rightarrow> verdict option" where
  "launcherVerdict argv name operands =
     (let remote = installAsk (name @
            '' downloads and runs a package from a registry unless it is already local; use '' @
            ''--no-install or a local path'')
      in if list_ex (\<lambda>a. a = ''--no-install'' \<or> a = ''--no'') (tl argv) then None
         else (case operands of
                 [] \<Rightarrow>
                   if hasAnyFlag argv ''p'' [''--package'', ''--from'', ''--with''] then remote else None
               | spec # _ \<Rightarrow>
                   if isLocalPackageSpec spec then
                     (if list_ex (\<lambda>a. has_prefix a ''-'' \<and> a \<notin> set launcherFlagsAreInert) (tl argv)
                      then remote else None)
                   else remote))"

definition scriptsRun :: string where
  "scriptsRun = '' '' @ em_dash @ '' runs install scripts with your privileges''"

definition checkInstallSpellings :: "simple \<Rightarrow> verdict option" where
  "checkInstallSpellings s =
     (let argv = Argv s;
          command = head argv;
          operands = nonFlagArgs argv;
          verb = (case operands of [] \<Rightarrow> '''' | v # _ \<Rightarrow> v);
          next = (case operands of _ # n # _ \<Rightarrow> n | _ \<Rightarrow> '''')
      in if command = ''pipx'' then
           (if verb \<in> set [''install'', ''inject'', ''upgrade'', ''upgrade-all'', ''reinstall'',
                           ''reinstall-all'', ''install-all''] then
              installAsk (''new Python tool'' @ scriptsRun)
            else if verb = ''run'' then installAsk ''pipx run downloads and executes remote code''
            else None)
         else if command = ''uv'' then
           (if verb = ''sync'' \<or> verb = ''add'' then
              installAsk (''uv '' @ verb @ '' installs Python dependencies'' @ scriptsRun)
            else if verb = ''pip'' \<and> (next = ''install'' \<or> next = ''sync'') then
              installAsk (''uv pip '' @ next @ '' installs Python dependencies'' @ scriptsRun)
            else if verb = ''tool'' \<and> next \<in> set [''install'', ''upgrade'', ''run''] then
              installAsk (''uv tool '' @ next @ '' installs or runs a remote Python tool'')
            else None)
         else if command = ''poetry'' then
           (if verb \<in> set [''install'', ''add'', ''update'', ''sync''] then
              installAsk (''poetry '' @ verb @ '' installs Python dependencies'' @ scriptsRun)
            else None)
         else if command = ''yarn'' then
           (if operands = [] \<and> \<not> hasAnyFlag argv ''vh'' [''--version'', ''--help''] then
              installAsk (''bare yarn installs the JS dependencies '' @ em_dash @
                          '' runs postinstall scripts with your privileges'')
            else if verb = ''dlx'' then launcherVerdict argv ''yarn dlx'' (drop 1 operands)
            else None)
         else if command = ''pnpm'' then
           (if verb = ''dlx'' then launcherVerdict argv ''pnpm dlx'' (drop 1 operands) else None)
         else if command = ''npm'' then
           (if verb = ''exec'' \<or> verb = ''x'' then
              launcherVerdict argv (''npm '' @ verb) (drop 1 operands) else None)
         else if command = ''bun'' then
           (if verb = ''x'' then launcherVerdict argv ''bun x'' (drop 1 operands) else None)
         else if command \<in> set [''npx'', ''bunx'', ''uvx''] then launcherVerdict argv command operands
         else if command = ''graft'' then
           (if verb = ''init'' then
              installAsk
                ''graft init writes agent instruction files, MCP config and hooks into the repo''
            else if verb = ''uninstall'' then
              installAsk ''graft uninstall removes agent configuration and hooks from the repo''
            else if verb = ''upgrade'' then
              installAsk ''graft upgrade installs a new graft release from a registry''
            else if verb = ''build'' \<and> hasBareFlag argv ''--deep'' then
              installAsk ''graft build --deep sends code to an LLM provider using an API key''
            else None)
         else None)"

text \<open>The original spellings; \<^verbatim>\<open>checkPackageInstall\<close> falls through to the rest.\<close>

definition package_switch :: "simple \<Rightarrow> verdict option" where
  "package_switch s =
     (let argv = Argv s;
          command = head argv;
          installs = length argv > 1 \<and> argv ! 1 = ''install''
      in if command \<in> set [''npm'', ''yarn'', ''pnpm'', ''bun''] \<and>
            list_ex (\<lambda>a. a \<in> set [''install'', ''i'', ''ci'', ''add'']) (nonFlagArgs argv) then
           installAsk (''new JS dependency '' @ em_dash @
                       '' runs postinstall scripts with your privileges'')
         else if command = ''gem'' \<and> installs then installAsk ''new Ruby gem install''
         else if command = ''cargo'' \<and> installs then installAsk ''new Rust crate install''
         else if command \<in> set [''apt'', ''apt-get'', ''brew''] \<and> installs then
           installAsk ''new system package install''
         else checkInstallSpellings s)"

definition checkPackageInstall :: "simple \<Rightarrow> verdict option" where
  "checkPackageInstall s0 =
     (let s = s0\<lparr>Argv := pipModuleArgv (Argv s0)\<rparr>;
          command = head (Argv s);
          joined = join '' '' (Argv s)
      in if (command = ''pip'' \<or> command = ''pip3'') \<and> contains joined ''install'' then
           (if hasAnyFlag (Argv s) '''' [''--index-url'', ''--extra-index-url''] \<or>
               contains joined ''git+http'' then
              deny ''P6.registry-redirect''
                ''pip install bypassing the normal index/lockfile review path''
            else installAsk (''new Python dependency'' @ scriptsRun))
         else if command = ''npm'' \<and> hasAnyFlag (Argv s) '''' [''--registry''] then
           deny ''P6.registry-redirect'' ''npm install with a redirected registry''
         else package_switch s)"

section \<open>The go toolchain\<close>

definition goRedirectEnvironment :: "string list" where
  "goRedirectEnvironment =
     [''GOPROXY'', ''GOFLAGS'', ''GONOSUMDB'', ''GONOSUMCHECK'', ''GOSUMDB'', ''GOINSECURE'',
      ''GOPRIVATE'']"

fun go_global_scan :: "string list \<Rightarrow> (string \<times> string list) option" where
  "go_global_scan [] = None"
| "go_global_scan (arg # rest) =
     (if arg = ''-C'' \<or> arg = ''--C'' then
        (case rest of [] \<Rightarrow> None | _ # rest' \<Rightarrow> go_global_scan rest')
      else if has_prefix arg ''-C='' \<or> has_prefix arg ''--C='' then go_global_scan rest
      else Some (arg, rest))"

definition goSubcommand :: "argv \<Rightarrow> (string \<times> string list) option" where
  "goSubcommand argv = go_global_scan (tl argv)"

definition go_generate_ask :: "verdict option" where
  "go_generate_ask =
     ask ''P1.go-generate''
       (''go generate runs the command in every //go:generate directive, which this hook never '' @
        ''sees; run go generate -n to list them first'')"

fun checkGoGenerate :: "string list \<Rightarrow> verdict option" where
  "checkGoGenerate [] = go_generate_ask"
| "checkGoGenerate (arg # rest) =
     (if arg = ''-n'' \<or> arg = ''--n'' then None
      else if arg = ''--'' then checkGoGenerate []
      else checkGoGenerate rest)"

definition goBuiltinTools :: "string list" where
  "goBuiltinTools =
     [''addr2line'', ''asm'', ''buildid'', ''cgo'', ''compile'', ''covdata'', ''cover'', ''dist'',
      ''distpack'', ''doc'', ''fix'', ''link'', ''nm'', ''objdump'', ''pack'', ''pprof'',
      ''preprofile'', ''test2json'', ''trace'', ''vet'']"

definition go_tool_reason :: "string \<Rightarrow> string" where
  "go_tool_reason arg = ''go tool '' @ arg @
     '' runs a tool declared in go.mod: third-party module code fetched, built and '' @
     ''executed in one step''"

definition go_dry_run :: "string \<Rightarrow> bool" where
  "go_dry_run arg \<longleftrightarrow> arg = ''-n'' \<or> arg = ''--n''"

definition go_modfile :: "string \<Rightarrow> bool" where
  "go_modfile arg \<longleftrightarrow> arg = ''-modfile'' \<or> arg = ''--modfile''"

fun checkGoTool :: "string list \<Rightarrow> verdict option" where
  "checkGoTool [] = None"
| "checkGoTool (arg # rest) =
     (if go_dry_run arg then None
      else if go_modfile arg then checkGoTool (drop 1 rest)
      else if has_prefix arg ''-'' then checkGoTool rest
      else if trim_suffix (to_lower arg) ''.exe'' \<in> set goBuiltinTools then None
      else installAsk (go_tool_reason arg))"

definition goRemotePackagePath :: "string \<Rightarrow> bool" where
  "goRemotePackagePath target =
     (if target = '''' then False
      else if has_prefix target ''.'' \<or> has_prefix target ''/'' \<or> has_prefix target [backslash]
      then False
      else if contains target ''@'' then True
      else contains (cut_name slash target) ''.'')"

definition checkGoInstall :: "string list \<Rightarrow> verdict option" where
  "checkGoInstall rest =
     (case filter (\<lambda>a. \<not> has_prefix a ''-'' \<and> goRemotePackagePath a) rest of
        arg # _ \<Rightarrow> installAsk (''go install '' @ arg @ '' fetches, builds and installs a module'')
      | [] \<Rightarrow>
          ask ''P1.out-of-repo-write''
            (''go install writes an executable into GOBIN, on PATH and outside the repository; '' @
             ''use go build -o <path in the repo> to build in place''))"

fun goEnvWriteAssignment :: "bool \<Rightarrow> string list \<Rightarrow> string option" where
  "goEnvWriteAssignment write [] = None"
| "goEnvWriteAssignment write (arg # rest) =
     (if arg = ''-w'' \<or> arg = ''--w'' then goEnvWriteAssignment True rest
      else if write \<and>
              (case cut CHR ''='' arg of (name, _, found) \<Rightarrow>
                 found \<and> to_upper name \<in> set goRedirectEnvironment)
      then Some arg
      else goEnvWriteAssignment write rest)"

definition checkGoMod :: "string list \<Rightarrow> verdict option" where
  "checkGoMod rest =
     (case rest of
        [] \<Rightarrow> None
      | verb # args \<Rightarrow>
          if verb = ''download'' then installAsk ''go mod download fetches modules from the network''
          else if verb = ''edit'' then
            (if list_ex (\<lambda>a. cut_name CHR ''='' a \<in> set [''-replace'', ''--replace'']) args then
               deny ''P6.registry-redirect'' ''go mod edit -replace points a module at an arbitrary path''
             else ask ''P5.ci-infra-lockfile'' ''go mod edit writes go.mod'')
          else None)"

definition goRemotePackage :: "string list \<Rightarrow> string option" where
  "goRemotePackage rest =
     (case filter (\<lambda>a. \<not> has_prefix a ''-'') rest of
        [] \<Rightarrow> None
      | arg # _ \<Rightarrow> if goRemotePackagePath arg then Some arg else None)"

definition toolexecFlags :: "string list" where
  "toolexecFlags = [''-toolexec'', ''--toolexec'', ''-vettool'', ''--vettool'']"

definition go_subcommand_switch :: "string \<Rightarrow> string list \<Rightarrow> verdict option" where
  "go_subcommand_switch subcommand rest =
     (if subcommand = ''env'' then
        (case goEnvWriteAssignment False rest of
           Some assignment \<Rightarrow>
             deny ''P6.registry-redirect''
               (''go env -w '' @ assignment @ '' repoints or weakens the Go module fetcher'')
         | None \<Rightarrow> None)
      else if subcommand = ''run'' then
        (case goRemotePackage rest of
           Some target \<Rightarrow>
             installAsk (''go run '' @ target @ '' fetches and executes a module in one step'')
         | None \<Rightarrow> None)
      else if subcommand = ''mod'' then checkGoMod rest
      else if subcommand = ''generate'' then checkGoGenerate rest
      else if subcommand = ''tool'' then checkGoTool rest
      else if subcommand = ''install'' then checkGoInstall rest
      else if subcommand = ''get'' then
        installAsk ''go get changes go.mod requirements and downloads modules from the network''
      else None)"

definition checkGoToolchain :: "simple \<Rightarrow> verdict option" where
  "checkGoToolchain s =
     (let command = head (Argv s)
      in if command \<noteq> ''go'' \<and> command \<noteq> ''gofmt'' then None
         else (case goEnvironment s of
                 (name, _) # _ \<Rightarrow>
                   deny ''P6.registry-redirect''
                     (''inline '' @ name @ '' repoints or weakens the Go module fetcher'')
               | [] \<Rightarrow>
                   if command = ''gofmt'' then None
                   else (case goSubcommand (Argv s) of
                           None \<Rightarrow> None
                         | Some (subcommand, rest) \<Rightarrow>
                             (case filter (\<lambda>a. cut_name CHR ''='' a \<in> set toolexecFlags) rest of
                                arg # _ \<Rightarrow>
                                  ask ''P1.toolexec''
                                    (''go '' @ subcommand @ '' '' @ cut_name CHR ''='' arg @
                                     '' runs an arbitrary program for every compile step'')
                              | [] \<Rightarrow> go_subcommand_switch subcommand rest))))"

section \<open>The rules meet their contract\<close>

definition install_ok :: "verdict option \<Rightarrow> bool" where
  "install_ok r \<longleftrightarrow>
     (\<forall>v. r = Some v \<longrightarrow>
        vRuleID v \<in> set [''P6.registry-redirect'', ''P6.package-install'', ''P1.toolexec'',
          ''P1.go-generate'', ''P1.out-of-repo-write'', ''P5.ci-infra-lockfile''] \<and>
        (vDecision v = Ask \<or> vDecision v = Deny))"

lemma install_ok_basic:
  "install_ok None" "install_ok (installAsk r)"
  "install_ok x \<Longrightarrow> install_ok y \<Longrightarrow> install_ok (if b then x else y)"
  by (auto simp: install_ok_def installAsk_def)

lemma install_ok_deny: "install_ok (deny ''P6.registry-redirect'' r)"
  by (simp add: install_ok_def)

lemma install_ok_asks:
  "install_ok (ask ''P1.toolexec'' r)" "install_ok (ask ''P1.go-generate'' r)"
  "install_ok (ask ''P1.out-of-repo-write'' r)" "install_ok (ask ''P5.ci-infra-lockfile'' r)"
  by (simp_all add: install_ok_def)

lemmas install_oks = install_ok_basic install_ok_deny install_ok_asks

lemma launcherVerdict_ok: "install_ok (launcherVerdict argv name ops)"
  unfolding launcherVerdict_def Let_def by (cases ops) (auto intro!: install_oks)

lemma checkInstallSpellings_ok: "install_ok (checkInstallSpellings s)"
  unfolding checkInstallSpellings_def Let_def by (intro install_oks launcherVerdict_ok)

lemma checkPackageInstall_ok: "install_ok (checkPackageInstall s)"
  unfolding checkPackageInstall_def package_switch_def Let_def
  by (intro install_oks checkInstallSpellings_ok)

lemma checkGoGenerate_ok: "install_ok (checkGoGenerate rest)"
  by (induction rest) (auto simp: go_generate_ask_def intro!: install_oks)

lemma checkGoTool_ok: "install_ok (checkGoTool rest)"
  by (induction rest rule: checkGoTool.induct) (auto intro!: install_oks)

lemma go_subcommand_switch_ok: "install_ok (go_subcommand_switch sub rest)"
  unfolding go_subcommand_switch_def checkGoMod_def checkGoInstall_def
  by (intro install_oks checkGoGenerate_ok checkGoTool_ok)
    (auto intro!: install_oks split: option.splits list.splits)

lemma checkGoToolchain_ok: "install_ok (checkGoToolchain s)"
  unfolding checkGoToolchain_def Let_def
  by (auto intro!: install_oks go_subcommand_switch_ok split: option.splits list.splits prod.splits)

interpretation package_install: argv_rule checkPackageInstall "\<lambda>h. True"
  "[''P6.registry-redirect'', ''P6.package-install'', ''P1.toolexec'', ''P1.go-generate'',
    ''P1.out-of-repo-write'', ''P5.ci-infra-lockfile'']"
  using checkPackageInstall_ok by unfold_locales (auto simp: install_ok_def)

interpretation go_toolchain: argv_rule checkGoToolchain "\<lambda>h. h = ''go'' \<or> h = ''gofmt''"
  "[''P6.registry-redirect'', ''P6.package-install'', ''P1.toolexec'', ''P1.go-generate'',
    ''P1.out-of-repo-write'', ''P5.ci-infra-lockfile'']"
proof
  fix s v
  assume v: "checkGoToolchain s = Some v"
  then show "head (Argv s) = ''go'' \<or> head (Argv s) = ''gofmt''"
    by (auto simp: checkGoToolchain_def Let_def split: if_splits)
  show "vRuleID v \<in> set [''P6.registry-redirect'', ''P6.package-install'', ''P1.toolexec'',
      ''P1.go-generate'', ''P1.out-of-repo-write'', ''P5.ci-infra-lockfile'']"
    "vDecision v = Ask \<or> vDecision v = Deny"
    using v checkGoToolchain_ok [of s] unfolding install_ok_def by blast+
qed

section \<open>What the rules decide\<close>

lemma checkDownloadPipeShell_iff:
  "checkDownloadPipeShell ss \<noteq> None \<longleftrightarrow>
   (\<exists>xs f ys i. ss = xs @ f # ys \<and> i \<in> set ys \<and> head (Argv f) \<in> set fetchTools \<and>
      head (Argv i) \<in> set interpreters \<and> laterPipelineStage f i)"
proof (induction ss)
  case (Cons f rest)
  let ?hit = "head (Argv f) \<in> set fetchTools \<and>
     list_ex (\<lambda>i. head (Argv i) \<in> set interpreters \<and> laterPipelineStage f i) rest"
  show ?case
  proof (cases ?hit)
    case True
    then have "checkDownloadPipeShell (f # rest) \<noteq> None" by simp
    moreover have "\<exists>xs g ys i. f # rest = xs @ g # ys \<and> i \<in> set ys \<and>
        head (Argv g) \<in> set fetchTools \<and> head (Argv i) \<in> set interpreters \<and> laterPipelineStage g i"
      using True by (intro exI [of _ "[]"]) (auto simp: list_ex_iff)
    ultimately show ?thesis by blast
  next
    case False
    then have eq: "checkDownloadPipeShell (f # rest) = checkDownloadPipeShell rest" by auto
    have none: "\<not> (i \<in> set rest \<and> head (Argv f) \<in> set fetchTools \<and> head (Argv i) \<in> set interpreters \<and>
        laterPipelineStage f i)" for i
      using False by (auto simp: list_ex_iff)
    show ?thesis
      unfolding eq Cons.IH
    proof
      assume "\<exists>xs g ys i. rest = xs @ g # ys \<and> i \<in> set ys \<and> head (Argv g) \<in> set fetchTools \<and>
        head (Argv i) \<in> set interpreters \<and> laterPipelineStage g i"
      then show "\<exists>xs g ys i. f # rest = xs @ g # ys \<and> i \<in> set ys \<and> head (Argv g) \<in> set fetchTools \<and>
        head (Argv i) \<in> set interpreters \<and> laterPipelineStage g i"
        by (metis append_Cons)
    next
      assume "\<exists>xs g ys i. f # rest = xs @ g # ys \<and> i \<in> set ys \<and> head (Argv g) \<in> set fetchTools \<and>
        head (Argv i) \<in> set interpreters \<and> laterPipelineStage g i"
      then show "\<exists>xs g ys i. rest = xs @ g # ys \<and> i \<in> set ys \<and> head (Argv g) \<in> set fetchTools \<and>
        head (Argv i) \<in> set interpreters \<and> laterPipelineStage g i"
        using none by (auto simp: Cons_eq_append_conv)
    qed
  qed
qed simp

lemma checkDownloadPipeShell_deny:
  "checkDownloadPipeShell ss = Some v \<Longrightarrow> vDecision v = Deny \<and> vRuleID v = ''P6.download-pipe-shell''"
  by (induction ss) (auto split: if_splits)


fun go_dir_flags :: "(bool \<times> string) list \<Rightarrow> string list" where
  "go_dir_flags [] = []"
| "go_dir_flags ((attached, d) # ds) =
     (if attached then [''-C='' @ d] else [''-C'', d]) @ go_dir_flags ds"

lemma go_global_scan_dirs:
  "sub \<noteq> ''-C'' \<Longrightarrow> sub \<noteq> ''--C'' \<Longrightarrow> \<not> has_prefix sub ''-C='' \<Longrightarrow> \<not> has_prefix sub ''--C='' \<Longrightarrow>
   go_global_scan (go_dir_flags ds @ sub # rest) = Some (sub, rest)"
  by (induction ds rule: go_dir_flags.induct) auto

text \<open>No directory flag moves a go subcommand past the rules: behind any number of \<^verbatim>\<open>-C\<close> flags, in
  their separate or attached spelling, running a remote package as the first operand asks.\<close>

lemma go_run_remote_asks:
  assumes "head [go] = ''go''" and "goEnvironment s = []" and "goRemotePackagePath pkg"
    and "Argv s = go # go_dir_flags ds @ ''run'' # pkg # args"
    and "\<forall>a\<in>set (pkg # args). cut_name CHR ''='' a \<notin> set toolexecFlags" and "\<not> has_prefix pkg ''-''"
  shows "\<exists>r. checkGoToolchain s = Some (mk_verdict Ask ''P6.package-install'' r)"
proof -
  have "goSubcommand (Argv s) = Some (''run'', pkg # args)"
    by (simp add: goSubcommand_def assms(4) go_global_scan_dirs)
  moreover have "filter (\<lambda>a. cut_name CHR ''='' a \<in> set toolexecFlags) (pkg # args) = []"
    using assms(5) by (auto simp: filter_empty_conv)
  moreover have "head (Argv s) = ''go''" using assms(1) by (simp add: assms(4))
  moreover have "goRemotePackage (pkg # args) = Some pkg"
    using assms(3,6) by (simp add: goRemotePackage_def)
  ultimately show ?thesis
    using assms(2)
    by (auto simp: checkGoToolchain_def Let_def go_subcommand_switch_def installAsk_def ask_def)
qed

section \<open>Spellings the rules do not see\<close>

text \<open>A flag with a separate value before the package makes the value look like the package; a local
  file name contains a dot and looks like a domain.\<close>

lemma go_run_flag_value_unseen:
  "checkGoToolchain (simple_of [''go'', ''run'', ''-tags'', ''x'', ''example.com/evil@latest'']) = None"
  by code_simp

lemma go_run_local_file_asks:
  "checkGoToolchain (simple_of [''go'', ''run'', ''main.go'']) \<noteq> None"
  by code_simp

end
