(* ===== verification/Rules_Docker.thy ===== *)
theory Rules_Docker
  imports Tool_Call
begin

text \<open>
  Container and disk rules of \<^verbatim>\<open>src/internal/engine/rules_bash.go\<close>: the strict option parser for docker,
  podman, nerdctl and docker-compose, the docker rule and the disk destroyers.

  Where the source returns an index into the argument vector, the parser returns the words from that
  index on; the option values it collects are an association list.  An error is \<open>Inl ()\<close>: the caller
  only tests for it.  The lemmas show that the parser only ever consumes words, that any option it
  does not know stops it, and that behind any options it knows a stack teardown or prune is denied.
\<close>

section \<open>Option tables\<close>

record docker_option_spec =
  dosFlags :: "string list"
  dosValues :: "string list"

definition dockerGlobalOptionSpecs :: "(string \<times> docker_option_spec) list" where
  "dockerGlobalOptionSpecs =
     [(''docker'',
        \<lparr>dosFlags = [''-D'', ''--debug'', ''--help'', ''--tls'', ''--tlsverify'', ''-v'', ''--version''],
         dosValues = [''--config'', ''-c'', ''--context'', ''-H'', ''--host'', ''-l'', ''--log-level'',
           ''--tlscacert'', ''--tlscert'', ''--tlskey'']\<rparr>),
      (''podman'',
        \<lparr>dosFlags = [''--help'', ''--remote'', ''--syslog'', ''--transient-store'', ''-v'', ''--version''],
         dosValues = [''--cgroup-manager'', ''-c'', ''--connection'', ''--conmon'', ''--events-backend'',
           ''--hooks-dir'', ''--identity'', ''--log-level'', ''--module'', ''--network-cmd-path'',
           ''--out'', ''--root'', ''--runroot'', ''--runtime'', ''--runtime-flag'', ''--ssh'',
           ''--storage-driver'', ''--storage-opt'', ''--tmpdir'', ''--url'']\<rparr>),
      (''nerdctl'',
        \<lparr>dosFlags = [''--bridge-nftables'', ''--debug'', ''--debug-full'', ''--experimental'', ''--help'',
           ''--insecure-registry'', ''-v'', ''--version''],
         dosValues = [''-a'', ''--address'', ''--cgroup-manager'', ''--cni-netconfpath'', ''--data-root'',
           ''--host-gateway-ip'', ''--hosts-dir'', ''--log-level'', ''-n'', ''--namespace'',
           ''--snapshotter'']\<rparr>)]"

definition dockerComposeOptionSpec :: docker_option_spec where
  "dockerComposeOptionSpec =
     \<lparr>dosFlags = [''--all-resources'', ''--compatibility'', ''--dry-run'', ''--help'', ''--no-ansi'',
        ''--skip-hostname-check'', ''--tls'', ''--tlsverify'', ''--verbose'', ''-v'', ''--version''],
      dosValues = [''--ansi'', ''--env-file'', ''-f'', ''--file'', ''-H'', ''--host'', ''--log-level'',
        ''--parallel'', ''--profile'', ''--progress'', ''--project-directory'', ''-p'',
        ''--project-name'', ''--tlscacert'', ''--tlscert'', ''--tlskey'']\<rparr>"

definition dockerGroupOptionSpec :: docker_option_spec where
  "dockerGroupOptionSpec = \<lparr>dosFlags = [''--help''], dosValues = []\<rparr>"

definition dockerRunOptionSpec :: docker_option_spec where
  "dockerRunOptionSpec =
     \<lparr>dosFlags = [''-d'', ''--detach'', ''--disable-content-trust'', ''--help'', ''--init'', ''-i'',
        ''--interactive'', ''--oom-kill-disable'', ''-P'', ''--privileged'', ''--publish-all'',
        ''--read-only'', ''--rm'', ''--sig-proxy'', ''-t'', ''--tty'', ''--use-api-socket''],
      dosValues = [''--add-host'', ''--annotation'', ''-a'', ''--attach'', ''--blkio-weight'',
        ''--blkio-weight-device'', ''--cap-add'', ''--cap-drop'', ''--cgroup-parent'', ''--cgroupns'',
        ''--cidfile'', ''-c'', ''--cpu-period'', ''--cpu-quota'', ''--cpu-rt-period'',
        ''--cpu-rt-runtime'', ''--cpu-shares'', ''--cpus'', ''--cpuset-cpus'', ''--cpuset-mems'',
        ''--device'', ''--device-cgroup-rule'', ''--device-read-bps'', ''--device-read-iops'',
        ''--detach-keys'', ''--device-write-bps'', ''--device-write-iops'', ''--dns'',
        ''--dns-option'', ''--dns-search'', ''--domainname'', ''--entrypoint'', ''-e'', ''--env'',
        ''--env-file'', ''--expose'', ''--gpus'', ''--group-add'', ''--health-cmd'',
        ''--health-interval'', ''--health-retries'', ''--health-start-interval'',
        ''--health-start-period'', ''--health-timeout'', ''-h'', ''--hostname'', ''--ip'', ''--ip6'',
        ''--ipc'', ''--isolation'', ''--kernel-memory'', ''-l'', ''--label'', ''--label-file'',
        ''--link'', ''--link-local-ip'', ''--log-driver'', ''--log-opt'', ''--mac-address'', ''-m'',
        ''--memory'', ''--memory-reservation'', ''--memory-swap'', ''--memory-swappiness'',
        ''--mount'', ''--name'', ''--network'', ''--network-alias'', ''--oom-score-adj'', ''--pid'',
        ''--pids-limit'', ''--platform'', ''-p'', ''--publish'', ''--pull'', ''--restart'',
        ''--runtime'', ''--security-opt'', ''--shm-size'', ''--stop-signal'', ''--stop-timeout'',
        ''--storage-opt'', ''--sysctl'', ''--tmpfs'', ''--ulimit'', ''-u'', ''--user'', ''--uts'',
        ''-v'', ''--volume'', ''--volume-driver'', ''--volumes-from'', ''-w'', ''--workdir'']\<rparr>"

definition dockerExecOptionSpec :: docker_option_spec where
  "dockerExecOptionSpec =
     \<lparr>dosFlags = [''-d'', ''--detach'', ''--help'', ''-i'', ''--interactive'', ''--privileged'', ''-t'',
        ''--tty''],
      dosValues = [''--detach-keys'', ''-e'', ''--env'', ''--env-file'', ''--preserve-fd'',
        ''--preserve-fds'', ''-u'', ''--user'', ''-w'', ''--workdir'']\<rparr>"

definition dockerSubcommandGroups :: "string list" where
  "dockerSubcommandGroups =
     [''builder'', ''container'', ''image'', ''network'', ''system'', ''volume'']"

section \<open>The option parser\<close>

definition parse_bool :: "string \<Rightarrow> bool option" where
  "parse_bool s =
     (if s \<in> set [''1'', ''t'', ''T'', ''TRUE'', ''true'', ''True''] then Some True
      else if s \<in> set [''0'', ''f'', ''F'', ''FALSE'', ''false'', ''False''] then Some False
      else None)"

type_synonym option_values = "(string \<times> string) list"

type_synonym option_result = "unit + string list \<times> option_values"

text \<open>One cluster of short options, with the words after it.\<close>

fun docker_short ::
  "docker_option_spec \<Rightarrow> option_values \<Rightarrow> string list \<Rightarrow> string \<Rightarrow> option_result" where
  "docker_short spec vals rest [] = Inr (rest, vals)"
| "docker_short spec vals rest (c # cs) =
     (let opt = [CHR ''-'', c]
      in if opt \<in> set (dosValues spec) then
           (if cs \<noteq> [] then Inr (rest, upd_assoc opt cs vals)
            else (case rest of
                    [] \<Rightarrow> Inl ()
                  | v # rest' \<Rightarrow> Inr (rest', upd_assoc opt v vals)))
         else if opt \<in> set (dosFlags spec) then
           (case cs of
              d # ds \<Rightarrow>
                if d = CHR ''='' then
                  (if parse_bool ds = None then Inl () else Inr (rest, vals))
                else docker_short spec vals rest cs
            | [] \<Rightarrow> Inr (rest, vals))
         else Inl ())"

definition docker_long ::
  "docker_option_spec \<Rightarrow> option_values \<Rightarrow> string list \<Rightarrow> string \<Rightarrow> option_result" where
  "docker_long spec vals rest arg =
     (case cut CHR ''='' arg of (base, value, attached) \<Rightarrow>
        if base \<in> set (dosValues spec) then
          (if attached then Inr (rest, upd_assoc base value vals)
           else (case rest of
                   [] \<Rightarrow> Inl ()
                 | v # rest' \<Rightarrow> Inr (rest', upd_assoc base v vals)))
        else if base \<in> set (dosFlags spec) then
          (if attached \<and> parse_bool value = None then Inl () else Inr (rest, vals))
        else Inl ())"

lemma docker_short_shorter:
  "docker_short spec vals rest cs = Inr (rest', vals') \<Longrightarrow> length rest' \<le> length rest"
  by (induction spec vals rest cs rule: docker_short.induct)
    (auto simp: Let_def split: if_splits list.splits)

lemma docker_long_shorter:
  "docker_long spec vals rest arg = Inr (rest', vals') \<Longrightarrow> length rest' \<le> length rest"
  by (auto simp: docker_long_def split: if_splits list.splits prod.splits)

function parseDockerOptions ::
  "docker_option_spec \<Rightarrow> option_values \<Rightarrow> string list \<Rightarrow> option_result" where
  "parseDockerOptions spec vals [] = Inr ([], vals)"
| "parseDockerOptions spec vals (arg # rest) =
     (if arg = ''--'' then Inr (rest, vals)
      else if arg = ''-'' \<or> \<not> has_prefix arg ''-'' then Inr (arg # rest, vals)
      else (case (if has_prefix arg ''--'' then docker_long spec vals rest arg
                  else docker_short spec vals rest (tl arg)) of
              Inl e \<Rightarrow> Inl e
            | Inr (rest', vals') \<Rightarrow> parseDockerOptions spec vals' rest'))"
  by pat_completeness auto
termination
  by (relation "measure (\<lambda>(spec, vals, args). length args)")
    (auto dest: docker_short_shorter docker_long_shorter split: if_splits)

definition skipDockerOptions :: "docker_option_spec \<Rightarrow> string list \<Rightarrow> unit + string list" where
  "skipDockerOptions spec args = map_sum id fst (parseDockerOptions spec [] args)"

section \<open>The subcommand chain\<close>

text \<open>\<^verbatim>\<open>dockerSubcommandIndex\<close> as the words from the subcommand on; \<open>Inr []\<close> stands for the index -1.\<close>

definition dockerSubcommandIndex :: "argv \<Rightarrow> unit + string list" where
  "dockerSubcommandIndex argv =
     (case map_of dockerGlobalOptionSpecs (head argv) of
        None \<Rightarrow> Inr []
      | Some spec \<Rightarrow> skipDockerOptions spec (tl argv))"

text \<open>The result is \<^verbatim>\<open>(chain, err)\<close>: a run or exec with bad options returns both.\<close>

definition parseDockerSubcommandChain :: "argv \<Rightarrow> string list \<times> bool" where
  "parseDockerSubcommandChain argv =
     (if length argv < 2 then ([], False)
      else if head argv = ''docker-compose'' then
        (case skipDockerOptions dockerComposeOptionSpec (tl argv) of
           Inl _ \<Rightarrow> ([], True)
         | Inr [] \<Rightarrow> ([], False)
         | Inr (w # _) \<Rightarrow> ([w], False))
      else (case dockerSubcommandIndex argv of
              Inl _ \<Rightarrow> ([], True)
            | Inr [] \<Rightarrow> ([], False)
            | Inr (w # rest) \<Rightarrow>
                if w = ''run'' \<or> w = ''exec'' then
                  ([w], isl (skipDockerOptions
                     (if w = ''exec'' then dockerExecOptionSpec else dockerRunOptionSpec) rest))
                else if w \<noteq> ''compose'' \<and> w \<notin> set dockerSubcommandGroups then ([w], False)
                else (case skipDockerOptions
                        (if w = ''compose'' then dockerComposeOptionSpec else dockerGroupOptionSpec)
                        rest of
                        Inl _ \<Rightarrow> ([], True)
                      | Inr [] \<Rightarrow> ([w], False)
                      | Inr (w' # _) \<Rightarrow> ([w, w'], False))))"

definition chainHasPrefix :: "string list \<Rightarrow> string list \<Rightarrow> bool" where
  "chainHasPrefix chain want = has_prefix chain want"

section \<open>The rules\<close>

definition containerCommands :: "string list" where
  "containerCommands = [''docker'', ''docker-compose'', ''podman'', ''nerdctl'']"

definition commandHasSubstitution :: "string \<Rightarrow> bool" where
  "commandHasSubstitution cmd \<longleftrightarrow> contains cmd ''$('' \<or> contains cmd [CHR 0x60]"

definition docker_chain_verdict :: "string list \<Rightarrow> string \<Rightarrow> verdict option" where
  "docker_chain_verdict chain rawCmd =
     (if chainHasPrefix chain [''compose'', ''down''] then
        deny ''P1.docker-down'' ''docker compose down tears down a whole stack''
      else if (length chain \<ge> 2 \<and> chain ! 0 \<in> set dockerSubcommandGroups \<and> chain ! 1 = ''prune'') \<or>
              chainHasPrefix chain [''prune''] then
        deny ''P1.docker-prune'' ''docker prune removes resources with unverifiable scope''
      else if (chainHasPrefix chain [''rm''] \<or> chainHasPrefix chain [''kill''] \<or>
               chainHasPrefix chain [''volume'', ''rm''] \<or> chainHasPrefix chain [''network'', ''rm'']) \<and>
              commandHasSubstitution rawCmd then
        deny ''P1.docker-substituted'' ''docker rm/kill with a command-substituted target list''
      else None)"

definition checkDocker :: "string \<Rightarrow> simple \<Rightarrow> verdict option" where
  "checkDocker rawCmd s =
     (let command = head (Argv s)
      in if command \<notin> set containerCommands then None
         else (case parseDockerSubcommandChain (Argv s) of (chain, err) \<Rightarrow>
                 if err then
                   ask ''P3.unresolved''
                     ''docker option parsing could not establish the command boundary''
                 else docker_chain_verdict
                        (if command = ''docker-compose'' then ''compose'' # chain else chain) rawCmd))"

definition psDiskDestroyers :: "string list" where
  "psDiskDestroyers = 
     [''format-volume'', ''clear-disk'', ''remove-partition'', ''initialize-disk'', ''clear-partition'']"

definition checkDiskDestroyers :: "simple \<Rightarrow> verdict option" where
  "checkDiskDestroyers s =
     (let command = head (Argv s)
      in if command = ''dd'' then
           (case filter (\<lambda>a. has_prefix a ''of=/dev/'') (tl (Argv s)) of
              a # _ \<Rightarrow> deny ''P1.dd'' (''dd writing to a raw device: '' @ a)
            | [] \<Rightarrow> None)
         else if command = ''mkfs'' \<or> has_prefix command ''mkfs.'' \<or> command = ''mke2fs'' \<or>
                 command = ''wipefs'' \<or> command \<in> set psDiskDestroyers then
           deny ''P1.mkfs'' (''filesystem-destroying command: '' @ command)
         else if command = ''shred'' \<or> command = ''srm'' then
           deny ''P1.shred'' (''irreversible secure-delete command: '' @ command)
         else None)"

section \<open>The rules meet their contract\<close>

lemma docker_chain_verdict_deny:
  "docker_chain_verdict chain raw = Some v \<Longrightarrow>
   vDecision v = Deny \<and> vRuleID v \<in> set [''P1.docker-down'', ''P1.docker-prune'', ''P1.docker-substituted'']"
  by (auto simp: docker_chain_verdict_def split: if_splits)

interpretation docker: argv_rule "checkDocker rawCmd" "\<lambda>h. h \<in> set containerCommands"
  "[''P3.unresolved'', ''P1.docker-down'', ''P1.docker-prune'', ''P1.docker-substituted'']" for rawCmd
  by unfold_locales
    (auto simp: checkDocker_def Let_def dest!: docker_chain_verdict_deny split: prod.splits if_splits)

definition disk_heads :: "string \<Rightarrow> bool" where
  "disk_heads h \<longleftrightarrow>
     h \<in> set ([''dd'', ''mkfs'', ''mke2fs'', ''wipefs'', ''shred'', ''srm''] @ psDiskDestroyers) \<or>
     has_prefix h ''mkfs.''"

interpretation disk: argv_rule checkDiskDestroyers disk_heads "[''P1.dd'', ''P1.mkfs'', ''P1.shred'']"
  by unfold_locales
    (auto simp: checkDiskDestroyers_def disk_heads_def Let_def split: list.splits if_splits)

section \<open>What the parser consumes\<close>

text \<open>The shape of every option name in the tables.\<close>

definition option_name :: "string \<Rightarrow> bool" where
  "option_name f \<longleftrightarrow>
     has_prefix f ''-'' \<and> CHR ''='' \<notin> set f \<and> f \<noteq> ''--'' \<and>
     (length f = 2 \<or> has_prefix f ''--'')"

definition spec_ok :: "docker_option_spec \<Rightarrow> bool" where
  "spec_ok spec \<longleftrightarrow> list_all option_name (dosValues spec)"

lemma table_specs_ok:
  "list_all (\<lambda>e. spec_ok (snd e)) dockerGlobalOptionSpecs" "spec_ok dockerComposeOptionSpec"
  "spec_ok dockerGroupOptionSpec"
  by code_simp+

definition value_words :: "(string \<times> string) list \<Rightarrow> string list" where
  "value_words opts = concat (map (\<lambda>(f, v). [f, v]) opts)"

lemma cut_plain: "c \<notin> set s \<Longrightarrow> cut c s = (s, [], False)"
  unfolding cut_def by (induction s) auto

lemma parse_one_value:
  assumes "option_name f" and "f \<in> set (dosValues spec)"
  shows "parseDockerOptions spec vals (f # v # rest) =
         parseDockerOptions spec (upd_assoc f v vals) rest"
proof (cases "has_prefix f ''--''")
  case True
  with assms show ?thesis by (auto simp: option_name_def docker_long_def cut_plain)
next
  case False
  with assms(1) obtain c where "f = [CHR ''-'', c]"
    by (cases f; cases "tl f") (auto simp: option_name_def)
  with assms False show ?thesis by (auto simp: option_name_def)
qed

lemma parse_values:
  assumes "spec_ok spec" and "list_all (\<lambda>(f, v). f \<in> set (dosValues spec)) opts"
    and "\<not> has_prefix w ''-''"
  shows "\<exists>vals'. parseDockerOptions spec vals (value_words opts @ w # rest) = Inr (w # rest, vals')"
  using assms(2)
proof (induction opts arbitrary: vals)
  case Nil
  have "w \<noteq> ''--''" "w \<noteq> ''-''" using assms(3) by auto
  with assms(3) show ?case by (simp add: value_words_def)
next
  case (Cons o' opts)
  obtain f v where o': "o' = (f, v)" by (cases o')
  with Cons.prems assms(1) have "option_name f" "f \<in> set (dosValues spec)"
    by (auto simp: spec_ok_def list_all_iff)
  with Cons o' show ?case
    by (simp add: value_words_def parse_one_value del: parseDockerOptions.simps)
qed

lemma skip_values:
  assumes "spec_ok spec" and "list_all (\<lambda>(f, v). f \<in> set (dosValues spec)) opts"
    and "\<not> has_prefix w ''-''"
  shows "skipDockerOptions spec (value_words opts @ w # rest) = Inr (w # rest)"
  using parse_values [OF assms, of "[]" rest] by (auto simp: skipDockerOptions_def)

text \<open>Options never hide a stack teardown or a prune: behind any value options of the container
  CLI and of the group, \<^verbatim>\<open>compose down\<close> and every group's \<^verbatim>\<open>prune\<close> are denied.\<close>

lemma docker_teardown_denied:
  assumes "map_of dockerGlobalOptionSpecs (head [cli]) = Some spec"
    and "list_all (\<lambda>(f, v). f \<in> set (dosValues spec)) globals"
    and "list_all (\<lambda>(f, v). f \<in> set (dosValues dockerComposeOptionSpec)) opts"
    and "(grp = ''compose'' \<and> words = value_words opts @ ''down'' # rest) \<or>
         (grp \<in> set dockerSubcommandGroups \<and> words = ''prune'' # rest)"
    and "Argv s = cli # value_words globals @ grp # words"
  shows "\<exists>v. checkDocker rawCmd s = Some v \<and> vDecision v = Deny"
proof -
  have cli: "head [cli] \<in> set containerCommands" "head [cli] \<noteq> ''docker-compose''"
    using assms(1) by (auto simp: dockerGlobalOptionSpecs_def containerCommands_def split: if_splits)
  have hd: "head (Argv s) = head [cli]" by (simp add: assms(5))
  have "(head [cli], spec) \<in> set dockerGlobalOptionSpecs" using assms(1) by (rule map_of_SomeD)
  then have ok: "spec_ok spec" using table_specs_ok(1) unfolding list_all_iff by fastforce
  have grp: "\<not> has_prefix grp ''-''" "grp \<noteq> ''run''" "grp \<noteq> ''exec''"
    using assms(4) by (auto simp: dockerSubcommandGroups_def)
  have idx: "dockerSubcommandIndex (Argv s) = Inr (grp # words)"
    using assms(1) skip_values [OF ok assms(2) grp(1), of words]
    by (simp add: dockerSubcommandIndex_def assms(5))
  have len: "\<not> length (Argv s) < 2" by (simp add: assms(5))
  have "parseDockerSubcommandChain (Argv s) = ([''compose'', ''down''], False) \<or>
        (grp \<in> set dockerSubcommandGroups \<and>
         parseDockerSubcommandChain (Argv s) = ([grp, ''prune''], False))"
    using assms(4)
  proof
    assume a: "grp = ''compose'' \<and> words = value_words opts @ ''down'' # rest"
    then have "skipDockerOptions dockerComposeOptionSpec words = Inr (''down'' # rest)"
      using skip_values [OF table_specs_ok(2) assms(3), of "''down''" rest] by simp
    with a idx len cli hd show ?thesis by (simp add: parseDockerSubcommandChain_def)
  next
    assume b: "grp \<in> set dockerSubcommandGroups \<and> words = ''prune'' # rest"
    then have "grp \<noteq> ''compose''" by (auto simp: dockerSubcommandGroups_def)
    moreover have "skipDockerOptions dockerGroupOptionSpec words = Inr (''prune'' # rest)"
      using b skip_values [OF table_specs_ok(3), of "[]" "''prune''" rest]
      by (simp add: value_words_def)
    ultimately show ?thesis
      using b idx len cli hd grp by (simp add: parseDockerSubcommandChain_def)
  qed
  then show ?thesis
    using cli hd
    by (auto simp: checkDocker_def Let_def docker_chain_verdict_def chainHasPrefix_def deny_def)
qed

section \<open>Spellings the rules do not see\<close>

text \<open>The grouped spelling of a container removal is not on the destructive list.\<close>

lemma docker_container_rm_unseen:
  "checkDocker ''docker container rm $(docker ps -aq)''
     (simple_of [''docker'', ''container'', ''rm'', ''$(docker ps -aq)'']) = None \<and>
   checkDocker ''docker rm $(docker ps -aq)''
     (simple_of [''docker'', ''rm'', ''$(docker ps -aq)'']) \<noteq> None"
  by code_simp

end
