(* ===== verification/Bash_Eval.thy ===== *)
theory Bash_Eval
  imports Rules_Power Rules_Gh Rules_Credentialed Rules_Install Rules_Docker
begin

text \<open>
  The evaluation of a parsed shell command: \<^verbatim>\<open>analyzeBash\<close> and \<^verbatim>\<open>checkBashAnalysis\<close> of
  \<^verbatim>\<open>src/internal/engine/rules_bash.go\<close>.

  A \<open>bash_analysis\<close> is what the parser and the find-action adapter produced.  The rules modelled in
  the rule theories are called as they are; the rules that read the file system or another shell's
  syntax are the fields of \<open>bash_checks\<close>, with the tool call and the policy already applied.  Indexing
  the first word of an empty callback panics in Go; here it gives \<open>Panics\<close>.

  The fold keeps the first verdict of the highest severity among those whose rule is not waived.
  The main lemma reads the nested folds of the source as one maximum over the list of all hits.
\<close>

section \<open>Keeping the worst verdict\<close>

definition counted :: "policy \<Rightarrow> verdict \<Rightarrow> bool" where
  "counted pol v \<longleftrightarrow> \<not> (waived pol (vRuleID v) \<and> vRuleID v \<noteq> ''P3.unresolved'')"

definition worse :: "verdict option \<Rightarrow> verdict \<Rightarrow> verdict option" where
  "worse worst v =
     (case worst of
        None \<Rightarrow> Some v
      | Some w \<Rightarrow> if Severity (vDecision v) > Severity (vDecision w) then Some v else Some w)"

definition take_verdict :: "policy \<Rightarrow> verdict option \<Rightarrow> verdict option \<Rightarrow> verdict option" where
  "take_verdict pol worst v =
     (case v of
        None \<Rightarrow> worst
      | Some x \<Rightarrow> if \<not> counted pol x then worst else worse worst x)"

definition take_all :: "policy \<Rightarrow> verdict option \<Rightarrow> verdict option list \<Rightarrow> verdict option" where
  "take_all pol worst hits = foldl (take_verdict pol) worst hits"

section \<open>The analysis and the checks\<close>

record find_evaluation =
  feCallbacks :: "simple list"
  feVerdict :: "bool \<Rightarrow> simple \<Rightarrow> verdict option"

record bash_analysis =
  baSimples :: "simple list"
  baOrdered :: "simple list"
  baFinds :: "(nat \<times> find_evaluation) list"
  baFailed :: bool

record bash_checks =
  bcUnresolved :: "simple \<Rightarrow> string option"
  bcRmRf :: "simple \<Rightarrow> verdict option"
  bcPowerShell :: "simple \<Rightarrow> verdict option"
  bcCmdDelete :: "simple \<Rightarrow> verdict option"
  bcCmdDiskDestroyer :: "simple \<Rightarrow> verdict option"
  bcDestinationWrites :: "simple \<Rightarrow> verdict option"
  bcAskTier :: "bool \<Rightarrow> simple \<Rightarrow> verdict option"
  bcEgress :: "simple \<Rightarrow> verdict option"
  bcTargetsRepo :: "simple \<Rightarrow> bool"
  bcLiteralText :: "string \<Rightarrow> string option"
  bcRunningVersion :: string
  bcExemptions :: "nat \<Rightarrow> bool"
  bcInertGrammar :: "string \<Rightarrow> bool"

text \<open>\<^verbatim>\<open>analyzeBash\<close>: the parser's answer (\<open>None\<close> is its error) with, after every find command, the
  commands it would run.\<close>

definition find_at :: "(simple \<Rightarrow> find_evaluation) \<Rightarrow> nat \<times> simple \<Rightarrow> (nat \<times> find_evaluation) list" where
  "find_at adaptFind = (\<lambda>(i, s). if head (Argv s) = ''find'' then [(i, adaptFind s)] else [])"

definition with_callbacks :: "(simple \<Rightarrow> find_evaluation) \<Rightarrow> simple \<Rightarrow> simple list" where
  "with_callbacks adaptFind s =
     s # (if head (Argv s) = ''find'' then feCallbacks (adaptFind s) else [])"

definition analyzeBash ::
  "(simple \<Rightarrow> find_evaluation) \<Rightarrow> simple list option \<Rightarrow> bash_analysis" where
  "analyzeBash adaptFind normalized =
     (case normalized of
        None \<Rightarrow> \<lparr>baSimples = [], baOrdered = [], baFinds = [], baFailed = True\<rparr>
      | Some simples \<Rightarrow>
          \<lparr>baSimples = simples,
           baOrdered = concat (map (with_callbacks adaptFind) simples),
           baFinds = concat (map (find_at adaptFind) (enumerate 0 simples)),
           baFailed = False\<rparr>)"

section \<open>One simple command\<close>

definition unresolved_hit :: "bash_checks \<Rightarrow> simple \<Rightarrow> verdict option" where
  "unresolved_hit bc s =
     (case bcUnresolved bc s of None \<Rightarrow> None | Some reason \<Rightarrow> ask ''P3.unresolved'' reason)"

text \<open>The hits of one command in the order the source takes them.\<close>

definition simple_hits :: "bash_checks \<Rightarrow> string \<Rightarrow> bool \<Rightarrow> simple \<Rightarrow> verdict option list" where
  "simple_hits bc command exempt s =
     unresolved_hit bc s #
     (if Argv s = [] then [bcAskTier bc False s]
      else [bcRmRf bc s,
            checkPowerControl s,
            bcPowerShell bc s,
            bcCmdDelete bc s,
            bcCmdDiskDestroyer bc s,
            checkDiskDestroyers s,
            bcDestinationWrites bc s,
            checkSelfControlInvocation (bcLiteralText bc) command s,
            checkGuardrailUpdate (bcRunningVersion bc) (bcLiteralText bc) command s,
            checkGit s,
            checkGitSafety (bcTargetsRepo bc) s,
            checkDocker command s,
            checkGhAPIProtection s,
            checkGhPorcelain s,
            checkGoToolchain s,
            checkRgPreprocessor s,
            checkCredentialedCLI s,
            checkCredentialPrint s] @
           (if head (Argv s) \<noteq> ''find'' then [bcAskTier bc exempt s] else []) @
           [bcEgress bc s, checkPackageInstall s])"

definition evaluateSimple :: "bash_checks \<Rightarrow> policy \<Rightarrow> string \<Rightarrow> bool \<Rightarrow> simple \<Rightarrow> verdict option" where
  "evaluateSimple bc pol command exempt s = take_all pol None (simple_hits bc command exempt s)"

section \<open>The whole command\<close>

definition callback_hits ::
  "bash_checks \<Rightarrow> policy \<Rightarrow> string \<Rightarrow> simple \<Rightarrow> verdict option list" where
  "callback_hits bc pol command cb =
     (if hd (Argv cb) = ''rm'' then []
      else (let v = evaluateSimple bc pol command False cb
            in [v,
                (if v = None \<and>
                    (hd (Argv cb) \<noteq> head (Argv cb) \<or> 0 \<in> set (resolvedArgs cb) \<or>
                     wordUnresolved (bcLiteralText bc) cb 0 \<or> \<not> bcInertGrammar bc (hd (Argv cb)))
                 then ask ''P1.find-delete'' ''find callback requires unsupported execution semantics''
                 else None)]))"

definition find_hits ::
  "bash_checks \<Rightarrow> policy \<Rightarrow> string \<Rightarrow> bash_analysis \<Rightarrow> nat \<Rightarrow> simple \<Rightarrow> verdict option list" where
  "find_hits bc pol command a index s =
     (case map_of (baFinds a) index of
        None \<Rightarrow> []
      | Some fe \<Rightarrow>
          concat (map (\<lambda>cb. callback_hits bc pol command (cb\<lparr>gitInitExpected := gitInitExpected s\<rparr>))
            (feCallbacks fe)) @
          [feVerdict fe (bcExemptions bc index) s])"

text \<open>A plain \<^verbatim>\<open>git init\<close> makes the next command's git configuration checks expect a fresh repository
  in that directory.\<close>

definition expect_init :: "string \<Rightarrow> simple \<Rightarrow> simple" where
  "expect_init initializedGitDir s =
     (if \<not> cwdUnknown s
      then s\<lparr>gitInitExpected := (initializedGitDir \<noteq> '''' \<and> initializedGitDir = clean (Cwd s))\<rparr>
      else s)"

fun bash_loop ::
  "bash_checks \<Rightarrow> policy \<Rightarrow> string \<Rightarrow> bash_analysis \<Rightarrow> nat \<Rightarrow> string \<Rightarrow> verdict option \<Rightarrow> simple list \<Rightarrow>
   verdict option" where
  "bash_loop bc pol command a index initDir worst [] = worst"
| "bash_loop bc pol command a index initDir worst (s0 # rest) =
     (let s = expect_init initDir s0;
          initDir' = (case gitInitCurrentDirectory s of Some d \<Rightarrow> d | None \<Rightarrow> '''');
          worst' = take_verdict pol worst
                     (evaluateSimple bc pol command (bcExemptions bc index) s);
          worst'' = take_all pol worst' (find_hits bc pol command a index s)
      in bash_loop bc pol command a (Suc index) initDir' worst'' rest)"

definition checkBashAnalysis ::
  "bash_checks \<Rightarrow> tool_call \<Rightarrow> policy \<Rightarrow> bash_analysis \<Rightarrow> verdict option outcome" where
  "checkBashAnalysis bc tc pol a =
     (if baFailed a then
        Returns (ask ''tokenize-failed'' ''could not parse shell command; failing closed to ask'')
      else if list_ex (\<lambda>(i, fe). i < length (baSimples a) \<and> list_ex (\<lambda>cb. Argv cb = []) (feCallbacks fe))
                (baFinds a)
      then Panics
      else Returns (bash_loop bc pol (tcCommand tc) a 0 ''''
             (take_verdict pol None (checkDownloadPipeShell (baOrdered a))) (baSimples a)))"

section \<open>The fold is a maximum\<close>

lemma worse_not_None [simp]: "worse w v \<noteq> None"
  by (auto simp: worse_def split: option.splits)

lemma take_verdict_simps [simp]:
  "take_verdict pol w None = w"
  "take_verdict pol w (Some v) = (if counted pol v then worse w v else w)"
  by (auto simp: take_verdict_def)

lemma take_all_simps [simp]:
  "take_all pol w [] = w"
  "take_all pol w (h # hs) = take_all pol (take_verdict pol w h) hs"
  by (simp_all add: take_all_def)

lemma take_all_append: "take_all pol w (xs @ ys) = take_all pol (take_all pol w xs) ys"
  by (simp add: take_all_def)

definition severity_of :: "verdict option \<Rightarrow> int" where
  "severity_of w = (case w of None \<Rightarrow> - 2 | Some v \<Rightarrow> Severity (vDecision v))"

lemma severity_of_Some [simp]: "severity_of (Some v) = Severity (vDecision v)"
  by (simp add: severity_of_def)

lemma worse_assoc: "worse (worse w x) y = (case worse (Some x) y of Some z \<Rightarrow> worse w z | None \<Rightarrow> w)"
  by (auto simp: worse_def split: option.splits)

lemma take_all_counted: "take_all pol w hs = Some v \<Longrightarrow> w = Some v \<or> (Some v \<in> set hs \<and> counted pol v)"
proof (induction hs arbitrary: w)
  case (Cons h hs)
  then show ?case
    by (cases h) (auto simp: worse_def split: if_splits option.splits)
qed simp

text \<open>Taking the worst of a group is taking its members.\<close>

lemma take_all_group:
  assumes "\<forall>v. w = Some v \<longrightarrow> counted pol v"
  shows "take_verdict pol w0 (take_all pol w hs) = take_all pol (take_verdict pol w0 w) hs"
  using assms
proof (induction hs arbitrary: w)
  case (Cons h hs)
  show ?case
  proof (cases h)
    case None
    with Cons show ?thesis by simp
  next
    case (Some x)
    show ?thesis
    proof (cases "counted pol x")
      case True
      have c: "\<forall>v. worse w x = Some v \<longrightarrow> counted pol v"
        using Cons.prems True by (auto simp: worse_def split: option.splits)
      have "take_verdict pol w0 (worse w x) = worse (take_verdict pol w0 w) x"
      proof (cases w)
        case None
        with True show ?thesis by (simp add: worse_def)
      next
        case (Some y)
        with Cons.prems have "counted pol y" by simp
        with Some True show ?thesis
          using worse_assoc [of w0 y x] by (auto simp: worse_def split: option.splits)
      qed
      with Cons.IH [OF c] Some True show ?thesis by simp
    next
      case False
      with Cons Some show ?thesis by simp
    qed
  qed
qed simp

lemma take_evaluateSimple:
  "take_verdict pol w (evaluateSimple bc pol cmd e s) = take_all pol w (simple_hits bc cmd e s)"
  using take_all_group [of None pol w "simple_hits bc cmd e s"] by (simp add: evaluateSimple_def)

lemma take_all_ge:
  "severity_of w \<le> severity_of (take_all pol w hs)"
proof (induction hs arbitrary: w)
  case (Cons h hs)
  have "severity_of w \<le> severity_of (take_verdict pol w h)"
    using Severity_bounds
    by (cases h; cases w) (auto simp: worse_def severity_of_def order_trans [of "- 2" "- 1"])
  with Cons show ?case by (metis order_trans take_all_simps(2))
qed simp

lemma take_all_hit:
  "Some v \<in> set hs \<Longrightarrow> counted pol v \<Longrightarrow> Severity (vDecision v) \<le> severity_of (take_all pol w hs)"
proof (induction hs arbitrary: w)
  case (Cons h hs)
  show ?case
  proof (cases "h = Some v")
    case True
    have "Severity (vDecision v) \<le> severity_of (worse w v)"
      by (auto simp: worse_def split: option.splits)
    also have "\<dots> \<le> severity_of (take_all pol (worse w v) hs)" by (rule take_all_ge)
    finally show ?thesis using True Cons.prems(2) by simp
  next
    case False
    with Cons show ?thesis by simp
  qed
qed simp

section \<open>The loop takes every hit\<close>

text \<open>The commands as the loop evaluates them, each with its exemption and expected repository.\<close>

fun evaluated :: "bash_checks \<Rightarrow> nat \<Rightarrow> string \<Rightarrow> simple list \<Rightarrow> (nat \<times> simple) list" where
  "evaluated bc index initDir [] = []"
| "evaluated bc index initDir (s0 # rest) =
     (let s = expect_init initDir s0
      in (index, s) # evaluated bc (Suc index)
           (case gitInitCurrentDirectory s of Some d \<Rightarrow> d | None \<Rightarrow> '''') rest)"

definition command_hits ::
  "bash_checks \<Rightarrow> policy \<Rightarrow> string \<Rightarrow> bash_analysis \<Rightarrow> nat \<times> simple \<Rightarrow> verdict option list" where
  "command_hits bc pol cmd a = (\<lambda>(i, s).
     simple_hits bc cmd (bcExemptions bc i) s @ find_hits bc pol cmd a i s)"

lemma bash_loop_takes_all:
  "bash_loop bc pol cmd a i d w ss =
   take_all pol w (concat (map (command_hits bc pol cmd a) (evaluated bc i d ss)))"
proof (induction bc pol cmd a i d w ss rule: bash_loop.induct)
  case (2 bc pol cmd a i d w s0 rest)
  then show ?case
    by (simp add: Let_def take_evaluateSimple take_all_append command_hits_def)
qed simp

definition bash_hits :: "bash_checks \<Rightarrow> tool_call \<Rightarrow> policy \<Rightarrow> bash_analysis \<Rightarrow> verdict option list" where
  "bash_hits bc tc pol a =
     checkDownloadPipeShell (baOrdered a) #
     concat (map (command_hits bc pol (tcCommand tc) a) (evaluated bc 0 '''' (baSimples a)))"

lemma checkBashAnalysis_takes_all:
  "\<not> baFailed a \<Longrightarrow> checkBashAnalysis bc tc pol a = Returns r \<Longrightarrow>
   r = take_all pol None (bash_hits bc tc pol a)"
  by (simp add: checkBashAnalysis_def bash_hits_def bash_loop_takes_all split: if_splits)

lemma simple_hit_in_bash_hits:
  assumes "(i, s) \<in> set (evaluated bc 0 '''' (baSimples a))"
    and "Some v \<in> set (simple_hits bc (tcCommand tc) (bcExemptions bc i) s)"
  shows "Some v \<in> set (bash_hits bc tc pol a)"
  using assms unfolding bash_hits_def command_hits_def by fastforce

text \<open>No rule hit is lost: a rule that is not waived leaves a verdict at least as severe.\<close>

lemma checkBashAnalysis_hit:
  assumes "\<not> baFailed a" and "checkBashAnalysis bc tc pol a = Returns r"
    and "(i, s) \<in> set (evaluated bc 0 '''' (baSimples a))"
    and "Some v \<in> set (simple_hits bc (tcCommand tc) (bcExemptions bc i) s)" and "counted pol v"
  shows "\<exists>w. r = Some w \<and> Severity (vDecision v) \<le> Severity (vDecision w) \<and> counted pol w"
proof -
  have r: "r = take_all pol None (bash_hits bc tc pol a)"
    using assms(1,2) by (rule checkBashAnalysis_takes_all)
  have "Severity (vDecision v) \<le> severity_of r"
    unfolding r using simple_hit_in_bash_hits [OF assms(3,4)] assms(5) by (rule take_all_hit)
  moreover have "- 1 \<le> Severity (vDecision v)" using Severity_bounds by blast
  ultimately obtain w where w: "r = Some w" "Severity (vDecision v) \<le> Severity (vDecision w)"
    by (cases r) (auto simp: severity_of_def)
  moreover have "counted pol w"
    using take_all_counted [of pol None "bash_hits bc tc pol a" w] w(1) unfolding r by simp
  ultimately show ?thesis by blast
qed


section \<open>A worked command\<close>

definition silent_checks :: bash_checks where
  "silent_checks =
     \<lparr>bcUnresolved = (\<lambda>s. if Unresolved s then Some ''unresolved'' else None),
      bcRmRf = (\<lambda>_. None), bcPowerShell = (\<lambda>_. None), bcCmdDelete = (\<lambda>_. None),
      bcCmdDiskDestroyer = (\<lambda>_. None), bcDestinationWrites = (\<lambda>_. None),
      bcAskTier = (\<lambda>_ _. None), bcEgress = (\<lambda>_. None), bcTargetsRepo = (\<lambda>_. True),
      bcLiteralText = (\<lambda>w. Some w), bcRunningVersion = ''dev'', bcExemptions = (\<lambda>_. False),
      bcInertGrammar = (\<lambda>_. True)\<rparr>"

definition demo_call :: "string \<Rightarrow> tool_call" where
  "demo_call command =
     \<lparr>tcPlane = ''claude'', tcEvent = ''pre'', tcTool = ''Bash'', tcNativeTool = ''Bash'',
      tcContractTool = ''Bash'', tcCapability = CapabilityCommand, tcNativeWebResearch = False,
      tcURL = '''', tcInputShape = '''', tcCommand = command, tcShell = '''', tcPaths = [],
      tcArguments = '''', tcSessionID = ''s1'', tcCallID = '''', tcHostApproved = False,
      tcCWD = ''/repo'', tcRepoRoot = ''/repo'', tcPermittedRoots = [], tcDegradedAllows = []\<rparr>"

definition demo_simples :: "simple list" where
  "demo_simples = [simple_of [''git'', ''status''], simple_of [''git'', ''push'', ''-f'', ''origin'', ''main'']]"

definition demo_policy :: policy where
  "demo_policy =
     \<lparr>WebResearchOff = False,
      Slots = \<lparr>SafeRoots = [], SecretDirs = [], SecretGlobs = [], SecretAskGlobs = [],
               SecretAllow = [], EgressAllowlist = [], WebHosts = [], AuditLog = ''''\<rparr>,
      Recipes = None, Rules = [], Waived = [(''P3.unresolved'', True)],
      UnknownToolPosture = UnknownAudit\<rparr>"

definition demo_analysis :: bash_analysis where
  "demo_analysis =
     analyzeBash (\<lambda>s. \<lparr>feCallbacks = [], feVerdict = (\<lambda>_ _. None)\<rparr>) (Some demo_simples)"

definition unresolved_analysis :: bash_analysis where
  "unresolved_analysis =
     analyzeBash (\<lambda>s. \<lparr>feCallbacks = [], feVerdict = (\<lambda>_ _. None)\<rparr>)
       (Some [(simple_of [''$X''])\<lparr>Unresolved := True\<rparr>])"


end
