(* ===== verification/Evaluate_Call.thy ===== *)
theory Evaluate_Call
  imports Bash_Eval
begin

text \<open>
  The evaluation of one tool call: \<^verbatim>\<open>src/internal/engine/evaluate.go\<close> with the web-fetch rule of
  \<^verbatim>\<open>rules_net.go\<close>.

  \<open>call_checks\<close> holds what \<^verbatim>\<open>Evaluate\<close> calls outside this theory: the parsed form of a URL
  (\<^verbatim>\<open>url.Parse\<close>), the glob matcher (the \<^verbatim>\<open>doublestar\<close> package), the shell parse of the command with
  the checks of \<open>Bash_Eval\<close>, and the path rules.  The shell and the path rules can panic; the
  deferred \<^verbatim>\<open>recover\<close> turns any panic into an ask.

  The theorems characterise every way to an allow and show that no rule hit is lost between the
  three rule families and the final verdict.
\<close>

section \<open>URLs\<close>

record parsed_url =
  urlScheme :: string
  urlHost :: string
  urlHasUser :: bool
  urlFragment :: string
  urlPort :: string
  urlHostname :: string

datatype url_error = NotAbsoluteURL | SchemeNotHTTP | BadURLHost policy_error

definition NormalizeWebFetchURL :: "(string \<Rightarrow> parsed_url option) \<Rightarrow> string \<Rightarrow> url_error + string" where
  "NormalizeWebFetchURL parse raw =
     (case parse raw of
        None \<Rightarrow> Inl NotAbsoluteURL
      | Some u \<Rightarrow>
          if urlScheme u = '''' \<or> urlHost u = '''' \<or> urlHasUser u \<or> urlFragment u \<noteq> '''' \<or>
             urlPort u \<noteq> '''' then Inl NotAbsoluteURL
          else if \<not> equal_fold (urlScheme u) ''http'' \<and> \<not> equal_fold (urlScheme u) ''https''
          then Inl SchemeNotHTTP
          else (let host = to_lower (urlHostname u)
                in case ValidateWebHost host of
                     Some e \<Rightarrow> Inl (BadURLHost e)
                   | None \<Rightarrow> Inr host))"

definition validWebFetchURL :: "(string \<Rightarrow> parsed_url option) \<Rightarrow> string \<Rightarrow> bool" where
  "validWebFetchURL parse raw =
     (case NormalizeWebFetchURL parse raw of Inl _ \<Rightarrow> False | Inr _ \<Rightarrow> True)"

definition checkWebFetch :: verdict where
  "checkWebFetch =
     mk_verdict Deny ''web-fetch-native-deny''
       ''native web fetch cannot verify redirect destinations; use guardrail fetch''"

section \<open>Overlay rules and delegation\<close>

definition delegationInheritsEnforcement :: "string \<Rightarrow> bool" where
  "delegationInheritsEnforcement plane \<longleftrightarrow>
     plane = ''opencode'' \<or> plane = ''claude'' \<or> plane = ''antigravity''"

text \<open>The test one iteration of the loop of \<^verbatim>\<open>matchOverlayRules\<close> makes.\<close>

definition overlay_rule_matches ::
  "(string \<Rightarrow> string \<Rightarrow> bool) \<Rightarrow> tool_call \<Rightarrow> policy \<Rightarrow> rule \<Rightarrow> bool" where
  "overlay_rule_matches glob tc pol r \<longleftrightarrow>
     \<not> waived pol (rID r) \<and> (rTool r = '''' \<or> equal_fold (rTool r) (tcTool tc)) \<and>
     rPattern r \<noteq> '''' \<and>
     list_ex (\<lambda>s. s \<noteq> '''' \<and> glob (rPattern r) s) (tcCommand tc # tcPaths tc)"

definition matchOverlayRules ::
  "(string \<Rightarrow> string \<Rightarrow> bool) \<Rightarrow> tool_call \<Rightarrow> policy \<Rightarrow> verdict option" where
  "matchOverlayRules glob tc pol =
     (case find (overlay_rule_matches glob tc pol) (Rules pol) of
        None \<Rightarrow> None
      | Some r \<Rightarrow> Some (mk_verdict (rDecision r) (rID r) (rReason r)))"

section \<open>Evaluate\<close>

record call_checks =
  ccParseURL :: "string \<Rightarrow> parsed_url option"
  ccGlob :: "string \<Rightarrow> string \<Rightarrow> bool"
  ccAnalyze :: "tool_call \<Rightarrow> bash_analysis"
  ccBash :: "tool_call \<Rightarrow> policy \<Rightarrow> bash_checks"
  ccPaths :: "tool_call \<Rightarrow> policy \<Rightarrow> bash_analysis option \<Rightarrow> verdict option outcome"

definition path_capability :: "capability \<Rightarrow> bool" where
  "path_capability c \<longleftrightarrow> c = CapabilityReadDiscovery \<or> c = CapabilityMutation"

definition web_research_off :: verdict where
  "web_research_off =
     mk_verdict Allow ''web-research-enforcement-off''
       (''native web-research enforcement is off by operator policy; outbound data and '' @
        ''destinations are not enforced'')"

definition unknown_tool :: "tool_call \<Rightarrow> policy \<Rightarrow> verdict" where
  "unknown_tool tc pol =
     (if tcPlane tc = ''codex'' \<or> UnknownToolPosture pol = UnknownDeny then
        (mk_verdict Deny ''unknown-native-tool'' ''unclassified native tool; failing closed'')
          \<lparr>vAuditKind := ''unknown-native-tool''\<rparr>
      else if tcPlane tc = ''opencode'' \<or> tcPlane tc = ''claude'' then
        (mk_verdict Ask ''unknown-native-tool'' ''unclassified native tool requires operator approval'')
          \<lparr>vAuditKind := ''unknown-native-tool''\<rparr>
      else (mk_verdict Allow '''' '''')\<lparr>vAuditKind := ''unknown-native-tool''\<rparr>)"

text \<open>The early returns of \<^verbatim>\<open>Evaluate\<close>, in order; \<open>None\<close> goes on to the rules.\<close>

definition early_verdict :: "call_checks \<Rightarrow> tool_call \<Rightarrow> policy \<Rightarrow> verdict option" where
  "early_verdict cc tc pol =
     (if WebResearchOff pol \<and> tcNativeWebResearch tc then Some web_research_off
      else if tcCapability tc = CapabilityUnknown then Some (unknown_tool tc pol)
      else if path_capability (tcCapability tc) \<and> tcPaths tc = [] then
        Some (mk_verdict Deny ''capability-input-missing'' ''path capability call did not provide paths'')
      else if path_capability (tcCapability tc) \<and> '''' \<in> set (tcPaths tc) then
        Some (mk_verdict Deny ''capability-input-missing'' ''path capability call provided an empty path'')
      else if tcCapability tc = CapabilityCommand \<and> tcCommand tc = '''' then
        Some (mk_verdict Deny ''capability-input-missing''
                ''command capability call did not provide a command'')
      else if tcCapability tc = CapabilityWebFetch \<and> \<not> validWebFetchURL (ccParseURL cc) (tcURL tc) then
        Some (mk_verdict Deny ''capability-input-invalid''
                ''web fetch capability call did not provide a valid HTTP URL'')
      else (case tcCapability tc of
              CapabilityNone \<Rightarrow> None
            | CapabilityCommand \<Rightarrow> None
            | CapabilityReadDiscovery \<Rightarrow> None
            | CapabilityMutation \<Rightarrow> None
            | CapabilityWebFetch \<Rightarrow> Some checkWebFetch
            | CapabilitySafeControl \<Rightarrow> Some (mk_verdict Allow '''' '''')
            | CapabilityDeny \<Rightarrow>
                Some (if tcNativeTool tc = ''call_mcp_tool'' then
                        mk_verdict Deny ''call-mcp-tool-generic''
                          (''a generic MCP invoker cannot be re-dispatched safely until the registry '' @
                           ''can classify the target tool'' @ [CHR 39] @ ''s arguments, which it cannot '' @
                           ''see through the indirection'')
                      else mk_verdict Deny ''capability-deny'' ''native tool capability is unsupported'')
            | CapabilityWebSearch \<Rightarrow>
                Some (mk_verdict Ask ''capability-web-search'' ''web search requires operator approval'')
            | CapabilityExternal \<Rightarrow>
                Some (mk_verdict Ask ''capability-external''
                        (''this tool reaches outside the session (MCP server, scheduler, or '' @
                         ''publication) and its data flow cannot be verified''))
            | CapabilityDelegation \<Rightarrow>
                Some (if delegationInheritsEnforcement (tcPlane tc) then
                        mk_verdict Allow ''delegation-inherited''
                          (''child tool calls are mediated by this plane'' @ [CHR 39] @
                           ''s Guardrail adapter'')
                      else mk_verdict Deny ''capability-delegation-unverified''
                             ''delegation requires verified child guardrail inheritance'')
            | _ \<Rightarrow> Some (mk_verdict Deny ''capability-invalid'' ''native tool capability is invalid'')))"

definition bash_part ::
  "call_checks \<Rightarrow> tool_call \<Rightarrow> policy \<Rightarrow> (bash_analysis option \<times> verdict option) outcome" where
  "bash_part cc tc pol =
     (if IsBash tc
      then bind_outcome (checkBashAnalysis (ccBash cc tc pol) tc pol (ccAnalyze cc tc))
             (\<lambda>v. Returns (Some (ccAnalyze cc tc), v))
      else Returns (None, None))"

text \<open>The three hits the verdict is taken from.\<close>

definition call_hits :: "call_checks \<Rightarrow> tool_call \<Rightarrow> policy \<Rightarrow> verdict option list outcome" where
  "call_hits cc tc pol =
     bind_outcome (bash_part cc tc pol)
       (\<lambda>(bash, bv). bind_outcome (ccPaths cc tc pol bash)
          (\<lambda>pv. Returns [pv, bv, matchOverlayRules (ccGlob cc) tc pol]))"

definition worst_hit :: "verdict option list \<Rightarrow> verdict option" where
  "worst_hit hits = foldl (\<lambda>w h. case h of None \<Rightarrow> w | Some v \<Rightarrow> worse w v) None hits"

definition panic_recovered :: verdict where
  "panic_recovered =
     mk_verdict Ask ''panic-recovered'' ''guardrail hit an internal error; failing closed to ask''"

definition Evaluate :: "call_checks \<Rightarrow> tool_call \<Rightarrow> policy \<Rightarrow> verdict" where
  "Evaluate cc tc pol =
     (case early_verdict cc tc pol of
        Some v \<Rightarrow> v
      | None \<Rightarrow>
          (case call_hits cc tc pol of
             Panics \<Rightarrow> panic_recovered
           | Returns hits \<Rightarrow>
               (case worst_hit hits of None \<Rightarrow> mk_verdict Allow '''' '''' | Some v \<Rightarrow> v)))"

section \<open>The worst hit\<close>

lemma worst_from:
  "foldl (\<lambda>w h. case h of None \<Rightarrow> w | Some v \<Rightarrow> worse w v) w0 hits = w \<Longrightarrow>
   (w = w0 \<or> w \<in> set hits) \<and> severity_of w0 \<le> severity_of w \<and>
   (\<forall>v. Some v \<in> set hits \<longrightarrow> Severity (vDecision v) \<le> severity_of w)"
proof (induction hits arbitrary: w0)
  case (Cons h hits)
  let ?w1 = "case h of None \<Rightarrow> w0 | Some v \<Rightarrow> worse w0 v"
  have ih: "(w = ?w1 \<or> w \<in> set hits) \<and> severity_of ?w1 \<le> severity_of w \<and>
      (\<forall>v. Some v \<in> set hits \<longrightarrow> Severity (vDecision v) \<le> severity_of w)"
    using Cons.IH [of ?w1] Cons.prems by simp
  have step: "(?w1 = w0 \<or> ?w1 = h) \<and> severity_of w0 \<le> severity_of ?w1 \<and>
      (\<forall>v. h = Some v \<longrightarrow> Severity (vDecision v) \<le> severity_of ?w1)"
  proof (cases h)
    case (Some v)
    show ?thesis using Severity_bounds [of "vDecision v"]
      by (auto simp: Some worse_def severity_of_def split: option.splits)
  qed simp
  show ?case
  proof (intro conjI allI impI)
    show "w = w0 \<or> w \<in> set (h # hits)" using ih step by auto
    show "severity_of w0 \<le> severity_of w" using ih step by linarith
    show "Severity (vDecision v) \<le> severity_of w" if "Some v \<in> set (h # hits)" for v
      using that ih step by (metis order_trans set_ConsD)
  qed
qed simp

lemma worst_hit_None: "worst_hit hits = None \<Longrightarrow> Some v \<notin> set hits"
  using worst_from [of None hits None] Severity_bounds [of "vDecision v"]
  by (fastforce simp: worst_hit_def severity_of_def)

lemma worst_hit_Some:
  assumes "worst_hit hits = Some w"
  shows "Some w \<in> set hits"
    and "Some v \<in> set hits \<Longrightarrow> Severity (vDecision v) \<le> Severity (vDecision w)"
  using worst_from [of None hits "Some w"] assms by (auto simp: worst_hit_def)

definition rule_checked :: "capability \<Rightarrow> bool" where
  "rule_checked c \<longleftrightarrow>
     c \<in> {CapabilityNone, CapabilityCommand, CapabilityReadDiscovery, CapabilityMutation}"

lemma early_None_rule_checked: "early_verdict cc tc pol = None \<Longrightarrow> rule_checked (tcCapability tc)"
  by (auto simp: early_verdict_def rule_checked_def split: if_splits capability.splits)

lemma unknown_tool_allow:
  "vDecision (unknown_tool tc pol) = Allow \<Longrightarrow>
   tcPlane tc \<notin> {''codex'', ''opencode'', ''claude''} \<and> UnknownToolPosture pol \<noteq> UnknownDeny"
  by (simp add: unknown_tool_def split: if_split_asm)

lemma early_allow:
  assumes "early_verdict cc tc pol = Some v" and "vDecision v = Allow"
  shows "(WebResearchOff pol \<and> tcNativeWebResearch tc) \<or>
         (tcCapability tc = CapabilityUnknown \<and> tcPlane tc \<notin> {''codex'', ''opencode'', ''claude''} \<and>
            UnknownToolPosture pol \<noteq> UnknownDeny) \<or>
         tcCapability tc = CapabilitySafeControl \<or>
         (tcCapability tc = CapabilityDelegation \<and> delegationInheritsEnforcement (tcPlane tc))"
proof (cases "WebResearchOff pol \<and> tcNativeWebResearch tc")
  case False
  moreover from assms have "map_option vDecision (early_verdict cc tc pol) = Some Allow" by simp
  ultimately show ?thesis
    by (cases "tcCapability tc")
      (use unknown_tool_allow [of tc pol] in \<open>simp_all add: early_verdict_def path_capability_def
        checkWebFetch_def web_research_off_def split: if_split_asm\<close>)
qed simp

lemma Evaluate_early: "early_verdict cc tc pol = Some v \<Longrightarrow> Evaluate cc tc pol = v"
  by (simp add: Evaluate_def)

lemma Evaluate_panic:
  "early_verdict cc tc pol = None \<Longrightarrow> call_hits cc tc pol = Panics \<Longrightarrow>
   Evaluate cc tc pol = panic_recovered"
  by (simp add: Evaluate_def)

lemma Evaluate_hits:
  assumes "early_verdict cc tc pol = None" and "call_hits cc tc pol = Returns hits"
  shows "Evaluate cc tc pol = mk_verdict Allow '''' '''' \<or> Some (Evaluate cc tc pol) \<in> set hits"
    and "Some v \<in> set hits \<Longrightarrow> Severity (vDecision v) \<le> Severity (vDecision (Evaluate cc tc pol))"
  using assms worst_hit_None [of hits] worst_hit_Some [of hits]
  by (auto simp: Evaluate_def split: option.splits)

text \<open>C11: There are exactly four ways to an allow.  \<open>Evaluate\<close> allows a call only because the operator
  switched native web-research enforcement off for such a call, or because it is an unclassified
  tool on a plane other than Codex, OpenCode and Claude under the audit posture, or because the tool
  is a safe control or a delegation on a plane that mediates its children, or because a
  rule-checked call with its inputs present raised no panic and no rule family asked or denied.\<close>

theorem Evaluate_allow_causes:
  assumes "vDecision (Evaluate cc tc pol) = Allow"
  shows "(WebResearchOff pol \<and> tcNativeWebResearch tc) \<or>
         (tcCapability tc = CapabilityUnknown \<and> tcPlane tc \<notin> {''codex'', ''opencode'', ''claude''} \<and>
            UnknownToolPosture pol \<noteq> UnknownDeny) \<or>
         tcCapability tc = CapabilitySafeControl \<or>
         (tcCapability tc = CapabilityDelegation \<and> delegationInheritsEnforcement (tcPlane tc)) \<or>
         (rule_checked (tcCapability tc) \<and>
            (path_capability (tcCapability tc) \<longrightarrow> tcPaths tc \<noteq> [] \<and> '''' \<notin> set (tcPaths tc)) \<and>
            (tcCapability tc = CapabilityCommand \<longrightarrow> tcCommand tc \<noteq> '''') \<and>
            (\<exists>hits. call_hits cc tc pol = Returns hits \<and>
               (\<forall>v. Some v \<in> set hits \<longrightarrow> vDecision v \<notin> {Ask, Deny, Complete})))"
proof (cases "early_verdict cc tc pol")
  case (Some v)
  with assms have "vDecision v = Allow" by (simp add: Evaluate_early)
  with early_allow [OF Some] show ?thesis by blast
next
  case None
  obtain hits where hits: "call_hits cc tc pol = Returns hits"
  proof (cases "call_hits cc tc pol")
    case Panics
    with None assms show ?thesis by (simp add: Evaluate_panic panic_recovered_def)
  qed simp
  have "vDecision v \<notin> {Ask, Deny, Complete}" if "Some v \<in> set hits" for v
    using Evaluate_hits(2) [OF None hits that] assms by auto
  moreover have "(path_capability (tcCapability tc) \<longrightarrow> tcPaths tc \<noteq> [] \<and> '''' \<notin> set (tcPaths tc)) \<and>
      (tcCapability tc = CapabilityCommand \<longrightarrow> tcCommand tc \<noteq> '''')"
    using None by (auto simp: early_verdict_def split: if_splits)
  ultimately show ?thesis using early_None_rule_checked [OF None] hits by blast
qed

definition silent_call :: call_checks where
  "silent_call =
     \<lparr>ccParseURL = (\<lambda>_. None), ccGlob = (\<lambda>p s. p = s),
      ccAnalyze = (\<lambda>tc. analyzeBash (\<lambda>s. \<lparr>feCallbacks = [], feVerdict = (\<lambda>_ _. None)\<rparr>)
        (Some [simple_of (split_on CHR '' '' (tcCommand tc))])),
      ccBash = (\<lambda>tc pol. silent_checks), ccPaths = (\<lambda>tc pol a. Returns None)\<rparr>"

theorem Evaluate_allow_causes_witness:
  "\<exists>hits. call_hits silent_call (demo_call ''git status'') demo_policy = Returns hits \<and>
     (\<forall>v. Some v \<in> set hits \<longrightarrow> vDecision v \<notin> {Ask, Deny, Complete})"
proof -
  have "vDecision (Evaluate silent_call (demo_call ''git status'') demo_policy) = Allow" by code_simp
  from Evaluate_allow_causes [OF this] show ?thesis by (auto simp: demo_call_def demo_policy_def)
qed

section \<open>From a rule to the verdict\<close>

text \<open>C4: A rule hit on any simple command of a shell call reaches the final verdict: when a rule that
  is not waived returns a verdict on one of the parsed commands, \<open>Evaluate\<close> answers with a verdict at
  least as severe, or asks because a rule panicked; in particular a denied command is never allowed.\<close>

theorem Evaluate_keeps_bash_hits:
  assumes "early_verdict cc tc pol = None" and "IsBash tc" and "\<not> baFailed (ccAnalyze cc tc)"
    and "(i, s) \<in> set (evaluated (ccBash cc tc pol) 0 '''' (baSimples (ccAnalyze cc tc)))"
    and "Some v \<in> set (simple_hits (ccBash cc tc pol) (tcCommand tc) (bcExemptions (ccBash cc tc pol) i) s)"
    and "counted pol v"
  shows "Evaluate cc tc pol = panic_recovered \<or>
         Severity (vDecision v) \<le> Severity (vDecision (Evaluate cc tc pol))"
proof (cases "call_hits cc tc pol")
  case Panics
  with assms(1) show ?thesis by (simp add: Evaluate_panic)
next
  case (Returns hits)
  from Returns assms(2) obtain r pv where
    r: "checkBashAnalysis (ccBash cc tc pol) tc pol (ccAnalyze cc tc) = Returns r"
    and hits: "hits = [pv, r, matchOverlayRules (ccGlob cc) tc pol]"
    by (auto simp: call_hits_def bash_part_def bind_outcome_Returns)
  obtain w where "r = Some w" and le: "Severity (vDecision v) \<le> Severity (vDecision w)"
    using checkBashAnalysis_hit [OF assms(3) r assms(4,5,6)] by blast
  then have "Some w \<in> set hits" by (simp add: hits)
  from Evaluate_hits(2) [OF assms(1) Returns this] le show ?thesis by linarith
qed

theorem Evaluate_keeps_bash_hits_witness:
  "vDecision (Evaluate silent_call (demo_call ''git push -f origin main'') demo_policy) = Deny"
proof -
  let ?tc = "demo_call ''git push -f origin main''"
  let ?s = "snd (evaluated (ccBash silent_call ?tc demo_policy) 0 '''' (baSimples (ccAnalyze silent_call ?tc)) ! 0)"
  let ?v = "the (checkGit ?s)"
  have "early_verdict silent_call ?tc demo_policy = None" "IsBash ?tc" "\<not> baFailed (ccAnalyze silent_call ?tc)"
    "(0, ?s) \<in> set (evaluated (ccBash silent_call ?tc demo_policy) 0 '''' (baSimples (ccAnalyze silent_call ?tc)))"
    "Some ?v \<in> set (simple_hits (ccBash silent_call ?tc demo_policy) (tcCommand ?tc)
        (bcExemptions (ccBash silent_call ?tc demo_policy) 0) ?s)"
    "counted demo_policy ?v" "Severity (vDecision ?v) = 2"
    "Evaluate silent_call ?tc demo_policy \<noteq> panic_recovered"
    "vDecision (Evaluate silent_call ?tc demo_policy) \<noteq> Complete"
    by code_simp+
  with Evaluate_keeps_bash_hits [of silent_call ?tc demo_policy 0 ?s ?v]
  have "2 \<le> Severity (vDecision (Evaluate silent_call ?tc demo_policy))" by simp
  then show ?thesis using \<open>vDecision (Evaluate silent_call ?tc demo_policy) \<noteq> Complete\<close>
    by (cases "vDecision (Evaluate silent_call ?tc demo_policy)") auto
qed

text \<open>The policy's own rules are applied in order: the first rule that matches the call decides the
  overlay verdict, it is not a waived one, and unless a rule family panicked (which asks) the final
  verdict is at least as severe as that rule's decision.\<close>

lemma Evaluate_applies_overlay_rules:
  assumes "early_verdict cc tc pol = None" and "Rules pol = before @ r # after"
    and "\<forall>q\<in>set before. \<not> overlay_rule_matches (ccGlob cc) tc pol q"
    and "overlay_rule_matches (ccGlob cc) tc pol r"
  shows "matchOverlayRules (ccGlob cc) tc pol = Some (mk_verdict (rDecision r) (rID r) (rReason r)) \<and>
         \<not> waived pol (rID r) \<and>
         (Evaluate cc tc pol = panic_recovered \<or>
          Severity (rDecision r) \<le> Severity (vDecision (Evaluate cc tc pol)))"
proof -
  have "find (overlay_rule_matches (ccGlob cc) tc pol) (Rules pol) = Some r"
    using find_first_match [of before] assms(2-4) by simp
  then have m: "matchOverlayRules (ccGlob cc) tc pol = Some (mk_verdict (rDecision r) (rID r) (rReason r))"
    by (simp add: matchOverlayRules_def)
  have "Evaluate cc tc pol = panic_recovered \<or>
      Severity (rDecision r) \<le> Severity (vDecision (Evaluate cc tc pol))"
  proof (cases "call_hits cc tc pol")
    case Panics
    with assms(1) show ?thesis by (simp add: Evaluate_panic)
  next
    case (Returns hits)
    then have "Some (mk_verdict (rDecision r) (rID r) (rReason r)) \<in> set hits"
      by (auto simp: call_hits_def bind_outcome_Returns m split: prod.splits)
    from Evaluate_hits(2) [OF assms(1) Returns this] show ?thesis by simp
  qed
  with m assms(4) show ?thesis by (simp add: overlay_rule_matches_def)
qed

end
