(* ===== verification/Hook.thy ===== *)
theory Hook
  imports Evaluate_Call Action_Grants Command_Grants Tickets
begin

text \<open>
  The hook: \<^verbatim>\<open>cmdHook\<close> of \<^verbatim>\<open>src/cmd/guardrail/hook.go\<close> with the operator-action answer of
  \<^verbatim>\<open>src/cmd/guardrail/approval_mode.go\<close>.  It composes every component: the engine's verdict, the
  session transaction with the trifecta and the OpenCode approvals, night mode, the two kinds of
  grant, and the audit write that every relaxation depends on.

  \<open>hook_world\<close> is the state on the machine that a call can change.  \<open>hook_input\<close> is what the call and the
  configuration files gave; \<open>hook_env\<close> is how the machine's steps went during this call (transactions,
  locks, writes, clock readings, the daemon and the broker), with the parts of the engine that are
  arguments elsewhere.  Text on the error stream is kept as \<open>hook_warning\<close> values.  The session-start
  text and the wire format of a verdict are output only.
\<close>

section \<open>Approval modes and operator actions\<close>

text \<open>\<^verbatim>\<open>unconfiguredApprovalMode\<close> has its production value.\<close>

definition unconfiguredApprovalMode :: string where
  "unconfiguredApprovalMode = ApprovalPrompt"

definition approvalModeOf :: "operator_config option \<Rightarrow> bool \<Rightarrow> string" where
  "approvalModeOf op err =
     (if err then ApprovalPasskey
      else (case op of
              None \<Rightarrow> unconfiguredApprovalMode
            | Some o' \<Rightarrow> if Approval o' = '''' then unconfiguredApprovalMode else ApprovalMode op))"

definition operator_verdict :: "decision \<Rightarrow> string \<Rightarrow> string \<Rightarrow> op_action \<Rightarrow> verdict" where
  "operator_verdict d rule reason a = (mk_verdict d rule reason)\<lparr>vOperatorAction := oaName a\<rparr>"

definition backquote :: string where "backquote = [CHR 0x60]"

definition promptOperatorVerdict ::
  "ticket_env \<Rightarrow> ticket_io \<Rightarrow> string \<Rightarrow> tool_call \<Rightarrow> op_action \<Rightarrow> time \<Rightarrow> ticket_store \<Rightarrow> verdict \<times> ticket_store"
where
  "promptOperatorVerdict tenv tio plane tc a now st =
     (let mint = IssueTicket tenv tio
            \<lparr>tkVersion = 0, tkCommand = oaCommand a, tkCWD = tcCWD tc, tkRepoRoot = tcRepoRoot tc,
             tkPlane = plane, tkAction = oaName a, tkSessionDigest = '''', tkIssuedAt = 0,
             tkExpiresAt = 0\<rparr> (tcSessionID tc) now st;
          ticketFailure = operator_verdict Deny ''operator-action-ticket''
            (''the approval could not be recorded, so the operator action was not asked for; failing '' @
             ''closed. The operator can run '' @ backquote @ oaCommand a @ backquote @ '' in their terminal'') a;
          askv = operator_verdict Ask ''operator-action-ask''
            (''guardrail operator action: '' @ Summary a @ '' '' @ em_dash @ '' '' @ backquote @ oaCommand a @ backquote) a
      in if plane = ''codex'' then
           (operator_verdict Deny ''operator-action-terminal''
              (''guardrail operator action ('' @ Summary a @ '') needs the operator'' @ [CHR 39] @
               ''s approval, and Codex cannot ask for it from a hook; ask the operator to run '' @
               backquote @ oaCommand a @ backquote @ '' in their terminal'') a, st)
         else if plane = ''opencode'' then
           (if \<not> tcHostApproved tc then (askv, st)
            else (case mint of
                    (False, st') \<Rightarrow> (ticketFailure, st')
                  | (True, st') \<Rightarrow>
                      (operator_verdict Allow ''operator-action-host-approved''
                         (''operator approved in the opencode dialog: '' @ Summary a) a, st')))
         else (case mint of
                 (False, st') \<Rightarrow> (ticketFailure, st')
               | (True, st') \<Rightarrow> (askv, st')))"

section \<open>The hook's state, input and environment\<close>

record hook_world =
  hwSessions :: session_disk
  hwOperator :: operator_config
  hwActions :: action_store
  hwTickets :: ticket_store

record hook_input =
  hiPlane :: string
  hiCall :: "tool_call option"
  hiPolicy :: "policy option"
  hiOp :: "operator_config option"
  hiOpErr :: bool
  hiNightActive :: bool
  hiNightUntil :: string
  hiNightBanner :: string

record hook_env =
  heChecks :: call_checks
  hePrivate :: bool
  heNetwork :: bool
  heApprovalKey :: "tool_call \<Rightarrow> string option"
  heDaemon :: "verdict option"
  heRecipeSession :: "verdict option"
  heRecipe :: "verdict option"
  heBroker :: "(string \<times> string) option"
  heSessionName :: "string \<Rightarrow> string"
  heTxn :: txn_io
  heFs :: filesystem
  heGrantIO :: grant_io
  heActionEnv :: action_env
  hePatchCommand :: "string \<Rightarrow> string option"
  heActionDir :: bool
  heActionConsume :: action_io
  heActionCreate :: action_io
  heTicketEnv :: ticket_env
  heTicketIO :: ticket_io
  heAudit :: bool
  heNowApproval :: time
  heNowGrant :: time
  heNowSpend :: time
  heNowConsume :: time
  heNowCreate :: time
  heNowPrompt :: time

datatype hook_warning =
    WarnTicketsNotVoided
  | WarnCommittedUnreleased
  | WarnSessionFailed
  | WarnGrantNotSpent
  | WarnActionUnavailable
  | WarnAuditFailed
  | WarnUseLost

datatype hook_result = FailedClosed | SessionStarted | Emitted verdict

section \<open>The verdict before any grant\<close>

definition operatorActionOf :: "hook_input \<Rightarrow> tool_call \<Rightarrow> op_action option" where
  "operatorActionOf hin tc =
     (case OperatorAction tc of
        None \<Rightarrow> None
      | Some a \<Rightarrow>
          if approvalModeOf (hiOp hin) (hiOpErr hin) = ApprovalPasskey \<and> \<not> Brokered a then None
          else Some a)"

definition approval_enabled :: "hook_env \<Rightarrow> hook_input \<Rightarrow> tool_call \<Rightarrow> bool" where
  "approval_enabled env hin tc \<longleftrightarrow> heApprovalKey env tc \<noteq> None \<and> \<not> hiNightActive hin"

definition needs_p7 :: "tool_call \<Rightarrow> policy \<Rightarrow> bool" where
  "needs_p7 tc pol \<longleftrightarrow> tcEvent tc = ''pre'' \<and> TrifectaTrackingEnabled pol"

definition needs_announcement :: "hook_input \<Rightarrow> tool_call \<Rightarrow> bool" where
  "needs_announcement hin tc \<longleftrightarrow> hiNightActive hin \<and> tcEvent tc = ''pre'' \<and> hiPlane hin \<noteq> ''claude''"

definition needs_state :: "hook_env \<Rightarrow> hook_input \<Rightarrow> tool_call \<Rightarrow> policy \<Rightarrow> bool" where
  "needs_state env hin tc pol \<longleftrightarrow>
     tcSessionID tc \<noteq> '''' \<and>
     (needs_p7 tc pol \<or> approval_enabled env hin tc \<or> needs_announcement hin tc)"

text \<open>The trifecta's answer replaces the verdict when there is one.\<close>

definition escalated :: "verdict \<Rightarrow> verdict option \<Rightarrow> verdict" where
  "escalated v esc = (case esc of None \<Rightarrow> v | Some e \<Rightarrow> e)"

definition evaluated_verdict ::
  "hook_env \<Rightarrow> tool_call \<Rightarrow> policy \<Rightarrow> session_state option \<Rightarrow> verdict \<times> session_state option" where
  "evaluated_verdict env tc pol st =
     (let v = Evaluate (heChecks env) tc pol
      in if needs_p7 tc pol
         then (let r = ApplyTrifecta v (hePrivate env) (heNetwork env) st pol
               in (escalated v (fst r), snd r))
         else (v, st))"

text \<open>The transaction's callback: whether to announce night mode, the verdict, and the new state.\<close>

definition announce_state :: "hook_input \<Rightarrow> tool_call \<Rightarrow> session_state \<Rightarrow> bool \<times> session_state" where
  "announce_state hin tc st =
     (if needs_announcement hin tc \<and>
         lookup_default '''' (NightModeAnnouncements st) (hiPlane hin) \<noteq> hiNightUntil hin
      then (True, st\<lparr>NightModeAnnouncements :=
              upd_assoc (hiPlane hin) (hiNightUntil hin) (NightModeAnnouncements st)\<rparr>)
      else (False, st))"

definition approved_verdict ::
  "hook_env \<Rightarrow> hook_input \<Rightarrow> tool_call \<Rightarrow> verdict \<times> session_state option \<Rightarrow> verdict \<times> session_state option"
where
  "approved_verdict env hin tc vs =
     (if \<not> approval_enabled env hin tc then vs
      else (let key = (case heApprovalKey env tc of Some k \<Rightarrow> k | None \<Rightarrow> '''')
            in if tcHostApproved tc then ApplyOpenCodeHostApproval (fst vs) key (snd vs)
               else ApplyOpenCodeApproval (fst vs) key (snd vs) (heNowApproval env)))"

definition session_callback ::
  "hook_env \<Rightarrow> hook_input \<Rightarrow> tool_call \<Rightarrow> policy \<Rightarrow> session_state \<Rightarrow> bool \<times> verdict \<times> session_state" where
  "session_callback env hin tc pol st =
     (let (announce, st1) = announce_state hin tc st;
          (v, st2) = approved_verdict env hin tc (evaluated_verdict env tc pol (Some st1))
      in (announce, v, case st2 of Some s \<Rightarrow> s | None \<Rightarrow> st1))"

definition operator_action_verdict ::
  "hook_env \<Rightarrow> hook_input \<Rightarrow> tool_call \<Rightarrow> policy \<Rightarrow> op_action \<Rightarrow> ticket_store \<Rightarrow> verdict \<times> ticket_store" where
  "operator_action_verdict env hin tc pol a st =
     (case OperatorActionSatisfied a (Some pol) (hiOp hin) of
        Some reason \<Rightarrow> (operator_verdict Deny ''operator-action-satisfied'' reason a, st)
      | None \<Rightarrow>
          if approvalModeOf (hiOp hin) (hiOpErr hin) = ApprovalPrompt then
            promptOperatorVerdict (heTicketEnv env) (heTicketIO env) (hiPlane hin) tc a (heNowPrompt env) st
          else (case heBroker env of
                  None \<Rightarrow> (mk_verdict Deny ''operator-action-broker''
                            ''operator-action request could not be recorded; failing closed'', st)
                | Some (rid, url) \<Rightarrow>
                    ((operator_verdict Complete ''operator-action''
                        ''operator action requires broker approval'' a)
                        \<lparr>vRequestID := rid, vApprovalURL := url\<rparr>, st)))"

text \<open>The result: whether night mode is announced, the verdict, the warnings and the world.\<close>

definition first_verdict ::
  "hook_env \<Rightarrow> hook_input \<Rightarrow> tool_call \<Rightarrow> policy \<Rightarrow> hook_world \<Rightarrow>
   bool \<times> verdict \<times> hook_warning list \<times> hook_world" where
  "first_verdict env hin tc pol w =
     (let plain = fst (evaluated_verdict env tc pol None);
          announce0 = (needs_announcement hin tc \<and> tcSessionID tc = '''')
      in if tcEvent tc = ''session-completion'' then
           (announce0,
            (case heRecipeSession env of
               Some rv \<Rightarrow> rv
             | None \<Rightarrow> mk_verdict Allow ''P8.recipe-lint'' ''session checks passed''), [], w)
         else (case (if tcEvent tc = ''pre'' then operatorActionOf hin tc else None) of
                 Some a \<Rightarrow>
                   (case operator_action_verdict env hin tc pol a (hwTickets w) of
                      (v, ts) \<Rightarrow> (announce0, v, [], w\<lparr>hwTickets := ts\<rparr>))
               | None \<Rightarrow>
                   if tcEvent tc = ''pre'' \<and> needs_state env hin tc pol then
                     (case Transaction (heSessionName env) (heTxn env) (tcSessionID tc)
                             (\<lambda>st. (None :: unit option, snd (snd (session_callback env hin tc pol st))))
                             (hwSessions w) of
                        (err, d) \<Rightarrow>
                          (let (announce, v, _) = session_callback env hin tc pol
                                 (session_view (heSessionName env) (tcSessionID tc) (hwSessions w))
                           in if committed err then
                                (announce, v,
                                 (if err = None then [] else [WarnCommittedUnreleased]),
                                 w\<lparr>hwSessions := d\<rparr>)
                              else (needs_announcement hin tc, plain, [WarnSessionFailed],
                                    w\<lparr>hwSessions := d\<rparr>)))
                   else (announce0, plain, [], w)))"

section \<open>Relaxation and audit\<close>

definition grant_stage ::
  "hook_env \<Rightarrow> hook_input \<Rightarrow> tool_call \<Rightarrow> verdict \<Rightarrow> hook_world \<Rightarrow>
   verdict \<times> bool \<times> hook_warning list \<times> hook_world" where
  "grant_stage env hin tc v w =
     (let granted = ApplyCommandGrant (heFs env) v tc (hiOp hin) (heNowGrant env)
      in if operatorActionOf hin tc = None \<and> vDecision v = Ask \<and> tcEvent tc = ''pre'' \<and>
            vDecision granted = Allow
         then (case consumeCommandGrant (heFs env) (heGrantIO env) (tcRepoRoot tc) (vRuleID v)
                      (tcCommand tc) (heNowSpend env) (hwOperator w) of
                 (good, spent, disk) \<Rightarrow>
                   if \<not> good then (v, False, [WarnGrantNotSpent], w\<lparr>hwOperator := disk\<rparr>)
                   else if spent then (granted, True, [], w\<lparr>hwOperator := disk\<rparr>)
                   else (v, False, [], w\<lparr>hwOperator := disk\<rparr>))
         else (v, False, [], w))"

definition action_stage ::
  "hook_env \<Rightarrow> hook_input \<Rightarrow> tool_call \<Rightarrow> verdict \<Rightarrow> hook_world \<Rightarrow>
   verdict \<times> bool \<times> hook_warning list \<times> hook_world" where
  "action_stage env hin tc v w =
     (if operatorActionOf hin tc \<noteq> None then (v, False, [], w)
      else (case exactActionVerdict (heActionEnv env) (hePatchCommand env) (heActionDir env)
                   (heActionConsume env) (heActionCreate env) (heNowConsume env) (heNowCreate env)
                   tc v (hwActions w) of
              (Inl e, st) \<Rightarrow> (v, False, [WarnActionUnavailable], w\<lparr>hwActions := st\<rparr>)
            | (Inr (v', spent), st) \<Rightarrow> (v', spent, [], w\<lparr>hwActions := st\<rparr>)))"

definition prependVerdictReason :: "verdict \<Rightarrow> string \<Rightarrow> verdict" where
  "prependVerdictReason v pre =
     v\<lparr>vReason := (if vReason v = '''' then pre else pre @ ''; '' @ vReason v)\<rparr>"

definition audit_stage ::
  "hook_env \<Rightarrow> hook_input \<Rightarrow> bool \<Rightarrow> verdict \<Rightarrow> bool \<Rightarrow> bool \<Rightarrow> verdict \<Rightarrow> verdict \<times> hook_warning list" where
  "audit_stage env hin announce normal nightAllowed grantAllowed v =
     (if heAudit env then (v, [])
      else (let v1 = (if nightAllowed
                      then (if announce then prependVerdictReason normal (hiNightBanner hin) else normal)
                      else v)
            in if grantAllowed then (normal, [WarnAuditFailed, WarnUseLost])
               else (v1, [WarnAuditFailed])))"

definition normal_verdict :: "hook_env \<Rightarrow> verdict \<Rightarrow> verdict" where
  "normal_verdict env v =
     (if vDecision v = Allow then (case heRecipe env of Some rv \<Rightarrow> rv | None \<Rightarrow> v) else v)"

definition decide ::
  "hook_env \<Rightarrow> hook_input \<Rightarrow> tool_call \<Rightarrow> policy \<Rightarrow> hook_world \<Rightarrow> verdict \<times> hook_warning list \<times> hook_world" where
  "decide env hin tc pol w =
     (let (announce, v0, warn0, w0) = first_verdict env hin tc pol w;
          normal = normal_verdict env v0;
          v1 = (if operatorActionOf hin tc = None then ApplyNightMode normal (hiNightActive hin) else normal);
          nightAllowed = (vDecision normal = Ask \<and> vDecision v1 = Allow \<and>
                          vRuleID v1 = ''ask-allowed-by-night-mode'');
          (v2, granted, warn2, w2) = grant_stage env hin tc v1 w0;
          (v3, spent, warn3, w3) = action_stage env hin tc v2 w2;
          v4 = (if announce then prependVerdictReason v3 (hiNightBanner hin) else v3);
          (v5, warn5) = audit_stage env hin announce normal nightAllowed (granted \<or> spent) v4
      in (v5, warn0 @ warn2 @ warn3 @ warn5, w3))"

section \<open>The hook\<close>

definition cmdHook ::
  "hook_env \<Rightarrow> hook_input \<Rightarrow> hook_world \<Rightarrow> hook_result \<times> hook_warning list \<times> hook_world" where
  "cmdHook env hin w =
     (if hiPlane hin \<notin> set [''codex'', ''claude'', ''opencode'', ''antigravity''] then (FailedClosed, [], w)
      else (case hiCall hin of
              None \<Rightarrow> (FailedClosed, [], w)
            | Some tc \<Rightarrow>
                (let void = tcEvent tc = ''pre'' \<and> tcSessionID tc \<noteq> '''';
                     (voided, ts) = (if void
                       then VoidSessionTickets (heTicketEnv env) (heTicketIO env) (tcSessionID tc)
                              (case OperatorAction tc of Some a \<Rightarrow> oaCommand a | None \<Rightarrow> '''')
                              (tcCWD tc) (hwTickets w)
                       else (True, hwTickets w));
                     w1 = w\<lparr>hwTickets := ts\<rparr>;
                     warn = (if voided then [] else [WarnTicketsNotVoided])
                 in case (if tcEvent tc \<noteq> ''session-start'' \<and> tcEvent tc \<noteq> ''session-completion'' \<and>
                             OperatorAction tc = None then heDaemon env else None) of
                      Some v \<Rightarrow> (Emitted v, [], w1)
                    | None \<Rightarrow>
                        (case hiPolicy hin of
                           None \<Rightarrow> (FailedClosed, warn, w1)
                         | Some pol \<Rightarrow>
                             if tcEvent tc = ''session-start'' then (SessionStarted, warn, w1)
                             else (case decide env hin tc pol w1 of
                                     (v, ws, w2) \<Rightarrow> (Emitted v, warn @ ws, w2))))))"

section \<open>What each stage can change\<close>

lemma prepend_fields [simp]:
  "vDecision (prependVerdictReason v t) = vDecision v" "vRuleID (prependVerdictReason v t) = vRuleID v"
  "vOriginRuleID (prependVerdictReason v t) = vOriginRuleID v"
  by (simp_all add: prependVerdictReason_def)

lemma ApplyTrifecta_not_allow: "vDecision v \<noteq> Allow \<Longrightarrow> fst (ApplyTrifecta v p n st pol) = None"
  by (simp add: ApplyTrifecta_def Let_def split: option.split)

lemma evaluated_not_allow:
  assumes "vDecision (Evaluate (heChecks env) tc pol) \<noteq> Allow"
  shows "fst (evaluated_verdict env tc pol st) = Evaluate (heChecks env) tc pol"
  using ApplyTrifecta_not_allow [OF assms] by (simp add: evaluated_verdict_def Let_def escalated_def)

lemma approved_traced:
  "fst (approved_verdict env hin tc vs) = fst vs \<or>
   (approval_enabled env hin tc \<and> vDecision (fst vs) = Ask \<and>
    vDecision (fst (approved_verdict env hin tc vs)) = Allow \<and>
    vOriginRuleID (fst (approved_verdict env hin tc vs)) = vRuleID (fst vs))"
  using retry.traced [of "fst vs"] host_approval.traced [of "fst vs"]
  by (simp add: approved_verdict_def Let_def)

lemma session_callback_verdict:
  "fst (snd (session_callback env hin tc pol st)) =
   fst (approved_verdict env hin tc
     (evaluated_verdict env tc pol (Some (snd (announce_state hin tc st)))))"
  by (simp add: session_callback_def Let_def case_prod_beta)

text \<open>A verdict that is not an allow reaches the relaxations unless an OpenCode approval answers it.\<close>

lemma first_verdict_engine:
  assumes "tcEvent tc \<noteq> ''session-completion''" and "operatorActionOf hin tc = None"
    and "vDecision (Evaluate (heChecks env) tc pol) \<noteq> Allow"
  shows "fst (snd (first_verdict env hin tc pol w)) = Evaluate (heChecks env) tc pol \<or>
    (approval_enabled env hin tc \<and> vDecision (Evaluate (heChecks env) tc pol) = Ask)"
proof -
  let ?v = "Evaluate (heChecks env) tc pol"
  have plain: "fst (evaluated_verdict env tc pol st) = ?v" for st using assms(3) by (rule evaluated_not_allow)
  have cb: "fst (snd (session_callback env hin tc pol st)) = ?v \<or>
      (approval_enabled env hin tc \<and> vDecision ?v = Ask)" for st
    unfolding session_callback_verdict
    using approved_traced [of env hin tc
        "evaluated_verdict env tc pol (Some (snd (announce_state hin tc st)))"]
    unfolding plain by blast
  show ?thesis
    using assms(1,2) cb plain
    by (simp add: first_verdict_def Let_def case_prod_beta split: option.split)
qed

lemma grant_stage_cases:
  assumes "grant_stage env hin tc v w = (v', granted, warn, w')"
  shows "(v' = v \<and> \<not> granted) \<or>
     (granted \<and> operatorActionOf hin tc = None \<and> vDecision v = Ask \<and> vDecision v' = Allow \<and>
      \<not> NeverGrantable (vRuleID v) \<and> vOriginRuleID v' = vRuleID v \<and>
      consumeCommandGrant (heFs env) (heGrantIO env) (tcRepoRoot tc) (vRuleID v) (tcCommand tc)
        (heNowSpend env) (hwOperator w) = (True, True, hwOperator w'))"
proof -
  let ?g = "ApplyCommandGrant (heFs env) v tc (hiOp hin) (heNowGrant env)"
  have "vDecision v = Ask \<Longrightarrow> vDecision ?g = Allow \<Longrightarrow>
      \<not> NeverGrantable (vRuleID v) \<and> vOriginRuleID ?g = vRuleID v"
    using command_grant.traced [of "heFs env" v tc "hiOp hin" "heNowGrant env"]
      command_grant.guard [of v "heFs env" tc "hiOp hin" "heNowGrant env"] by force
  then show ?thesis
    using assms by (auto simp: grant_stage_def Let_def split: if_splits prod.splits)
qed

lemma action_stage_not_ask:
  assumes "vDecision v \<noteq> Ask"
  shows "action_stage env hin tc v w = (v, False, [], w)"
proof -
  have "ExactGrantAction (hePatchCommand env) tc v = None" using assms by (simp add: ExactGrantAction_def)
  then show ?thesis by (simp add: action_stage_def exactActionVerdict_def)
qed

lemma action_stage_cases:
  assumes "action_stage env hin tc v w = (v', spent, warn, w')" and "distinct (map fst (hwActions w))"
  shows "(\<not> spent \<and> vDecision v' = vDecision v \<and> vRuleID v' = vRuleID v) \<or>
     (spent \<and> operatorActionOf hin tc = None \<and> vDecision v = Ask \<and> vDecision v' = Allow \<and>
      \<not> NeverGrantable (vRuleID v) \<and> vOriginRuleID v' = vRuleID v \<and>
      (\<exists>q. map_of (hwActions w) (vRequestID v') = Some (Some q) \<and> aqStatus q = ''approved'' \<and>
           map_of (hwActions w') (vRequestID v') = Some (Some (q\<lparr>aqStatus := ''consumed''\<rparr>))))"
proof (cases "operatorActionOf hin tc")
  case (Some a)
  with assms show ?thesis by (simp add: action_stage_def)
next
  case None
  obtain res st where x: "exactActionVerdict (heActionEnv env) (hePatchCommand env) (heActionDir env)
      (heActionConsume env) (heActionCreate env) (heNowConsume env) (heNowCreate env) tc v
      (hwActions w) = (res, st)" by fastforce
  show ?thesis
  proof (cases res)
    case (Inl e)
    with assms None x show ?thesis by (auto simp: action_stage_def)
  next
    case (Inr p)
    obtain u b where p: "p = (u, b)" by (cases p)
    have out: "v' = u" "spent = b" "hwActions w' = st"
      using assms(1) None x Inr p by (auto simp: action_stage_def)
    show ?thesis
      using exactActionVerdict_effect [OF x [unfolded Inr p] assms(2)] None out
      by (auto simp: approved_for_def)
  qed
qed

section \<open>The whole decision\<close>

text \<open>The verdict the relaxations start from.\<close>

definition hook_normal :: "hook_env \<Rightarrow> hook_input \<Rightarrow> tool_call \<Rightarrow> policy \<Rightarrow> hook_world \<Rightarrow> verdict" where
  "hook_normal env hin tc pol w = normal_verdict env (fst (snd (first_verdict env hin tc pol w)))"

lemma first_verdict_world:
  assumes "first_verdict env hin tc pol w = (announce, v, warn, w')"
  shows "hwOperator w' = hwOperator w" and "hwActions w' = hwActions w"
  using assms by (auto simp: first_verdict_def Let_def split: if_splits option.splits prod.splits)

text \<open>One run of \<open>decide\<close>, taken apart.\<close>

lemma decide_stages:
  assumes "decide env hin tc pol w = (v, ws, w')"
  obtains announce warn0 w0 v1 v2 granted warn2 w2 v3 spent warn3 v4 warn5 where
    "v1 = (if operatorActionOf hin tc = None
           then ApplyNightMode (hook_normal env hin tc pol w) (hiNightActive hin)
           else hook_normal env hin tc pol w)"
    "grant_stage env hin tc v1 w0 = (v2, granted, warn2, w2)"
    "action_stage env hin tc v2 w2 = (v3, spent, warn3, w')"
    "vDecision v4 = vDecision v3" "vRuleID v4 = vRuleID v3" "vOriginRuleID v4 = vOriginRuleID v3"
    "vRequestID v4 = vRequestID v3"
    "audit_stage env hin announce (hook_normal env hin tc pol w)
       (vDecision (hook_normal env hin tc pol w) = Ask \<and> vDecision v1 = Allow \<and>
        vRuleID v1 = ''ask-allowed-by-night-mode'') (granted \<or> spent) v4 = (v, warn5)"
    "hwOperator w0 = hwOperator w" "hwActions w0 = hwActions w"
proof -
  obtain announce v0 warn0 w0 where f: "first_verdict env hin tc pol w = (announce, v0, warn0, w0)"
    by (metis prod_cases4)
  let ?n = "hook_normal env hin tc pol w"
  have n: "?n = normal_verdict env v0" by (simp add: hook_normal_def f)
  let ?v1 = "if operatorActionOf hin tc = None then ApplyNightMode ?n (hiNightActive hin) else ?n"
  obtain v2 granted warn2 w2 where g: "grant_stage env hin tc ?v1 w0 = (v2, granted, warn2, w2)"
    by (metis prod_cases4)
  obtain v3 spent warn3 w3 where a: "action_stage env hin tc v2 w2 = (v3, spent, warn3, w3)"
    by (metis prod_cases4)
  let ?v4 = "if announce then prependVerdictReason v3 (hiNightBanner hin) else v3"
  obtain v5 warn5 where au: "audit_stage env hin announce ?n
      (vDecision ?n = Ask \<and> vDecision ?v1 = Allow \<and> vRuleID ?v1 = ''ask-allowed-by-night-mode'')
      (granted \<or> spent) ?v4 = (v5, warn5)" by fastforce
  have "decide env hin tc pol w = (v5, warn0 @ warn2 @ warn3 @ warn5, w3)"
    unfolding decide_def Let_def f n [symmetric] prod.case g a au ..
  with assms have "v5 = v" "w3 = w'" by simp_all
  with au have "audit_stage env hin announce ?n
      (vDecision ?n = Ask \<and> vDecision ?v1 = Allow \<and> vRuleID ?v1 = ''ask-allowed-by-night-mode'')
      (granted \<or> spent) ?v4 = (v, warn5)" by simp
  then show thesis
    using that [of ?v1 w0 v2 granted warn2 w2 v3 spent warn3 ?v4 announce warn5] g a \<open>w3 = w'\<close>
      first_verdict_world [OF f] by (simp add: prependVerdictReason_def)
qed

lemma night_traced:
  "ApplyNightMode n active = n \<or>
   (active \<and> vDecision n = Ask \<and> \<not> NeverRelaxable (vRuleID n) \<and>
    vDecision (ApplyNightMode n active) = Allow \<and> vOriginRuleID (ApplyNightMode n active) = vRuleID n \<and>
    vRuleID (ApplyNightMode n active) = ''ask-allowed-by-night-mode'')"
  by (simp add: ApplyNightMode_def)

lemma decide_not_relaxable:
  assumes "decide env hin tc pol w = (v, ws, w')" and "vDecision (hook_normal env hin tc pol w) \<noteq> Ask"
  shows "vDecision v = vDecision (hook_normal env hin tc pol w) \<and>
         vRuleID v = vRuleID (hook_normal env hin tc pol w)"
proof (rule decide_stages [OF assms(1)])
  fix announce warn0 w0 v1 v2 granted warn2 w2 v3 spent warn3 v4 warn5
  let ?n = "hook_normal env hin tc pol w"
  assume v1: "v1 = (if operatorActionOf hin tc = None then ApplyNightMode ?n (hiNightActive hin) else ?n)"
    and g: "grant_stage env hin tc v1 w0 = (v2, granted, warn2, w2)"
    and a: "action_stage env hin tc v2 w2 = (v3, spent, warn3, w')"
    and v4: "vDecision v4 = vDecision v3" "vRuleID v4 = vRuleID v3"
    and au: "audit_stage env hin announce ?n (vDecision ?n = Ask \<and> vDecision v1 = Allow \<and>
        vRuleID v1 = ''ask-allowed-by-night-mode'') (granted \<or> spent) v4 = (v, warn5)"
  have "v1 = ?n" using v1 night_traced [of ?n] assms(2) by auto
  moreover have "v2 = v1 \<and> \<not> granted" using grant_stage_cases [OF g] assms(2) \<open>v1 = ?n\<close> by blast
  moreover have "v3 = v2 \<and> \<not> spent"
    using a action_stage_not_ask [of v2] assms(2) calculation by simp
  ultimately show ?thesis using au v4 assms(2) by (auto simp: audit_stage_def split: if_splits)
qed

text \<open>C2: A deny is final: when the engine denies a call, nothing the hook does afterwards (session
  transaction, OpenCode approval, recipe check, night mode, either kind of grant, audit fallback)
  changes the decision or the rule it names.\<close>

theorem hook_deny_final:
  assumes "cmdHook env hin w = (Emitted v, ws, w')" and "hiCall hin = Some tc" and "hiPolicy hin = Some pol"
    and "heDaemon env = None" and "tcEvent tc \<noteq> ''session-completion''"
    and "operatorActionOf hin tc = None" and "vDecision (Evaluate (heChecks env) tc pol) = Deny"
  shows "vDecision v = Deny \<and> vRuleID v = vRuleID (Evaluate (heChecks env) tc pol)"
proof -
  from assms(1-4) obtain w1 ws' where d: "decide env hin tc pol w1 = (v, ws', w')"
    by (auto simp: cmdHook_def Let_def split: if_splits option.splits prod.splits)
  have "fst (snd (first_verdict env hin tc pol w1)) = Evaluate (heChecks env) tc pol"
    using first_verdict_engine [OF assms(5,6), of env pol w1] assms(7) by auto
  then have "hook_normal env hin tc pol w1 = Evaluate (heChecks env) tc pol"
    using assms(7) by (simp add: hook_normal_def normal_verdict_def)
  then show ?thesis using decide_not_relaxable [OF d] assms(7) by simp
qed

text \<open>C3: Every allow is accounted for: when the hook lets a call through, the verdict it started from was
  already an allow, or it was an ask of a rule that may be relaxed, the audit record was written, and
  the allow names that rule and was bought by active night mode, by one use of a command grant taken
  from the operator's file, or by an approved exact-action record that is now consumed.\<close>

theorem hook_allow_accounted:
  assumes "decide env hin tc pol w = (v, ws, w')" and "vDecision v = Allow"
    and "distinct (map fst (hwActions w))"
  shows "let n = hook_normal env hin tc pol w in
         vDecision n = Allow \<or>
         (vDecision n = Ask \<and> \<not> NeverRelaxable (vRuleID n) \<and> operatorActionOf hin tc = None \<and>
          heAudit env \<and> vOriginRuleID v = vRuleID n \<and>
          (hiNightActive hin \<or>
           (\<exists>disk. consumeCommandGrant (heFs env) (heGrantIO env) (tcRepoRoot tc) (vRuleID n) (tcCommand tc)
              (heNowSpend env) (hwOperator w) = (True, True, disk)) \<or>
           (\<exists>q. map_of (hwActions w) (vRequestID v) = Some (Some q) \<and> aqStatus q = ''approved'' \<and>
                map_of (hwActions w') (vRequestID v) = Some (Some (q\<lparr>aqStatus := ''consumed''\<rparr>)))))"
proof (rule decide_stages [OF assms(1)])
  fix announce warn0 w0 v1 v2 granted warn2 w2 v3 spent warn3 v4 warn5
  let ?n = "hook_normal env hin tc pol w"
  assume v1: "v1 = (if operatorActionOf hin tc = None then ApplyNightMode ?n (hiNightActive hin) else ?n)"
    and g: "grant_stage env hin tc v1 w0 = (v2, granted, warn2, w2)"
    and a: "action_stage env hin tc v2 w2 = (v3, spent, warn3, w')"
    and v4: "vDecision v4 = vDecision v3" "vRuleID v4 = vRuleID v3" "vOriginRuleID v4 = vOriginRuleID v3"
      "vRequestID v4 = vRequestID v3"
    and au: "audit_stage env hin announce ?n (vDecision ?n = Ask \<and> vDecision v1 = Allow \<and>
        vRuleID v1 = ''ask-allowed-by-night-mode'') (granted \<or> spent) v4 = (v, warn5)"
    and w0: "hwOperator w0 = hwOperator w" "hwActions w0 = hwActions w"
  have w2: "hwActions w2 = hwActions w"
    using g w0 by (auto simp: grant_stage_def Let_def split: if_splits prod.splits)
  note a' = action_stage_cases [OF a, unfolded w2, OF assms(3)]
  have never: "\<And>r. \<not> NeverGrantable r \<Longrightarrow> \<not> NeverRelaxable r" by (simp add: NeverGrantable_def)
  show ?thesis
  proof (cases "vDecision ?n = Allow")
    case False
    have n: "vDecision ?n = Ask" using decide_not_relaxable [OF assms(1)] assms(2) False by auto
    consider (night) "v1 \<noteq> ?n" | (grant) "v1 = ?n" "granted" | (exact) "v1 = ?n" "\<not> granted" by blast
    then show ?thesis
    proof cases
      case night
      then have nt: "operatorActionOf hin tc = None" "hiNightActive hin" "\<not> NeverRelaxable (vRuleID ?n)"
        "vDecision v1 = Allow" "vOriginRuleID v1 = vRuleID ?n" "vRuleID v1 = ''ask-allowed-by-night-mode''"
        using v1 night_traced [of ?n "hiNightActive hin"] by (auto split: if_splits)
      have same: "v2 = v1" "\<not> granted" using grant_stage_cases [OF g] nt(4) by auto
      then have "v3 = v1" "\<not> spent" using a action_stage_not_ask [of v2] nt(4) by auto
      with same nt n au v4 assms(2) show ?thesis
        by (auto simp: audit_stage_def Let_def split: if_splits)
    next
      case grant
      then have gr: "operatorActionOf hin tc = None" "vDecision v2 = Allow" "\<not> NeverGrantable (vRuleID ?n)"
        "vOriginRuleID v2 = vRuleID ?n"
        "consumeCommandGrant (heFs env) (heGrantIO env) (tcRepoRoot tc) (vRuleID ?n) (tcCommand tc)
          (heNowSpend env) (hwOperator w) = (True, True, hwOperator w2)"
        using grant_stage_cases [OF g] w0 by auto
      have "v3 = v2" using a action_stage_not_ask [of v2] gr(2) by auto
      with gr n au v4 assms(2) grant never show ?thesis
        by (auto simp: audit_stage_def Let_def split: if_splits)
    next
      case exact
      have v2: "v2 = ?n" using grant_stage_cases [OF g] exact by auto
      have aud: "heAudit env" "spent" "vDecision v3 = Allow" "v = v4"
        using au v4 assms(2) exact n a' v2 by (auto simp: audit_stage_def split: if_splits)
      with a' v2 v4 n never show ?thesis by (auto simp: Let_def)
    qed
  qed (simp add: Let_def)
qed


text \<open>C22: An operator action is never relaxed: when the call is a recognised operator command, night mode
  and the grants leave it alone, so an ask, a deny or a request to the broker reaches the host as the
  operator-action step decided it, and no operator grant and no exact-action record is spent on it.\<close>

theorem operator_action_not_relaxed:
  assumes "decide env hin tc pol w = (v, ws, w')" and "tcEvent tc = ''pre''"
    and "operatorActionOf hin tc = Some a"
    and "vDecision (fst (operator_action_verdict env hin tc pol a (hwTickets w))) \<noteq> Allow"
  shows "vDecision v = vDecision (fst (operator_action_verdict env hin tc pol a (hwTickets w))) \<and>
         vRuleID v = vRuleID (fst (operator_action_verdict env hin tc pol a (hwTickets w))) \<and>
         hwOperator w' = hwOperator w \<and> hwActions w' = hwActions w"
proof (rule decide_stages [OF assms(1)])
  fix announce warn0 w0 v1 v2 granted warn2 w2 v3 spent warn3 v4 warn5
  let ?n = "hook_normal env hin tc pol w"
  assume v1: "v1 = (if operatorActionOf hin tc = None then ApplyNightMode ?n (hiNightActive hin) else ?n)"
    and g: "grant_stage env hin tc v1 w0 = (v2, granted, warn2, w2)"
    and a: "action_stage env hin tc v2 w2 = (v3, spent, warn3, w')"
    and v4: "vDecision v4 = vDecision v3" "vRuleID v4 = vRuleID v3"
    and au: "audit_stage env hin announce ?n (vDecision ?n = Ask \<and> vDecision v1 = Allow \<and>
        vRuleID v1 = ''ask-allowed-by-night-mode'') (granted \<or> spent) v4 = (v, warn5)"
    and w0: "hwOperator w0 = hwOperator w" "hwActions w0 = hwActions w"
  have n: "?n = fst (operator_action_verdict env hin tc pol a (hwTickets w))"
    using assms(2,3,4)
    by (simp add: hook_normal_def first_verdict_def normal_verdict_def case_prod_beta Let_def)
  have "v1 = ?n" "v2 = v1" "\<not> granted" "w2 = w0"
    using v1 g assms(3) by (auto simp: grant_stage_def Let_def split: if_splits prod.splits)
  moreover have "v3 = v2" "\<not> spent" "w' = w2" using a assms(3) by (auto simp: action_stage_def)
  ultimately show ?thesis using au v4 w0 n by (auto simp: audit_stage_def Let_def split: if_splits)
qed

section \<open>Worked runs\<close>

definition hook_start :: hook_world where
  "hook_start =
     \<lparr>hwSessions = \<lparr>sdV2 = (\<lambda>_. None), sdLegacy = (\<lambda>_. None)\<rparr>, hwOperator = emptyOperatorConfig,
      hwActions = [], hwTickets = []\<rparr>"

definition claude_input :: "string \<Rightarrow> policy \<Rightarrow> bool \<Rightarrow> hook_input" where
  "claude_input command pol active =
     \<lparr>hiPlane = ''claude'', hiCall = Some (demo_call command), hiPolicy = Some pol,
      hiOp = Some emptyOperatorConfig, hiOpErr = False, hiNightActive = active, hiNightUntil = ''08:00'',
      hiNightBanner = ''night mode''\<rparr>"

definition quiet_env :: "bool \<Rightarrow> hook_env" where
  "quiet_env audited =
     \<lparr>heChecks = silent_call, hePrivate = False, heNetwork = False, heApprovalKey = (\<lambda>_. None),
      heDaemon = None, heRecipeSession = None, heRecipe = None, heBroker = None,
      heSessionName = (\<lambda>s. s),
      heTxn = \<lparr>tioDirectories = True, tioLocked = True, tioWritten = True, tioUnlocked = True,
               tioStaleV2 = [], tioStaleLegacy = [], tioNow = ''t''\<rparr>,
      heFs = demo_fs, heGrantIO = good_gio, heActionEnv = demo_env, hePatchCommand = (\<lambda>_. None),
      heActionDir = True, heActionConsume = demo_aio, heActionCreate = demo_aio,
      heTicketEnv = demo_tenv, heTicketIO = good_tio, heAudit = audited, heNowApproval = 1000,
      heNowGrant = 1000, heNowSpend = 1000, heNowConsume = 1000, heNowCreate = 1000, heNowPrompt = 1000\<rparr>"

definition emitted_verdict :: "hook_result \<Rightarrow> verdict" where
  "emitted_verdict r = (case r of Emitted v \<Rightarrow> v | _ \<Rightarrow> mk_verdict Deny '''' '''')"

definition asking_policy :: policy where
  "asking_policy = demo_policy\<lparr>Rules :=
     [\<lparr>rID = ''R1'', rTool = ''bash'', rPattern = ''make deploy'', rDecision = Ask, rReason = ''''\<rparr>]\<rparr>"

theorem hook_deny_final_witness:
  "vDecision (emitted_verdict (fst (cmdHook (quiet_env True)
     (claude_input ''git push -f origin main'' demo_policy True) hook_start))) = Deny"
proof -
  let ?env = "quiet_env True" and ?hin = "claude_input ''git push -f origin main'' demo_policy True"
  let ?tc = "demo_call ''git push -f origin main''" and ?r = "cmdHook (quiet_env True)
     (claude_input ''git push -f origin main'' demo_policy True) hook_start"
  have "operatorActionOf ?hin ?tc = None" "vDecision (Evaluate (heChecks ?env) ?tc demo_policy) = Deny"
    "tcEvent ?tc \<noteq> ''session-completion''" "heDaemon ?env = None"
    "case fst ?r of Emitted v \<Rightarrow> True | _ \<Rightarrow> False"
    by code_simp+
  moreover have "hiCall ?hin = Some ?tc" "hiPolicy ?hin = Some demo_policy" by (simp_all add: claude_input_def)
  moreover obtain v ws w' where r: "?r = (Emitted v, ws, w')"
    using calculation(5) by (cases ?r) (auto split: hook_result.splits)
  ultimately have "vDecision v = Deny" using hook_deny_final [OF r] by blast
  with r show ?thesis by (simp add: emitted_verdict_def)
qed

theorem hook_allow_accounted_witness:
  "let n = hook_normal (quiet_env True) (claude_input ''make deploy'' asking_policy True)
       (demo_call ''make deploy'') asking_policy hook_start
   in vDecision n = Ask \<and> \<not> NeverRelaxable (vRuleID n)"
proof -
  let ?env = "quiet_env True" and ?hin = "claude_input ''make deploy'' asking_policy True"
  let ?tc = "demo_call ''make deploy''"
  let ?r = "decide ?env ?hin ?tc asking_policy hook_start"
  have r: "?r = (fst ?r, fst (snd ?r), snd (snd ?r))" by simp
  have "vDecision (fst ?r) = Allow" "distinct (map fst (hwActions hook_start))"
    "vDecision (hook_normal ?env ?hin ?tc asking_policy hook_start) \<noteq> Allow"
    by code_simp+
  with hook_allow_accounted [OF r] show ?thesis by (simp add: Let_def)
qed


theorem operator_action_not_relaxed_witness:
  "vDecision (fst (decide (quiet_env True) (claude_input ''guardrail night off'' demo_policy True)
     (demo_call ''guardrail night off'') demo_policy hook_start)) = Ask"
proof -
  let ?env = "quiet_env True" and ?hin = "claude_input ''guardrail night off'' demo_policy True"
  let ?tc = "demo_call ''guardrail night off''"
  let ?r = "decide ?env ?hin ?tc demo_policy hook_start"
  let ?a = "the (operatorActionOf ?hin ?tc)"
  have r: "?r = (fst ?r, fst (snd ?r), snd (snd ?r))" by simp
  have "operatorActionOf ?hin ?tc = Some ?a" "tcEvent ?tc = ''pre''"
    "vDecision (fst (operator_action_verdict ?env ?hin ?tc demo_policy ?a (hwTickets hook_start))) = Ask"
    by code_simp+
  with operator_action_not_relaxed [OF r] show ?thesis by simp
qed

end
