(* ===== verification/Operator_Commands.thy ===== *)
theory Operator_Commands
  imports Approved_Actions Hook
begin

text \<open>
  The operator's commands: \<^verbatim>\<open>guardrail egress\<close>, \<^verbatim>\<open>guardrail night\<close> and the record commands of
  \<^verbatim>\<open>guardrail approvals\<close> (\<^verbatim>\<open>src/cmd/guardrail/egress_cli.go\<close>, \<^verbatim>\<open>night.go\<close>, \<^verbatim>\<open>action_grants.go\<close>,
  \<^verbatim>\<open>approval_mode.go\<close>).

  A command runs at an operator terminal or inside an agent session.  In a session it changes something
  only in prompt mode and only by claiming the ticket the hook issued for this command line in this
  directory.  Flag parsing, clocks and the repository search are arguments; printed text is left out;
  the exit code is kept.
\<close>

section \<open>Invocations\<close>

record cli_env =
  ceInvocation :: "string list"
  ceCwd :: "string option"
  ceTickets :: ticket_env
  ceTicketIO :: ticket_io
  ceNow :: time
  ceLoadFails :: bool
  ceHandlers :: handler_env
  ceDigest :: "string \<Rightarrow> string"
  ceAudit :: audit_io
  ceNightExpiry :: "string \<Rightarrow> time \<Rightarrow> string option"
  ceRandom :: "string option"
  ceHostActions :: "string \<Rightarrow> (broker_request \<Rightarrow> operator_state \<Rightarrow> bool \<times> operator_state) option"
  ceRepoRoot :: "string \<Rightarrow> string option"

record cli_state =
  csTickets :: ticket_store
  csState :: operator_state

abbreviation cli_machine :: "cli_state \<Rightarrow> machine" where
  "cli_machine s \<equiv> snd (csState s)"

definition promptApprovalMode :: "cli_env \<Rightarrow> cli_state \<Rightarrow> bool" where
  "promptApprovalMode env s \<longleftrightarrow>
     approvalModeOf (Some (adOperator (mcAllowances (cli_machine s)))) (ceLoadFails env) = ApprovalPrompt"

definition invocationCommand :: "cli_env \<Rightarrow> string" where
  "invocationCommand env =
     (if ceInvocation env = [] then '''' else ''guardrail '' @ join '' '' (ceInvocation env))"

definition invocationDir :: "cli_env \<Rightarrow> string" where
  "invocationDir env = (case ceCwd env of None \<Rightarrow> '''' | Some cwd \<Rightarrow> cwd)"

definition ticketPresent :: "cli_env \<Rightarrow> cli_state \<Rightarrow> bool" where
  "ticketPresent env s \<longleftrightarrow>
     invocationCommand env \<noteq> '''' \<and> invocationDir env \<noteq> '''' \<and>
     PeekTicket (ceTickets env) (invocationCommand env) (invocationDir env) (ceNow env) (csTickets s)"

definition claimInvocationTicket :: "cli_env \<Rightarrow> cli_state \<Rightarrow> bool \<times> cli_state" where
  "claimInvocationTicket env s =
     (if invocationCommand env = '''' \<or> invocationDir env = '''' then (False, s)
      else (case ClaimTicket (ceTickets env) (ceTicketIO env) (invocationCommand env) (invocationDir env)
                   (ceNow env) (csTickets s) of
              (t, tickets) \<Rightarrow> (t \<noteq> None, s\<lparr>csTickets := tickets\<rparr>)))"

definition reachability :: "cli_env \<Rightarrow> bool \<Rightarrow> bool \<Rightarrow> cli_state \<Rightarrow> bool" where
  "reachability env prompt terminal s = (if terminal \<or> \<not> prompt then terminal else ticketPresent env s)"

datatype approval_outcome = ApprovalGranted | ApprovalDeclined | ApprovalUnreachable

text \<open>\<^verbatim>\<open>promptApproval\<close>: the ticket first, then the line typed at the terminal.\<close>

definition promptApproval ::
  "cli_env \<Rightarrow> bool \<Rightarrow> string \<Rightarrow> cli_state \<Rightarrow> (string \<times> approval_outcome) \<times> cli_state" where
  "promptApproval env terminal line s =
     (case claimInvocationTicket env s of
        (True, s') \<Rightarrow> ((''host-ask'', ApprovalGranted), s')
      | (False, s') \<Rightarrow>
          if \<not> terminal then (('''', ApprovalUnreachable), s')
          else if to_lower (trim_space line) = ''y'' \<or> to_lower (trim_space line) = ''yes''
          then ((''terminal-prompt'', ApprovalGranted), s')
          else (('''', ApprovalDeclined), s'))"

section \<open>The commands\<close>

definition local_apply :: "cli_env \<Rightarrow> broker_request \<Rightarrow> string \<Rightarrow> cli_state \<Rightarrow> bool \<times> cli_state" where
  "local_apply env r transport s =
     (case ApplyLocal (ceDigest env)
             (\<lambda>i. action_Read (haActionEnv (ceHandlers env)) (haActionIO (ceHandlers env)) i (ceNow env)
                    (mcActions (cli_machine s)))
             (ceNightExpiry env) (ceRandom env) (ceNow env)
             (registered (ceHostActions env) (ceDigest env) (ceAudit env) (ceHandlers env)) r transport (csState s) of
        (Inr applied, st) \<Rightarrow> (brStatus applied = ''completed'', s\<lparr>csState := st\<rparr>)
      | (Inl e, st) \<Rightarrow> (False, s\<lparr>csState := st\<rparr>))"

definition host_ask_request :: "string \<Rightarrow> string \<Rightarrow> string \<Rightarrow> (string \<times> string) list \<Rightarrow> broker_request" where
  "host_ask_request repo scope action params =
     zero_request\<lparr>brPlane := ''operator'', brSessionID := ''host-ask'', brRepoRoot := repo, brScope := scope,
       brReason := ''canonical operator action'', brAction := action, brParameters := params\<rparr>"

text \<open>The flags of \<^verbatim>\<open>egress\<close> are given parsed: the scope, the host list and the number of other
  arguments, or \<open>None\<close> when they do not parse.\<close>

definition cmdEgress ::
  "cli_env \<Rightarrow> string list \<Rightarrow> (string \<times> string \<times> nat) option \<Rightarrow> bool \<Rightarrow> string \<Rightarrow> cli_state \<Rightarrow> nat \<times> cli_state" where
  "cmdEgress env args flags operatorTerminal cwd s =
     (case args of
        [] \<Rightarrow> (2, s)
      | action # _ \<Rightarrow>
          if action = ''help'' \<or> action = ''-h'' \<or> action = ''--help'' then (0, s)
          else if action \<noteq> ''grant'' \<and> action \<noteq> ''revoke'' then (2, s)
          else (let hostApproved = (\<not> operatorTerminal \<and> promptApprovalMode env s)
                in if \<not> operatorTerminal \<and> \<not> hostApproved then (2, s)
                   else (case flags of
                      None \<Rightarrow> (2, s)
                    | Some (scope, hostList, narg) \<Rightarrow>
                        if narg \<noteq> 0 then (2, s)
                        else if scope \<noteq> ''repo'' \<and> scope \<noteq> ''global'' then (2, s)
                        else if hostList = '''' then (2, s)
                        else if list_ex (\<lambda>h. ValidateWebHost h \<noteq> None) (split_on CHR '','' hostList) then (2, s)
                        else if scope = ''repo'' \<and> ceRepoRoot env cwd = None then (2, s)
                        else (let repoRoot = (if scope = ''global'' then cwd
                                              else clean (case ceRepoRoot env cwd of Some r \<Rightarrow> r | None \<Rightarrow> ''''))
                              in if hostApproved then
                                   (case claimInvocationTicket env s of
                                      (False, s1) \<Rightarrow> (2, s1)
                                    | (True, s1) \<Rightarrow>
                                        (case local_apply env (host_ask_request repoRoot scope (''web-host-'' @ action)
                                                  [(''scope'', scope), (''hosts'', hostList)]) ''host-ask'' s1 of
                                           (good, s2) \<Rightarrow> (if good then 0 else 2, s2)))
                                 else (case applyWebHostBatch (split_on CHR '','' hostList) (action = ''grant'')
                                              (apply_host (ceHandlers env) (scope = ''global'') repoRoot)
                                              (mcAllowances (cli_machine s)) of
                                         (good, d) \<Rightarrow>
                                           (if good then 0 else 2,
                                            s\<lparr>csState := (fst (csState s),
                                                 (cli_machine s)\<lparr>mcAllowances := d\<rparr>)\<rparr>))))))"

definition nightViaHostApproval :: "cli_env \<Rightarrow> string list \<Rightarrow> cli_state \<Rightarrow> (nat \<times> bool) \<times> cli_state" where
  "nightViaHostApproval env args s =
     (let shape = (if args = [''off''] then Some (''night-off'', [])
                   else (case args of
                           [a, b, t] \<Rightarrow> if a = ''on'' \<and> b = ''--until'' then Some (''night-on'', [(''until'', t)]) else None
                         | _ \<Rightarrow> None))
      in case shape of
           None \<Rightarrow> ((0, False), s)
         | Some (action, params) \<Rightarrow>
             if \<not> promptApprovalMode env s then ((0, False), s)
             else (case claimInvocationTicket env s of
                (False, s1) \<Rightarrow> ((0, False), s1)
              | (True, s1) \<Rightarrow>
                  (case ceCwd env of
                     None \<Rightarrow> ((2, True), s1)
                   | Some cwd \<Rightarrow>
                       (case local_apply env (host_ask_request cwd ''allow'' action params) ''host-ask'' s1 of
                          (False, s2) \<Rightarrow> ((2, True), s2)
                        | (True, s2) \<Rightarrow>
                            if action = ''night-off'' then ((0, True), s2)
                            else if \<not> haPathOK (ceHandlers env) then ((2, True), s2)
                            else (case night_Load (mcNight (cli_machine s2)) (ceNow env) of
                                    None \<Rightarrow> ((1, True), s2)
                                  | Some st \<Rightarrow> (if nsActive st then (0, True) else (1, True), s2))))))"

text \<open>\<^verbatim>\<open>cmdNightOn\<close> with its flags parsed: whether a flag is repeated, the duration and the clock given,
  and the number of other arguments.  Parsing a duration and a clock time are arguments.\<close>

record night_flags =
  nfRepeated :: bool
  nfFor :: "string option"
  nfUntil :: "string option"
  nfArgs :: nat

definition defaultNightDuration :: int where "defaultNightDuration = minutes (8 * 60)"

definition night_until ::
  "(string \<Rightarrow> int option) \<Rightarrow> (string \<Rightarrow> time option) \<Rightarrow> night_flags \<Rightarrow> time \<Rightarrow> time option" where
  "night_until parseDuration nextClock fl now =
     (case (nfFor fl, nfUntil fl) of
        (Some d, _) \<Rightarrow>
          (case parseDuration d of None \<Rightarrow> None | Some n \<Rightarrow> if n \<le> 0 then None else Some (now + n))
      | (None, Some t) \<Rightarrow> nextClock t
      | (None, None) \<Rightarrow> Some (now + defaultNightDuration))"

definition cmdNightOn ::
  "cli_env \<Rightarrow> (string \<Rightarrow> int option) \<Rightarrow> (string \<Rightarrow> time option) \<Rightarrow> night_flags option \<Rightarrow> cli_state \<Rightarrow> nat \<times> cli_state" where
  "cmdNightOn env parseDuration nextClock flags s =
     (case flags of
        None \<Rightarrow> (2, s)
      | Some fl \<Rightarrow>
          if nfRepeated fl \<or> nfArgs fl \<noteq> 0 then (2, s)
          else if nfFor fl \<noteq> None \<and> nfUntil fl \<noteq> None then (2, s)
          else if nfFor fl = Some '''' \<or> nfUntil fl = Some '''' then (2, s)
          else (case night_until parseDuration nextClock fl (ceNow env) of
                  None \<Rightarrow> (2, s)
                | Some until \<Rightarrow>
                    (case haSetBy (ceHandlers env) of
                       None \<Rightarrow> (2, s)
                     | Some setBy \<Rightarrow>
                         (case night_Write (haNightWrite (ceHandlers env)) \<lparr>mkUntil = until, mkSetBy = setBy\<rparr>
                                 (mcNight (cli_machine s)) of
                            (good, f) \<Rightarrow>
                              (if good then 0 else 2,
                               s\<lparr>csState := (fst (csState s), (cli_machine s)\<lparr>mcNight := f\<rparr>)\<rparr>)))))"

definition cmdNight ::
  "cli_env \<Rightarrow> (string \<Rightarrow> int option) \<Rightarrow> (string \<Rightarrow> time option) \<Rightarrow> string list \<Rightarrow> night_flags option \<Rightarrow> bool \<Rightarrow>
   cli_state \<Rightarrow> nat \<times> cli_state" where
  "cmdNight env parseDuration nextClock args flags operatorTerminal s =
     (case args of
        [] \<Rightarrow> (2, s)
      | a # rest \<Rightarrow>
          if a = ''help'' \<or> a = ''-h'' \<or> a = ''--help'' then (0, s)
          else if (a = ''on'' \<or> a = ''off'') \<and> \<not> operatorTerminal then
            (case nightViaHostApproval env args s of
               ((code, handled), s') \<Rightarrow> (if handled then code else 2, s'))
          else if \<not> haPathOK (ceHandlers env) then (2, s)
          else if a = ''on'' then cmdNightOn env parseDuration nextClock flags s
          else if a = ''off'' then
            (if rest \<noteq> [] then (2, s)
             else (case night_Remove (haNightRemoves (ceHandlers env)) (mcNight (cli_machine s)) of
                     (good, f) \<Rightarrow>
                       (if good then 0 else 2,
                        s\<lparr>csState := (fst (csState s), (cli_machine s)\<lparr>mcNight := f\<rparr>)\<rparr>)))
          else if a = ''status'' then
            (if rest \<noteq> [] then (2, s)
             else (case night_Load (mcNight (cli_machine s)) (ceNow env) of
                     None \<Rightarrow> (2, s) | Some st \<Rightarrow> (if nsActive st then 0 else 1, s)))
          else (2, s))"

text \<open>The record commands of \<^verbatim>\<open>approvals\<close>.  In passkey mode the grant files a broker request instead;
  the exit code of that path is an argument.\<close>

definition cmdRecordGrant ::
  "cli_env \<Rightarrow> string list \<Rightarrow> bool \<Rightarrow> string option \<Rightarrow> nat \<Rightarrow> cli_state \<Rightarrow> nat \<times> cli_state" where
  "cmdRecordGrant env args terminal line passkeyCode s =
     (let h = ceHandlers env; m = cli_machine s
      in if \<not> terminal then (2, s)
         else (case args of
            [a, ident] \<Rightarrow>
              if a \<noteq> ''--record'' then (2, s)
              else if \<not> haActionStore h then (1, s)
              else (case action_Read (haActionEnv h) (haActionIO h) ident (ceNow env) (mcActions m) of
                      Inl _ \<Rightarrow> (1, s)
                    | Inr r \<Rightarrow>
                        if aqStatus r \<noteq> ''pending'' then (1, s)
                        else if \<not> promptApprovalMode env s then (passkeyCode, s)
                        else if \<not> confirmGrant line then (1, s)
                        else (case AuthorizeWithAudit (haActionEnv h) (haActionIO h) (aqID r) (aqDigest r)
                                     ''terminal-prompt'' (ceNow env) (Some (haActionAudit h '''')) (mcActions m) of
                                (e, acts) \<Rightarrow>
                                  (if e = None then 0 else 1,
                                   s\<lparr>csState := (fst (csState s), m\<lparr>mcActions := acts\<rparr>)\<rparr>)))
          | _ \<Rightarrow> (2, s)))"

definition cmdRecordRevoke :: "cli_env \<Rightarrow> string list \<Rightarrow> bool \<Rightarrow> bool \<Rightarrow> cli_state \<Rightarrow> nat \<times> cli_state" where
  "cmdRecordRevoke env args terminal audits s =
     (let h = ceHandlers env; m = cli_machine s
      in case args of
           [a, ident] \<Rightarrow>
             if \<not> terminal \<or> a \<noteq> ''--record'' then (2, s)
             else if \<not> haActionStore h then (1, s)
             else (case action_Read (haActionEnv h) (haActionIO h) ident (ceNow env) (mcActions m) of
                     Inl _ \<Rightarrow> (1, s)
                   | Inr r \<Rightarrow>
                       (case action_Revoke (haActionEnv h) (haActionIO h) (aqID r) (mcActions m) of
                          (e, acts) \<Rightarrow>
                            (if e = None \<and> audits then 0 else 1,
                             s\<lparr>csState := (fst (csState s), m\<lparr>mcActions := acts\<rparr>)\<rparr>)))
         | _ \<Rightarrow> (2, s))"

section \<open>Only the operator changes something\<close>

datatype operator_command =
    RunEgress "string list" "(string \<times> string \<times> nat) option" string
  | RunNight "string \<Rightarrow> int option" "string \<Rightarrow> time option" "string list" "night_flags option"
  | RunRecordGrant "string list" "string option" nat
  | RunRecordRevoke "string list" bool

fun run_command :: "cli_env \<Rightarrow> operator_command \<Rightarrow> bool \<Rightarrow> cli_state \<Rightarrow> nat \<times> cli_state" where
  "run_command env (RunEgress args flags cwd) terminal s = cmdEgress env args flags terminal cwd s"
| "run_command env (RunNight pd nc args flags) terminal s = cmdNight env pd nc args flags terminal s"
| "run_command env (RunRecordGrant args line code) terminal s = cmdRecordGrant env args terminal line code s"
| "run_command env (RunRecordRevoke args audits) terminal s = cmdRecordRevoke env args terminal audits s"

text \<open>What a run without a terminal may have done: nothing to the machine, or it claimed its ticket.\<close>

definition by_ticket :: "cli_env \<Rightarrow> cli_state \<Rightarrow> cli_state \<Rightarrow> bool" where
  "by_ticket env s s' \<longleftrightarrow>
     csState s' = csState s \<or>
     promptApprovalMode env s \<and> (\<exists>s1. claimInvocationTicket env s = (True, s1) \<and> csTickets s' = csTickets s1)"

lemma local_apply_tickets: "csTickets (snd (local_apply env r transport s)) = csTickets s"
  by (auto simp: local_apply_def split: prod.split sum.split)

lemma claim_state: "csState (snd (claimInvocationTicket env s)) = csState s"
  by (auto simp: claimInvocationTicket_def split: prod.split)

lemma by_ticket_same: "csState s' = csState s \<Longrightarrow> by_ticket env s s'"
  by (simp add: by_ticket_def)

lemma by_ticket_claim:
  assumes "promptApprovalMode env s" and "claimInvocationTicket env s = (True, s1)"
    and "csTickets s' = csTickets s1"
  shows "by_ticket env s s'"
  using assms by (auto simp: by_ticket_def)

lemma claim_then:
  assumes "promptApprovalMode env s" and "claimInvocationTicket env s = (c, s1)"
    and "c \<Longrightarrow> csTickets s' = csTickets s1" and "\<not> c \<Longrightarrow> s' = s1"
  shows "by_ticket env s s'"
  using assms claim_state [of env s] by (cases c) (auto intro: by_ticket_claim by_ticket_same)

lemma claim_cases:
  obtains (refused) s1 where "claimInvocationTicket env s = (False, s1)" and "by_ticket env s s1"
    | (claimed) s1 where "claimInvocationTicket env s = (True, s1)"
        and "\<And>r t. promptApprovalMode env s \<Longrightarrow> by_ticket env s (snd (local_apply env r t s1))"
        and "promptApprovalMode env s \<Longrightarrow> by_ticket env s s1"
proof (cases "claimInvocationTicket env s")
  case (Pair c s1)
  then have "csState s1 = csState s" using claim_state [of env s] by simp
  with Pair show thesis
    using refused [of s1] claimed [of s1] local_apply_tickets [of env _ _ s1]
    by (cases c) (auto intro: by_ticket_claim by_ticket_same)
qed

lemma egress_by_ticket: "by_ticket env s (snd (cmdEgress env args flags False cwd s))"
proof -
  have same: "by_ticket env s s" by (simp add: by_ticket_same)
  show ?thesis
  proof (cases env s rule: claim_cases)
    case (refused s1)
    with same show ?thesis
      unfolding cmdEgress_def Let_def by (simp add: case_prod_beta split: list.split option.split)
  next
    case (claimed s1)
    with same show ?thesis
      unfolding cmdEgress_def Let_def by (simp add: case_prod_beta split: list.split option.split)
  qed
qed

lemma night_by_ticket: "by_ticket env s (snd (nightViaHostApproval env args s))"
proof -
  have same: "by_ticket env s s" by (simp add: by_ticket_same)
  show ?thesis
  proof (cases env s rule: claim_cases)
    case (refused s1)
    with same show ?thesis
      unfolding nightViaHostApproval_def Let_def by (simp add: case_prod_beta split: list.split option.split)
  next
    case (claimed s1)
    with same show ?thesis
      unfolding nightViaHostApproval_def Let_def
      by (simp add: case_prod_beta split: list.split option.split bool.split)
  qed
qed

text \<open>C17: Nothing an agent runs changes operator state on its own.  Run without an operator terminal,
  the egress, night and record commands leave the night marker, the allowances, the exact-action
  store and the audit state as they are, unless the machine is in prompt mode and the run claimed a
  ticket the hook had issued for exactly this command line in this directory; the ticket is gone
  afterwards.\<close>

theorem operator_commands_need_operator:
  assumes "run_command env cmd False s = (code, s')" and "csState s' \<noteq> csState s"
  shows "promptApprovalMode env s \<and>
    (\<exists>t. ClaimTicket (ceTickets env) (ceTicketIO env) (invocationCommand env) (invocationDir env) (ceNow env)
       (csTickets s) = (Some t, csTickets s'))"
proof -
  have "by_ticket env s s'"
  proof (cases cmd)
    case (RunEgress args flags cwd)
    then show ?thesis using assms(1) egress_by_ticket [of env s args flags cwd] by simp
  next
    case (RunNight pd nc args flags)
    then show ?thesis
      using assms(1) night_by_ticket [of env s args]
      by (auto simp: cmdNight_def by_ticket_same case_prod_beta split: list.split_asm if_split_asm option.split_asm)
  next
    case (RunRecordGrant args line pk)
    then show ?thesis using assms(1) by (simp add: cmdRecordGrant_def by_ticket_same)
  next
    case (RunRecordRevoke args audits)
    then show ?thesis
      using assms(1) by (auto simp: cmdRecordRevoke_def Let_def by_ticket_same split: list.split_asm)
  qed
  with assms(2) obtain s1 where "promptApprovalMode env s" "claimInvocationTicket env s = (True, s1)"
    "csTickets s' = csTickets s1" by (auto simp: by_ticket_def)
  then show ?thesis
    by (auto simp: claimInvocationTicket_def split: if_split_asm prod.split_asm)
qed

definition demo_cli :: cli_env where
  "demo_cli = \<lparr>ceInvocation = [''night'', ''off''], ceCwd = Some ''/r'', ceTickets = demo_tenv, ceTicketIO = good_tio,
     ceNow = 5, ceLoadFails = False, ceHandlers = demo_handlers, ceDigest = id, ceAudit = demo_audit_io,
     ceNightExpiry = (\<lambda>u t. None), ceRandom = Some ''r9'', ceHostActions = (\<lambda>_. None), ceRepoRoot = (\<lambda>_. None)\<rparr>"

definition demo_cli_state :: cli_state where
  "demo_cli_state =
     \<lparr>csTickets = snd (IssueTicket demo_tenv good_tio
        \<lparr>tkVersion = 0, tkCommand = ''guardrail night off'', tkCWD = ''/r'', tkRepoRoot = ''/r'', tkPlane = ''claude'',
         tkAction = ''night-off'', tkSessionDigest = '''', tkIssuedAt = 0, tkExpiresAt = 0\<rparr> ''s'' 4 []),
      csState = (\<lparr>asLog = [], asFiles = []\<rparr>,
        \<lparr>mcNight = Some (MarkerFile \<lparr>mkUntil = 99, mkSetBy = ''h''\<rparr>), mcAllowances = fresh_disk, mcActions = []\<rparr>)\<rparr>"

definition demo_night_off :: "nat \<times> cli_state" where
  "demo_night_off = run_command demo_cli (RunNight (\<lambda>_. None) (\<lambda>_. None) [''off''] None) False demo_cli_state"

theorem operator_commands_need_operator_witness:
  "promptApprovalMode demo_cli demo_cli_state \<and>
   (\<exists>t. ClaimTicket demo_tenv good_tio ''guardrail night off'' ''/r'' 5 (csTickets demo_cli_state) =
      (Some t, csTickets (snd demo_night_off)))"
proof -
  have run: "run_command demo_cli (RunNight (\<lambda>_. None) (\<lambda>_. None) [''off''] None) False demo_cli_state =
      (fst demo_night_off, snd demo_night_off)"
    by (simp add: demo_night_off_def)
  have "mcNight (cli_machine (snd demo_night_off)) = None" by code_simp
  then have "csState (snd demo_night_off) \<noteq> csState demo_cli_state"
    by (auto simp: demo_cli_state_def)
  from operator_commands_need_operator [OF run this] show ?thesis
    by (simp add: demo_cli_def invocationCommand_def invocationDir_def)
qed

end
