(* ===== verification/Policy_Merge.thy ===== *)
theory Policy_Merge
  imports Operator_Config
begin

text \<open>
  The repository's Overlay and its merge into the Base policy: \<^verbatim>\<open>src/internal/policy/config.go\<close>
  (loading and validating an Overlay) and \<^verbatim>\<open>src/internal/policy/merge.go\<close>.

  The TOML decoder is a parameter: an \<open>overlay_io\<close> says how opening, reading and decoding the
  file went.  \<^verbatim>\<open>OperatorConfigPath()\<close>, which only occurs in warning texts, is an argument.
  \<open>Merge\<close> is an option because it walks the file system: \<open>None\<close> would mean that the walk does not
  return, which is ruled out for an absolute repository root.

  The lemmas show the direction of the merge: a repository can add protection on its own
  authority and can remove protection only where the Operator config says so.
\<close>

section \<open>The Overlay\<close>

record overlay =
  ovEngineMinVersion :: string
  ovAuditLog :: string
  ovUnknownToolPosture :: posture
  ovSafeRoots :: "string list"
  ovSecretDirs :: "string list"
  ovSecretGlobs :: "string list"
  ovSecretAskGlobs :: "string list"
  ovSecretAllow :: "string list"
  ovEgressAllowlist :: "string list"
  ovWebHosts :: "string list"
  ovRecipes :: recipe_config
  ovRules :: "rule list"
  ovWaive :: "string list"
  ovPath :: string
  ovWarnings :: "string list"

definition maxOverlayBytes :: int where "maxOverlayBytes = 2 ^ 20"

definition maxUnknownKeyWarnings :: nat where "maxUnknownKeyWarnings = 5"

datatype odoo_error =
    OdooFieldRequired string
  | OdooFieldOptionPrefix string
  | OdooFieldNotLiteral string
  | RelaxNGRequired
  | RelaxNGNotRelative
  | RelaxNGNotLiteral

datatype overlay_error =
    OverlayTooLarge
  | OverlayUnreadable
  | OverlayUnparsable
  | UnsupportedRecipeSetting string
  | OverlayPosture policy_error
  | OverlayOdoo odoo_error

section \<open>Recipe settings\<close>

definition looksLikeWindowsDrivePath :: "string \<Rightarrow> bool" where
  "looksLikeWindowsDrivePath value =
     (if length value < 2 \<or> value ! 1 \<noteq> CHR '':'' then False
      else is_lower (value ! 0) \<or> is_upper (value ! 0))"

definition odoo_char :: "char \<Rightarrow> bool" where
  "odoo_char r \<longleftrightarrow>
     is_lower r \<or> is_upper r \<or> is_digit r \<or> r = CHR ''_'' \<or> r = CHR ''-'' \<or> r = CHR ''.''"

definition check_odoo_field :: "string \<Rightarrow> string \<Rightarrow> odoo_error option" where
  "check_odoo_field name value =
     (if value = '''' then Some (OdooFieldRequired name)
      else if has_prefix value ''-'' then Some (OdooFieldOptionPrefix name)
      else if \<not> list_all odoo_char value then Some (OdooFieldNotLiteral name)
      else None)"

definition validateOdooRecipeConfig :: "odoo_recipe_config \<Rightarrow> odoo_error option" where
  "validateOdooRecipeConfig config =
     (case check_odoo_field ''module'' (odooModule config) of
        Some e \<Rightarrow> Some e
      | None \<Rightarrow>
          (case check_odoo_field ''test_database'' (odooTestDatabase config) of
             Some e \<Rightarrow> Some e
           | None \<Rightarrow>
               (let relaxNG = odooRelaxNG config;
                    cleaned = clean relaxNG;
                    forwardSlashClean =
                      clean (map (\<lambda>c. if c = backslash then slash else c) relaxNG)
                in if relaxNG = '''' then Some RelaxNGRequired
                   else if is_abs relaxNG \<or> looksLikeWindowsDrivePath relaxNG \<or>
                           has_prefix relaxNG ''/'' \<or> has_prefix relaxNG [backslash] \<or>
                           cleaned = ''.'' \<or> cleaned = ''..'' \<or> has_prefix cleaned ''../'' \<or>
                           forwardSlashClean = ''..'' \<or> has_prefix forwardSlashClean ''../''
                   then Some RelaxNGNotRelative
                   else if contains_any relaxNG ''$%*?{}'' then Some RelaxNGNotLiteral
                   else None)))"

section \<open>Loading an Overlay\<close>

text \<open>The shape the decoder fills: the same as the Base file's, with the Overlay's own settings
  and a waiver list on every rule.\<close>

record overlay_rule =
  orRule :: file_rule
  orWaive :: "string list"

record overlay_file =
  ofEngineMinVersion :: string
  ofAuditLog :: string
  ofUnknownToolPosture :: string
  ofWaive :: "string list"
  ofSafeRoots :: "string list"
  ofSecretDirs :: "string list"
  ofSecretGlobs :: "string list"
  ofSecretAskGlobs :: "string list"
  ofSecretAllow :: "string list"
  ofEgressAllowlist :: "string list"
  ofWebHosts :: "string list"
  ofOdoo :: "odoo_recipe_config option"
  ofRules :: "overlay_rule list"

text \<open>\<open>oiStatSize\<close> is the size \<^verbatim>\<open>os.Stat\<close> reports (\<open>None\<close>: it failed), \<open>oiRawLength\<close> the number of
  bytes the bounded read returned (\<open>None\<close>: opening or reading failed), \<open>oiDecoded\<close> the decoded file
  with the keys the decoder did not know.\<close>

record overlay_io =
  oiStatSize :: "int option"
  oiRawLength :: "int option"
  oiDecoded :: "(overlay_file \<times> string list list) option"

fun unknown_keys ::
  "(string list \<Rightarrow> string) \<Rightarrow> string list \<Rightarrow> string list list \<Rightarrow> overlay_error + string list" where
  "unknown_keys keyString reported [] = Inr []"
| "unknown_keys keyString reported (key # rest) =
     (if key \<noteq> [] \<and> hd key = ''recipes'' then Inl (UnsupportedRecipeSetting (keyString key))
      else if list_ex (\<lambda>i. keyString (take i key) \<in> set reported) [1..<length key + 1]
      then unknown_keys keyString reported rest
      else (case unknown_keys keyString (keyString key # reported) rest of
              Inl e \<Rightarrow> Inl e
            | Inr ks \<Rightarrow> Inr (keyString key # ks)))"

definition key_warnings :: "string \<Rightarrow> string list \<Rightarrow> string list" where
  "key_warnings pth unknownKeys =
     map (\<lambda>key. ''guardrail: overlay '' @ pth @ '' has unknown key '' @ key @
                '' (ignored; check the spelling against guardrail.toml.example)'')
       (take maxUnknownKeyWarnings unknownKeys) @
     (if length unknownKeys > maxUnknownKeyWarnings
      then [''guardrail: overlay '' @ pth @ '' has '' @
            itoa (length unknownKeys - maxUnknownKeyWarnings) @ '' more unknown keys (ignored)'']
      else [])"

definition overlay_of_file :: "string \<Rightarrow> overlay_file \<Rightarrow> posture \<Rightarrow> string list \<Rightarrow> overlay" where
  "overlay_of_file pth f posture keyWarnings =
     \<lparr>ovEngineMinVersion = ofEngineMinVersion f, ovAuditLog = ofAuditLog f,
      ovUnknownToolPosture = posture, ovSafeRoots = ofSafeRoots f, ovSecretDirs = ofSecretDirs f,
      ovSecretGlobs = ofSecretGlobs f, ovSecretAskGlobs = ofSecretAskGlobs f,
      ovSecretAllow = ofSecretAllow f, ovEgressAllowlist = ofEgressAllowlist f,
      ovWebHosts = ofWebHosts f, ovRecipes = ofOdoo f,
      ovRules = map (\<lambda>r. rule_of_file (orRule r)) (ofRules f),
      ovWaive = ofWaive f @ concat (map orWaive (ofRules f)),
      ovPath = pth, ovWarnings = keyWarnings\<rparr>"

definition LoadOverlay ::
  "(string list \<Rightarrow> string) \<Rightarrow> overlay_io \<Rightarrow> string \<Rightarrow> overlay_error + overlay" where
  "LoadOverlay keyString oio pth =
     and_then (case oiStatSize oio of
                 Some sz \<Rightarrow> if sz > maxOverlayBytes then Inl OverlayTooLarge else Inr ()
               | None \<Rightarrow> Inr ()) (\<lambda>_.
     and_then (case oiRawLength oio of
                 None \<Rightarrow> Inl OverlayUnreadable
               | Some n \<Rightarrow> if n > maxOverlayBytes then Inl OverlayTooLarge else Inr ()) (\<lambda>_.
     and_then (case oiDecoded oio of None \<Rightarrow> Inl OverlayUnparsable | Some d \<Rightarrow> Inr d)
       (\<lambda>(f, undecoded).
     and_then (unknown_keys keyString [] undecoded) (\<lambda>unknownKeys.
     and_then (if ofUnknownToolPosture f \<noteq> '''' then
                 (case ParseUnknownToolPosture (ofUnknownToolPosture f) of
                    Inl e \<Rightarrow> Inl (OverlayPosture e) | Inr p \<Rightarrow> Inr p)
               else Inr '''') (\<lambda>posture.
     and_then (case ofOdoo f of
                 None \<Rightarrow> Inr ()
               | Some odoo \<Rightarrow>
                   (case validateOdooRecipeConfig odoo of
                      Some e \<Rightarrow> Inl (OverlayOdoo e) | None \<Rightarrow> Inr ())) (\<lambda>_.
     Inr (overlay_of_file pth f posture (key_warnings pth unknownKeys))))))))"

section \<open>Versions\<close>

fun splitn3 :: "string \<Rightarrow> string list" where
  "splitn3 s =
     (case split_on CHR ''.'' s of
        a # b # c # cs \<Rightarrow> [a, b, join ''.'' (c # cs)]
      | ps \<Rightarrow> ps)"

definition trim_right_nondigits :: "string \<Rightarrow> string" where
  "trim_right_nondigits s = rev (dropWhile (\<lambda>c. \<not> is_digit c) (rev s))"

text \<open>\<open>None\<close> stands for the result \<^verbatim>\<open>(out, false)\<close>; no caller reads \<^verbatim>\<open>out\<close> then.  A version with fewer
  than three parts leaves the others at zero.\<close>

fun parse_parts :: "string list \<Rightarrow> int list option" where
  "parse_parts [] = Some []"
| "parse_parts (p # ps) =
     (case atoi (trim_right_nondigits p) of
        None \<Rightarrow> None
      | Some n \<Rightarrow> map_option (\<lambda>ns. n # ns) (parse_parts ps))"

definition parseVer :: "string \<Rightarrow> int list option" where
  "parseVer s =
     map_option (\<lambda>ns. ns @ replicate (3 - length ns) 0) (parse_parts (splitn3 (trim_prefix s ''v'')))"

fun version_less :: "int list \<Rightarrow> int list \<Rightarrow> bool" where
  "version_less (b # bs) (m # ms) = (if b \<noteq> m then b < m else version_less bs ms)"
| "version_less bs ms = False"

definition versionOlder :: "string \<Rightarrow> string \<Rightarrow> bool" where
  "versionOlder bin min' =
     (case (parseVer bin, parseVer min') of
        (Some bp, Some mp) \<Rightarrow> version_less bp mp
      | _ \<Rightarrow> False)"

section \<open>Merging\<close>

definition pathEscapesRoot :: "string \<Rightarrow> bool" where
  "pathEscapesRoot r \<longleftrightarrow> r = ''..'' \<or> has_prefix r ''../''"

text \<open>The requested decision of every Overlay rule must be ask or deny; the first that is not
  fails the merge.\<close>

fun merge_rules :: "rule list \<Rightarrow> policy_error + rule list" where
  "merge_rules [] = Inr []"
| "merge_rules (r # rs) =
     (if rDecision r \<noteq> Ask \<and> rDecision r \<noteq> Deny then Inl (OverlayRuleLoosens (rID r))
      else and_then (merge_rules rs) (\<lambda>rs'. Inr (r # rs')))"

text \<open>One requested safe root: \<open>Some candidate\<close> when it lies in the repository both as written and
  after symbolic links are resolved.  \<open>ok_path\<close> gives a failed resolution the empty string Go
  returns beside the error.\<close>

definition ok_path :: "unit + string \<Rightarrow> string" where
  "ok_path r = (case r of Inl _ \<Rightarrow> '''' | Inr p \<Rightarrow> p)"

definition admit_safe_root ::
  "string \<Rightarrow> unit + string \<Rightarrow> string \<Rightarrow> unit + string \<Rightarrow> string option" where
  "admit_safe_root repoRoot rootRes sr res =
     (let cleanRoot = clean repoRoot;
          candidate = clean (if \<not> is_abs sr then join_path cleanRoot sr else sr);
          lexicalRel = rel cleanRoot candidate;
          resolvedRel = rel (ok_path rootRes) (ok_path res)
      in if \<not> is_abs repoRoot \<or> rootRes = Inl () \<or>
            (case lexicalRel of None \<Rightarrow> True | Some r \<Rightarrow> pathEscapesRoot r) \<or>
            res = Inl () \<or>
            (case resolvedRel of None \<Rightarrow> True | Some r \<Rightarrow> pathEscapesRoot r)
         then None
         else Some candidate)"

fun merge_safe_roots ::
  "filesystem \<Rightarrow> string \<Rightarrow> unit + string \<Rightarrow> string list \<Rightarrow> (string list \<times> string list) option"
where
  "merge_safe_roots fs repoRoot rootRes [] = Some ([], [])"
| "merge_safe_roots fs repoRoot rootRes (sr # srs) =
     (let rawCandidate = (if \<not> is_abs sr then clean repoRoot @ ''/'' @ sr else sr)
      in case ResolveThroughExistingAncestor fs rawCandidate of
           None \<Rightarrow> None
         | Some res \<Rightarrow>
             (case merge_safe_roots fs repoRoot rootRes srs of
                None \<Rightarrow> None
              | Some (roots, warns) \<Rightarrow>
                  (case admit_safe_root repoRoot rootRes sr res of
                     None \<Rightarrow>
                       Some (roots,
                         (''guardrail: repo requested safe_root '' @ sr @
                          '' outside the repository '' @ em_dash @ '' DROPPED'') # warns)
                   | Some candidate \<Rightarrow> Some (candidate # roots, warns))))"

definition wildcard_entry :: "string \<Rightarrow> bool" where
  "wildcard_entry entry \<longleftrightarrow> entry = ''*'' \<or> entry = ''**''"

text \<open>The entries kept and the warnings of the two network lists.\<close>

definition keep_egress ::
  "filesystem \<Rightarrow> operator_config option \<Rightarrow> string \<Rightarrow> string \<Rightarrow> bool" where
  "keep_egress fs op repoRoot entry \<longleftrightarrow>
     \<not> wildcard_entry entry \<and> AllowsEgress fs op repoRoot entry"

definition egress_warning :: "string \<Rightarrow> string \<Rightarrow> string" where
  "egress_warning opPath entry =
     (if wildcard_entry entry
      then ''guardrail: repo requested a wildcard egress_allowlist entry '' @ entry @ '' '' @
           em_dash @ '' DROPPED''
      else ''guardrail: repo requested egress_allowlist entry '' @ entry @
           '', which is NOT authorized in '' @ opPath @ '' '' @ em_dash @ '' DROPPED'')"

definition keep_web_host ::
  "filesystem \<Rightarrow> operator_config option \<Rightarrow> string \<Rightarrow> string \<Rightarrow> bool" where
  "keep_web_host fs op repoRoot host \<longleftrightarrow>
     ValidateWebHost host = None \<and> AllowsWebHost fs op repoRoot host"

definition web_host_warning :: "string \<Rightarrow> string \<Rightarrow> string" where
  "web_host_warning opPath host =
     ''guardrail: repo requested web_hosts entry '' @ host @
     '', which is NOT authorized in '' @ opPath @ '' '' @ em_dash @ '' DROPPED''"

fun merge_waivers ::
  "filesystem \<Rightarrow> operator_config option \<Rightarrow> string \<Rightarrow> string \<Rightarrow> string list \<Rightarrow> (string \<times> bool) list \<Rightarrow>
   (string \<times> bool) list \<times> string list" where
  "merge_waivers fs op opPath repoRoot [] w = (w, [])"
| "merge_waivers fs op opPath repoRoot (waiver # rest) w =
     (if waiver \<in> set neverWaivable then
        (case merge_waivers fs op opPath repoRoot rest w of (w', warns) \<Rightarrow>
           (w', (''guardrail: rule '' @ waiver @
                 '' can never be waived (fail-closed backstop) '' @ em_dash @
                 '' request DROPPED'') # warns))
      else if AllowsWaiver fs op repoRoot waiver then
        (case merge_waivers fs op opPath repoRoot rest (upd_assoc waiver True w) of (w', warns) \<Rightarrow>
           (w', (''guardrail: rule '' @ waiver @
                 '' is WAIVED for this repo by operator authorization'') # warns))
      else
        (case merge_waivers fs op opPath repoRoot rest w of (w', warns) \<Rightarrow>
           (w', (''guardrail: repo requested waiver of '' @ waiver @
                 '', which is NOT authorized in '' @ opPath @ '' '' @ em_dash @
                 '' the rule remains ENFORCED'') # warns)))"

text \<open>The posture of the merged policy: the Base posture (audit when it is unset), overridden by
  the Overlay's.\<close>

definition merge_posture :: "policy \<Rightarrow> overlay option \<Rightarrow> policy_error + posture" where
  "merge_posture base ov =
     (let p = (if UnknownToolPosture base = '''' then UnknownAudit else UnknownToolPosture base)
      in and_then (ParseUnknownToolPosture p) (\<lambda>_.
           case ov of
             Some v \<Rightarrow>
               if ovUnknownToolPosture v \<noteq> '''' then ParseUnknownToolPosture (ovUnknownToolPosture v)
               else Inr p
           | None \<Rightarrow> Inr p))"

text \<open>The merge before the Overlay is looked at: the Base policy with the Operator's own web
  settings.\<close>

definition merge_base :: "policy \<Rightarrow> posture \<Rightarrow> operator_config option \<Rightarrow> policy" where
  "merge_base base posture op =
     \<lparr>WebResearchOff = (case op of None \<Rightarrow> False | Some o' \<Rightarrow> WebResearchEnforcement o' = ''off''),
      Slots = (Slots base)\<lparr>WebHosts := WebHosts (Slots base) @
                 (case op of None \<Rightarrow> []
                  | Some o' \<Rightarrow> filter (\<lambda>h. ValidateWebHost h = None) (GlobalWebHosts o'))\<rparr>,
      Recipes = Recipes base,
      Rules = Rules base,
      Waived = Waived base,
      UnknownToolPosture = posture\<rparr>"

definition merge_slots ::
  "filesystem \<Rightarrow> operator_config option \<Rightarrow> string \<Rightarrow> overlay \<Rightarrow> string list \<Rightarrow> slots \<Rightarrow> slots" where
  "merge_slots fs op repoRoot v roots s =
     \<lparr>SafeRoots = SafeRoots s @ roots,
      SecretDirs = SecretDirs s @ ovSecretDirs v,
      SecretGlobs = SecretGlobs s @ ovSecretGlobs v,
      SecretAskGlobs = SecretAskGlobs s @ ovSecretAskGlobs v,
      SecretAllow = SecretAllow s @
        (if ovSecretAllow v \<noteq> [] \<and> AllowsSecretAllow fs op repoRoot then ovSecretAllow v else []),
      EgressAllowlist = EgressAllowlist s @
        filter (keep_egress fs op repoRoot) (ovEgressAllowlist v),
      WebHosts = WebHosts s @ filter (keep_web_host fs op repoRoot) (ovWebHosts v),
      AuditLog = (if ovAuditLog v \<noteq> '''' \<and> AllowsAuditLog fs op repoRoot then ovAuditLog v
                  else AuditLog s)\<rparr>"

definition merge_slot_warnings ::
  "filesystem \<Rightarrow> operator_config option \<Rightarrow> string \<Rightarrow> string \<Rightarrow> overlay \<Rightarrow> string list" where
  "merge_slot_warnings fs op opPath repoRoot v =
     map (egress_warning opPath) (filter (\<lambda>e. \<not> keep_egress fs op repoRoot e) (ovEgressAllowlist v)) @
     map (web_host_warning opPath) (filter (\<lambda>h. \<not> keep_web_host fs op repoRoot h) (ovWebHosts v)) @
     (if ovSecretAllow v \<noteq> [] \<and> \<not> AllowsSecretAllow fs op repoRoot
      then [''guardrail: repo requested secret_allow entries, which are NOT authorized in '' @
            opPath @ '' '' @ em_dash @ '' secret protection remains ENFORCED'']
      else []) @
     (if ovAuditLog v \<noteq> '''' \<and> \<not> AllowsAuditLog fs op repoRoot
      then [''guardrail: repo requested audit_log '' @ ovAuditLog v @
            '', which is NOT authorized in '' @ opPath @ '' '' @ em_dash @
            '' the default audit path is retained'']
      else [])"

definition version_warning :: "string \<Rightarrow> overlay \<Rightarrow> string list" where
  "version_warning binaryVersion v =
     (if ovEngineMinVersion v \<noteq> '''' \<and> versionOlder binaryVersion (ovEngineMinVersion v)
      then [''guardrail: binary '' @ binaryVersion @
            '' is older than this repo's engine_min_version '' @ ovEngineMinVersion v]
      else [])"

definition Merge ::
  "filesystem \<Rightarrow> string \<Rightarrow> policy \<Rightarrow> overlay option \<Rightarrow> string \<Rightarrow> operator_config option \<Rightarrow> string \<Rightarrow>
   (policy_error + policy \<times> string list) option" where
  "Merge fs opPath base ov binaryVersion op repoRoot =
     (case merge_posture base ov of
        Inl e \<Rightarrow> Some (Inl e)
      | Inr posture \<Rightarrow>
          (let m = merge_base base posture op
           in case ov of
                None \<Rightarrow> Some (Inr (m, []))
              | Some v \<Rightarrow>
                  (case merge_rules (ovRules v) of
                     Inl e \<Rightarrow> Some (Inl e)
                   | Inr added \<Rightarrow>
                       (case ResolveThroughExistingAncestor fs (clean repoRoot) of
                          None \<Rightarrow> None
                        | Some rootRes \<Rightarrow>
                            (case merge_safe_roots fs repoRoot rootRes (ovSafeRoots v) of
                               None \<Rightarrow> None
                             | Some (roots, rootWarns) \<Rightarrow>
                                 (case merge_waivers fs op opPath repoRoot (ovWaive v) (Waived m) of
                                    (w, waiverWarns) \<Rightarrow>
                                      Some (Inr
                                        (m\<lparr>Recipes := (case ovRecipes v of None \<Rightarrow> Recipes m
                                                       | Some odoo \<Rightarrow> Some odoo),
                                           Slots := merge_slots fs op repoRoot v roots (Slots m),
                                           Rules := Rules m @ added,
                                           Waived := w\<rparr>,
                                         rootWarns @ merge_slot_warnings fs op opPath repoRoot v @
                                         waiverWarns @ version_warning binaryVersion v @
                                         ovWarnings v)))))))) "

section \<open>Facts: safe roots stay inside\<close>

text \<open>The reading of containment: the components of the root begin those of the path.\<close>

definition inside :: "string \<Rightarrow> string \<Rightarrow> bool" where
  "inside root p \<longleftrightarrow> prefix (path_comps (clean root)) (path_comps (clean p))"

lemma strip_common_prefix: "strip_common bs ts = ([], ts') \<Longrightarrow> prefix bs ts"
  by (induction bs ts arbitrary: ts' rule: strip_common.induct) (auto split: if_splits)

lemma join_dotdot_escapes: "pathEscapesRoot (join ''/'' (''..'' # rest))"
  by (cases rest) (auto simp: pathEscapesRoot_def)

lemma rel_not_escaping_inside:
  assumes "rel root p = Some r" and "\<not> pathEscapesRoot r"
  shows "inside root p"
proof (cases "clean p = clean root")
  case True
  then show ?thesis by (simp add: inside_def)
next
  case False
  obtain bs ts where st: "strip_common (path_comps (clean root)) (path_comps (clean p)) = (bs, ts)"
    by fastforce
  with assms(1) False have r: "r = join ''/'' (replicate (length bs) ''..'' @ ts)"
    by (auto simp: rel_def Let_def split: if_splits)
  have "bs = []"
  proof (rule ccontr)
    assume "bs \<noteq> []"
    then obtain b bs' where "bs = b # bs'" by (cases bs) auto
    with r have "pathEscapesRoot r" by (simp add: join_dotdot_escapes)
    with assms(2) show False by simp
  qed
  with st show ?thesis by (auto simp: inside_def intro: strip_common_prefix)
qed

lemma admit_safe_root_inside:
  assumes "admit_safe_root repoRoot rootRes sr res = Some c"
  shows "inside repoRoot c \<and> inside (ok_path rootRes) (ok_path res) \<and> is_abs repoRoot"
proof -
  from assms obtain r1 r2 where c: "is_abs repoRoot" "rel (clean repoRoot) c = Some r1"
    "\<not> pathEscapesRoot r1" "rel (ok_path rootRes) (ok_path res) = Some r2" "\<not> pathEscapesRoot r2"
    by (auto simp: admit_safe_root_def Let_def split: if_splits option.splits)
  then have "inside (clean repoRoot) c" by (blast intro: rel_not_escaping_inside)
  with c show ?thesis by (auto simp: inside_def dest: rel_not_escaping_inside)
qed

lemma merge_safe_roots_inside:
  "merge_safe_roots fs repoRoot rootRes srs = Some (roots, warns) \<Longrightarrow> c \<in> set roots \<Longrightarrow>
   is_abs repoRoot \<and> inside repoRoot c"
proof (induction srs arbitrary: roots warns)
  case (Cons sr srs)
  then show ?case
    using admit_safe_root_inside [of repoRoot rootRes sr _ c]
    by (auto simp: Let_def split: option.splits)
qed simp

lemma merge_safe_roots_returns:
  assumes "is_abs repoRoot"
  shows "\<exists>x. merge_safe_roots fs repoRoot rootRes srs = Some x"
proof (induction srs)
  case (Cons sr srs)
  let ?raw = "if \<not> is_abs sr then clean repoRoot @ ''/'' @ sr else sr"
  have "is_abs (clean repoRoot)" using assms by simp
  then have "is_abs ?raw" by (cases "clean repoRoot") (auto simp: is_abs_def)
  then obtain res where "ResolveThroughExistingAncestor fs ?raw = Some res"
    using ResolveThroughExistingAncestor_returns by blast
  with Cons show ?case by (auto simp: Let_def split: option.splits)
qed simp

section \<open>Facts: rules and waivers\<close>

lemma merge_rules_Inr:
  "merge_rules rs = Inr rs' \<longleftrightarrow> rs' = rs \<and> (\<forall>r\<in>set rs. rDecision r = Ask \<or> rDecision r = Deny)"
  by (induction rs arbitrary: rs') auto

lemma merge_waivers_authorised:
  "lookup_default False (fst (merge_waivers fs op opPath root ws w)) r \<Longrightarrow>
   lookup_default False w r \<or> (r \<in> set ws \<and> AllowsWaiver fs op root r)"
proof (induction ws arbitrary: w)
  case (Cons a ws)
  show ?case
  proof (cases "AllowsWaiver fs op root a")
    case True
    then have "a \<notin> set neverWaivable" by (auto dest: AllowsWaiver_never)
    with True Cons.prems Cons.IH [of "upd_assoc a True w"] show ?thesis
      by (auto simp: lookup_default_def split: prod.splits if_splits)
  next
    case False
    with Cons.prems Cons.IH [of w] show ?thesis by (auto split: prod.splits if_splits)
  qed
qed simp

section \<open>Facts: the merge\<close>

text \<open>What a successful merge looks like.\<close>

lemma MergeE:
  assumes "Merge fs opPath base ov ver op root = Some (Inr (m, warns))"
  obtains posture where "merge_posture base ov = Inr posture" "ov = None"
      "m = merge_base base posture op"
    | posture v rootRes roots rw where "merge_posture base ov = Inr posture" "ov = Some v"
      "merge_rules (ovRules v) = Inr (ovRules v)"
      "merge_safe_roots fs root rootRes (ovSafeRoots v) = Some (roots, rw)"
      "Slots m = merge_slots fs op root v roots (Slots (merge_base base posture op))"
      "Rules m = Rules base @ ovRules v"
      "Waived m = fst (merge_waivers fs op opPath root (ovWaive v) (Waived base))"
      "WebResearchOff m = WebResearchOff (merge_base base posture op)"
      "UnknownToolPosture m = posture"
proof (cases ov)
  case None
  with assms show ?thesis
    using that(1) by (auto simp: Merge_def Let_def split: sum.splits)
next
  case (Some v)
  from assms Some obtain posture added rootRes roots rw where
    "merge_posture base ov = Inr posture" and r: "merge_rules (ovRules v) = Inr added" and
    "merge_safe_roots fs root rootRes (ovSafeRoots v) = Some (roots, rw)" and
    "Slots m = merge_slots fs op root v roots (Slots (merge_base base posture op))" and
    "Rules m = Rules base @ added" and
    "Waived m = fst (merge_waivers fs op opPath root (ovWaive v) (Waived base))" and
    "WebResearchOff m = WebResearchOff (merge_base base posture op)" and
    "UnknownToolPosture m = posture"
    by (auto simp: Merge_def Let_def merge_base_def
        split: sum.splits option.splits prod.splits)
  moreover from r have "added = ovRules v" by (simp add: merge_rules_Inr)
  ultimately show ?thesis using that(2) Some by blast
qed

lemmas merge_slot_defs = merge_slots_def merge_base_def

text \<open>C12: A repository Overlay can only tighten the protection lists: whatever the Overlay and the
  Operator config say, a successful merge keeps every secret directory, secret glob, ask glob and
  rule of the Base policy, and every rule it adds decides ask or deny.\<close>

theorem Merge_only_tightens:
  assumes "Merge fs opPath base ov ver op root = Some (Inr (m, warns))"
  shows "prefix (SecretDirs (Slots base)) (SecretDirs (Slots m)) \<and>
         prefix (SecretGlobs (Slots base)) (SecretGlobs (Slots m)) \<and>
         prefix (SecretAskGlobs (Slots base)) (SecretAskGlobs (Slots m)) \<and>
         (\<exists>added. Rules m = Rules base @ added \<and>
            (\<forall>r\<in>set added. rDecision r = Ask \<or> rDecision r = Deny))"
  using assms
  by (cases rule: MergeE) (auto simp: merge_slot_defs merge_rules_Inr)

text \<open>C29: Every loosening needs the Operator: a rule that is waived after the merge was waived in
  the Base policy or is authorised for this repository and is not one of the never-waivable
  backstops; secret exemptions, egress entries, web hosts and the audit path come from the Base
  policy or from an Operator authorisation, and web research enforcement is off only when the
  Operator turned it off.\<close>

theorem Merge_loosening_needs_operator:
  assumes "Merge fs opPath base ov ver op root = Some (Inr (m, warns))"
  shows "(waived m r \<longrightarrow> waived base r \<or> (AllowsWaiver fs op root r \<and> r \<notin> set neverWaivable)) \<and>
         (e \<in> set (SecretAllow (Slots m)) \<longrightarrow>
            e \<in> set (SecretAllow (Slots base)) \<or> AllowsSecretAllow fs op root) \<and>
         (d \<in> set (EgressAllowlist (Slots m)) \<longrightarrow>
            d \<in> set (EgressAllowlist (Slots base)) \<or>
            (AllowsEgress fs op root d \<and> d \<noteq> ''*'' \<and> d \<noteq> ''**'')) \<and>
         (h \<in> set (WebHosts (Slots m)) \<longrightarrow>
            h \<in> set (WebHosts (Slots base)) \<or>
            (ValidateWebHost h = None \<and> (AllowsGlobalWebHost op h \<or> AllowsWebHost fs op root h))) \<and>
         (AuditLog (Slots m) \<noteq> AuditLog (Slots base) \<longrightarrow> AllowsAuditLog fs op root) \<and>
         (WebResearchOff m \<longrightarrow> (\<exists>o'. op = Some o' \<and> WebResearchEnforcement o' = ''off''))"
proof -
  have web: "h \<in> set (WebHosts (Slots (merge_base base posture op))) \<Longrightarrow>
      h \<in> set (WebHosts (Slots base)) \<or> (ValidateWebHost h = None \<and> AllowsGlobalWebHost op h)"
    for posture
    by (auto simp: merge_base_def AllowsGlobalWebHost_def split: option.splits)
  have off: "WebResearchOff (merge_base base posture op) \<Longrightarrow>
      \<exists>o'. op = Some o' \<and> WebResearchEnforcement o' = ''off''" for posture
    by (auto simp: merge_base_def split: option.splits)
  from assms show ?thesis
  proof (cases rule: MergeE)
    case (1 posture)
    with web off show ?thesis by (auto simp: waived_def merge_base_def)
  next
    case (2 posture v rootRes roots rw)
    have "waived m r \<Longrightarrow> waived base r \<or> AllowsWaiver fs op root r"
      using 2 merge_waivers_authorised [of fs op opPath root "ovWaive v" "Waived base" r]
      by (auto simp: waived_def)
    with 2 web [of posture] off [of posture] AllowsWaiver_never show ?thesis
      by (auto simp: merge_slots_def keep_egress_def keep_web_host_def wildcard_entry_def
          merge_base_def split: if_splits)
  qed
qed

text \<open>A safe root that an Overlay adds lies inside the repository: the repository root is
  absolute and its cleaned components begin the components of the added root.\<close>

lemma Merge_safe_roots_inside:
  assumes "Merge fs opPath base ov ver op root = Some (Inr (m, warns))"
    and "c \<in> set (SafeRoots (Slots m))" and "c \<notin> set (SafeRoots (Slots base))"
  shows "is_abs root \<and> prefix (path_comps (clean root)) (path_comps (clean c))"
  using assms(1)
proof (cases rule: MergeE)
  case (1 posture)
  with assms(2,3) show ?thesis by (simp add: merge_base_def)
next
  case (2 posture v rootRes roots rw)
  then have "c \<in> set roots" using assms(2,3) by (simp add: merge_slot_defs)
  with 2 show ?thesis using merge_safe_roots_inside by (auto simp: inside_def)
qed

text \<open>C38: On an absolute repository root the merge always returns, and it fails only for a posture
  that does not parse or an Overlay rule that is neither ask nor deny.\<close>

theorem Merge_returns:
  assumes "is_abs root"
  shows "\<exists>res. Merge fs opPath base ov ver op root = Some res \<and>
           (isl res \<longleftrightarrow> isl (merge_posture base ov) \<or>
              (\<exists>v. ov = Some v \<and> (\<exists>r\<in>set (ovRules v). rDecision r \<noteq> Ask \<and> rDecision r \<noteq> Deny)))"
proof -
  obtain rootRes where root: "ResolveThroughExistingAncestor fs (clean root) = Some rootRes"
    using ResolveThroughExistingAncestor_returns [of "clean root"] assms by auto
  have rules: "isl (merge_rules (ovRules v)) \<longleftrightarrow>
      (\<exists>r\<in>set (ovRules v). rDecision r \<noteq> Ask \<and> rDecision r \<noteq> Deny)" for v
    using merge_rules_Inr [of "ovRules v"] by (cases "merge_rules (ovRules v)") auto
  show ?thesis
  proof (cases ov)
    case None
    then show ?thesis by (auto simp: Merge_def Let_def split: sum.splits)
  next
    case (Some v)
    obtain x where "merge_safe_roots fs root rootRes (ovSafeRoots v) = Some x"
      using merge_safe_roots_returns [OF assms] by blast
    with Some root rules [of v] show ?thesis
      by (auto simp: Merge_def Let_def split: sum.splits prod.splits)
  qed
qed

section \<open>Facts: a loaded Overlay\<close>

lemma key_warnings_bounded: "length (key_warnings pth ks) \<le> Suc maxUnknownKeyWarnings"
  by (simp add: key_warnings_def)

text \<open>C39: An Overlay that loads came from a file within the size limit, names at most five unknown
  keys and one summary line in its warnings, has a known unknown-tool posture or none, and its
  Odoo recipe, when it has one, names a relative schema path that does not leave the repository.\<close>

theorem LoadOverlay_bounded_and_valid:
  assumes "LoadOverlay keyString oio pth = Inr ov"
  shows "(\<exists>n. oiRawLength oio = Some n \<and> n \<le> maxOverlayBytes) \<and>
         length (ovWarnings ov) \<le> 6 \<and>
         ovUnknownToolPosture ov \<in> {'''', UnknownAudit, UnknownDeny} \<and>
         (\<forall>odoo. ovRecipes ov = Some odoo \<longrightarrow>
            \<not> is_abs (odooRelaxNG odoo) \<and> \<not> pathEscapesRoot (clean (odooRelaxNG odoo)))"
proof -
  have odoo: "validateOdooRecipeConfig c = None \<Longrightarrow>
      \<not> is_abs (odooRelaxNG c) \<and> \<not> pathEscapesRoot (clean (odooRelaxNG c))" for c
    by (auto simp: validateOdooRecipeConfig_def pathEscapesRoot_def Let_def
        split: option.splits if_splits)
  have posture: "ParseUnknownToolPosture p = Inr q \<Longrightarrow> q \<in> {UnknownAudit, UnknownDeny}" for p q
    by (auto simp: ParseUnknownToolPosture_def split: if_splits)
  from assms obtain f ks post and u1 u2 :: unit where
    raw: "(case oiRawLength oio of None \<Rightarrow> Inl OverlayUnreadable
       | Some n \<Rightarrow> if n > maxOverlayBytes then Inl OverlayTooLarge else Inr ()) = Inr u1" and
    post: "(if ofUnknownToolPosture f \<noteq> '''' then
        (case ParseUnknownToolPosture (ofUnknownToolPosture f) of
           Inl e \<Rightarrow> Inl (OverlayPosture e) | Inr p \<Rightarrow> Inr p) else Inr '''') = Inr post" and
    rec: "(case ofOdoo f of None \<Rightarrow> Inr ()
       | Some c \<Rightarrow> (case validateOdooRecipeConfig c of
           Some e \<Rightarrow> Inl (OverlayOdoo e) | None \<Rightarrow> Inr ())) = Inr u2" and
    ov: "overlay_of_file pth f post (key_warnings pth ks) = ov"
    unfolding LoadOverlay_def
    by (simp only: and_then_Inr split_paired_Ex case_prod_conv sum.inject) blast
  have "\<exists>n. oiRawLength oio = Some n \<and> n \<le> maxOverlayBytes"
    using raw by (auto split: option.splits if_splits)
  moreover have "length (ovWarnings ov) \<le> 6"
    using key_warnings_bounded [of pth ks]
    by (simp add: ov [symmetric] overlay_of_file_def maxUnknownKeyWarnings_def)
  moreover have "ovUnknownToolPosture ov \<in> {'''', UnknownAudit, UnknownDeny}"
    using post posture by (auto simp: ov [symmetric] overlay_of_file_def split: if_splits sum.splits)
  moreover have "ovRecipes ov = Some c \<Longrightarrow> validateOdooRecipeConfig c = None" for c
    using rec by (auto simp: ov [symmetric] overlay_of_file_def split: option.splits)
  ultimately show ?thesis using odoo by blast
qed

section \<open>A worked merge\<close>

text \<open>A file system where everything exists and nothing is a link, a Base policy with one secret
  directory, an Operator who authorises one waiver and one egress host, and a repository that asks
  for more than that.\<close>

definition plain_fs :: filesystem where
  "plain_fs = \<lparr>fs_lstat = (\<lambda>_. Exists), fs_eval_symlinks = (\<lambda>p. Some p)\<rparr>"

definition demo_base :: policy where
  "demo_base =
     \<lparr>WebResearchOff = False,
      Slots = \<lparr>SafeRoots = [''/scratch''], SecretDirs = [''.ssh''], SecretGlobs = [''*.pem''],
               SecretAskGlobs = [], SecretAllow = [], EgressAllowlist = [''github.com''],
               WebHosts = [], AuditLog = ''''\<rparr>,
      Recipes = None, Rules = [], Waived = [], UnknownToolPosture = ''''\<rparr>"

definition demo_operator :: operator_config where
  "demo_operator =
     \<lparr>GlobalWebHosts = [''go.dev''], WebResearchEnforcement = '''', Approval = '''',
      Repos = [(''/repo'',
        empty_repo_grant\<lparr>rgWaive := [''P2.docker''], rgEgressAllowlist := [''proxy.golang.org'']\<rparr>)]\<rparr>"

definition demo_overlay :: overlay where
  "demo_overlay =
     \<lparr>ovEngineMinVersion = ''1.2.0'', ovAuditLog = ''/tmp/a'', ovUnknownToolPosture = ''deny'',
      ovSafeRoots = [''build'', ''/etc''], ovSecretDirs = [''keys''], ovSecretGlobs = [],
      ovSecretAskGlobs = [], ovSecretAllow = [''.env''],
      ovEgressAllowlist = [''*'', ''proxy.golang.org''], ovWebHosts = [''evil.example''],
      ovRecipes = None,
      ovRules = [\<lparr>rID = ''R1'', rTool = ''Bash'', rPattern = ''make deploy*'', rDecision = Ask,
                  rReason = ''deploys''\<rparr>],
      ovWaive = [''P2.docker'', ''P3.unresolved'', ''P1.git''], ovPath = ''guardrail.toml'',
      ovWarnings = []\<rparr>"

definition demo_result :: "policy \<times> string list" where
  "demo_result =
     projr (the (Merge plain_fs ''op.toml'' demo_base (Some demo_overlay) ''1.1.9''
       (Some demo_operator) ''/repo''))"

lemma demo_merge_runs:
  "Merge plain_fs ''op.toml'' demo_base (Some demo_overlay) ''1.1.9'' (Some demo_operator) ''/repo''
   = Some (Inr (fst demo_result, snd demo_result))"
  by code_simp

lemma demo_overlay_merge:
  "SafeRoots (Slots (fst demo_result)) = [''/scratch'', ''/repo/build'']"
  "Waived (fst demo_result) = [(''P2.docker'', True)]"
  by code_simp+

theorem Merge_only_tightens_witness:
  "prefix (SecretDirs (Slots demo_base)) (SecretDirs (Slots (fst demo_result))) \<and>
   (\<exists>added. Rules (fst demo_result) = Rules demo_base @ added \<and>
      (\<forall>r\<in>set added. rDecision r = Ask \<or> rDecision r = Deny))"
  using Merge_only_tightens [OF demo_merge_runs] by blast

theorem Merge_loosening_needs_operator_witness:
  "waived (fst demo_result) ''P2.docker'' \<and>
   AllowsWaiver plain_fs (Some demo_operator) ''/repo'' ''P2.docker''"
proof -
  have "waived (fst demo_result) ''P2.docker''"
    by (simp add: waived_def lookup_default_def demo_overlay_merge)
  moreover have "\<not> waived demo_base ''P2.docker''"
    by (simp add: waived_def lookup_default_def demo_base_def)
  ultimately show ?thesis
    using Merge_loosening_needs_operator [OF demo_merge_runs, of "''P2.docker''" "''''" "''''" "''''"]
    by blast
qed

theorem Merge_returns_witness:
  "\<exists>res. Merge plain_fs ''op.toml'' demo_base (Some demo_overlay) ''1.1.9'' (Some demo_operator)
     ''/repo'' = Some res \<and> \<not> isl res"
proof -
  have "is_abs ''/repo''" by (simp add: is_abs_def)
  moreover have "\<not> isl (merge_posture demo_base (Some demo_overlay))" by code_simp
  moreover have "\<forall>r\<in>set (ovRules demo_overlay). rDecision r = Ask \<or> rDecision r = Deny"
    by (simp add: demo_overlay_def)
  ultimately show ?thesis
    using Merge_returns [of "''/repo''" plain_fs "''op.toml''" demo_base "Some demo_overlay"
        "''1.1.9''" "Some demo_operator"] by auto
qed

definition demo_overlay_io :: overlay_io where
  "demo_overlay_io =
     \<lparr>oiStatSize = Some 200, oiRawLength = Some 200,
      oiDecoded = Some (
        \<lparr>ofEngineMinVersion = '''', ofAuditLog = '''', ofUnknownToolPosture = ''deny'',
         ofWaive = [], ofSafeRoots = [], ofSecretDirs = [], ofSecretGlobs = [],
         ofSecretAskGlobs = [], ofSecretAllow = [], ofEgressAllowlist = [], ofWebHosts = [],
         ofOdoo = Some \<lparr>odooModule = ''sale'', odooTestDatabase = ''test'',
                        odooRelaxNG = ''schema/view.rng''\<rparr>,
         ofRules = []\<rparr>, [[''slotz''], [''slotz'', ''safe_root'']])\<rparr>"

theorem LoadOverlay_bounded_and_valid_witness:
  "\<exists>ov. LoadOverlay (join ''.'') demo_overlay_io ''guardrail.toml'' = Inr ov \<and>
        length (ovWarnings ov) \<le> 6 \<and> ovRecipes ov \<noteq> None"
proof -
  let ?ov = "projr (LoadOverlay (join ''.'') demo_overlay_io ''guardrail.toml'')"
  have ok: "LoadOverlay (join ''.'') demo_overlay_io ''guardrail.toml'' = Inr ?ov" by code_simp
  moreover have "ovRecipes ?ov \<noteq> None" by code_simp
  ultimately show ?thesis using LoadOverlay_bounded_and_valid [OF ok] by blast
qed

end
