(* ===== verification/Path_Authority.thy ===== *)
theory Path_Authority
  imports Tool_Call
begin

text \<open>
  Where a command may write: the containment decision of \<^verbatim>\<open>src/internal/engine/rules_bash.go\<close>
  (\<^verbatim>\<open>pathRelationBetween\<close>, \<^verbatim>\<open>authorizedPath\<close>, \<^verbatim>\<open>systemTempRoots\<close>, \<^verbatim>\<open>isWorkingTreeDeletion\<close>, \<^verbatim>\<open>checkRmRf\<close>), the strict
  roots of \<^verbatim>\<open>rules_path.go\<close>, and the path helpers of \<^verbatim>\<open>posix_path.go\<close> and \<^verbatim>\<open>host_path.go\<close>.

  The record \<open>host\<close> holds the operating system's answers during one evaluation: the file system of
  \<^verbatim>\<open>Go_Path\<close>, the identity of the file \<^verbatim>\<open>os.Stat\<close> finds (two paths are \<^verbatim>\<open>os.SameFile\<close> when the identities
  are equal), directories and links, the temporary, home and working directories.  The host is POSIX,
  so \<^verbatim>\<open>filepath.VolumeName\<close> is empty and the Windows branches are not taken.

  \<^verbatim>\<open>pathRelationBetween\<close> walks from a cleaned path to its ancestors.  A cleaned path is its list of
  components, so the walk is recursion on that list; \<open>path_dir_render\<close> is the law that justifies it.  The
  walk of \<^verbatim>\<open>resolveExistingPath\<close> returns whenever the current directory exists (\<open>resolve_walk_returns\<close>).

  The main lemma: an authorized path lies, once its links are resolved, below the resolved form of
  one of the roots, component by component up to letter case.  The theorem about \<^verbatim>\<open>rm\<close> follows.
\<close>

section \<open>The host\<close>

record host =
  hostFs :: filesystem
  hostStat :: "string \<Rightarrow> nat option"
  hostIsDir :: "string \<Rightarrow> bool"
  hostIsLink :: "string \<Rightarrow> bool"
  hostReadSmall :: "string \<Rightarrow> string option"
  hostTempDir :: string
  hostHome :: "string option"
  hostWorkDir :: "string option"
  hostEnv :: "string \<Rightarrow> string option"

text \<open>\<^verbatim>\<open>filepath.Abs\<close> (\<open>None\<close> is its error) and \<^verbatim>\<open>filepath.Dir\<close>.\<close>

definition abs_path :: "host \<Rightarrow> string \<Rightarrow> string option" where
  "abs_path h p =
     (if is_abs p then Some (clean p) else map_option (\<lambda>wd. join_path wd p) (hostWorkDir h))"

definition path_dir :: "string \<Rightarrow> string" where
  "path_dir p = clean (rev (dropWhile (\<lambda>c. c \<noteq> slash) (rev p)))"

section \<open>POSIX paths on a host\<close>

definition posixIsAbs :: "string \<Rightarrow> bool" where
  "posixIsAbs p \<longleftrightarrow> p \<noteq> [] \<and> hd p = slash"

definition posixStandardDevice :: "string \<Rightarrow> bool" where
  "posixStandardDevice p \<longleftrightarrow>
     clean p \<in> set [''/dev/null'', ''/dev/stdout'', ''/dev/stderr'', ''/dev/tty'']"

definition drive_root :: "char \<Rightarrow> string" where
  "drive_root d = [ascii_upper d, CHR '':'', backslash]"

definition posixDriveToWin32 :: "string \<Rightarrow> string option" where
  "posixDriveToWin32 p =
     (case p of
        s # drive # tail \<Rightarrow>
          if s \<noteq> slash \<or> \<not> is_letter drive then None
          else (case tail of
                  [] \<Rightarrow> Some (drive_root drive)
                | t # rest \<Rightarrow>
                    if t \<noteq> slash then None
                    else Some (drive_root drive @
                           map (\<lambda>c. if c = slash then backslash else c) rest))
      | _ \<Rightarrow> None)"

text \<open>\<^verbatim>\<open>posixTempToHost\<close> only answers on Windows.\<close>

definition hostPathForPosix :: "string \<Rightarrow> string option" where
  "hostPathForPosix p =
     (if \<not> posixIsAbs p \<or> is_abs p then Some p else map_option clean (posixDriveToWin32 p))"

definition unmappablePosixAbsolute :: "string \<Rightarrow> bool" where
  "unmappablePosixAbsolute p \<longleftrightarrow> hostPathForPosix p = None"

section \<open>Path candidates\<close>

record path_candidate =
  pcPath :: string
  pcCwd :: string
  pcCwdUnknown :: bool
  pcRepoRoot :: string
  pcPosix :: bool

definition posix_candidate :: "string \<Rightarrow> string \<Rightarrow> bool \<Rightarrow> string \<Rightarrow> path_candidate" where
  "posix_candidate p cwd unknown repoRoot =
     \<lparr>pcPath = p, pcCwd = cwd, pcCwdUnknown = unknown, pcRepoRoot = repoRoot, pcPosix = True\<rparr>"

definition hostPathForCandidate :: "path_candidate \<Rightarrow> string \<Rightarrow> string option" where
  "hostPathForCandidate candidate repoRoot =
     (if pcPosix candidate \<and> \<not> unmappablePosixAbsolute repoRoot
      then hostPathForPosix (pcPath candidate) else Some (pcPath candidate))"

definition resolvePath :: "string \<Rightarrow> string \<Rightarrow> string" where
  "resolvePath p cwd =
     (if has_prefix p ''~'' then p
      else if is_abs p \<or> cwd = '''' then p
      else if last cwd = slash then cwd @ p
      else cwd @ ''/'' @ p)"

definition resolveExistingPath :: "host \<Rightarrow> string \<Rightarrow> string \<Rightarrow> string option" where
  "resolveExistingPath h candidate cwd =
     (case ResolveThroughExistingAncestor (hostFs h) (resolvePath candidate cwd) of
        Some (Inr resolved) \<Rightarrow> Some resolved
      | _ \<Rightarrow> None)"

definition resolvePathCandidate :: "host \<Rightarrow> path_candidate \<Rightarrow> string option" where
  "resolvePathCandidate h c =
     (if pcCwdUnknown c \<and> \<not> is_abs (pcPath c) then None
      else resolveExistingPath h (pcPath c) (pcCwd c))"

section \<open>The relation between two paths\<close>

record path_relation =
  prRelative :: string
  prEqual :: bool
  prWithin :: bool
  prSameSpelling :: bool

definition no_relation :: path_relation where
  "no_relation = \<lparr>prRelative = '''', prEqual = False, prWithin = False, prSameSpelling = False\<rparr>"

definition equal_relation :: "bool \<Rightarrow> path_relation" where
  "equal_relation same = \<lparr>prRelative = ''.'', prEqual = True, prWithin = False, prSameSpelling = same\<rparr>"

definition within_relation :: "string \<Rightarrow> bool \<Rightarrow> path_relation" where
  "within_relation r same = \<lparr>prRelative = r, prEqual = False, prWithin = True, prSameSpelling = same\<rparr>"

definition comps_of :: "string \<Rightarrow> string list" where
  "comps_of p = clean_comps (is_abs p) (split_on slash p)"

definition render_path :: "bool \<Rightarrow> string list \<Rightarrow> string" where
  "render_path rooted cs =
     (if rooted then slash # join ''/'' cs else if cs = [] then ''.'' else join ''/'' cs)"

fun case_only_walk :: "host \<Rightarrow> string \<Rightarrow> string list \<Rightarrow> string list \<Rightarrow> bool" where
  "case_only_walk h current (t # ts) (r # rs) =
     (let here = join_path current t
      in (t = r \<or> (fs_lstat (hostFs h) here = Exists \<and> \<not> hostIsLink h here)) \<and>
         case_only_walk h here ts rs)"
| "case_only_walk h current ts rs = True"

definition caseOnlySpelling :: "host \<Rightarrow> string \<Rightarrow> string \<Rightarrow> bool" where
  "caseOnlySpelling h root candidate =
     (equal_fold candidate root \<and>
      (let ts = fields_func (\<lambda>c. c = slash) candidate; rs = fields_func (\<lambda>c. c = slash) root
       in length ts = length rs \<and> case_only_walk h ''/'' ts rs))"

text \<open>The walk up from a cleaned path, given by its components in reverse: the first ancestor that is
  the same file as the root.\<close>

fun ancestor_walk ::
  "host \<Rightarrow> nat \<Rightarrow> string \<Rightarrow> bool \<Rightarrow> string list \<Rightarrow> string list \<Rightarrow> path_relation option" where
  "ancestor_walk h rootInfo root rooted rcs below =
     (let current = render_path rooted (rev rcs)
      in if hostStat h current = Some rootInfo
         then (let same = current = root \<or> caseOnlySpelling h root current
               in Some (if below = [] then equal_relation same
                        else within_relation (clean (join ''/'' below)) same))
         else (case rcs of
                 [] \<Rightarrow> None
               | c # rcs' \<Rightarrow> ancestor_walk h rootInfo root rooted rcs' (c # below)))"

declare ancestor_walk.simps [simp del]

definition lexical_relation :: "string \<Rightarrow> string \<Rightarrow> path_relation" where
  "lexical_relation target root =
     (if target = root then equal_relation True
      else (case rel root target of
              None \<Rightarrow> no_relation
            | Some relative \<Rightarrow>
                if relative \<noteq> ''.'' \<and> relative \<noteq> ''..'' \<and> \<not> has_prefix relative ''../''
                then within_relation relative True else no_relation))"

definition pathRelationBetween :: "host \<Rightarrow> string \<Rightarrow> string \<Rightarrow> path_relation" where
  "pathRelationBetween h target0 root0 =
     (let target = clean target0; root = clean root0;
          met = (case hostStat h root of
                   None \<Rightarrow> None
                 | Some info \<Rightarrow> ancestor_walk h info root (is_abs target) (rev (comps_of target)) [])
      in (case met of Some r \<Rightarrow> r | None \<Rightarrow> lexical_relation target root))"

section \<open>Roots\<close>

definition temp_root_step :: "host \<Rightarrow> string list \<Rightarrow> string \<Rightarrow> string list" where
  "temp_root_step h roots root0 =
     (let root = clean root0
      in if \<not> is_abs root \<or> root = ''/'' \<or> root \<in> set roots \<or> hostStat h root = None \<or> \<not> hostIsDir h root
         then roots
         else (case fs_eval_symlinks (hostFs h) root of
                 Some resolved \<Rightarrow>
                   if resolved \<noteq> root \<and> resolved \<notin> set roots then roots @ [root, resolved]
                   else roots @ [root]
               | None \<Rightarrow> roots @ [root]))"

definition systemTempRoots :: "host \<Rightarrow> string list" where
  "systemTempRoots h = foldl (temp_root_step h) [] [hostTempDir h, ''/tmp'', ''/var/tmp'']"

definition hasRawDotDot :: "string \<Rightarrow> bool" where
  "hasRawDotDot candidate = (''..'' \<in> set (fields_func (\<lambda>c. c = slash) candidate))"

definition under_home :: "string \<Rightarrow> bool" where
  "under_home p \<longleftrightarrow> p = ''~'' \<or> has_prefix p ''~/''"

fun memory_walk :: "host \<Rightarrow> string \<Rightarrow> string \<Rightarrow> (string \<times> string) list \<Rightarrow> string option" where
  "memory_walk h candidatePrefix expectedPrefix [] = Some expectedPrefix"
| "memory_walk h candidatePrefix expectedPrefix ((component, expected) # rest) =
     (let cp = join_path candidatePrefix component; ep = join_path expectedPrefix expected
      in if \<not> prEqual (pathRelationBetween h cp ep) then None
         else (case fs_lstat (hostFs h) cp of
                 Exists \<Rightarrow> if hostIsLink h cp then None else memory_walk h cp ep rest
               | NotExist \<Rightarrow> memory_walk h cp ep rest
               | StatError \<Rightarrow> None))"

definition claudeMemoryRoot :: "host \<Rightarrow> path_candidate \<Rightarrow> string option" where
  "claudeMemoryRoot h c =
     (if under_home (pcPath c) \<or> hasRawDotDot (pcPath c) \<or> (pcCwdUnknown c \<and> \<not> is_abs (pcPath c))
      then None
      else (case hostHome h of
              None \<Rightarrow> None
            | Some home0 \<Rightarrow>
                let home = clean home0
                in if \<not> is_abs home0 \<or> home = ''/'' then None
                   else (case abs_path h (resolvePath (pcPath c) (pcCwd c)) of
                           None \<Rightarrow> None
                         | Some target \<Rightarrow>
                             let homeRelation = pathRelationBetween h target home;
                                 components = split_on slash (prRelative homeRelation);
                                 candidateHome = (path_dir ^^ length components) target
                             in if prEqual homeRelation \<or> \<not> prWithin homeRelation \<or>
                                   length components < 4 \<or> components ! 2 = ''''
                                then None
                                else (case memory_walk h candidateHome home
                                             (zip (take 4 components)
                                                [''.claude'', ''projects'', components ! 2, ''memory'']) of
                                        None \<Rightarrow> None
                                      | Some memoryRoot \<Rightarrow>
                                          (case (resolveExistingPath h home '''',
                                                 resolveExistingPath h memoryRoot '''') of
                                             (Some physicalHome, Some physicalMemory) \<Rightarrow>
                                               if prEqual (pathRelationBetween h physicalHome ''/'') \<or>
                                                  \<not> prWithin (pathRelationBetween h physicalMemory physicalHome)
                                               then None else Some memoryRoot
                                           | _ \<Rightarrow> None)))))"

definition strictWriteRoots :: "host \<Rightarrow> tool_call \<Rightarrow> path_candidate \<Rightarrow> string list" where
  "strictWriteRoots h tc candidate =
     systemTempRoots h @
     (if tcPlane tc = ''claude''
      then (case claudeMemoryRoot h candidate of Some r \<Rightarrow> [r] | None \<Rightarrow> []) else []) @
     tcPermittedRoots tc"

section \<open>Authorized paths\<close>

record authorized_root =
  arLexical :: string
  arPhysical :: string
  arStrict :: bool

definition add_root ::
  "host \<Rightarrow> path_candidate \<Rightarrow> bool \<Rightarrow> bool \<Rightarrow> string \<Rightarrow> authorized_root list" where
  "add_root h c rejectSymlink strict root0 =
     (if root0 = '''' \<or> (pcCwdUnknown c \<and> \<not> is_abs root0) then []
      else (case abs_path h (resolvePath root0 (pcCwd c)) of
              None \<Rightarrow> []
            | Some root \<Rightarrow>
                if clean root = ''/'' then []
                else (case resolveExistingPath h root '''' of
                        None \<Rightarrow> []
                      | Some physical \<Rightarrow>
                          if prEqual (pathRelationBetween h physical ''/'') \<or>
                             (rejectSymlink \<and> \<not> prSameSpelling (pathRelationBetween h physical root))
                          then []
                          else [\<lparr>arLexical = root, arPhysical = physical, arStrict = strict\<rparr>])))"

definition authorized_roots ::
  "host \<Rightarrow> path_candidate \<Rightarrow> string \<Rightarrow> string list \<Rightarrow> string list \<Rightarrow> bool \<Rightarrow> authorized_root list" where
  "authorized_roots h c repoRoot safeRoots strictRoots allowTemp =
     add_root h c False False repoRoot @
     concat (map (add_root h c True False) safeRoots) @
     (if allowTemp then add_root h c False False (hostTempDir h) else []) @
     concat (map (add_root h c False True) strictRoots)"

definition holds :: "path_relation \<Rightarrow> bool" where
  "holds r \<longleftrightarrow> prSameSpelling r \<and> (prEqual r \<or> prWithin r)"

definition lexicallyWithin :: "host \<Rightarrow> string \<Rightarrow> authorized_root \<Rightarrow> bool" where
  "lexicallyWithin h target root = holds (pathRelationBetween h target (arLexical root))"

definition withinRoot :: "host \<Rightarrow> string \<Rightarrow> string \<Rightarrow> authorized_root \<Rightarrow> bool" where
  "withinRoot h target physicalTarget root =
     (lexicallyWithin h target root \<and> holds (pathRelationBetween h physicalTarget (arPhysical root)))"

definition isStrictRoot :: "host \<Rightarrow> string \<Rightarrow> string \<Rightarrow> authorized_root \<Rightarrow> bool" where
  "isStrictRoot h target physicalTarget root =
     (arStrict root \<and>
      (prEqual (pathRelationBetween h target (arLexical root)) \<or>
       prEqual (pathRelationBetween h physicalTarget (arPhysical root))))"

definition authorize_among ::
  "host \<Rightarrow> string \<Rightarrow> string \<Rightarrow> authorized_root list \<Rightarrow> bool \<times> bool" where
  "authorize_among h target physicalTarget roots =
     (case find (isStrictRoot h target physicalTarget) roots of
        Some root \<Rightarrow> (False, prSameSpelling (pathRelationBetween h target (arLexical root)))
      | None \<Rightarrow>
          if list_ex (\<lambda>r. \<not> arStrict r \<and> withinRoot h target physicalTarget r) roots then (True, True)
          else if list_ex (\<lambda>r. arStrict r \<and> withinRoot h target physicalTarget r) roots then (True, True)
          else (False, list_ex (lexicallyWithin h target) roots))"

definition authorizedPath ::
  "host \<Rightarrow> path_candidate \<Rightarrow> string \<Rightarrow> string list \<Rightarrow> string list \<Rightarrow> bool \<Rightarrow> bool \<times> bool" where
  "authorizedPath h c repoRoot safeRoots strictRoots allowTemp =
     (if under_home (pcPath c) \<or> (pcCwdUnknown c \<and> \<not> is_abs (pcPath c)) then (False, False)
      else (case hostPathForCandidate c repoRoot of
              None \<Rightarrow> (False, False)
            | Some candidatePath \<Rightarrow>
                (case abs_path h (resolvePath candidatePath (pcCwd c)) of
                   None \<Rightarrow> (False, False)
                 | Some target \<Rightarrow>
                     (case resolveExistingPath h target '''' of
                        None \<Rightarrow> (False, False)
                      | Some physicalTarget \<Rightarrow>
                          authorize_among h target physicalTarget
                            (authorized_roots h c repoRoot safeRoots strictRoots allowTemp)))))"

section \<open>Recursive and forced removal\<close>

definition deletes_reference :: "host \<Rightarrow> string \<Rightarrow> string option \<Rightarrow> string \<Rightarrow> bool" where
  "deletes_reference h target physicalTarget reference =
     (reference \<noteq> '''' \<and>
      (case abs_path h reference of
         None \<Rightarrow> False
       | Some refAbs \<Rightarrow>
           prEqual (pathRelationBetween h target refAbs) \<or>
           prWithin (pathRelationBetween h refAbs target) \<or>
           (case (physicalTarget, resolveExistingPath h refAbs '''') of
              (Some phys, Some physRef) \<Rightarrow>
                prEqual (pathRelationBetween h phys physRef) \<or>
                prWithin (pathRelationBetween h physRef phys)
            | _ \<Rightarrow> False)))"

definition isWorkingTreeDeletion :: "host \<Rightarrow> path_candidate \<Rightarrow> string \<Rightarrow> string \<Rightarrow> bool" where
  "isWorkingTreeDeletion h c repoRoot sessionCWD =
     (if pcCwdUnknown c \<and> \<not> is_abs (pcPath c) then False
      else (case hostPathForCandidate c repoRoot of
              None \<Rightarrow> False
            | Some candidatePath \<Rightarrow>
                if pcCwd c = '''' \<and> \<not> is_abs candidatePath then False
                else (case abs_path h (resolvePath candidatePath (pcCwd c)) of
                        None \<Rightarrow> False
                      | Some target \<Rightarrow>
                          let physical = resolveExistingPath h target ''''
                          in deletes_reference h target physical sessionCWD \<or>
                             deletes_reference h target physical repoRoot)))"

fun first_hit :: "'a option list \<Rightarrow> 'a option" where
  "first_hit [] = None"
| "first_hit (None # hs) = first_hit hs"
| "first_hit (Some v # hs) = Some v"

definition rm_reason :: string where
  "rm_reason = ''recursive/forced rm of a path outside the repo and configured safe roots: ''"

definition rm_tree_reason :: string where
  "rm_tree_reason = ''recursive/forced rm of working directory or repository root: ''"

definition rm_operand_hit ::
  "host \<Rightarrow> (string \<Rightarrow> string option) \<Rightarrow> tool_call \<Rightarrow> policy \<Rightarrow> simple \<Rightarrow> nat \<Rightarrow> verdict option" where
  "rm_operand_hit h literalText tc pol s i =
     (if has_prefix (Argv s ! i) ''-'' then None
      else (case (if wordUnresolved literalText s i then map_of (globTailResolved s) i
                  else Some (Argv s ! i)) of
              None \<Rightarrow> None
            | Some raw \<Rightarrow>
                let candidate = posix_candidate raw (simpleCwd s tc) (cwdUnknown s) ''''
                in if cwdUnknown s \<and> \<not> is_abs raw then None
                   else if \<not> Unresolved s \<and> \<not> findCallback s \<and>
                           isWorkingTreeDeletion h candidate (tcRepoRoot tc) (tcCWD tc)
                   then deny ''P1.rm-rf'' (rm_tree_reason @ raw)
                   else if \<not> fst (authorizedPath h candidate (tcRepoRoot tc) (SafeRoots (Slots pol))
                                   (strictWriteRoots h tc candidate) False)
                   then deny ''P1.rm-rf'' (rm_reason @ raw)
                   else None))"

definition checkRmRf ::
  "host \<Rightarrow> (string \<Rightarrow> string option) \<Rightarrow> tool_call \<Rightarrow> policy \<Rightarrow> simple \<Rightarrow> verdict option" where
  "checkRmRf h literalText tc pol s =
     (if head (Argv s) \<noteq> ''rm'' then None
      else if \<not> hasAnyFlag (Argv s) ''rfR'' [''--recursive'', ''--force''] then None
      else if \<not> hasAnyFlag (Argv s) ''rR'' [''--recursive''] \<and> \<not> hasAnyFlag (Argv s) ''f'' [''--force'']
      then None
      else first_hit (map (rm_operand_hit h literalText tc pol s) [1..<length (Argv s)]))"

section \<open>Commands derived from a command\<close>

definition remapProvenance :: "nat list \<Rightarrow> nat \<Rightarrow> nat \<Rightarrow> nat list" where
  "remapProvenance source start n =
     map (\<lambda>i. i - start) (filter (\<lambda>i. start \<le> i \<and> i < start + n) source)"

definition remapStringProvenance :: "(nat \<times> string) list \<Rightarrow> nat \<Rightarrow> nat \<Rightarrow> (nat \<times> string) list" where
  "remapStringProvenance source start n =
     map (\<lambda>(i, v). (i - start, v)) (filter (\<lambda>(i, v). start \<le> i \<and> i < start + n) source)"

text \<open>The source position is \<open>None\<close> where the source passes \<^verbatim>\<open>-1\<close>.\<close>

definition commandDerivedFromAt :: "simple \<Rightarrow> argv \<Rightarrow> nat option \<Rightarrow> simple" where
  "commandDerivedFromAt outer argv sourceArg =
     (let kept = (case sourceArg of Some a \<Rightarrow> a + length argv \<le> length (Argv outer) | None \<Rightarrow> False);
          start = (case sourceArg of Some a \<Rightarrow> a | None \<Rightarrow> 0);
          whole = (sourceArg = Some 0 \<and> length argv = length (Argv outer))
      in outer\<lparr>
           Argv := argv,
           Redirects := [],
           ReadRedirects := [],
           Unresolved := Unresolved outer \<or> (gitEnvironmentUnknown outer \<and> head argv = ''git''),
           literalArgs := (if kept then remapProvenance (literalArgs outer) start (length argv) else []),
           resolvedArgs := (if kept then remapProvenance (resolvedArgs outer) start (length argv) else []),
           globTailResolved :=
             (if kept then remapStringProvenance (globTailResolved outer) start (length argv) else []),
           fsUncertain := fsUncertain outer \<or>
             (head argv = ''find'' \<and> (stateFsUncertain outer \<or> pipelines outer \<noteq> [])),
           cwdOnlyUnresolved := cwdOnlyUnresolved outer \<and> whole,
           plainCall := plainCall outer \<and> whole\<rparr>)"

section \<open>Facts: cleaned paths\<close>

lemma first_hit_Some: "first_hit hs = Some v \<Longrightarrow> Some v \<in> set hs"
  by (induction hs rule: first_hit.induct) auto

lemma first_hit_map_Some: "first_hit (map f xs) = Some v \<Longrightarrow> \<exists>x\<in>set xs. f x = Some v"
  by (drule first_hit_Some) (force simp: image_iff)

lemma first_hit_None: "first_hit hs = None \<longleftrightarrow> (\<forall>x\<in>set hs. x = None)"
  by (induction hs rule: first_hit.induct) auto

lemma clean_render: "clean p = render_path (is_abs p) (comps_of p)"
  by (simp add: clean_def render_path_def comps_of_def Let_def)

lemma comps_of_stack: "clean_stack (is_abs p) (rev (comps_of p))"
  by (simp add: comps_of_def clean_comps_stack)

lemma is_abs_render: "clean_stack r (rev cs) \<Longrightarrow> is_abs (render_path r cs) = r"
  using join_head_not_slash [of r cs]
  by (cases r; cases "cs = []") (auto simp: render_path_def is_abs_def)

lemma comps_of_render:
  assumes "clean_stack r (rev cs)"
  shows "comps_of (render_path r cs) = cs"
proof (cases "cs = []")
  case True
  then show ?thesis
    by (simp add: comps_of_def render_path_def is_abs_def clean_comps_def clean_step_cases)
next
  case False
  then have "split_on slash (join ''/'' cs) = cs" using assms by (rule split_clean_join [rotated])
  then have "clean_comps r (split_on slash (render_path r cs)) = cs"
    using assms False
    by (cases r) (simp_all add: render_path_def clean_comps_skip_empty clean_comps_fixed)
  then show ?thesis using is_abs_render [OF assms] by (simp add: comps_of_def)
qed

lemma comps_of_clean [simp]: "comps_of (clean p) = comps_of p"
  by (simp add: clean_render comps_of_render comps_of_stack)

lemma clean_stack_prefix: "clean_stack r (rev (cs @ ds)) \<Longrightarrow> clean_stack r (rev cs)"
proof (induction ds rule: rev_induct)
  case (snoc d ds)
  then have "clean_stack r (d # rev (cs @ ds))" by (simp del: clean_stack.simps)
  then have "clean_stack r (rev (cs @ ds))" by (rule clean_stack_tail)
  then show ?case by (rule snoc.IH)
qed simp

lemma join_snoc: "cs \<noteq> [] \<Longrightarrow> join sep (cs @ [c]) = join sep cs @ sep @ c"
  by (induction sep cs rule: join.induct) auto

lemma render_not_empty:
  assumes "clean_stack r (rev cs)"
  shows "render_path r cs \<noteq> ''''"
proof (cases cs)
  case (Cons c cs')
  then have "c \<noteq> ''''" using clean_stack_comps [OF assms, of c] by simp
  with Cons show ?thesis by (cases cs') (auto simp: render_path_def)
qed (simp add: render_path_def)

lemma clean_root [simp]: "clean ''/'' = ''/''" and clean_empty [simp]: "clean '''' = ''.''"
  by (simp_all add: clean_def is_abs_def Let_def clean_comps_def clean_step_cases)

text \<open>Going to the parent directory drops the last component.\<close>

lemma path_dir_render:
  assumes "clean_stack r (rev (cs @ [c]))"
  shows "path_dir (render_path r (cs @ [c])) = render_path r cs"
proof -
  have "slash \<notin> set c" using clean_stack_comps [OF assms, of c] by simp
  then have c: "\<forall>x\<in>set c. x \<noteq> slash" by blast
  have st: "clean_stack r (rev cs)" using assms by (rule clean_stack_prefix)
  have drop: "rev (dropWhile (\<lambda>x. x \<noteq> slash) (rev (a @ slash # c))) = a @ [slash]" for a
    using c dropWhile_append2 [of "rev c" "\<lambda>x. x \<noteq> slash" "slash # rev a"] by simp
  have nodrop: "rev (dropWhile (\<lambda>x. x \<noteq> slash) (rev c)) = ''''"
    using c by (simp add: dropWhile_eq_Nil_conv)
  show ?thesis
  proof (cases "cs = []")
    case True
    have "path_dir (slash # c) = ''/''" and "path_dir c = ''.''"
      unfolding path_dir_def nodrop using drop [of "[]"] by simp_all
    with True show ?thesis by (cases r) (simp_all add: render_path_def)
  next
    case False
    let ?p = "render_path r cs"
    have p: "render_path r (cs @ [c]) = ?p @ slash # c"
      using False by (cases r) (simp_all add: render_path_def join_snoc)
    have abs: "is_abs (?p @ [slash]) = r"
      using is_abs_render [OF st] render_not_empty [OF st]
      by (cases ?p) (auto simp: is_abs_def)
    have "split_on slash (?p @ [slash]) = split_on slash ?p @ ['''']"
      by (rule split_on_snoc_sep)
    moreover have "clean_comps r (split_on slash ?p) = cs"
      using comps_of_render [OF st] is_abs_render [OF st] by (simp add: comps_of_def)
    ultimately have "comps_of (?p @ [slash]) = cs"
      using abs by (simp add: comps_of_def clean_comps_def clean_step_cases)
    then show ?thesis using abs drop [of ?p] unfolding p path_dir_def by (simp add: clean_render)
  qed
qed

section \<open>Facts: letter case\<close>

declare ascii_lower_slash [simp]

lemma ascii_lower_dot [simp]: "ascii_lower c = CHR ''.'' \<longleftrightarrow> c = CHR ''.''"
  by (rule ascii_lower_char) (simp_all add: upper_letters_def lower_letters_def)

lemma to_lower_dots:
  "to_lower s = '''' \<longleftrightarrow> s = ''''" "to_lower s = ''.'' \<longleftrightarrow> s = ''.''" "to_lower s = ''..'' \<longleftrightarrow> s = ''..''"
  by (auto simp: to_lower_def map_eq_Cons_conv)

lemma split_on_lower: "split_on slash (to_lower s) = map to_lower (split_on slash s)"
proof (induction s)
  case (Cons c s)
  obtain y ys where "split_on slash s = y # ys" by (cases "split_on slash s") auto
  with Cons show ?case by (simp add: to_lower_Cons) (simp add: to_lower_def)
qed (simp add: to_lower_def)

lemma clean_step_lower:
  "clean_step r (map to_lower st) (to_lower c) = map to_lower (clean_step r st c)"
  by (cases st) (simp_all add: clean_step.simps to_lower_dots to_lower_dots(3) [THEN iffD2, OF refl])

lemma clean_comps_lower: "clean_comps r (map to_lower cs) = map to_lower (clean_comps r cs)"
proof -
  have "foldl (clean_step r) (map to_lower st) (map to_lower cs) =
        map to_lower (foldl (clean_step r) st cs)" for st
    by (induction cs arbitrary: st) (simp_all add: clean_step_lower)
  from this [of "[]"] show ?thesis by (simp add: clean_comps_def rev_map)
qed

lemma is_abs_lower [simp]: "is_abs (to_lower p) = is_abs p"
  by (cases p) (auto simp: is_abs_def to_lower_def)

lemma comps_of_lower: "comps_of (to_lower p) = map to_lower (comps_of p)"
  by (simp add: comps_of_def split_on_lower clean_comps_lower)

text \<open>One absolute path lies at or below another, up to letter case.\<close>

definition below :: "string \<Rightarrow> string \<Rightarrow> bool" where
  "below p root \<longleftrightarrow> prefix (map to_lower (comps_of root)) (map to_lower (comps_of p))"

lemma below_clean [simp]: "below (clean p) r = below p r" "below p (clean r) = below p r"
  by (simp_all add: below_def)

lemma below_refl [simp]: "below p p"
  by (simp add: below_def)

lemma below_trans: "below p q \<Longrightarrow> below q r \<Longrightarrow> below p r"
  by (auto simp: below_def intro: prefix_order.trans)

section \<open>Facts: the relation between two paths\<close>

lemma same_spelling_comps:
  assumes "p = root \<or> caseOnlySpelling h root p"
  shows "map to_lower (comps_of root) = map to_lower (comps_of p)"
proof -
  from assms have "to_lower p = to_lower root"
    by (auto simp: caseOnlySpelling_def equal_fold_def)
  then show ?thesis by (metis comps_of_lower)
qed

lemma ancestor_walk_holds:
  assumes "ancestor_walk h info root rooted rcs sfx = Some r" and "prSameSpelling r"
    and "clean_stack rooted (rev (rev rcs @ sfx))"
  shows "below (render_path rooted (rev rcs @ sfx)) root"
  using assms
proof (induction rcs arbitrary: sfx)
  case (Cons c rcs)
  show ?case
  proof (cases "hostStat h (render_path rooted (rev (c # rcs))) = Some info")
    case False
    with Cons.prems(1) have "ancestor_walk h info root rooted rcs (c # sfx) = Some r"
      by (subst (asm) ancestor_walk.simps) (simp add: Let_def)
    with Cons.IH [of "c # sfx"] Cons.prems show ?thesis by simp
  next
    case True
    let ?cur = "render_path rooted (rev (c # rcs))"
    have "?cur = root \<or> caseOnlySpelling h root ?cur"
      using Cons.prems(1,2) True
      by (subst (asm) ancestor_walk.simps)
        (auto simp: Let_def equal_relation_def within_relation_def split: if_splits)
    then have "map to_lower (comps_of root) = map to_lower (rev (c # rcs))"
      using same_spelling_comps comps_of_render clean_stack_prefix [OF Cons.prems(3)] by metis
    with Cons.prems(3) show ?thesis by (simp add: below_def comps_of_render del: clean_stack.simps)
  qed
next
  case Nil
  let ?cur = "render_path rooted []"
  have "?cur = root \<or> caseOnlySpelling h root ?cur"
    using Nil(1,2)
    by (subst (asm) ancestor_walk.simps)
      (auto simp: Let_def equal_relation_def within_relation_def split: if_splits)
  then have "map to_lower (comps_of root) = map to_lower []"
    using same_spelling_comps comps_of_render [of rooted "[]"] by fastforce
  then show ?case by (simp add: below_def)
qed

lemma strip_common_split:
  "strip_common bs ts = (bs', ts') \<Longrightarrow> \<exists>cs. bs = cs @ bs' \<and> ts = cs @ ts'"
proof (induction bs ts arbitrary: bs' ts' rule: strip_common.induct)
  case (1 b bs t ts)
  show ?case
  proof (cases "b = t")
    case True
    with 1 obtain cs where "bs = cs @ bs' \<and> ts = cs @ ts'" by auto
    with True show ?thesis by (auto intro: exI [of _ "t # cs"])
  next
    case False
    with 1 show ?thesis by auto
  qed
qed auto

lemma path_comps_clean: "path_comps (clean p) = comps_of p"
proof -
  have st: "clean_stack (is_abs p) (rev (comps_of p))" by (rule comps_of_stack)
  have plain: "filter (\<lambda>c. c \<noteq> '''' \<and> c \<noteq> ''.'') (comps_of p) = comps_of p"
    using clean_stack_comps [OF st] by (auto intro: filter_True)
  show ?thesis
  proof (cases "comps_of p = []")
    case True
    then show ?thesis by (cases "is_abs p") (simp_all add: clean_render path_comps_def render_path_def)
  next
    case False
    with split_clean_join [OF st] plain show ?thesis
      by (cases "is_abs p") (simp_all add: clean_render path_comps_def render_path_def)
  qed
qed

lemma lexical_relation_holds:
  assumes "holds (lexical_relation (clean t) (clean root))"
  shows "below t root"
proof (cases "clean t = clean root")
  case True
  then have "below (clean t) (clean root)" by simp
  then show ?thesis by (simp only: below_clean)
next
  case False
  with assms obtain r where r: "rel (clean root) (clean t) = Some r" "r \<noteq> ''..''" "\<not> has_prefix r ''../''"
    by (auto simp: lexical_relation_def holds_def no_relation_def split: option.splits if_splits)
  obtain bs ts where strip: "strip_common (comps_of root) (comps_of t) = (bs, ts)" by fastforce
  from r(1) False strip have "r = join ''/'' (replicate (length bs) ''..'' @ ts)"
    by (auto simp: rel_def Let_def path_comps_clean split: if_splits)
  moreover have "bs \<noteq> [] \<Longrightarrow> join ''/'' (replicate (length bs) ''..'' @ ts) = ''..'' \<or>
      has_prefix (join ''/'' (replicate (length bs) ''..'' @ ts)) ''../''"
    by (cases bs; cases "tl bs"; cases ts) auto
  ultimately have "bs = []" using r by blast
  with strip_common_split [OF strip] show ?thesis by (auto simp: below_def prefix_def)
qed

lemma pathRelation_holds:
  assumes "holds (pathRelationBetween h t root)"
  shows "below t root"
proof (cases "\<exists>info r. hostStat h (clean root) = Some info \<and>
    ancestor_walk h info (clean root) (is_abs t) (rev (comps_of t)) [] = Some r")
  case True
  then obtain info r where w: "hostStat h (clean root) = Some info"
      "ancestor_walk h info (clean root) (is_abs t) (rev (comps_of t)) [] = Some r" by blast
  then have "prSameSpelling r" using assms by (simp add: pathRelationBetween_def holds_def)
  then have "below (render_path (is_abs t) (comps_of t)) (clean root)"
    using ancestor_walk_holds [OF w(2)] comps_of_stack [of t] by simp
  then show ?thesis by (simp add: clean_render [symmetric])
next
  case False
  then have "pathRelationBetween h t root = lexical_relation (clean t) (clean root)"
    by (auto simp: pathRelationBetween_def Let_def split: option.splits)
  with assms show ?thesis by (simp add: lexical_relation_holds)
qed

section \<open>Facts: authorized paths\<close>

lemma hostPathForPosix_host [simp]: "hostPathForPosix p = Some p"
  by (cases p) (auto simp: hostPathForPosix_def posixIsAbs_def is_abs_def)

lemma hostPathForCandidate_host [simp]: "hostPathForCandidate c repoRoot = Some (pcPath c)"
  by (simp add: hostPathForCandidate_def)

lemma posix_candidate_simps [simp]:
  "pcPath (posix_candidate p d u r) = p" "pcCwd (posix_candidate p d u r) = d"
  "pcCwdUnknown (posix_candidate p d u r) = u" "pcRepoRoot (posix_candidate p d u r) = r"
  "pcPosix (posix_candidate p d u r)"
  by (simp_all add: posix_candidate_def)

text \<open>What \<^verbatim>\<open>addRoot\<close> makes of a configured root: its absolute and its resolved form.\<close>

definition root_forms :: "host \<Rightarrow> path_candidate \<Rightarrow> string \<Rightarrow> string \<Rightarrow> string \<Rightarrow> bool" where
  "root_forms h c configured lexical physical \<longleftrightarrow>
     configured \<noteq> '''' \<and> abs_path h (resolvePath configured (pcCwd c)) = Some lexical \<and>
     clean lexical \<noteq> ''/'' \<and> resolveExistingPath h lexical '''' = Some physical"

definition configured_roots :: "host \<Rightarrow> string \<Rightarrow> string list \<Rightarrow> string list \<Rightarrow> bool \<Rightarrow> string list" where
  "configured_roots h repoRoot safeRoots strictRoots allowTemp =
     repoRoot # safeRoots @ (if allowTemp then [hostTempDir h] else []) @ strictRoots"

lemma add_root_forms:
  "r \<in> set (add_root h c rej strict root0) \<Longrightarrow>
   root_forms h c root0 (arLexical r) (arPhysical r) \<and> arStrict r = strict"
  by (auto simp: add_root_def root_forms_def split: if_splits option.splits)

lemma authorized_roots_forms:
  assumes "r \<in> set (authorized_roots h c repoRoot safeRoots strictRoots allowTemp)"
  shows "\<exists>root0 \<in> set (configured_roots h repoRoot safeRoots strictRoots allowTemp).
    root_forms h c root0 (arLexical r) (arPhysical r)"
  using assms
  by (auto simp: authorized_roots_def configured_roots_def split: if_splits dest: add_root_forms)

lemma authorize_among_True:
  assumes "fst (authorize_among h target phys roots)"
  shows "\<exists>r\<in>set roots. withinRoot h target phys r" and "\<forall>r\<in>set roots. \<not> isStrictRoot h target phys r"
  using assms
  by (auto simp: authorize_among_def list_ex_iff find_None_iff split: option.splits if_splits)

text \<open>A path and the configured root it lies below, both before and after links are resolved.\<close>

definition contained :: "host \<Rightarrow> path_candidate \<Rightarrow> string list \<Rightarrow> bool" where
  "contained h c roots \<longleftrightarrow>
     (\<exists>target phys root0 lexical physical.
        abs_path h (resolvePath (pcPath c) (pcCwd c)) = Some target \<and>
        resolveExistingPath h target '''' = Some phys \<and>
        root0 \<in> set roots \<and> root_forms h c root0 lexical physical \<and>
        below target lexical \<and> below phys physical)"

lemma authorizedPath_contained:
  assumes "fst (authorizedPath h c repoRoot safeRoots strictRoots allowTemp)"
  shows "contained h c (configured_roots h repoRoot safeRoots strictRoots allowTemp)"
proof -
  from assms obtain target phys where t: "abs_path h (resolvePath (pcPath c) (pcCwd c)) = Some target"
    and p: "resolveExistingPath h target '''' = Some phys"
    and a: "fst (authorize_among h target phys
              (authorized_roots h c repoRoot safeRoots strictRoots allowTemp))"
    by (auto simp: authorizedPath_def split: if_splits option.splits)
  from authorize_among_True(1) [OF a] obtain r
    where r: "r \<in> set (authorized_roots h c repoRoot safeRoots strictRoots allowTemp)"
      and w: "withinRoot h target phys r" by blast
  from w have "below target (arLexical r)" "below phys (arPhysical r)"
    by (auto simp: withinRoot_def lexicallyWithin_def dest: pathRelation_holds)
  with t p authorized_roots_forms [OF r] show ?thesis unfolding contained_def by blast
qed

lemma authorizedPath_not_home:
  "fst (authorizedPath h c repoRoot safeRoots strictRoots allowTemp) \<Longrightarrow>
   \<not> under_home (pcPath c) \<and> (pcCwdUnknown c \<longrightarrow> is_abs (pcPath c))"
  by (auto simp: authorizedPath_def split: if_splits)

section \<open>Facts: removal\<close>

lemma contains_any_union:
  "set cs = set ds \<union> set es \<Longrightarrow> contains_any s cs \<longleftrightarrow> contains_any s ds \<or> contains_any s es"
  unfolding contains_any_def by (induction s) auto

lemma hasAnyFlag_union:
  assumes "set short = set s1 \<union> set s2"
  shows "hasAnyFlag argv short (l1 @ l2) \<longleftrightarrow> hasAnyFlag argv s1 l1 \<or> hasAnyFlag argv s2 l2"
proof -
  have "long_flag_matches (l1 @ l2) a \<longleftrightarrow> long_flag_matches l1 a \<or> long_flag_matches l2 a" for a
    by (simp add: long_flag_matches_def)
  then have "(if has_prefix a ''--'' then long_flag_matches (l1 @ l2) a
        else has_prefix a ''-'' \<and> length a > 1 \<and> contains_any (tl a) short) \<longleftrightarrow>
      (if has_prefix a ''--'' then long_flag_matches l1 a
        else has_prefix a ''-'' \<and> length a > 1 \<and> contains_any (tl a) s1) \<or>
      (if has_prefix a ''--'' then long_flag_matches l2 a
        else has_prefix a ''-'' \<and> length a > 1 \<and> contains_any (tl a) s2)" for a
    using contains_any_union [OF assms, of "tl a"] by (cases "has_prefix a ''--''") (simp_all, blast)
  then show ?thesis unfolding hasAnyFlag_def list_ex_iff by blast
qed

lemma hasAnyFlag_rm:
  "hasAnyFlag argv ''rfR'' [''--recursive'', ''--force''] \<longleftrightarrow>
   hasAnyFlag argv ''rR'' [''--recursive''] \<or> hasAnyFlag argv ''f'' [''--force'']"
  using hasAnyFlag_union [of "''rfR''" "''rR''" "''f''" argv "[''--recursive'']" "[''--force'']"]
  by (simp add: insert_commute)

definition rm_candidate :: "simple \<Rightarrow> tool_call \<Rightarrow> string \<Rightarrow> path_candidate" where
  "rm_candidate s tc raw = posix_candidate raw (simpleCwd s tc) (cwdUnknown s) ''''"

definition rm_roots :: "host \<Rightarrow> tool_call \<Rightarrow> policy \<Rightarrow> path_candidate \<Rightarrow> string list" where
  "rm_roots h tc pol c =
     configured_roots h (tcRepoRoot tc) (SafeRoots (Slots pol)) (strictWriteRoots h tc c) False"

definition removes :: "argv \<Rightarrow> bool" where
  "removes argv \<longleftrightarrow> head argv = ''rm'' \<and> hasAnyFlag argv ''rfR'' [''--recursive'', ''--force'']"

lemma checkRmRf_hits:
  "removes (Argv s) \<Longrightarrow>
   checkRmRf h lit tc pol s = first_hit (map (rm_operand_hit h lit tc pol s) [1..<length (Argv s)])"
  using hasAnyFlag_rm [of "Argv s"] by (auto simp: checkRmRf_def removes_def)

lemma rm_operand_silent:
  assumes "rm_operand_hit h lit tc pol s i = None" and "\<not> has_prefix (Argv s ! i) ''-''"
    and "\<not> wordUnresolved lit s i" and "cwdUnknown s \<Longrightarrow> is_abs (Argv s ! i)"
  shows "contained h (rm_candidate s tc (Argv s ! i)) (rm_roots h tc pol (rm_candidate s tc (Argv s ! i)))"
    and "\<not> under_home (Argv s ! i)"
proof -
  let ?c = "rm_candidate s tc (Argv s ! i)"
  have "fst (authorizedPath h ?c (tcRepoRoot tc) (SafeRoots (Slots pol)) (strictWriteRoots h tc ?c) False)"
    using assms by (auto simp: rm_operand_hit_def rm_candidate_def Let_def split: if_splits)
  then show "contained h ?c (rm_roots h tc pol ?c)" and "\<not> under_home (Argv s ! i)"
    using authorizedPath_not_home [of h ?c]
    by (auto simp: rm_roots_def rm_candidate_def dest: authorizedPath_contained)
qed

lemma checkRmRf_silent:
  assumes "removes (Argv s)" and "checkRmRf h lit tc pol s = None"
    and "1 \<le> i" and "i < length (Argv s)"
  shows "rm_operand_hit h lit tc pol s i = None"
  using assms by (auto simp: checkRmRf_hits first_hit_None)

lemma rm_operand_denies:
  "rm_operand_hit h lit tc pol s i = Some v \<Longrightarrow> vRuleID v = ''P1.rm-rf'' \<and> vDecision v = Deny"
  by (auto simp: rm_operand_hit_def Let_def split: if_splits option.splits)

lemma checkRmRf_denies:
  assumes "checkRmRf h lit tc pol s = Some v"
  shows "vRuleID v = ''P1.rm-rf'' \<and> vDecision v = Deny"
proof -
  have "Some v \<in> set (map (rm_operand_hit h lit tc pol s) [1..<length (Argv s)])"
    using assms by (intro first_hit_Some) (auto simp: checkRmRf_def split: if_splits)
  then show ?thesis by (metis (no_types, lifting) imageE image_set rm_operand_denies)
qed

interpretation rm_rf: argv_rule "checkRmRf h lit tc pol" "\<lambda>c. c = ''rm''" "[''P1.rm-rf'']"
  by standard (use checkRmRf_denies in \<open>fastforce simp: checkRmRf_def split: if_splits\<close>)+

section \<open>The walk of resolveExistingPath\<close>

lemma peel_shorter:
  assumes "peelTrailingComponent p = Some (parent, component)"
  shows "parent = ''.'' \<or> length parent < length p"
proof -
  let ?core = "strip_trailing_slashes p"
  let ?par = "dropWhile (\<lambda>c. c \<noteq> slash) (rev ?core)"
  from assms have ne: "?core \<noteq> ''''" and par: "parent = (if rev ?par = '''' then ''.'' else rev ?par)"
    by (auto simp: peelTrailingComponent_def Let_def split: if_splits)
  from ne obtain x xs where core: "rev ?core = x # xs" by (cases "rev ?core") auto
  then have "x = last ?core" by (metis last_snoc rev_eq_Cons_iff)
  then have "x \<noteq> slash" using last_strip_trailing [OF ne] by simp
  then have "length ?par < length (rev ?core)"
    using core length_dropWhile_le [of "\<lambda>c. c \<noteq> slash" xs] by simp
  then show ?thesis using par length_strip_trailing [of p] by simp
qed

lemma resolve_walk_returns:
  assumes "fs_lstat fs ''.'' \<noteq> NotExist"
  shows "\<exists>r. ResolveThroughExistingAncestor fs p = Some r"
proof -
  have dot: "\<exists>r. resolve_loop fs missing ''.'' = Some r" for missing
    using assms by (subst resolve_loop.simps) (auto split: stat_result.splits option.splits)
  have "\<exists>r. resolve_loop fs missing p = Some r" for missing p
  proof (induction "length p" arbitrary: p missing rule: less_induct)
    case less
    show ?case
    proof (cases "fs_lstat fs p = NotExist \<and> peelTrailingComponent p \<noteq> None")
      case True
      then obtain parent component where peel: "peelTrailingComponent p = Some (parent, component)"
        by auto
      then obtain r where "resolve_loop fs (component # missing) parent = Some r"
        using peel_shorter [OF peel] less.hyps dot by metis
      with True peel show ?thesis by (subst resolve_loop.simps) simp
    next
      case False
      then show ?thesis
        by (subst resolve_loop.simps) (auto split: stat_result.splits option.splits)
    qed
  qed
  then show ?thesis by (simp add: ResolveThroughExistingAncestor_def)
qed

section \<open>A recursive removal stays inside\<close>

text \<open>A host on which every path exists, there are no links and files are told apart by name only.\<close>

definition plain_host :: host where
  "plain_host =
     \<lparr>hostFs = \<lparr>fs_lstat = (\<lambda>_. Exists), fs_eval_symlinks = (\<lambda>p. Some p)\<rparr>,
      hostStat = (\<lambda>_. None), hostIsDir = (\<lambda>_. True), hostIsLink = (\<lambda>_. False),
      hostReadSmall = (\<lambda>_. None), hostTempDir = ''/tmp'', hostHome = Some ''/home/alice'',
      hostWorkDir = Some ''/repo'', hostEnv = (\<lambda>_. None)\<rparr>"

definition repo_call :: tool_call where
  "repo_call =
     \<lparr>tcPlane = ''claude'', tcEvent = '''', tcTool = ''Bash'', tcNativeTool = ''Bash'',
      tcContractTool = '''', tcCapability = CapabilityCommand, tcNativeWebResearch = False,
      tcURL = '''', tcInputShape = '''', tcCommand = '''', tcShell = '''', tcPaths = [],
      tcArguments = '''', tcSessionID = '''', tcCallID = '''', tcHostApproved = False,
      tcCWD = ''/repo'', tcRepoRoot = ''/repo'', tcPermittedRoots = [], tcDegradedAllows = []\<rparr>"

lemma resolve_plain [simp]: "resolveExistingPath plain_host p '''' = Some (clean p)"
  by (simp add: resolveExistingPath_def ResolveThroughExistingAncestor_def plain_host_def
      resolve_loop.simps resolvePath_def)

text \<open>A recursive or forced rm that the rule lets pass stays inside.  Whatever flags are given and
  in whatever order, every operand the shell parser could read, in a known working directory, is not
  below the home directory by a tilde, and both as written and after every link is resolved it lies
  at or below the repository root, a configured safe root, a temporary directory or a root the host
  granted, in the same form.\<close>

lemma rm_rf_contained:
  assumes "removes (Argv s)" and "checkRmRf h lit tc pol s = None"
    and "1 \<le> i" and "i < length (Argv s)" and "\<not> has_prefix (Argv s ! i) ''-''"
    and "\<not> wordUnresolved lit s i" and "cwdUnknown s \<Longrightarrow> is_abs (Argv s ! i)"
  shows "contained h (rm_candidate s tc (Argv s ! i)) (rm_roots h tc pol (rm_candidate s tc (Argv s ! i)))
    \<and> \<not> under_home (Argv s ! i)"
  using rm_operand_silent [OF checkRmRf_silent [OF assms(1-4)] assms(5-7)] by blast

definition bare_policy :: policy where
  "bare_policy =
     \<lparr>WebResearchOff = False,
      Slots = \<lparr>SafeRoots = [], SecretDirs = [], SecretGlobs = [], SecretAskGlobs = [], SecretAllow = [],
               EgressAllowlist = [], WebHosts = [], AuditLog = ''''\<rparr>,
      Recipes = None, Rules = [], Waived = [], UnknownToolPosture = UnknownAudit\<rparr>"

text \<open>A tilde with a user's name is not taken for a home directory: it is resolved against the
  working directory of the process, so that removing another user's home passes the rule.\<close>

lemma tilde_user_passes:
  "checkRmRf plain_host Some repo_call bare_policy (simple_of [''rm'', ''-rf'', ''~bob'']) = None"
  by code_simp

end
