(* ===== verification/Rules_Shells.thy ===== *)
theory Rules_Shells
  imports Path_Authority
begin

text \<open>
  The rules for PowerShell and cmd: \<^verbatim>\<open>rules_powershell.go\<close>, \<^verbatim>\<open>rules_cmd.go\<close> and the write-target reader of
  \<^verbatim>\<open>rules_powershell_write.go\<close>, under \<^verbatim>\<open>src/internal/engine\<close>.

  \<^verbatim>\<open>bindPS\<close> resolves a cmdlet's parameters by unambiguous prefix; a cmdlet or a cmd builtin that deletes is
  rewritten into an rm command and judged by \<open>checkRmRf\<close>.  The sets of names are lists, \<^verbatim>\<open>psCopyMove\<close> is an
  association list, the switch regular expression is a scanner.

  The lemmas show what the binding collects for every sequence of arguments, that a delete spelled in
  any of the three shells gets the verdict of the rm command it stands for, and two ways in which the
  rewriting is weaker than the original: quoted targets the parser marks by position, and the filtering
  parameters.
\<close>

section \<open>Parameter tables\<close>

record ps_params =
  psSwitches :: "string list"
  psValues :: "string list"
  psPaths :: "string list"

definition removeItemParams :: ps_params where
  "removeItemParams =
     \<lparr>psSwitches = [''recurse'', ''force'', ''whatif'', ''confirm'', ''usetransaction''],
      psValues = [''path'', ''literalpath'', ''filter'', ''include'', ''exclude'', ''credential'', ''stream''],
      psPaths = [''path'', ''literalpath'']\<rparr>"

definition webRequestParams :: ps_params where
  "webRequestParams =
     \<lparr>psSwitches =
        [''usebasicparsing'', ''usedefaultcredentials'', ''disablekeepalive'', ''passthru'',
         ''resume'', ''skipcertificatecheck'', ''skiphttperrorcheck'', ''nonproxy'',
         ''allowunencryptedauthentication'', ''preserveauthorizationonredirect'',
         ''skipheadervalidation'', ''allowinsecureredirect'', ''nopagination''],
      psValues =
        [''uri'', ''outfile'', ''infile'', ''method'', ''headers'', ''body'', ''contenttype'',
         ''proxy'', ''proxycredential'', ''credential'', ''useragent'', ''timeoutsec'',
         ''maximumredirection'', ''maximumretrycount'', ''retryintervalsec'',
         ''sessionvariable'', ''websession'', ''transferencoding'', ''certificate'',
         ''certificatethumbprint'', ''form'', ''authentication'', ''token'',
         ''statuscodevariable'', ''responseheadersvariable'', ''operationtimeoutseconds''],
      psPaths = []\<rparr>"

definition executionPolicyParams :: ps_params where
  "executionPolicyParams =
     \<lparr>psSwitches = [''force'', ''whatif'', ''confirm''],
      psValues = [''executionpolicy'', ''scope''], psPaths = []\<rparr>"

section \<open>Binding\<close>

record ps_binding =
  pbPresent :: "string list"
  pbOperands :: "string list"
  pbValues :: "(string \<times> string) list"

definition empty_binding :: ps_binding where
  "empty_binding = \<lparr>pbPresent = [], pbOperands = [], pbValues = []\<rparr>"

definition ps_has :: "ps_binding \<Rightarrow> string \<Rightarrow> bool" where
  "ps_has b name \<longleftrightarrow> name \<in> set (pbPresent b)"

text \<open>The name, and the inline argument if there is one; an empty name is not a parameter.\<close>

definition psParameter :: "string \<Rightarrow> string \<times> string option" where
  "psParameter arg =
     (let trimmed = trim_prefix (trim_prefix arg ''-'') ''-''
      in if trimmed = arg \<or> trimmed = '''' then ('''', None)
         else (case cut CHR '':'' trimmed of
                 (name, inline, found) \<Rightarrow>
                   if found then (to_lower name, Some inline) else (to_lower trimmed, None)))"

definition psBooleanArgument :: "string \<Rightarrow> bool" where
  "psBooleanArgument value \<longleftrightarrow> to_lower value \<in> set [''$true'', ''$false'']"

definition psMatches :: "string \<Rightarrow> string list \<Rightarrow> string list" where
  "psMatches name full = filter (\<lambda>candidate. has_prefix candidate name) full"

definition add_operand :: "string \<Rightarrow> ps_binding \<Rightarrow> ps_binding" where
  "add_operand w b = b\<lparr>pbOperands := pbOperands b @ [w]\<rparr>"

definition bind_value :: "ps_params \<Rightarrow> string \<Rightarrow> string \<Rightarrow> ps_binding \<Rightarrow> ps_binding" where
  "bind_value spec name argument b =
     (let b' = b\<lparr>pbValues := upd_assoc name argument (pbValues b)\<rparr>
      in if name \<in> set (psPaths spec) then add_operand argument b' else b')"

fun bindPS_args :: "ps_params \<Rightarrow> ps_binding \<Rightarrow> string list \<Rightarrow> ps_binding" where
  "bindPS_args spec b [] = b"
| "bindPS_args spec b (arg # args) =
     (case psParameter arg of
        (name, inline) \<Rightarrow>
          if name = '''' then bindPS_args spec (add_operand arg b) args
          else
            let switches = psMatches name (psSwitches spec);
                vals = psMatches name (psValues spec);
                b' = b\<lparr>pbPresent := pbPresent b @ switches @ vals\<rparr>
            in if length vals \<noteq> 1 \<or> switches \<noteq> []
               then bindPS_args spec
                      (case inline of
                         Some w \<Rightarrow>
                           if switches \<noteq> [] \<and> vals = [] \<and> psBooleanArgument w then b'
                           else add_operand w b'
                       | None \<Rightarrow> b') args
               else (case inline of
                       Some w \<Rightarrow> bindPS_args spec (bind_value spec (hd vals) w b') args
                     | None \<Rightarrow>
                         (case args of
                            [] \<Rightarrow> b'
                          | w # args' \<Rightarrow> bindPS_args spec (bind_value spec (hd vals) w b') args')))"

definition bindPS :: "argv \<Rightarrow> ps_params \<Rightarrow> ps_binding" where
  "bindPS argv spec = bindPS_args spec empty_binding (tl argv)"

definition psCmdletShaped :: "argv \<Rightarrow> ps_params \<Rightarrow> bool" where
  "psCmdletShaped argv spec =
     list_ex (\<lambda>arg. let name = fst (psParameter arg)
                    in length name \<ge> 3 \<and>
                       (psMatches name (psSwitches spec) \<noteq> [] \<or> psMatches name (psValues spec) \<noteq> []))
       (tl argv)"

section \<open>Commands\<close>

definition removeItemAliases :: "string list" where
  "removeItemAliases = [''remove-item'', ''ri'', ''rd'', ''del'', ''erase'', ''rmdir'']"

definition psDynamicEval :: "string list" where
  "psDynamicEval = [''invoke-expression'', ''iex'']"

fun psEncoded_scan :: "string list \<Rightarrow> bool" where
  "psEncoded_scan [] = False"
| "psEncoded_scan (arg # args) =
     (if \<not> has_prefix arg ''-'' then psEncoded_scan args
      else
        let name = cut_name CHR '':'' (to_lower (dropWhile (\<lambda>c. c = CHR ''-'') arg))
        in if name = ''e'' \<or> name = ''ec'' \<or> (length name \<ge> 2 \<and> has_prefix ''encodedcommand'' name) then True
           else if name = ''c'' \<or> name = ''f'' \<or> (has_prefix ''command'' name \<and> length name \<ge> 2) \<or>
                   (has_prefix ''file'' name \<and> length name \<ge> 2)
           then False
           else psEncoded_scan args)"

definition psEncodedCommand :: "argv \<Rightarrow> bool" where
  "psEncodedCommand argv = psEncoded_scan (tl argv)"

definition psRmFlags :: "ps_binding \<Rightarrow> string" where
  "psRmFlags b =
     ''-'' @ (if ps_has b ''recurse'' then ''r'' else '''') @ (if ps_has b ''force'' then ''f'' else '''')"

definition ps_filtered_hit ::
  "host \<Rightarrow> tool_call \<Rightarrow> policy \<Rightarrow> simple \<Rightarrow> string \<Rightarrow> verdict option" where
  "ps_filtered_hit h tc pol s operand =
     (let candidate = \<lparr>pcPath = operand, pcCwd = simpleCwd s tc, pcCwdUnknown = cwdUnknown s,
                       pcRepoRoot = '''', pcPosix = False\<rparr>
      in if fst (authorizedPath h candidate (tcRepoRoot tc) (SafeRoots (Slots pol))
                   (strictWriteRoots h tc candidate) False)
         then None else deny ''P1.rm-rf'' (rm_reason @ operand))"

definition checkPSRemoveItem ::
  "host \<Rightarrow> (string \<Rightarrow> string option) \<Rightarrow> tool_call \<Rightarrow> policy \<Rightarrow> simple \<Rightarrow> verdict option" where
  "checkPSRemoveItem h literalText tc pol s =
     (let b = bindPS (Argv s) removeItemParams
      in if head (Argv s) = ''rmdir'' \<and> \<not> psCmdletShaped (Argv s) removeItemParams then None
         else if ps_has b ''whatif'' then None
         else if \<not> ps_has b ''recurse'' \<and> \<not> ps_has b ''force'' then None
         else if ps_has b ''filter'' \<or> ps_has b ''exclude'' \<or> ps_has b ''include'' \<or> ps_has b ''stream''
         then first_hit (map (ps_filtered_hit h tc pol s) (pbOperands b))
         else checkRmRf h literalText tc pol
                (commandDerivedFromAt s ([''rm'', psRmFlags b] @ pbOperands b) None))"

definition psWideningPolicies :: "string list" where
  "psWideningPolicies = [''bypass'', ''unrestricted'']"

definition checkPSExecutionPolicy :: "simple \<Rightarrow> verdict option" where
  "checkPSExecutionPolicy s =
     (let b = bindPS (Argv s) executionPolicyParams;
          candidates = pbOperands b @
            (case map_of (pbValues b) ''executionpolicy'' of Some named \<Rightarrow> [named] | None \<Rightarrow> [])
      in case find (\<lambda>c. to_lower c \<in> set psWideningPolicies) candidates of
           Some candidate \<Rightarrow>
             ask ''P1.execution-policy''
               (''Set-ExecutionPolicy '' @ candidate @ '' turns off script-signing enforcement for this host'')
         | None \<Rightarrow> None)"

definition dynamic_reason :: string where
  "dynamic_reason =
     '' evaluates source at runtime, so the command that runs is not the command shown''"

definition encoded_reason :: string where
  "encoded_reason =
     '' -EncodedCommand runs base64-encoded code, so the command that runs is not the command shown. '' @
     ''Write it out with -Command so it can be evaluated''"

definition checkPowerShell ::
  "host \<Rightarrow> (string \<Rightarrow> string option) \<Rightarrow> tool_call \<Rightarrow> policy \<Rightarrow> simple \<Rightarrow> verdict option" where
  "checkPowerShell h literalText tc pol s =
     (let command = head (Argv s)
      in if command \<in> set psDynamicEval then ask ''P6.dynamic-eval'' (command @ dynamic_reason)
         else if (command = ''powershell'' \<or> command = ''pwsh'') \<and> psEncodedCommand (Argv s)
         then ask ''P6.dynamic-eval'' (command @ encoded_reason)
         else if command = ''set-executionpolicy'' then checkPSExecutionPolicy s
         else if command \<in> set removeItemAliases then checkPSRemoveItem h literalText tc pol s
         else None)"

section \<open>Environment references\<close>

definition psReadOnlyCmdlets :: "string list" where
  "psReadOnlyCmdlets =
     [''get-content'', ''gc'', ''select-string'', ''sls'', ''get-childitem'', ''gci'',
      ''get-item'', ''gi'', ''test-path'', ''resolve-path'']"

definition isASCIILetterOrDigit :: "char \<Rightarrow> bool" where
  "isASCIILetterOrDigit b \<longleftrightarrow> is_lower b \<or> is_upper b \<or> is_digit b"

definition env_char :: "char \<Rightarrow> bool" where
  "env_char c \<longleftrightarrow> isASCIILetterOrDigit c \<or> c = CHR ''_''"

definition validEnvName :: "string \<Rightarrow> bool" where
  "validEnvName name \<longleftrightarrow> name \<noteq> '''' \<and> list_all env_char name \<and> \<not> is_digit (hd name)"

definition cutPSEnvPrefix :: "string \<Rightarrow> string option" where
  "cutPSEnvPrefix word =
     (let lower = to_lower word
      in if has_prefix lower ''${env:''
         then (case cut CHR ''}'' word of
                 (before, after, found) \<Rightarrow>
                   if \<not> found \<or> \<not> validEnvName (drop 6 before) then None else Some after)
         else if has_prefix lower ''$env:''
         then (let rest = drop 5 word; name = takeWhile env_char rest
               in if validEnvName name then Some (dropWhile env_char rest) else None)
         else None)"

definition psEnvOnlyUnresolved :: "string \<Rightarrow> bool" where
  "psEnvOnlyUnresolved word =
     (case cutPSEnvPrefix word of None \<Rightarrow> False | Some rest \<Rightarrow> \<not> contains_any rest [CHR ''$'', CHR 0x60])"

definition psEnvReadIsResolved :: "(string \<Rightarrow> string option) \<Rightarrow> simple \<Rightarrow> bool" where
  "psEnvReadIsResolved literalText s =
     (let unresolved = filter (wordUnresolved literalText s) [0..<length (Argv s)]
      in head (Argv s) \<in> set psReadOnlyCmdlets \<and> unresolved \<noteq> [] \<and>
         list_all (\<lambda>i. i \<noteq> 0 \<and> psEnvOnlyUnresolved (Argv s ! i)) unresolved)"

section \<open>cmd\<close>

definition cmdSwitch :: "string \<Rightarrow> string list \<Rightarrow> string option" where
  "cmdSwitch arg known =
     (if length arg < 2 \<or> hd arg \<noteq> slash then None
      else let body = cut_name CHR '':'' (to_lower (tl arg))
           in if body \<in> set known then Some body else None)"

definition cmdDeleteAliases :: "string list" where
  "cmdDeleteAliases = [''del'', ''erase'', ''rd'', ''rmdir'']"

definition cmdDeleteSwitches :: "string list" where
  "cmdDeleteSwitches = [''s'', ''q'', ''f'', ''a'', ''p'']"

definition checkCmdDelete ::
  "host \<Rightarrow> (string \<Rightarrow> string option) \<Rightarrow> tool_call \<Rightarrow> policy \<Rightarrow> simple \<Rightarrow> verdict option" where
  "checkCmdDelete h literalText tc pol s =
     (if head (Argv s) \<notin> set cmdDeleteAliases then None
      else
        let names = map (\<lambda>a. cmdSwitch a cmdDeleteSwitches) (tl (Argv s));
            recursive = (Some ''s'' \<in> set names);
            force = (Some ''q'' \<in> set names \<or> Some ''f'' \<in> set names);
            operands = filter (\<lambda>a. cmdSwitch a cmdDeleteSwitches = None) (tl (Argv s))
        in if \<not> recursive \<and> \<not> force then None
           else if operands = [] then None
           else checkRmRf h literalText tc pol
                  (commandDerivedFromAt s
                    ([''rm'', ''-'' @ (if recursive then ''r'' else '''') @ (if force then ''f'' else '''')] @
                     operands) None))"

definition cmdDiskDestroyers :: "string list" where
  "cmdDiskDestroyers = [''diskpart'']"

definition cmdFormatSwitches :: "string list" where
  "cmdFormatSwitches =
     [''fs'', ''v'', ''q'', ''c'', ''x'', ''a'', ''p'', ''y'', ''r'', ''d'', ''t'', ''n'', ''i'', ''l'']"

definition cmdShapedFormat :: "argv \<Rightarrow> bool" where
  "cmdShapedFormat argv =
     list_ex (\<lambda>arg. cmdSwitch arg cmdFormatSwitches \<noteq> None \<or>
                    (length arg = 2 \<and> arg ! 1 = CHR '':'' \<and> isASCIILetterByte (hd arg))) (tl argv)"

definition destroyer_reason :: string where
  "destroyer_reason = ''filesystem-destroying command: ''"

definition checkCmdDiskDestroyer :: "simple \<Rightarrow> verdict option" where
  "checkCmdDiskDestroyer s =
     (let command = head (Argv s)
      in if command \<in> set cmdDiskDestroyers then deny ''P1.mkfs'' (destroyer_reason @ command)
         else if command \<noteq> ''format'' \<or> \<not> cmdShapedFormat (Argv s) then None
         else deny ''P1.mkfs'' (destroyer_reason @ command))"

section \<open>Write targets\<close>

definition psCopyParams :: ps_params where
  "psCopyParams =
     \<lparr>psSwitches = [''force'', ''recurse'', ''passthru'', ''whatif'', ''confirm'', ''container'', ''usetransaction''],
      psValues = [''path'', ''literalpath'', ''destination'', ''filter'', ''include'', ''exclude'',
                  ''credential'', ''fromsession'', ''tosession'', ''stream''],
      psPaths = [''path'', ''literalpath'']\<rparr>"

definition psContentParams :: ps_params where
  "psContentParams =
     \<lparr>psSwitches = [''force'', ''passthru'', ''whatif'', ''confirm'', ''append'', ''noclobber'',
                    ''nonewline'', ''usetransaction'', ''asbytestream''],
      psValues = [''path'', ''literalpath'', ''filepath'', ''value'', ''encoding'', ''filter'', ''include'',
                  ''exclude'', ''credential'', ''stream'', ''width'', ''itemtype'', ''name''],
      psPaths = [''path'', ''literalpath'', ''filepath'']\<rparr>"

definition psRenameParams :: ps_params where
  "psRenameParams =
     \<lparr>psSwitches = [''force'', ''passthru'', ''whatif'', ''confirm'', ''usetransaction''],
      psValues = [''path'', ''literalpath'', ''newname'', ''credential''],
      psPaths = [''path'', ''literalpath'']\<rparr>"

definition psRemoveParams :: ps_params where
  "psRemoveParams =
     \<lparr>psSwitches = [''force'', ''recurse'', ''whatif'', ''confirm'', ''usetransaction''],
      psValues = [''path'', ''literalpath'', ''filter'', ''include'', ''exclude'', ''credential'', ''stream''],
      psPaths = [''path'', ''literalpath'']\<rparr>"

definition psCopyMove :: "(string \<times> bool) list" where
  "psCopyMove =
     [(''copy-item'', False), (''copy'', False), (''cpi'', False), (''xcopy'', False),
      (''move-item'', True), (''move'', True), (''mi'', True)]"

definition psRemovers :: "string list" where
  "psRemovers = [''remove-item'', ''ri'', ''del'', ''erase'']"

definition psContentWriters :: "string list" where
  "psContentWriters =
     [''set-content'', ''add-content'', ''out-file'', ''tee-object'', ''new-item'', ''clear-content'', ''ni'']"

definition psRenamers :: "string list" where
  "psRenamers = [''rename-item'', ''rni'', ''ren'', ''rename'']"

definition slashSwitch :: "string \<Rightarrow> bool" where
  "slashSwitch a =
     (case a of
        s # c # cs \<Rightarrow>
          s = slash \<and> (is_letter c \<or> c = CHR ''?'') \<and>
          (let rest = dropWhile (\<lambda>x. isASCIILetterOrDigit x \<or> x = CHR ''_'' \<or> x = CHR ''-'') cs
           in rest = [] \<or> (hd rest = CHR '':'' \<and> CHR 0x0A \<notin> set rest))
      | _ \<Rightarrow> False)"

definition stripSlashSwitches :: "argv \<Rightarrow> argv" where
  "stripSlashSwitches argv = hd argv # filter (\<lambda>a. \<not> slashSwitch a) (tl argv)"

definition winBase :: "string \<Rightarrow> string" where
  "winBase p = path_base (to_slash p)"

definition winJoin :: "string \<Rightarrow> string \<Rightarrow> string" where
  "winJoin dir name = trim_right (to_slash dir) ''/'' @ ''/'' @ name"

definition hasWildcard :: "string \<Rightarrow> bool" where
  "hasWildcard p = contains_any p ''*?''"

definition both_binaries :: "string \<Rightarrow> string list" where
  "both_binaries dir = [winJoin dir ''guardrail.exe'', winJoin dir ''guardrail'']"

definition robocopy_targets :: "string list \<Rightarrow> string list" where
  "robocopy_targets operands =
     (case operands of
        source # destination # files \<Rightarrow>
          destination # map (winJoin destination) files @
          (if files = [] \<or> list_ex hasWildcard files then both_binaries destination else [])
      | _ \<Rightarrow> [])"

definition copy_target :: "bool \<Rightarrow> string \<Rightarrow> string \<Rightarrow> string list" where
  "copy_target removes_source destination source =
     (if hasWildcard source then both_binaries destination
      else [winJoin destination (winBase source)]) @
     (if removes_source then [source] else [])"

definition copy_targets :: "bool \<Rightarrow> ps_binding \<Rightarrow> string list" where
  "copy_targets removes_source b =
     (let named = lookup_default '''' (pbValues b) ''destination''; operands = pbOperands b
      in if named \<noteq> '''' then named # concat (map (copy_target removes_source named) operands)
         else if length operands \<ge> 2
         then last operands # concat (map (copy_target removes_source (last operands)) (butlast operands))
         else [])"

definition rename_targets :: "ps_binding \<Rightarrow> string list" where
  "rename_targets b =
     (let named = lookup_default '''' (pbValues b) ''newname'';
          positional = (named = '''' \<and> length (pbOperands b) \<ge> 2);
          newName = (if positional then last (pbOperands b) else named);
          operands = (if positional then butlast (pbOperands b) else pbOperands b)
      in case operands of
           [] \<Rightarrow> []
         | p # _ \<Rightarrow> p # (if newName \<noteq> '''' then [winJoin (path_dir (to_slash p)) newName] else []))"

definition content_targets :: "ps_binding \<Rightarrow> string list" where
  "content_targets b =
     (case pbOperands b of
        [] \<Rightarrow> []
      | p # _ \<Rightarrow>
          p # (let name = lookup_default '''' (pbValues b) ''name''
               in if name \<noteq> '''' then [winJoin p name] else []))"

definition powershellWriteTargets :: "argv \<Rightarrow> string list option" where
  "powershellWriteTargets argv =
     (if argv = [] then None
      else
        let command = head argv
        in if command = ''robocopy'' then Some (robocopy_targets (tl (stripSlashSwitches argv)))
           else (case map_of psCopyMove command of
                   Some removes_source \<Rightarrow>
                     Some (copy_targets removes_source (bindPS (stripSlashSwitches argv) psCopyParams))
                 | None \<Rightarrow>
                     if command \<in> set psRenamers then Some (rename_targets (bindPS argv psRenameParams))
                     else if command \<in> set psRemovers
                     then Some (pbOperands (bindPS (stripSlashSwitches argv) psRemoveParams))
                     else if command \<in> set psContentWriters
                     then Some (content_targets (bindPS argv psContentParams))
                     else None))"

definition windowsTargetSpellings :: "string \<Rightarrow> string list" where
  "windowsTargetSpellings t =
     (let slashed = to_slash t; trimmed = trim_right slashed ''. ''
      in [t] @ (if slashed \<noteq> t then [slashed] else []) @
         (if win32ResolvedPath t \<and> trimmed \<noteq> slashed \<and> trimmed \<noteq> '''' then [trimmed] else []))"

section \<open>The installed binary\<close>

definition installedBinaryNames :: "string list" where
  "installedBinaryNames = [''guardrail.exe'', ''guardrail'']"

definition installedBinaryGlobs :: "string list" where
  "installedBinaryGlobs =
     [''**/.local/bin/guardrail'', ''**/bin/guardrail'',
      ''**/.local/bin/guardrail.exe'', ''**/bin/guardrail.exe'']"

fun posixOperands_scan :: "bool \<Rightarrow> string list \<Rightarrow> string list" where
  "posixOperands_scan options [] = []"
| "posixOperands_scan options (arg # args) =
     (if options \<and> arg = ''--'' then posixOperands_scan False args
      else if options \<and> has_prefix arg ''-'' \<and> arg \<noteq> ''-'' then posixOperands_scan options args
      else arg # posixOperands_scan options args)"

definition posixOperands :: "argv \<Rightarrow> string list" where
  "posixOperands argv = posixOperands_scan True (tl argv)"

definition isWindowsDrivePath :: "string \<Rightarrow> bool" where
  "isWindowsDrivePath c \<longleftrightarrow> length c \<ge> 2 \<and> is_letter (hd c) \<and> c ! 1 = CHR '':''"

definition isInstallDirectory :: "string \<Rightarrow> string \<Rightarrow> bool" where
  "isInstallDirectory t cwd =
     (let slashed = to_slash (trim t [CHR 0x27, dquote]);
          full = (if \<not> has_prefix slashed ''~'' \<and> \<not> is_abs slashed \<and> \<not> isWindowsDrivePath slashed \<and> cwd \<noteq> ''''
                  then to_slash cwd @ ''/'' @ slashed else slashed);
          cleaned = to_lower (clean full)
      in cleaned = ''~/.local/bin'' \<or> has_suffix cleaned ''/.local/bin'')"

text \<open>\<^verbatim>\<open>path.Match\<close>, with a malformed pattern matching nothing.  \<open>class_scan\<close> reads the ranges of a bracket
  expression after its optional caret and says whether the character is in one of them.\<close>

fun get_esc :: "string \<Rightarrow> (char \<times> string) option" where
  "get_esc [] = None"
| "get_esc (c # s) =
     (if c = CHR ''-'' \<or> c = CHR '']'' then None
      else if c = backslash
      then (case s of d # e # s' \<Rightarrow> Some (d, e # s') | _ \<Rightarrow> None)
      else (case s of [] \<Rightarrow> None | e # s' \<Rightarrow> Some (c, e # s')))"

lemma get_esc_shorter: "get_esc s = Some (c, s') \<Longrightarrow> length s' < length s"
  by (cases s rule: get_esc.cases) (auto split: if_splits list.splits)

function class_scan :: "char \<Rightarrow> bool \<Rightarrow> bool \<Rightarrow> string \<Rightarrow> (bool \<times> string) option" where
  "class_scan r matched some p =
     (if some \<and> p \<noteq> [] \<and> hd p = CHR '']'' then Some (matched, tl p)
      else (case get_esc p of
              None \<Rightarrow> None
            | Some (lo, p1) \<Rightarrow>
                if p1 \<noteq> [] \<and> hd p1 = CHR ''-''
                then (case get_esc (tl p1) of
                        None \<Rightarrow> None
                      | Some (hi, p2) \<Rightarrow> class_scan r (matched \<or> (lo \<le> r \<and> r \<le> hi)) True p2)
                else class_scan r (matched \<or> lo = r) True p1))"
  by pat_completeness auto
termination
  by (relation "measure (\<lambda>(r, m, s, p). length p)")
    (auto dest!: get_esc_shorter simp: neq_Nil_conv)

declare class_scan.simps [simp del]

lemma class_scan_shorter: "class_scan r m s p = Some (b, p') \<Longrightarrow> length p' < length p"
proof (induction r m s p rule: class_scan.induct)
  case (1 r m s p)
  show ?case
  proof (cases "s \<and> p \<noteq> [] \<and> hd p = CHR '']''")
    case True
    with 1(3) show ?thesis by (subst (asm) class_scan.simps) auto
  next
    case closed: False
    with 1(3) obtain lo p1 where lo: "get_esc p = Some (lo, p1)"
      by (subst (asm) class_scan.simps) (auto split: option.splits)
    show ?thesis
    proof (cases "p1 \<noteq> [] \<and> hd p1 = CHR ''-''")
      case True
      with 1(3) closed lo obtain hi p2 where hi: "get_esc (tl p1) = Some (hi, p2)"
        and "class_scan r (m \<or> (lo \<le> r \<and> r \<le> hi)) True p2 = Some (b, p')"
        by (subst (asm) class_scan.simps) (auto split: option.splits)
      then have "length p' < length p2" using 1(1) [OF closed lo refl True hi refl] by blast
      with get_esc_shorter [OF lo] get_esc_shorter [OF hi] show ?thesis by simp
    next
      case False
      with 1(3) closed lo have "class_scan r (m \<or> lo = r) True p1 = Some (b, p')"
        by (subst (asm) class_scan.simps) auto
      then have "length p' < length p1" using 1(2) [OF closed lo refl False] by blast
      with get_esc_shorter [OF lo] show ?thesis by simp
    qed
  qed
qed

function path_match :: "string \<Rightarrow> string \<Rightarrow> bool" where
  "path_match [] name = (name = [])"
| "path_match (p # ps) name =
     (if p = CHR ''*''
      then path_match ps name \<or>
           (case name of [] \<Rightarrow> False | c # name' \<Rightarrow> c \<noteq> slash \<and> path_match (p # ps) name')
      else if name = [] then False
      else if p = CHR ''?'' then hd name \<noteq> slash \<and> path_match ps (tl name)
      else if p = CHR ''[''
      then (let neg = has_prefix ps ''^''
            in case class_scan (hd name) False False (if neg then tl ps else ps) of
                 None \<Rightarrow> False
               | Some (matched, ps') \<Rightarrow> matched \<noteq> neg \<and> path_match ps' (tl name))
      else if p = backslash
      then ps \<noteq> [] \<and> hd ps = hd name \<and> path_match (tl ps) (tl name)
      else p = hd name \<and> path_match ps (tl name))"
  by pat_completeness auto
termination
proof (relation "measures [\<lambda>(p, n). length p, \<lambda>(p, n). length n]", goal_cases)
  case (5 p ps name x xa xb y)
  then have "length y < length (if x then tl ps else ps)" by (auto dest!: class_scan_shorter)
  then show ?case by (cases ps) (auto split: if_splits)
qed auto

definition binaryWildcardExpansions :: "string \<Rightarrow> string list" where
  "binaryWildcardExpansions t =
     (let slashed = to_slash t; base = to_lower (path_base slashed); dir = path_dir slashed
      in if \<not> hasWildcard base then []
         else if \<not> has_suffix (to_lower (''/'' @ dir)) ''/.local/bin'' \<and> \<not> contains base ''guard'' then []
         else map (winJoin dir) (filter (path_match base) installedBinaryNames))"

definition namesInstalledBinary :: "string \<Rightarrow> bool" where
  "namesInstalledBinary candidate =
     (let normalized = to_lower (to_slash candidate)
      in contains normalized ''/'' \<and>
         list_ex (\<lambda>name. has_suffix (trim_right (clean normalized) ''. '') (''/bin/'' @ name))
           installedBinaryNames)"

text \<open>The depth of the descent into quoted strings counts down from three.\<close>

fun mentionsInstalledBinaryAt :: "nat \<Rightarrow> string \<Rightarrow> bool" where
  "mentionsInstalledBinaryAt 0 t = list_ex namesInstalledBinary (visiblePathCandidates t)"
| "mentionsInstalledBinaryAt (Suc n) t =
     list_ex (\<lambda>c. namesInstalledBinary c \<or>
                  (c \<noteq> t \<and> contains_any c [CHR 0x27, dquote, CHR 0x60] \<and> mentionsInstalledBinaryAt n c))
       (visiblePathCandidates t)"

definition mentionsInstalledBinary :: "string \<Rightarrow> bool" where
  "mentionsInstalledBinary t = mentionsInstalledBinaryAt 3 t"

section \<open>Facts: binding\<close>

text \<open>A parameter that takes the next word as its argument, and an argument list in which no such
  parameter is left without one.\<close>

definition takes_next :: "ps_params \<Rightarrow> string \<Rightarrow> bool" where
  "takes_next spec arg =
     (case psParameter arg of
        (name, inline) \<Rightarrow>
          name \<noteq> '''' \<and> length (psMatches name (psValues spec)) = 1 \<and>
          psMatches name (psSwitches spec) = [] \<and> inline = None)"

fun ps_complete :: "ps_params \<Rightarrow> string list \<Rightarrow> bool" where
  "ps_complete spec [] = True"
| "ps_complete spec (arg # args) =
     (if takes_next spec arg
      then (case args of [] \<Rightarrow> False | _ # args' \<Rightarrow> ps_complete spec args')
      else ps_complete spec args)"

lemma bindPS_one:
  assumes "\<not> takes_next spec arg"
  shows "bindPS_args spec b (arg # args) = bindPS_args spec (bindPS_args spec b [arg]) args"
proof -
  obtain name inline where "psParameter arg = (name, inline)" by fastforce
  with assms show ?thesis
    by (cases "name = ''''"; cases inline) (auto simp: takes_next_def Let_def)
qed

lemma bindPS_next:
  assumes "takes_next spec arg"
  shows "bindPS_args spec b (arg # w # args) = bindPS_args spec (bindPS_args spec b [arg, w]) args"
proof -
  obtain name inline where "psParameter arg = (name, inline)" by fastforce
  with assms show ?thesis by (auto simp: takes_next_def Let_def)
qed

lemma bindPS_args_append:
  "ps_complete spec pre \<Longrightarrow>
   bindPS_args spec b (pre @ post) = bindPS_args spec (bindPS_args spec b pre) post"
proof (induction spec pre arbitrary: b rule: ps_complete.induct)
  case (2 spec arg args)
  show ?case
  proof (cases "takes_next spec arg")
    case True
    with "2.prems" obtain w args' where a: "args = w # args'" "ps_complete spec args'"
      by (cases args) auto
    with "2.IH"(1) [OF True] bindPS_next [OF True] show ?thesis by (metis append_Cons)
  next
    case False
    with "2.prems" "2.IH"(2) bindPS_one [OF False] show ?thesis by (metis append_Cons ps_complete.simps(2))
  qed
qed simp

text \<open>Binding more arguments only adds.\<close>

definition ps_le :: "ps_binding \<Rightarrow> ps_binding \<Rightarrow> bool" where
  "ps_le b b' \<longleftrightarrow> set (pbPresent b) \<subseteq> set (pbPresent b') \<and> set (pbOperands b) \<subseteq> set (pbOperands b')"

lemma ps_le_refl [simp]: "ps_le b b"
  by (simp add: ps_le_def)

lemma ps_le_trans: "ps_le a b \<Longrightarrow> ps_le b c \<Longrightarrow> ps_le a c"
  unfolding ps_le_def by blast

lemma ps_le_steps:
  "ps_le b (add_operand w b)" "ps_le b (b\<lparr>pbPresent := pbPresent b @ ns\<rparr>)" "ps_le b (bind_value spec n w b)"
  by (auto simp: ps_le_def add_operand_def bind_value_def Let_def)

lemma bindPS_args_grows: "ps_le b (bindPS_args spec b args)"
proof (induction "length args" arbitrary: b args rule: less_induct)
  case less
  show ?case
  proof (cases args)
    case (Cons arg rest)
    obtain name inline where p: "psParameter arg = (name, inline)" by fastforce
    let ?b = "b\<lparr>pbPresent := pbPresent b @ psMatches name (psSwitches spec) @ psMatches name (psValues spec)\<rparr>"
    have step: "ps_le b x \<Longrightarrow> ps_le b (bindPS_args spec x rest)" for x
      using less.hyps [of rest x] Cons by (auto intro: ps_le_trans)
    have skip: "ps_le b x \<Longrightarrow> rest = w # rest' \<Longrightarrow> ps_le b (bindPS_args spec x rest')" for x w rest'
      using less.hyps [of rest' x] Cons by (auto intro: ps_le_trans)
    have b: "ps_le b ?b" "ps_le b (add_operand w ?b)" "ps_le b (bind_value spec n w ?b)" for w n
      by (blast intro: ps_le_steps ps_le_trans)+
    show ?thesis
    proof (cases "name = ''''")
      case True
      with p Cons step [OF ps_le_steps(1)] show ?thesis by simp
    next
      case named: False
      show ?thesis
      proof (cases "takes_next spec arg")
        case True
        with p named Cons b skip show ?thesis
          by (cases rest) (auto simp: takes_next_def Let_def)
      next
        case False
        with p named Cons step b show ?thesis
          by (cases inline) (auto simp: takes_next_def Let_def)
      qed
    qed
  qed simp
qed

text \<open>A word that is no parameter and not the argument of one is an operand; a parameter marks every
  full name it abbreviates.\<close>

lemma bindPS_operand:
  assumes "ps_complete spec pre" and "fst (psParameter w) = ''''"
  shows "w \<in> set (pbOperands (bindPS (cmd # pre @ w # post) spec))"
proof -
  obtain inline where "psParameter w = ('''', inline)" using assms(2) by (metis prod.collapse)
  then have "bindPS (cmd # pre @ w # post) spec =
      bindPS_args spec (add_operand w (bindPS_args spec empty_binding pre)) post"
    using bindPS_args_append [OF assms(1)] by (simp add: bindPS_def)
  then show ?thesis
    using bindPS_args_grows [of "add_operand w (bindPS_args spec empty_binding pre)" spec post]
    by (auto simp: ps_le_def add_operand_def)
qed

lemma bindPS_present:
  assumes "ps_complete spec pre" and "fst (psParameter p) = name" and "name \<noteq> ''''"
    and "full \<in> set (psMatches name (psSwitches spec))"
  shows "ps_has (bindPS (cmd # pre @ p # post) spec) full"
proof -
  obtain inline where p: "psParameter p = (name, inline)" using assms(2) by (metis prod.collapse)
  have sw: "psMatches name (psSwitches spec) \<noteq> []" using assms(4) by auto
  let ?b = "bindPS_args spec empty_binding pre"
  have not_next: "\<not> takes_next spec p" using p sw by (simp add: takes_next_def)
  have "full \<in> set (pbPresent (bindPS_args spec ?b [p]))"
    using p sw assms(3,4) by (cases inline) (auto simp: Let_def add_operand_def)
  moreover have "bindPS (cmd # pre @ p # post) spec = bindPS_args spec (bindPS_args spec ?b [p]) post"
    using bindPS_args_append [OF assms(1), of empty_binding "p # post"] bindPS_one [OF not_next, of ?b post]
    by (simp only: bindPS_def list.sel)
  ultimately show ?thesis
    using bindPS_args_grows [of "bindPS_args spec ?b [p]" spec post]
    by (auto simp: ps_has_def ps_le_def)
qed

section \<open>Facts: a delete in another shell is an rm\<close>

lemma derived_rm_simps [simp]:
  "Argv (commandDerivedFromAt s a None) = a"
  "cwdUnknown (commandDerivedFromAt s a None) = cwdUnknown s"
  "simpleCwd (commandDerivedFromAt s a None) tc = simpleCwd s tc"
  by (simp_all add: commandDerivedFromAt_def Let_def simpleCwd_def)

lemma derived_wordUnresolved:
  "i < length a \<Longrightarrow> wordUnresolved lit (commandDerivedFromAt s a None) i \<longleftrightarrow> lit (a ! i) = None"
  by (simp add: commandDerivedFromAt_def Let_def wordUnresolved_def)

lemma rm_candidate_derived [simp]: "rm_candidate (commandDerivedFromAt s a None) tc w = rm_candidate s tc w"
  by (simp add: rm_candidate_def)

lemma head_rm [simp]: "head (''rm'' # args) = ''rm''"
  by code_simp

lemma removes_rm:
  "flags \<in> {''-r'', ''-f'', ''-rf''} \<Longrightarrow> removes ([''rm'', flags] @ operands)"
  unfolding removes_def hasAnyFlag_def by (auto simp: contains_any_def simp del: head.simps)

lemma contained_cong:
  "pcPath c = pcPath d \<Longrightarrow> pcCwd c = pcCwd d \<Longrightarrow> contained h c roots = contained h d roots"
  by (simp add: contained_def root_forms_def)

lemma strictWriteRoots_cong:
  assumes "pcPath c = pcPath d" and "pcCwd c = pcCwd d" and "pcCwdUnknown c = pcCwdUnknown d"
  shows "strictWriteRoots h tc c = strictWriteRoots h tc d"
  unfolding strictWriteRoots_def claudeMemoryRoot_def assms ..

text \<open>The rm command a delete of another shell is rewritten into, judged silent, keeps every operand the
  parser can read inside.\<close>

lemma derived_rm_contained:
  assumes "checkRmRf h lit tc pol (commandDerivedFromAt s ([''rm'', flags] @ operands) None) = None"
    and "flags \<in> {''-r'', ''-f'', ''-rf''}" and "w \<in> set operands"
    and "lit w \<noteq> None" and "\<not> has_prefix w ''-''" and "cwdUnknown s \<Longrightarrow> is_abs w"
  shows "contained h (rm_candidate s tc w) (rm_roots h tc pol (rm_candidate s tc w))"
proof -
  let ?a = "[''rm'', flags] @ operands"
  let ?d = "commandDerivedFromAt s ?a None"
  obtain k where k: "k < length operands" "operands ! k = w" using assms(3) by (metis in_set_conv_nth)
  then have nth: "Argv ?d ! (k + 2) = w" by simp
  have "rm_operand_hit h lit tc pol ?d (k + 2) = None"
    using checkRmRf_silent [OF _ assms(1), of "k + 2"] removes_rm [OF assms(2)] k by simp
  then have "contained h (rm_candidate ?d tc w) (rm_roots h tc pol (rm_candidate ?d tc w))"
    using rm_operand_silent(1) [of h lit tc pol ?d "k + 2"] nth k assms(4-6)
      derived_wordUnresolved [of "k + 2" ?a lit s] by simp
  then show ?thesis by simp
qed

lemma ps_filtered_contained:
  assumes "ps_filtered_hit h tc pol s w = None"
  shows "contained h (rm_candidate s tc w) (rm_roots h tc pol (rm_candidate s tc w))"
proof -
  let ?c = "\<lparr>pcPath = w, pcCwd = simpleCwd s tc, pcCwdUnknown = cwdUnknown s, pcRepoRoot = '''',
             pcPosix = False\<rparr>"
  have "strictWriteRoots h tc ?c = strictWriteRoots h tc (rm_candidate s tc w)"
    by (rule strictWriteRoots_cong) (simp_all add: rm_candidate_def)
  moreover have "fst (authorizedPath h ?c (tcRepoRoot tc) (SafeRoots (Slots pol)) (strictWriteRoots h tc ?c) False)"
    using assms by (simp add: ps_filtered_hit_def Let_def split: if_splits)
  ultimately have "contained h ?c (rm_roots h tc pol (rm_candidate s tc w))"
    unfolding rm_roots_def using authorizedPath_contained by metis
  then show ?thesis using contained_cong [of ?c "rm_candidate s tc w"] by (simp add: rm_candidate_def)
qed

lemma psRmFlags_cases:
  "ps_has b ''recurse'' \<or> ps_has b ''force'' \<Longrightarrow> psRmFlags b \<in> {''-r'', ''-f'', ''-rf''}"
  by (auto simp: psRmFlags_def)

lemma checkPSRemoveItem_contained:
  assumes "checkPSRemoveItem h lit tc pol s = None" and "head (Argv s) \<noteq> ''rmdir''"
    and "ps_has (bindPS (Argv s) removeItemParams) ''recurse'' \<or> ps_has (bindPS (Argv s) removeItemParams) ''force''"
    and "\<not> ps_has (bindPS (Argv s) removeItemParams) ''whatif''"
    and "w \<in> set (pbOperands (bindPS (Argv s) removeItemParams))"
    and "lit w \<noteq> None" and "\<not> has_prefix w ''-''" and "cwdUnknown s \<Longrightarrow> is_abs w"
  shows "contained h (rm_candidate s tc w) (rm_roots h tc pol (rm_candidate s tc w))"
proof -
  let ?b = "bindPS (Argv s) removeItemParams"
  let ?rm = "commandDerivedFromAt s ([''rm'', psRmFlags ?b] @ pbOperands ?b) None"
  consider "first_hit (map (ps_filtered_hit h tc pol s) (pbOperands ?b)) = None"
    | "checkRmRf h lit tc pol ?rm = None"
    using assms(1-4) by (auto simp: checkPSRemoveItem_def Let_def split: if_splits)
  then show ?thesis
  proof cases
    case 1
    with assms(5) show ?thesis by (intro ps_filtered_contained) (simp add: first_hit_None)
  next
    case 2
    show ?thesis using derived_rm_contained [OF 2 psRmFlags_cases [OF assms(3)] assms(5-8)] by blast
  qed
qed

lemma checkCmdDelete_contained:
  assumes "checkCmdDelete h lit tc pol s = None" and "head (Argv s) \<in> set cmdDeleteAliases"
    and "sw \<in> set (tl (Argv s))" and "cmdSwitch sw cmdDeleteSwitches \<in> {Some ''s'', Some ''q'', Some ''f''}"
    and "w \<in> set (tl (Argv s))" and "cmdSwitch w cmdDeleteSwitches = None"
    and "lit w \<noteq> None" and "\<not> has_prefix w ''-''" and "cwdUnknown s \<Longrightarrow> is_abs w"
  shows "contained h (rm_candidate s tc w) (rm_roots h tc pol (rm_candidate s tc w))"
proof -
  let ?names = "map (\<lambda>a. cmdSwitch a cmdDeleteSwitches) (tl (Argv s))"
  let ?flags = "''-'' @ (if Some ''s'' \<in> set ?names then ''r'' else '''') @
     (if Some ''q'' \<in> set ?names \<or> Some ''f'' \<in> set ?names then ''f'' else '''')"
  let ?ops = "filter (\<lambda>a. cmdSwitch a cmdDeleteSwitches = None) (tl (Argv s))"
  have present: "Some ''s'' \<in> set ?names \<or> Some ''q'' \<in> set ?names \<or> Some ''f'' \<in> set ?names"
    using assms(3,4) by (force simp: image_iff)
  have w: "w \<in> set ?ops" using assms(5,6) by simp
  then have "?ops \<noteq> []" by (metis empty_iff empty_set)
  with assms(1,2) present
  have rm: "checkRmRf h lit tc pol (commandDerivedFromAt s ([''rm'', ?flags] @ ?ops) None) = None"
    by (auto simp: checkCmdDelete_def Let_def split: if_splits)
  have "?flags \<in> {''-r'', ''-f'', ''-rf''}" using present by auto
  from derived_rm_contained [OF rm this w assms(7-9)] show ?thesis by blast
qed

section \<open>Facts: the contracts\<close>

lemma checkPSExecutionPolicy_asks:
  "checkPSExecutionPolicy s = Some v \<Longrightarrow> vRuleID v = ''P1.execution-policy'' \<and> vDecision v = Ask"
  by (auto simp: checkPSExecutionPolicy_def Let_def split: option.splits)

lemma checkPSRemoveItem_denies:
  assumes "checkPSRemoveItem h lit tc pol s = Some v"
  shows "vRuleID v = ''P1.rm-rf'' \<and> vDecision v = Deny"
proof -
  let ?b = "bindPS (Argv s) removeItemParams"
  let ?rm = "commandDerivedFromAt s ([''rm'', psRmFlags ?b] @ pbOperands ?b) None"
  consider "first_hit (map (ps_filtered_hit h tc pol s) (pbOperands ?b)) = Some v"
    | "checkRmRf h lit tc pol ?rm = Some v"
    using assms by (auto simp: checkPSRemoveItem_def Let_def split: if_splits)
  then show ?thesis
  proof cases
    case 1
    then have "Some v \<in> ps_filtered_hit h tc pol s ` set (pbOperands ?b)" by (auto dest: first_hit_Some)
    then obtain w where "ps_filtered_hit h tc pol s w = Some v" by force
    then show ?thesis by (auto simp: ps_filtered_hit_def Let_def split: if_splits)
  next
    case 2
    then show ?thesis by (rule checkRmRf_denies)
  qed
qed

interpretation powershell: argv_rule "checkPowerShell h lit tc pol"
  "\<lambda>c. c \<in> set (psDynamicEval @ [''powershell'', ''pwsh'', ''set-executionpolicy''] @ removeItemAliases)"
  "[''P6.dynamic-eval'', ''P1.execution-policy'', ''P1.rm-rf'']"
  by standard
    (auto simp: checkPowerShell_def Let_def split: if_splits
      dest!: checkPSExecutionPolicy_asks checkPSRemoveItem_denies)

interpretation cmd_delete: argv_rule "checkCmdDelete h lit tc pol" "\<lambda>c. c \<in> set cmdDeleteAliases" "[''P1.rm-rf'']"
  by standard
    (auto simp: checkCmdDelete_def Let_def split: if_splits dest!: checkRmRf_denies)

interpretation cmd_disk: argv_rule checkCmdDiskDestroyer "\<lambda>c. c \<in> {''diskpart'', ''format''}" "[''P1.mkfs'']"
  by standard (auto simp: checkCmdDiskDestroyer_def cmdDiskDestroyers_def Let_def split: if_splits)

section \<open>A PowerShell delete stays inside\<close>

text \<open>Whatever abbreviation of \<^verbatim>\<open>-Recurse\<close> or \<^verbatim>\<open>-Force\<close> a Remove-Item command uses, in whatever letter
  case, with one dash or two, and wherever it stands among complete parameters: when the rule lets
  the command pass and it is not a dry run, every operand the parser can read is inside, by the same
  measure as for rm.\<close>

lemma remove_item_contained:
  assumes "head (Argv s) \<in> set removeItemAliases" and "head (Argv s) \<noteq> ''rmdir''"
    and "Argv s = cmd # pre @ p # post" and "ps_complete removeItemParams pre"
    and "fst (psParameter p) = name" and "name \<noteq> ''''" and "prefix name ''recurse'' \<or> prefix name ''force''"
    and "Argv s = cmd # pre' @ w # post'" and "ps_complete removeItemParams pre'"
    and "fst (psParameter w) = ''''" and "\<not> has_prefix w ''-''" and "lit w \<noteq> None"
    and "\<not> ps_has (bindPS (Argv s) removeItemParams) ''whatif''"
    and "cwdUnknown s \<Longrightarrow> is_abs w" and "checkPowerShell h lit tc pol s = None"
  shows "contained h (rm_candidate s tc w) (rm_roots h tc pol (rm_candidate s tc w))"
proof -
  have silent: "checkPSRemoveItem h lit tc pol s = None"
    using assms(1,15)
    by (auto simp: checkPowerShell_def psDynamicEval_def removeItemAliases_def Let_def split: if_splits)
  have "ps_has (bindPS (Argv s) removeItemParams) ''recurse'' \<or> ps_has (bindPS (Argv s) removeItemParams) ''force''"
    using bindPS_present [OF assms(4-6), of "''recurse''"] bindPS_present [OF assms(4-6), of "''force''"]
      assms(3,7) by (auto simp: psMatches_def removeItemParams_def has_prefix_iff_prefix)
  moreover have "w \<in> set (pbOperands (bindPS (Argv s) removeItemParams))"
    using bindPS_operand [OF assms(9,10)] assms(8) by simp
  ultimately show ?thesis using checkPSRemoveItem_contained [OF silent assms(2)] assms(11-14) by blast
qed

definition ps_delete :: simple where
  "ps_delete = simple_of [''Remove-Item'', ''-Path'', ''dist'', ''--REC'', ''out/cache'']"

text \<open>The rewriting forgets which words the parser had read as literal: a quoted target whose text would
  not parse as one word, such as one with a space, passes in PowerShell where rm is denied.\<close>

definition spaced :: "string \<Rightarrow> string option" where
  "spaced w = (if contains w '' '' then None else Some w)"

lemma quoted_target_passes:
  "checkRmRf plain_host spaced repo_call bare_policy
     ((simple_of [''rm'', ''-rf'', ''/etc/my dir''])\<lparr>literalArgs := [2]\<rparr>) \<noteq> None"
  "checkPowerShell plain_host spaced repo_call bare_policy
     ((simple_of [''Remove-Item'', ''-Recurse'', ''-Force'', ''/etc/my dir''])\<lparr>literalArgs := [3]\<rparr>) = None"
  "checkCmdDelete plain_host spaced repo_call bare_policy
     ((simple_of [''rd'', ''/s'', ''/q'', ''/etc/my dir''])\<lparr>literalArgs := [3]\<rparr>) = None"
  by code_simp+

text \<open>A filtering parameter skips the check for the working tree.\<close>

lemma filtered_working_tree_passes:
  "checkPowerShell plain_host Some repo_call bare_policy
     (simple_of [''Remove-Item'', ''-Recurse'', ''-Force'', ''/repo'']) \<noteq> None"
  "checkPowerShell plain_host Some repo_call bare_policy
     (simple_of [''Remove-Item'', ''-Recurse'', ''-Force'', ''-Exclude'', ''x'', ''/repo'']) = None"
  by code_simp+

end
