(* ===== verification/Operands.thy ===== *)
theory Operands
  imports Rules_Shells
begin

text \<open>
  The roles of a command's words: \<^verbatim>\<open>src/internal/engine/operands.go\<close>.  A parser per command family says
  which words are paths, which are not and which could be.

  The loops of the source advance an index over the argument vector.  \<open>operand_loop\<close> is that loop: a
  step reads one word, with the words after it, and says how many of those it has taken.  The locals of
  a parser are a record; jq extends it.

  The locale \<open>operand_parser\<close> is what every parser owes its callers: it makes up no operand.  From it
  follows that the search for the word an operand came from always finds one.
\<close>

section \<open>Operands\<close>

datatype operand_role = operandNonPath | operandPath | operandUncertain

record parsed_operand =
  poValue :: string
  poRole :: operand_role
  poWriteTarget :: bool
  poSourceArg :: int

definition operand :: "string \<Rightarrow> operand_role \<Rightarrow> parsed_operand" where
  "operand value role = \<lparr>poValue = value, poRole = role, poWriteTarget = False, poSourceArg = 0\<rparr>"

record operand_parse_result =
  prOperands :: "parsed_operand list"
  prUncertainty :: string

definition pathOperandCommands :: "string list" where
  "pathOperandCommands =
      [''cat'', ''head'', ''tail'', ''grep'', ''egrep'', ''fgrep'', ''sed'', ''awk'', ''less'', ''more'',
       ''bat'', ''xxd'', ''od'', ''strings'', ''wc'', ''diff'', ''cmp'', ''file'', ''nl'', ''tac'',
       ''rev'', ''cut'', ''sort'', ''uniq'', ''tee'', ''base32'', ''base64'', ''md5sum'', ''sha1sum'',
       ''sha256sum'', ''cp'', ''mv'', ''install'', ''rsync'', ''scp'', ''tar'', ''zip'', ''gzip'',
       ''openssl'', ''gpg'', ''dd'', ''jq'', ''yq'', ''unlink'', ''rmdir'']"

definition looksLikePathOperand :: "string \<Rightarrow> bool" where
  "looksLikePathOperand value \<longleftrightarrow>
     has_prefix value ''~'' \<or> contains_any value [CHR ''/'', CHR 0x5C] \<or> isWindowsDrivePath value"

definition allDigits :: "string \<Rightarrow> bool" where
  "allDigits s \<longleftrightarrow> list_all is_digit s \<and> s \<noteq> []"

section \<open>The loop and its state\<close>

record operand_scan =
  osOptions :: bool
  osOut :: "parsed_operand list"
  osPositional :: "nat list"
  osProgram :: bool
  osInPlace :: bool
  osReason :: string

definition start_scan :: operand_scan where
  "start_scan =
     \<lparr>osOptions = True, osOut = [], osPositional = [], osProgram = False, osInPlace = False, osReason = ''''\<rparr>"

function operand_loop :: "(nat \<Rightarrow> 's \<Rightarrow> string \<Rightarrow> string list \<Rightarrow> 's \<times> nat) \<Rightarrow> nat \<Rightarrow> 's \<Rightarrow> string list \<Rightarrow> 's" where
  "operand_loop step i st [] = st"
| "operand_loop step i st (arg # rest) =
     (case step i st arg rest of (st', k) \<Rightarrow> operand_loop step (i + 1 + k) st' (drop k rest))"
  by pat_completeness auto
termination by (relation "measure (\<lambda>(step, i, st, args). length args)") auto

definition add_value :: "string \<Rightarrow> operand_role \<Rightarrow> parsed_operand list \<Rightarrow> parsed_operand list" where
  "add_value value role out = (if value = '''' then out else out @ [operand value role])"

fun appendOptionValues ::
  "string list \<Rightarrow> string \<Rightarrow> bool \<Rightarrow> operand_role list \<Rightarrow> parsed_operand list \<Rightarrow> parsed_operand list \<times> nat" where
  "appendOptionValues rest attachedValue attached [] out = (out, 0)"
| "appendOptionValues rest attachedValue True (role # roles) out =
     appendOptionValues rest '''' False roles (add_value attachedValue role out)"
| "appendOptionValues [] attachedValue False (role # roles) out =
     appendOptionValues [] '''' False roles out"
| "appendOptionValues (value # rest) attachedValue False (role # roles) out =
     (case appendOptionValues rest '''' False roles (add_value value role out) of (out', k) \<Rightarrow> (out', Suc k))"

definition appendUnknownOptionValue ::
  "string list \<Rightarrow> string \<Rightarrow> bool \<Rightarrow> parsed_operand list \<Rightarrow> parsed_operand list \<times> nat" where
  "appendUnknownOptionValue rest attachedValue attached out =
     (if attached then (out @ [operand attachedValue operandUncertain], 0)
      else (case rest of
              [] \<Rightarrow> (out, 0)
            | value # _ \<Rightarrow>
                if \<not> has_prefix value ''-'' \<or> value = ''-''
                then (out @ [operand value operandUncertain], 1) else (out, 0)))"

text \<open>The value of a short option: the rest of its cluster, or the next word.\<close>

definition short_value ::
  "string \<Rightarrow> string list \<Rightarrow> operand_role \<Rightarrow> parsed_operand list \<Rightarrow> parsed_operand list \<times> nat" where
  "short_value cluster rest role out =
     (if cluster \<noteq> '''' then (out @ [operand cluster role], 0)
      else (case rest of [] \<Rightarrow> (out, 0) | value # _ \<Rightarrow> (add_value value role out, 1)))"

definition emit :: "'a operand_scan_scheme \<Rightarrow> parsed_operand list \<times> nat \<Rightarrow> 'a operand_scan_scheme \<times> nat" where
  "emit st r = (st\<lparr>osOut := fst r\<rparr>, snd r)"

definition add_positional :: "string \<Rightarrow> 'a operand_scan_scheme \<Rightarrow> 'a operand_scan_scheme" where
  "add_positional arg st =
     st\<lparr>osPositional := osPositional st @ [length (osOut st)], osOut := osOut st @ [operand arg operandPath]\<rparr>"

text \<open>What the parsers share: the end of the options, a long option, a cluster of short options, an
  operand.\<close>

definition scan_step ::
  "('a operand_scan_scheme \<Rightarrow> string \<Rightarrow> string list \<Rightarrow> 'a operand_scan_scheme \<times> nat) \<Rightarrow>
   ('a operand_scan_scheme \<Rightarrow> string \<Rightarrow> string list \<Rightarrow> 'a operand_scan_scheme \<times> nat) \<Rightarrow>
   ('a operand_scan_scheme \<Rightarrow> string \<Rightarrow> 'a operand_scan_scheme) \<Rightarrow>
   'a operand_scan_scheme \<Rightarrow> string \<Rightarrow> string list \<Rightarrow> 'a operand_scan_scheme \<times> nat" where
  "scan_step long short positional st arg rest =
     (if osOptions st \<and> arg = ''--'' then (st\<lparr>osOptions := False\<rparr>, 0)
      else if osOptions st \<and> has_prefix arg ''--'' then long st (drop 2 arg) rest
      else if osOptions st \<and> has_prefix arg ''-'' \<and> arg \<noteq> ''-'' then short st (tl arg) rest
      else (positional st arg, 0))"

definition set_role :: "operand_role \<Rightarrow> nat \<Rightarrow> parsed_operand list \<Rightarrow> parsed_operand list" where
  "set_role role i out = (if i < length out then out[i := (out ! i)\<lparr>poRole := role\<rparr>] else out)"

text \<open>The first operand is the program text when no option gave it.\<close>

definition first_positional :: "operand_role \<Rightarrow> 'a operand_scan_scheme \<Rightarrow> parsed_operand list" where
  "first_positional role st =
     (case osPositional st of
        p # _ \<Rightarrow> if osProgram st then osOut st else set_role role p (osOut st)
      | [] \<Rightarrow> osOut st)"

section \<open>Option tables\<close>

datatype operand_option_kind = optionFlag | optionNonPath | optionPath | optionProgram | optionOptionalNonPath

record operand_option =
  ooShort :: char
  ooLong :: string
  ooKind :: operand_option_kind
  ooSuppliesProgram :: bool

definition mk_option :: "char \<Rightarrow> string \<Rightarrow> operand_option_kind \<Rightarrow> bool \<Rightarrow> operand_option" where
  "mk_option short long kind supplies =
     \<lparr>ooShort = short, ooLong = long, ooKind = kind, ooSuppliesProgram = supplies\<rparr>"

record pattern_command_options =
  pcOptions :: "operand_option list"
  pcShortFlags :: string
  pcInPlaceOption :: string

definition grepOptionTable :: "operand_option list" where
  "grepOptionTable =
     [mk_option CHR ''e'' ''regexp'' optionProgram False,
      mk_option CHR ''f'' ''file'' optionPath True,
      mk_option CHR ''A'' ''after-context'' optionNonPath False,
      mk_option CHR ''B'' ''before-context'' optionNonPath False,
      mk_option CHR ''C'' ''context'' optionNonPath False,
      mk_option CHR ''m'' ''max-count'' optionNonPath False,
      mk_option CHR ''d'' ''directories'' optionNonPath False,
      mk_option CHR ''D'' ''devices'' optionNonPath False,
      mk_option CHR 0x00 ''label'' optionNonPath False,
      mk_option CHR 0x00 ''binary-files'' optionNonPath False,
      mk_option CHR 0x00 ''include'' optionNonPath False,
      mk_option CHR 0x00 ''exclude'' optionNonPath False,
      mk_option CHR 0x00 ''exclude-from'' optionPath False,
      mk_option CHR 0x00 ''exclude-dir'' optionNonPath False,
      mk_option CHR 0x00 ''group-separator'' optionNonPath False,
      mk_option CHR 0x00 ''color'' optionOptionalNonPath False,
      mk_option CHR 0x00 ''colour'' optionOptionalNonPath False,
      mk_option CHR 0x00 ''extended-regexp'' optionFlag False,
      mk_option CHR 0x00 ''fixed-strings'' optionFlag False,
      mk_option CHR 0x00 ''basic-regexp'' optionFlag False,
      mk_option CHR 0x00 ''perl-regexp'' optionFlag False,
      mk_option CHR 0x00 ''ignore-case'' optionFlag False,
      mk_option CHR 0x00 ''no-ignore-case'' optionFlag False,
      mk_option CHR 0x00 ''word-regexp'' optionFlag False,
      mk_option CHR 0x00 ''line-regexp'' optionFlag False,
      mk_option CHR 0x00 ''null-data'' optionFlag False,
      mk_option CHR 0x00 ''no-messages'' optionFlag False,
      mk_option CHR 0x00 ''invert-match'' optionFlag False,
      mk_option CHR 0x00 ''version'' optionFlag False,
      mk_option CHR 0x00 ''help'' optionFlag False,
      mk_option CHR 0x00 ''byte-offset'' optionFlag False,
      mk_option CHR 0x00 ''line-number'' optionFlag False,
      mk_option CHR 0x00 ''line-buffered'' optionFlag False,
      mk_option CHR 0x00 ''with-filename'' optionFlag False,
      mk_option CHR 0x00 ''no-filename'' optionFlag False,
      mk_option CHR 0x00 ''only-matching'' optionFlag False,
      mk_option CHR 0x00 ''quiet'' optionFlag False,
      mk_option CHR 0x00 ''silent'' optionFlag False,
      mk_option CHR 0x00 ''text'' optionFlag False,
      mk_option CHR 0x00 ''recursive'' optionFlag False,
      mk_option CHR 0x00 ''dereference-recursive'' optionFlag False,
      mk_option CHR 0x00 ''files-without-match'' optionFlag False,
      mk_option CHR 0x00 ''files-with-matches'' optionFlag False,
      mk_option CHR 0x00 ''count'' optionFlag False,
      mk_option CHR 0x00 ''initial-tab'' optionFlag False,
      mk_option CHR 0x00 ''null'' optionFlag False,
      mk_option CHR 0x00 ''no-group-separator'' optionFlag False,
      mk_option CHR 0x00 ''binary'' optionFlag False]"

definition grepOperandOptions :: pattern_command_options where
  "grepOperandOptions =
     \<lparr>pcOptions = grepOptionTable, pcShortFlags = ''EFGPiwxzsvVbnHhoqaIrRLlcTZU'', pcInPlaceOption = ''''\<rparr>"

definition sedOptionTable :: "operand_option list" where
  "sedOptionTable =
     [mk_option CHR ''e'' ''expression'' optionProgram False,
      mk_option CHR ''f'' ''file'' optionPath True,
      mk_option CHR ''i'' ''in-place'' optionOptionalNonPath False,
      mk_option CHR ''l'' ''line-length'' optionNonPath False,
      mk_option CHR 0x00 ''quiet'' optionFlag False,
      mk_option CHR 0x00 ''silent'' optionFlag False,
      mk_option CHR 0x00 ''debug'' optionFlag False,
      mk_option CHR 0x00 ''follow-symlinks'' optionFlag False,
      mk_option CHR 0x00 ''posix'' optionFlag False,
      mk_option CHR 0x00 ''regexp-extended'' optionFlag False,
      mk_option CHR 0x00 ''separate'' optionFlag False,
      mk_option CHR 0x00 ''sandbox'' optionFlag False,
      mk_option CHR 0x00 ''unbuffered'' optionFlag False,
      mk_option CHR 0x00 ''null-data'' optionFlag False,
      mk_option CHR 0x00 ''help'' optionFlag False,
      mk_option CHR 0x00 ''version'' optionFlag False]"

definition sedOperandOptions :: pattern_command_options where
  "sedOperandOptions =
     \<lparr>pcOptions = sedOptionTable, pcShortFlags = ''nErsuz'', pcInPlaceOption = ''in-place''\<rparr>"

definition roleForOption :: "operand_option_kind \<Rightarrow> operand_role" where
  "roleForOption kind = (if kind = optionPath then operandPath else operandNonPath)"

definition operandShortOption :: "char \<Rightarrow> pattern_command_options \<Rightarrow> operand_option option" where
  "operandShortOption name spec =
     (case find (\<lambda>opt. ooShort opt = name \<and> name \<noteq> CHR 0x00) (pcOptions spec) of
        Some opt \<Rightarrow> Some opt
      | None \<Rightarrow> if name \<in> set (pcShortFlags spec) then Some (mk_option name '''' optionFlag False) else None)"

definition resolveOperandLongOption :: "string \<Rightarrow> operand_option list \<Rightarrow> operand_option option" where
  "resolveOperandLongOption name options =
     (case find (\<lambda>opt. ooLong opt = name) options of
        Some opt \<Rightarrow> Some opt
      | None \<Rightarrow>
          (case filter (\<lambda>opt. ooLong opt \<noteq> '''' \<and> has_prefix (ooLong opt) name) options of
             [opt] \<Rightarrow> Some opt
           | _ \<Rightarrow> None))"

section \<open>grep and sed\<close>

definition note_option :: "pattern_command_options \<Rightarrow> operand_option \<Rightarrow> operand_scan \<Rightarrow> operand_scan" where
  "note_option spec opt st =
     st\<lparr>osInPlace := osInPlace st \<or> ooLong opt = pcInPlaceOption spec,
        osProgram := osProgram st \<or> ooKind opt = optionProgram \<or> ooSuppliesProgram opt\<rparr>"

definition pattern_long ::
  "pattern_command_options \<Rightarrow> operand_scan \<Rightarrow> string \<Rightarrow> string list \<Rightarrow> operand_scan \<times> nat" where
  "pattern_long spec st body rest =
     (case cut CHR ''='' body of
        (name, value, attached) \<Rightarrow>
          (case resolveOperandLongOption name (pcOptions spec) of
             None \<Rightarrow> emit st (appendUnknownOptionValue rest value attached (osOut st))
           | Some opt \<Rightarrow>
               let st' = note_option spec opt st; role = roleForOption (ooKind opt)
               in if ooKind opt = optionFlag \<or> ooKind opt = optionOptionalNonPath \<and> \<not> attached then (st', 0)
                  else if attached then emit st' (osOut st @ [operand value role], 0)
                  else (case rest of
                          [] \<Rightarrow> (st', 0)
                        | v # _ \<Rightarrow> emit st' (osOut st @ [operand v role], 1))))"

fun pattern_cluster ::
  "pattern_command_options \<Rightarrow> operand_scan \<Rightarrow> string \<Rightarrow> string list \<Rightarrow> operand_scan \<times> nat" where
  "pattern_cluster spec st [] rest = (st, 0)"
| "pattern_cluster spec st (c # cs) rest =
     (case operandShortOption c spec of
        None \<Rightarrow> emit st (appendUnknownOptionValue rest cs (cs \<noteq> '''') (osOut st))
      | Some opt \<Rightarrow>
          let st' = note_option spec opt st
          in if ooKind opt = optionFlag then pattern_cluster spec st' cs rest
             else if ooKind opt = optionOptionalNonPath
             then emit st' (add_value cs operandNonPath (osOut st), 0)
             else emit st' (short_value cs rest (roleForOption (ooKind opt)) (osOut st)))"

definition pattern_short ::
  "pattern_command_options \<Rightarrow> operand_scan \<Rightarrow> string \<Rightarrow> string list \<Rightarrow> operand_scan \<times> nat" where
  "pattern_short spec st short rest = (if allDigits short then (st, 0) else pattern_cluster spec st short rest)"

definition pattern_step ::
  "pattern_command_options \<Rightarrow> nat \<Rightarrow> operand_scan \<Rightarrow> string \<Rightarrow> string list \<Rightarrow> operand_scan \<times> nat" where
  "pattern_step spec i = scan_step (pattern_long spec) (pattern_short spec) (\<lambda>st arg. add_positional arg st)"

definition mark_write :: "parsed_operand list \<Rightarrow> nat \<Rightarrow> parsed_operand list" where
  "mark_write out i =
     (if i < length out \<and> poRole (out ! i) \<noteq> operandNonPath
      then out[i := (out ! i)\<lparr>poWriteTarget := True\<rparr>] else out)"

definition parsePatternCommandOperands :: "argv \<Rightarrow> pattern_command_options \<Rightarrow> parsed_operand list \<times> bool" where
  "parsePatternCommandOperands argv spec =
     (let st = operand_loop (pattern_step spec) 1 start_scan (tl argv);
          out = first_positional operandNonPath st
      in ((if osInPlace st then foldl mark_write out (osPositional st) else out), osInPlace st))"

section \<open>dd, tar and awk\<close>

definition ddNonPathNames :: "string list" where
  "ddNonPathNames =
      [''of'', ''iflag'', ''oflag'', ''ibs'', ''obs'', ''bs'', ''cbs'', ''skip'', ''iseek'', ''seek'',
       ''oseek'', ''count'', ''status'', ''conv'']"

definition dd_operand :: "string \<Rightarrow> parsed_operand" where
  "dd_operand arg =
     (case cut CHR ''='' arg of
        (name, value, assignment) \<Rightarrow>
          if \<not> assignment then operand arg operandUncertain
          else operand value
                 (if name = ''if'' then operandPath
                  else if name \<in> set ddNonPathNames then operandNonPath else operandUncertain))"

definition parseDDOperands :: "argv \<Rightarrow> parsed_operand list" where
  "parseDDOperands argv = map dd_operand (tl argv)"

definition tarPathOptions :: "string list" where
  "tarPathOptions =
      [''exclude-from'', ''files-from'', ''file'', ''directory'', ''listed-incremental'', ''add-file'',
       ''exclude-ignore'', ''exclude-ignore-recursive'', ''exclude-tag'', ''exclude-tag-all'',
       ''exclude-tag-under'', ''group-map'', ''owner-map'', ''volno-file'', ''index-file'']"

definition tarFlagOptions :: "string list" where
  "tarFlagOptions =
      [''gzip'', ''gunzip'', ''ungzip'', ''bzip2'', ''xz'', ''auto-compress'', ''verbose'', ''create'',
       ''catenate'', ''concatenate'', ''delete'', ''diff'', ''compare'', ''append'', ''test-label'',
       ''list'', ''update'', ''extract'', ''get'', ''incremental'', ''sparse'', ''exclude-backups'',
       ''exclude-caches'', ''exclude-caches-all'', ''exclude-caches-under'', ''exclude-vcs'',
       ''exclude-vcs-ignores'', ''no-null'', ''no-recursion'', ''no-unquote'', ''no-verbatim-files-from'',
       ''null'', ''recursion'', ''unquote'', ''verbatim-files-from'']"

definition tarNonPathOptions :: "string list" where
  "tarNonPathOptions =
      [''exclude'', ''blocking-factor'', ''format'', ''tape-length'', ''info-script'',
       ''new-volume-script'', ''use-compress-program'', ''starting-file'', ''newer'', ''after-date'',
       ''label'', ''suffix'']"

definition tar_long_kind :: "string \<Rightarrow> operand_option_kind option" where
  "tar_long_kind name =
     (if name \<in> set tarPathOptions then Some optionPath
      else if name \<in> set tarFlagOptions then Some optionFlag
      else if name \<in> set tarNonPathOptions then Some optionNonPath
      else None)"

definition tar_short_kind :: "char \<Rightarrow> operand_option_kind option" where
  "tar_short_kind c =
     (if c \<in> set ''XTfCg'' then Some optionPath
      else if c \<in> set ''bHLFIKNV'' then Some optionNonPath
      else if c \<in> set ''AcdrtuxzjJavGnSBiMZhPOmpsUWlwo'' then Some optionFlag
      else None)"

text \<open>A long option of a known kind, as tar and awk read it.\<close>

definition kind_long ::
  "(string \<Rightarrow> operand_option_kind option) \<Rightarrow> 'a operand_scan_scheme \<Rightarrow> string \<Rightarrow> string list \<Rightarrow>
   'a operand_scan_scheme \<times> nat" where
  "kind_long kindOf st body rest =
     (case cut CHR ''='' body of
        (name, value, attached) \<Rightarrow>
          (case kindOf name of
             None \<Rightarrow> emit st (appendUnknownOptionValue rest value attached (osOut st))
           | Some kind \<Rightarrow>
               if kind = optionFlag \<or> kind = optionOptionalNonPath \<and> \<not> attached then (st, 0)
               else emit st (appendOptionValues rest value attached [roleForOption kind] (osOut st))))"

fun tar_cluster :: "operand_scan \<Rightarrow> string \<Rightarrow> string list \<Rightarrow> operand_scan \<times> nat" where
  "tar_cluster st [] rest = (st, 0)"
| "tar_cluster st (c # cs) rest =
     (case tar_short_kind c of
        None \<Rightarrow> emit st (appendUnknownOptionValue rest cs (cs \<noteq> '''') (osOut st))
      | Some kind \<Rightarrow>
          if kind = optionFlag then tar_cluster st cs rest
          else emit st (short_value cs rest (roleForOption kind) (osOut st)))"

definition isTarOptionCluster :: "string \<Rightarrow> bool" where
  "isTarOptionCluster value \<longleftrightarrow>
     value \<noteq> '''' \<and> list_all (\<lambda>c. c \<in> set ''AcdrtuxzjJavGnSBiMZhPOmpsUWlwoXTFICKNLVbgH'') value"

definition tar_step :: "nat \<Rightarrow> operand_scan \<Rightarrow> string \<Rightarrow> string list \<Rightarrow> operand_scan \<times> nat" where
  "tar_step i st arg rest =
     (if osOptions st \<and> i = 1 \<and> \<not> has_prefix arg ''-'' \<and> isTarOptionCluster arg then tar_cluster st arg rest
      else scan_step (kind_long tar_long_kind) tar_cluster
             (\<lambda>st arg. st\<lparr>osOut := osOut st @ [operand arg operandPath]\<rparr>) st arg rest)"

definition parseTarOperands :: "argv \<Rightarrow> parsed_operand list" where
  "parseTarOperands argv = osOut (operand_loop tar_step 1 start_scan (tl argv))"

definition awkFlagOptions :: "string list" where
  "awkFlagOptions =
      [''characters-as-bytes'', ''traditional'', ''copyright'', ''gen-pot'', ''help'', ''trace'',
       ''bignum'', ''use-lc-numeric'', ''non-decimal-data'', ''optimize'', ''posix'', ''re-interval'',
       ''no-optimize'', ''sandbox'', ''lint-old'', ''version'']"

definition awk_long_kind :: "string \<Rightarrow> operand_option_kind option" where
  "awk_long_kind name =
     (if name \<in> set [''file'', ''exec'', ''include'', ''load''] then Some optionPath
      else if name = ''source'' then Some optionProgram
      else if name \<in> set [''field-separator'', ''assign''] then Some optionNonPath
      else if name \<in> set [''dump-variables'', ''debug'', ''lint'', ''pretty-print'', ''profile'']
      then Some optionOptionalNonPath
      else if name \<in> set awkFlagOptions then Some optionFlag
      else None)"

definition awk_short_kind :: "char \<Rightarrow> operand_option_kind option" where
  "awk_short_kind c =
     (if c \<in> set ''fEil'' then Some optionPath
      else if c = CHR ''e'' then Some optionProgram
      else if c \<in> set ''Fv'' then Some optionNonPath
      else if c \<in> set ''dDLop'' then Some optionOptionalNonPath
      else if c \<in> set ''bcCghIMNOPrsStV'' then Some optionFlag
      else None)"

definition awk_long :: "operand_scan \<Rightarrow> string \<Rightarrow> string list \<Rightarrow> operand_scan \<times> nat" where
  "awk_long st body rest =
     kind_long awk_long_kind
       (st\<lparr>osProgram := osProgram st \<or> cut_name CHR ''='' body \<in> set [''file'', ''exec'', ''source'']\<rparr>) body rest"

fun awk_cluster :: "operand_scan \<Rightarrow> string \<Rightarrow> string list \<Rightarrow> operand_scan \<times> nat" where
  "awk_cluster st [] rest = (st, 0)"
| "awk_cluster st (c # cs) rest =
     (case awk_short_kind c of
        None \<Rightarrow> emit st (appendUnknownOptionValue rest cs (cs \<noteq> '''') (osOut st))
      | Some kind \<Rightarrow>
          let st' = st\<lparr>osProgram := osProgram st \<or> c \<in> set ''fEe''\<rparr>
          in if kind = optionFlag then awk_cluster st' cs rest
             else if kind = optionOptionalNonPath then emit st' (add_value cs operandNonPath (osOut st), 0)
             else emit st' (short_value cs rest (roleForOption kind) (osOut st)))"

definition isAWKAssignment :: "string \<Rightarrow> bool" where
  "isAWKAssignment value =
     (case cut CHR ''='' value of
        (name, _, found) \<Rightarrow>
          found \<and> name \<noteq> '''' \<and> (isASCIILetterByte (hd name) \<or> hd name = CHR ''_'') \<and>
          list_all (\<lambda>c. c = CHR ''_'' \<or> isASCIILetterByte c \<or> is_digit c) (tl name))"

definition awk_step :: "nat \<Rightarrow> operand_scan \<Rightarrow> string \<Rightarrow> string list \<Rightarrow> operand_scan \<times> nat" where
  "awk_step i =
     scan_step awk_long awk_cluster
       (\<lambda>st arg. if isAWKAssignment arg then st\<lparr>osOut := osOut st @ [operand arg operandNonPath]\<rparr>
                 else add_positional arg st)"

definition parseAWKOperands :: "argv \<Rightarrow> parsed_operand list" where
  "parseAWKOperands argv = first_positional operandNonPath (operand_loop awk_step 1 start_scan (tl argv))"

section \<open>yq and jq\<close>

definition yqNonPathOptions :: "string list" where
  "yqNonPathOptions =
      [''output-format'', ''input-format'', ''indent'', ''xml-attribute-prefix'', ''xml-content-name'',
       ''xml-proc-inst-prefix'', ''xml-directive-name'', ''csv-separator'', ''lua-prefix'', ''lua-suffix'',
       ''properties-separator'']"

definition yqFlagOptions :: "string list" where
  "yqFlagOptions =
      [''verbose'', ''debug-node-info'', ''tojson'', ''xml-strict-mode'', ''xml-keep-namespace'',
       ''xml-raw-token'', ''xml-skip-proc-inst'', ''xml-skip-directives'', ''csv-auto-parse'',
       ''tsv-auto-parse'', ''lua-unquoted'', ''lua-globals'', ''properties-array-brackets'',
       ''string-interpolation'', ''null-input'', ''no-doc'', ''version'', ''inplace'', ''unwrapScalar'',
       ''nul-output'', ''prettyPrint'', ''exit-status'', ''colors'', ''no-colors'', ''header-preprocess'',
       ''yaml-fix-merge-anchor-to-spec'']"

definition unknown_yq :: string where
  "unknown_yq = ''yq operand roles are ambiguous because an option is unknown''"

definition yq_long :: "operand_scan \<Rightarrow> string \<Rightarrow> string list \<Rightarrow> operand_scan \<times> nat" where
  "yq_long st body rest =
     (case cut CHR ''='' body of
        (name, value, attached) \<Rightarrow>
          if name \<in> set [''front-matter'', ''split-exp'']
          then emit st (appendOptionValues rest value attached [operandNonPath] (osOut st))
          else if name = ''expression''
          then emit (st\<lparr>osProgram := True\<rparr>) (appendOptionValues rest value attached [operandNonPath] (osOut st))
          else if name = ''from-file''
          then emit (st\<lparr>osProgram := True\<rparr>) (appendOptionValues rest value attached [operandPath] (osOut st))
          else if name = ''split-exp-file''
          then emit st (appendOptionValues rest value attached [operandPath] (osOut st))
          else if name \<in> set yqNonPathOptions
          then emit st (appendOptionValues rest value attached [operandNonPath] (osOut st))
          else if name \<in> set yqFlagOptions then (st, 0)
          else emit (st\<lparr>osReason := unknown_yq\<rparr>) (appendUnknownOptionValue rest value attached (osOut st)))"

definition yqValueLetters :: string where
  "yqValueLetters = ''fsopI''"

definition yqFlagLetters :: string where
  "yqFlagLetters = ''vjnNVir0PeCM''"

fun yq_cluster :: "operand_scan \<Rightarrow> string \<Rightarrow> string list \<Rightarrow> operand_scan \<times> nat" where
  "yq_cluster st [] rest = (st, 0)"
| "yq_cluster st (c # cs) rest =
     (if c \<in> set yqValueLetters then emit st (short_value cs rest operandNonPath (osOut st))
      else if c \<in> set yqFlagLetters then yq_cluster st cs rest
      else emit (st\<lparr>osReason := unknown_yq\<rparr>) (appendUnknownOptionValue rest cs (cs \<noteq> '''') (osOut st)))"

definition yq_step :: "nat \<Rightarrow> operand_scan \<Rightarrow> string \<Rightarrow> string list \<Rightarrow> operand_scan \<times> nat" where
  "yq_step i st arg rest =
     (if i = 1 \<and> arg \<in> set [''e'', ''eval'', ''ea'', ''eval-all''] then (st, 0)
      else scan_step yq_long yq_cluster (\<lambda>st arg. add_positional arg st) st arg rest)"

definition parseYQOperands :: "argv \<Rightarrow> operand_parse_result" where
  "parseYQOperands argv =
     (let st = operand_loop yq_step 1 start_scan (tl argv)
      in \<lparr>prOperands = first_positional operandUncertain st, prUncertainty = osReason st\<rparr>)"

record jq_scan = operand_scan +
  jqNullInput :: bool
  jqLiteralTail :: "nat option"
  jqRunTests :: bool

definition start_jq :: jq_scan where
  "start_jq = operand_scan.extend start_scan \<lparr>jqNullInput = False, jqLiteralTail = None, jqRunTests = False\<rparr>"

definition jqFlagOptions :: "string list" where
  "jqFlagOptions =
      [''raw-input'', ''slurp'', ''compact-output'', ''raw-output'', ''raw-output0'', ''join-output'',
       ''ascii-output'', ''sort-keys'', ''color-output'', ''monochrome-output'', ''tab'', ''unbuffered'',
       ''stream'', ''stream-errors'', ''seq'', ''exit-status'', ''version'', ''build-configuration'',
       ''help'']"

definition unknown_jq :: string where
  "unknown_jq = ''jq operand roles are ambiguous because an option is unknown''"

definition interposed_jq :: string where
  "interposed_jq =
     ''jq operand roles are ambiguous because a filter-file value is interposed by an option''"

definition optionInterposesValue :: "string list \<Rightarrow> bool" where
  "optionInterposesValue rest =
     (case rest of [] \<Rightarrow> False | value # _ \<Rightarrow> has_prefix value ''-'' \<and> value \<noteq> ''-'')"

definition jq_long :: "jq_scan \<Rightarrow> string \<Rightarrow> string list \<Rightarrow> jq_scan \<times> nat" where
  "jq_long st body rest =
     (case cut CHR ''='' body of
        (name, value, attached) \<Rightarrow>
          if name = ''from-file''
          then (if \<not> attached \<and> optionInterposesValue rest
                then (st\<lparr>osProgram := True, osReason := interposed_jq\<rparr>, 0)
                else emit (st\<lparr>osProgram := True\<rparr>) (appendOptionValues rest value attached [operandPath] (osOut st)))
          else if name \<in> set [''arg'', ''argjson'']
          then emit st (appendOptionValues rest value attached [operandNonPath, operandNonPath] (osOut st))
          else if name \<in> set [''rawfile'', ''slurpfile'']
          then emit st (appendOptionValues rest value attached [operandNonPath, operandPath] (osOut st))
          else if name = ''indent''
          then emit st (appendOptionValues rest value attached [operandNonPath] (osOut st))
          else if name = ''null-input'' then (st\<lparr>jqNullInput := True\<rparr>, 0)
          else if name \<in> set [''args'', ''jsonargs'']
          then (if jqLiteralTail st = None then st\<lparr>jqLiteralTail := Some (length (osPositional st))\<rparr> else st, 0)
          else if name = ''run-tests''
          then (if attached
                then emit (st\<lparr>osReason := unknown_jq\<rparr>) (appendUnknownOptionValue rest value True (osOut st))
                else (st\<lparr>jqRunTests := True\<rparr>, 0))
          else if name \<in> set jqFlagOptions then (st, 0)
          else emit (st\<lparr>osReason := unknown_jq\<rparr>) (appendUnknownOptionValue rest value attached (osOut st)))"

text \<open>The library directory of \<^verbatim>\<open>-L\<close> and the filter file of \<^verbatim>\<open>-f\<close>.\<close>

definition jq_file :: "bool \<Rightarrow> jq_scan \<Rightarrow> string \<Rightarrow> string list \<Rightarrow> jq_scan \<times> nat" where
  "jq_file isFilter st cs rest =
     (let st' = (if isFilter then st\<lparr>osProgram := True\<rparr> else st)
      in if isFilter \<and> cs = '''' \<and> optionInterposesValue rest
         then (st'\<lparr>osReason := interposed_jq\<rparr>, 0)
         else emit st' (short_value cs rest operandPath (osOut st)))"

definition jqFlagLetters :: string where
  "jqFlagLetters = ''RscrjaSCMeVh''"

fun jq_cluster :: "jq_scan \<Rightarrow> string \<Rightarrow> string list \<Rightarrow> jq_scan \<times> nat" where
  "jq_cluster st [] rest = (st, 0)"
| "jq_cluster st (c # cs) rest =
     (if c = CHR ''f'' then jq_file True st cs rest
      else if c = CHR ''L'' then jq_file False st cs rest
      else if c = CHR ''n'' then jq_cluster (st\<lparr>jqNullInput := True\<rparr>) cs rest
      else if c \<in> set jqFlagLetters then jq_cluster st cs rest
      else emit (st\<lparr>osReason := unknown_jq\<rparr>) (appendUnknownOptionValue rest cs (cs \<noteq> '''') (osOut st)))"

definition jq_step :: "nat \<Rightarrow> jq_scan \<Rightarrow> string \<Rightarrow> string list \<Rightarrow> jq_scan \<times> nat" where
  "jq_step i st arg rest =
     (if jqRunTests st
      then (if arg = ''--skip'' \<or> arg = ''--take'' then (st, if rest = [] then 0 else 1)
            else (st\<lparr>osOut := osOut st @ [operand arg operandPath]\<rparr>, 0))
      else scan_step jq_long jq_cluster (\<lambda>st arg. add_positional arg st) st arg rest)"

text \<open>The positional operands after the filter are data files, unless there is no input or they follow
  \<^verbatim>\<open>--args\<close>.\<close>

definition jq_literal :: "jq_scan \<Rightarrow> nat \<Rightarrow> bool" where
  "jq_literal st position \<longleftrightarrow>
     jqNullInput st \<or> (case jqLiteralTail st of Some n \<Rightarrow> n \<le> position | None \<Rightarrow> False)"

definition jq_data_roles :: "jq_scan \<Rightarrow> parsed_operand list \<Rightarrow> parsed_operand list" where
  "jq_data_roles st out =
     (let dataStart = (if \<not> osProgram st \<and> osPositional st \<noteq> [] then 1 else 0)
      in foldl (\<lambda>out (position, index). if jq_literal st position then set_role operandNonPath index out else out)
           out (drop dataStart (enumerate 0 (osPositional st))))"

definition parseJQOperands :: "argv \<Rightarrow> operand_parse_result" where
  "parseJQOperands argv =
     (let st = operand_loop jq_step 1 start_jq (tl argv)
      in \<lparr>prOperands = jq_data_roles st (first_positional operandNonPath st), prUncertainty = osReason st\<rparr>)"

section \<open>Every other command\<close>

definition generic_long :: "operand_scan \<Rightarrow> string \<Rightarrow> string list \<Rightarrow> operand_scan \<times> nat" where
  "generic_long st body rest =
     (case cut CHR ''='' body of
        (_, value, attached) \<Rightarrow> emit st (appendUnknownOptionValue rest value attached (osOut st)))"

definition generic_short :: "operand_scan \<Rightarrow> string \<Rightarrow> string list \<Rightarrow> operand_scan \<times> nat" where
  "generic_short st short rest =
     emit st (appendUnknownOptionValue rest (tl short) (tl short \<noteq> '''') (osOut st))"

definition generic_step :: "bool \<Rightarrow> nat \<Rightarrow> operand_scan \<Rightarrow> string \<Rightarrow> string list \<Rightarrow> operand_scan \<times> nat" where
  "generic_step scanBare i =
     scan_step generic_long generic_short
       (\<lambda>st arg. st\<lparr>osOut := osOut st @
            [operand arg (if scanBare \<or> looksLikePathOperand arg then operandPath else operandNonPath)]\<rparr>)"

definition parseGenericOperands :: "argv \<Rightarrow> bool \<Rightarrow> parsed_operand list" where
  "parseGenericOperands argv scanBare = osOut (operand_loop (generic_step scanBare) 1 start_scan (tl argv))"

definition parseOperandRoles :: "argv \<Rightarrow> operand_parse_result" where
  "parseOperandRoles argv =
     (let plain = (\<lambda>operands. \<lparr>prOperands = operands, prUncertainty = ''''\<rparr>); command = head argv
      in if argv = [] then plain []
         else if command \<in> set [''grep'', ''egrep'', ''fgrep'']
         then plain (fst (parsePatternCommandOperands argv grepOperandOptions))
         else if command = ''sed'' then plain (fst (parsePatternCommandOperands argv sedOperandOptions))
         else if command = ''jq'' then parseJQOperands argv
         else if command = ''yq'' then parseYQOperands argv
         else if command = ''awk'' then plain (parseAWKOperands argv)
         else if command = ''tar'' then plain (parseTarOperands argv)
         else if command = ''dd'' then plain (parseDDOperands argv)
         else plain (parseGenericOperands argv (command \<in> set pathOperandCommands)))"

section \<open>The word an operand came from\<close>

definition comes_from :: "string \<Rightarrow> string \<Rightarrow> bool" where
  "comes_from value arg \<longleftrightarrow> arg = value \<or> has_suffix arg (CHR ''='' # value) \<or> value \<noteq> '''' \<and> has_suffix arg value"

definition source_from :: "argv \<Rightarrow> string \<Rightarrow> nat \<Rightarrow> nat option" where
  "source_from argv value start = find (\<lambda>i. comes_from value (argv ! i)) [start..<length argv]"

definition operandSourceArg :: "argv \<Rightarrow> string \<Rightarrow> nat \<Rightarrow> int" where
  "operandSourceArg argv value start =
     (case source_from argv value start of
        Some i \<Rightarrow> int i
      | None \<Rightarrow> (case source_from argv value 1 of Some i \<Rightarrow> int i | None \<Rightarrow> - 1))"

fun with_sources :: "argv \<Rightarrow> nat \<Rightarrow> parsed_operand list \<Rightarrow> parsed_operand list" where
  "with_sources argv start [] = []"
| "with_sources argv start (p # ps) =
     (let source = operandSourceArg argv (poValue p) start
      in p\<lparr>poSourceArg := source\<rparr> #
         with_sources argv (if int start \<le> source then nat source + 1 else start) ps)"

definition parseOperandRolesWithSources :: "argv \<Rightarrow> operand_parse_result" where
  "parseOperandRolesWithSources argv =
     (let parsed = parseOperandRoles argv
      in parsed\<lparr>prOperands := with_sources argv 1 (prOperands parsed)\<rparr>)"

section \<open>No operand is made up\<close>

definition derives :: "string list \<Rightarrow> parsed_operand list \<Rightarrow> parsed_operand list \<Rightarrow> bool" where
  "derives ws out out' \<longleftrightarrow> (\<forall>p\<in>set out'. p \<in> set out \<or> (\<exists>a\<in>set ws. comes_from (poValue p) a))"

lemma derives_refl [simp]: "derives ws out out"
  by (simp add: derives_def)

lemma derives_trans: "derives ws out out' \<Longrightarrow> derives ws out' out'' \<Longrightarrow> derives ws out out''"
  by (auto simp: derives_def)

lemma derives_mono: "derives ws out out' \<Longrightarrow> set ws \<subseteq> set ws' \<Longrightarrow> derives ws' out out'"
  by (fastforce simp: derives_def)

lemma poValue_operand [simp]: "poValue (operand v r) = v"
  by (simp add: operand_def)

lemma comes_from_self [simp]: "comes_from a a"
  by (simp add: comes_from_def)

lemma derives_snoc: "a \<in> set ws \<Longrightarrow> comes_from v a \<Longrightarrow> derives ws out (out @ [operand v r])"
  by (auto simp: derives_def)

lemma derives_add_value: "a \<in> set ws \<Longrightarrow> comes_from v a \<Longrightarrow> derives ws out (add_value v r out)"
  by (auto simp: add_value_def intro: derives_snoc)

lemma comes_from_suffix: "suffix v a \<Longrightarrow> v \<noteq> '''' \<Longrightarrow> comes_from v a"
  by (simp add: comes_from_def has_suffix_iff_suffix)

lemma comes_from_cut:
  assumes "cut CHR ''='' body = (name, v, attached)" and attached and "suffix body a"
  shows "comes_from v a"
proof -
  have "body = name @ CHR ''='' # v" using assms(1,2) by (intro cut_found) (auto simp: cut_def)
  with assms(3) have "suffix (CHR ''='' # v) a" by (auto simp: suffix_def)
  then show ?thesis by (simp add: comes_from_def has_suffix_iff_suffix)
qed

lemma derives_values:
  "(attached \<longrightarrow> (\<exists>a\<in>set ws. comes_from v a)) \<Longrightarrow> set rest \<subseteq> set ws \<Longrightarrow>
   derives ws out (fst (appendOptionValues rest v attached roles out))"
proof (induction rest v attached roles out rule: appendOptionValues.induct)
  case (2 rest v role roles out)
  then have "derives ws out (add_value v role out)" by (auto intro: derives_add_value)
  with 2 show ?case by (auto intro: derives_trans)
next
  case (4 w rest v role roles out)
  then have "derives ws out (add_value w role out)" by (auto intro: derives_add_value [of w])
  with 4 show ?case by (auto intro: derives_trans split: prod.split)
qed simp_all

lemma derives_unknown:
  "(attached \<longrightarrow> (\<exists>a\<in>set ws. comes_from v a)) \<Longrightarrow> set rest \<subseteq> set ws \<Longrightarrow>
   derives ws out (fst (appendUnknownOptionValue rest v attached out))"
  by (auto simp: appendUnknownOptionValue_def intro: derives_snoc [OF _ comes_from_self] derives_snoc split: list.split)

lemma derives_unknown_cluster:
  "suffix cs arg \<Longrightarrow> derives (arg # rest) out (fst (appendUnknownOptionValue rest cs (cs \<noteq> '''') out))"
  by (rule derives_unknown) (auto intro: comes_from_suffix)

lemma derives_add_cluster: "suffix cs arg \<Longrightarrow> derives (arg # rest) out (add_value cs role out)"
  by (auto simp: add_value_def intro: derives_snoc comes_from_suffix)

lemma derives_short:
  "suffix cs a \<Longrightarrow> a \<in> set ws \<Longrightarrow> set rest \<subseteq> set ws \<Longrightarrow> derives ws out (fst (short_value cs rest role out))"
  by (auto simp: short_value_def intro: derives_snoc [OF _ comes_from_suffix] derives_add_value [OF _ comes_from_self]
      split: list.split)

lemma osOut_emit [simp]: "osOut (fst (emit st r)) = fst r"
  by (simp add: emit_def)

lemma osOut_note_option [simp]: "osOut (note_option spec opt st) = osOut st"
  by (simp add: note_option_def)

lemma osOut_add_positional: "derives (arg # rest) (osOut st) (osOut (add_positional arg st))"
  by (auto simp: add_positional_def intro: derives_snoc)

lemma suffix_tailI: "suffix (c # cs) a \<Longrightarrow> suffix cs a"
  by (auto simp: suffix_def)

text \<open>The words a step adds come from the word it reads and the words after it.\<close>

abbreviation step_derives :: "'a operand_scan_scheme \<Rightarrow> string \<Rightarrow> string list \<Rightarrow> 'a operand_scan_scheme \<times> nat \<Rightarrow> bool" where
  "step_derives st arg rest r \<equiv> derives (arg # rest) (osOut st) (osOut (fst r))"

lemma pattern_long_derives:
  assumes "suffix body arg"
  shows "step_derives st arg rest (pattern_long spec st body rest)"
proof -
  obtain name v attached where c: "cut CHR ''='' body = (name, v, attached)" by (cases "cut CHR ''='' body")
  have v: "comes_from v arg" if attached using c that assms by (rule comes_from_cut)
  show ?thesis
    by (cases "resolveOperandLongOption name (pcOptions spec)")
      (auto simp: pattern_long_def c Let_def v intro: derives_unknown derives_snoc [of arg] derives_snoc [OF _ comes_from_self]
        split: list.split)
qed

lemma kind_long_derives:
  assumes "suffix body arg"
  shows "step_derives st arg rest (kind_long kindOf st body rest)"
proof -
  obtain name v attached where c: "cut CHR ''='' body = (name, v, attached)" by (cases "cut CHR ''='' body")
  have v: "comes_from v arg" if attached using c that assms by (rule comes_from_cut)
  show ?thesis by (cases "kindOf name") (auto simp: kind_long_def c v intro: derives_unknown derives_values)
qed

lemma yq_long_derives:
  assumes "suffix body arg"
  shows "step_derives st arg rest (yq_long st body rest)"
proof -
  obtain name v attached where c: "cut CHR ''='' body = (name, v, attached)" by (cases "cut CHR ''='' body")
  have v: "comes_from v arg" if attached using c that assms by (rule comes_from_cut)
  show ?thesis unfolding yq_long_def c by (simp add: v derives_unknown derives_values subset_insertI)
qed

lemma jq_long_derives:
  assumes "suffix body arg"
  shows "step_derives st arg rest (jq_long st body rest)"
proof -
  obtain name v attached where c: "cut CHR ''='' body = (name, v, attached)" by (cases "cut CHR ''='' body")
  have v: "comes_from v arg" if attached using c that assms by (rule comes_from_cut)
  show ?thesis unfolding jq_long_def c
    by (simp add: v derives_unknown derives_values derives_add_value [of arg] subset_insertI)
qed

lemma generic_long_derives: "suffix body arg \<Longrightarrow> step_derives st arg rest (generic_long st body rest)"
  by (auto simp: generic_long_def intro!: derives_unknown dest: comes_from_cut split: prod.split)

lemma pattern_cluster_derives: "suffix cs arg \<Longrightarrow> step_derives st arg rest (pattern_cluster spec st cs rest)"
proof (induction cs arbitrary: st)
  case (Cons c cs)
  then have "suffix cs arg" by (blast intro: suffix_tailI)
  with Cons.IH [of "note_option spec opt st" for opt] show ?case
    by (auto simp: Let_def intro: derives_unknown_cluster derives_short derives_add_cluster
        split: option.split)
qed simp

lemma tar_cluster_derives: "suffix cs arg \<Longrightarrow> step_derives st arg rest (tar_cluster st cs rest)"
proof (induction cs)
  case (Cons c cs)
  then have "suffix cs arg" by (blast intro: suffix_tailI)
  with Cons.IH show ?case
    by (auto intro: derives_unknown_cluster derives_short split: option.split)
qed simp

lemma awk_cluster_derives: "suffix cs arg \<Longrightarrow> step_derives st arg rest (awk_cluster st cs rest)"
proof (induction cs arbitrary: st)
  case (Cons c cs)
  then have s: "suffix cs arg" by (blast intro: suffix_tailI)
  show ?case using s Cons.IH [OF s, of "st\<lparr>osProgram := osProgram st \<or> c \<in> set ''fEe''\<rparr>"]
    by (auto simp: Let_def intro: derives_unknown_cluster derives_short derives_add_cluster split: option.split)
qed simp

lemma yq_cluster_derives: "suffix cs arg \<Longrightarrow> step_derives st arg rest (yq_cluster st cs rest)"
proof (induction cs)
  case (Cons c cs)
  then have "suffix cs arg" by (blast intro: suffix_tailI)
  with Cons.IH show ?case by (auto intro: derives_unknown_cluster derives_short)
qed simp

lemma jq_cluster_derives: "suffix cs arg \<Longrightarrow> step_derives st arg rest (jq_cluster st cs rest)"
proof (induction cs arbitrary: st)
  case (Cons c cs)
  then have s: "suffix cs arg" by (blast intro: suffix_tailI)
  show ?case using s Cons.IH [OF s, of st] Cons.IH [OF s, of "st\<lparr>jqNullInput := True\<rparr>"]
    by (auto simp: jq_file_def Let_def intro: derives_unknown_cluster derives_unknown derives_short)
qed simp

lemma scan_step_derives:
  assumes "\<And>body. suffix body arg \<Longrightarrow> step_derives st arg rest (long st body rest)"
    and "\<And>cs. suffix cs arg \<Longrightarrow> step_derives st arg rest (short st cs rest)"
    and "derives (arg # rest) (osOut st) (osOut (positional st arg))"
  shows "step_derives st arg rest (scan_step long short positional st arg rest)"
  using assms by (simp add: scan_step_def suffix_drop suffix_tl)

text \<open>What a parser owes its callers.\<close>

locale operand_parser =
  fixes step :: "nat \<Rightarrow> 'a operand_scan_scheme \<Rightarrow> string \<Rightarrow> string list \<Rightarrow> 'a operand_scan_scheme \<times> nat"
  assumes step_derived: "step_derives st arg rest (step i st arg rest)"
begin

lemma loop_derives: "derives args (osOut st) (osOut (operand_loop step i st args))"
proof (induction "length args" arbitrary: i st args rule: less_induct)
  case less
  show ?case
  proof (cases args)
    case (Cons arg rest)
    obtain st' k where s: "step i st arg rest = (st', k)" by (cases "step i st arg rest")
    have "derives (arg # rest) (osOut st) (osOut st')" using step_derived [of arg rest st i] s by simp
    moreover have "derives (arg # rest) (osOut st') (osOut (operand_loop step (i + 1 + k) st' (drop k rest)))"
      by (rule derives_mono [OF less.hyps]) (auto simp: Cons dest: in_set_dropD)
    ultimately show ?thesis using s Cons by (auto intro: derives_trans)
  qed simp
qed

end

interpretation pattern: operand_parser "pattern_step spec"
  by standard (auto simp: pattern_step_def pattern_short_def
      intro!: scan_step_derives pattern_long_derives pattern_cluster_derives osOut_add_positional)

interpretation tar: operand_parser tar_step
  by standard (auto simp: tar_step_def
      intro!: scan_step_derives kind_long_derives tar_cluster_derives derives_snoc)

lemma awk_long_derives: "suffix body arg \<Longrightarrow> step_derives st arg rest (awk_long st body rest)"
  using kind_long_derives [where st = "st\<lparr>osProgram := b\<rparr>" for b] by (simp add: awk_long_def)

interpretation awk: operand_parser awk_step
  by standard (auto simp: awk_step_def
      intro!: scan_step_derives awk_long_derives awk_cluster_derives osOut_add_positional derives_snoc)

interpretation yq: operand_parser yq_step
  by standard (auto simp: yq_step_def
      intro!: scan_step_derives yq_long_derives yq_cluster_derives osOut_add_positional)

interpretation jq: operand_parser jq_step
  by standard (auto simp: jq_step_def
      intro!: scan_step_derives jq_long_derives jq_cluster_derives osOut_add_positional derives_snoc)

lemma generic_short_derives: "suffix cs arg \<Longrightarrow> step_derives st arg rest (generic_short st cs rest)"
  by (auto simp: generic_short_def intro: derives_unknown_cluster suffix_order.trans suffix_tl)

interpretation generic: operand_parser "generic_step scanBare"
  by standard (auto simp: generic_step_def
      intro!: scan_step_derives generic_long_derives generic_short_derives derives_snoc)

section \<open>Every operand has its word\<close>

lemma values_set_role [simp]: "map poValue (set_role r i out) = map poValue out"
  by (simp add: set_role_def map_update list_update_same_conv)

lemma values_first_positional [simp]: "map poValue (first_positional r st) = map poValue (osOut st)"
  by (simp add: first_positional_def split: list.split)

lemma values_mark_write [simp]: "map poValue (mark_write out i) = map poValue out"
  by (simp add: mark_write_def map_update list_update_same_conv)

lemma values_mark_all [simp]: "map poValue (foldl mark_write out is) = map poValue out"
  by (induction "is" arbitrary: out) simp_all

lemma values_fold_roles:
  "map poValue (foldl (\<lambda>out (p, i). if f p then set_role r i out else out) out xs) = map poValue out"
  by (induction xs arbitrary: out) (simp_all split: prod.split)

lemma values_jq_data_roles [simp]: "map poValue (jq_data_roles st out) = map poValue out"
  unfolding jq_data_roles_def Let_def by (rule values_fold_roles)

lemma derived_values:
  assumes "derives args [] out" and "v \<in> set (map poValue out)"
  shows "\<exists>a\<in>set args. comes_from v a"
  using assms by (auto simp: derives_def)

lemma osOut_start [simp]: "osOut start_scan = []" "osOut start_jq = []"
  by (simp_all add: start_scan_def start_jq_def operand_scan.extend_def)

lemma dd_operand_source: "comes_from (poValue (dd_operand arg)) arg"
proof -
  obtain name v assignment where c: "cut CHR ''='' arg = (name, v, assignment)" by (cases "cut CHR ''='' arg")
  show ?thesis
  proof (cases assignment)
    case True
    then have "comes_from v arg" using c by (intro comes_from_cut [of arg name]) simp_all
    with True show ?thesis by (simp add: dd_operand_def c)
  next
    case False
    then show ?thesis by (simp add: dd_operand_def c)
  qed
qed

abbreviation from_words :: "argv \<Rightarrow> parsed_operand list \<Rightarrow> bool" where
  "from_words argv out \<equiv> \<forall>v\<in>set (map poValue out). \<exists>a\<in>set (tl argv). comes_from v a"

lemma from_wordsI: "derives (tl argv) [] out \<Longrightarrow> map poValue out' = map poValue out \<Longrightarrow> from_words argv out'"
  by (metis derived_values)

lemma pattern_from_words: "from_words argv (fst (parsePatternCommandOperands argv spec))"
  by (rule from_wordsI [OF pattern.loop_derives [where st = start_scan, simplified]]) (simp add: parsePatternCommandOperands_def Let_def)

lemma tar_from_words: "from_words argv (parseTarOperands argv)"
  by (rule from_wordsI [OF tar.loop_derives [where st = start_scan, simplified]]) (simp add: parseTarOperands_def Let_def)

lemma awk_from_words: "from_words argv (parseAWKOperands argv)"
  by (rule from_wordsI [OF awk.loop_derives [where st = start_scan, simplified]]) (simp add: parseAWKOperands_def Let_def)

lemma yq_from_words: "from_words argv (prOperands (parseYQOperands argv))"
  by (rule from_wordsI [OF yq.loop_derives [where st = start_scan, simplified]]) (simp add: parseYQOperands_def Let_def)

lemma jq_from_words: "from_words argv (prOperands (parseJQOperands argv))"
  by (rule from_wordsI [OF jq.loop_derives [where st = start_jq, simplified]]) (simp add: parseJQOperands_def Let_def)

lemma generic_from_words: "from_words argv (parseGenericOperands argv scanBare)"
  by (rule from_wordsI [OF generic.loop_derives [where st = start_scan, simplified]]) (simp add: parseGenericOperands_def Let_def)

lemma dd_from_words: "from_words argv (parseDDOperands argv)"
  by (auto simp: parseDDOperands_def intro: dd_operand_source)

lemma operand_from_word: "from_words argv (prOperands (parseOperandRoles argv))"
  using pattern_from_words [of argv grepOperandOptions] pattern_from_words [of argv sedOperandOptions]
    tar_from_words [of argv] awk_from_words [of argv] yq_from_words [of argv] jq_from_words [of argv]
    dd_from_words [of argv] generic_from_words [of argv "head argv \<in> set pathOperandCommands"]
  by (simp add: parseOperandRoles_def Let_def)

lemma source_from_Some:
  assumes "source_from argv v start = Some i"
  shows "start \<le> i \<and> i < length argv \<and> comes_from v (argv ! i)"
  using assms by (auto simp: source_from_def find_Some_iff)

lemma source_from_exists:
  assumes "a \<in> set (tl argv)" and "comes_from v a"
  shows "source_from argv v 1 \<noteq> None"
proof -
  obtain i where "i < length (tl argv)" "tl argv ! i = a" using assms(1) by (auto simp: in_set_conv_nth)
  then have "Suc i \<in> set [1..<length argv]" "argv ! Suc i = a" by (cases argv; auto)+
  with assms(2) show ?thesis by (auto simp: source_from_def find_None_iff)
qed

lemma operandSourceArg_found:
  assumes "a \<in> set (tl argv)" and "comes_from v a" and "1 \<le> start"
  shows "1 \<le> operandSourceArg argv v start \<and> operandSourceArg argv v start < int (length argv) \<and>
         comes_from v (argv ! nat (operandSourceArg argv v start))"
  using source_from_exists [OF assms(1,2)] assms(3)
  by (fastforce simp: operandSourceArg_def split: option.split dest: source_from_Some)

lemma with_sources_found:
  "from_words argv ps \<Longrightarrow> 1 \<le> start \<Longrightarrow> p \<in> set (with_sources argv start ps) \<Longrightarrow>
   1 \<le> poSourceArg p \<and> poSourceArg p < int (length argv) \<and> comes_from (poValue p) (argv ! nat (poSourceArg p))"
proof (induction argv start ps rule: with_sources.induct)
  case (2 argv start q ps)
  then obtain a where a: "a \<in> set (tl argv)" "comes_from (poValue q) a" by auto
  have "1 \<le> (if int start \<le> operandSourceArg argv (poValue q) start
             then nat (operandSourceArg argv (poValue q) start) + 1 else start)"
    using "2.prems"(2) by simp
  with 2 operandSourceArg_found [OF a "2.prems"(2)] show ?case by (auto simp: Let_def)
qed simp

text \<open>Every operand that any of the parsers reports, for any command line, comes from a word of the command
  after its name, and the search for that word returns it: the position is inside the argument vector,
  never the command itself and never the \<open>-1\<close> of a failed search, and the word there is the operand or
  ends with it.\<close>

lemma operands_have_sources:
  assumes "p \<in> set (prOperands (parseOperandRolesWithSources argv))"
  shows "1 \<le> poSourceArg p \<and> poSourceArg p < int (length argv) \<and>
         has_suffix (argv ! nat (poSourceArg p)) (poValue p)"
proof -
  have "p \<in> set (with_sources argv 1 (prOperands (parseOperandRoles argv)))"
    using assms by (simp add: parseOperandRolesWithSources_def Let_def)
  from with_sources_found [OF operand_from_word order_refl this] show ?thesis
    by (auto simp: comes_from_def has_suffix_iff_suffix dest: suffix_ConsD)
qed

text \<open>The witness: the file of a sed script, given by an abbreviated option, and the edited file.\<close>

section \<open>No word of a plain command is overlooked\<close>

definition suspected :: "parsed_operand list \<Rightarrow> string \<Rightarrow> bool" where
  "suspected out w \<longleftrightarrow> (\<exists>p\<in>set out. poValue p = w \<and> poRole p \<noteq> operandNonPath)"

lemma suspected_operand [simp]: "r \<noteq> operandNonPath \<Longrightarrow> suspected (out @ [operand w r]) w"
  by (auto simp: suspected_def operand_def)

lemma suspected_mono: "suspected out w \<Longrightarrow> set out \<subseteq> set out' \<Longrightarrow> suspected out' w"
  by (auto simp: suspected_def)

lemma unknown_value_suspected:
  "set out \<subseteq> set (fst (appendUnknownOptionValue rest v attached out))"
  "w \<in> set (take (snd (appendUnknownOptionValue rest v attached out)) rest) \<Longrightarrow>
   suspected (fst (appendUnknownOptionValue rest v attached out)) w"
  by (auto simp: appendUnknownOptionValue_def take_Cons' split: if_splits list.splits)

abbreviation path_like :: "bool \<Rightarrow> string \<Rightarrow> bool" where
  "path_like scanBare w \<equiv> \<not> has_prefix w ''-'' \<and> (scanBare \<or> looksLikePathOperand w)"

lemma generic_step_suspects:
  assumes "generic_step scanBare i st arg rest = (st', k)"
  shows "set (osOut st) \<subseteq> set (osOut st')"
    and "w \<in> set (arg # take k rest) \<Longrightarrow> path_like scanBare w \<Longrightarrow> suspected (osOut st') w"
proof -
  have r: "st' = fst (generic_step scanBare i st arg rest)" "k = snd (generic_step scanBare i st arg rest)"
    by (simp_all add: assms)
  show "set (osOut st) \<subseteq> set (osOut st')" unfolding r
    by (auto simp: generic_step_def scan_step_def generic_long_def generic_short_def emit_def
        split: prod.splits dest: unknown_value_suspected(1) [THEN subsetD])
  show "suspected (osOut st') w" if "w \<in> set (arg # take k rest)" "path_like scanBare w"
    using that unfolding r
    by (auto simp: generic_step_def scan_step_def generic_long_def generic_short_def emit_def
        unknown_value_suspected(2) split: prod.splits if_splits elim: has_prefixE)
qed

lemma generic_loop_suspects:
  "(w \<in> set args \<longrightarrow> path_like scanBare w \<longrightarrow>
      suspected (osOut (operand_loop (generic_step scanBare) i st args)) w) \<and>
   set (osOut st) \<subseteq> set (osOut (operand_loop (generic_step scanBare) i st args))"
proof (induction "length args" arbitrary: i st args rule: less_induct)
  case less
  show ?case
  proof (cases args)
    case (Cons arg rest)
    obtain st' k where s: "generic_step scanBare i st arg rest = (st', k)"
      by (cases "generic_step scanBare i st arg rest")
    have loop: "operand_loop (generic_step scanBare) i st args =
        operand_loop (generic_step scanBare) (i + 1 + k) st' (drop k rest)" by (simp add: Cons s)
    have split: "w \<in> set args \<Longrightarrow> w \<in> set (arg # take k rest) \<or> w \<in> set (drop k rest)"
      using Cons by (metis Un_iff append_take_drop_id set_ConsD set_append list.set_intros)
    have "length (drop k rest) < length args" by (simp add: Cons)
    from less [OF this, of "i + 1 + k" st'] generic_step_suspects [OF s] split show ?thesis
      unfolding loop by (meson subset_trans suspected_mono)
  qed simp
qed

definition specialOperandCommands :: "string list" where
  "specialOperandCommands = [''grep'', ''egrep'', ''fgrep'', ''sed'', ''jq'', ''yq'', ''awk'', ''tar'', ''dd'']"

lemma plain_operand_suspected:
  assumes "argv \<noteq> []" and "head argv \<notin> set specialOperandCommands" and "w \<in> set (tl argv)"
    and "\<not> has_prefix w ''-''" and "head argv \<in> set pathOperandCommands \<or> looksLikePathOperand w"
  shows "suspected (prOperands (parseOperandRoles argv)) w \<and> prUncertainty (parseOperandRoles argv) = ''''"
  using assms generic_loop_suspects [of w "tl argv" "head argv \<in> set pathOperandCommands" 1 start_scan]
  by (simp add: parseOperandRoles_def parseGenericOperands_def specialOperandCommands_def Let_def)

text \<open>The letter \<^verbatim>\<open>f\<close> is missing from the letters of an old-style tar cluster, so \<^verbatim>\<open>tar cf\<close> reads its first
  word as a file.\<close>

lemma tar_cf_not_a_cluster:
  "map poValue (parseTarOperands [''tar'', ''cf'', ''a.tar'', ''x'']) = [''cf'', ''a.tar'', ''x''] \<and>
   map poValue (parseTarOperands [''tar'', ''-cf'', ''a.tar'', ''x'']) = [''a.tar'', ''x'']"
  by code_simp

end
