(* ===== verification/Find_Actions.thy ===== *)
theory Find_Actions
  imports Operands
begin

text \<open>
  The find command: \<^verbatim>\<open>src/internal/engine/find_actions.go\<close>, with the rules of
  \<^verbatim>\<open>src/internal/engine/rules_bash.go\<close> that judge what it deletes and writes.

  \<open>parseFindActions\<close> reads leading options, starting points and the expression; the expression loop is
  \<open>operand_loop\<close>.  The frames of the expression validator are a stack, innermost first.

  A deletion is let through only when it is exact: one starting point, one action, at the end, over
  known tests, below a temporary directory.  The theorem states that of the whole rule.
\<close>

section \<open>Data\<close>

datatype find_action_kind =
  findReadAction | findWriteAction | findCallbackAction | findDeleteAction | findUnsupportedAction

record find_root =
  frValue :: string
  frSourceArg :: nat

record find_callback =
  fcArgv :: argv
  fcSourceArg :: nat
  fcExecDir :: bool
  fcBatch :: bool

record find_action =
  faKind :: find_action_kind
  faIndex :: nat
  faEnd :: nat
  faCallback :: nat

record find_parse =
  fpRoots :: "find_root list"
  fpOutputs :: "string list"
  fpReadPaths :: "string list"
  fpCallbacks :: "find_callback list"
  fpActions :: "find_action list"
  fpExpressionStart :: nat
  fpUncertainty :: string
  fpTraversalUncertain :: bool
  fpHasLeadingOptions :: bool
  fpManaged :: bool
  fpExact :: bool
  fpExecutableArg :: nat
  fpScopedRoot :: string

definition no_find :: find_parse where
  "no_find =
     \<lparr>fpRoots = [], fpOutputs = [], fpReadPaths = [], fpCallbacks = [], fpActions = [],
      fpExpressionStart = 0, fpUncertainty = '''', fpTraversalUncertain = False,
      fpHasLeadingOptions = False, fpManaged = False, fpExact = False, fpExecutableArg = 0,
      fpScopedRoot = ''''\<rparr>"

definition noteUncertainty :: "string \<Rightarrow> find_parse \<Rightarrow> find_parse" where
  "noteUncertainty reason p = (if fpUncertainty p = '''' then p\<lparr>fpUncertainty := reason\<rparr> else p)"

section \<open>The expression validator\<close>

record find_frame =
  ffHasOperand :: bool
  ffNeedsOperand :: bool

record find_validator =
  fvFrames :: "find_frame list"
  fvSawToken :: bool
  fvInvalid :: bool

definition newFindExpressionValidator :: find_validator where
  "newFindExpressionValidator =
     \<lparr>fvFrames = [\<lparr>ffHasOperand = False, ffNeedsOperand = True\<rparr>], fvSawToken = False, fvInvalid = False\<rparr>"

definition complete_frame :: "find_frame \<Rightarrow> bool" where
  "complete_frame f \<longleftrightarrow> ffHasOperand f \<and> \<not> ffNeedsOperand f"

fun filled :: "find_frame list \<Rightarrow> find_frame list" where
  "filled [] = []"
| "filled (f # fs) = \<lparr>ffHasOperand = True, ffNeedsOperand = False\<rparr> # fs"

fun awaiting :: "find_frame list \<Rightarrow> find_frame list" where
  "awaiting [] = []"
| "awaiting (f # fs) = f\<lparr>ffNeedsOperand := True\<rparr> # fs"

definition validator_operator :: "string \<Rightarrow> find_validator \<Rightarrow> find_validator" where
  "validator_operator value v0 =
     (let v = v0\<lparr>fvSawToken := True\<rparr>; frames = fvFrames v
      in if value = ''!'' \<or> value = ''-not'' then v\<lparr>fvFrames := awaiting frames\<rparr>
         else if value = ''('' \<or> value = [CHR 0x5C, CHR ''('']
         then v\<lparr>fvFrames := \<lparr>ffHasOperand = False, ffNeedsOperand = True\<rparr> # frames\<rparr>
         else if value = '')'' \<or> value = [CHR 0x5C, CHR '')'']
         then (if length frames = 1 \<or> \<not> complete_frame (hd frames) then v\<lparr>fvInvalid := True\<rparr>
               else v\<lparr>fvFrames := filled (tl frames)\<rparr>)
         else if \<not> complete_frame (hd frames) then v\<lparr>fvInvalid := True\<rparr>
         else v\<lparr>fvFrames := awaiting frames\<rparr>)"

definition validator_operand :: "find_validator \<Rightarrow> find_validator" where
  "validator_operand v = v\<lparr>fvSawToken := True, fvFrames := filled (fvFrames v)\<rparr>"

definition validator_valid :: "find_validator \<Rightarrow> bool" where
  "validator_valid v \<longleftrightarrow>
     \<not> fvInvalid v \<and> length (fvFrames v) = 1 \<and> (\<not> fvSawToken v \<or> complete_frame (hd (fvFrames v)))"

section \<open>Words of the expression\<close>

definition isFindOperator :: "string \<Rightarrow> bool" where
  "isFindOperator value \<longleftrightarrow>
     value \<in> set [''!'', ''('', '')'', [CHR 0x5C, CHR ''(''], [CHR 0x5C, CHR '')''], '','', ''-a'', ''-and'', ''-o'',
       ''-or'', ''-not'']"

definition isFindExpressionToken :: "string \<Rightarrow> bool" where
  "isFindExpressionToken value \<longleftrightarrow> has_prefix value ''-'' \<or> isFindOperator value"

definition findNullary :: string where
  "findNullary = '' -true -false -empty -readable -writable -executable -nouser -nogroup -xdev -mount -depth -daystart -ignore_readdir_race -noignore_readdir_race -follow ''"

definition findUnary :: string where
  "findUnary = '' -amin -anewer -atime -cmin -cnewer -context -ctime -fstype -gid -group -ilname -iname -inum -ipath -iregex -links -lname -maxdepth -mindepth -mmin -mtime -name -newer -path -perm -regex -regextype -samefile -size -type -uid -used -user -wholename -xattrname -xtype ''"

text \<open>The number of values a test takes, and whether the value is a path find reads.  The lists are
  searched as text, as in the source.\<close>

record find_predicate =
  fdArity :: nat
  fdReadPath :: bool

definition describeFindPredicate :: "string \<Rightarrow> find_predicate option" where
  "describeFindPredicate value =
     (if contains findNullary ('' '' @ value @ '' '') then Some \<lparr>fdArity = 0, fdReadPath = False\<rparr>
      else if contains findUnary ('' '' @ value @ '' '')
      then Some \<lparr>fdArity = 1, fdReadPath = value \<in> set [''-newer'', ''-anewer'', ''-cnewer'', ''-samefile'']\<rparr>
      else if length value = 8 \<and> has_prefix value ''-newer'' \<and> value ! 6 \<in> set ''aBcm'' \<and> value ! 7 \<in> set ''aBcmt''
      then Some \<lparr>fdArity = 1, fdReadPath = value ! 7 \<noteq> CHR ''t''\<rparr>
      else None)"

definition knownFindRmOption :: "string \<Rightarrow> bool" where
  "knownFindRmOption arg \<longleftrightarrow>
     length arg > 1 \<and>
     (arg ! 1 \<noteq> CHR ''-'' \<and> trim (tl arg) ''dfirvIR'' = '''' \<or>
      arg \<in> set [''--directory'', ''--force'', ''--interactive'', ''--one-file-system'', ''--no-preserve-root'',
        ''--preserve-root'', ''--preserve-root=all'', ''--recursive'', ''--verbose'', ''--interactive=always'',
        ''--interactive=never'', ''--interactive=once''])"

definition known_find_value :: "string \<Rightarrow> string \<Rightarrow> bool" where
  "known_find_value test value \<longleftrightarrow>
     \<not> (test \<in> set [''-type'', ''-xtype''] \<and>
        (trim value ''bcdflpsD,'' \<noteq> '''' \<or>
         length value \<noteq> 2 * length (filter (\<lambda>c. c = CHR '','') value) + 1)) \<and>
     \<not> (test \<in> set [''-maxdepth'', ''-mindepth''] \<and> \<not> allDigits value)"

fun knownFindTests :: "argv \<Rightarrow> bool" where
  "knownFindTests [] = True"
| "knownFindTests (test # rest) =
     (case describeFindPredicate test of
        None \<Rightarrow> False
      | Some d \<Rightarrow>
          if fdArity d = 0 \<and> test \<noteq> ''-follow'' then knownFindTests rest
          else (case rest of
                  [] \<Rightarrow> False
                | v # rest' \<Rightarrow>
                    if fdArity d \<noteq> 1 \<or> \<not> known_find_value test v then False else knownFindTests rest'))"

section \<open>Parsing\<close>

fun find_leading :: "find_parse \<Rightarrow> nat \<Rightarrow> string list \<Rightarrow> find_parse \<times> nat \<times> string list" where
  "find_leading p i [] = (p, i, [])"
| "find_leading p i (arg # rest) =
     (let led = p\<lparr>fpHasLeadingOptions := True\<rparr>
      in if arg = ''-P'' then find_leading led (i + 1) rest
         else if arg = ''-H'' \<or> arg = ''-L'' then find_leading (led\<lparr>fpTraversalUncertain := True\<rparr>) (i + 1) rest
         else if arg = ''-D''
         then (case rest of
                 [] \<Rightarrow> (noteUncertainty ''find leading option is missing its value'' led, i + 1, [])
               | _ # rest' \<Rightarrow> find_leading led (i + 2) rest')
         else if length arg = 3 \<and> has_prefix arg ''-O'' \<and> arg ! 2 \<in> set ''0123'' then find_leading led (i + 1) rest
         else (p, i, arg # rest))"

definition callback_end :: "string \<Rightarrow> bool" where
  "callback_end w \<longleftrightarrow> w = '';'' \<or> w = [CHR 0x5C, CHR '';''] \<or> w = ''+''"

text \<open>The callback in the words after an action, with the number of words it takes.\<close>

definition parseFindCallback :: "nat \<Rightarrow> string list \<Rightarrow> (find_callback \<times> nat) option" where
  "parseFindCallback action rest =
     (let argv = takeWhile (\<lambda>w. \<not> callback_end w) rest
      in if length argv = length rest \<or> argv = [] then None
         else Some (\<lparr>fcArgv = argv, fcSourceArg = action + 1, fcExecDir = False,
                     fcBatch = rest ! length argv = ''+''\<rparr>, length argv + 1))"

definition validFindBatchCallback :: "argv \<Rightarrow> bool" where
  "validFindBatchCallback argv \<longleftrightarrow> length (filter (\<lambda>a. a = ''{}'') argv) = 1 \<and> last argv = ''{}''"

record find_scan =
  fsParse :: find_parse
  fsValidator :: find_validator

definition add_action :: "find_action_kind \<Rightarrow> nat \<Rightarrow> nat \<Rightarrow> nat \<Rightarrow> find_parse \<Rightarrow> find_parse" where
  "add_action kind index stop callback p =
     p\<lparr>fpActions := fpActions p @
        [\<lparr>faKind = kind, faIndex = index, faEnd = stop, faCallback = callback\<rparr>]\<rparr>"

definition predicate_step :: "nat \<Rightarrow> string \<Rightarrow> string list \<Rightarrow> find_predicate \<Rightarrow> find_parse \<Rightarrow> find_parse \<times> nat" where
  "predicate_step i arg rest d p0 =
     (let p = (if arg = ''-follow'' then p0\<lparr>fpTraversalUncertain := True\<rparr> else p0)
      in if length rest < fdArity d then (noteUncertainty ''find predicate is missing its value'' p, 0)
         else ((if fdReadPath d then p\<lparr>fpReadPaths := fpReadPaths p @ [hd rest]\<rparr> else p), fdArity d))"

definition output_step :: "nat \<Rightarrow> string list \<Rightarrow> nat \<Rightarrow> string \<Rightarrow> find_parse \<Rightarrow> find_parse \<times> nat" where
  "output_step i rest count missing p =
     (if length rest < count then (noteUncertainty missing p, 0)
      else (add_action findWriteAction i (i + count + 1) 0 (p\<lparr>fpOutputs := fpOutputs p @ [hd rest]\<rparr>), count))"

definition callback_step :: "nat \<Rightarrow> string \<Rightarrow> string list \<Rightarrow> find_parse \<Rightarrow> find_parse \<times> nat" where
  "callback_step i arg rest p =
     (case parseFindCallback i rest of
        None \<Rightarrow> (noteUncertainty ''find callback is empty or unterminated'' p, 0)
      | Some (callback, k) \<Rightarrow>
          let cb = callback\<lparr>fcExecDir := (arg = ''-execdir'' \<or> arg = ''-okdir'')\<rparr>;
              prompts = (arg = ''-ok'' \<or> arg = ''-okdir'');
              p1 = (if fcBatch cb \<and> \<not> validFindBatchCallback (fcArgv cb)
                    then noteUncertainty ''find batch callback requires exactly one final placeholder'' p else p);
              p2 = (if prompts
                    then noteUncertainty ''find callback requires unsupported execution semantics'' p1 else p1);
              p3 = add_action (if prompts then findUnsupportedAction else findCallbackAction) i (i + 1 + k)
                     (length (fpCallbacks p)) (p2\<lparr>fpCallbacks := fpCallbacks p @ [cb]\<rparr>)
          in (p3\<lparr>fpManaged := (fpManaged p \<or> hd (fcArgv cb) = ''rm'')\<rparr>, k))"

definition readActions :: "string list" where
  "readActions = [''-print'', ''-print0'', ''-ls'', ''-prune'', ''-quit'']"

definition action_step :: "nat \<Rightarrow> string \<Rightarrow> string list \<Rightarrow> find_parse \<Rightarrow> find_parse \<times> nat" where
  "action_step i arg rest p =
     (if arg \<in> set readActions then (add_action findReadAction i (i + 1) 0 p, 0)
      else if arg = ''-printf''
      then (if length rest < 1 then (noteUncertainty ''find -printf is missing its format'' p, 0)
            else (add_action findReadAction i (i + 2) 0 p, 1))
      else if arg \<in> set [''-fprint'', ''-fprint0'', ''-fls'']
      then output_step i rest 1 ''find file-output action is missing its destination'' p
      else if arg = ''-fprintf''
      then output_step i rest 2 ''find -fprintf is missing its destination or format'' p
      else if arg = ''-delete'' then (add_action findDeleteAction i (i + 1) 0 (p\<lparr>fpManaged := True\<rparr>), 0)
      else if arg \<in> set [''-exec'', ''-execdir'', ''-ok'', ''-okdir''] then callback_step i arg rest p
      else (noteUncertainty ''find expression contains unknown grammar'' p, 0))"

definition find_step :: "nat \<Rightarrow> find_scan \<Rightarrow> string \<Rightarrow> string list \<Rightarrow> find_scan \<times> nat" where
  "find_step i st arg rest =
     (if isFindOperator arg then (st\<lparr>fsValidator := validator_operator arg (fsValidator st)\<rparr>, 0)
      else
        (case (case describeFindPredicate arg of
                 Some d \<Rightarrow> predicate_step i arg rest d (fsParse st)
               | None \<Rightarrow> action_step i arg rest (fsParse st)) of
           (p, k) \<Rightarrow> (st\<lparr>fsParse := p, fsValidator := validator_operand (fsValidator st)\<rparr>, k)))"

text \<open>A deletion is exact when it is the only action, stands at the end, over one starting point, with
  tests that only narrow it.\<close>

definition exact_callback :: "argv \<Rightarrow> find_callback \<Rightarrow> bool" where
  "exact_callback argv cb \<longleftrightarrow>
     hd (fcArgv cb) = ''rm'' \<and> length (fcArgv cb) \<ge> 2 \<and> fcSourceArg cb < length argv \<and>
     argv ! fcSourceArg cb = ''rm'' \<and>
     list_all (\<lambda>arg. knownFindRmOption arg \<or> arg = ''{}'') (tl (fcArgv cb)) \<and> last (fcArgv cb) = ''{}''"

definition classifyExactScopedDeletion :: "argv \<Rightarrow> find_parse \<Rightarrow> find_parse" where
  "classifyExactScopedDeletion argv p =
     (if \<not> fpManaged p \<or> fpUncertainty p \<noteq> '''' \<or> fpTraversalUncertain p \<or> fpHasLeadingOptions p \<or>
         length (fpRoots p) \<noteq> 1 \<or> length (fpActions p) \<noteq> 1
      then p
      else
        (let action = hd (fpActions p); root = frValue (hd (fpRoots p))
         in if faEnd action \<noteq> length argv \<or>
               \<not> knownFindTests (take (faIndex action - fpExpressionStart p) (drop (fpExpressionStart p) argv))
            then p
            else if faKind action = findDeleteAction then p\<lparr>fpExact := True, fpScopedRoot := root\<rparr>
            else if faKind action \<noteq> findCallbackAction then p
            else
              (let cb = fpCallbacks p ! faCallback action
               in if exact_callback argv cb
                  then p\<lparr>fpExact := True, fpExecutableArg := fcSourceArg cb, fpScopedRoot := root\<rparr>
                  else p)))"

definition parse_find_words :: "argv \<Rightarrow> find_scan" where
  "parse_find_words argv =
     (case find_leading no_find 1 (tl argv) of
        (p, i, rest) \<Rightarrow>
          let roots = takeWhile (\<lambda>w. \<not> isFindExpressionToken w) rest;
              start = i + length roots;
              p' = p\<lparr>fpRoots := map (\<lambda>(j, v). \<lparr>frValue = v, frSourceArg = j\<rparr>) (enumerate i roots),
                     fpExpressionStart := start\<rparr>
          in operand_loop find_step start \<lparr>fsParse = p', fsValidator = newFindExpressionValidator\<rparr>
               (drop (length roots) rest))"

definition parseFindActions :: "argv \<Rightarrow> find_parse" where
  "parseFindActions argv =
     (if argv = [] \<or> head argv \<noteq> ''find'' then no_find
      else
        (let st = parse_find_words argv;
             p = (if validator_valid (fsValidator st) then fsParse st
                  else noteUncertainty ''find expression structure is invalid'' (fsParse st))
         in classifyExactScopedDeletion argv p))"

section \<open>What find would run\<close>

definition applySourceProvenance :: "(string \<Rightarrow> string option) \<Rightarrow> simple \<Rightarrow> find_parse \<Rightarrow> find_parse" where
  "applySourceProvenance literalText outer p =
     (if \<not> fpExact p \<or> fpExecutableArg p = 0 then p
      else if fpExecutableArg p \<in> set (resolvedArgs outer) \<or> wordUnresolved literalText outer (fpExecutableArg p)
      then p\<lparr>fpExact := False\<rparr> else p)"

definition rootable :: "(string \<Rightarrow> string option) \<Rightarrow> simple \<Rightarrow> find_parse \<Rightarrow> bool" where
  "rootable literalText outer p \<longleftrightarrow>
     length (fpRoots p) = 1 \<and> \<not> cwdUnknown outer \<and> \<not> fpTraversalUncertain p \<and>
     \<not> wordUnresolved literalText outer (frSourceArg (hd (fpRoots p)))"

fun adapt_words ::
  "(string \<Rightarrow> string option) \<Rightarrow> simple \<Rightarrow> tool_call \<Rightarrow> find_parse \<Rightarrow> argv \<Rightarrow> find_parse \<times> argv" where
  "adapt_words literalText outer tc p [] = (p, [])"
| "adapt_words literalText outer tc p (arg # args) =
     (if arg = ''{}''
      then (if rootable literalText outer p
            then (case adapt_words literalText outer tc p args of
                    (p', argv) \<Rightarrow> (p', resolvePath (frValue (hd (fpRoots p))) (simpleCwd outer tc) # argv))
            else (case adapt_words literalText outer tc
                         (noteUncertainty ''find callback placeholder cannot be rooted soundly'' p) args of
                    (p', argv) \<Rightarrow> (p', arg # argv)))
      else
        (case adapt_words literalText outer tc
                (if contains arg ''{}''
                 then noteUncertainty ''find callback contains a transforming placeholder'' p else p) args of
           (p', argv) \<Rightarrow> (p', arg # argv)))"

definition callback_simple :: "simple \<Rightarrow> find_callback \<Rightarrow> argv \<Rightarrow> simple" where
  "callback_simple outer cb argv =
     (let s = (commandDerivedFromAt outer argv (Some (fcSourceArg cb)))\<lparr>findCallback := True\<rparr>
      in if fcExecDir cb then s\<lparr>Unresolved := True, cwdUnknown := True\<rparr> else s)"

fun adapt_callbacks ::
  "(string \<Rightarrow> string option) \<Rightarrow> simple \<Rightarrow> tool_call \<Rightarrow> find_parse \<Rightarrow> find_callback list \<Rightarrow>
   find_parse \<times> simple list" where
  "adapt_callbacks literalText outer tc p [] = (p, [])"
| "adapt_callbacks literalText outer tc p (cb # cbs) =
     (case adapt_words literalText outer tc p (fcArgv cb) of
        (p', argv) \<Rightarrow>
          (case adapt_callbacks literalText outer tc p' cbs of
             (p'', simples) \<Rightarrow> (p'', callback_simple outer cb argv # simples)))"

definition adaptFindCallbacks ::
  "(string \<Rightarrow> string option) \<Rightarrow> find_parse \<Rightarrow> simple \<Rightarrow> tool_call \<Rightarrow> find_parse \<times> simple list" where
  "adaptFindCallbacks literalText p outer tc = adapt_callbacks literalText outer tc p (fpCallbacks p)"

definition find_candidate :: "simple \<Rightarrow> tool_call \<Rightarrow> string \<Rightarrow> path_candidate" where
  "find_candidate outer tc value =
     \<lparr>pcPath = value, pcCwd = Cwd outer, pcCwdUnknown = cwdUnknown outer, pcRepoRoot = tcRepoRoot tc, pcPosix = True\<rparr>"

definition findRootCandidates :: "find_parse \<Rightarrow> simple \<Rightarrow> tool_call \<Rightarrow> path_candidate list" where
  "findRootCandidates p outer tc =
     map (find_candidate outer tc) (filter looksLikePathOperand (map frValue (fpRoots p)))"

definition findOutputCandidates :: "find_parse \<Rightarrow> simple \<Rightarrow> tool_call \<Rightarrow> path_candidate list" where
  "findOutputCandidates p outer tc = map (find_candidate outer tc) (fpOutputs p)"

definition findReadPathCandidates :: "find_parse \<Rightarrow> simple \<Rightarrow> tool_call \<Rightarrow> path_candidate list" where
  "findReadPathCandidates p outer tc = map (find_candidate outer tc) (fpReadPaths p)"

section \<open>The rule\<close>

text \<open>On a host that is not Windows nothing is expanded.\<close>

definition expandWindowsUserProfile :: "string \<Rightarrow> string" where
  "expandWindowsUserProfile value = value"

definition pathCandidateForms :: "host \<Rightarrow> path_candidate \<Rightarrow> string list" where
  "pathCandidateForms h c =
     (let raw = trim_prefix (trim_prefix (pcPath c) ''~/'') ''~'';
          expanded = expandWindowsUserProfile raw
      in [raw] @ (if expanded \<noteq> raw then [expanded] else []) @
         (case resolvePathCandidate h (c\<lparr>pcPath := expanded, pcRepoRoot := ''''\<rparr>) of
            Some resolved \<Rightarrow> if resolved \<noteq> raw \<and> resolved \<noteq> expanded then [resolved] else []
          | None \<Rightarrow> []))"

definition is_file_root :: "string \<Rightarrow> bool" where
  "is_file_root p \<longleftrightarrow> is_abs p \<and> path_dir p = p"

definition overlaps :: "string \<Rightarrow> string \<Rightarrow> bool" where
  "overlaps candidate0 repo0 =
     (let candidate = to_lower (clean candidate0); repo = to_lower (clean repo0)
      in is_file_root candidate \<or> is_file_root repo \<or> withinSafe candidate repo [] \<or> withinSafe repo candidate [])"

definition host_candidate :: "string \<Rightarrow> path_candidate" where
  "host_candidate p = \<lparr>pcPath = p, pcCwd = '''', pcCwdUnknown = False, pcRepoRoot = '''', pcPosix = False\<rparr>"

definition findRootOverlapsRepository :: "host \<Rightarrow> path_candidate \<Rightarrow> string \<Rightarrow> bool" where
  "findRootOverlapsRepository h root repoRoot =
     (if repoRoot = '''' \<or> pcCwdUnknown root \<and> \<not> is_abs (pcPath root) then False
      else list_ex (\<lambda>candidate. list_ex (overlaps candidate) (pathCandidateForms h (host_candidate repoRoot)))
             (pathCandidateForms h root))"

definition find_target :: "simple \<Rightarrow> tool_call \<Rightarrow> string \<Rightarrow> path_candidate" where
  "find_target s tc value = posix_candidate value (simpleCwd s tc) (cwdUnknown s) ''''"

definition find_output_hit :: "host \<Rightarrow> simple \<Rightarrow> tool_call \<Rightarrow> policy \<Rightarrow> string \<Rightarrow> verdict option" where
  "find_output_hit h s tc pol output =
     (if \<not> fst (authorizedPath h (find_target s tc output) (tcRepoRoot tc) (SafeRoots (Slots pol)) [] True)
      then ask ''P1.out-of-repo-write'' (''writes to a path outside the repo and configured safe roots: '' @ output)
      else None)"

definition find_deletion_hit :: "host \<Rightarrow> find_parse \<Rightarrow> simple \<Rightarrow> tool_call \<Rightarrow> bool \<Rightarrow> verdict option" where
  "find_deletion_hit h p s tc exempt =
     (if \<not> fpManaged p then None
      else if \<not> fpExact p then ask ''P1.find-delete'' ''find action is not an exact scoped deletion''
      else if fsUncertain s \<and> \<not> exempt
      then ask ''P1.find-delete'' ''find deletion scope may have changed before execution''
      else if findRootOverlapsRepository h (find_target s tc (fpScopedRoot p)) (tcRepoRoot tc)
      then ask ''P1.find-delete'' (''find deletion starts inside the repository: '' @ fpScopedRoot p)
      else if \<not> fst (authorizedPath h (find_target s tc (fpScopedRoot p)) '''' [] (systemTempRoots h) False)
      then ask ''P1.find-delete'' (''find deletion starts outside configured safe roots: '' @ fpScopedRoot p)
      else None)"

definition checkFindActions ::
  "host \<Rightarrow> find_parse \<Rightarrow> simple \<Rightarrow> tool_call \<Rightarrow> policy \<Rightarrow> bool \<Rightarrow> verdict option" where
  "checkFindActions h p s tc pol exempt =
     first_hit (find_deletion_hit h p s tc exempt #
       (if fpUncertainty p \<noteq> '''' then ask ''P1.find-delete'' (fpUncertainty p) else None) #
       map (find_output_hit h s tc pol) (fpOutputs p))"

text \<open>What \<^verbatim>\<open>analyzeBash\<close> makes of a find command.\<close>

definition analyze_find :: "(string \<Rightarrow> string option) \<Rightarrow> tool_call \<Rightarrow> simple \<Rightarrow> find_parse \<times> simple list" where
  "analyze_find literalText tc s =
     adaptFindCallbacks literalText (applySourceProvenance literalText s (parseFindActions (Argv s))) s tc"

section \<open>Facts: the parse\<close>

lemma operand_loop_invariant:
  assumes "\<And>i st arg rest. P st \<Longrightarrow> P (fst (step i st arg rest))" and "P st"
  shows "P (operand_loop step i st args)"
  using assms(2)
proof (induction "length args" arbitrary: i st args rule: less_induct)
  case less
  show ?case
  proof (cases args)
    case (Cons arg rest)
    obtain st' k where s: "step i st arg rest = (st', k)" by (cases "step i st arg rest")
    with assms(1) [OF less.prems, of i arg rest] have "P st'" by simp
    with less.hyps [of "drop k rest" st'] Cons s show ?thesis by simp
  qed (simp add: less.prems)
qed

definition deletes :: "find_parse \<Rightarrow> find_action \<Rightarrow> bool" where
  "deletes p a \<longleftrightarrow>
     faKind a = findDeleteAction \<or>
     (faKind a = findCallbackAction \<or> faKind a = findUnsupportedAction) \<and>
     hd (fcArgv (fpCallbacks p ! faCallback a)) = ''rm''"

definition find_invariant :: "find_parse \<Rightarrow> bool" where
  "find_invariant p \<longleftrightarrow>
     (\<forall>cb\<in>set (fpCallbacks p). fcArgv cb \<noteq> []) \<and>
     (\<forall>a\<in>set (fpActions p).
        (faKind a = findCallbackAction \<or> faKind a = findUnsupportedAction \<longrightarrow> faCallback a < length (fpCallbacks p)) \<and>
        (deletes p a \<longrightarrow> fpManaged p))"

lemma noteUncertainty_simps [simp]:
  "fpActions (noteUncertainty r p) = fpActions p" "fpCallbacks (noteUncertainty r p) = fpCallbacks p"
  "fpManaged (noteUncertainty r p) = fpManaged p" "fpRoots (noteUncertainty r p) = fpRoots p"
  "fpExact (noteUncertainty r p) = fpExact p" "fpScopedRoot (noteUncertainty r p) = fpScopedRoot p"
  "fpOutputs (noteUncertainty r p) = fpOutputs p" "fpExpressionStart (noteUncertainty r p) = fpExpressionStart p"
  "deletes (noteUncertainty r p) = deletes p" "find_invariant (noteUncertainty r p) = find_invariant p"
  by (auto simp: noteUncertainty_def deletes_def find_invariant_def fun_eq_iff)

lemma find_invariant_frame:
  "fpActions p' = fpActions p \<Longrightarrow> fpCallbacks p' = fpCallbacks p \<Longrightarrow> fpManaged p' = fpManaged p \<Longrightarrow>
   find_invariant p' = find_invariant p"
  by (simp add: find_invariant_def deletes_def)

lemma predicate_step_invariant: "find_invariant p \<Longrightarrow> find_invariant (fst (predicate_step i arg rest d p))"
  by (auto simp: predicate_step_def Let_def find_invariant_def deletes_def)

lemma plain_action_invariant:
  "find_invariant p \<Longrightarrow> kind \<in> {findReadAction, findWriteAction} \<Longrightarrow> find_invariant (add_action kind i j k p)"
  by (auto simp: find_invariant_def add_action_def deletes_def)

lemma parseFindCallback_nonempty: "parseFindCallback i rest = Some (cb, k) \<Longrightarrow> fcArgv cb \<noteq> []"
  by (auto simp: parseFindCallback_def Let_def split: if_splits)

lemma callback_step_invariant: "find_invariant p \<Longrightarrow> find_invariant (fst (callback_step i arg rest p))"
  unfolding callback_step_def Let_def
  by (auto simp: find_invariant_def deletes_def add_action_def nth_append split: option.split
      dest: parseFindCallback_nonempty)

lemma action_step_invariant:
  assumes "find_invariant p"
  shows "find_invariant (fst (action_step i arg rest p))"
proof -
  have out: "find_invariant (fst (output_step i rest n m p))" for n m
    using assms find_invariant_frame [of "p\<lparr>fpOutputs := x\<rparr>" p for x]
    by (simp add: output_step_def plain_action_invariant)
  have del: "find_invariant (add_action findDeleteAction i (i + 1) 0 (p\<lparr>fpManaged := True\<rparr>))"
    using assms by (auto simp: find_invariant_def add_action_def deletes_def)
  show ?thesis
    using assms out del callback_step_invariant [OF assms]
    by (simp add: action_step_def plain_action_invariant)
qed

lemma find_step_invariant:
  "find_invariant (fsParse st) \<Longrightarrow> find_invariant (fsParse (fst (find_step i st arg rest)))"
  using predicate_step_invariant [of "fsParse st"] action_step_invariant [of "fsParse st"]
  by (auto simp: find_step_def split: option.split prod.split) (metis fst_conv)+

lemma find_leading_frame:
  "find_leading p i args = (p', j, rest) \<Longrightarrow>
   fpActions p' = fpActions p \<and> fpCallbacks p' = fpCallbacks p \<and> fpManaged p' = fpManaged p \<and> fpExact p' = fpExact p"
proof (induction p i args rule: find_leading.induct)
  case (2 p i arg args)
  let ?opt = "length arg = 3 \<and> has_prefix arg ''-O'' \<and> arg ! 2 \<in> set ''0123''"
  consider (P) "arg = ''-P''" | (HL) "arg = ''-H'' \<or> arg = ''-L''" | (D) "arg = ''-D''"
    | (lvl) ?opt "arg \<notin> {''-P'', ''-H'', ''-L'', ''-D''}"
    | (stop) "\<not> ?opt" "arg \<notin> {''-P'', ''-H'', ''-L'', ''-D''}" by blast
  then show ?case
  proof cases
    case P
    with "2.prems" "2.IH"(1) [OF refl] show ?thesis by simp
  next
    case HL
    with "2.prems" "2.IH"(2) [OF refl] show ?thesis by auto
  next
    case D
    with "2.prems" "2.IH"(3) [OF refl] show ?thesis by (cases args) auto
  next
    case lvl
    with "2.prems" "2.IH"(4) [OF refl] show ?thesis by simp
  next
    case stop
    with "2.prems" show ?thesis by (auto simp: Let_def split: if_splits)
  qed
qed simp

lemma parse_find_words_invariant: "find_invariant (fsParse (parse_find_words argv))"
proof -
  obtain p i rest where l: "find_leading no_find 1 (tl argv) = (p, i, rest)"
    by (cases "find_leading no_find 1 (tl argv)") auto
  from find_leading_frame [OF l] have "find_invariant p"
    by (simp add: find_invariant_def no_find_def)
  then show ?thesis
    unfolding parse_find_words_def l Let_def prod.case
    by (intro operand_loop_invariant [of "\<lambda>st. find_invariant (fsParse st)"] find_step_invariant)
      (simp_all add: find_invariant_frame [of "p\<lparr>fpRoots := r, fpExpressionStart := n\<rparr>" p for r n])
qed

text \<open>Exactness.\<close>

lemma classify_frame [simp]:
  "fpActions (classifyExactScopedDeletion argv p) = fpActions p"
  "fpCallbacks (classifyExactScopedDeletion argv p) = fpCallbacks p"
  "fpManaged (classifyExactScopedDeletion argv p) = fpManaged p"
  "fpRoots (classifyExactScopedDeletion argv p) = fpRoots p"
  by (simp_all add: classifyExactScopedDeletion_def Let_def)

lemma classify_exact:
  assumes "fpExact (classifyExactScopedDeletion argv p)" and "\<not> fpExact p"
  shows "\<exists>a root. fpActions p = [a] \<and> fpRoots p = [root] \<and> faEnd a = length argv \<and>
           fpScopedRoot (classifyExactScopedDeletion argv p) = frValue root \<and>
           \<not> fpHasLeadingOptions p \<and> \<not> fpTraversalUncertain p \<and> fpUncertainty p = ''''"
proof -
  from assms have c: "fpManaged p" "fpUncertainty p = ''''" "\<not> fpTraversalUncertain p" "\<not> fpHasLeadingOptions p"
    and l: "length (fpRoots p) = 1" "length (fpActions p) = 1"
    by (auto simp: classifyExactScopedDeletion_def split: if_splits)
  from l obtain a root where ar: "fpActions p = [a]" "fpRoots p = [root]"
    by (auto simp: length_Suc_conv)
  from assms c ar show ?thesis
    by (auto simp: classifyExactScopedDeletion_def Let_def split: if_splits)
qed

lemma fpExact_loop: "\<not> fpExact (fsParse (parse_find_words argv))"
proof -
  have step: "\<not> fpExact (fsParse (fst (find_step i st arg rest)))" if "\<not> fpExact (fsParse st)" for i st arg rest
    using that
    by (simp add: find_step_def predicate_step_def action_step_def output_step_def callback_step_def add_action_def
        Let_def split: option.split prod.split)
  obtain p i rest where l: "find_leading no_find 1 (tl argv) = (p, i, rest)"
    by (cases "find_leading no_find 1 (tl argv)") auto
  have "\<not> fpExact p" using find_leading_frame [OF l] by (simp add: no_find_def)
  with step show ?thesis
    unfolding parse_find_words_def l Let_def prod.case
    by (intro operand_loop_invariant [of "\<lambda>st. \<not> fpExact (fsParse st)"]) simp_all
qed

lemma parseFindActions_managed:
  assumes "a \<in> set (fpActions (parseFindActions argv))" and "deletes (parseFindActions argv) a"
  shows "fpManaged (parseFindActions argv)"
  using assms parse_find_words_invariant [of argv]
  by (auto simp: parseFindActions_def no_find_def Let_def find_invariant_def deletes_def split: if_splits)

lemma parseFindActions_exact:
  assumes "fpExact (parseFindActions argv)"
  shows "\<exists>a root. fpActions (parseFindActions argv) = [a] \<and> fpRoots (parseFindActions argv) = [root] \<and>
           faEnd a = length argv \<and> fpScopedRoot (parseFindActions argv) = frValue root"
proof -
  let ?st = "parse_find_words argv"
  let ?p = "if validator_valid (fsValidator ?st) then fsParse ?st
            else noteUncertainty ''find expression structure is invalid'' (fsParse ?st)"
  have eq: "parseFindActions argv = classifyExactScopedDeletion argv ?p"
    using assms by (auto simp: parseFindActions_def no_find_def Let_def split: if_splits)
  have "\<not> fpExact ?p" using fpExact_loop [of argv] by simp
  from classify_exact [OF assms [unfolded eq] this] show ?thesis unfolding eq by auto
qed

text \<open>Rooting the callbacks only adds doubt.\<close>

definition same_find :: "find_parse \<Rightarrow> find_parse \<Rightarrow> bool" where
  "same_find p q \<longleftrightarrow> (\<exists>u. q = p\<lparr>fpUncertainty := u\<rparr>)"

lemma same_find_refl [simp]: "same_find p p"
  unfolding same_find_def by (rule exI [of _ "fpUncertainty p"]) simp

lemma same_find_note: "same_find (noteUncertainty r p) q \<Longrightarrow> same_find p q"
  by (auto simp: same_find_def noteUncertainty_def split: if_splits)

lemma same_find_trans: "same_find p q \<Longrightarrow> same_find q r \<Longrightarrow> same_find p r"
  by (auto simp: same_find_def)

lemma adapt_words_same: "adapt_words lit outer tc p argv = (q, argv') \<Longrightarrow> same_find p q"
  by (induction lit outer tc p argv arbitrary: q argv' rule: adapt_words.induct)
    (auto split: if_splits prod.splits dest: same_find_note)

lemma adapt_callbacks_same: "adapt_callbacks lit outer tc p cbs = (q, ss) \<Longrightarrow> same_find p q"
  by (induction lit outer tc p cbs arbitrary: q ss rule: adapt_callbacks.induct)
    (auto split: prod.splits dest: adapt_words_same intro: same_find_trans)

lemma analyze_find_same:
  "same_find (applySourceProvenance lit s (parseFindActions (Argv s))) (fst (analyze_find lit tc s))"
  unfolding analyze_find_def adaptFindCallbacks_def
  by (rule adapt_callbacks_same [OF surjective_pairing])

lemma provenance_frame [simp]:
  "fpActions (applySourceProvenance lit s p) = fpActions p" "fpCallbacks (applySourceProvenance lit s p) = fpCallbacks p"
  "fpManaged (applySourceProvenance lit s p) = fpManaged p" "fpRoots (applySourceProvenance lit s p) = fpRoots p"
  "fpScopedRoot (applySourceProvenance lit s p) = fpScopedRoot p"
  "fpExact (applySourceProvenance lit s p) \<Longrightarrow> fpExact p"
  by (auto simp: applySourceProvenance_def split: if_splits)

lemma analyze_find_deletes:
  assumes "a \<in> set (fpActions (fst (analyze_find lit tc s)))" and "deletes (fst (analyze_find lit tc s)) a"
  shows "fpManaged (fst (analyze_find lit tc s))"
  using assms analyze_find_same [of lit s tc] parseFindActions_managed [of a "Argv s"]
  by (auto simp: same_find_def deletes_def)

lemma analyze_find_exact:
  assumes "fpExact (fst (analyze_find lit tc s))"
  shows "\<exists>a root. fpActions (fst (analyze_find lit tc s)) = [a] \<and> fpRoots (fst (analyze_find lit tc s)) = [root] \<and>
           faEnd a = length (Argv s) \<and> fpScopedRoot (fst (analyze_find lit tc s)) = frValue root"
proof -
  from analyze_find_same [of lit s tc] obtain u where
    "fst (analyze_find lit tc s) = applySourceProvenance lit s (parseFindActions (Argv s))\<lparr>fpUncertainty := u\<rparr>"
    unfolding same_find_def by blast
  with assms parseFindActions_exact [of "Argv s"] show ?thesis by (auto dest: provenance_frame(6))
qed

text \<open>A command that find runs has a name.\<close>

lemma adapt_words_length: "adapt_words lit outer tc p argv = (q, argv') \<Longrightarrow> length argv' = length argv"
  by (induction lit outer tc p argv arbitrary: q argv' rule: adapt_words.induct) (auto split: if_splits prod.splits)

lemma adapt_callbacks_nonempty:
  "adapt_callbacks lit outer tc p cbs = (q, ss) \<Longrightarrow> \<forall>cb\<in>set cbs. fcArgv cb \<noteq> [] \<Longrightarrow> \<forall>s\<in>set ss. Argv s \<noteq> []"
proof (induction lit outer tc p cbs arbitrary: q ss rule: adapt_callbacks.induct)
  case (2 lit outer tc p cb cbs)
  obtain p' argv where w: "adapt_words lit outer tc p (fcArgv cb) = (p', argv)" by (rule prod.exhaust)
  obtain p'' ss' where c: "adapt_callbacks lit outer tc p' cbs = (p'', ss')" by (rule prod.exhaust)
  have "argv \<noteq> []" using adapt_words_length [OF w] "2.prems"(2) by auto
  then have "Argv (callback_simple outer cb argv) \<noteq> []"
    by (simp add: callback_simple_def commandDerivedFromAt_def Let_def)
  with "2.IH" [OF w [symmetric] c] "2.prems" w c show ?case by auto
qed simp

lemma analyze_find_callbacks_nonempty: "s' \<in> set (snd (analyze_find lit tc s)) \<Longrightarrow> Argv s' \<noteq> []"
proof -
  have "\<forall>cb\<in>set (fpCallbacks (parseFindActions (Argv s))). fcArgv cb \<noteq> []"
    using parse_find_words_invariant [of "Argv s"]
    by (auto simp: parseFindActions_def no_find_def Let_def find_invariant_def)
  then show "s' \<in> set (snd (analyze_find lit tc s)) \<Longrightarrow> Argv s' \<noteq> []"
    using adapt_callbacks_nonempty [OF surjective_pairing] by (fastforce simp: analyze_find_def adaptFindCallbacks_def)
qed

lemma find_deletion_asks:
  "find_deletion_hit h p s tc exempt = Some v \<Longrightarrow> vDecision v = Ask \<and> vRuleID v = ''P1.find-delete''"
  by (auto simp: find_deletion_hit_def split: if_splits)

lemma find_output_asks:
  "find_output_hit h s tc pol output = Some v \<Longrightarrow> vDecision v = Ask \<and> vRuleID v = ''P1.out-of-repo-write''"
  by (auto simp: find_output_hit_def split: if_splits)

lemma first_hit_two:
  "first_hit (a # b # map f xs) = Some v \<Longrightarrow> a = Some v \<or> b = Some v \<or> (\<exists>x. f x = Some v)"
  by (drule first_hit_Some) auto

lemma checkFindActions_hits:
  assumes "checkFindActions h p s tc pol exempt = Some v"
  shows "vDecision v = Ask \<and> vRuleID v \<in> {''P1.find-delete'', ''P1.out-of-repo-write''}"
  using first_hit_two [OF assms [unfolded checkFindActions_def]]
  by (auto dest: find_deletion_asks find_output_asks split: if_splits)

lemma checkFindActions_silent:
  assumes "checkFindActions h p s tc pol exempt = None"
  shows "find_deletion_hit h p s tc exempt = None" "fpUncertainty p = ''''"
    "\<forall>output\<in>set (fpOutputs p). find_output_hit h s tc pol output = None"
  using assms by (auto simp: checkFindActions_def first_hit_None split: if_splits)

lemma contained_roots:
  "contained h c roots \<Longrightarrow> \<forall>r\<in>set roots. r \<noteq> '''' \<longrightarrow> r \<in> set roots' \<Longrightarrow> contained h c roots'"
  unfolding contained_def root_forms_def by meson

lemma find_deletion_silent:
  assumes "find_deletion_hit h p s tc exempt = None" and "fpManaged p"
  shows "fpExact p" "\<not> findRootOverlapsRepository h (find_target s tc (fpScopedRoot p)) (tcRepoRoot tc)"
    "contained h (find_target s tc (fpScopedRoot p)) (systemTempRoots h)"
proof -
  have a: "fst (authorizedPath h (find_target s tc (fpScopedRoot p)) '''' [] (systemTempRoots h) False)"
    using assms by (auto simp: find_deletion_hit_def split: if_splits)
  from authorizedPath_contained [OF this]
  show "contained h (find_target s tc (fpScopedRoot p)) (systemTempRoots h)"
    by (rule contained_roots) (simp add: configured_roots_def)
  show "fpExact p" "\<not> findRootOverlapsRepository h (find_target s tc (fpScopedRoot p)) (tcRepoRoot tc)"
    using assms by (auto simp: find_deletion_hit_def split: if_splits)
qed

section \<open>A deletion by find stays in a temporary directory\<close>

text \<open>When the rule lets a find command pass, an action of it that deletes, by \<^verbatim>\<open>-delete\<close> or by running rm,
  is its only action and ends the command, the command has one starting point, and that starting point
  lies below a temporary directory of the host, as written and after links are resolved, and does not
  overlap the repository.\<close>

lemma find_deletion_contained:
  assumes "checkFindActions h (fst (analyze_find lit tc s)) s tc pol exempt = None"
    and "a \<in> set (fpActions (fst (analyze_find lit tc s)))" and "deletes (fst (analyze_find lit tc s)) a"
  shows "\<exists>root. fpActions (fst (analyze_find lit tc s)) = [a] \<and> faEnd a = length (Argv s) \<and>
           map frValue (fpRoots (fst (analyze_find lit tc s))) = [root] \<and>
           contained h (find_target s tc root) (systemTempRoots h) \<and>
           \<not> findRootOverlapsRepository h (find_target s tc root) (tcRepoRoot tc)"
proof -
  note silent = find_deletion_silent [OF checkFindActions_silent(1) [OF assms(1)] analyze_find_deletes [OF assms(2,3)]]
  from analyze_find_exact [OF silent(1)] assms(2) silent(2,3) show ?thesis by auto
qed

text \<open>A host on which the temporary directories exist.\<close>

definition temp_host :: host where
  "temp_host = plain_host\<lparr>hostStat := (\<lambda>p. if p = ''/'' then Some 1 else if p = ''/tmp'' then Some 2 else None)\<rparr>"

text \<open>The test for an option of rm looks at the second byte on; a file whose name after the first byte is
  made of the letters of short options passes for one, here \<^verbatim>\<open>/dir\<close>.\<close>

lemma find_rm_other_file_passes:
  "checkFindActions temp_host
     (fst (analyze_find Some repo_call (simple_of [''find'', ''/tmp/scratch'', ''-exec'', ''rm'', ''-rf'', ''/dir'', ''{}'', '';''])))
     (simple_of [''find'', ''/tmp/scratch'', ''-exec'', ''rm'', ''-rf'', ''/dir'', ''{}'', '';'']) repo_call bare_policy False = None"
  by code_simp

end
