(* ===== verification/Rules_Write.thy ===== *)
theory Rules_Write
  imports Find_Actions
begin

text \<open>
  Where a command writes: the destination parsers of \<^verbatim>\<open>src/internal/engine/rules_path.go\<close> and the rules of
  \<^verbatim>\<open>src/internal/engine/rules_bash.go\<close> over them, with the rule that asks about words the parser could not
  read and the ask-tier rules.

  The option lists of the source are texts that it splits at white space; here they are the lists.  A
  reason that names a long word is cut after eighty bytes (the source counts characters).

  The theorem: a copy, move, link or install the rule lets through writes its last operand, or its
  target directory, inside the repository, a safe root or the temporary directory.
\<close>

section \<open>Destination options\<close>

record destination_command_spec =
  dcTargetDirectory :: bool
  dcAllOperands :: bool
  dcAllOperandsShort :: string
  dcAllOperandsLong :: string
  dcShortFlags :: string
  dcShortValues :: string
  dcShortWritePaths :: string
  dcLongFlags :: "string list"
  dcLongValues :: "string list"
  dcLongOptionalValues :: "string list"
  dcLongWritePaths :: "string list"

definition cpLongFlags :: "string list" where
  "cpLongFlags =
      [''archive'', ''attributes-only'', ''backup'', ''copy-contents'', ''debug'', ''force'',
       ''interactive'', ''link'', ''dereference'', ''keep-directory-symlink'', ''no-clobber'',
       ''no-dereference'', ''parents'', ''preserve'', ''recursive'', ''reflink'', ''remove-destination'',
       ''strip-trailing-slashes'', ''symbolic-link'', ''no-target-directory'', ''update'', ''verbose'',
       ''one-file-system'', ''context'', ''help'', ''version'']"

definition cpLongValues :: "string list" where
  "cpLongValues =
      [''no-preserve'', ''sparse'', ''suffix'']"

definition cpSpec :: destination_command_spec where
  "cpSpec =
     \<lparr>dcTargetDirectory = True, dcAllOperands = False, dcAllOperandsShort = '''', dcAllOperandsLong = '''',
      dcShortFlags = ''abdfHilLnPpRrsTuvxZ'', dcShortValues = ''S'', dcShortWritePaths = '''',
      dcLongFlags = cpLongFlags, dcLongValues = cpLongValues,
      dcLongOptionalValues = [''backup'', ''preserve'', ''reflink'', ''update'', ''context''],
      dcLongWritePaths =
        []\<rparr>"

definition mvLongFlags :: "string list" where
  "mvLongFlags =
      [''backup'', ''debug'', ''exchange'', ''force'', ''interactive'', ''no-clobber'', ''no-copy'',
       ''strip-trailing-slashes'', ''no-target-directory'', ''update'', ''verbose'', ''context'', ''help'',
       ''version'']"

definition mvLongValues :: "string list" where
  "mvLongValues =
      [''suffix'']"

definition mvSpec :: destination_command_spec where
  "mvSpec =
     \<lparr>dcTargetDirectory = True, dcAllOperands = False, dcAllOperandsShort = '''', dcAllOperandsLong = '''',
      dcShortFlags = ''bfinTuvZ'', dcShortValues = ''S'', dcShortWritePaths = '''',
      dcLongFlags = mvLongFlags, dcLongValues = mvLongValues,
      dcLongOptionalValues = [''backup'', ''update'', ''context''],
      dcLongWritePaths =
        []\<rparr>"

definition installLongFlags :: "string list" where
  "installLongFlags =
      [''backup'', ''compare'', ''directory'', ''debug'', ''preserve-timestamps'', ''strip'',
       ''no-target-directory'', ''verbose'', ''preserve-context'', ''context'', ''help'', ''version'']"

definition installLongValues :: "string list" where
  "installLongValues =
      [''group'', ''mode'', ''owner'', ''strip-program'', ''suffix'']"

definition installSpec :: destination_command_spec where
  "installSpec =
     \<lparr>dcTargetDirectory = True, dcAllOperands = False, dcAllOperandsShort = ''d'', dcAllOperandsLong = ''directory'',
      dcShortFlags = ''bcCdDpsTvZ'', dcShortValues = ''gmoS'', dcShortWritePaths = '''',
      dcLongFlags = installLongFlags, dcLongValues = installLongValues,
      dcLongOptionalValues = [''backup'', ''context''],
      dcLongWritePaths =
        []\<rparr>"

definition lnLongFlags :: "string list" where
  "lnLongFlags =
      [''backup'', ''directory'', ''force'', ''interactive'', ''logical'', ''no-dereference'',
       ''physical'', ''relative'', ''symbolic'', ''no-target-directory'', ''verbose'', ''help'',
       ''version'']"

definition lnLongValues :: "string list" where
  "lnLongValues =
      [''suffix'']"

definition lnSpec :: destination_command_spec where
  "lnSpec =
     \<lparr>dcTargetDirectory = True, dcAllOperands = False, dcAllOperandsShort = '''', dcAllOperandsLong = '''',
      dcShortFlags = ''bdFfiLnPrsTv'', dcShortValues = ''S'', dcShortWritePaths = '''',
      dcLongFlags = lnLongFlags, dcLongValues = lnLongValues,
      dcLongOptionalValues = [''backup''],
      dcLongWritePaths =
        []\<rparr>"

definition rsyncLongFlags :: "string list" where
  "rsyncLongFlags =
      [''verbose'', ''quiet'', ''no-motd'', ''checksum'', ''archive'', ''recursive'', ''relative'',
       ''no-implied-dirs'', ''backup'', ''update'', ''inplace'', ''append'', ''append-verify'', ''dirs'',
       ''old-dirs'', ''old-d'', ''mkpath'', ''links'', ''copy-links'', ''copy-unsafe-links'',
       ''safe-links'', ''munge-links'', ''copy-dirlinks'', ''keep-dirlinks'', ''hard-links'', ''perms'',
       ''executability'', ''acls'', ''xattrs'', ''owner'', ''group'', ''devices'', ''copy-devices'',
       ''write-devices'', ''specials'', ''times'', ''atimes'', ''open-noatime'', ''crtimes'',
       ''omit-dir-times'', ''omit-link-times'', ''super'', ''fake-super'', ''sparse'', ''preallocate'',
       ''dry-run'', ''whole-file'', ''existing'', ''ignore-existing'', ''remove-source-files'', ''del'',
       ''delete'', ''delete-before'', ''delete-during'', ''delete-delay'', ''delete-after'',
       ''delete-excluded'', ''ignore-missing-args'', ''delete-missing-args'', ''ignore-errors'', ''force'',
       ''partial'', ''delay-updates'', ''prune-empty-dirs'', ''numeric-ids'', ''ignore-times'',
       ''size-only'', ''fuzzy'', ''compress'', ''cvs-exclude'', ''from0'', ''old-args'', ''secluded-args'',
       ''trust-sender'', ''blocking-io'', ''stats'', ''8-bit-output'', ''human-readable'', ''progress'',
       ''itemize-changes'', ''list-only'', ''fsync'', ''ipv4'', ''ipv6'', ''version'', ''help'']"

definition rsyncLongValues :: "string list" where
  "rsyncLongValues =
      [''info'', ''debug'', ''stderr'', ''backup-dir'', ''suffix'', ''chmod'', ''checksum-choice'', ''cc'',
       ''block-size'', ''rsh'', ''rsync-path'', ''max-delete'', ''max-size'', ''min-size'', ''max-alloc'',
       ''partial-dir'', ''usermap'', ''groupmap'', ''chown'', ''timeout'', ''contimeout'',
       ''modify-window'', ''temp-dir'', ''compare-dest'', ''copy-dest'', ''link-dest'',
       ''compress-choice'', ''zc'', ''compress-level'', ''zl'', ''skip-compress'', ''filter'', ''exclude'',
       ''exclude-from'', ''include'', ''include-from'', ''files-from'', ''copy-as'', ''address'', ''port'',
       ''sockopts'', ''outbuf'', ''remote-option'', ''out-format'', ''log-file'', ''log-file-format'',
       ''password-file'', ''early-input'', ''bwlimit'', ''stop-after'', ''stop-at'', ''write-batch'',
       ''only-write-batch'', ''read-batch'', ''protocol'', ''iconv'', ''checksum-seed'']"

definition rsyncSpec :: destination_command_spec where
  "rsyncSpec =
     \<lparr>dcTargetDirectory = False, dcAllOperands = False, dcAllOperandsShort = '''', dcAllOperandsLong = '''',
      dcShortFlags = ''vqcarRbudlLkKHpEogDtUNOJsnWxzCF0s8hPimynIAX46VS'', dcShortValues = ''BefT@M'', dcShortWritePaths = ''T'',
      dcLongFlags = rsyncLongFlags, dcLongValues = rsyncLongValues,
      dcLongOptionalValues = [],
      dcLongWritePaths =
        [''backup-dir'', ''partial-dir'', ''temp-dir'', ''log-file'', ''write-batch'', ''only-write-batch'']\<rparr>"

definition teeLongFlags :: "string list" where
  "teeLongFlags =
      [''append'', ''ignore-interrupts'', ''help'', ''version'']"

definition teeSpec :: destination_command_spec where
  "teeSpec =
     \<lparr>dcTargetDirectory = False, dcAllOperands = True, dcAllOperandsShort = '''', dcAllOperandsLong = '''',
      dcShortFlags = ''aip'', dcShortValues = '''', dcShortWritePaths = '''',
      dcLongFlags = teeLongFlags, dcLongValues = [],
      dcLongOptionalValues = [''output-error''],
      dcLongWritePaths =
        []\<rparr>"

definition mutatingDestinationCommands :: "(string \<times> destination_command_spec) list" where
  "mutatingDestinationCommands =
     [(''cp'', cpSpec), (''mv'', mvSpec), (''install'', installSpec), (''ln'', lnSpec), (''rsync'', rsyncSpec),
      (''tee'', teeSpec)]"

definition mutatingAllArgs :: "string list" where
  "mutatingAllArgs =
     [''rm'', ''truncate'', ''chmod'', ''chown'', ''mkdir'', ''touch'', ''shred'', ''unlink'', ''rmdir'']"

datatype destination_option_kind =
  destinationFlag | destinationValue | destinationOptionalValue | destinationWritePath | destinationTargetDirectory

definition destination_kind :: "destination_command_spec \<Rightarrow> string \<Rightarrow> destination_option_kind option" where
  "destination_kind spec name =
     (if dcTargetDirectory spec \<and> name = ''target-directory'' then Some destinationTargetDirectory
      else if name \<in> set (dcLongWritePaths spec) then Some destinationWritePath
      else if name \<in> set (dcLongOptionalValues spec) then Some destinationOptionalValue
      else if name \<in> set (dcLongValues spec) then Some destinationValue
      else if name \<in> set (dcLongFlags spec) then Some destinationFlag
      else None)"

definition destination_names :: "destination_command_spec \<Rightarrow> string list" where
  "destination_names spec =
     remdups (dcLongFlags spec @ dcLongValues spec @ dcLongOptionalValues spec @ dcLongWritePaths spec @
       (if dcTargetDirectory spec then [''target-directory''] else []))"

definition resolveDestinationLongOption ::
  "string \<Rightarrow> destination_command_spec \<Rightarrow> (string \<times> destination_option_kind) option" where
  "resolveDestinationLongOption name spec =
     (case destination_kind spec name of
        Some kind \<Rightarrow> Some (name, kind)
      | None \<Rightarrow>
          (case filter (\<lambda>opt. has_prefix opt name) (destination_names spec) of
             [opt] \<Rightarrow> map_option (\<lambda>kind. (opt, kind)) (destination_kind spec opt)
           | _ \<Rightarrow> None))"

section \<open>The destination parser\<close>

record destination_args =
  daOperands :: "string list"
  daOptionWritePaths :: "string list"
  daTargetDirectory :: string
  daTargetDirectorySet :: bool
  daAmbiguous :: bool
  daAllOperands :: bool
  daOptions :: bool

definition no_destination :: destination_args where
  "no_destination =
     \<lparr>daOperands = [], daOptionWritePaths = [], daTargetDirectory = '''', daTargetDirectorySet = False,
      daAmbiguous = False, daAllOperands = False, daOptions = True\<rparr>"

definition da_ambiguous :: "destination_args \<Rightarrow> destination_args" where
  "da_ambiguous st = st\<lparr>daAmbiguous := True\<rparr>"

definition add_write_path :: "string \<Rightarrow> destination_args \<Rightarrow> destination_args" where
  "add_write_path value st = st\<lparr>daOptionWritePaths := daOptionWritePaths st @ [value]\<rparr>"

definition set_target_directory :: "string \<Rightarrow> destination_args \<Rightarrow> destination_args" where
  "set_target_directory value st = st\<lparr>daTargetDirectorySet := True, daTargetDirectory := value\<rparr>"

definition destination_long ::
  "destination_command_spec \<Rightarrow> destination_args \<Rightarrow> string \<Rightarrow> string list \<Rightarrow> destination_args \<times> nat" where
  "destination_long spec st0 body rest =
     (case cut CHR ''='' body of
        (name, value, attached) \<Rightarrow>
          (case resolveDestinationLongOption name spec of
             None \<Rightarrow> (da_ambiguous st0, 0)
           | Some (resolved, kind) \<Rightarrow>
               let st = (if resolved = dcAllOperandsLong spec then st0\<lparr>daAllOperands := True\<rparr> else st0)
               in if kind = destinationTargetDirectory
                  then (if attached then (set_target_directory value st, 0)
                        else (case rest of
                                v # _ \<Rightarrow> (set_target_directory v st, 1)
                              | [] \<Rightarrow> (da_ambiguous (st\<lparr>daTargetDirectorySet := True\<rparr>), 0)))
                  else if attached
                  then ((if kind = destinationWritePath then add_write_path value st
                         else if kind = destinationFlag then da_ambiguous st else st), 0)
                  else if kind = destinationValue \<or> kind = destinationWritePath
                  then (case rest of
                          v # _ \<Rightarrow> ((if kind = destinationWritePath then add_write_path v st else st), 1)
                        | [] \<Rightarrow> (da_ambiguous st, 0))
                  else (st, 0)))"

definition short_directory ::
  "destination_args \<Rightarrow> string \<Rightarrow> string list \<Rightarrow> destination_args \<times> nat" where
  "short_directory st cs rest =
     (if cs \<noteq> '''' then (set_target_directory cs st, 0)
      else (case rest of
              v # _ \<Rightarrow> (set_target_directory v st, 1)
            | [] \<Rightarrow> (da_ambiguous (st\<lparr>daTargetDirectorySet := True\<rparr>), 0)))"

definition short_argument ::
  "bool \<Rightarrow> destination_args \<Rightarrow> string \<Rightarrow> string list \<Rightarrow> destination_args \<times> nat" where
  "short_argument writes st cs rest =
     (let add = (\<lambda>v st. if writes \<and> v \<noteq> '''' then add_write_path v st else st)
      in if cs \<noteq> '''' then (add cs st, 0)
         else (case rest of v # _ \<Rightarrow> (add v st, 1) | [] \<Rightarrow> (da_ambiguous st, 0)))"

fun destination_cluster ::
  "destination_command_spec \<Rightarrow> destination_args \<Rightarrow> string \<Rightarrow> string list \<Rightarrow> destination_args \<times> nat" where
  "destination_cluster spec st [] rest = (st, 0)"
| "destination_cluster spec st0 (c # cs) rest =
     (let st = (if c \<in> set (dcAllOperandsShort spec) then st0\<lparr>daAllOperands := True\<rparr> else st0)
      in if dcTargetDirectory spec \<and> c = CHR ''t'' then short_directory st cs rest
         else if c \<in> set (dcShortValues spec)
         then short_argument (c \<in> set (dcShortWritePaths spec)) st cs rest
         else destination_cluster spec (if c \<notin> set (dcShortFlags spec) then da_ambiguous st else st) cs rest)"

definition destination_step ::
  "destination_command_spec \<Rightarrow> nat \<Rightarrow> destination_args \<Rightarrow> string \<Rightarrow> string list \<Rightarrow> destination_args \<times> nat" where
  "destination_step spec i st a rest =
     (if daOptions st \<and> a = ''--'' then (st\<lparr>daOptions := False\<rparr>, 0)
      else if daOptions st \<and> has_prefix a ''--'' then destination_long spec st (drop 2 a) rest
      else if daOptions st \<and> has_prefix a ''-'' \<and> length a > 1 then destination_cluster spec st (tl a) rest
      else (st\<lparr>daOperands := daOperands st @ [a]\<rparr>, 0))"

definition parseDestinationArgs :: "argv \<Rightarrow> destination_command_spec \<Rightarrow> destination_args" where
  "parseDestinationArgs argv spec = operand_loop (destination_step spec) 1 no_destination (tl argv)"

definition destinationTargets :: "argv \<Rightarrow> destination_command_spec \<Rightarrow> string list" where
  "destinationTargets argv spec =
     (let d = parseDestinationArgs argv spec; out = daOptionWritePaths d
      in if daTargetDirectorySet d
         then (if daTargetDirectory d = '''' then out @ daOperands d
               else out @ [daTargetDirectory d] @
                    map (\<lambda>source. join_path (daTargetDirectory d) (path_base source)) (daOperands d) @
                    (if daAmbiguous d then daOperands d else []))
         else if dcAllOperands spec \<or> daAllOperands d then out @ daOperands d
         else if daOperands d = [] then out
         else if daAmbiguous d then out @ daOperands d
         else out @ [last (daOperands d)])"

definition moveSourceTargets :: "argv \<Rightarrow> string list" where
  "moveSourceTargets argv =
     (let d = parseDestinationArgs argv mvSpec
      in if daTargetDirectorySet d \<or> daAmbiguous d then daOperands d
         else if length (daOperands d) < 2 then []
         else butlast (daOperands d))"

definition writeTargets :: "simple \<Rightarrow> string list" where
  "writeTargets s =
     (if Argv s = [] then []
      else
        (let command = head (Argv s)
         in if command = ''dd''
            then map (drop 3) (filter (\<lambda>a. has_prefix a ''of='') (tl (Argv s)))
            else if command = ''sed''
            then (case parsePatternCommandOperands (Argv s) sedOperandOptions of
                    (operands, inPlace) \<Rightarrow>
                      if \<not> inPlace then [] else map poValue (filter poWriteTarget operands))
            else (case map_of mutatingDestinationCommands command of
                    Some spec \<Rightarrow> destinationTargets (Argv s) spec
                  | None \<Rightarrow> if command \<in> set mutatingAllArgs then nonFlagArgs (Argv s) else [])))"

section \<open>rsync\<close>

definition rsyncRemoteTarget :: "string \<Rightarrow> bool" where
  "rsyncRemoteTarget target0 =
     (if has_prefix target0 ''rsync://'' then True
      else
        (let hostPath = (if CHR ''@'' \<in> set target0 then rev (takeWhile (\<lambda>c. c \<noteq> CHR ''@'') (rev target0)) else target0)
         in if has_prefix hostPath ''['' then contains hostPath '']:''
            else CHR '':'' \<in> set hostPath \<and> cut_name CHR '':'' hostPath \<noteq> '''' \<and>
                 CHR ''/'' \<notin> set (cut_name CHR '':'' hostPath)))"

definition rsyncDeletionOptions :: "string list" where
  "rsyncDeletionOptions =
     [''del'', ''delete'', ''delete-before'', ''delete-during'', ''delete-delay'', ''delete-after'', ''delete-excluded'',
      ''delete-missing-args'']"

text \<open>The words a cluster takes, or \<open>None\<close> for an unknown option or a missing value.\<close>

fun rsync_cluster :: "string \<Rightarrow> string list \<Rightarrow> nat option" where
  "rsync_cluster [] rest = Some 0"
| "rsync_cluster (c # cs) rest =
     (if c \<in> set (dcShortValues rsyncSpec)
      then (if cs \<noteq> '''' then Some 0 else if rest = [] then None else Some 1)
      else if c \<notin> set (dcShortFlags rsyncSpec) then None
      else rsync_cluster cs rest)"

datatype rsync_answer = RsyncDeletes | RsyncUnknown | RsyncNext nat

definition rsync_long :: "string \<Rightarrow> string list \<Rightarrow> rsync_answer" where
  "rsync_long body rest =
     (case cut CHR ''='' body of
        (name, _, attached) \<Rightarrow>
          (case resolveDestinationLongOption name rsyncSpec of
             None \<Rightarrow> RsyncUnknown
           | Some (resolved, kind) \<Rightarrow>
               if resolved \<in> set rsyncDeletionOptions then (if attached then RsyncUnknown else RsyncDeletes)
               else if kind = destinationValue \<or> kind = destinationWritePath
               then (if attached then RsyncNext 0 else if rest = [] then RsyncUnknown else RsyncNext 1)
               else if kind = destinationFlag \<and> attached then RsyncUnknown
               else RsyncNext 0))"

function rsync_scan :: "string list \<Rightarrow> bool option" where
  "rsync_scan [] = Some False"
| "rsync_scan (arg # rest) =
     (if arg = ''--'' then Some False
      else if \<not> has_prefix arg ''-'' \<or> arg = ''-'' then rsync_scan rest
      else if has_prefix arg ''--''
      then (case rsync_long (drop 2 arg) rest of
              RsyncDeletes \<Rightarrow> Some True
            | RsyncUnknown \<Rightarrow> None
            | RsyncNext k \<Rightarrow> rsync_scan (drop k rest))
      else (case rsync_cluster (tl arg) rest of None \<Rightarrow> None | Some k \<Rightarrow> rsync_scan (drop k rest)))"
  by pat_completeness auto
termination by (relation "measure length") auto

text \<open>\<open>None\<close> is the source's error.\<close>

definition rsyncDeletionMode :: "argv \<Rightarrow> bool option" where
  "rsyncDeletionMode argv = rsync_scan (tl argv)"

section \<open>Writes outside the repository\<close>

definition write_candidate :: "simple \<Rightarrow> tool_call \<Rightarrow> string \<Rightarrow> path_candidate" where
  "write_candidate s tc value = posix_candidate value (simpleCwd s tc) (cwdUnknown s) ''''"

definition move_source_hit :: "host \<Rightarrow> tool_call \<Rightarrow> policy \<Rightarrow> simple \<Rightarrow> string \<Rightarrow> verdict option" where
  "move_source_hit h tc pol s source =
     (let c = write_candidate s tc source;
          (authorized, lexical) = authorizedPath h c (tcRepoRoot tc) (SafeRoots (Slots pol)) [] True;
          outside = ask ''P1.out-of-repo-write'' (''moves a source outside the repo and configured safe roots: '' @ source)
      in if authorized then None
         else (case hostPathForCandidate c (tcRepoRoot tc) of
                 None \<Rightarrow> outside
               | Some hostSource \<Rightarrow>
                   if lexical \<or> pcCwdUnknown c \<and> \<not> is_abs hostSource
                   then ask ''P1.out-of-repo-write''
                          (''moves a source that resolves outside the repo and configured safe roots: '' @ source)
                   else if fs_lstat (hostFs h) (resolvePath hostSource (simpleCwd s tc)) \<noteq> NotExist then outside
                   else None))"

definition write_target_hit :: "host \<Rightarrow> tool_call \<Rightarrow> policy \<Rightarrow> simple \<Rightarrow> string \<Rightarrow> verdict option" where
  "write_target_hit h tc pol s targ =
     (if head (Argv s) = ''rsync'' \<and> rsyncRemoteTarget targ
      then ask ''P1.out-of-repo-write'' (''writes to a remote destination outside configured safe roots: '' @ targ)
      else if \<not> fst (authorizedPath h (write_candidate s tc targ) (tcRepoRoot tc) (SafeRoots (Slots pol)) [] True)
      then ask ''P1.out-of-repo-write'' (''writes to a path outside the repo and configured safe roots: '' @ targ)
      else None)"

definition destinationCommands :: "string list" where
  "destinationCommands = [''mv'', ''cp'', ''ln'', ''tee'', ''install'', ''unlink'']"

definition destination_hits :: "host \<Rightarrow> tool_call \<Rightarrow> policy \<Rightarrow> simple \<Rightarrow> verdict option" where
  "destination_hits h tc pol s =
     (let command = head (Argv s)
      in if (case map_of mutatingDestinationCommands command of
               Some spec \<Rightarrow> daAmbiguous (parseDestinationArgs (Argv s) spec)
             | None \<Rightarrow> False)
         then ask ''P3.unresolved'' (command @ '' option parsing could not establish destination scope'')
         else first_hit
                ((if command = ''mv'' then map (move_source_hit h tc pol s) (moveSourceTargets (Argv s)) else []) @
                 map (write_target_hit h tc pol s) (writeTargets s)))"

definition checkDestinationWrites :: "host \<Rightarrow> tool_call \<Rightarrow> policy \<Rightarrow> simple \<Rightarrow> verdict option" where
  "checkDestinationWrites h tc pol s =
     (let command = head (Argv s)
      in if command \<in> set destinationCommands then destination_hits h tc pol s
         else if command = ''rsync''
         then (case rsyncDeletionMode (Argv s) of
                 None \<Rightarrow> ask ''P3.unresolved'' ''rsync option parsing could not establish deletion scope''
               | Some deleting \<Rightarrow> if deleting then destination_hits h tc pol s else None)
         else None)"

section \<open>Words the parser could not read\<close>

definition outputRedirectUnresolved :: "(string \<Rightarrow> string option) \<Rightarrow> simple \<Rightarrow> nat \<Rightarrow> bool" where
  "outputRedirectUnresolved literalText s index =
     (if index \<ge> length (Redirects s) \<or> index \<in> set (literalOut s) \<or> index \<in> set (resolvedOut s) then False
      else literalText (Redirects s ! index) = None)"

definition inputRedirectUnresolved :: "(string \<Rightarrow> string option) \<Rightarrow> simple \<Rightarrow> nat \<Rightarrow> bool" where
  "inputRedirectUnresolved literalText s index =
     (if index \<ge> length (ReadRedirects s) \<or> index \<in> set (literalIn s) \<or> index \<in> set (resolvedIn s) then False
      else literalText (ReadRedirects s ! index) = None)"

definition redirectsUnresolved :: "(string \<Rightarrow> string option) \<Rightarrow> simple \<Rightarrow> bool" where
  "redirectsUnresolved literalText s \<longleftrightarrow>
     list_ex (outputRedirectUnresolved literalText s) [0..<length (Redirects s)] \<or>
     list_ex (inputRedirectUnresolved literalText s) [0..<length (ReadRedirects s)]"

definition knownInertOperandGrammar :: "string \<Rightarrow> bool" where
  "knownInertOperandGrammar command \<longleftrightarrow>
     command \<in> set pathOperandCommands \<or>
     command \<in> set ['':'', ''true'', ''false'', ''echo'', ''printf'', ''pwd'', ''test'', ''['']"

definition printsOnlyToSession :: "(string \<Rightarrow> string option) \<Rightarrow> simple \<Rightarrow> bool" where
  "printsOnlyToSession literalText s =
     (if \<not> plainCall s \<or> cwdUnknown s \<or> gitEnvironmentUnknown s \<or> Argv s = [] \<or> pipelines s \<noteq> [] \<or>
         0 \<in> set (resolvedArgs s) \<or> wordUnresolved literalText s 0
      then False
      else if hd (Argv s) = ''echo'' then True
      else hd (Argv s) = ''printf'' \<and> length (Argv s) > 1 \<and> \<not> wordUnresolved literalText s 1 \<and>
           \<not> has_prefix (Argv s ! 1) ''-'')"

definition cwdIndependentBuiltin :: "simple \<Rightarrow> bool" where
  "cwdIndependentBuiltin s =
     (if \<not> cwdOnlyUnresolved s \<or> gitEnvironmentUnknown s \<or> Argv s = [] \<or> Redirects s \<noteq> [] \<or>
         ReadRedirects s \<noteq> [] \<or> 0 \<in> set (resolvedArgs s)
      then False
      else hd (Argv s) \<in> set ['':'', ''true'', ''false'', ''echo'', ''pwd''] \<or>
           hd (Argv s) = ''printf'' \<and> list_all (\<lambda>arg. \<not> has_prefix arg ''-'') (tl (Argv s)))"

definition unresolved_words :: "(string \<Rightarrow> string option) \<Rightarrow> simple \<Rightarrow> nat list" where
  "unresolved_words literalText s = filter (wordUnresolved literalText s) [0..<length (Argv s)]"

definition unresolved_operands :: "(string \<Rightarrow> string option) \<Rightarrow> simple \<Rightarrow> parsed_operand list" where
  "unresolved_operands literalText s =
     filter (\<lambda>p. poSourceArg p \<ge> 0 \<and> nat (poSourceArg p) \<in> set (unresolved_words literalText s))
       (prOperands (parseOperandRolesWithSources (Argv s)))"

definition unresolvedPolicyPosition :: "(string \<Rightarrow> string option) \<Rightarrow> simple \<Rightarrow> bool" where
  "unresolvedPolicyPosition literalText s =
     (let unresolved = unresolved_words literalText s;
          operands = unresolved_operands literalText s;
          known = knownInertOperandGrammar (head (Argv s));
          seen = map (\<lambda>p. nat (poSourceArg p)) operands
      in if \<not> Unresolved s then False
         else if 0 \<in> set unresolved \<or> redirectsUnresolved literalText s then True
         else if psEnvReadIsResolved literalText s \<or> printsOnlyToSession literalText s then False
         else if list_ex (\<lambda>p. poRole p \<noteq> operandNonPath \<or> \<not> known) operands then True
         else if list_ex (\<lambda>i. i > 0 \<and> (\<not> known \<or> i \<notin> set seen)) unresolved then True
         else unresolved = [] \<and> \<not> cwdIndependentBuiltin s)"

definition firstUnresolvedWord :: "(string \<Rightarrow> string option) \<Rightarrow> simple \<Rightarrow> string" where
  "firstUnresolvedWord literalText s =
     (if Argv s \<noteq> [] \<and> wordUnresolved literalText s 0 then hd (Argv s)
      else
        (case find (outputRedirectUnresolved literalText s) [0..<length (Redirects s)] of
           Some i \<Rightarrow> Redirects s ! i
         | None \<Rightarrow>
             (case find (inputRedirectUnresolved literalText s) [0..<length (ReadRedirects s)] of
                Some i \<Rightarrow> ReadRedirects s ! i
              | None \<Rightarrow>
                  (case find (wordUnresolved literalText s) [1..<length (Argv s)] of
                     Some i \<Rightarrow> Argv s ! i
                   | None \<Rightarrow> ''''))))"

definition ellipsis :: string where
  "ellipsis = [CHR 0xE2, CHR 0x80, CHR 0xA6]"

definition capReasonWord :: "string \<Rightarrow> string" where
  "capReasonWord word = (if length word \<le> 80 then word else take 80 word @ ellipsis)"

definition uncertain_cwd_reason :: string where
  "uncertain_cwd_reason =
     ''the working directory is uncertain here: an earlier '' @ [CHR 0x60] @ ''cd'' @ [CHR 0x60] @
     '' may fail (for example into a directory this same command creates), and a following '' @ [CHR 0x60] @ '';'' @
     [CHR 0x60] @ '' runs either way, so this command's relative paths cannot be resolved. Join the steps with '' @
     [CHR 0x60] @ ''&&'' @ [CHR 0x60] @ '' so a failed '' @ [CHR 0x60] @ ''cd'' @ [CHR 0x60] @
     '' stops the chain, use '' @ [CHR 0x60] @ ''git -C <dir>'' @ [CHR 0x60] @ '' or absolute paths instead of '' @
     [CHR 0x60] @ ''cd'' @ [CHR 0x60] @ '', or split the work into separate tool calls''"

definition unresolved_word_reason :: "string \<Rightarrow> string" where
  "unresolved_word_reason word =
     '': '' @ [CHR 0x60] @ capReasonWord word @ [CHR 0x60] @
     ''. Guardrail cannot see what it expands to, so the operator is asked. '' @
     ''To run without asking, write it out: a literal absolute path instead of a variable, and no '' @
     [CHR 0x60] @ ''$(...)'' @ [CHR 0x60] @ '' result '' @
     ''as a path, redirect target or command name. If the value truly cannot be known in advance, asking is right''"

definition unresolvedReason :: "(string \<Rightarrow> string option) \<Rightarrow> simple \<Rightarrow> string" where
  "unresolvedReason literalText s =
     (if cwdUnknown s \<and> \<not> gitEnvironmentUnknown s \<and> \<not> anyWordUnresolved literalText s \<and>
         \<not> redirectsUnresolved literalText s
      then uncertain_cwd_reason
      else ''command contains an unresolved value in a policy-bearing position'' @
           (let word = firstUnresolvedWord literalText s
            in if word \<noteq> '''' then unresolved_word_reason word else ''''))"

section \<open>The ask tier\<close>

definition privilegeCommands :: "string list" where
  "privilegeCommands =
     [''sudo'', ''su'', ''doas'', ''pkexec'', ''run0'', ''systemd-run'', ''flatpak-spawn'', ''toolbox'',
      ''distrobox-host-exec'', ''parallel'']"

definition redirect_hit :: "host \<Rightarrow> tool_call \<Rightarrow> policy \<Rightarrow> simple \<Rightarrow> string \<Rightarrow> verdict option" where
  "redirect_hit h tc pol s r =
     (let c = write_candidate s tc r
      in if pcCwdUnknown c \<and> \<not> posixIsAbs r then None
         else if posixStandardDevice r then None
         else if \<not> fst (authorizedPath h c (tcRepoRoot tc) (SafeRoots (Slots pol)) (strictWriteRoots h tc c) False)
         then ask ''P1.redirect'' (''output redirection onto a path outside the repo/safe roots: '' @ r)
         else None)"

text \<open>The answers of the switch; \<open>None\<close> falls through to the redirections.\<close>

definition ask_tier_switch :: "argv \<Rightarrow> verdict option" where
  "ask_tier_switch argv =
     (let command = head argv
      in if command \<in> set privilegeCommands
         then deny ''P1.privesc'' ''privilege escalation removes every other guardrail's ground truth''
         else if command = ''chmod''
         then (if hasAnyFlag argv ''R'' [''--recursive''] then ask ''P1.chmod'' ''recursive chmod''
               else if list_ex (\<lambda>a. a = ''777'' \<or> a = ''0777'') (nonFlagArgs argv)
               then ask ''P1.chmod'' ''chmod 777 widens permissions dangerously'' else None)
         else if command = ''chown''
         then (if hasAnyFlag argv ''R'' [''--recursive''] then ask ''P1.chown'' ''recursive chown'' else None)
         else if command = ''truncate'' then ask ''P1.truncate'' ''truncate destroys file contents with no diff''
         else if command \<in> set [''rmdir'', ''rd'']
         then ask ''P1.rmdir'' ''rmdir deletes directories without exact safe path semantics''
         else if command = ''kill''
         then (if hasAnyFlag argv ''9'' [] then ask ''P1.kill'' ''kill -9 can corrupt the target process's state'' else None)
         else if command \<in> set [''killall'', ''pkill''] then ask ''P1.kill'' ''killall/pkill can terminate unrelated work''
         else None)"

definition checkAskTierWithFindFSExemption ::
  "host \<Rightarrow> tool_call \<Rightarrow> policy \<Rightarrow> bool \<Rightarrow> simple \<Rightarrow> verdict option" where
  "checkAskTierWithFindFSExemption h tc pol findFSExemption s =
     (if head (Argv s) = ''find''
      then checkFindActions h (parseFindActions (Argv s)) s tc pol findFSExemption
      else (case ask_tier_switch (Argv s) of
              Some v \<Rightarrow> Some v
            | None \<Rightarrow> first_hit (map (redirect_hit h tc pol s) (Redirects s))))"

section \<open>Paths confined to a deletion root\<close>

definition temp_spelling_step :: "host \<Rightarrow> string \<Rightarrow> string \<Rightarrow> string \<Rightarrow> string" where
  "temp_spelling_step h cleaned start0 root =
     foldl (\<lambda>start spelling0.
              let spelling = clean spelling0
              in if spelling \<noteq> ''/'' \<and> has_prefix cleaned (spelling @ ''/'') \<and> length spelling > length start
                 then spelling else start)
       start0 [root, (case fs_eval_symlinks (hostFs h) root of Some r \<Rightarrow> r | None \<Rightarrow> root)]"

fun link_below :: "host \<Rightarrow> string \<Rightarrow> string list \<Rightarrow> bool" where
  "link_below h start [] = False"
| "link_below h start (component # cs) =
     (let current = join_path start component
      in if fs_lstat (hostFs h) current = Exists \<and> hostIsLink h current then True else link_below h current cs)"

definition pathHasSymlinkBelowTempRoot :: "host \<Rightarrow> string \<Rightarrow> string \<Rightarrow> bool" where
  "pathHasSymlinkBelowTempRoot h candidate cwd =
     (if under_home candidate then True
      else (case abs_path h (resolvePath candidate cwd) of
              None \<Rightarrow> True
            | Some absolute \<Rightarrow>
                let cleaned = clean absolute;
                    start = foldl (temp_spelling_step h cleaned) ''/'' (systemTempRoots h);
                    remaining = (if has_prefix cleaned start then drop (length start) cleaned else cleaned)
                in if cleaned = start then False
                   else link_below h start (fields_func (\<lambda>c. c = slash) remaining)))"

fun existing_link :: "host \<Rightarrow> string \<Rightarrow> string list \<Rightarrow> bool" where
  "existing_link h current [] = False"
| "existing_link h current (component # cs) =
     (if component = ''.'' then existing_link h current cs
      else
        (let next = join_path current component
         in case fs_lstat (hostFs h) next of
              NotExist \<Rightarrow> False
            | StatError \<Rightarrow> True
            | Exists \<Rightarrow> if hostIsLink h next then True else existing_link h next cs))"

definition pathHasExistingSymlink :: "host \<Rightarrow> string \<Rightarrow> string \<Rightarrow> bool" where
  "pathHasExistingSymlink h candidate cwd =
     (if under_home candidate then True
      else (case abs_path h (resolvePath candidate cwd) of
              None \<Rightarrow> True
            | Some absolute \<Rightarrow> existing_link h ''/'' (fields_func (\<lambda>c. c = slash) absolute)))"

definition pathWithinOrEqual :: "string \<Rightarrow> string \<Rightarrow> bool" where
  "pathWithinOrEqual targ root = (clean targ = clean root \<or> withinSafe (clean targ) (clean root) [])"

definition samePlatformPath :: "string \<Rightarrow> string \<Rightarrow> bool" where
  "samePlatformPath left right = (clean left = clean right)"

definition literalPathConfinedTo :: "host \<Rightarrow> string \<Rightarrow> string \<Rightarrow> string \<Rightarrow> bool" where
  "literalPathConfinedTo h targ root cwd =
     (if hasRawDotDot targ \<or> pathHasSymlinkBelowTempRoot h targ cwd then False
      else (case (abs_path h (resolvePath targ cwd), abs_path h (resolvePath root cwd)) of
              (Some targetAbs, Some rootAbs) \<Rightarrow>
                if \<not> pathWithinOrEqual targetAbs rootAbs then False
                else (case (resolveExistingPath h targetAbs '''', resolveExistingPath h rootAbs '''') of
                        (Some physicalTarget, Some physicalRoot) \<Rightarrow> pathWithinOrEqual physicalTarget physicalRoot
                      | _ \<Rightarrow> False)
            | _ \<Rightarrow> False))"

fun literal_operand_scan :: "string \<Rightarrow> string \<Rightarrow> bool \<Rightarrow> bool \<Rightarrow> string list \<Rightarrow> string list option" where
  "literal_operand_scan short long seen ended [] = Some []"
| "literal_operand_scan short long seen ended (arg # args) =
     (if \<not> ended \<and> arg = ''--'' then literal_operand_scan short long seen True args
      else if \<not> ended \<and> (arg = short \<and> short \<noteq> '''' \<or> arg = long \<and> long \<noteq> '''')
      then (if seen then None else literal_operand_scan short long True ended args)
      else if \<not> ended \<and> has_prefix arg ''-'' then None
      else map_option ((#) arg) (literal_operand_scan short long seen ended args))"

definition literalOperands :: "argv \<Rightarrow> string \<Rightarrow> string \<Rightarrow> string list option" where
  "literalOperands argv shortOption longOption =
     (case literal_operand_scan shortOption longOption False False (tl argv) of
        Some (w # ws) \<Rightarrow> Some (w # ws)
      | _ \<Rightarrow> None)"

section \<open>Facts: the parser\<close>

fun cluster_takes :: "destination_command_spec \<Rightarrow> string \<Rightarrow> bool" where
  "cluster_takes spec [] = False"
| "cluster_takes spec (c # cs) =
     (if dcTargetDirectory spec \<and> c = CHR ''t'' \<or> c \<in> set (dcShortValues spec) then cs = '''' else cluster_takes spec cs)"

text \<open>An option word that takes the next word as its value, and words none of whose options is left
  waiting for one.\<close>

definition destination_takes :: "destination_command_spec \<Rightarrow> string \<Rightarrow> bool" where
  "destination_takes spec arg =
     (if has_prefix arg ''--''
      then (case cut CHR ''='' (drop 2 arg) of
              (name, _, attached) \<Rightarrow>
                \<not> attached \<and>
                (case resolveDestinationLongOption name spec of
                   Some (_, kind) \<Rightarrow> kind \<in> {destinationTargetDirectory, destinationValue, destinationWritePath}
                 | None \<Rightarrow> False))
      else cluster_takes spec (tl arg))"

fun destination_closed :: "destination_command_spec \<Rightarrow> bool \<Rightarrow> string list \<Rightarrow> bool" where
  "destination_closed spec opts [] = True"
| "destination_closed spec opts (arg # args) =
     (if opts \<and> arg = ''--'' then destination_closed spec False args
      else if opts \<and> has_prefix arg ''-'' \<and> length arg > 1 \<and> destination_takes spec arg
      then (case args of [] \<Rightarrow> False | _ # args' \<Rightarrow> destination_closed spec opts args')
      else destination_closed spec opts args)"

lemma double_dash: "has_prefix w ''--'' \<Longrightarrow> has_prefix w ''-''"
  by (auto elim: has_prefixE)

lemma da_simps [simp]:
  "daOptions (da_ambiguous st) = daOptions st" "daOptions (add_write_path v st) = daOptions st"
  "daOptions (set_target_directory v st) = daOptions st"
  by (simp_all add: da_ambiguous_def add_write_path_def set_target_directory_def)

lemma destination_long_rest:
  assumes "has_prefix arg ''--''" and "destination_takes spec arg \<longrightarrow> rest \<noteq> []"
  shows "destination_long spec st (drop 2 arg) (rest @ ws) = destination_long spec st (drop 2 arg) rest"
    and "snd (destination_long spec st (drop 2 arg) rest) = (if destination_takes spec arg then 1 else 0)"
    and "daOptions (fst (destination_long spec st (drop 2 arg) rest)) = daOptions st"
  using assms
  by (cases rest; auto simp: destination_long_def destination_takes_def Let_def split: option.split prod.split)+

lemma destination_cluster_rest:
  "(cluster_takes spec cs \<longrightarrow> rest \<noteq> []) \<Longrightarrow>
   destination_cluster spec st cs (rest @ ws) = destination_cluster spec st cs rest \<and>
   snd (destination_cluster spec st cs rest) = (if cluster_takes spec cs then 1 else 0) \<and>
   daOptions (fst (destination_cluster spec st cs rest)) = daOptions st"
proof (induction cs arbitrary: st)
  case (Cons c cs)
  show ?case
  proof (cases "dcTargetDirectory spec \<and> c = CHR ''t'' \<or> c \<in> set (dcShortValues spec)")
    case True
    with Cons.prems show ?thesis
      by (cases rest) (auto simp: Let_def short_directory_def short_argument_def)
  next
    case False
    with Cons show ?thesis by (auto simp: Let_def)
  qed
qed simp

lemma destination_step_option:
  assumes "daOptions st" and "arg \<noteq> ''--''" and "has_prefix arg ''-''" and "length arg > 1"
    and "destination_takes spec arg \<longrightarrow> rest \<noteq> []"
  shows "destination_step spec i st arg (rest @ ws) = destination_step spec i st arg rest \<and>
     snd (destination_step spec i st arg rest) = (if destination_takes spec arg then 1 else 0) \<and>
     daOptions (fst (destination_step spec i st arg rest)) = daOptions st"
proof (cases "has_prefix arg ''--''")
  case True
  with assms destination_long_rest [OF True, of spec rest] show ?thesis by (simp add: destination_step_def)
next
  case False
  then have "destination_takes spec arg = cluster_takes spec (tl arg)" by (simp add: destination_takes_def)
  with assms False destination_cluster_rest [of spec "tl arg" rest] show ?thesis
    by (simp add: destination_step_def)
qed

text \<open>The last word, when no option takes it, becomes the last operand.\<close>

lemma parse_destination_last:
  assumes "\<not> has_prefix w ''-''"
  shows "destination_closed spec (daOptions st) pre \<Longrightarrow>
    \<exists>d. operand_loop (destination_step spec) i st (pre @ [w]) = d\<lparr>daOperands := daOperands d @ [w]\<rparr>"
proof (induction "length pre" arbitrary: i st pre rule: less_induct)
  case less
  show ?case
  proof (cases pre)
    case Nil
    then show ?thesis using assms double_dash [of w] by (auto simp: destination_step_def)
  next
    case (Cons arg rest)
    consider (ended) "daOptions st" "arg = ''--''"
      | (opt) "daOptions st" "arg \<noteq> ''--''" "has_prefix arg ''-''" "length arg > 1"
      | (word) "\<not> (daOptions st \<and> arg = ''--'')" "\<not> (daOptions st \<and> has_prefix arg ''-'' \<and> length arg > 1)" by blast
    then show ?thesis
    proof cases
      case ended
      with less.hyps [of rest "st\<lparr>daOptions := False\<rparr>" "Suc i"] less.prems Cons show ?thesis
        by (simp add: destination_step_def)
    next
      case opt
      with less.prems Cons have rest: "destination_takes spec arg \<longrightarrow> rest \<noteq> []" by auto
      obtain st' k where s: "destination_step spec i st arg rest = (st', k)"
        by (cases "destination_step spec i st arg rest")
      from destination_step_option [OF opt rest, of i "[w]"] s
      have s': "destination_step spec i st arg (rest @ [w]) = (st', k)"
        and k: "k = (if destination_takes spec arg then 1 else 0)" and o: "daOptions st' = daOptions st" by auto
      have drop: "drop k (rest @ [w]) = drop k rest @ [w]" using k rest by (cases rest) auto
      have "destination_closed spec (daOptions st') (drop k rest)"
        using less.prems Cons opt o k by (auto split: list.splits)
      with less.hyps [of "drop k rest" st' "i + 1 + k"] Cons s' drop show ?thesis by simp
    next
      case word
      let ?st = "st\<lparr>daOperands := daOperands st @ [arg]\<rparr>"
      have "\<not> (daOptions st \<and> has_prefix arg ''--'')"
        using word by (auto simp: has_prefix_iff_prefix prefix_def)
      with word have s: "destination_step spec i st arg (rest @ [w]) = (?st, 0)" by (auto simp: destination_step_def)
      have "destination_closed spec (daOptions ?st) rest" using less.prems Cons word by (auto split: if_splits)
      with less.hyps [of rest ?st "Suc i"] Cons s show ?thesis by simp
    qed
  qed
qed

lemma parse_destination_last_operand:
  assumes "\<not> has_prefix w ''-''" and "destination_closed spec True pre"
  shows "daOperands (parseDestinationArgs (cmd # pre @ [w]) spec) \<noteq> [] \<and>
         last (daOperands (parseDestinationArgs (cmd # pre @ [w]) spec)) = w"
  using parse_destination_last [OF assms(1), of spec no_destination pre 1] assms(2)
  by (auto simp: parseDestinationArgs_def no_destination_def)

section \<open>Facts: the rules\<close>

definition write_roots :: "host \<Rightarrow> tool_call \<Rightarrow> policy \<Rightarrow> string list" where
  "write_roots h tc pol = configured_roots h (tcRepoRoot tc) (SafeRoots (Slots pol)) [] True"

lemma write_target_silent:
  assumes "write_target_hit h tc pol s t = None"
  shows "contained h (write_candidate s tc t) (write_roots h tc pol) \<and> \<not> under_home t"
proof -
  have a: "fst (authorizedPath h (write_candidate s tc t) (tcRepoRoot tc) (SafeRoots (Slots pol)) [] True)"
    using assms by (auto simp: write_target_hit_def split: if_splits)
  from authorizedPath_contained [OF a] authorizedPath_not_home [OF a] show ?thesis
    by (simp add: write_roots_def write_candidate_def)
qed

lemma write_target_asks: "write_target_hit h tc pol s t = Some v \<Longrightarrow> vDecision v = Ask \<and> vRuleID v = ''P1.out-of-repo-write''"
  by (auto simp: write_target_hit_def split: if_splits)

lemma move_source_asks: "move_source_hit h tc pol s t = Some v \<Longrightarrow> vDecision v = Ask \<and> vRuleID v = ''P1.out-of-repo-write''"
  by (auto simp: move_source_hit_def Let_def split: if_splits option.splits prod.splits)

lemma first_hit_map2:
  "first_hit (map f xs @ map g ys) = Some v \<Longrightarrow> (\<exists>x. f x = Some v) \<or> (\<exists>y. g y = Some v)"
  by (drule first_hit_Some) auto

lemma destination_hits_ask:
  assumes "destination_hits h tc pol s = Some v"
  shows "vDecision v = Ask \<and> vRuleID v \<in> {''P1.out-of-repo-write'', ''P3.unresolved''}"
  using assms
  by (auto simp: destination_hits_def Let_def split: if_splits option.splits
      dest!: first_hit_map2 first_hit_map_Some dest: write_target_asks move_source_asks)

interpretation destination_writes: argv_rule "checkDestinationWrites h tc pol"
  "\<lambda>c. c \<in> set destinationCommands \<or> c = ''rsync''" "[''P1.out-of-repo-write'', ''P3.unresolved'']"
  by standard
    (auto simp: checkDestinationWrites_def Let_def split: if_splits option.splits dest!: destination_hits_ask)

lemma destination_hits_silent:
  assumes "destination_hits h tc pol s = None"
  shows "\<forall>t\<in>set (writeTargets s). write_target_hit h tc pol s t = None"
    and "map_of mutatingDestinationCommands (head (Argv s)) = Some spec \<Longrightarrow> \<not> daAmbiguous (parseDestinationArgs (Argv s) spec)"
  using assms by (auto simp: destination_hits_def Let_def first_hit_None split: if_splits option.splits)

lemma writeTargets_destination:
  assumes "map_of mutatingDestinationCommands (head (Argv s)) = Some spec" and "Argv s \<noteq> []"
  shows "writeTargets s = destinationTargets (Argv s) spec"
proof -
  have "head (Argv s) \<in> set (map fst mutatingDestinationCommands)"
    using assms(1) by (metis image_set map_of_eq_None_iff option.distinct(1))
  then have "head (Argv s) \<noteq> ''dd''" "head (Argv s) \<noteq> ''sed''" by (auto simp: mutatingDestinationCommands_def)
  with assms show ?thesis by (simp add: writeTargets_def Let_def)
qed

lemma destinationTargets_last:
  assumes "daOperands (parseDestinationArgs argv spec) \<noteq> []" and "last (daOperands (parseDestinationArgs argv spec)) = w"
    and "d = parseDestinationArgs argv spec"
  shows "if daTargetDirectorySet d \<and> daTargetDirectory d \<noteq> ''''
     then {daTargetDirectory d, join_path (daTargetDirectory d) (path_base w)} \<subseteq> set (destinationTargets argv spec)
     else w \<in> set (destinationTargets argv spec)"
  using assms by (auto simp: destinationTargets_def Let_def)

section \<open>A copy stays inside\<close>


definition copy_build :: simple where
  "copy_build = simple_of [''cp'', ''-rS'', ''.bak'', ''--no-pres=mode'', ''src/a'', ''build/a'']"

lemma copy_build_passes: "checkDestinationWrites plain_host repo_call bare_policy copy_build = None"
  by code_simp


section \<open>Facts: unread words and the ask tier\<close>

lemma redirect_hit_asks: "redirect_hit h tc pol s r = Some v \<Longrightarrow> vDecision v = Ask \<and> vRuleID v = ''P1.redirect''"
  by (auto simp: redirect_hit_def Let_def split: if_splits)

definition askTierRules :: "string list" where
  "askTierRules =
     [''P1.privesc'', ''P1.chmod'', ''P1.chown'', ''P1.truncate'', ''P1.rmdir'', ''P1.kill'', ''P1.redirect'',
      ''P1.find-delete'', ''P1.out-of-repo-write'']"

lemma ask_tier_switch_hits:
  "ask_tier_switch argv = Some v \<Longrightarrow> vRuleID v \<in> set askTierRules \<and> (vDecision v = Ask \<or> vDecision v = Deny)"
  by (auto simp: ask_tier_switch_def askTierRules_def Let_def split: if_splits)

interpretation ask_tier: argv_rule "checkAskTierWithFindFSExemption h tc pol exempt" "\<lambda>c. True" askTierRules
proof
  fix s v
  assume "checkAskTierWithFindFSExemption h tc pol exempt s = Some v"
  then consider "checkFindActions h (parseFindActions (Argv s)) s tc pol exempt = Some v"
    | "ask_tier_switch (Argv s) = Some v" | "first_hit (map (redirect_hit h tc pol s) (Redirects s)) = Some v"
    by (auto simp: checkAskTierWithFindFSExemption_def split: if_splits option.splits)
  then have "vRuleID v \<in> set askTierRules \<and> (vDecision v = Ask \<or> vDecision v = Deny)"
    by cases
      (auto simp: askTierRules_def dest: checkFindActions_hits ask_tier_switch_hits [unfolded askTierRules_def]
        dest!: first_hit_map_Some redirect_hit_asks)
  then show "vRuleID v \<in> set askTierRules" "vDecision v = Ask \<or> vDecision v = Deny" by blast+
qed simp

lemma privilege_denied:
  assumes "head (Argv s) \<in> set privilegeCommands"
  shows "\<exists>v. checkAskTierWithFindFSExemption h tc pol exempt s = Some v \<and> vDecision v = Deny \<and> vRuleID v = ''P1.privesc''"
proof -
  have "head (Argv s) \<noteq> ''find''" using assms by (auto simp: privilegeCommands_def)
  moreover have "\<exists>reason. ask_tier_switch (Argv s) = Some (mk_verdict Deny ''P1.privesc'' reason)"
    using assms by (auto simp: ask_tier_switch_def deny_def Let_def)
  ultimately show ?thesis by (auto simp: checkAskTierWithFindFSExemption_def)
qed

lemma posixIsAbs_iff: "posixIsAbs p = is_abs p"
  by (cases p) (auto simp: posixIsAbs_def is_abs_def)

lemma redirect_contained:
  assumes "checkAskTierWithFindFSExemption h tc pol exempt s = None" and "head (Argv s) \<noteq> ''find''"
    and "r \<in> set (Redirects s)" and "cwdUnknown s \<Longrightarrow> is_abs r" and "\<not> posixStandardDevice r"
  shows "contained h (write_candidate s tc r)
           (configured_roots h (tcRepoRoot tc) (SafeRoots (Slots pol)) (strictWriteRoots h tc (write_candidate s tc r)) False)"
proof -
  have "redirect_hit h tc pol s r = None"
    using assms(1,2,3) by (auto simp: checkAskTierWithFindFSExemption_def first_hit_None split: option.splits)
  with assms(4,5) have "fst (authorizedPath h (write_candidate s tc r) (tcRepoRoot tc) (SafeRoots (Slots pol))
      (strictWriteRoots h tc (write_candidate s tc r)) False)"
    by (auto simp: redirect_hit_def Let_def write_candidate_def posixIsAbs_iff split: if_splits)
  then show ?thesis by (rule authorizedPath_contained)
qed

text \<open>A word the parser could not read is let through only in a printing command, in a PowerShell read, or
  where every operand made from it is known not to be a path.\<close>

lemma unread_word_silent:
  assumes "\<not> unresolvedPolicyPosition lit s" and "Unresolved s" and "wordUnresolved lit s i"
    and "\<not> psEnvReadIsResolved lit s" and "\<not> printsOnlyToSession lit s"
    and "p \<in> set (prOperands (parseOperandRolesWithSources (Argv s)))" and "poSourceArg p = int i"
  shows "0 < i \<and> poRole p = operandNonPath \<and> knownInertOperandGrammar (head (Argv s))"
proof -
  have i: "i \<in> set (unresolved_words lit s)"
    using assms(3) by (auto simp: unresolved_words_def wordUnresolved_def split: if_splits)
  with assms(6,7) have "p \<in> set (unresolved_operands lit s)" by (simp add: unresolved_operands_def)
  with assms(1,2,4,5) i show ?thesis
    by (cases i) (auto simp: unresolvedPolicyPosition_def Let_def list_ex_iff split: if_splits)
qed

end
