(* ===== verification/Git_Repository.thy ===== *)
theory Git_Repository
  imports Path_Authority Rules_Git
begin

text \<open>
  Which repository a command works on: the discovery of the git directory in
  \<^verbatim>\<open>src/internal/engine/rules_git.go\<close> and the worktree test of \<^verbatim>\<open>src/internal/engine/worktree.go\<close>.

  The host answers \<^verbatim>\<open>os.Stat\<close> and \<^verbatim>\<open>os.Lstat\<close>, the environment of the process and the contents of a small
  regular file (\<^verbatim>\<open>readSmallFile\<close>).  A directory is walked up by its components, as in \<open>Path_Authority\<close>.

  The theorem: a search that starts inside a temporary directory never takes a repository planted at
  that directory or above it.
\<close>

section \<open>Discovery\<close>

definition tempRootBoundary :: "string \<Rightarrow> string list \<Rightarrow> string option" where
  "tempRootBoundary dir roots =
     find (\<lambda>root. root \<noteq> '''' \<and> root \<noteq> ''/'' \<and> has_prefix (clean dir) (root @ ''/'')) (map clean roots)"

definition readGitDirectoryFile :: "host \<Rightarrow> string \<Rightarrow> string option" where
  "readGitDirectoryFile h path =
     (case hostReadSmall h path of
        None \<Rightarrow> None
      | Some value \<Rightarrow>
          (case cut CHR '':'' (trim_space value) of
             (pre, targ, found) \<Rightarrow>
               if \<not> found \<or> \<not> equal_fold (trim_space pre) ''gitdir'' \<or> trim_space targ = '''' then None
               else Some (resolvePath (trim_space targ) (path_dir path))))"

fun discover_walk :: "host \<Rightarrow> string option \<Rightarrow> bool \<Rightarrow> string list \<Rightarrow> string option" where
  "discover_walk h boundary rooted rcs =
     (let directory = render_path rooted (rev rcs); candidate = join_path directory ''.git''
      in if (case boundary of Some b \<Rightarrow> \<not> has_prefix directory (b @ ''/'') | None \<Rightarrow> False) then None
         else if hostStat h candidate \<noteq> None
         then (if hostIsDir h candidate then Some candidate else readGitDirectoryFile h candidate)
         else (case rcs of [] \<Rightarrow> None | c # rcs' \<Rightarrow> discover_walk h boundary rooted rcs'))"

declare discover_walk.simps [simp del]

definition discoverGitDirectoryWithRoots :: "host \<Rightarrow> string \<Rightarrow> string list \<Rightarrow> string option" where
  "discoverGitDirectoryWithRoots h start roots =
     (case abs_path h start of
        None \<Rightarrow> None
      | Some directory \<Rightarrow>
          discover_walk h (tempRootBoundary directory roots) (is_abs directory) (rev (comps_of directory)))"

definition discoverGitDirectory :: "host \<Rightarrow> string \<Rightarrow> string option" where
  "discoverGitDirectory h start = discoverGitDirectoryWithRoots h start (systemTempRoots h)"

section \<open>The common directory\<close>

definition gitEnvironmentNames :: "string list" where
  "gitEnvironmentNames =
     [''GIT_DIR'', ''GIT_COMMON_DIR'', ''GIT_WORK_TREE'', ''GIT_CEILING_DIRECTORIES'', ''GIT_DISCOVERY_ACROSS_FILESYSTEM'']"

definition gitRepositoryEnvironmentFromProcess :: "host \<Rightarrow> bool \<Rightarrow> string \<Rightarrow> string option" where
  "gitRepositoryEnvironmentFromProcess h isClean name =
     (if isClean \<or> name \<notin> set gitEnvironmentNames then None else hostEnv h name)"

text \<open>The environment of the command over that of the process; an unset variable reads as empty.\<close>

definition git_variable :: "host \<Rightarrow> (string \<times> string) list \<Rightarrow> bool \<Rightarrow> string \<Rightarrow> string" where
  "git_variable h variables isClean name =
     (case map_of variables name of
        Some v \<Rightarrow> v
      | None \<Rightarrow> (case gitRepositoryEnvironmentFromProcess h isClean name of Some v \<Rightarrow> v | None \<Rightarrow> ''''))"

fun common_args :: "string \<Rightarrow> string \<Rightarrow> string list \<Rightarrow> (string \<times> string) option" where
  "common_args current gitDir [] = Some (current, gitDir)"
| "common_args current gitDir (arg # args) =
     (if arg = ''-C''
      then (case args of [] \<Rightarrow> None | v # args' \<Rightarrow> common_args (resolvePath v current) gitDir args')
      else if arg = ''--git-dir''
      then (case args of [] \<Rightarrow> None | v # args' \<Rightarrow> common_args current v args')
      else if has_prefix arg ''--git-dir='' then common_args current (drop 10 arg) args
      else if arg = ''--bare'' then None
      else common_args current gitDir args)"

definition common_directory :: "host \<Rightarrow> string \<Rightarrow> string \<Rightarrow> string \<Rightarrow> string option" where
  "common_directory h named current gitDir =
     (if named \<noteq> '''' then Some (if is_abs named then named else resolvePath named current)
      else
        (let commonDirFile = join_path gitDir ''commondir''
         in case hostReadSmall h commonDirFile of
              Some value \<Rightarrow> Some (resolvePath (trim_space value) gitDir)
            | None \<Rightarrow> if fs_lstat (hostFs h) commonDirFile \<noteq> NotExist then None else Some gitDir))"

definition common_of :: "host \<Rightarrow> string \<Rightarrow> string \<Rightarrow> string \<Rightarrow> string option" where
  "common_of h named current gitDir =
     (case common_directory h named current gitDir of
        None \<Rightarrow> None
      | Some commonDir \<Rightarrow>
          if hostStat h (join_path gitDir ''HEAD'') = None then None
          else (case resolveExistingPath h commonDir '''' of
                  None \<Rightarrow> None
                | Some resolved \<Rightarrow>
                    if hostStat h resolved \<noteq> None \<and> hostIsDir h resolved then Some resolved else None))"

definition gitCommonDirectory ::
  "host \<Rightarrow> string list \<Rightarrow> string \<Rightarrow> (string \<times> string) list \<Rightarrow> bool \<Rightarrow> string option" where
  "gitCommonDirectory h globalArgs cwd variables cleanEnvironment =
     (let env = git_variable h variables cleanEnvironment
      in if env ''GIT_CEILING_DIRECTORIES'' \<noteq> '''' then None
         else (case common_args cwd (env ''GIT_DIR'') globalArgs of
                 None \<Rightarrow> None
               | Some (current, named) \<Rightarrow>
                   (case (if named = '''' then discoverGitDirectory h current
                          else Some (if is_abs named then named else resolvePath named current)) of
                      None \<Rightarrow> None
                    | Some gitDir \<Rightarrow> common_of h (env ''GIT_COMMON_DIR'') current gitDir)))"

section \<open>A directory with no repository yet\<close>

fun uninitialized_args :: "string \<Rightarrow> string list \<Rightarrow> string option" where
  "uninitialized_args current [] = Some current"
| "uninitialized_args current (arg # args) =
     (let base = cut_name CHR ''='' arg
      in if arg = ''-C''
         then (case args of [] \<Rightarrow> None | v # args' \<Rightarrow> uninitialized_args (resolvePath v current) args')
         else if base = ''--git-dir'' \<or> arg = ''--bare'' then None
         else if base \<in> set gitValueFlags \<and> CHR ''='' \<notin> set arg
         then (case args of [] \<Rightarrow> None | _ # args' \<Rightarrow> uninitialized_args current args')
         else uninitialized_args current args)"

fun uninitialized_walk :: "host \<Rightarrow> string option \<Rightarrow> bool \<Rightarrow> string list \<Rightarrow> bool" where
  "uninitialized_walk h boundary rooted rcs =
     (let directory = render_path rooted (rev rcs)
      in if boundary = Some directory then True
         else if fs_lstat (hostFs h) (join_path directory ''.git'') \<noteq> NotExist then False
         else (case rcs of [] \<Rightarrow> True | c # rcs' \<Rightarrow> uninitialized_walk h boundary rooted rcs'))"

declare uninitialized_walk.simps [simp del]

definition gitConfigUninitializedDirectory ::
  "host \<Rightarrow> string list \<Rightarrow> string \<Rightarrow> (string \<times> string) list \<Rightarrow> bool \<Rightarrow> string option" where
  "gitConfigUninitializedDirectory h globalArgs cwd variables initialized =
     (if \<not> initialized \<or>
         list_ex (\<lambda>name. git_variable h variables False name \<noteq> '''')
           [''GIT_DIR'', ''GIT_COMMON_DIR'', ''GIT_WORK_TREE'', ''GIT_CEILING_DIRECTORIES'']
      then None
      else (case uninitialized_args cwd globalArgs of
              None \<Rightarrow> None
            | Some current \<Rightarrow>
                (case abs_path h current of
                   None \<Rightarrow> None
                 | Some directory \<Rightarrow>
                     if uninitialized_walk h (tempRootBoundary directory (systemTempRoots h)) (is_abs directory)
                          (rev (comps_of directory))
                     then Some directory else None)))"

section \<open>The repository of a configuration change\<close>

definition gitConfigPathUnderSystemTempRoot :: "host \<Rightarrow> string \<Rightarrow> bool" where
  "gitConfigPathUnderSystemTempRoot h path =
     (case resolveExistingPath h path '''' of
        None \<Rightarrow> False
      | Some targ \<Rightarrow>
          let roots = List.map_filter (\<lambda>root. resolveExistingPath h root '''') (systemTempRoots h)
          in \<not> list_ex (\<lambda>root. clean targ = clean root) roots \<and> list_ex (\<lambda>root. withinSafe targ root []) roots)"

definition normalizeGitIdentityArgs :: "string list \<Rightarrow> string list" where
  "normalizeGitIdentityArgs args =
     concat (map (\<lambda>arg. if has_prefix arg ''-C'' \<and> length arg > 2 then [''-C'', drop 2 arg] else [arg]) args)"

definition sameGitConfigPath :: "host \<Rightarrow> string \<Rightarrow> string \<Rightarrow> bool" where
  "sameGitConfigPath h left right =
     (case (abs_path h left, abs_path h right) of
        (Some leftAbs, Some rightAbs) \<Rightarrow>
          clean leftAbs = clean rightAbs \<or>
          (case (resolveExistingPath h leftAbs '''', resolveExistingPath h rightAbs '''') of
             (Some l, Some r) \<Rightarrow> clean l = clean r
           | _ \<Rightarrow> False)
      | _ \<Rightarrow> False)"

definition gitConfigTargetsToolCallRepo :: "host \<Rightarrow> tool_call \<Rightarrow> simple \<Rightarrow> bool" where
  "gitConfigTargetsToolCallRepo h tc s =
     (case gitSubcommandIndex (Argv s) of
        None \<Rightarrow> False
      | Some subcommand \<Rightarrow>
          if cwdUnknown s \<or> gitEnvironmentUnknown s \<or> Cwd s = '''' then False
          else
            (let globalArgs = normalizeGitIdentityArgs (take (subcommand - 1) (tl (Argv s)))
             in case gitCommonDirectory h globalArgs (Cwd s) (gitEnvironment s) False of
                  Some targ \<Rightarrow>
                    if gitConfigPathUnderSystemTempRoot h targ then True
                    else if tcRepoRoot tc = '''' then False
                    else (case gitCommonDirectory h [''-C'', tcRepoRoot tc] (Cwd s) [] True of
                            Some trusted \<Rightarrow> sameGitConfigPath h targ trusted
                          | None \<Rightarrow> False)
                | None \<Rightarrow>
                    (case gitConfigUninitializedDirectory h globalArgs (Cwd s) (gitEnvironment s) (gitInitExpected s) of
                       Some current \<Rightarrow> gitConfigPathUnderSystemTempRoot h current
                     | None \<Rightarrow> False)))"

section \<open>Worktrees\<close>

definition sameRepository :: "host \<Rightarrow> string \<Rightarrow> string \<Rightarrow> bool" where
  "sameRepository h targ repoRoot =
     (if targ = '''' \<or> repoRoot = '''' then False
      else (case (gitCommonDirectory h [] (path_dir targ) [] True, gitCommonDirectory h [] repoRoot [] True) of
              (Some targetCommon, Some rootCommon) \<Rightarrow>
                targetCommon = rootCommon \<or>
                (case (hostStat h targetCommon, hostStat h rootCommon) of
                   (Some a, Some b) \<Rightarrow> a = b
                 | _ \<Rightarrow> False)
            | _ \<Rightarrow> False))"

section \<open>Facts\<close>

text \<open>The repository directory a search takes, and the directory it found it in.\<close>

definition git_of :: "host \<Rightarrow> string \<Rightarrow> string \<Rightarrow> bool" where
  "git_of h directory gitDir \<longleftrightarrow>
     gitDir = join_path directory ''.git'' \<or> readGitDirectoryFile h (join_path directory ''.git'') = Some gitDir"

lemma discover_walk_found:
  "discover_walk h boundary rooted rcs = Some g \<Longrightarrow>
   \<exists>up kept. rcs = up @ kept \<and> git_of h (render_path rooted (rev kept)) g \<and>
     (\<forall>b. boundary = Some b \<longrightarrow> has_prefix (render_path rooted (rev kept)) (b @ ''/''))"
proof (induction rcs)
  case Nil
  then show ?case
    by (subst (asm) discover_walk.simps) (auto simp: git_of_def Let_def split: if_splits option.splits)
next
  case (Cons c rcs)
  show ?case
  proof (cases "discover_walk h boundary rooted rcs = Some g")
    case True
    then obtain up kept where "rcs = up @ kept" and "git_of h (render_path rooted (rev kept)) g"
      and "\<forall>b. boundary = Some b \<longrightarrow> has_prefix (render_path rooted (rev kept)) (b @ ''/'')" using Cons.IH by blast
    then show ?thesis by (intro exI [of _ "c # up"] exI [of _ kept]) simp
  next
    case False
    with Cons.prems have "git_of h (render_path rooted (rev (c # rcs))) g \<and>
        (\<forall>b. boundary = Some b \<longrightarrow> has_prefix (render_path rooted (rev (c # rcs))) (b @ ''/''))"
      by (subst (asm) discover_walk.simps) (auto simp: git_of_def Let_def split: if_splits option.splits)
    then show ?thesis by (intro exI [of _ "[]"] exI [of _ "c # rcs"]) simp
  qed
qed

lemma below_ancestor:
  assumes "clean_stack (is_abs p) (rev (comps_of p))" and "comps_of p = kept @ up"
  shows "below p (render_path (is_abs p) kept)"
proof -
  have k: "clean_stack (is_abs p) (rev kept)" using assms by (auto intro: clean_stack_prefix)
  from comps_of_render [OF k] is_abs_render [OF k] assms(2) show ?thesis by (simp add: below_def)
qed

section \<open>A planted repository does not capture the search\<close>

text \<open>A search for the repository of a directory strictly inside a temporary directory finds, if anything,
  the git directory of an ancestor that is itself strictly inside that temporary directory: a
  \<^verbatim>\<open>.git\<close> at the temporary directory or above it is never taken, neither as a directory nor as a
  pointer file.\<close>

lemma discovery_stays_inside:
  assumes "abs_path h start = Some directory" and "tempRootBoundary directory roots = Some b"
    and "discoverGitDirectoryWithRoots h start roots = Some g"
  shows "\<exists>d. below directory d \<and> has_prefix d (b @ ''/'') \<and> git_of h d g"
proof -
  from assms have "discover_walk h (Some b) (is_abs directory) (rev (comps_of directory)) = Some g"
    by (simp add: discoverGitDirectoryWithRoots_def)
  from discover_walk_found [OF this] obtain up kept where k: "rev (comps_of directory) = up @ kept"
    and g: "git_of h (render_path (is_abs directory) (rev kept)) g"
    and b: "has_prefix (render_path (is_abs directory) (rev kept)) (b @ ''/'')" by blast
  from k have "comps_of directory = rev kept @ rev up" by (metis rev_append rev_rev_ident)
  with below_ancestor [OF comps_of_stack] g b show ?thesis by blast
qed

definition planted_host :: host where
  "planted_host =
     plain_host\<lparr>hostStat := (\<lambda>p. if p = ''/tmp/.git'' then Some 1 else if p = ''/tmp/work/.git'' then Some 2 else None)\<rparr>"

text \<open>A hand-written pointer straight at the repository's git directory needs no worktree bookkeeping: its
  \<^verbatim>\<open>commondir\<close> is missing, so the git directory stands for itself, and it has a \<^verbatim>\<open>HEAD\<close>.\<close>

definition forged_host :: host where
  "forged_host =
     plain_host\<lparr>hostFs := \<lparr>fs_lstat = (\<lambda>p. if p = ''/repo/.git/commondir'' then NotExist else Exists),
                         fs_eval_symlinks = (\<lambda>p. Some p)\<rparr>,
       hostStat := (\<lambda>p. if p = ''/home/alice/x/.git'' then Some 1 else if p = ''/repo/.git'' then Some 2
                        else if p = ''/repo/.git/HEAD'' then Some 3 else None),
       hostIsDir := (\<lambda>p. p \<noteq> ''/home/alice/x/.git''),
       hostReadSmall := (\<lambda>p. if p = ''/home/alice/x/.git'' then Some ''gitdir: /repo/.git'' else None)\<rparr>"

lemma forged_pointer_accepted: "sameRepository forged_host ''/home/alice/x/notes.txt'' ''/repo''"
  by code_simp

end
