(* ===== verification/Rules_Path.thy ===== *)
theory Rules_Path
  imports Evaluate_Call Rules_Write Git_Repository
begin

text \<open>
  Paths and secrets: the path rules of \<^verbatim>\<open>src/internal/engine/rules_path.go\<close>, with the self-protection rules of
  \<^verbatim>\<open>src/internal/engine/rules_powershell_write.go\<close> and \<^verbatim>\<open>src/internal/engine/rules_go.go\<close> that they call.

  A \<open>path_env\<close> holds what the rules ask the outside: the host's files, the third-party glob matcher, the
  parts of \<^verbatim>\<open>url.Parse\<close> they read (\<open>None\<close> is an error) and the shell parser's \<^verbatim>\<open>literalText\<close>.  The parse of
  a find command is computed again from the command.  A long operand is cut after eighty bytes (the
  source counts characters).

  The fold over all hits is the \<open>worst_hit\<close> of \<open>Evaluate_Call\<close>.  The theorems follow a path from the
  word of a command to the verdict: a word that names a secret directory is denied, whatever the policy
  waives, and a write to Guardrail's own files is denied.
\<close>

section \<open>Environment\<close>

record file_url =
  fuScheme :: string
  fuHost :: string
  fuPath :: "string option"

record path_env =
  peHost :: host
  peGlob :: "string \<Rightarrow> string \<Rightarrow> bool"
  peURL :: "string \<Rightarrow> file_url option"
  peLiteral :: "string \<Rightarrow> string option"

definition isFileTool :: "tool_call \<Rightarrow> bool" where
  "isFileTool tc =
     (if tcCapability tc = CapabilityReadDiscovery \<or> tcCapability tc = CapabilityMutation then True
      else if tcCapability tc \<noteq> CapabilityNone then False
      else to_lower (tcTool tc) \<in> set [''read'', ''edit'', ''write'', ''multiedit''])"

definition isWriteToolCall :: "tool_call \<Rightarrow> bool" where
  "isWriteToolCall tc =
     (if tcCapability tc = CapabilityMutation then True
      else if tcCapability tc \<noteq> CapabilityNone then False
      else to_lower (tcTool tc) \<in> set [''edit'', ''write'', ''multiedit''])"

section \<open>Matching\<close>

definition matchesAnyGlob :: "path_env \<Rightarrow> string \<Rightarrow> string list \<Rightarrow> bool" where
  "matchesAnyGlob pe p globs =
     (let cleaned = to_lower (clean (trim_prefix (to_slash p) ''./''))
      in list_ex (\<lambda>g. peGlob pe (to_lower g) cleaned) globs)"

definition escapes :: "string \<Rightarrow> bool" where
  "escapes r \<longleftrightarrow> r = ''..'' \<or> has_prefix r ''../''"

definition repo_relative_to :: "host \<Rightarrow> string \<Rightarrow> string \<Rightarrow> string option" where
  "repo_relative_to h absPath root =
     (case rel (to_lower (clean root)) (to_lower (clean absPath)) of
        Some r \<Rightarrow>
          if \<not> escapes r then Some r
          else if prWithin (pathRelationBetween h absPath root)
          then Some (to_lower (prRelative (pathRelationBetween h absPath root))) else None
      | None \<Rightarrow>
          if prWithin (pathRelationBetween h absPath root)
          then Some (to_lower (prRelative (pathRelationBetween h absPath root))) else None)"

definition repoRelative :: "host \<Rightarrow> string \<Rightarrow> string \<Rightarrow> string \<Rightarrow> string option" where
  "repoRelative h p cwd repoRoot =
     (let root = (if repoRoot = '''' then cwd else repoRoot)
      in if root = '''' then None
         else if \<not> is_abs p \<and> cwd = '''' then None
         else (case repo_relative_to h (if is_abs p then p else join_path cwd p) root of
                 Some r \<Rightarrow> if r = ''.'' \<or> escapes r then None else Some r
               | None \<Rightarrow> None))"

definition root_only_match :: "path_env \<Rightarrow> path_candidate \<Rightarrow> string list \<Rightarrow> string \<Rightarrow> bool" where
  "root_only_match pe c rootOnly p =
     (case repoRelative (peHost pe) p (pcCwd c) (pcRepoRoot c) of
        Some r \<Rightarrow> matchesAnyGlob pe r rootOnly
      | None \<Rightarrow> False)"

definition matchesScoped :: "path_env \<Rightarrow> path_candidate \<Rightarrow> string list \<Rightarrow> string list \<Rightarrow> bool" where
  "matchesScoped pe c anywhere rootOnly =
     (let resolved = resolvePathCandidate (peHost pe) c
      in matchesAnyGlob pe (trim_prefix (pcPath c) ''./'') anywhere \<or>
         (case resolved of Some r \<Rightarrow> matchesAnyGlob pe r anywhere | None \<Rightarrow> False) \<or>
         (rootOnly \<noteq> [] \<and>
          (root_only_match pe c rootOnly (pcPath c) \<or>
           (case resolved of Some r \<Rightarrow> root_only_match pe c rootOnly r | None \<Rightarrow> False))))"

section \<open>Secrets\<close>

definition textShapedOperand :: "string \<Rightarrow> bool" where
  "textShapedOperand text = contains_any text [CHR 0x0A, dquote, CHR 0x27, CHR ''{'', CHR ''}'', CHR ''['', CHR '']'']"

definition secret_match :: "path_env \<Rightarrow> policy \<Rightarrow> string \<Rightarrow> bool" where
  "secret_match pe pol piece \<longleftrightarrow>
     matchesAnyGlob pe piece (SecretDirs (Slots pol)) \<or> matchesAnyGlob pe piece (SecretGlobs (Slots pol)) \<or>
     matchesAnyGlob pe piece (SecretAskGlobs (Slots pol))"

definition text_separator :: "char \<Rightarrow> bool" where
  "text_separator c \<longleftrightarrow>
     c \<in> set [CHR 0x0A, dquote, CHR 0x27, CHR ''{'', CHR ''}'', CHR ''['', CHR '']'', CHR '','', CHR '' '', CHR 0x09]"

definition secretTextFragment :: "path_env \<Rightarrow> string \<Rightarrow> policy \<Rightarrow> string" where
  "secretTextFragment pe text pol =
     (case find (secret_match pe pol) (fields_func text_separator text) of
        Some piece \<Rightarrow> piece
      | None \<Rightarrow> if length text > 80 then take 80 text @ ellipsis else text)"

definition secretPathVerdict :: "decision \<Rightarrow> string \<Rightarrow> string \<Rightarrow> verdict" where
  "secretPathVerdict decision ruleID secret =
     mk_verdict decision ruleID (''access to a credential/secret path: '' @ secret)"

definition take_secret :: "policy \<Rightarrow> bool \<Rightarrow> verdict option \<Rightarrow> verdict \<Rightarrow> verdict option" where
  "take_secret pol honorWaivers worst v = (if honorWaivers \<and> waived pol (vRuleID v) then worst else worse worst v)"

definition ambiguous_secret :: "path_env \<Rightarrow> path_candidate \<Rightarrow> string \<Rightarrow> verdict" where
  "ambiguous_secret pe c form =
     (if pcRepoRoot c \<noteq> '''' \<and> \<not> has_prefix (pcPath c) ''~'' \<and>
         repoRelative (peHost pe) form (pcCwd c) (pcRepoRoot c) \<noteq> None
      then secretPathVerdict Ask ''P4.secret-path-ambiguous'' form
      else secretPathVerdict Deny ''P4.secret-path'' form)"

fun secret_forms ::
  "path_env \<Rightarrow> policy \<Rightarrow> bool \<Rightarrow> path_candidate \<Rightarrow> verdict option \<Rightarrow> string list \<Rightarrow> verdict option" where
  "secret_forms pe pol honor c worst [] = worst"
| "secret_forms pe pol honor c worst (form # forms) =
     (if matchesAnyGlob pe form (SecretDirs (Slots pol)) then Some (secretPathVerdict Deny ''P4.secret-path'' form)
      else if matchesAnyGlob pe form (SecretAllow (Slots pol)) then secret_forms pe pol honor c worst forms
      else
        (let w1 = (if matchesAnyGlob pe form (SecretGlobs (Slots pol))
                   then take_secret pol honor worst (secretPathVerdict Deny ''P4.secret-path'' form) else worst);
             w2 = (if matchesAnyGlob pe form (SecretAskGlobs (Slots pol))
                   then take_secret pol honor w1 (ambiguous_secret pe c form) else w1)
         in secret_forms pe pol honor c w2 forms))"

definition classifySecretPathOperand :: "path_env \<Rightarrow> path_candidate \<Rightarrow> policy \<Rightarrow> bool \<Rightarrow> verdict option" where
  "classifySecretPathOperand pe c pol honor = secret_forms pe pol honor c None (pathCandidateForms (peHost pe) c)"

definition text_reason :: string where
  "text_reason = ''command text mentions a secret-tier path: ''"

definition classifySecretPath :: "path_env \<Rightarrow> path_candidate \<Rightarrow> policy \<Rightarrow> bool \<Rightarrow> verdict option" where
  "classifySecretPath pe c pol honor =
     (case classifySecretPathOperand pe c pol honor of
        None \<Rightarrow> None
      | Some v \<Rightarrow>
          if vDecision v \<noteq> Deny \<or> \<not> textShapedOperand (pcPath c) then Some v
          else if honor \<and> waived pol ''P4.secret-in-text'' then None
          else deny ''P4.secret-in-text'' (text_reason @ secretTextFragment pe (pcPath c) pol))"

definition classifiedSecretPath :: "path_env \<Rightarrow> path_candidate \<Rightarrow> policy \<Rightarrow> string option" where
  "classifiedSecretPath pe c pol =
     map_option (\<lambda>v. trim_prefix (trim_prefix (vReason v) ''access to a credential/secret path: '') text_reason)
       (classifySecretPath pe c pol False)"

section \<open>The paths of a call\<close>

definition tool_candidate :: "tool_call \<Rightarrow> string \<Rightarrow> path_candidate" where
  "tool_candidate tc p =
     \<lparr>pcPath = p, pcCwd = tcCWD tc, pcCwdUnknown = False, pcRepoRoot = tcRepoRoot tc, pcPosix = False\<rparr>"

definition shell_candidate :: "tool_call \<Rightarrow> simple \<Rightarrow> string \<Rightarrow> path_candidate" where
  "shell_candidate tc s p =
     \<lparr>pcPath = p, pcCwd = Cwd s, pcCwdUnknown = cwdUnknown s, pcRepoRoot = tcRepoRoot tc, pcPosix = True\<rparr>"

definition operand_paths :: "simple \<Rightarrow> string list" where
  "operand_paths s =
     (let parsed = parseOperandRoles (Argv s)
      in map poValue (filter (\<lambda>p. poRole p \<noteq> operandNonPath \<and>
           \<not> (prUncertainty parsed \<noteq> '''' \<and> poRole p = operandUncertain)) (prOperands parsed)))"

definition opaque_paths :: "simple \<Rightarrow> string list" where
  "opaque_paths s =
     (if isOpaqueExecutor (head (Argv s))
      then filter looksLikePathOperand
             (concat (map (\<lambda>p. visiblePathCandidates (poValue p))
               (filter (\<lambda>p. poRole p \<noteq> operandNonPath) (prOperands (parseOperandRoles (Argv s))))))
      else [])"

definition simple_paths :: "tool_call \<Rightarrow> simple \<Rightarrow> path_candidate list" where
  "simple_paths tc s =
     map (shell_candidate tc s) (operand_paths s @ opaque_paths s @ Redirects s @ ReadRedirects s @ writeTargets s)"

definition find_paths :: "path_env \<Rightarrow> tool_call \<Rightarrow> simple \<Rightarrow> find_evaluation \<Rightarrow> path_candidate list" where
  "find_paths pe tc s fe =
     (let parsed = fst (analyze_find (peLiteral pe) tc s)
      in findRootCandidates parsed s tc @ findOutputCandidates parsed s tc @ findReadPathCandidates parsed s tc @
         map (shell_candidate tc s) (Redirects s @ ReadRedirects s) @
         concat (map (simple_paths tc) (feCallbacks fe)))"

definition command_paths :: "path_env \<Rightarrow> tool_call \<Rightarrow> bash_analysis \<Rightarrow> nat \<times> simple \<Rightarrow> path_candidate list" where
  "command_paths pe tc a =
     (\<lambda>(i, s). case map_of (baFinds a) i of None \<Rightarrow> simple_paths tc s | Some fe \<Rightarrow> find_paths pe tc s fe)"

text \<open>The commands whose operands \<^verbatim>\<open>appendSimple\<close> reads, in order; the first of their doubts is reported.\<close>

definition appended :: "bash_analysis \<Rightarrow> nat \<times> simple \<Rightarrow> simple list" where
  "appended a = (\<lambda>(i, s). case map_of (baFinds a) i of None \<Rightarrow> [s] | Some fe \<Rightarrow> feCallbacks fe)"

definition first_doubt :: "simple list \<Rightarrow> string" where
  "first_doubt ss =
     (case filter (\<lambda>r. r \<noteq> '''') (map (\<lambda>s. prUncertainty (parseOperandRoles (Argv s))) ss) of
        r # _ \<Rightarrow> r | [] \<Rightarrow> '''')"

definition parsePrivatePathsAnalysis ::
  "path_env \<Rightarrow> tool_call \<Rightarrow> bash_analysis option \<Rightarrow> path_candidate list \<times> string" where
  "parsePrivatePathsAnalysis pe tc bash =
     (let tool = (if isFileTool tc then map (tool_candidate tc) (tcPaths tc) else [])
      in case bash of
           None \<Rightarrow> (tool, '''')
         | Some a \<Rightarrow>
             if baFailed a then (tool, '''')
             else (tool @ concat (map (command_paths pe tc a) (enumerate 0 (baSimples a))),
                   first_doubt (concat (map (appended a) (enumerate 0 (baSimples a))))))"

definition simple_writes :: "tool_call \<Rightarrow> simple \<Rightarrow> path_candidate list" where
  "simple_writes tc s = map (shell_candidate tc s) (Redirects s @ writeTargets s)"

definition command_writes :: "path_env \<Rightarrow> tool_call \<Rightarrow> bash_analysis \<Rightarrow> nat \<times> simple \<Rightarrow> path_candidate list" where
  "command_writes pe tc a =
     (\<lambda>(i, s). simple_writes tc s @
        (case map_of (baFinds a) i of
           None \<Rightarrow> []
         | Some fe \<Rightarrow> findOutputCandidates (fst (analyze_find (peLiteral pe) tc s)) s tc @
                      concat (map (simple_writes tc) (feCallbacks fe))))"

definition writeCandidatesAnalysis :: "path_env \<Rightarrow> tool_call \<Rightarrow> bash_analysis option \<Rightarrow> path_candidate list" where
  "writeCandidatesAnalysis pe tc bash =
     (if isWriteToolCall tc then map (tool_candidate tc) (tcPaths tc) else []) @
     (case bash of
        None \<Rightarrow> []
      | Some a \<Rightarrow>
          if baFailed a then [] else concat (map (command_writes pe tc a) (enumerate 0 (baSimples a))))"

section \<open>Protected files\<close>

definition gitProtectedGlobs :: "string list" where
  "gitProtectedGlobs = [''**/.git/config'', ''**/.git/hooks/**'']"

definition checkGitProtectedPathCandidates :: "path_env \<Rightarrow> path_candidate list \<Rightarrow> verdict option" where
  "checkGitProtectedPathCandidates pe candidates =
     (case find (\<lambda>c. matchesScoped pe c gitProtectedGlobs []) candidates of
        Some c \<Rightarrow> deny ''P2.git-protected-path'' (''write to a protected git-internal path: '' @ pcPath c)
      | None \<Rightarrow> None)"

definition selfConfigGlobs :: "string list" where
  "selfConfigGlobs =
      [''**/.codex'', ''**/.codex/**'', ''**/.claude'', ''**/.claude/settings.json'',
       ''**/.claude/settings.local.json'', ''**/.claude/hooks/**'', ''**/.claude/plugins/**'',
       ''**/.claude/agents/**'', ''**/.claude/commands/**'', ''**/.claude/skills/**'',
       ''**/.claude/CLAUDE.md'', ''**/.envrc'', ''**/.bashrc'', ''**/.zshrc'', ''**/.profile'',
       ''**/.bash_profile'', ''**/guardrail.toml'', ''**/.guardrail/**'', ''**/.config/guardrail/**'',
       ''**/guardrail/waivers.toml'', ''**/guardrail/night.toml'', ''**/guardrail/sessions'',
       ''**/guardrail/sessions/**'', ''**/guardrail/approval-tickets'',
       ''**/guardrail/approval-tickets/**'', ''**/guardrail/actions'', ''**/guardrail/actions/**'',
       ''**/opencode.json'', ''**/.agents/hooks.json'', ''**/.gemini/config/hooks.json'',
       ''**/.local/bin/guardrail'', ''**/bin/guardrail'', ''**/.local/bin/guardrail.exe'',
       ''**/bin/guardrail.exe'', ''**/.local/bin/guardrail.previous'', ''**/bin/guardrail.previous'',
       ''**/.local/bin/guardrail.previous.exe'', ''**/bin/guardrail.previous.exe'',
       ''**/guardrail/previous.json'']"

definition selfConfigRootOnly :: "string list" where
  "selfConfigRootOnly =
      [''CLAUDE.md'', ''AGENTS.md'', ''.mcp.json'']"

definition ciInfraLockGlobs :: "string list" where
  "ciInfraLockGlobs =
      [''**/.github/workflows/**'', ''**/.circleci/**'', ''**/.buildkite/**'']"

definition ciInfraRootOnly :: "string list" where
  "ciInfraRootOnly =
      [''.gitlab-ci.yml'', ''Jenkinsfile'', ''.pre-commit-config.yaml'', ''azure-pipelines.yml'',
       ''Dockerfile'', ''docker-compose*.yml'', ''*.tf'', ''Makefile'', ''justfile'', ''Taskfile.yml'',
       ''setup.py'', ''conftest.py'', ''noxfile.py'', ''package-lock.json'', ''yarn.lock'',
       ''pnpm-lock.yaml'', ''Cargo.lock'', ''poetry.lock'', ''uv.lock'', ''go.sum'', ''Gemfile.lock'',
       ''mix.lock'', ''composer.lock'']"

definition checkCIInfraLockfileCandidates :: "path_env \<Rightarrow> path_candidate list \<Rightarrow> verdict option" where
  "checkCIInfraLockfileCandidates pe candidates =
     (case find (\<lambda>c. matchesScoped pe c ciInfraLockGlobs ciInfraRootOnly) candidates of
        Some c \<Rightarrow>
          ask ''P5.ci-infra-lockfile''
            (''edit of a CI/infra/lockfile '' @ [CHR 0xE2, CHR 0x80, CHR 0x94] @
             '' this code runs later with more privilege: '' @ pcPath c)
      | None \<Rightarrow> None)"

definition parsed_commands :: "bash_analysis option \<Rightarrow> simple list" where
  "parsed_commands bash = (case bash of Some a \<Rightarrow> if baFailed a then [] else baOrdered a | None \<Rightarrow> [])"

definition powershellWriteCandidates :: "tool_call \<Rightarrow> bash_analysis option \<Rightarrow> path_candidate list" where
  "powershellWriteCandidates tc bash =
     concat (map (\<lambda>s. case powershellWriteTargets (Argv s) of
                        None \<Rightarrow> []
                      | Some targets \<Rightarrow> map (shell_candidate tc s) (concat (map windowsTargetSpellings targets)))
       (parsed_commands bash))"

definition installedBinaryGlobs :: "string list" where
  "installedBinaryGlobs =
     [''**/.local/bin/guardrail'', ''**/bin/guardrail'', ''**/.local/bin/guardrail.exe'', ''**/bin/guardrail.exe'']"

definition moved_spellings :: "simple \<Rightarrow> string list" where
  "moved_spellings s =
     (if head (Argv s) \<noteq> ''mv'' then []
      else concat (map (\<lambda>source. windowsTargetSpellings source @ binaryWildcardExpansions source)
             (moveSourceTargets (Argv s))))"

definition movedAwayBinary :: "path_env \<Rightarrow> tool_call \<Rightarrow> bash_analysis option \<Rightarrow> string" where
  "movedAwayBinary pe tc bash =
     (case first_hit (map (\<lambda>s. find (\<lambda>p. matchesScoped pe (shell_candidate tc s p) installedBinaryGlobs []) (moved_spellings s))
             (parsed_commands bash)) of
        Some p \<Rightarrow> p | None \<Rightarrow> '''')"

definition deleted_targets :: "simple \<Rightarrow> string list" where
  "deleted_targets s =
     (let command = head (Argv s)
      in if command = ''rm'' \<or> command = ''rmdir'' \<and> \<not> psCmdletShaped (Argv s) removeItemParams
         then posixOperands (Argv s)
         else if command \<in> set removeItemAliases then pbOperands (bindPS (Argv s) removeItemParams)
         else [])"

definition deletedInstallDirectory :: "bash_analysis option \<Rightarrow> string" where
  "deletedInstallDirectory bash =
     (case first_hit (map (\<lambda>s. find (\<lambda>t. isInstallDirectory t (Cwd s)) (deleted_targets s)) (parsed_commands bash)) of
        Some t \<Rightarrow> t | None \<Rightarrow> '''')"

definition installs_guardrail :: "string \<Rightarrow> bool" where
  "installs_guardrail arg \<longleftrightarrow>
     \<not> has_prefix arg ''-'' \<and> path_base (cut_name CHR ''@'' (to_slash arg)) \<in> set [''guardrail'', ''...'']"

definition go_install_hit :: "simple \<Rightarrow> string option" where
  "go_install_hit s =
     (if head (Argv s) \<noteq> ''go'' \<or> goBin s = '''' \<or> \<not> isInstallDirectory (goBin s) (Cwd s) then None
      else (case goSubcommand (Argv s) of
              Some (sub, rest) \<Rightarrow> if sub = ''install'' \<and> list_ex installs_guardrail rest then Some (goBin s) else None
            | None \<Rightarrow> None))"

definition goInstallsGuardrailInto :: "bash_analysis option \<Rightarrow> string" where
  "goInstallsGuardrailInto bash =
     (case first_hit (map go_install_hit (parsed_commands bash)) of Some d \<Rightarrow> d | None \<Rightarrow> '''')"

section \<open>The operator's files\<close>

definition matchesNormalizedOperatorConfigPath :: "string \<Rightarrow> bool" where
  "matchesNormalizedOperatorConfigPath candidate =
     (let cleaned = to_lower (clean (to_slash candidate))
      in contains cleaned ''/.config/guardrail/'' \<or> contains cleaned ''/guardrail/waivers.toml'' \<or>
         contains cleaned ''/guardrail/night.toml'' \<or> has_suffix cleaned ''/guardrail/approval-tickets'' \<or>
         contains cleaned ''/guardrail/approval-tickets/'' \<or> has_suffix cleaned ''/guardrail/actions'' \<or>
         contains cleaned ''/guardrail/actions/'')"

definition matchesOperatorConfigPath :: "path_env \<Rightarrow> string \<Rightarrow> bool" where
  "matchesOperatorConfigPath pe candidate =
     (let normalized = to_slash candidate
      in case peURL pe normalized of
           None \<Rightarrow> matchesNormalizedOperatorConfigPath normalized
         | Some u \<Rightarrow>
             if fuScheme u \<noteq> '''' \<and> \<not> isWindowsDrivePath normalized
             then (if \<not> equal_fold (fuScheme u) ''file'' then False
                   else if fuHost u \<noteq> '''' \<and> \<not> equal_fold (fuHost u) ''localhost'' then False
                   else (case fuPath u of
                           Some decoded \<Rightarrow> matchesNormalizedOperatorConfigPath decoded
                         | None \<Rightarrow> matchesNormalizedOperatorConfigPath normalized))
             else matchesNormalizedOperatorConfigPath normalized)"

definition containsOperatorConfigPath :: "path_env \<Rightarrow> string \<Rightarrow> bool" where
  "containsOperatorConfigPath pe arg = list_ex (matchesOperatorConfigPath pe) (visiblePathCandidates arg)"

definition InstalledBinaryMentionReason :: string where
  "InstalledBinaryMentionReason =
     ''opaque input names the installed guardrail binary; Guardrail cannot tell a read or a run from a write or a delete. '' @
     ''Replace it with '' @ [CHR 0x60] @ ''guardrail update'' @ [CHR 0x60] @ '', run it as '' @ [CHR 0x60] @
     ''guardrail <command>'' @ [CHR 0x60] @ '', or ask the operator to do it from their own terminal''"

definition opaque_argument_hit :: "path_env \<Rightarrow> simple \<Rightarrow> string \<Rightarrow> verdict option" where
  "opaque_argument_hit pe s arg =
     (if containsOperatorConfigPath pe arg
      then deny ''P5.self-config'' (''opaque command names the Operator config: '' @ head (Argv s))
      else if mentionsInstalledBinary arg
      then deny ''P5.self-config'' (InstalledBinaryMentionReason @ '' ('' @ head (Argv s) @ '')'')
      else None)"

definition opaque_hits :: "path_env \<Rightarrow> simple \<Rightarrow> verdict option list" where
  "opaque_hits pe s =
     (if isOpaqueExecutor (head (Argv s)) then map (opaque_argument_hit pe s) (tl (Argv s)) else [])"

definition self_config_candidates ::
  "tool_call \<Rightarrow> path_candidate list \<Rightarrow> bash_analysis option \<Rightarrow> path_candidate list" where
  "self_config_candidates tc candidates bash =
     (let written = candidates @ powershellWriteCandidates tc bash
      in written @ concat (map (\<lambda>c. map (\<lambda>p. c\<lparr>pcPath := p\<rparr>) (binaryWildcardExpansions (pcPath c))) written))"

definition self_path_hit :: "path_env \<Rightarrow> path_candidate \<Rightarrow> verdict option" where
  "self_path_hit pe c =
     (if matchesScoped pe c selfConfigGlobs selfConfigRootOnly
      then deny ''P5.self-config'' (''write to the agent's own guardrail/shell config: '' @ pcPath c) else None)"

definition named_hit :: "string \<Rightarrow> string \<Rightarrow> string \<Rightarrow> verdict option" where
  "named_hit before name after = (if name \<noteq> '''' then deny ''P5.self-config'' (before @ name @ after) else None)"

definition checkSelfConfigCandidatesAnalysis ::
  "path_env \<Rightarrow> tool_call \<Rightarrow> path_candidate list \<Rightarrow> bash_analysis option \<Rightarrow> verdict option" where
  "checkSelfConfigCandidatesAnalysis pe tc candidates bash =
     first_hit
       (map (self_path_hit pe) (self_config_candidates tc candidates bash) @
        [named_hit ''moves the installed guardrail binary away: '' (movedAwayBinary pe tc bash)
           (''; replace it with '' @ [CHR 0x60] @ ''guardrail update'' @ [CHR 0x60]),
         named_hit ''deletes the guardrail install directory: '' (deletedInstallDirectory bash)
           ''; the binary's directory is the operator's'',
         named_hit ''go install writes a guardrail binary over the installed one in '' (goInstallsGuardrailInto bash)
           (''; replace it with '' @ [CHR 0x60] @ ''guardrail update'' @ [CHR 0x60])] @
        concat (map (opaque_hits pe) (parsed_commands bash)) @
        [case bash of
           Some a \<Rightarrow>
             if baFailed a \<and> mentionsInstalledBinary (tcCommand tc)
             then deny ''P5.self-config'' (InstalledBinaryMentionReason @ '' (unparsed command)'') else None
         | None \<Rightarrow> None])"

section \<open>Writes outside, links that escape\<close>

definition out_of_repo_hit :: "host \<Rightarrow> tool_call \<Rightarrow> string \<Rightarrow> verdict option" where
  "out_of_repo_hit h tc p =
     (let c = tool_candidate tc p;
          (authorized, lexical) = authorizedPath h c (tcRepoRoot tc) [] (strictWriteRoots h tc c) False
      in if authorized then None
         else if \<not> lexical \<and> is_abs p \<and>
                 (case abs_path h (resolvePath p (tcCWD tc)) of
                    Some targ \<Rightarrow> sameRepository h targ (tcRepoRoot tc)
                  | None \<Rightarrow> False)
         then None
         else ask ''P5.out-of-repo'' (''write target is outside the repo/worktree root: '' @ p))"

definition checkOutOfRepoWrite :: "host \<Rightarrow> tool_call \<Rightarrow> verdict option" where
  "checkOutOfRepoWrite h tc =
     (if tcRepoRoot tc = '''' \<or> \<not> isWriteToolCall tc then None
      else first_hit (map (out_of_repo_hit h tc) (tcPaths tc)))"

definition holds_loosely :: "path_relation \<Rightarrow> bool" where
  "holds_loosely r \<longleftrightarrow> prEqual r \<or> prWithin r"

definition checkSymlinkEscape :: "host \<Rightarrow> path_candidate \<Rightarrow> tool_call \<Rightarrow> verdict option" where
  "checkSymlinkEscape h c tc =
     (let cand = trim_prefix (trim_prefix (pcPath c) ''~/'') ''~'';
          absolute = (if is_abs cand then cand else join_path (pcCwd c) cand)
      in if tcRepoRoot tc = '''' \<or> pcCwdUnknown c \<and> \<not> is_abs cand then None
         else if \<not> holds_loosely (pathRelationBetween h absolute (tcRepoRoot tc)) then None
         else (case (resolveExistingPath h absolute '''', resolveExistingPath h (tcRepoRoot tc) '''') of
                 (Some resolved, Some root) \<Rightarrow>
                   if \<not> holds_loosely (pathRelationBetween h resolved root)
                   then deny ''P4.symlink-escape'' (''a path inside the repo resolves outside it via symlink: '' @ cand)
                   else None
               | _ \<Rightarrow> None))"

section \<open>The whole check\<close>

text \<open>A hit of a rule that can be waived.\<close>

definition waivable :: "policy \<Rightarrow> verdict option \<Rightarrow> verdict option" where
  "waivable pol hit = (case hit of Some v \<Rightarrow> if waived pol (vRuleID v) then None else Some v | None \<Rightarrow> None)"

definition path_hits :: "path_env \<Rightarrow> tool_call \<Rightarrow> policy \<Rightarrow> bash_analysis option \<Rightarrow> verdict option list" where
  "path_hits pe tc pol bash =
     (case parsePrivatePathsAnalysis pe tc bash of
        (candidates, doubt) \<Rightarrow>
          let writes = writeCandidatesAnalysis pe tc bash
          in concat (map (\<lambda>c. [classifySecretPath pe c pol True, waivable pol (checkSymlinkEscape (peHost pe) c tc)])
               candidates) @
             map (waivable pol)
               [(if doubt \<noteq> '''' then ask ''P4.path-parse-uncertain'' doubt else None),
                checkGitProtectedPathCandidates pe writes,
                checkSelfConfigCandidatesAnalysis pe tc writes bash,
                checkCIInfraLockfileCandidates pe writes,
                checkOutOfRepoWrite (peHost pe) tc])"

definition checkPathsAnalysis ::
  "path_env \<Rightarrow> tool_call \<Rightarrow> policy \<Rightarrow> bash_analysis option \<Rightarrow> verdict option" where
  "checkPathsAnalysis pe tc pol bash = worst_hit (path_hits pe tc pol bash)"

section \<open>Facts: the verdicts\<close>

lemma worst_hit_severe:
  "Some v \<in> set hits \<Longrightarrow> \<exists>w. worst_hit hits = Some w \<and> Some w \<in> set hits \<and> Severity (vDecision v) \<le> Severity (vDecision w)"
  using worst_hit_None [of hits v] worst_hit_Some [of hits] by (cases "worst_hit hits") auto

definition restricting :: "verdict option \<Rightarrow> bool" where
  "restricting hit \<longleftrightarrow> (\<forall>v. hit = Some v \<longrightarrow> vDecision v = Ask \<or> vDecision v = Deny)"

lemma restricting_simps [simp]:
  "restricting None" "restricting (ask r m)" "restricting (deny r m)"
  "restricting (if b then x else y) = (if b then restricting x else restricting y)"
  by (auto simp: restricting_def ask_def deny_def)

lemma restricting_waivable: "restricting hit \<Longrightarrow> restricting (waivable pol hit)"
  by (auto simp: restricting_def waivable_def split: option.splits if_splits)

lemma restricting_first_hit: "(\<forall>x\<in>set hits. restricting x) \<Longrightarrow> restricting (first_hit hits)"
  by (auto simp: restricting_def dest: first_hit_Some)

lemma restricting_worse: "restricting w \<Longrightarrow> restricting (Some v) \<Longrightarrow> restricting (worse w v)"
  by (auto simp: restricting_def worse_def split: option.splits)

lemma secret_forms_restrict: "restricting w \<Longrightarrow> restricting (secret_forms pe pol honor c w forms)"
proof (induction forms arbitrary: w)
  case (Cons form forms)
  have s: "restricting (Some (secretPathVerdict Deny r f))" "restricting (Some (ambiguous_secret pe c f))" for r f
    by (auto simp: restricting_def secretPathVerdict_def ambiguous_secret_def)
  have "restricting (take_secret pol honor u v)" if "restricting u" "restricting (Some v)" for u v
    using that by (simp add: take_secret_def restricting_worse)
  with Cons s show ?case by (simp add: Let_def)
qed simp

lemma classifySecretPath_restricts: "restricting (classifySecretPath pe c pol honor)"
  using secret_forms_restrict [of None pe pol honor c "pathCandidateForms (peHost pe) c"]
  by (auto simp: classifySecretPath_def classifySecretPathOperand_def restricting_def split: option.splits if_splits)

lemma checkSelfConfig_restricts: "restricting (checkSelfConfigCandidatesAnalysis pe tc writes bash)"
  unfolding checkSelfConfigCandidatesAnalysis_def
  by (rule restricting_first_hit)
    (auto simp: self_path_hit_def named_hit_def opaque_hits_def opaque_argument_hit_def split: option.split)

lemma path_hits_restrict: "hit \<in> set (path_hits pe tc pol bash) \<Longrightarrow> restricting hit"
proof -
  have "restricting (checkSymlinkEscape (peHost pe) c tc)" for c
    by (auto simp: checkSymlinkEscape_def Let_def split: option.split)
  moreover have "restricting (checkOutOfRepoWrite (peHost pe) tc)"
    by (auto simp: checkOutOfRepoWrite_def out_of_repo_hit_def Let_def intro!: restricting_first_hit split: prod.split)
  moreover have "restricting (checkGitProtectedPathCandidates pe w)" "restricting (checkCIInfraLockfileCandidates pe w)" for w
    by (auto simp: checkGitProtectedPathCandidates_def checkCIInfraLockfileCandidates_def split: option.split)
  ultimately show "hit \<in> set (path_hits pe tc pol bash) \<Longrightarrow> restricting hit"
    using classifySecretPath_restricts checkSelfConfig_restricts
    by (auto simp: path_hits_def Let_def intro: restricting_waivable split: prod.splits)
qed

lemma path_deny_final:
  assumes "Some v \<in> set (path_hits pe tc pol bash)" and "vDecision v = Deny"
  shows "\<exists>w. checkPathsAnalysis pe tc pol bash = Some w \<and> vDecision w = Deny"
proof -
  from worst_hit_severe [OF assms(1)] obtain w where w: "checkPathsAnalysis pe tc pol bash = Some w"
    "Some w \<in> set (path_hits pe tc pol bash)" "Severity (vDecision v) \<le> Severity (vDecision w)"
    by (auto simp: checkPathsAnalysis_def)
  from path_hits_restrict [OF w(2)] w(3) assms(2) have "vDecision w = Deny" by (auto simp: restricting_def)
  with w(1) show ?thesis by blast
qed

section \<open>Facts: secrets\<close>

lemma secret_forms_dirs:
  "form \<in> set forms \<Longrightarrow> matchesAnyGlob pe form (SecretDirs (Slots pol)) \<Longrightarrow>
   \<exists>f. secret_forms pe pol honor c w forms = Some (secretPathVerdict Deny ''P4.secret-path'' f)"
  by (induction forms arbitrary: w) (auto simp: Let_def)

lemma secret_directory_classified:
  assumes "form \<in> set (pathCandidateForms (peHost pe) c)" and "matchesAnyGlob pe form (SecretDirs (Slots pol))"
    and "textShapedOperand (pcPath c) \<longrightarrow> \<not> waived pol ''P4.secret-in-text''"
  shows "\<exists>v. classifySecretPath pe c pol True = Some v \<and> vDecision v = Deny"
  using secret_forms_dirs [OF assms(1,2), of True c None] assms(3)
  by (auto simp: classifySecretPath_def classifySecretPathOperand_def secretPathVerdict_def deny_def)

text \<open>The words by which a command names files.\<close>

definition names_file :: "simple \<Rightarrow> string \<Rightarrow> bool" where
  "names_file s w \<longleftrightarrow>
     w \<in> set (Redirects s) \<union> set (ReadRedirects s) \<union> set (writeTargets s) \<or>
     Argv s \<noteq> [] \<and> head (Argv s) \<notin> set specialOperandCommands \<and> w \<in> set (tl (Argv s)) \<and> \<not> has_prefix w ''-'' \<and>
     (head (Argv s) \<in> set pathOperandCommands \<or> looksLikePathOperand w)"

lemma names_file_candidate:
  assumes "names_file s w"
  shows "shell_candidate tc s w \<in> set (simple_paths tc s)"
proof (cases "w \<in> set (Redirects s) \<union> set (ReadRedirects s) \<union> set (writeTargets s)")
  case True
  then show ?thesis by (auto simp: simple_paths_def)
next
  case False
  with assms plain_operand_suspected [of "Argv s" w] have "w \<in> set (operand_paths s)"
    by (auto simp: names_file_def operand_paths_def suspected_def Let_def)
  then show ?thesis by (simp add: simple_paths_def)
qed

lemma command_paths_in:
  assumes "i < length (baSimples a)" and "map_of (baFinds a) i = None" and "\<not> baFailed a"
    and "c \<in> set (simple_paths tc (baSimples a ! i))"
  shows "c \<in> set (fst (parsePrivatePathsAnalysis pe tc (Some a)))"
proof -
  have "(i, baSimples a ! i) \<in> set (enumerate 0 (baSimples a))"
    using assms(1) by (auto simp: in_set_enumerate_eq)
  moreover have "c \<in> set (command_paths pe tc a (i, baSimples a ! i))" using assms(2,4) by (simp add: command_paths_def)
  ultimately have "c \<in> set (concat (map (command_paths pe tc a) (enumerate 0 (baSimples a))))" by (simp only: set_concat set_map) blast
  with assms(3) show ?thesis by (simp add: parsePrivatePathsAnalysis_def Let_def)
qed

lemma secret_candidate_hit:
  assumes "c \<in> set (fst (parsePrivatePathsAnalysis pe tc bash))"
  shows "classifySecretPath pe c pol True \<in> set (path_hits pe tc pol bash)"
    and "waivable pol (checkSymlinkEscape (peHost pe) c tc) \<in> set (path_hits pe tc pol bash)"
proof -
  obtain candidates doubt where p: "parsePrivatePathsAnalysis pe tc bash = (candidates, doubt)" by (rule prod.exhaust)
  with assms have c: "c \<in> set candidates" by simp
  from c show "classifySecretPath pe c pol True \<in> set (path_hits pe tc pol bash)"
    unfolding path_hits_def p Let_def prod.case set_append set_concat set_map by fastforce
  from c show "waivable pol (checkSymlinkEscape (peHost pe) c tc) \<in> set (path_hits pe tc pol bash)"
    unfolding path_hits_def p Let_def prod.case set_append set_concat set_map by fastforce
qed

lemma self_config_hit:
  "waivable pol (checkSelfConfigCandidatesAnalysis pe tc (writeCandidatesAnalysis pe tc bash) bash)
     \<in> set (path_hits pe tc pol bash)"
  by (cases "parsePrivatePathsAnalysis pe tc bash") (simp add: path_hits_def Let_def)

lemma secret_word_denied:
  assumes "\<not> baFailed a" and "i < length (baSimples a)" and "map_of (baFinds a) i = None"
    and "names_file (baSimples a ! i) w"
    and "form \<in> set (pathCandidateForms (peHost pe) (shell_candidate tc (baSimples a ! i) w))"
    and "matchesAnyGlob pe form (SecretDirs (Slots pol))"
    and "textShapedOperand w \<longrightarrow> \<not> waived pol ''P4.secret-in-text''"
  shows "\<exists>v. checkPathsAnalysis pe tc pol (Some a) = Some v \<and> vDecision v = Deny"
proof -
  let ?c = "shell_candidate tc (baSimples a ! i) w"
  have c: "?c \<in> set (fst (parsePrivatePathsAnalysis pe tc (Some a)))"
    by (rule command_paths_in [OF assms(2,3,1) names_file_candidate [OF assms(4)]])
  have "textShapedOperand (pcPath ?c) \<longrightarrow> \<not> waived pol ''P4.secret-in-text''"
    using assms(7) by (simp add: shell_candidate_def)
  from secret_directory_classified [OF assms(5,6) this] obtain v
    where "classifySecretPath pe ?c pol True = Some v" "vDecision v = Deny" by blast
  with secret_candidate_hit(1) [OF c, of pol] show ?thesis by (auto intro: path_deny_final)
qed

section \<open>Facts: protected files and links\<close>

lemma first_hit_member: "Some v \<in> set hits \<Longrightarrow> \<exists>w. first_hit hits = Some w \<and> Some w \<in> set hits"
  using first_hit_None [of hits] first_hit_Some [of hits] by (cases "first_hit hits") auto

definition self_denial :: "verdict option \<Rightarrow> bool" where
  "self_denial hit \<longleftrightarrow> (\<forall>v. hit = Some v \<longrightarrow> vDecision v = Deny \<and> vRuleID v = ''P5.self-config'')"

lemma self_denial_simps [simp]: "self_denial None" "self_denial (deny ''P5.self-config'' m)"
  by (simp_all add: self_denial_def deny_def)

lemma self_denial_hits:
  "self_denial (self_path_hit pe c)" "self_denial (named_hit x y z)" "hit \<in> set (opaque_hits pe s) \<Longrightarrow> self_denial hit"
  by (auto simp: self_path_hit_def named_hit_def opaque_hits_def opaque_argument_hit_def)

lemma self_config_denies:
  assumes "checkSelfConfigCandidatesAnalysis pe tc writes bash = Some v"
  shows "vDecision v = Deny \<and> vRuleID v = ''P5.self-config''"
proof -
  let ?unparsed = "case bash of
           Some a \<Rightarrow>
             if baFailed a \<and> mentionsInstalledBinary (tcCommand tc)
             then deny ''P5.self-config'' (InstalledBinaryMentionReason @ '' (unparsed command)'') else None
         | None \<Rightarrow> None"
  have u: "self_denial ?unparsed" by (simp split: option.split)
  have "\<forall>hit\<in>set (concat (map (opaque_hits pe) (parsed_commands bash))). self_denial hit"
    by (auto intro: self_denial_hits(3))
  moreover have "\<forall>hit\<in>set (map (self_path_hit pe) (self_config_candidates tc writes bash)). self_denial hit"
    by (auto intro: self_denial_hits(1))
  ultimately have "self_denial (Some v)"
    using first_hit_Some [OF assms [unfolded checkSelfConfigCandidatesAnalysis_def]] u
    unfolding set_append Un_iff list.set insert_iff empty_iff by (elim disjE) (auto simp only: self_denial_hits(2))
  then show ?thesis by (simp add: self_denial_def)
qed

lemma self_config_write_denied:
  assumes "c \<in> set (writeCandidatesAnalysis pe tc bash)" and "matchesScoped pe c selfConfigGlobs selfConfigRootOnly"
    and "\<not> waived pol ''P5.self-config''"
  shows "\<exists>v. checkPathsAnalysis pe tc pol bash = Some v \<and> vDecision v = Deny"
proof -
  let ?check = "checkSelfConfigCandidatesAnalysis pe tc (writeCandidatesAnalysis pe tc bash) bash"
  have "c \<in> set (self_config_candidates tc (writeCandidatesAnalysis pe tc bash) bash)"
    using assms(1) by (simp add: self_config_candidates_def Let_def)
  moreover obtain u where "self_path_hit pe c = Some u" using assms(2) by (auto simp: self_path_hit_def deny_def)
  ultimately have "Some u \<in> set (map (self_path_hit pe) (self_config_candidates tc (writeCandidatesAnalysis pe tc bash) bash))"
    by (metis image_eqI list.set_map)
  then have "\<exists>v. ?check = Some v"
    unfolding checkSelfConfigCandidatesAnalysis_def by (metis (no_types, lifting) UnI1 first_hit_member set_append)
  then obtain v where v: "?check = Some v" by blast
  then have "Some v \<in> set (path_hits pe tc pol bash)" "vDecision v = Deny"
    using self_config_denies [OF v] assms(3) self_config_hit [of pol pe tc bash] by (simp_all add: waivable_def)
  then show ?thesis by (rule path_deny_final)
qed

lemma link_escape_denied:
  assumes "c \<in> set (fst (parsePrivatePathsAnalysis pe tc bash))" and "checkSymlinkEscape (peHost pe) c tc = Some v"
    and "\<not> waived pol ''P4.symlink-escape''"
  shows "\<exists>w. checkPathsAnalysis pe tc pol bash = Some w \<and> vDecision w = Deny"
proof -
  have v: "vDecision v = Deny" "vRuleID v = ''P4.symlink-escape''"
    using assms(2) by (auto simp: checkSymlinkEscape_def Let_def split: if_splits option.splits)
  with secret_candidate_hit(2) [OF assms(1), of pol] assms(2,3) have "Some v \<in> set (path_hits pe tc pol bash)"
    by (simp add: waivable_def)
  with v(1) show ?thesis by (intro path_deny_final)
qed

section \<open>A link named from the home directory\<close>

text \<open>A small policy and environment: keys live under \<^verbatim>\<open>.ssh\<close>, and \<^verbatim>\<open>/home/alice/keys\<close> is a link to it.\<close>

definition ssh_policy :: policy where
  "ssh_policy = bare_policy\<lparr>Slots := (Slots bare_policy)\<lparr>SecretDirs := [''**/.ssh/**'']\<rparr>\<rparr>"

definition ssh_env :: path_env where
  "ssh_env =
     \<lparr>peHost = plain_host\<lparr>hostFs := \<lparr>fs_lstat = (\<lambda>_. Exists),
        fs_eval_symlinks = (\<lambda>p. Some (if p = ''/home/alice/keys/id'' then ''/home/alice/.ssh/id'' else p))\<rparr>\<rparr>,
      peGlob = (\<lambda>g p. g = ''**/.ssh/**'' \<and> (has_prefix p ''.ssh/'' \<or> contains p ''/.ssh/'')),
      peURL = (\<lambda>_. None), peLiteral = Some\<rparr>"

definition cat_analysis :: "string \<Rightarrow> bash_analysis" where
  "cat_analysis word =
     \<lparr>baSimples = [simple_of [''cat'', word]], baOrdered = [simple_of [''cat'', word]], baFinds = [], baFailed = False\<rparr>"

text \<open>The link is followed when the path is written out.  Written from the home directory it is looked up
  under the working directory of the command, where there is no link.\<close>

lemma written_link_denied:
  "\<exists>v. checkPathsAnalysis ssh_env repo_call ssh_policy (Some (cat_analysis ''/home/alice/keys/id'')) = Some v \<and>
     vDecision v = Deny"
  by (rule secret_word_denied [where i = 0 and w = "''/home/alice/keys/id''" and form = "''/home/alice/.ssh/id''"]; code_simp)

lemma tilde_link_passes:
  "checkPathsAnalysis ssh_env repo_call ssh_policy (Some (cat_analysis ''~/keys/id'')) = None"
  by code_simp

end
