(* ===== verification/Rules_Net.thy ===== *)
theory Rules_Net
  imports Rules_Shells Rules_Install
begin

text \<open>
  Network destinations: the egress rule of \<^verbatim>\<open>src/internal/engine/rules_net.go\<close> with the option parser for
  curl, wget, ssh and sftp.

  \<open>net_env\<close> holds what the standard library's parsers answer: \<^verbatim>\<open>net.ParseIP\<close> (the address in its canonical
  spelling), the host name of \<^verbatim>\<open>url.Parse\<close> (\<open>None\<close> is an error), the quoting of \<^verbatim>\<open>%q\<close>, the third-party glob
  matcher and the shell parser's \<^verbatim>\<open>literalText\<close>.  \<^verbatim>\<open>net.SplitHostPort\<close> is modelled.  An error is its text.  An option
  byte outside ASCII is quoted as itself in an error.

  The parser consumes its argument vector; \<open>net_closed\<close> says of the words before a position that none of
  them takes the word at that position as its value.  The theorem: whatever options stand before it
  and whatever follows, a destination of curl or wget is judged.
\<close>

section \<open>Options\<close>

record net_env =
  neParseIP :: "string \<Rightarrow> string option"
  neHostname :: "string \<Rightarrow> string option"
  neQuote :: "string \<Rightarrow> string"
  neGlob :: "string \<Rightarrow> string \<Rightarrow> bool"
  neLiteral :: "string \<Rightarrow> string option"

record network_option_spec =
  noShortFlags :: string
  noShortValues :: string
  noLongFlags :: "string list"
  noLongValues :: "string list"
  noLongTargetValues :: "string list"
  noStopAtFirstOperand :: bool

definition curlLongFlags :: "string list" where
  "curlLongFlags =
      [''--anyauth'', ''--basic'', ''--compressed'', ''--create-dirs'', ''--digest'',
       ''--disable'', ''--fail'', ''--fail-early'', ''--fail-with-body'', ''--get'', ''--globoff'',
       ''--head'', ''--http0.9'', ''--http1.0'', ''--http1.1'', ''--http2'',
       ''--http2-prior-knowledge'', ''--include'', ''--insecure'', ''--ipv4'', ''--ipv6'',
       ''--location'', ''--location-trusted'', ''--cert-status'', ''--netrc'',
       ''--netrc-optional'', ''--no-buffer'', ''--no-keepalive'', ''--no-progress-meter'',
       ''--ntlm'', ''--parallel'', ''--path-as-is'', ''--progress-bar'', ''--proxytunnel'',
       ''--remote-header-name'', ''--remote-name'', ''--remote-name-all'', ''--retry-all-errors'',
       ''--retry-connrefused'', ''--show-error'', ''--silent'', ''--ssl'', ''--ssl-reqd'',
       ''--tcp-fastopen'', ''--tcp-nodelay'', ''--tlsv1'', ''--trace-time'', ''--use-ascii'',
       ''--verbose'', ''--version'']"

definition curlLongValues :: "string list" where
  "curlLongValues =
      [''--abstract-unix-socket'', ''--alt-svc'', ''--aws-sigv4'', ''--cacert'', ''--capath'',
       ''--cert'', ''--cert-type'', ''--ciphers'', ''--config'', ''--connect-timeout'',
       ''--connect-to'', ''--cookie'', ''--cookie-jar'', ''--create-file-mode'', ''--crlfile'',
       ''--data'', ''--data-ascii'', ''--data-binary'', ''--data-raw'', ''--data-urlencode'',
       ''--delegation'', ''--dns-interface'', ''--dns-ipv4-addr'', ''--dns-ipv6-addr'',
       ''--dns-servers'', ''--dump-header'', ''--egd-file'', ''--engine'', ''--expect100-timeout'',
       ''--form'', ''--form-string'', ''--ftp-account'', ''--ftp-alternative-to-user'',
       ''--ftp-method'', ''--ftp-port'', ''--happy-eyeballs-timeout-ms'', ''--header'',
       ''--hostpubmd5'', ''--interface'', ''--key'', ''--key-type'', ''--krb'', ''--libcurl'',
       ''--limit-rate'', ''--local-port'', ''--max-filesize'', ''--max-redirs'', ''--max-time'',
       ''--netrc-file'', ''--oauth2-bearer'', ''--output'', ''--output-dir'', ''--pass'',
       ''--pinnedpubkey'', ''--preproxy'', ''--proto'', ''--proto-default'', ''--proto-redir'',
       ''--proxy'', ''--proxy-cacert'', ''--proxy-capath'', ''--proxy-cert'',
       ''--proxy-cert-type'', ''--proxy-ciphers'', ''--proxy-crlfile'', ''--proxy-header'',
       ''--proxy-key'', ''--proxy-key-type'', ''--proxy-pass'', ''--proxy-service-name'',
       ''--proxy-ssl-allow-beast'', ''--proxy-tls13-ciphers'', ''--proxy-tlsauthtype'',
       ''--proxy-tlspassword'', ''--proxy-tlsuser'', ''--proxy-user'', ''--pubkey'', ''--quote'',
       ''--range'', ''--referer'', ''--request'', ''--request-target'', ''--resolve'', ''--retry'',
       ''--retry-delay'', ''--retry-max-time'', ''--service-name'', ''--socks4'', ''--socks4a'',
       ''--socks5'', ''--socks5-hostname'', ''--speed-limit'', ''--speed-time'', ''--stderr'',
       ''--telnet-option'', ''--tftp-blksize'', ''--time-cond'', ''--tls-max'',
       ''--tls13-ciphers'', ''--trace'', ''--trace-ascii'', ''--unix-socket'', ''--upload-file'',
       ''--user'', ''--user-agent'', ''--write-out'']"

definition curlOptions :: network_option_spec where
  "curlOptions =
     \<lparr>noShortFlags = ''#046aBfFGghIiJklLMnNOPpqRsSVZ'', noShortValues = ''AbcCdDeEFHKmoPQrTtuUwXxYyz'',
      noLongFlags = curlLongFlags, noLongValues = curlLongValues, noLongTargetValues = [''--url''],
      noStopAtFirstOperand = False\<rparr>"

definition wgetLongFlags :: "string list" where
  "wgetLongFlags =
      [''--adjust-extension'', ''--auth-no-challenge'', ''--background'', ''--backup-converted'',
       ''--continue'', ''--convert-links'', ''--content-disposition'', ''--debug'',
       ''--delete-after'', ''--directories'', ''--force-directories'', ''--force-html'',
       ''--help'', ''--html-extension'', ''--http-keep-alive'', ''--ignore-case'',
       ''--ignore-length'', ''--inet4-only'', ''--inet6-only'', ''--mirror'', ''--no-cache'',
       ''--no-check-certificate'', ''--no-clobber'', ''--no-config'', ''--no-directories'',
       ''--no-glob'', ''--no-host-directories'', ''--no-http-keep-alive'', ''--no-iri'',
       ''--no-netrc'', ''--no-parent'', ''--no-proxy'', ''--no-remove-listing'',
       ''--no-use-server-timestamps'', ''--page-requisites'', ''--passive-ftp'', ''--quiet'',
       ''--random-wait'', ''--recursive'', ''--relative'', ''--server-response'',
       ''--show-progress'', ''--spider'', ''--timestamping'', ''--trust-server-names'',
       ''--verbose'', ''--version'']"

definition wgetLongValues :: "string list" where
  "wgetLongValues =
      [''--accept'', ''--accept-regex'', ''--base'', ''--bind-address'', ''--ca-certificate'',
       ''--ca-directory'', ''--certificate'', ''--certificate-type'', ''--config'',
       ''--connect-timeout'', ''--cut-dirs'', ''--directory-prefix'', ''--dns-timeout'',
       ''--domains'', ''--exclude-directories'', ''--exclude-domains'', ''--ftp-user'',
       ''--header'', ''--http-password'', ''--http-user'', ''--input-file'', ''--level'',
       ''--limit-rate'', ''--load-cookies'', ''--local-encoding'', ''--max-redirect'', ''--no'',
       ''--output-document'', ''--output-file'', ''--password'', ''--post-data'', ''--post-file'',
       ''--private-key'', ''--private-key-type'', ''--progress'', ''--protocol-directories'',
       ''--proxy-password'', ''--proxy-user'', ''--quota'', ''--read-timeout'', ''--referer'',
       ''--reject'', ''--reject-regex'', ''--remote-encoding'', ''--restrict-file-names'',
       ''--save-cookies'', ''--secure-protocol'', ''--timeout'', ''--tries'', ''--user'',
       ''--user-agent'', ''--wait'', ''--waitretry'']"

definition wgetOptions :: network_option_spec where
  "wgetOptions =
     \<lparr>noShortFlags = ''bcEFHhLNnpqrSv'', noShortValues = ''aABCDeIiloOPQtTUwX'',
      noLongFlags = wgetLongFlags, noLongValues = wgetLongValues, noLongTargetValues = [],
      noStopAtFirstOperand = False\<rparr>"

definition sshOptions :: network_option_spec where
  "sshOptions =
     \<lparr>noShortFlags = ''46AaCfGgKkMNnqstTVvXxYy'', noShortValues = ''BbcDEeFIiJLlmOoPpQRSWw'',
      noLongFlags = [], noLongValues = [], noLongTargetValues = [], noStopAtFirstOperand = True\<rparr>"

definition sftpOptions :: network_option_spec where
  "sftpOptions =
     \<lparr>noShortFlags = ''46AaCfNpqrv'', noShortValues = ''BbcDFiJloPRS'',
      noLongFlags = [], noLongValues = [], noLongTargetValues = [], noStopAtFirstOperand = True\<rparr>"

definition inertSSHSettings :: "string list" where
  "inertSSHSettings =
      [''addressfamily'', ''batchmode'', ''bindaddress'', ''bindinterface'', ''certificatefile'',
       ''checkhostip'', ''ciphers'', ''compression'', ''connectionattempts'', ''connecttimeout'',
       ''controlmaster'', ''controlpath'', ''controlpersist'', ''enableescapecommandline'',
       ''escapechar'', ''exitonforwardfailure'', ''fingerprinthash'', ''forwardagent'',
       ''forwardx11'', ''forwardx11timeout'', ''forwardx11trusted'', ''gatewayports'',
       ''globalknownhostsfile'', ''gssapiauthentication'', ''gssapidelegatecredentials'',
       ''hashknownhosts'', ''hostkeyalgorithms'', ''hostkeyalias'', ''identitiesonly'',
       ''identityagent'', ''identityfile'', ''ipqos'', ''kbdinteractiveauthentication'',
       ''kbdinteractivedevices'', ''loglevel'', ''logverbose'', ''macs'',
       ''nohostauthenticationforlocalhost'', ''numberofpasswordprompts'',
       ''passwordauthentication'', ''pkcs11provider'', ''port'', ''preferredauthentications'',
       ''proxyusefdpass'', ''pubkeyacceptedalgorithms'', ''pubkeyauthentication'', ''rekeylimit'',
       ''requesttty'', ''requiredrsasize'', ''sendenv'', ''serveralivecountmax'',
       ''serveraliveinterval'', ''sessiontype'', ''setenv'', ''stdinnull'',
       ''streamlocalbindmask'', ''streamlocalbindunlink'', ''stricthostkeychecking'',
       ''syslogfacility'', ''tcpkeepalive'', ''tunnel'', ''tunneldevice'', ''updatehostkeys'',
       ''user'', ''userknownhostsfile'', ''verifyhostkeydns'', ''visualhostkey'', ''xauthlocation'']"

section \<open>Hosts\<close>

definition malformed_target :: "net_env \<Rightarrow> string \<Rightarrow> string" where
  "malformed_target ne candidate = ''malformed target '' @ neQuote ne candidate"

definition hostFromURLCandidate :: "net_env \<Rightarrow> string \<Rightarrow> string + string" where
  "hostFromURLCandidate ne candidate =
     (case neParseIP ne (trim candidate ''[]'') of
        Some ip \<Rightarrow> Inr (to_lower ip)
      | None \<Rightarrow>
          let direct = neHostname ne candidate;
              tried = (if direct = None \<or> direct = Some '''' then neHostname ne (''//'' @ candidate) else direct)
          in if (direct = None \<or> direct = Some '''') \<and> contains candidate ''://''
             then Inl (malformed_target ne candidate)
             else (case tried of
                     Some (c # host) \<Rightarrow> Inr (to_lower (trim_suffix (c # host) ''.''))
                   | _ \<Rightarrow> Inl (''target '' @ neQuote ne candidate @ '' has no resolvable host'')))"

text \<open>\<^verbatim>\<open>net.SplitHostPort\<close>: the host, or \<open>None\<close> for its error.\<close>

definition after_last :: "char \<Rightarrow> string \<Rightarrow> string" where
  "after_last c s = rev (takeWhile (\<lambda>x. x \<noteq> c) (rev s))"

definition split_host_port :: "string \<Rightarrow> string option" where
  "split_host_port hostport =
     (if CHR '':'' \<notin> set hostport then None
      else
        let i = length hostport - length (after_last CHR '':'' hostport) - 1
        in if has_prefix hostport ''[''
           then (let closed = takeWhile (\<lambda>c. c \<noteq> CHR '']'') hostport
                 in if CHR '']'' \<notin> set hostport then None
                    else if length closed + 1 \<noteq> i then None
                    else if CHR ''['' \<in> set (tl hostport) \<or> CHR '']'' \<in> set (drop (length closed + 1) hostport)
                    then None
                    else Some (tl closed))
           else (let host = take i hostport
                 in if CHR '':'' \<in> set host then None
                    else if CHR ''['' \<in> set hostport \<or> CHR '']'' \<in> set hostport then None
                    else Some host))"

definition stripPort :: "string \<Rightarrow> string" where
  "stripPort hostport =
     (case split_host_port hostport of
        Some host \<Rightarrow> trim host ''[]''
      | None \<Rightarrow>
          if length (filter (\<lambda>c. c = CHR '':'') hostport) = 1 then cut_name CHR '':'' hostport
          else trim hostport ''[]'')"

definition isLocalHost :: "string \<Rightarrow> bool" where
  "isLocalHost host \<longleftrightarrow> host \<in> set [''localhost'', ''127.0.0.1'', ''::1'', ''0.0.0.0'']"

definition hostAllowed :: "net_env \<Rightarrow> string \<Rightarrow> string list \<Rightarrow> bool" where
  "hostAllowed ne host allowlist = list_ex (\<lambda>a. host = a \<or> neGlob ne a host) allowlist"

fun colon_scan :: "nat \<Rightarrow> nat \<Rightarrow> string \<Rightarrow> string \<Rightarrow> string list" where
  "colon_scan k brackets field [] = [trim (rev field) ''[]'']"
| "colon_scan k brackets field (c # s) =
     (if c = CHR ''['' then colon_scan k (Suc brackets) (c # field) s
      else if c = CHR '']'' then colon_scan k (brackets - 1) (c # field) s
      else if c = CHR '':'' \<and> brackets = 0 \<and> k > 0
      then trim (rev field) ''[]'' # colon_scan (k - 1) 0 [] s
      else colon_scan k brackets (c # field) s)"

definition colonFields :: "string \<Rightarrow> nat \<Rightarrow> string list option" where
  "colonFields value n =
     (let fs = colon_scan (n - 1) 0 [] value in if length fs = n then Some fs else None)"

section \<open>What the options name\<close>

record network_args =
  naOperands :: "string list"
  naConnectionHosts :: "string list"
  naHostOverrides :: "string list"
  naRemoteCommands :: "string list"
  naLocalCommands :: "string list"
  naPermitLocalCommand :: bool

definition no_network_args :: network_args where
  "no_network_args =
     \<lparr>naOperands = [], naConnectionHosts = [], naHostOverrides = [], naRemoteCommands = [],
      naLocalCommands = [], naPermitLocalCommand = False\<rparr>"

definition unknownOpt :: "net_env \<Rightarrow> string \<Rightarrow> string \<Rightarrow> string" where
  "unknownOpt ne wrapper tok = wrapper @ '': unrecognized option '' @ neQuote ne tok @ ''; failing closed''"

definition needsValue :: "net_env \<Rightarrow> string \<Rightarrow> string \<Rightarrow> string" where
  "needsValue ne wrapper tok = wrapper @ '': option '' @ neQuote ne tok @ '' requires a value; failing closed''"

definition add_host :: "net_env \<Rightarrow> string \<Rightarrow> network_args \<Rightarrow> string + network_args" where
  "add_host ne target p =
     and_then (hostFromURLCandidate ne target)
       (\<lambda>host. Inr (p\<lparr>naConnectionHosts := naConnectionHosts p @ [host]\<rparr>))"

fun add_hosts :: "net_env \<Rightarrow> string list \<Rightarrow> network_args \<Rightarrow> string + network_args" where
  "add_hosts ne [] p = Inr p"
| "add_hosts ne (t # ts) p = and_then (add_host ne t p) (add_hosts ne ts)"

definition addProxyJumpTargets :: "net_env \<Rightarrow> string \<Rightarrow> network_args \<Rightarrow> string + network_args" where
  "addProxyJumpTargets ne value p =
     (if equal_fold value ''none'' then Inr p else add_hosts ne (split_on CHR '','' value) p)"

definition opaqueSSHSettings :: "string list" where
  "opaqueSSHSettings =
     [''proxycommand'', ''canonicaldomains'', ''canonicalizehostname'', ''include'',
      ''localforward'', ''remoteforward'', ''dynamicforward'', ''permitremoteopen'']"

definition ssh_setting :: "net_env \<Rightarrow> string \<Rightarrow> string \<Rightarrow> network_args \<Rightarrow> string + network_args" where
  "ssh_setting ne key setting p =
     (if key = ''hostname''
      then and_then (hostFromURLCandidate ne setting)
             (\<lambda>host. Inr (p\<lparr>naHostOverrides := naHostOverrides p @ [host]\<rparr>))
      else if key = ''proxyjump'' then addProxyJumpTargets ne setting p
      else if key = ''remotecommand''
      then (if setting = '''' then Inl ''SSH setting remotecommand requires a command''
            else Inr (p\<lparr>naRemoteCommands := naRemoteCommands p @ [setting]\<rparr>))
      else if key = ''localcommand''
      then (if setting = '''' then Inl ''SSH setting localcommand requires a command''
            else if \<not> equal_fold setting ''none''
            then Inr (p\<lparr>naLocalCommands := naLocalCommands p @ [setting]\<rparr>)
            else Inr p)
      else if key = ''permitlocalcommand''
      then (if equal_fold setting ''yes'' then Inr (p\<lparr>naPermitLocalCommand := True\<rparr>)
            else if equal_fold setting ''no'' then Inr p
            else Inl ''SSH setting permitlocalcommand requires yes or no'')
      else if key \<in> set opaqueSSHSettings
      then Inl (''SSH setting '' @ key @ '' has an opaque connection target'')
      else if key \<in> set inertSSHSettings then Inr p
      else Inl (''unknown SSH setting '' @ key @ '' could alter the connection target''))"

definition go_fields :: "string \<Rightarrow> string list" where
  "go_fields s = fields_func (\<lambda>c. c \<in> set ascii_space) s"

definition addSSHSettingTarget :: "net_env \<Rightarrow> string \<Rightarrow> network_args \<Rightarrow> string + network_args" where
  "addSSHSettingTarget ne value p =
     (case cut CHR ''='' value of
        (key, setting, found) \<Rightarrow>
          if found then ssh_setting ne (to_lower (trim_space key)) (trim_space setting) p
          else (case go_fields value of
                  k # f # fs \<Rightarrow> ssh_setting ne (to_lower (trim_space k)) (trim_space (join '' '' (f # fs))) p
                | _ \<Rightarrow> Inl (''malformed SSH setting '' @ neQuote ne value)))"

definition sshForwardHost :: "net_env \<Rightarrow> string \<Rightarrow> string + string" where
  "sshForwardHost ne value =
     (case colonFields value 4 of
        Some fs \<Rightarrow> hostFromURLCandidate ne (fs ! 2)
      | None \<Rightarrow>
          (case colonFields value 3 of
             Some fs \<Rightarrow> hostFromURLCandidate ne (fs ! 1)
           | None \<Rightarrow>
               if contains value ''/'' then Inr ''''
               else Inl (''SSH forwarding target '' @ neQuote ne value @ '' could not be resolved safely'')))"

definition curlOpaqueOptions :: "string list" where
  "curlOpaqueOptions = [''--config'', ''-K'', ''--alt-svc'']"

definition curlProxyOptions :: "string list" where
  "curlProxyOptions =
     [''--proxy'', ''--preproxy'', ''--socks4'', ''--socks4a'', ''--socks5'', ''--socks5-hostname'', ''-x'']"

definition curl_target :: "net_env \<Rightarrow> string \<Rightarrow> string \<Rightarrow> network_args \<Rightarrow> string + network_args" where
  "curl_target ne opt value p =
     (if opt \<in> set curlOpaqueOptions then Inl (opt @ '' loads opaque network configuration'')
      else if opt \<in> set curlProxyOptions
      then add_host ne value p
      else if opt = ''--connect-to''
      then (case colonFields value 4 of
              None \<Rightarrow> Inl (''malformed --connect-to target '' @ neQuote ne value)
            | Some fs \<Rightarrow> if fs ! 2 \<noteq> '''' then add_host ne (fs ! 2) p else Inr p)
      else if opt = ''--resolve''
      then (case colonFields value 3 of
              None \<Rightarrow> Inl (''malformed --resolve target '' @ neQuote ne value)
            | Some fs \<Rightarrow>
                if fs ! 2 = '''' then Inl (''malformed --resolve target '' @ neQuote ne value)
                else add_hosts ne (split_on CHR '','' (fs ! 2)) p)
      else if opt = ''--dns-servers'' then add_hosts ne (split_on CHR '','' value) p
      else Inr p)"

definition ssh_target :: "net_env \<Rightarrow> string \<Rightarrow> string \<Rightarrow> string \<Rightarrow> network_args \<Rightarrow> string + network_args" where
  "ssh_target ne tool opt value p =
     (if opt = ''-F'' then Inl ''-F loads opaque SSH configuration''
      else if opt = ''-S''
      then (if tool = ''sftp'' then Inl ''sftp -S executes an opaque transport program'' else Inr p)
      else if opt = ''-J'' then addProxyJumpTargets ne value p
      else if opt = ''-o'' then addSSHSettingTarget ne value p
      else if opt = ''-W'' then add_host ne value p
      else if opt = ''-L'' \<or> opt = ''-R''
      then (if tool \<noteq> ''ssh'' then Inr p
            else and_then (sshForwardHost ne value)
                   (\<lambda>host. Inr (if host \<noteq> '''' then p\<lparr>naConnectionHosts := naConnectionHosts p @ [host]\<rparr> else p)))
      else if opt = ''-D'' then Inl ''ssh -D creates a dynamic connection target''
      else Inr p)"

definition addNetworkOptionTarget ::
  "net_env \<Rightarrow> string \<Rightarrow> string \<Rightarrow> string \<Rightarrow> network_args \<Rightarrow> string + network_args" where
  "addNetworkOptionTarget ne tool opt value p =
     (if tool = ''curl'' then curl_target ne opt value p
      else if tool = ''wget''
      then (if opt \<in> set [''--config'', ''--execute'', ''-e'']
            then Inl (opt @ '' loads opaque network configuration'') else Inr p)
      else if tool \<noteq> ''ssh'' \<and> tool \<noteq> ''sftp'' then Inr p
      else ssh_target ne tool opt value p)"

section \<open>The option parser\<close>

text \<open>A cluster of short options, with the words after it: the first option that takes a value takes the
  rest of the cluster or the next word.\<close>

fun short_options ::
  "net_env \<Rightarrow> string \<Rightarrow> network_option_spec \<Rightarrow> string \<Rightarrow> string list \<Rightarrow> network_args \<Rightarrow>
   string + (network_args \<times> string list)" where
  "short_options ne tool spec [] args p = Inr (p, args)"
| "short_options ne tool spec (c # cs) args p =
     (if c \<in> set (noShortFlags spec) then short_options ne tool spec cs args p
      else if c \<in> set (noShortValues spec)
      then (if cs \<noteq> []
            then and_then (addNetworkOptionTarget ne tool [CHR ''-'', c] cs p) (\<lambda>p'. Inr (p', args))
            else (case args of
                    [] \<Rightarrow> Inl (needsValue ne tool [CHR ''-'', c])
                  | value # args' \<Rightarrow>
                      and_then (addNetworkOptionTarget ne tool [CHR ''-'', c] value p) (\<lambda>p'. Inr (p', args'))))
      else Inl (unknownOpt ne tool [CHR ''-'', c]))"

definition long_value :: "network_option_spec \<Rightarrow> string \<Rightarrow> bool" where
  "long_value spec name \<longleftrightarrow> name \<in> set (noLongValues spec) \<or> name \<in> set (noLongTargetValues spec)"

definition long_target ::
  "net_env \<Rightarrow> string \<Rightarrow> network_option_spec \<Rightarrow> string \<Rightarrow> string \<Rightarrow> network_args \<Rightarrow> string + network_args" where
  "long_target ne tool spec name value p =
     and_then (addNetworkOptionTarget ne tool name value p)
       (\<lambda>p'. Inr (if name \<in> set (noLongTargetValues spec)
                  then p'\<lparr>naOperands := naOperands p' @ [value]\<rparr> else p'))"

definition long_option ::
  "net_env \<Rightarrow> string \<Rightarrow> network_option_spec \<Rightarrow> string \<Rightarrow> string list \<Rightarrow> network_args \<Rightarrow>
   string + (network_args \<times> string list)" where
  "long_option ne tool spec arg args p =
     (case cut CHR ''='' arg of
        (name, value, attached) \<Rightarrow>
          if \<not> attached \<and> long_value spec name
          then (case args of
                  [] \<Rightarrow> Inl (needsValue ne tool arg)
                | v # args' \<Rightarrow>
                    if name \<in> set (noLongFlags spec) then Inr (p, args')
                    else and_then (long_target ne tool spec name v p) (\<lambda>p'. Inr (p', args')))
          else if name \<in> set (noLongFlags spec) \<and> \<not> attached then Inr (p, args)
          else if long_value spec name
          then and_then (long_target ne tool spec name value p) (\<lambda>p'. Inr (p', args))
          else Inl (unknownOpt ne tool arg))"

lemma and_then_Inr_pair: "and_then m (\<lambda>x. Inr (f x, k)) = Inr (y, z) \<Longrightarrow> z = k"
  by (cases m) auto

lemma short_options_shorter: "short_options ne tool spec cs args p = Inr (p', args') \<Longrightarrow> length args' \<le> length args"
  by (induction ne tool spec cs args p rule: short_options.induct)
    (auto split: if_splits list.splits)

lemma long_option_shorter: "long_option ne tool spec arg args p = Inr (p', args') \<Longrightarrow> length args' \<le> length args"
  by (auto simp: long_option_def split: prod.splits if_splits list.splits)

definition add_net_operand :: "string \<Rightarrow> network_args \<Rightarrow> network_args" where
  "add_net_operand w p = p\<lparr>naOperands := naOperands p @ [w]\<rparr>"

function parse_network ::
  "net_env \<Rightarrow> string \<Rightarrow> network_option_spec \<Rightarrow> bool \<Rightarrow> network_args \<Rightarrow> string list \<Rightarrow> string + network_args" where
  "parse_network ne tool spec opts p [] = Inr p"
| "parse_network ne tool spec opts p (arg # args) =
     (if opts \<and> arg = ''--'' then parse_network ne tool spec False p args
      else if \<not> opts \<or> arg = ''-'' \<or> \<not> has_prefix arg ''-''
      then parse_network ne tool spec (opts \<and> \<not> noStopAtFirstOperand spec) (add_net_operand arg p) args
      else (case (if has_prefix arg ''--'' then long_option ne tool spec arg args p
                  else short_options ne tool spec (tl arg) args p) of
              Inl e \<Rightarrow> Inl e
            | Inr (p', args') \<Rightarrow> parse_network ne tool spec opts p' args'))"
  by pat_completeness auto
termination
  by (relation "measure (\<lambda>(ne, tool, spec, opts, p, args). length args)")
    (auto split: if_splits dest!: short_options_shorter long_option_shorter)

definition parseNetworkArgs ::
  "net_env \<Rightarrow> argv \<Rightarrow> string \<Rightarrow> network_option_spec \<Rightarrow> string + network_args" where
  "parseNetworkArgs ne argv tool spec = parse_network ne tool spec True no_network_args (tl argv)"

definition sshCommandSources :: "net_env \<Rightarrow> argv \<Rightarrow> string + string list" where
  "sshCommandSources ne argv =
     (if head argv \<noteq> ''ssh'' then Inr []
      else and_then (parseNetworkArgs ne argv ''ssh'' sshOptions)
             (\<lambda>p. Inr (naRemoteCommands p @
                       (if naPermitLocalCommand p then naLocalCommands p else []) @
                       (if length (naOperands p) > 1 then [join '' '' (tl (naOperands p))] else []))))"

section \<open>The hosts of a command\<close>

fun hosts_of :: "net_env \<Rightarrow> string list \<Rightarrow> string + string list" where
  "hosts_of ne [] = Inr []"
| "hosts_of ne (t # ts) =
     and_then (hostFromURLCandidate ne t) (\<lambda>host. and_then (hosts_of ne ts) (\<lambda>hosts. Inr (host # hosts)))"

definition psWebRequestHosts :: "net_env \<Rightarrow> argv \<Rightarrow> string + string list" where
  "psWebRequestHosts ne argv =
     (let b = bindPS argv webRequestParams;
          targets = pbOperands b @ (case map_of (pbValues b) ''uri'' of Some u \<Rightarrow> [u] | None \<Rightarrow> [])
      in if targets = [] then Inl ''missing host'' else hosts_of ne targets)"

fun before_sub :: "string \<Rightarrow> string \<Rightarrow> string option" where
  "before_sub p [] = (if p = [] then Some [] else None)"
| "before_sub p (c # s) = (if has_prefix (c # s) p then Some [] else map_option ((#) c) (before_sub p s))"

definition remote_prefix :: "string \<Rightarrow> string \<Rightarrow> string option" where
  "remote_prefix sep a =
     (case before_sub sep a of
        Some b \<Rightarrow> if length b > 1 \<and> \<not> contains b ''/'' then Some b else None
      | None \<Rightarrow> None)"

fun copy_host :: "string list \<Rightarrow> string option" where
  "copy_host [] = None"
| "copy_host (a # as) =
     (case cut CHR ''@'' a of
        (user, rest, found) \<Rightarrow>
          if found
          then (if CHR '':'' \<in> set rest then Some (cut_name CHR '':'' rest) else copy_host as)
          else (case remote_prefix ''::'' a of
                  Some b \<Rightarrow> Some b
                | None \<Rightarrow>
                    (case remote_prefix '':'' a of
                       Some b \<Rightarrow> Some b
                     | None \<Rightarrow> copy_host as)))"

definition fetch_hosts :: "net_env \<Rightarrow> argv \<Rightarrow> string \<Rightarrow> string + string list" where
  "fetch_hosts ne argv tool =
     and_then (parseNetworkArgs ne argv tool (if tool = ''wget'' then wgetOptions else curlOptions))
       (\<lambda>p. and_then (hosts_of ne (naOperands p))
              (\<lambda>hs. let hosts = naConnectionHosts p @ hs
                    in if hosts = [] then Inl ''missing host'' else Inr hosts))"

definition ssh_hosts :: "net_env \<Rightarrow> argv \<Rightarrow> string \<Rightarrow> string + string list" where
  "ssh_hosts ne argv tool =
     and_then (parseNetworkArgs ne argv tool (if tool = ''sftp'' then sftpOptions else sshOptions))
       (\<lambda>p. if naOperands p = [] then Inl ''missing host''
            else if naHostOverrides p = []
            then and_then (hostFromURLCandidate ne (hd (naOperands p)))
                   (\<lambda>host. Inr (naConnectionHosts p @ [host]))
            else Inr (naConnectionHosts p @ naHostOverrides p))"

text \<open>\<^verbatim>\<open>extractHosts\<close>: the hosts, or nothing when the command names no network target.\<close>

definition extractHosts :: "net_env \<Rightarrow> argv \<Rightarrow> string \<Rightarrow> string + string list option" where
  "extractHosts ne argv tool =
     (if tool \<in> set [''invoke-webrequest'', ''invoke-restmethod'', ''iwr'', ''irm'']
      then and_then (psWebRequestHosts ne argv) (\<lambda>hs. Inr (Some hs))
      else if tool = ''curl'' \<or> tool = ''wget'' then and_then (fetch_hosts ne argv tool) (\<lambda>hs. Inr (Some hs))
      else if tool = ''scp'' \<or> tool = ''rsync''
      then Inr (map_option (\<lambda>host. [host]) (copy_host (nonFlagArgs argv)))
      else if tool = ''ssh'' \<or> tool = ''sftp'' then and_then (ssh_hosts ne argv tool) (\<lambda>hs. Inr (Some hs))
      else if tool \<in> set [''nc'', ''ncat'', ''telnet'', ''ftp''] \<and> nonFlagArgs argv \<noteq> []
      then Inr (Some [stripPort (hd (nonFlagArgs argv))])
      else Inl ''missing or unrecognized host'')"

definition egress_hit :: "net_env \<Rightarrow> policy \<Rightarrow> string \<Rightarrow> string \<Rightarrow> verdict option" where
  "egress_hit ne pol command host =
     (if neLiteral ne host = None \<or> isLocalHost host \<or> hostAllowed ne host (EgressAllowlist (Slots pol)) then None
      else deny ''P6.egress''
             (''network access to a non-allowlisted host: '' @ host @
              (if command \<in> set fetchTools \<and> ValidateWebHost host = None
               then ''; grant: '' @ WebHostGrantCommand [host] else '''')))"

definition checkEgress :: "net_env \<Rightarrow> policy \<Rightarrow> simple \<Rightarrow> verdict option" where
  "checkEgress ne pol s =
     (let command = head (Argv s)
      in if command \<notin> set netTools then None
         else (case extractHosts ne (Argv s) command of
                 Inl e \<Rightarrow> deny ''P6.egress'' (''network target could not be resolved safely: '' @ e)
               | Inr None \<Rightarrow> None
               | Inr (Some hosts) \<Rightarrow> first_hit (map (egress_hit ne pol command) hosts)))"

section \<open>Facts: the parser\<close>

fun short_takes :: "network_option_spec \<Rightarrow> string \<Rightarrow> bool" where
  "short_takes spec [] = False"
| "short_takes spec (c # cs) =
     (if c \<in> set (noShortFlags spec) then short_takes spec cs
      else c \<in> set (noShortValues spec) \<and> cs = [])"

text \<open>An option word that takes the next word as its value, and a list of words none of whose options
  is left waiting for one.\<close>

definition net_takes_next :: "network_option_spec \<Rightarrow> string \<Rightarrow> bool" where
  "net_takes_next spec arg =
     (if has_prefix arg ''--'' then CHR ''='' \<notin> set arg \<and> long_value spec (cut_name CHR ''='' arg)
      else short_takes spec (tl arg))"

fun net_closed :: "network_option_spec \<Rightarrow> bool \<Rightarrow> string list \<Rightarrow> bool" where
  "net_closed spec opts [] = True"
| "net_closed spec opts (arg # args) =
     (if opts \<and> arg = ''--'' then net_closed spec False args
      else if \<not> opts \<or> arg = ''-'' \<or> \<not> has_prefix arg ''-''
      then net_closed spec (opts \<and> \<not> noStopAtFirstOperand spec) args
      else if net_takes_next spec arg
      then (case args of [] \<Rightarrow> False | _ # args' \<Rightarrow> net_closed spec opts args')
      else net_closed spec opts args)"

lemma short_options_rest:
  "short_options ne tool spec cs args p = Inr (p', args') \<Longrightarrow>
   (if short_takes spec cs then args \<noteq> [] \<and> args' = tl args else args' = args)"
  by (induction ne tool spec cs args p rule: short_options.induct)
    (auto split: if_splits list.splits)

lemma long_option_rest:
  assumes "long_option ne tool spec arg args p = Inr (p', args')" and "has_prefix arg ''--''"
  shows "if net_takes_next spec arg then args \<noteq> [] \<and> args' = tl args else args' = args"
  using assms
  by (auto simp: long_option_def net_takes_next_def cut_def split: if_splits list.splits)

text \<open>Options never remove an operand.\<close>

lemma add_host_operands: "add_host ne t p = Inr q \<Longrightarrow> naOperands q = naOperands p"
  by (auto simp: add_host_def)

lemma add_hosts_operands: "add_hosts ne ts p = Inr q \<Longrightarrow> naOperands q = naOperands p"
  by (induction ne ts p rule: add_hosts.induct) (auto dest: add_host_operands)

lemma proxy_jump_operands: "addProxyJumpTargets ne v p = Inr q \<Longrightarrow> naOperands q = naOperands p"
  by (auto simp: addProxyJumpTargets_def dest: add_hosts_operands split: if_splits)

lemma ssh_setting_operands: "ssh_setting ne key v p = Inr q \<Longrightarrow> naOperands q = naOperands p"
  by (auto simp: ssh_setting_def dest: proxy_jump_operands split: if_splits)

lemma curl_target_operands: "curl_target ne opt v p = Inr q \<Longrightarrow> naOperands q = naOperands p"
  unfolding curl_target_def
  by (auto dest: add_host_operands add_hosts_operands split: if_split_asm option.split_asm)

lemma ssh_target_operands: "ssh_target ne tool opt v p = Inr q \<Longrightarrow> naOperands q = naOperands p"
  by (auto simp: ssh_target_def addSSHSettingTarget_def
      dest: add_host_operands proxy_jump_operands ssh_setting_operands split: if_splits list.splits prod.splits)

lemma option_target_operands: "addNetworkOptionTarget ne tool opt v p = Inr q \<Longrightarrow> naOperands q = naOperands p"
  by (auto simp: addNetworkOptionTarget_def dest: curl_target_operands ssh_target_operands split: if_splits)

lemma short_options_operands:
  "short_options ne tool spec cs args p = Inr (q, args') \<Longrightarrow> naOperands q = naOperands p"
  by (induction ne tool spec cs args p rule: short_options.induct)
    (auto dest: option_target_operands split: if_splits list.splits)

lemma long_option_operands:
  "long_option ne tool spec arg args p = Inr (q, args') \<Longrightarrow> set (naOperands p) \<subseteq> set (naOperands q)"
  by (auto simp: long_option_def long_target_def dest: option_target_operands
      split: if_splits list.splits prod.splits)

lemma parse_network_operands:
  "parse_network ne tool spec opts p args = Inr q \<Longrightarrow> set (naOperands p) \<subseteq> set (naOperands q)"
proof (induction ne tool spec opts p args rule: parse_network.induct)
  case (2 ne tool spec opts p arg args)
  consider "opts \<and> arg = ''--''" | "\<not> (opts \<and> arg = ''--'')" "\<not> opts \<or> arg = ''-'' \<or> \<not> has_prefix arg ''-''"
    | "\<not> (opts \<and> arg = ''--'')" "\<not> (\<not> opts \<or> arg = ''-'' \<or> \<not> has_prefix arg ''-'')" by blast
  then show ?case
  proof cases
    case 1
    with 2 show ?thesis by simp
  next
    case c: 2
    with "2.IH"(2) [OF c] "2.prems" show ?thesis by (auto simp: add_net_operand_def)
  next
    case 3
    with "2.prems" obtain p' args' where o: "(if has_prefix arg ''--'' then long_option ne tool spec arg args p
        else short_options ne tool spec (tl arg) args p) = Inr (p', args')"
      and r: "parse_network ne tool spec opts p' args' = Inr q" by (auto split: sum.splits)
    have "set (naOperands p) \<subseteq> set (naOperands p')"
      using o by (auto split: if_splits dest: short_options_operands dest!: long_option_operands)
    with "2.IH"(3) [OF 3 o refl r] show ?thesis by blast
  qed
qed simp

lemma parse_network_destination:
  "parse_network ne tool spec opts p (pre @ w # post) = Inr q \<Longrightarrow> net_closed spec opts pre \<Longrightarrow>
   \<not> has_prefix w ''-'' \<Longrightarrow> w \<in> set (naOperands q)"
proof (induction "length pre" arbitrary: opts p pre rule: less_induct)
  case less
  show ?case
  proof (cases pre)
    case Nil
    then have "w \<noteq> ''--''" using less.prems(3) by auto
    with Nil less.prems show ?thesis by (auto simp: add_net_operand_def dest!: parse_network_operands)
  next
    case (Cons arg args)
    consider "opts \<and> arg = ''--''" | "\<not> (opts \<and> arg = ''--'')" "\<not> opts \<or> arg = ''-'' \<or> \<not> has_prefix arg ''-''"
      | "\<not> (opts \<and> arg = ''--'')" "\<not> (\<not> opts \<or> arg = ''-'' \<or> \<not> has_prefix arg ''-'')" by blast
    then show ?thesis
    proof cases
      case 1
      with Cons less.prems less.hyps [of args False p] show ?thesis by simp
    next
      case 2
      with Cons less.prems less.hyps [of args] show ?thesis by auto
    next
      case 3
      with Cons less.prems(1) obtain p' args' where
        o: "(if has_prefix arg ''--'' then long_option ne tool spec arg (args @ w # post) p
             else short_options ne tool spec (tl arg) (args @ w # post) p) = Inr (p', args')"
        and r: "parse_network ne tool spec opts p' args' = Inr q" by (auto split: sum.splits)
      have rest: "if net_takes_next spec arg then args' = tl (args @ w # post) else args' = args @ w # post"
        using o long_option_rest [of ne tool spec arg "args @ w # post" p p' args']
          short_options_rest [of ne tool spec "tl arg" "args @ w # post" p p' args']
        by (auto simp: net_takes_next_def split: if_splits)
      show ?thesis
      proof (cases "net_takes_next spec arg")
        case True
        with Cons 3 less.prems(2) obtain v args2 where "args = v # args2" "net_closed spec opts args2"
          by (cases args) auto
        with True rest r Cons less.hyps [of args2 opts p'] less.prems(3) show ?thesis by simp
      next
        case False
        with 3 rest r Cons less.prems(2,3) less.hyps [of args opts p'] show ?thesis by simp
      qed
    qed
  qed
qed

section \<open>Facts: the verdict\<close>

abbreviation host_cleared :: "net_env \<Rightarrow> policy \<Rightarrow> string \<Rightarrow> bool" where
  "host_cleared ne pol host \<equiv>
     neLiteral ne host = None \<or> isLocalHost host \<or> hostAllowed ne host (EgressAllowlist (Slots pol))"

lemma egress_hit_None: "egress_hit ne pol command host = None \<longleftrightarrow> host_cleared ne pol host"
  by (auto simp: egress_hit_def)

lemma hosts_of_judges:
  "hosts_of ne ts = Inr hosts \<Longrightarrow> t \<in> set ts \<Longrightarrow> \<exists>host\<in>set hosts. hostFromURLCandidate ne t = Inr host"
proof (induction ts arbitrary: hosts)
  case (Cons t' ts)
  then obtain host hosts' where "hostFromURLCandidate ne t' = Inr host" "hosts_of ne ts = Inr hosts'"
    and "hosts = host # hosts'" by (auto simp: and_then_Inr)
  with Cons show ?case by auto
qed simp

lemma egress_hit_denies:
  "egress_hit ne pol command host = Some v \<Longrightarrow> vRuleID v = ''P6.egress'' \<and> vDecision v = Deny"
  by (auto simp: egress_hit_def split: if_splits)

lemma checkEgress_hits:
  assumes "checkEgress ne pol s = Some v"
  shows "head (Argv s) \<in> set netTools \<and> vRuleID v = ''P6.egress'' \<and> vDecision v = Deny"
  using assms
  by (auto simp: checkEgress_def Let_def split: if_splits sum.splits option.splits
      dest!: first_hit_map_Some egress_hit_denies)

interpretation egress: argv_rule "checkEgress ne pol" "\<lambda>c. c \<in> set netTools" "[''P6.egress'']"
  by standard (auto dest: checkEgress_hits)

lemma checkEgress_clears:
  assumes "checkEgress ne pol s = None" and "head (Argv s) \<in> set netTools"
    and "extractHosts ne (Argv s) (head (Argv s)) = Inr (Some hosts)" and "host \<in> set hosts"
  shows "host_cleared ne pol host"
  using assms by (auto simp: checkEgress_def first_hit_None egress_hit_None)

lemma fetch_hosts_judges:
  assumes "fetch_hosts ne (cmd # pre @ w # post) tool = Inr hosts"
    and "net_closed (if tool = ''wget'' then wgetOptions else curlOptions) True pre" and "\<not> has_prefix w ''-''"
  shows "\<exists>host\<in>set hosts. hostFromURLCandidate ne w = Inr host"
proof -
  let ?spec = "if tool = ''wget'' then wgetOptions else curlOptions"
  obtain p hs where p: "parse_network ne tool ?spec True no_network_args (pre @ w # post) = Inr p"
    and hs: "hosts_of ne (naOperands p) = Inr hs" and hosts: "hosts = naConnectionHosts p @ hs"
    using assms(1) by (auto simp: fetch_hosts_def parseNetworkArgs_def and_then_Inr Let_def split: if_splits)
  have "w \<in> set (naOperands p)" using p assms(2,3) by (rule parse_network_destination)
  from hosts_of_judges [OF hs this] show ?thesis by (auto simp: hosts)
qed

section \<open>Every destination of a download is judged\<close>

text \<open>Whatever options precede it and whatever follows, a word that no option of curl or wget takes as
  its value and that is not an option itself is a destination; when the egress rule lets the command
  pass, that word has a host and, unless the shell would still expand it, the host is the machine
  itself or on the allowlist.\<close>

lemma fetch_destination_judged:
  assumes "head (cmd # pre @ w # post) = tool" and "tool = ''curl'' \<or> tool = ''wget''"
    and "Argv s = cmd # pre @ w # post"
    and "net_closed (if tool = ''wget'' then wgetOptions else curlOptions) True pre" and "\<not> has_prefix w ''-''"
    and "checkEgress ne pol s = None"
  shows "\<exists>host. hostFromURLCandidate ne w = Inr host \<and>
           (neLiteral ne host = None \<or> isLocalHost host \<or> hostAllowed ne host (EgressAllowlist (Slots pol)))"
proof -
  have tool: "tool \<in> set netTools" using assms(2) by (auto simp: netTools_def)
  have "\<exists>hosts. extractHosts ne (Argv s) tool = Inr (Some hosts) \<and> fetch_hosts ne (Argv s) tool = Inr hosts"
    using assms(1,2,3,6) tool
    by (cases "fetch_hosts ne (Argv s) tool") (auto simp: checkEgress_def extractHosts_def)
  then obtain hosts where "extractHosts ne (Argv s) tool = Inr (Some hosts)"
    and "fetch_hosts ne (Argv s) tool = Inr hosts" by blast
  with fetch_hosts_judges [of ne cmd pre w post tool hosts] checkEgress_clears [of ne pol s hosts] assms tool
  show ?thesis by auto
qed

definition authority :: "string \<Rightarrow> string" where
  "authority url =
     (case before_sub ''//'' url of
        Some scheme \<Rightarrow> takeWhile (\<lambda>c. c \<notin> set ''/:'') (drop (length scheme + 2) url)
      | None \<Rightarrow> '''')"

definition sample_net :: net_env where
  "sample_net =
     \<lparr>neParseIP = \<lambda>_. None, neHostname = \<lambda>url. Some (authority url), neQuote = \<lambda>s. s,
      neGlob = \<lambda>_ _. False, neLiteral = Some\<rparr>"

definition proxy_policy :: policy where
  "proxy_policy = bare_policy\<lparr>Slots := (Slots bare_policy)\<lparr>EgressAllowlist := [''proxy.golang.org'']\<rparr>\<rparr>"

text \<open>A copy is judged by its first remote operand only.\<close>

lemma second_copy_host_passes:
  "checkEgress sample_net proxy_policy (simple_of [''scp'', ''proxy.golang.org:a'', ''evil.example:b'']) = None \<and>
   checkEgress sample_net proxy_policy (simple_of [''scp'', ''a'', ''evil.example:b'']) \<noteq> None"
  by code_simp

text \<open>The file of addresses named by \<^verbatim>\<open>-i\<close> is not read, and one address of the allowlist satisfies the rule.\<close>

lemma wget_list_passes:
  "checkEgress sample_net proxy_policy (simple_of [''wget'', ''-i'', ''list.txt'', ''https://proxy.golang.org/a'']) = None"
  by code_simp

text \<open>scp runs the program of \<^verbatim>\<open>-S\<close> in place of its transport as sftp does, and only sftp is refused.\<close>

lemma scp_transport_passes:
  "checkEgress sample_net proxy_policy (simple_of [''scp'', ''-S'', ''./run.sh'', ''a'', ''proxy.golang.org:b'']) = None \<and>
   checkEgress sample_net proxy_policy (simple_of [''sftp'', ''-S'', ''./run.sh'', ''proxy.golang.org'']) \<noteq> None"
  by code_simp

end
