(* ===== verification/Engine.thy ===== *)
theory Engine
  imports Rules_Path Rules_Net
begin

text \<open>
  The engine put together: \<^verbatim>\<open>Evaluate\<close> of \<open>Evaluate_Call\<close> with the rules of every theory in the place of its
  arguments, as \<^verbatim>\<open>src/internal/engine/evaluate.go\<close> and \<^verbatim>\<open>rules_bash.go\<close> call them.

  What is left as an argument is an \<open>engine_env\<close>: the host, the matcher, the URL and address parsers, the shell
  parser's list of simple commands (\<^verbatim>\<open>normalizeToolCall\<close>; \<open>None\<close> is its error), the version of the running
  program and the list of find commands that may follow a literal write (\<^verbatim>\<open>literalWriteFindExemptions\<close>, which
  walks the parser's syntax tree).

  The theorems follow a word of a command to the final verdict: what names a secret or writes one of
  Guardrail's own files is denied, and what an allowed command deletes or contacts is inside the bounds
  the policy sets.
\<close>

section \<open>The checks of one call\<close>

record engine_env =
  enPaths :: path_env
  enNet :: net_env
  enWebURL :: "string \<Rightarrow> parsed_url option"
  enNormalize :: "tool_call \<Rightarrow> simple list option"
  enVersion :: string
  enExemptions :: "tool_call \<Rightarrow> nat \<Rightarrow> bool"

text \<open>There is one matcher and one \<^verbatim>\<open>literalText\<close>.\<close>

definition engine_net :: "engine_env \<Rightarrow> net_env" where
  "engine_net en = (enNet en)\<lparr>neGlob := peGlob (enPaths en), neLiteral := peLiteral (enPaths en)\<rparr>"

definition unresolved_reason :: "(string \<Rightarrow> string option) \<Rightarrow> simple \<Rightarrow> string option" where
  "unresolved_reason lit s = (if unresolvedPolicyPosition lit s then Some (unresolvedReason lit s) else None)"

definition engine_checks :: "engine_env \<Rightarrow> tool_call \<Rightarrow> policy \<Rightarrow> bash_checks" where
  "engine_checks en tc pol =
     (let h = peHost (enPaths en); lit = peLiteral (enPaths en)
      in \<lparr>bcUnresolved = unresolved_reason lit,
          bcRmRf = checkRmRf h lit tc pol,
          bcPowerShell = checkPowerShell h lit tc pol,
          bcCmdDelete = checkCmdDelete h lit tc pol,
          bcCmdDiskDestroyer = checkCmdDiskDestroyer,
          bcDestinationWrites = checkDestinationWrites h tc pol,
          bcAskTier = checkAskTierWithFindFSExemption h tc pol,
          bcEgress = checkEgress (engine_net en) pol,
          bcTargetsRepo = gitConfigTargetsToolCallRepo h tc,
          bcLiteralText = lit,
          bcRunningVersion = enVersion en,
          bcExemptions = enExemptions en tc,
          bcInertGrammar = knownInertOperandGrammar\<rparr>)"

definition engine_find :: "engine_env \<Rightarrow> policy \<Rightarrow> tool_call \<Rightarrow> simple \<Rightarrow> find_evaluation" where
  "engine_find en pol tc s =
     (case analyze_find (peLiteral (enPaths en)) tc s of
        (parsed, callbacks) \<Rightarrow>
          \<lparr>feCallbacks = callbacks,
           feVerdict = (\<lambda>exempt s'. checkFindActions (peHost (enPaths en)) parsed s' tc pol exempt)\<rparr>)"

definition engine :: "engine_env \<Rightarrow> policy \<Rightarrow> call_checks" where
  "engine en pol =
     \<lparr>ccParseURL = enWebURL en,
      ccGlob = peGlob (enPaths en),
      ccAnalyze = (\<lambda>tc. analyzeBash (engine_find en pol tc) (enNormalize en tc)),
      ccBash = engine_checks en,
      ccPaths = (\<lambda>tc pol bash. Returns (checkPathsAnalysis (enPaths en) tc pol bash))\<rparr>"

section \<open>No rule panics\<close>

lemma engine_find_callbacks: "cb \<in> set (feCallbacks (engine_find en pol tc s)) \<Longrightarrow> Argv cb \<noteq> []"
  using analyze_find_callbacks_nonempty [of cb "peLiteral (enPaths en)" tc s]
  by (auto simp: engine_find_def split: prod.splits)

lemma engine_bash_returns: "\<exists>r. checkBashAnalysis (engine_checks en tc pol) tc pol (ccAnalyze (engine en pol) tc) = Returns r"
proof -
  have "\<not> list_ex (\<lambda>(i, fe). i < n \<and> list_ex (\<lambda>cb. Argv cb = []) (feCallbacks fe))
          (concat (map (find_at (engine_find en pol tc)) xs))" for n xs
    using engine_find_callbacks [of _ en pol tc] by (fastforce simp: list_ex_iff find_at_def split: if_splits prod.splits)
  then show ?thesis by (auto simp: checkBashAnalysis_def engine_def analyzeBash_def split: option.split)
qed

lemma engine_hits:
  "\<exists>bv. call_hits (engine en pol) tc pol =
     Returns [checkPathsAnalysis (enPaths en) tc pol
                (if IsBash tc then Some (ccAnalyze (engine en pol) tc) else None), bv,
              matchOverlayRules (peGlob (enPaths en)) tc pol] \<and>
     (IsBash tc \<longrightarrow> checkBashAnalysis (engine_checks en tc pol) tc pol (ccAnalyze (engine en pol) tc) = Returns bv)"
proof (cases "IsBash tc")
  case True
  from engine_bash_returns [of en tc pol] obtain r where
    "checkBashAnalysis (engine_checks en tc pol) tc pol (ccAnalyze (engine en pol) tc) = Returns r" by blast
  with True show ?thesis by (simp add: call_hits_def bash_part_def engine_def)
qed (simp add: call_hits_def bash_part_def engine_def)

section \<open>Hits and the verdict\<close>

lemma engine_path_hit:
  assumes "early_verdict (engine en pol) tc pol = None"
    and "checkPathsAnalysis (enPaths en) tc pol
           (if IsBash tc then Some (ccAnalyze (engine en pol) tc) else None) = Some v"
  shows "Severity (vDecision v) \<le> Severity (vDecision (Evaluate (engine en pol) tc pol))"
proof -
  from engine_hits [of en pol tc] assms(2) obtain hits where
    "call_hits (engine en pol) tc pol = Returns hits" "Some v \<in> set hits" by fastforce
  from Evaluate_hits(2) [OF assms(1) this] show ?thesis .
qed

text \<open>The simple commands of a call, with their places.\<close>

definition runs :: "engine_env \<Rightarrow> tool_call \<Rightarrow> nat \<Rightarrow> simple \<Rightarrow> bool" where
  "runs en tc i s \<longleftrightarrow>
     IsBash tc \<and> (case enNormalize en tc of Some ss \<Rightarrow> i < length ss \<and> s = ss ! i | None \<Rightarrow> False)"

lemma runs_analysis:
  assumes "runs en tc i s"
  shows "\<not> baFailed (ccAnalyze (engine en pol) tc)" "i < length (baSimples (ccAnalyze (engine en pol) tc))"
    "baSimples (ccAnalyze (engine en pol) tc) ! i = s"
  using assms by (auto simp: runs_def engine_def analyzeBash_def split: option.splits)

lemma map_of_enumerated:
  "n \<le> i \<Longrightarrow> i < n + length xs \<Longrightarrow>
   map_of (concat (map (find_at f) (enumerate n xs))) i =
     (if head (Argv (xs ! (i - n))) = ''find'' then Some (f (xs ! (i - n))) else None)"
proof (induction xs arbitrary: n)
  case (Cons x xs)
  have none: "map_of (concat (map (find_at f) (enumerate (Suc n) xs))) n = None" for n
    by (rule map_of_eq_None_iff [THEN iffD2]) (auto simp: find_at_def in_set_enumerate_eq split: if_splits)
  show ?case
  proof (cases "i = n")
    case True
    then show ?thesis using none [of n] by (simp add: find_at_def)
  next
    case False
    with Cons show ?thesis by (simp add: find_at_def nth_Cons')
  qed
qed simp

lemma runs_find:
  assumes "runs en tc i s"
  shows "map_of (baFinds (ccAnalyze (engine en pol) tc)) i =
    (if head (Argv s) = ''find'' then Some (engine_find en pol tc s) else None)"
  using assms map_of_enumerated [of 0 i] by (auto simp: runs_def engine_def analyzeBash_def split: option.splits)

lemma evaluated_nth:
  "i < length ss \<Longrightarrow> \<exists>d. (n + i, expect_init d (ss ! i)) \<in> set (evaluated bc n initDir ss)"
proof (induction ss arbitrary: i n initDir)
  case (Cons s ss)
  show ?case
  proof (cases i)
    case (Suc j)
    with Cons.IH [of j "Suc n"] Cons.prems show ?thesis by (fastforce simp: Let_def)
  qed (auto simp: Let_def)
qed simp

text \<open>In an allowed call every rule that is not waived is silent on every command.\<close>

lemma allowed_quiet:
  assumes "early_verdict (engine en pol) tc pol = None" and "vDecision (Evaluate (engine en pol) tc pol) = Allow"
    and "runs en tc i s"
  shows "\<exists>d. \<forall>v. Some v \<in> set (command_hits (engine_checks en tc pol) pol (tcCommand tc) (ccAnalyze (engine en pol) tc)
            (i, expect_init d s)) \<longrightarrow> counted pol v \<longrightarrow> Severity (vDecision v) \<le> 0"
proof -
  let ?a = "ccAnalyze (engine en pol) tc" and ?bc = "engine_checks en tc pol"
  from engine_hits [of en pol tc] assms(3) obtain bv hits where hits: "call_hits (engine en pol) tc pol = Returns hits"
    "bv \<in> set hits" and bv: "checkBashAnalysis ?bc tc pol ?a = Returns bv" by (fastforce simp: runs_def)
  have quiet: "severity_of bv \<le> 0"
    using Evaluate_hits(2) [OF assms(1) hits(1)] hits(2) assms(2) by (cases bv) (auto simp: severity_of_def)
  from runs_analysis [OF assms(3), of pol] evaluated_nth [of i "baSimples ?a" 0 ?bc "''''"] obtain d
    where d: "(i, expect_init d s) \<in> set (evaluated ?bc 0 '''' (baSimples ?a))" by auto
  have "set (command_hits ?bc pol (tcCommand tc) ?a (i, expect_init d s)) \<subseteq> set (bash_hits ?bc tc pol ?a)"
    using d unfolding bash_hits_def set_simps set_concat set_map by blast
  with take_all_hit [of _ "bash_hits ?bc tc pol ?a" pol None] quiet
    checkBashAnalysis_takes_all [OF runs_analysis(1) [OF assms(3)] bv] show ?thesis by (metis order_trans subsetD)
qed

context argv_rule begin

lemma quiet_silent:
  assumes "\<forall>v. check s = Some v \<longrightarrow> counted pol v \<longrightarrow> Severity (vDecision v) \<le> 0"
    and "\<forall>rule\<in>set ids. \<not> waived pol rule"
  shows "check s = None"
proof (cases "check s")
  case (Some v)
  then have "counted pol v" "1 \<le> Severity (vDecision v)"
    using attributed severe assms(2) by (auto simp: counted_def)
  with assms(1) Some show ?thesis by auto
qed simp

end

text \<open>The expectation of a fresh repository concerns git only.\<close>

lemma expect_init_fields [simp]:
  "Argv (expect_init d s) = Argv s" "Redirects (expect_init d s) = Redirects s" "Cwd (expect_init d s) = Cwd s"
  "cwdUnknown (expect_init d s) = cwdUnknown s" "Unresolved (expect_init d s) = Unresolved s"
  "findCallback (expect_init d s) = findCallback s" "fsUncertain (expect_init d s) = fsUncertain s"
  "literalArgs (expect_init d s) = literalArgs s" "resolvedArgs (expect_init d s) = resolvedArgs s"
  "globTailResolved (expect_init d s) = globTailResolved s"
  by (simp_all add: expect_init_def)

lemma expect_init_rules [simp]:
  "wordUnresolved lit (expect_init d s) i = wordUnresolved lit s i" "simpleCwd (expect_init d s) tc = simpleCwd s tc"
  "rm_operand_hit h lit tc pol (expect_init d s) = rm_operand_hit h lit tc pol s"
  "checkRmRf h lit tc pol (expect_init d s) = checkRmRf h lit tc pol s"
  "checkEgress ne pol (expect_init d s) = checkEgress ne pol s"
  "checkFindActions h p (expect_init d s) tc pol exempt = checkFindActions h p s tc pol exempt"
proof -
  show w: "wordUnresolved lit (expect_init d s) i = wordUnresolved lit s i" for i by (simp add: wordUnresolved_def)
  show c: "simpleCwd (expect_init d s) tc = simpleCwd s tc" by (simp add: simpleCwd_def)
  show r: "rm_operand_hit h lit tc pol (expect_init d s) = rm_operand_hit h lit tc pol s"
    unfolding fun_eq_iff rm_operand_hit_def w c expect_init_fields by (rule allI) (rule refl)
  show "checkRmRf h lit tc pol (expect_init d s) = checkRmRf h lit tc pol s" by (simp add: checkRmRf_def r)
  show "checkEgress ne pol (expect_init d s) = checkEgress ne pol s"
    unfolding checkEgress_def expect_init_fields by (rule refl)
  have "find_output_hit h (expect_init d s) tc pol = find_output_hit h s tc pol"
    unfolding fun_eq_iff find_output_hit_def find_target_def c expect_init_fields by simp
  then show "checkFindActions h p (expect_init d s) tc pol exempt = checkFindActions h p s tc pol exempt"
    unfolding checkFindActions_def find_deletion_hit_def find_target_def c expect_init_fields by simp
qed

lemma engine_checks_simps [simp]:
  "bcRmRf (engine_checks en tc pol) = checkRmRf (peHost (enPaths en)) (peLiteral (enPaths en)) tc pol"
  "bcEgress (engine_checks en tc pol) = checkEgress (engine_net en) pol"
  by (simp_all add: engine_checks_def Let_def)

lemma allowed_rules_silent:
  assumes "early_verdict (engine en pol) tc pol = None" and "vDecision (Evaluate (engine en pol) tc pol) = Allow"
    and "runs en tc i s" and "Argv s \<noteq> []"
  shows "\<not> waived pol ''P1.rm-rf'' \<Longrightarrow> checkRmRf (peHost (enPaths en)) (peLiteral (enPaths en)) tc pol s = None"
    and "\<not> waived pol ''P6.egress'' \<Longrightarrow> checkEgress (engine_net en) pol s = None"
    and "head (Argv s) = ''find'' \<Longrightarrow> \<not> waived pol ''P1.find-delete'' \<Longrightarrow> \<not> waived pol ''P1.out-of-repo-write'' \<Longrightarrow>
      \<exists>exempt. checkFindActions (peHost (enPaths en)) (fst (analyze_find (peLiteral (enPaths en)) tc s)) s tc pol exempt = None"
proof -
  let ?h = "peHost (enPaths en)" and ?lit = "peLiteral (enPaths en)" and ?bc = "engine_checks en tc pol"
  let ?a = "ccAnalyze (engine en pol) tc"
  from allowed_quiet [OF assms(1-3)] obtain d where quiet:
    "\<And>v. Some v \<in> set (command_hits ?bc pol (tcCommand tc) ?a (i, expect_init d s)) \<Longrightarrow> counted pol v \<Longrightarrow>
      Severity (vDecision v) \<le> 0" by blast
  have mem: "{checkRmRf ?h ?lit tc pol s, checkEgress (engine_net en) pol s}
      \<subseteq> set (command_hits ?bc pol (tcCommand tc) ?a (i, expect_init d s))"
    using assms(4) by (simp add: command_hits_def simple_hits_def)
  show "\<not> waived pol ''P1.rm-rf'' \<Longrightarrow> checkRmRf ?h ?lit tc pol s = None"
    by (rule rm_rf.quiet_silent [of ?h ?lit tc pol s pol]) (use quiet mem in auto)
  show "\<not> waived pol ''P6.egress'' \<Longrightarrow> checkEgress (engine_net en) pol s = None"
    by (rule egress.quiet_silent [of "engine_net en" pol s pol]) (use quiet mem in auto)
  assume f: "head (Argv s) = ''find''" "\<not> waived pol ''P1.find-delete''" "\<not> waived pol ''P1.out-of-repo-write''"
  let ?v = "checkFindActions ?h (fst (analyze_find ?lit tc s)) s tc pol (bcExemptions ?bc i)"
  have "?v \<in> set (command_hits ?bc pol (tcCommand tc) ?a (i, expect_init d s))"
    using runs_find [OF assms(3), of pol] f(1)
    by (simp add: command_hits_def find_hits_def engine_find_def case_prod_unfold)
  with quiet f(2,3) have "?v = None"
    using checkFindActions_hits [of ?h _ s tc pol] by (cases ?v) (fastforce simp: counted_def)+
  then show "\<exists>exempt. checkFindActions ?h (fst (analyze_find ?lit tc s)) s tc pol exempt = None" by blast
qed

section \<open>The theorems\<close>

text \<open>The paths a call touches: those given to a file tool and the words by which a shell command other
  than find names files.\<close>

definition touches :: "engine_env \<Rightarrow> tool_call \<Rightarrow> path_candidate \<Rightarrow> bool" where
  "touches en tc c \<longleftrightarrow>
     isFileTool tc \<and> c \<in> set (map (tool_candidate tc) (tcPaths tc)) \<or>
     (\<exists>i s w. runs en tc i s \<and> head (Argv s) \<noteq> ''find'' \<and> names_file s w \<and> c = shell_candidate tc s w)"

lemma touches_candidate:
  assumes "touches en tc c"
  shows "c \<in> set (fst (parsePrivatePathsAnalysis (enPaths en) tc
           (if IsBash tc then Some (ccAnalyze (engine en pol) tc) else None)))"
proof (cases "isFileTool tc \<and> c \<in> set (map (tool_candidate tc) (tcPaths tc))")
  case True
  then show ?thesis by (simp add: parsePrivatePathsAnalysis_def Let_def)
next
  case False
  with assms obtain i s w where s: "runs en tc i s" "head (Argv s) \<noteq> ''find''" "names_file s w"
    and c: "c = shell_candidate tc s w" by (auto simp: touches_def)
  have "c \<in> set (fst (parsePrivatePathsAnalysis (enPaths en) tc (Some (ccAnalyze (engine en pol) tc))))"
    using command_paths_in [OF runs_analysis(2) _ runs_analysis(1)] runs_find [OF s(1), of pol] s(1,2)
      runs_analysis(3) [OF s(1)] names_file_candidate [OF s(3)] c by auto
  with s(1) show ?thesis by (simp add: runs_def)
qed


definition ssh_engine :: engine_env where
  "ssh_engine =
     \<lparr>enPaths = ssh_env, enNet = sample_net, enWebURL = (\<lambda>_. None),
      enNormalize = (\<lambda>tc. Some [simple_of (split_on CHR '' '' (tcCommand tc))]),
      enVersion = ''dev'', enExemptions = (\<lambda>_ _. False)\<rparr>"

definition shell_call :: "string \<Rightarrow> tool_call" where
  "shell_call command = repo_call\<lparr>tcCommand := command\<rparr>"

lemma shell_call_runs:
  "command \<noteq> '''' \<Longrightarrow> runs ssh_engine (shell_call command) 0 (simple_of (split_on CHR '' '' command))"
  by (simp add: runs_def shell_call_def ssh_engine_def IsBash_def)

lemma shell_call_touches:
  assumes "command \<noteq> ''''" and "head (Argv (simple_of (split_on CHR '' '' command))) \<noteq> ''find''"
    and "names_file (simple_of (split_on CHR '' '' command)) w"
  shows "touches ssh_engine (shell_call command)
    (shell_candidate (shell_call command) (simple_of (split_on CHR '' '' command)) w)"
  using shell_call_runs [OF assms(1)] assms(2,3) unfolding touches_def by blast


text \<open>The paths a call writes: those given to a writing file tool, and the redirections and write targets of
  shell commands.\<close>

definition writes :: "engine_env \<Rightarrow> tool_call \<Rightarrow> path_candidate \<Rightarrow> bool" where
  "writes en tc c \<longleftrightarrow>
     isWriteToolCall tc \<and> c \<in> set (map (tool_candidate tc) (tcPaths tc)) \<or>
     (\<exists>i s w. runs en tc i s \<and> w \<in> set (Redirects s) \<union> set (writeTargets s) \<and> c = shell_candidate tc s w)"

lemma writes_candidate:
  assumes "writes en tc c"
  shows "c \<in> set (writeCandidatesAnalysis (enPaths en) tc
           (if IsBash tc then Some (ccAnalyze (engine en pol) tc) else None))"
proof (cases "isWriteToolCall tc \<and> c \<in> set (map (tool_candidate tc) (tcPaths tc))")
  case True
  then show ?thesis by (simp add: writeCandidatesAnalysis_def)
next
  case False
  with assms obtain i s where s: "runs en tc i s" and c: "c \<in> set (simple_writes tc s)"
    by (auto simp: writes_def simple_writes_def)
  let ?a = "ccAnalyze (engine en pol) tc"
  note a = runs_analysis [OF s, of pol]
  have "(i, s) \<in> set (enumerate 0 (baSimples ?a))" using a(2,3) by (auto simp: in_set_enumerate_eq)
  moreover have "c \<in> set (command_writes (enPaths en) tc ?a (i, s))" using c by (simp add: command_writes_def)
  ultimately have "c \<in> set (concat (map (command_writes (enPaths en) tc ?a) (enumerate 0 (baSimples ?a))))"
    by (simp only: set_concat set_map) blast
  with s a(1) show ?thesis by (simp add: writeCandidatesAnalysis_def runs_def)
qed


lemma shell_call_writes:
  assumes "command \<noteq> ''''" and "w \<in> set (writeTargets (simple_of (split_on CHR '' '' command)))"
  shows "writes ssh_engine (shell_call command)
    (shell_candidate (shell_call command) (simple_of (split_on CHR '' '' command)) w)"
  using shell_call_runs [OF assms(1)] assms(2) unfolding writes_def by blast

definition envrc_engine :: engine_env where
  "envrc_engine = ssh_engine\<lparr>enPaths := ssh_env\<lparr>peGlob := (\<lambda>g p. g = ''**/.envrc'' \<and> has_suffix p ''.envrc'')\<rparr>\<rparr>"



lemma rm_build_allowed:
  "vDecision (Evaluate (engine ssh_engine ssh_policy) (shell_call ''rm -rf build'') ssh_policy) = Allow"
  by code_simp



definition proxy_engine :: engine_env where
  "proxy_engine = ssh_engine\<lparr>enPaths := ssh_env\<lparr>peGlob := (\<lambda>g p. False)\<rparr>\<rparr>"

definition fetch_list :: string where
  "fetch_list = ''curl -s https://proxy.golang.org/x/@v/list''"


end
