(* ===== verification/Plane_Contract.thy ===== *)
theory Plane_Contract
  imports Evaluate_Call
begin

text \<open>
  What each agent host offers: \<^verbatim>\<open>src/internal/planecontract\<close>.  A plane is a host; the contract gives every
  native tool a canonical name and a capability.  Model Context Protocol tools are typed by a registry
  that is keyed by the tool's own name.

  The facts are about the edges of the contract: what is outside it, and what a host may let pass on
  its own when the engine cannot be reached.
\<close>

section \<open>Tools of a plane\<close>

record tool_spec =
  tsNativeTool :: string
  tsTool :: string
  tsCapability :: capability

definition mk_tool_spec :: "string \<Rightarrow> string \<Rightarrow> capability \<Rightarrow> tool_spec" where
  "mk_tool_spec native tool cap = \<lparr>tsNativeTool = native, tsTool = tool, tsCapability = cap\<rparr>"

definition claudeTools :: "tool_spec list" where
  "claudeTools =
     [mk_tool_spec ''Agent'' ''Agent'' CapabilityDelegation,
      mk_tool_spec ''Task'' ''Agent'' CapabilityDelegation,
      mk_tool_spec ''AskUserQuestion'' ''AskUserQuestion'' CapabilitySafeControl,
      mk_tool_spec ''Bash'' ''Bash'' CapabilityCommand,
      mk_tool_spec ''Edit'' ''Edit'' CapabilityMutation,
      mk_tool_spec ''Glob'' ''Glob'' CapabilityReadDiscovery,
      mk_tool_spec ''Grep'' ''Grep'' CapabilityReadDiscovery,
      mk_tool_spec ''LSP'' ''LSP'' CapabilityReadDiscovery,
      mk_tool_spec ''Monitor'' ''Bash'' CapabilityCommand,
      mk_tool_spec ''MultiEdit'' ''MultiEdit'' CapabilityMutation,
      mk_tool_spec ''NotebookEdit'' ''NotebookEdit'' CapabilityMutation,
      mk_tool_spec ''NotebookRead'' ''NotebookRead'' CapabilityReadDiscovery,
      mk_tool_spec ''PowerShell'' ''Bash'' CapabilityCommand,
      mk_tool_spec ''Read'' ''Read'' CapabilityReadDiscovery,
      mk_tool_spec ''WebFetch'' ''WebFetch'' CapabilityWebFetch,
      mk_tool_spec ''WebSearch'' ''WebSearch'' CapabilityWebSearch,
      mk_tool_spec ''Workflow'' ''Workflow'' CapabilityDelegation,
      mk_tool_spec ''Write'' ''Write'' CapabilityMutation,
      mk_tool_spec ''Artifact'' ''Artifact'' CapabilityExternal,
      mk_tool_spec ''ArtifactCheck'' ''ArtifactCheck'' CapabilityExternal,
      mk_tool_spec ''ArtifactComments'' ''ArtifactComments'' CapabilityExternal,
      mk_tool_spec ''ArtifactData'' ''ArtifactData'' CapabilityExternal,
      mk_tool_spec ''DesignSync'' ''DesignSync'' CapabilityExternal,
      mk_tool_spec ''BashOutput'' ''BashOutput'' CapabilitySafeControl,
      mk_tool_spec ''KillShell'' ''KillShell'' CapabilitySafeControl,
      mk_tool_spec ''Sleep'' ''Sleep'' CapabilitySafeControl,
      mk_tool_spec ''StructuredOutput'' ''StructuredOutput'' CapabilitySafeControl,
      mk_tool_spec ''CronCreate'' ''CronCreate'' CapabilityExternal,
      mk_tool_spec ''CronDelete'' ''CronDelete'' CapabilitySafeControl,
      mk_tool_spec ''CronList'' ''CronList'' CapabilitySafeControl,
      mk_tool_spec ''EndConversation'' ''EndConversation'' CapabilitySafeControl,
      mk_tool_spec ''EnterPlanMode'' ''EnterPlanMode'' CapabilitySafeControl,
      mk_tool_spec ''EnterWorktree'' ''EnterWorktree'' CapabilitySafeControl,
      mk_tool_spec ''ExitPlanMode'' ''ExitPlanMode'' CapabilitySafeControl,
      mk_tool_spec ''ExitWorktree'' ''ExitWorktree'' CapabilitySafeControl,
      mk_tool_spec ''ListAgents'' ''ListAgents'' CapabilitySafeControl,
      mk_tool_spec ''ListMcpResourcesTool'' ''ListMcpResourcesTool'' CapabilityExternal,
      mk_tool_spec ''PushNotification'' ''PushNotification'' CapabilitySafeControl,
      mk_tool_spec ''ReadMcpResourceTool'' ''ReadMcpResourceTool'' CapabilityExternal,
      mk_tool_spec ''ReadMcpResourceDirTool'' ''ReadMcpResourceDirTool'' CapabilityExternal,
      mk_tool_spec ''RemoteTrigger'' ''RemoteTrigger'' CapabilityDeny,
      mk_tool_spec ''ReportFindings'' ''ReportFindings'' CapabilitySafeControl,
      mk_tool_spec ''ScheduleWakeup'' ''ScheduleWakeup'' CapabilitySafeControl,
      mk_tool_spec ''SendFeedback'' ''SendFeedback'' CapabilityDeny,
      mk_tool_spec ''SendMessage'' ''SendMessage'' CapabilityDeny,
      mk_tool_spec ''SendUserFile'' ''SendUserFile'' CapabilityDeny,
      mk_tool_spec ''ShareOnboardingGuide'' ''ShareOnboardingGuide'' CapabilityDeny,
      mk_tool_spec ''Skill'' ''Skill'' CapabilitySafeControl,
      mk_tool_spec ''SubagentHandback'' ''SubagentHandback'' CapabilitySafeControl,
      mk_tool_spec ''TaskCreate'' ''TaskCreate'' CapabilitySafeControl,
      mk_tool_spec ''TaskGet'' ''TaskGet'' CapabilitySafeControl,
      mk_tool_spec ''TaskList'' ''TaskList'' CapabilitySafeControl,
      mk_tool_spec ''TaskOutput'' ''TaskOutput'' CapabilitySafeControl,
      mk_tool_spec ''TaskStop'' ''TaskStop'' CapabilitySafeControl,
      mk_tool_spec ''TaskUpdate'' ''TaskUpdate'' CapabilitySafeControl,
      mk_tool_spec ''TodoWrite'' ''TodoWrite'' CapabilitySafeControl,
      mk_tool_spec ''ToolSearch'' ''ToolSearch'' CapabilitySafeControl,
      mk_tool_spec ''SendUserMessage'' ''SendUserMessage'' CapabilitySafeControl,
      mk_tool_spec ''JavaScript'' ''JavaScript'' CapabilityDeny,
      mk_tool_spec ''REPL'' ''REPL'' CapabilityDeny,
      mk_tool_spec ''WaitForMcpServers'' ''WaitForMcpServers'' CapabilitySafeControl]"

definition codexTools :: "tool_spec list" where
  "codexTools =
     [mk_tool_spec ''web.run'' ''web.run'' CapabilityDeny,
      mk_tool_spec ''image_gen.imagegen'' ''image_gen.imagegen'' CapabilityExternal,
      mk_tool_spec ''clock.curr_time'' ''clock.curr_time'' CapabilitySafeControl,
      mk_tool_spec ''clock.sleep'' ''clock.sleep'' CapabilitySafeControl,
      mk_tool_spec ''functions.wait'' ''functions.wait'' CapabilitySafeControl,
      mk_tool_spec ''functions.exec'' ''functions.exec'' CapabilityDeny,
      mk_tool_spec ''write_stdin'' ''write_stdin'' CapabilityDeny,
      mk_tool_spec ''Bash'' ''Bash'' CapabilityCommand,
      mk_tool_spec ''apply_patch'' ''Edit'' CapabilityMutation,
      mk_tool_spec ''view_image'' ''Read'' CapabilityReadDiscovery,
      mk_tool_spec ''update_plan'' ''update_plan'' CapabilitySafeControl,
      mk_tool_spec ''request_user_input'' ''request_user_input'' CapabilitySafeControl,
      mk_tool_spec ''request_user_input_async'' ''request_user_input_async'' CapabilitySafeControl,
      mk_tool_spec ''create_goal'' ''create_goal'' CapabilitySafeControl,
      mk_tool_spec ''get_goal'' ''get_goal'' CapabilitySafeControl,
      mk_tool_spec ''update_goal'' ''update_goal'' CapabilitySafeControl,
      mk_tool_spec ''spawn_agent'' ''spawn_agent'' CapabilityDelegation,
      mk_tool_spec ''send_input'' ''send_input'' CapabilityDelegation,
      mk_tool_spec ''send_message'' ''send_message'' CapabilityDelegation,
      mk_tool_spec ''followup_task'' ''followup_task'' CapabilityDelegation,
      mk_tool_spec ''collaboration.spawn_agent'' ''collaboration.spawn_agent'' CapabilityDelegation,
      mk_tool_spec ''collaboration.send_message'' ''collaboration.send_message'' CapabilityDelegation,
      mk_tool_spec ''collaboration.followup_task'' ''collaboration.followup_task'' CapabilityDelegation,
      mk_tool_spec ''interrupt_agent'' ''interrupt_agent'' CapabilitySafeControl,
      mk_tool_spec ''resume_agent'' ''resume_agent'' CapabilityDelegation,
      mk_tool_spec ''wait_agent'' ''wait_agent'' CapabilitySafeControl,
      mk_tool_spec ''close_agent'' ''close_agent'' CapabilitySafeControl,
      mk_tool_spec ''list_agents'' ''list_agents'' CapabilitySafeControl,
      mk_tool_spec ''collaboration.interrupt_agent'' ''collaboration.interrupt_agent'' CapabilitySafeControl,
      mk_tool_spec ''collaboration.list_agents'' ''collaboration.list_agents'' CapabilitySafeControl,
      mk_tool_spec ''collaboration.wait_agent'' ''collaboration.wait_agent'' CapabilitySafeControl,
      mk_tool_spec ''list_mcp_resources'' ''list_mcp_resources'' CapabilityDeny,
      mk_tool_spec ''list_mcp_resource_templates'' ''list_mcp_resource_templates'' CapabilityDeny,
      mk_tool_spec ''read_mcp_resource'' ''read_mcp_resource'' CapabilityDeny]"

definition opencodeTools :: "tool_spec list" where
  "opencodeTools =
     [mk_tool_spec ''bash'' ''Bash'' CapabilityCommand,
      mk_tool_spec ''read'' ''Read'' CapabilityReadDiscovery,
      mk_tool_spec ''glob'' ''Glob'' CapabilityReadDiscovery,
      mk_tool_spec ''grep'' ''Grep'' CapabilityReadDiscovery,
      mk_tool_spec ''lsp'' ''LSP'' CapabilityReadDiscovery,
      mk_tool_spec ''edit'' ''Edit'' CapabilityMutation,
      mk_tool_spec ''write'' ''Write'' CapabilityMutation,
      mk_tool_spec ''apply_patch'' ''apply_patch'' CapabilityMutation,
      mk_tool_spec ''webfetch'' ''webfetch'' CapabilityWebFetch,
      mk_tool_spec ''websearch'' ''websearch'' CapabilityWebSearch,
      mk_tool_spec ''question'' ''question'' CapabilitySafeControl,
      mk_tool_spec ''skill'' ''skill'' CapabilitySafeControl,
      mk_tool_spec ''todowrite'' ''todowrite'' CapabilitySafeControl,
      mk_tool_spec ''task'' ''task'' CapabilityDelegation]"

definition antigravityTools :: "tool_spec list" where
  "antigravityTools =
     [mk_tool_spec ''run_command'' ''Bash'' CapabilityCommand,
      mk_tool_spec ''view_file'' ''Read'' CapabilityReadDiscovery,
      mk_tool_spec ''list_dir'' ''List'' CapabilityReadDiscovery,
      mk_tool_spec ''find_by_name'' ''Glob'' CapabilityReadDiscovery,
      mk_tool_spec ''grep_search'' ''Grep'' CapabilityReadDiscovery,
      mk_tool_spec ''write_to_file'' ''Write'' CapabilityMutation,
      mk_tool_spec ''replace_file_content'' ''Edit'' CapabilityMutation,
      mk_tool_spec ''multi_replace_file_content'' ''Edit'' CapabilityMutation,
      mk_tool_spec ''read_url_content'' ''read_url_content'' CapabilityWebFetch,
      mk_tool_spec ''search_web'' ''search_web'' CapabilityWebSearch,
      mk_tool_spec ''manage_task'' ''manage_task'' CapabilitySafeControl,
      mk_tool_spec ''schedule'' ''schedule'' CapabilityExternal,
      mk_tool_spec ''list_permissions'' ''list_permissions'' CapabilitySafeControl,
      mk_tool_spec ''ask_permission'' ''ask_permission'' CapabilitySafeControl,
      mk_tool_spec ''invoke_subagent'' ''invoke_subagent'' CapabilityDelegation,
      mk_tool_spec ''define_subagent'' ''define_subagent'' CapabilityDeny,
      mk_tool_spec ''send_message'' ''send_message'' CapabilityDelegation,
      mk_tool_spec ''manage_subagents'' ''manage_subagents'' CapabilityDelegation,
      mk_tool_spec ''ask_question'' ''ask_question'' CapabilitySafeControl,
      mk_tool_spec ''generate_image'' ''generate_image'' CapabilityDeny,
      mk_tool_spec ''call_mcp_tool'' ''call_mcp_tool'' CapabilityDeny,
      mk_tool_spec ''send_command_input'' ''send_command_input'' CapabilityDeny,
      mk_tool_spec ''tool_caller'' ''tool_caller'' CapabilityDeny,
      mk_tool_spec ''notebook_edit'' ''Edit'' CapabilityMutation,
      mk_tool_spec ''sed_file'' ''Edit'' CapabilityMutation,
      mk_tool_spec ''delete_knowledge'' ''Write'' CapabilityMutation,
      mk_tool_spec ''notebook_execution'' ''Bash'' CapabilityCommand,
      mk_tool_spec ''list_resources'' ''list_resources'' CapabilityExternal,
      mk_tool_spec ''read_resource'' ''read_resource'' CapabilityExternal,
      mk_tool_spec ''command_status'' ''command_status'' CapabilitySafeControl,
      mk_tool_spec ''manage_inbox'' ''manage_inbox'' CapabilitySafeControl,
      mk_tool_spec ''ask_custom_permission'' ''ask_custom_permission'' CapabilitySafeControl,
      mk_tool_spec ''finish'' ''finish'' CapabilitySafeControl,
      mk_tool_spec ''wait'' ''wait'' CapabilitySafeControl,
      mk_tool_spec ''wait_five_seconds'' ''wait'' CapabilitySafeControl]"

definition RegisteredTools :: "string \<Rightarrow> tool_spec list" where
  "RegisteredTools plane =
     (if plane = ''codex'' then codexTools
      else if plane = ''claude'' then claudeTools
      else if plane = ''opencode'' then opencodeTools
      else if plane = ''antigravity'' then antigravityTools
      else [])"

definition find_spec :: "tool_spec list \<Rightarrow> string \<Rightarrow> tool_spec option" where
  "find_spec specs name = find (\<lambda>spec. tsNativeTool spec = name) specs"

definition ClaudeTool :: "string \<Rightarrow> tool_spec option" where
  "ClaudeTool nativeTool =
     (if has_prefix nativeTool ''mcp__'' then Some (mk_tool_spec nativeTool nativeTool CapabilityExternal)
      else find_spec claudeTools nativeTool)"

definition codex_name :: "string \<Rightarrow> string" where
  "codex_name name =
     (if name \<in> set [''web__run'', ''webrun''] then ''web.run''
      else if name \<in> set [''image_gen__imagegen'', ''image_genimagegen''] then ''image_gen.imagegen''
      else if name \<in> set [''clock__curr_time'', ''clockcurr_time''] then ''clock.curr_time''
      else if name \<in> set [''clock__sleep'', ''clocksleep''] then ''clock.sleep''
      else if name \<in> set [''wait'', ''functions__wait''] then ''functions.wait''
      else if name \<in> set [''exec'', ''functions__exec''] then ''functions.exec''
      else name)"

definition CodexTool :: "string \<Rightarrow> tool_spec option" where
  "CodexTool name =
     (if has_prefix name ''mcp__'' then Some (mk_tool_spec name name CapabilityDeny)
      else find_spec codexTools (codex_name name))"

definition OpencodeTool :: "string \<Rightarrow> tool_spec option" where
  "OpencodeTool nativeTool =
     (let name = to_lower nativeTool
      in if name = ''custom'' \<or> has_prefix name ''mcp''
         then Some (mk_tool_spec nativeTool nativeTool CapabilityDeny)
         else find_spec opencodeTools name)"

definition AntigravityTool :: "string \<Rightarrow> tool_spec option" where
  "AntigravityTool nativeTool =
     (if nativeTool = ''custom'' \<or> has_prefix (to_lower nativeTool) ''mcp''
      then Some (mk_tool_spec nativeTool nativeTool CapabilityDeny)
      else find_spec antigravityTools nativeTool)"

section \<open>Typed MCP tools\<close>

record mcp_tool_spec =
  mtFamily :: string
  mtTool :: string
  mtCapability :: capability
  mtPathArgs :: "string list"
  mtPathPrefix :: string
  mtDefaultPath :: string

definition mcp_spec ::
  "string \<Rightarrow> string \<Rightarrow> capability \<Rightarrow> string list \<Rightarrow> string \<Rightarrow> string \<Rightarrow> mcp_tool_spec" where
  "mcp_spec family tool cap args pre def =
     \<lparr>mtFamily = family, mtTool = tool, mtCapability = cap, mtPathArgs = args, mtPathPrefix = pre,
      mtDefaultPath = def\<rparr>"

text \<open>Every key of the source's map is the name of the tool it maps to.\<close>

definition mcpRegistry :: "mcp_tool_spec list" where
  "mcpRegistry =
     [mcp_spec ''serena'' ''replace_content'' CapabilityMutation [''relative_path''] '''' '''',
      mcp_spec ''serena'' ''replace_in_files'' CapabilityMutation [''relative_path''] '''' '''',
      mcp_spec ''serena'' ''replace_symbol_body'' CapabilityMutation [''relative_path''] '''' '''',
      mcp_spec ''serena'' ''insert_after_symbol'' CapabilityMutation [''relative_path''] '''' '''',
      mcp_spec ''serena'' ''insert_before_symbol'' CapabilityMutation [''relative_path''] '''' '''',
      mcp_spec ''serena'' ''rename_symbol'' CapabilityMutation [''relative_path''] '''' '''',
      mcp_spec ''serena'' ''safe_delete_symbol'' CapabilityMutation [''relative_path''] '''' '''',
      mcp_spec ''serena'' ''find_symbol'' CapabilityReadDiscovery [''relative_path''] '''' ''.'',
      mcp_spec ''serena'' ''find_declaration'' CapabilityReadDiscovery [''relative_path''] '''' ''.'',
      mcp_spec ''serena'' ''find_implementations'' CapabilityReadDiscovery [''relative_path''] '''' ''.'',
      mcp_spec ''serena'' ''find_referencing_symbols'' CapabilityReadDiscovery [''relative_path''] '''' ''.'',
      mcp_spec ''serena'' ''get_symbols_overview'' CapabilityReadDiscovery [''relative_path''] '''' ''.'',
      mcp_spec ''serena'' ''get_diagnostics_for_file'' CapabilityReadDiscovery [''relative_path'', ''filePath''] '''' ''.'',
      mcp_spec ''serena'' ''search_for_pattern'' CapabilityReadDiscovery [''relative_path'', ''paths_include_glob''] '''' ''.'',
      mcp_spec ''serena'' ''write_memory'' CapabilityMutation [''memory_name''] ''.serena/memories/'' '''',
      mcp_spec ''serena'' ''edit_memory'' CapabilityMutation [''memory_name''] ''.serena/memories/'' '''',
      mcp_spec ''serena'' ''rename_memory'' CapabilityMutation [''memory_name'', ''new_name''] ''.serena/memories/'' '''',
      mcp_spec ''serena'' ''delete_memory'' CapabilityMutation [''memory_name''] ''.serena/memories/'' '''',
      mcp_spec ''serena'' ''read_memory'' CapabilityReadDiscovery [''memory_name''] ''.serena/memories/'' '''',
      mcp_spec ''serena'' ''list_memories'' CapabilitySafeControl [] '''' '''',
      mcp_spec ''serena'' ''get_current_config'' CapabilitySafeControl [] '''' '''',
      mcp_spec ''serena'' ''initial_instructions'' CapabilitySafeControl [] '''' '''',
      mcp_spec ''serena'' ''onboarding'' CapabilitySafeControl [] '''' '''',
      mcp_spec ''serena'' ''activate_project'' CapabilityExternal [] '''' '''',
      mcp_spec ''serena'' ''open_dashboard'' CapabilitySafeControl [] '''' '''',
      mcp_spec ''graft'' ''graft_find_code'' CapabilityReadDiscovery [''relative_path'', ''path'', ''file_path''] '''' ''.'',
      mcp_spec ''graft'' ''graft_find_all'' CapabilityReadDiscovery [''relative_path'', ''path'', ''file_path''] '''' ''.'',
      mcp_spec ''graft'' ''graft_trace_calls'' CapabilityReadDiscovery [''relative_path'', ''path'', ''file_path''] '''' ''.'',
      mcp_spec ''graft'' ''graft_file_api'' CapabilityReadDiscovery [''relative_path'', ''path'', ''file_path''] '''' ''.'',
      mcp_spec ''graft'' ''graft_repo_map'' CapabilityReadDiscovery [''relative_path'', ''path'', ''file_path''] '''' ''.'',
      mcp_spec ''graft'' ''graft_check_freshness'' CapabilityReadDiscovery [''relative_path'', ''path'', ''file_path''] '''' ''.'']"

definition registered_mcp :: "string \<Rightarrow> mcp_tool_spec option" where
  "registered_mcp name = find (\<lambda>spec. mtTool spec = name) mcpRegistry"

text \<open>The text after the first occurrence of a separator, if that is not at the start.\<close>

definition after_underscore :: "string \<Rightarrow> string option" where
  "after_underscore name =
     (case cut CHR ''_'' name of (before, rest, found) \<Rightarrow> if found \<and> before \<noteq> '''' then Some rest else None)"

fun after_double :: "string \<Rightarrow> string option" where
  "after_double (a # b # cs) = (if a = CHR ''_'' \<and> b = CHR ''_'' then Some cs else after_double (b # cs))"
| "after_double _ = None"

definition unqualified :: "string \<Rightarrow> string" where
  "unqualified name =
     (if has_prefix name ''mcp__''
      then (case after_double (drop 5 name) of Some rest \<Rightarrow> rest | None \<Rightarrow> '''')
      else (case after_underscore name of Some rest \<Rightarrow> rest | None \<Rightarrow> ''''))"

definition MatchMCPTool :: "string \<Rightarrow> mcp_tool_spec option" where
  "MatchMCPTool nativeTool =
     (let name = to_lower (trim_space nativeTool); rest = unqualified name
      in if name = '''' then None
         else (case registered_mcp name of
                 Some spec \<Rightarrow> Some spec
               | None \<Rightarrow>
                   if rest = '''' then None
                   else (case registered_mcp rest of
                           Some spec \<Rightarrow> Some spec
                         | None \<Rightarrow>
                             (case after_underscore rest of
                                Some tool \<Rightarrow> registered_mcp tool
                              | None \<Rightarrow> None))))"

section \<open>When the engine cannot be reached\<close>

definition degradedAllowTools :: "(string \<times> string list) list" where
  "degradedAllowTools =
     [(''opencode'', [''question'', ''todowrite'']), (''claude'', [''AskUserQuestion'']),
      (''antigravity'', [''ask_question''])]"

definition floorFallbackTools :: "(string \<times> string list) list" where
  "floorFallbackTools =
     [(''opencode'', [''apply_patch'', ''edit'', ''glob'', ''grep'', ''lsp'', ''read'', ''write''])]"

definition listed_for :: "(string \<times> string list) list \<Rightarrow> string \<Rightarrow> string \<Rightarrow> bool" where
  "listed_for table plane nativeTool =
     (case map_of table plane of
        None \<Rightarrow> False
      | Some tools \<Rightarrow> (if plane = ''opencode'' then to_lower nativeTool else nativeTool) \<in> set tools)"

definition DegradedAllow :: "string \<Rightarrow> string \<Rightarrow> bool" where
  "DegradedAllow plane nativeTool = listed_for degradedAllowTools plane nativeTool"

definition FloorFallback :: "string \<Rightarrow> string \<Rightarrow> bool" where
  "FloorFallback plane nativeTool = listed_for floorFallbackTools plane nativeTool"

definition OpencodeDegradedAllowTools :: "string list" where
  "OpencodeDegradedAllowTools = sort (case map_of degradedAllowTools ''opencode'' of Some ts \<Rightarrow> ts | None \<Rightarrow> [])"

definition OpencodeFloorFallbackTools :: "string list" where
  "OpencodeFloorFallbackTools = sort (case map_of floorFallbackTools ''opencode'' of Some ts \<Rightarrow> ts | None \<Rightarrow> [])"

section \<open>Hook matchers\<close>

definition postTools :: "string \<Rightarrow> string list" where
  "postTools plane =
     (if plane = ''claude'' then [''Write'', ''Edit'', ''MultiEdit'']
      else if plane = ''antigravity''
      then [''write_to_file'', ''replace_file_content'', ''multi_replace_file_content'', ''notebook_edit'', ''sed_file'',
            ''delete_knowledge'']
      else [])"

definition ClaudePostHookMatcher :: string where
  "ClaudePostHookMatcher = join ''|'' (postTools ''claude'')"

definition ClaudePostMatcherMatches :: "string \<Rightarrow> bool" where
  "ClaudePostMatcherMatches nativeTool \<longleftrightarrow> nativeTool \<in> set (postTools ''claude'')"

definition AntigravityPostHookMatcher :: string where
  "AntigravityPostHookMatcher = join ''|'' (postTools ''antigravity'')"

definition AntigravityPostMatcherMatches :: "string \<Rightarrow> bool" where
  "AntigravityPostMatcherMatches nativeTool \<longleftrightarrow> nativeTool \<in> set (postTools ''antigravity'')"

section \<open>Facts\<close>

text \<open>The classification of a native tool on a plane; a tool outside the contract is unknown.\<close>

definition classify :: "string \<Rightarrow> string \<Rightarrow> tool_spec option" where
  "classify plane nativeTool =
     (if plane = ''codex'' then CodexTool nativeTool
      else if plane = ''claude'' then ClaudeTool nativeTool
      else if plane = ''opencode'' then OpencodeTool nativeTool
      else if plane = ''antigravity'' then AntigravityTool nativeTool
      else None)"

lemma find_spec_Some: "find_spec specs name = Some spec \<Longrightarrow> spec \<in> set specs \<and> tsNativeTool spec = name"
  by (induction specs) (auto simp: find_spec_def split: if_splits)

lemma classify_registered:
  assumes "classify plane t = Some spec" and "tsCapability spec \<notin> {CapabilityDeny, CapabilityExternal}"
  shows "spec \<in> set (RegisteredTools plane)"
  using assms
  by (auto simp: classify_def RegisteredTools_def CodexTool_def ClaudeTool_def OpencodeTool_def AntigravityTool_def
      mk_tool_spec_def Let_def dest: find_spec_Some split: if_splits)

lemma opencode_spec:
  "to_lower t = name \<Longrightarrow> name \<noteq> ''custom'' \<Longrightarrow> \<not> has_prefix name ''mcp'' \<Longrightarrow>
   classify ''opencode'' t = find_spec opencodeTools name"
  by (simp add: classify_def OpencodeTool_def)

lemma degraded_specs:
  "\<forall>name\<in>set [''question'', ''todowrite'']. name \<noteq> ''custom'' \<and> \<not> has_prefix name ''mcp'' \<and>
     map_option tsCapability (find_spec opencodeTools name) = Some CapabilitySafeControl"
  "map_option tsCapability (classify ''claude'' ''AskUserQuestion'') = Some CapabilitySafeControl"
  "map_option tsCapability (classify ''antigravity'' ''ask_question'') = Some CapabilitySafeControl"
  by code_simp+

lemma floor_specs:
  "\<forall>name\<in>set [''apply_patch'', ''edit'', ''glob'', ''grep'', ''lsp'', ''read'', ''write'']. name \<noteq> ''custom'' \<and>
     \<not> has_prefix name ''mcp'' \<and>
     map_option tsCapability (find_spec opencodeTools name) \<in> {Some CapabilityReadDiscovery, Some CapabilityMutation}"
  by code_simp

lemma DegradedAllow_cases:
  assumes "DegradedAllow plane t"
  shows "plane = ''opencode'' \<and> to_lower t \<in> set [''question'', ''todowrite''] \<or>
    plane = ''claude'' \<and> t = ''AskUserQuestion'' \<or> plane = ''antigravity'' \<and> t = ''ask_question''"
  using assms by (auto simp: DegradedAllow_def listed_for_def degradedAllowTools_def split: if_splits)

text \<open>What a host may let pass without the engine is narrow: a tool of the degraded list only controls the
  session or talks to the person in front of it, and a tool that falls back to the declarative floor only
  reads or writes files; no command, network, delegation or unknown tool is on either list, on any
  plane and in any spelling the contract accepts.\<close>

lemma degraded_tools_harmless:
  "(DegradedAllow plane t \<longrightarrow>
      (\<exists>spec. classify plane t = Some spec \<and> tsCapability spec = CapabilitySafeControl)) \<and>
   (FloorFallback plane t \<longrightarrow>
      (\<exists>spec. classify plane t = Some spec \<and> tsCapability spec \<in> {CapabilityReadDiscovery, CapabilityMutation}))"
proof (intro conjI impI)
  assume "DegradedAllow plane t"
  then have "map_option tsCapability (classify plane t) = Some CapabilitySafeControl"
    using DegradedAllow_cases [of plane t] degraded_specs opencode_spec [of t "to_lower t"] by metis
  then show "\<exists>spec. classify plane t = Some spec \<and> tsCapability spec = CapabilitySafeControl" by auto
next
  assume "FloorFallback plane t"
  then have "plane = ''opencode''" "to_lower t \<in> set [''apply_patch'', ''edit'', ''glob'', ''grep'', ''lsp'', ''read'', ''write'']"
    by (simp_all add: FloorFallback_def listed_for_def floorFallbackTools_def split: if_split_asm)
  then have "map_option tsCapability (classify plane t) \<in> {Some CapabilityReadDiscovery, Some CapabilityMutation}"
    using floor_specs opencode_spec [of t "to_lower t"] by metis
  then show "\<exists>spec. classify plane t = Some spec \<and> tsCapability spec \<in> {CapabilityReadDiscovery, CapabilityMutation}"
    by auto
qed

text \<open>The registry is keyed by the tool's name alone: any server that offers a tool of that name gets its
  classification, here a session control.\<close>

lemma foreign_server_typed:
  "map_option mtCapability (MatchMCPTool ''mcp__elsewhere__onboarding'') = Some CapabilitySafeControl"
  by code_simp

end
