(* ===== verification/Go_Json.thy ===== *)
theory Go_Json
  imports Guard_Prelude
begin

text \<open>
  What the adapters use of Go's \<^verbatim>\<open>encoding/json\<close>.  A document is a value of \<open>json\<close>; the members of an object
  are kept in order, with repeated keys.  A number carries the value it has as an \<^verbatim>\<open>int\<close>, when
  its text is an integer that fits, and its value \<open>m * 2 ^ e\<close> as a \<^verbatim>\<open>float64\<close>.

  Decoding follows \<^verbatim>\<open>json.Unmarshal\<close>: a field of a struct takes every member whose key equals the field's
  name up to case, in order, so that the last one wins; \<^verbatim>\<open>null\<close> leaves a field as it is; a member of another
  type is an error (\<open>None\<close>).  A map takes keys as they are, and the last of several equal keys.
\<close>

datatype json =
    JNull
  | JBool bool
  | JNumber "int option" int int
  | JString string
  | JArray "json list"
  | JObject "(string \<times> json) list"

section \<open>Structs\<close>

definition members :: "json \<Rightarrow> (string \<times> json) list option" where
  "members j = (case j of JObject kvs \<Rightarrow> Some kvs | JNull \<Rightarrow> Some [] | _ \<Rightarrow> None)"

definition field_values :: "string \<Rightarrow> (string \<times> json) list \<Rightarrow> json list" where
  "field_values name kvs = map snd (filter (\<lambda>p. equal_fold (fst p) name) kvs)"

fun decode_into :: "(json \<Rightarrow> 'a \<Rightarrow> 'a option) \<Rightarrow> json list \<Rightarrow> 'a \<Rightarrow> 'a option" where
  "decode_into decode [] x = Some x"
| "decode_into decode (v # vs) x = (case decode v x of None \<Rightarrow> None | Some y \<Rightarrow> decode_into decode vs y)"

definition decode_string :: "json \<Rightarrow> string \<Rightarrow> string option" where
  "decode_string j old = (case j of JString s \<Rightarrow> Some s | JNull \<Rightarrow> Some old | _ \<Rightarrow> None)"

definition decode_bool :: "json \<Rightarrow> bool \<Rightarrow> bool option" where
  "decode_bool j old = (case j of JBool b \<Rightarrow> Some b | JNull \<Rightarrow> Some old | _ \<Rightarrow> None)"

definition decode_int_pointer :: "json \<Rightarrow> int option \<Rightarrow> int option option" where
  "decode_int_pointer j old =
     (case j of JNumber (Some i) _ _ \<Rightarrow> Some (Some i) | JNull \<Rightarrow> Some None | _ \<Rightarrow> None)"

definition decode_string_pointer :: "json \<Rightarrow> string option \<Rightarrow> string option option" where
  "decode_string_pointer j old = (case j of JString s \<Rightarrow> Some (Some s) | JNull \<Rightarrow> Some None | _ \<Rightarrow> None)"

text \<open>A slice is rebuilt; an element that is \<^verbatim>\<open>null\<close> is the zero value.\<close>

fun decode_all :: "(json \<Rightarrow> 'a option) \<Rightarrow> json list \<Rightarrow> 'a list option" where
  "decode_all decode [] = Some []"
| "decode_all decode (v # vs) =
     (case decode v of
        None \<Rightarrow> None
      | Some x \<Rightarrow> map_option ((#) x) (decode_all decode vs))"

definition decode_list :: "(json \<Rightarrow> 'a option) \<Rightarrow> json \<Rightarrow> 'a list option" where
  "decode_list decode j = (case j of JArray vs \<Rightarrow> decode_all decode vs | JNull \<Rightarrow> Some [] | _ \<Rightarrow> None)"

definition decode_strings :: "json \<Rightarrow> string list \<Rightarrow> string list option" where
  "decode_strings j old = decode_list (\<lambda>v. decode_string v '''') j"

definition string_field :: "string \<Rightarrow> (string \<times> json) list \<Rightarrow> string option" where
  "string_field name kvs = decode_into decode_string (field_values name kvs) ''''"

definition bool_field :: "string \<Rightarrow> (string \<times> json) list \<Rightarrow> bool option" where
  "bool_field name kvs = decode_into decode_bool (field_values name kvs) False"

definition strings_field :: "string \<Rightarrow> (string \<times> json) list \<Rightarrow> string list option" where
  "strings_field name kvs = decode_into decode_strings (field_values name kvs) []"

text \<open>A \<^verbatim>\<open>json.RawMessage\<close>: the last value, \<^verbatim>\<open>null\<close> included; \<open>None\<close> when it is absent.\<close>

definition raw_field :: "string \<Rightarrow> (string \<times> json) list \<Rightarrow> json option" where
  "raw_field name kvs = (case rev (field_values name kvs) of v # _ \<Rightarrow> Some v | [] \<Rightarrow> None)"

text \<open>The members of a nested struct: a later object is decoded over an earlier one.\<close>

definition decode_struct :: "json \<Rightarrow> (string \<times> json) list \<Rightarrow> (string \<times> json) list option" where
  "decode_struct j old = map_option ((@) old) (members j)"

definition struct_field :: "string \<Rightarrow> (string \<times> json) list \<Rightarrow> (string \<times> json) list option" where
  "struct_field name kvs = decode_into decode_struct (field_values name kvs) []"

section \<open>Maps\<close>

definition object_map :: "(string \<times> json) list \<Rightarrow> (string \<times> json) list" where
  "object_map kvs = foldl (\<lambda>m (k, v). upd_assoc k v m) [] kvs"

definition decode_map :: "json \<Rightarrow> (string \<times> json) list option" where
  "decode_map j = map_option object_map (members j)"

text \<open>A type assertion on the value of a key.\<close>

definition map_string :: "(string \<times> json) list \<Rightarrow> string \<Rightarrow> string option" where
  "map_string m key = (case map_of m key of Some (JString s) \<Rightarrow> Some s | _ \<Rightarrow> None)"

section \<open>Facts\<close>

lemma distinct_object_map: "distinct (map fst (object_map kvs))"
proof -
  have "distinct (map fst m) \<Longrightarrow> distinct (map fst (foldl (\<lambda>m (k, v). upd_assoc k v m) m kvs))" for m
    by (induction kvs arbitrary: m) (auto simp: distinct_upd_assoc)
  then show ?thesis by (simp add: object_map_def)
qed

lemma object_map_lookup: "map_of (object_map kvs) = map_of (rev kvs)"
proof -
  have "map_of (foldl (\<lambda>m (k, v). upd_assoc k v m) m kvs) = map_of m ++ map_of (rev kvs)" for m
    by (induction kvs arbitrary: m) (auto simp: fun_eq_iff map_add_def split: option.split)
  then show ?thesis by (simp add: object_map_def)
qed

lemma map_string_in: "map_string m key = Some s \<Longrightarrow> (key, JString s) \<in> set m"
  by (auto simp: map_string_def dest!: map_of_SomeD split: option.splits json.splits)

lemma decode_all_length: "decode_all f vs = Some xs \<Longrightarrow> length xs = length vs"
  by (induction vs arbitrary: xs) (auto split: option.splits)

lemma decode_all_nth: "decode_all f vs = Some xs \<Longrightarrow> i < length vs \<Longrightarrow> f (vs ! i) = Some (xs ! i)"
  by (induction vs arbitrary: xs i) (auto simp: nth_Cons' split: option.splits)

end
