(* ===== verification/Adapters.thy ===== *)
theory Adapters
  imports Plane_Contract Go_Json Git_Repository "HOL-Library.Monad_Syntax"
begin

text \<open>
  From the bytes a host sends to a tool call: the parsers of \<^verbatim>\<open>src/internal/adapter\<close> for the four planes, the
  projection of paths from patches and MCP arguments, and the recognition of native web research.

  An \<open>adapter_env\<close> holds the standard library and the host: the JSON reader, the source text of a value
  (\<^verbatim>\<open>json.RawMessage\<close>), the repository root of a directory (\<^verbatim>\<open>policy.FindRepoRoot\<close>), \<^verbatim>\<open>url.Parse\<close>, \<^verbatim>\<open>time.Parse\<close>,
  the home directory and the environment.  The input is \<open>None\<close> when it cannot be read.  Where the source reads the raw text
  of the arguments again, the model uses the value that text was read from.  The error texts are not
  modelled: every error makes the hook fail closed.  The Windows branches are not taken.
\<close>

record adapter_env =
  aeDecode :: "string \<Rightarrow> json option"
  aeRaw :: "json \<Rightarrow> string"
  aeFindRepoRoot :: "string \<Rightarrow> string option"
  aeParseURL :: "string \<Rightarrow> parsed_url option"
  aeTimeOK :: "string \<Rightarrow> bool"
  aeHome :: "string option"
  aeGetenv :: "string \<Rightarrow> string"

datatype adapter_error = EnvelopeUnreadable | EnvelopeTooLarge | EnvelopeInvalid | InputInvalid

definition required :: "adapter_error \<Rightarrow> 'a option \<Rightarrow> adapter_error + 'a" where
  "required e x = (case x of Some y \<Rightarrow> Inr y | None \<Rightarrow> Inl e)"

definition repoRoot :: "adapter_env \<Rightarrow> string \<Rightarrow> string" where
  "repoRoot ae cwd = (case aeFindRepoRoot ae cwd of Some root \<Rightarrow> root | None \<Rightarrow> cwd)"

definition zero_call :: tool_call where
  "zero_call =
     \<lparr>tcPlane = '''', tcEvent = '''', tcTool = '''', tcNativeTool = '''', tcContractTool = '''',
      tcCapability = CapabilityNone, tcNativeWebResearch = False, tcURL = '''', tcInputShape = '''', tcCommand = '''',
      tcShell = '''', tcPaths = [], tcArguments = '''', tcSessionID = '''', tcCallID = '''', tcHostApproved = False,
      tcCWD = '''', tcRepoRoot = '''', tcPermittedRoots = [], tcDegradedAllows = []\<rparr>"

definition raw_text :: "adapter_env \<Rightarrow> json option \<Rightarrow> string" where
  "raw_text ae args = (case args of Some j \<Rightarrow> aeRaw ae j | None \<Rightarrow> '''')"

section \<open>Paths\<close>

definition projectMCPPaths :: "mcp_tool_spec \<Rightarrow> json option \<Rightarrow> string list" where
  "projectMCPPaths mcp args =
     (if mtPathArgs mcp = [] then []
      else (case Option.bind args decode_map of
              None \<Rightarrow> []
            | Some m \<Rightarrow>
                let paths = map ((@) (mtPathPrefix mcp))
                      (filter (\<lambda>v. v \<noteq> '''') (List.map_filter (map_string m) (mtPathArgs mcp)))
                in if paths = [] \<and> mtDefaultPath mcp \<noteq> '''' then [mtDefaultPath mcp] else paths))"

definition claudePathKeys :: "string list" where
  "claudePathKeys = [''file_path'', ''path'', ''notebook_path'']"

definition add_path :: "string list \<Rightarrow> json option \<Rightarrow> string list" where
  "add_path paths v =
     (case v of Some (JString p) \<Rightarrow> if p \<noteq> '''' \<and> p \<notin> set paths then paths @ [p] else paths | _ \<Rightarrow> paths)"

definition path_values :: "(string \<times> json) list \<Rightarrow> json option list" where
  "path_values m = map (map_of m) claudePathKeys"

definition claude_path_values :: "(string \<times> json) list \<Rightarrow> json option list" where
  "claude_path_values m =
     path_values m @
     (case map_of m ''edits'' of
        Some (JArray entries) \<Rightarrow>
          concat (map (\<lambda>e. case e of JObject kvs \<Rightarrow> path_values (object_map kvs) | _ \<Rightarrow> []) entries)
      | _ \<Rightarrow> [])"

definition claudeInputPaths :: "(string \<times> json) list \<Rightarrow> string list" where
  "claudeInputPaths input = foldl add_path [] (claude_path_values input)"

definition patchHeaders :: "string list" where
  "patchHeaders = [''*** Add File: '', ''*** Update File: '', ''*** Delete File: '', ''*** Move to: '']"

definition patch_file :: "string \<Rightarrow> bool \<Rightarrow> string list \<Rightarrow> string \<Rightarrow> string \<Rightarrow> string list option" where
  "patch_file cwd post paths header line =
     (let path = drop (length header) line
      in if trim_space path = '''' then None
         else if post \<and> header = ''*** Delete File: '' then Some paths
         else Some ((if post \<and> header = ''*** Move to: '' \<and> paths \<noteq> [] then butlast paths else paths) @
                    [if is_abs path then path else join_path cwd path]))"

text \<open>One line of the patch: at most one header can be its prefix.\<close>

definition patch_line :: "string \<Rightarrow> bool \<Rightarrow> nat \<times> string list \<Rightarrow> string \<Rightarrow> (nat \<times> string list) option" where
  "patch_line cwd post = (\<lambda>(headers, paths) line.
     case find (has_prefix line) patchHeaders of
       None \<Rightarrow> Some (headers, paths)
     | Some header \<Rightarrow> map_option (Pair (headers + 1)) (patch_file cwd post paths header line))"

fun patch_lines :: "string \<Rightarrow> bool \<Rightarrow> nat \<times> string list \<Rightarrow> string list \<Rightarrow> (nat \<times> string list) option" where
  "patch_lines cwd post st [] = Some st"
| "patch_lines cwd post st (line # rest) =
     (case patch_line cwd post st line of None \<Rightarrow> None | Some st' \<Rightarrow> patch_lines cwd post st' rest)"

fun unix_lines :: "string \<Rightarrow> string" where
  "unix_lines (a # b # cs) =
     (if a = CHR 0x0D \<and> b = CHR 0x0A then CHR 0x0A # unix_lines cs else a # unix_lines (b # cs))"
| "unix_lines s = s"

definition applyPatchPaths :: "string \<Rightarrow> string \<Rightarrow> bool \<Rightarrow> string list option" where
  "applyPatchPaths patch cwd post =
     (let lines = split_on CHR 0x0A (trim_space (unix_lines patch))
      in if length lines < 3 \<or> hd lines \<noteq> ''*** Begin Patch'' \<or> last lines \<noteq> ''*** End Patch'' then None
         else (case patch_lines cwd post (0, []) (butlast (tl lines)) of
                 None \<Rightarrow> None
               | Some (headers, paths) \<Rightarrow> if headers = 0 then None else Some paths))"

section \<open>Native web research\<close>

definition researchQueryKey :: "string \<Rightarrow> string \<Rightarrow> string option" where
  "researchQueryKey plane native =
     (let name = plane @ ''/'' @ native
      in if name = ''claude/WebSearch'' \<or> name = ''opencode/websearch'' then Some ''query''
         else if name = ''antigravity/search_web'' then Some ''Query''
         else None)"

definition nativeResearchCall :: "adapter_env \<Rightarrow> tool_call \<Rightarrow> json option \<Rightarrow> bool" where
  "nativeResearchCall ae tc args =
     (case researchQueryKey (tcPlane tc) (tcNativeTool tc) of
        Some key \<Rightarrow>
          (case Option.bind args decode_map of
             Some m \<Rightarrow> (case map_of m key of
                          Some v \<Rightarrow> (case decode_string v '''' of Some text \<Rightarrow> trim_space text \<noteq> '''' | None \<Rightarrow> False)
                        | None \<Rightarrow> False)
           | None \<Rightarrow> False)
      | None \<Rightarrow>
          tcPlane tc @ ''/'' @ tcNativeTool tc
            \<in> set [''claude/WebFetch'', ''opencode/webfetch'', ''antigravity/read_url_content''] \<and>
          validWebFetchURL (aeParseURL ae) (tcURL tc))"

text \<open>\<^verbatim>\<open>^turn[0-9]+[A-Za-z]+[0-9]+$\<close>.\<close>

definition codexResearchReference :: "string \<Rightarrow> bool" where
  "codexResearchReference ref =
     (let r1 = drop 4 ref; r2 = dropWhile is_digit r1; r3 = dropWhile is_letter r2
      in has_prefix ref ''turn'' \<and> r2 \<noteq> r1 \<and> r3 \<noteq> r2 \<and> r3 \<noteq> '''' \<and> list_all is_digit r3)"

definition researchReference :: "adapter_env \<Rightarrow> string \<Rightarrow> bool" where
  "researchReference ae ref \<longleftrightarrow> codexResearchReference ref \<or> validWebFetchURL (aeParseURL ae) ref"

definition researchFields :: "json \<Rightarrow> string list \<Rightarrow> bool" where
  "researchFields raw allowed =
     (case raw of JObject kvs \<Rightarrow> list_all (\<lambda>p. fst p \<in> set allowed) kvs | _ \<Rightarrow> False)"

definition responseLength :: "json \<Rightarrow> bool" where
  "responseLength raw =
     (case decode_string raw '''' of Some l \<Rightarrow> l \<in> set [''short'', ''medium'', ''long''] | None \<Rightarrow> False)"

definition research_query :: "json \<Rightarrow> bool" where
  "research_query entry =
     (researchFields entry [''q'', ''domains'', ''recency''] \<and>
      (case members entry of
         None \<Rightarrow> False
       | Some kvs \<Rightarrow>
           (case (string_field ''q'' kvs, strings_field ''domains'' kvs,
                  decode_into decode_int_pointer (field_values ''recency'' kvs) None) of
              (Some q, Some _, Some _) \<Rightarrow> trim_space q \<noteq> ''''
            | _ \<Rightarrow> False)))"

definition researchOperations :: "(string \<times> string) list" where
  "researchOperations = [(''open'', ''lineno''), (''click'', ''id''), (''find'', ''pattern''), (''screenshot'', ''pageno'')]"

definition negative :: "int option \<Rightarrow> bool" where
  "negative i = (case i of Some n \<Rightarrow> n < 0 | None \<Rightarrow> False)"

definition int_field :: "string \<Rightarrow> (string \<times> json) list \<Rightarrow> int option option" where
  "int_field name kvs = decode_into decode_int_pointer (field_values name kvs) None"

definition research_operation :: "adapter_env \<Rightarrow> string \<Rightarrow> string \<Rightarrow> json \<Rightarrow> bool" where
  "research_operation ae key field entry =
     (researchFields entry [''ref_id'', field] \<and>
      (case members entry of
         None \<Rightarrow> False
       | Some kvs \<Rightarrow>
           (case (string_field ''ref_id'' kvs, string_field ''pattern'' kvs) of
              (Some ref, Some pat) \<Rightarrow>
                (case (int_field ''id'' kvs, int_field ''pageno'' kvs, int_field ''lineno'' kvs) of
                   (Some i, Some page, Some line) \<Rightarrow>
                     researchReference ae ref \<and>
                     (key = ''click'' \<longrightarrow> i \<noteq> None \<and> \<not> negative i) \<and>
                     (key = ''find'' \<longrightarrow> pat \<noteq> '''') \<and>
                     (key = ''screenshot'' \<longrightarrow> page \<noteq> None \<and> \<not> negative page) \<and>
                     \<not> negative line
                 | _ \<Rightarrow> False)
            | _ \<Rightarrow> False)))"

definition research_member :: "adapter_env \<Rightarrow> string \<times> json \<Rightarrow> bool" where
  "research_member ae = (\<lambda>(key, raw).
     if key = ''response_length'' then responseLength raw
     else (case raw of
             JArray entries \<Rightarrow>
               entries \<noteq> [] \<and>
               (if key \<in> set [''search_query'', ''image_query''] then list_all research_query entries
                else (case map_of researchOperations key of
                        Some field \<Rightarrow> list_all (research_operation ae key field) entries
                      | None \<Rightarrow> False))
           | _ \<Rightarrow> False))"

definition codexResearchInput :: "adapter_env \<Rightarrow> (string \<times> json) list \<Rightarrow> bool" where
  "codexResearchInput ae input \<longleftrightarrow>
     list_all (research_member ae) input \<and> list_ex (\<lambda>p. fst p \<noteq> ''response_length'') input"

section \<open>Codex web requests\<close>

datatype web_part = WebOther | WebSearches nat | WebOpen string | WebRefused

definition query_text :: "json \<Rightarrow> string option" where
  "query_text j = Option.bind (members j) (string_field ''q'')"

definition reference_text :: "json \<Rightarrow> string option" where
  "reference_text j = Option.bind (members j) (string_field ''ref_id'')"

definition read_web_part :: "adapter_env \<Rightarrow> string \<times> json \<Rightarrow> web_part" where
  "read_web_part ae = (\<lambda>(key, raw).
     if key = ''response_length'' then (if responseLength raw then WebOther else WebRefused)
     else if key \<in> set [''search_query'', ''image_query'']
     then (case decode_list query_text raw of
             Some qs \<Rightarrow> if qs \<noteq> [] \<and> list_all (\<lambda>q. trim_space q \<noteq> '''') qs then WebSearches (length qs) else WebRefused
           | None \<Rightarrow> WebRefused)
     else if key = ''open''
     then (case decode_list reference_text raw of
             Some [ref] \<Rightarrow> if validWebFetchURL (aeParseURL ae) ref then WebOpen ref else WebRefused
           | _ \<Rightarrow> WebRefused)
     else WebRefused)"

definition web_searches :: "web_part list \<Rightarrow> nat" where
  "web_searches ps = sum_list (map (\<lambda>p. case p of WebSearches n \<Rightarrow> n | _ \<Rightarrow> 0) ps)"

definition web_opens :: "web_part list \<Rightarrow> string list" where
  "web_opens ps = concat (map (\<lambda>p. case p of WebOpen ref \<Rightarrow> [ref] | _ \<Rightarrow> []) ps)"

definition codexWebCapability :: "adapter_env \<Rightarrow> (string \<times> json) list \<Rightarrow> capability \<times> string" where
  "codexWebCapability ae input =
     (let ps = map (read_web_part ae) input
      in if WebRefused \<in> set ps then (CapabilityDeny, '''')
         else if web_searches ps > 0 \<and> web_opens ps = [] then (CapabilityWebSearch, '''')
         else if length (web_opens ps) = 1 \<and> web_searches ps = 0 then (CapabilityWebFetch, hd (web_opens ps))
         else (CapabilityDeny, ''''))"

section \<open>Claude\<close>

definition input_shape :: "capability \<Rightarrow> string" where
  "input_shape cap =
     (if cap = CapabilityCommand then ''command''
      else if cap = CapabilityReadDiscovery \<or> cap = CapabilityMutation then ''path''
      else if cap = CapabilityWebFetch then ''url''
      else if cap = CapabilityWebSearch then ''query''
      else ''opaque-object'')"

definition takes_paths :: "capability \<Rightarrow> bool" where
  "takes_paths cap \<longleftrightarrow> cap = CapabilityReadDiscovery \<or> cap = CapabilityMutation"

record claude_payload =
  cpSessionID :: string
  cpCWD :: string
  cpHookEventName :: string
  cpToolName :: string
  cpCommand :: string
  cpToolInput :: "json option"

definition claude_decode :: "json \<Rightarrow> claude_payload option" where
  "claude_decode j = do {
     kvs \<leftarrow> members j;
     session \<leftarrow> string_field ''session_id'' kvs;
     cwd \<leftarrow> string_field ''cwd'' kvs;
     event \<leftarrow> string_field ''hook_event_name'' kvs;
     tool \<leftarrow> string_field ''tool_name'' kvs;
     input \<leftarrow> struct_field ''tool_input'' kvs;
     command \<leftarrow> string_field ''command'' input;
     _ \<leftarrow> string_field ''file_path'' input;
     Some \<lparr>cpSessionID = session, cpCWD = cwd, cpHookEventName = event, cpToolName = tool, cpCommand = command,
           cpToolInput = raw_field ''tool_input'' kvs\<rparr>}"

definition claude_event :: "string \<Rightarrow> string" where
  "claude_event name =
     (if name = ''PostToolUse'' then ''post''
      else if name = ''SessionStart'' then ''session-start''
      else if name = ''Stop'' \<or> name = ''SubagentStop'' then ''session-completion''
      else ''pre'')"

text \<open>The tool's specification, and the registry entry when it is a typed MCP tool.\<close>

definition claude_spec :: "string \<Rightarrow> tool_spec \<times> mcp_tool_spec option" where
  "claude_spec name =
     (case (if has_prefix name ''mcp__'' then MatchMCPTool name else None) of
        Some mcp \<Rightarrow> (mk_tool_spec name (mtTool mcp) (mtCapability mcp), Some mcp)
      | None \<Rightarrow>
          (case ClaudeTool name of
             Some spec \<Rightarrow> (spec, None)
           | None \<Rightarrow> (mk_tool_spec name name CapabilityUnknown, None)))"

definition claude_call :: "adapter_env \<Rightarrow> claude_payload \<Rightarrow> (string \<times> json) list \<Rightarrow> tool_call" where
  "claude_call ae p input =
     (let (spec, mcp) = claude_spec (cpToolName p); cap = tsCapability spec;
          tc = zero_call\<lparr>tcPlane := ''claude'', tcEvent := claude_event (cpHookEventName p), tcTool := tsTool spec,
                tcNativeTool := cpToolName p, tcCapability := cap, tcCommand := cpCommand p,
                tcSessionID := cpSessionID p, tcCWD := cpCWD p, tcArguments := raw_text ae (cpToolInput p),
                tcPaths := (if takes_paths cap
                            then (case mcp of Some m \<Rightarrow> projectMCPPaths m (cpToolInput p) | None \<Rightarrow> claudeInputPaths input)
                            else []),
                tcURL := (if cap = CapabilityWebFetch
                          then (case map_string input ''url'' of Some url \<Rightarrow> url | None \<Rightarrow> '''') else ''''),
                tcInputShape := (if cap = CapabilityWebSearch then ''opaque-object'' else input_shape cap),
                tcRepoRoot := repoRoot ae (cpCWD p)\<rparr>
      in tc\<lparr>tcNativeWebResearch := nativeResearchCall ae tc (cpToolInput p)\<rparr>)"

definition ParseClaude :: "adapter_env \<Rightarrow> string option \<Rightarrow> adapter_error + tool_call" where
  "ParseClaude ae input =
     and_then (required EnvelopeUnreadable input)
       (\<lambda>raw. and_then (required EnvelopeInvalid (Option.bind (aeDecode ae raw) claude_decode))
          (\<lambda>p. and_then (required InputInvalid (case cpToolInput p of None \<Rightarrow> Some [] | Some j \<Rightarrow> decode_map j))
             (\<lambda>m. Inr (claude_call ae p m))))"

section \<open>OpenCode\<close>

definition maxOpencodeHookEnvelopeBytes :: nat where
  "maxOpencodeHookEnvelopeBytes = 8 * 2 ^ 20"

record opencode_payload =
  opSessionID :: string
  opEvent :: string
  opTool :: string
  opCallID :: string
  opHostApproved :: bool
  opCommand :: string
  opPaths :: "string list"
  opCWD :: string
  opArguments :: "json option"
  opDegraded :: "degraded_allow_report list"

definition decode_report :: "json \<Rightarrow> degraded_allow_report option" where
  "decode_report j = do {
     kvs \<leftarrow> members j;
     tool \<leftarrow> string_field ''tool'' kvs;
     call \<leftarrow> string_field ''call_id'' kvs;
     ts \<leftarrow> string_field ''ts'' kvs;
     Some \<lparr>darTool = tool, darCallID = call, darTS = ts\<rparr>}"

definition opencode_decode :: "json \<Rightarrow> opencode_payload option" where
  "opencode_decode j = do {
     kvs \<leftarrow> members j;
     session \<leftarrow> string_field ''session_id'' kvs;
     event \<leftarrow> string_field ''event'' kvs;
     tool \<leftarrow> string_field ''tool'' kvs;
     call \<leftarrow> string_field ''call_id'' kvs;
     approved \<leftarrow> bool_field ''host_approved'' kvs;
     command \<leftarrow> string_field ''command'' kvs;
     paths \<leftarrow> strings_field ''paths'' kvs;
     cwd \<leftarrow> string_field ''cwd'' kvs;
     degraded \<leftarrow> decode_into (\<lambda>v old. decode_list decode_report v) (field_values ''degraded_allows'' kvs) [];
     Some \<lparr>opSessionID = session, opEvent = event, opTool = tool, opCallID = call, opHostApproved = approved,
           opCommand = command, opPaths = paths, opCWD = cwd, opArguments = raw_field ''arguments'' kvs,
           opDegraded = degraded\<rparr>}"

definition report_kept :: "adapter_env \<Rightarrow> degraded_allow_report \<Rightarrow> bool" where
  "report_kept ae r \<longleftrightarrow>
     darTool r \<noteq> '''' \<and> length (darTool r) \<le> 64 \<and> length (darCallID r) \<le> 128 \<and>
     (DegradedAllow ''opencode'' (darTool r) \<or> FloorFallback ''opencode'' (darTool r)) \<and> aeTimeOK ae (darTS r)"

definition sanitizeDegradedAllows :: "adapter_env \<Rightarrow> degraded_allow_report list \<Rightarrow> degraded_allow_report list" where
  "sanitizeDegradedAllows ae reports = take 32 (filter (report_kept ae) reports)"

text \<open>On OpenCode, Codex and Antigravity the registry is consulted when the contract denies or does not know
  the tool.\<close>

definition typed_spec :: "string \<Rightarrow> tool_spec option \<Rightarrow> tool_spec \<times> mcp_tool_spec option" where
  "typed_spec name found =
     (if (case found of None \<Rightarrow> True | Some spec \<Rightarrow> tsCapability spec = CapabilityDeny)
      then (case MatchMCPTool name of
              Some mcp \<Rightarrow> (mk_tool_spec name (mtTool mcp) (mtCapability mcp), Some mcp)
            | None \<Rightarrow>
                ((case found of Some spec \<Rightarrow> spec | None \<Rightarrow> mk_tool_spec name name CapabilityUnknown), None))
      else (the found, None))"

definition mcp_paths :: "mcp_tool_spec option \<Rightarrow> json option \<Rightarrow> string list" where
  "mcp_paths mcp args = (case mcp of Some m \<Rightarrow> projectMCPPaths m args | None \<Rightarrow> [])"

definition opencode_patch :: "opencode_payload \<Rightarrow> string \<Rightarrow> string list option" where
  "opencode_patch p event =
     (if opTool p \<noteq> ''apply_patch'' then Some []
      else do {
        args \<leftarrow> opArguments p;
        kvs \<leftarrow> members args;
        text \<leftarrow> decode_into decode_string_pointer (field_values ''patchText'' kvs) None;
        (case text of
           Some patch \<Rightarrow> if patch = '''' then None else applyPatchPaths patch (opCWD p) (event = ''post'')
         | None \<Rightarrow> None)})"

definition opencode_url :: "opencode_payload \<Rightarrow> capability \<Rightarrow> string option" where
  "opencode_url p cap =
     (if cap \<noteq> CapabilityWebFetch then Some ''''
      else do {args \<leftarrow> opArguments p; kvs \<leftarrow> members args; string_field ''url'' kvs})"

definition opencode_call ::
  "adapter_env \<Rightarrow> opencode_payload \<Rightarrow> string \<Rightarrow> tool_spec \<times> mcp_tool_spec option \<Rightarrow> string list \<Rightarrow> string \<Rightarrow> tool_call" where
  "opencode_call ae p event = (\<lambda>(spec, mcp) patched url.
     let tc = zero_call\<lparr>tcPlane := ''opencode'', tcEvent := event, tcTool := tsTool spec, tcNativeTool := opTool p,
                tcCapability := tsCapability spec, tcCommand := opCommand p,
                tcPaths := opPaths p @ mcp_paths mcp (opArguments p) @ patched,
                tcArguments := raw_text ae (opArguments p), tcSessionID := opSessionID p, tcCallID := opCallID p,
                tcHostApproved := opHostApproved p, tcCWD := opCWD p, tcURL := url,
                tcInputShape := input_shape (tsCapability spec), tcRepoRoot := repoRoot ae (opCWD p)\<rparr>
     in tc\<lparr>tcNativeWebResearch := nativeResearchCall ae tc (opArguments p),
           tcDegradedAllows := sanitizeDegradedAllows ae (opDegraded p)\<rparr>)"

definition ParseOpencode :: "adapter_env \<Rightarrow> string option \<Rightarrow> adapter_error + tool_call" where
  "ParseOpencode ae input =
     and_then (required EnvelopeUnreadable input)
       (\<lambda>raw. if length raw > maxOpencodeHookEnvelopeBytes then Inl EnvelopeTooLarge
              else and_then (required EnvelopeInvalid (Option.bind (aeDecode ae raw) opencode_decode))
                (\<lambda>p. let event = (if opEvent p = ''post'' then ''post'' else ''pre'');
                         spec = typed_spec (opTool p) (OpencodeTool (opTool p))
                     in and_then (required InputInvalid (opencode_patch p event))
                          (\<lambda>patched. and_then (required InputInvalid (opencode_url p (tsCapability (fst spec))))
                             (\<lambda>url. Inr (opencode_call ae p event spec patched url)))))"

section \<open>Codex\<close>

definition codex_event :: "string \<Rightarrow> string option" where
  "codex_event name = map_of [(''PreToolUse'', ''pre''), (''PostToolUse'', ''post''), (''SessionStart'', ''session-start'')] name"

record codex_payload =
  cxSessionID :: string
  cxCWD :: string
  cxEvent :: string
  cxTool :: string
  cxInput :: "json option"

definition codex_decode :: "json \<Rightarrow> codex_payload option" where
  "codex_decode j = do {
     kvs \<leftarrow> members j;
     session \<leftarrow> string_field ''session_id'' kvs;
     cwd \<leftarrow> string_field ''cwd'' kvs;
     event \<leftarrow> string_field ''hook_event_name'' kvs;
     tool \<leftarrow> string_field ''tool_name'' kvs;
     Some \<lparr>cxSessionID = session, cxCWD = cwd, cxEvent = event, cxTool = tool, cxInput = raw_field ''tool_input'' kvs\<rparr>}"

text \<open>A required string of the input: \<^verbatim>\<open>null\<close> counts as missing.\<close>

definition codex_string :: "(string \<times> json) list \<Rightarrow> string \<Rightarrow> string option" where
  "codex_string input key = (case map_of input key of Some (JString s) \<Rightarrow> Some s | _ \<Rightarrow> None)"

definition codex_object :: "json option \<Rightarrow> (string \<times> json) list option" where
  "codex_object args = (case args of Some (JObject kvs) \<Rightarrow> Some (object_map kvs) | _ \<Rightarrow> None)"

definition codex_start :: "adapter_env \<Rightarrow> codex_payload \<Rightarrow> string \<Rightarrow> tool_call" where
  "codex_start ae p event =
     zero_call\<lparr>tcPlane := ''codex'', tcEvent := event, tcCWD := cxCWD p, tcRepoRoot := repoRoot ae (cxCWD p),
       tcSessionID := cxSessionID p, tcNativeTool := cxTool p, tcArguments := raw_text ae (cxInput p),
       tcInputShape := ''opaque-object''\<rparr>"

definition codex_mcp_call :: "tool_call \<Rightarrow> mcp_tool_spec \<Rightarrow> json option \<Rightarrow> tool_call" where
  "codex_mcp_call tc mcp args =
     tc\<lparr>tcTool := mtTool mcp, tcCapability := mtCapability mcp,
        tcContractTool := ''mcp:'' @ mtFamily mcp @ ''/'' @ mtTool mcp, tcPaths := projectMCPPaths mcp args,
        tcInputShape := (if takes_paths (mtCapability mcp) then ''path'' else tcInputShape tc)\<rparr>"

text \<open>The arguments a capability needs; \<open>None\<close> when one is missing or of another type.\<close>

definition codex_arguments ::
  "tool_call \<Rightarrow> (string \<times> json) list \<Rightarrow> tool_call option" where
  "codex_arguments tc input =
     (if tcCapability tc = CapabilityCommand
      then map_option (\<lambda>c. tc\<lparr>tcCommand := c, tcInputShape := ''command''\<rparr>) (codex_string input ''command'')
      else if tcCapability tc = CapabilityMutation
      then do {
        patch \<leftarrow> codex_string input ''command'';
        paths \<leftarrow> applyPatchPaths patch (tcCWD tc) (tcEvent tc = ''post'');
        Some (tc\<lparr>tcInputShape := ''patch'', tcPaths := paths,
                 tcCapability := (if tcEvent tc = ''post'' \<and> paths = [] then CapabilitySafeControl else CapabilityMutation)\<rparr>)}
      else if tcCapability tc = CapabilityReadDiscovery
      then map_option (\<lambda>p. tc\<lparr>tcPaths := (if p \<noteq> '''' then [p] else []), tcInputShape := ''path''\<rparr>)
             (codex_string input ''path'')
      else Some tc)"

definition codex_tool_call ::
  "adapter_env \<Rightarrow> codex_payload \<Rightarrow> string \<Rightarrow> (string \<times> json) list \<Rightarrow> tool_call option" where
  "codex_tool_call ae p event input =
     (let tc0 = codex_start ae p event; found = CodexTool (cxTool p);
          denied = (case found of None \<Rightarrow> True | Some spec \<Rightarrow> tsCapability spec = CapabilityDeny)
      in case (if denied then MatchMCPTool (cxTool p) else None) of
           Some mcp \<Rightarrow> Some (codex_mcp_call tc0 mcp (cxInput p))
         | None \<Rightarrow>
             let spec = (case found of Some spec \<Rightarrow> spec | None \<Rightarrow> mk_tool_spec (cxTool p) (cxTool p) CapabilityUnknown);
                 tc1 = tc0\<lparr>tcContractTool := (if found \<noteq> None then tsNativeTool spec else ''''),
                           tcTool := tsTool spec, tcCapability := tsCapability spec\<rparr>;
                 tc2 = (if tcTool tc1 = ''web.run''
                        then tc1\<lparr>tcCapability := fst (codexWebCapability ae input), tcURL := snd (codexWebCapability ae input),
                                 tcNativeWebResearch := codexResearchInput ae input\<rparr>
                        else tc1)
             in codex_arguments tc2 input)"

definition ParseCodex :: "adapter_env \<Rightarrow> string option \<Rightarrow> adapter_error + tool_call" where
  "ParseCodex ae input =
     and_then (required EnvelopeUnreadable input)
       (\<lambda>raw. if length raw > 8 * 2 ^ 20 then Inl EnvelopeTooLarge
              else and_then (required EnvelopeInvalid (Option.bind (aeDecode ae raw) codex_decode))
                (\<lambda>p. case codex_event (cxEvent p) of
                       None \<Rightarrow> Inl EnvelopeInvalid
                     | Some event \<Rightarrow>
                         if \<not> is_abs (cxCWD p) \<or> cxSessionID p = '''' then Inl EnvelopeInvalid
                         else if event = ''session-start'' then Inr (codex_start ae p event)
                         else if cxTool p = '''' then Inl EnvelopeInvalid
                         else and_then (required InputInvalid (codex_object (cxInput p)))
                                (\<lambda>m. required InputInvalid (codex_tool_call ae p event m))))"

section \<open>Antigravity\<close>

definition allowedFields :: "string list \<Rightarrow> string list" where
  "allowedFields names = [''toolAction'', ''toolSummary''] @ names"

record path_schema =
  psKey :: string
  psAllowed :: "string list"
  psAliases :: "string list"

definition mk_path_schema :: "string \<Rightarrow> string list \<Rightarrow> string list \<Rightarrow> path_schema" where
  "mk_path_schema key names aliases = \<lparr>psKey = key, psAllowed = allowedFields names, psAliases = aliases\<rparr>"

definition antigravityPathSchemas :: "(string \<times> path_schema) list" where
  "antigravityPathSchemas =
     [(''view_file'', mk_path_schema ''AbsolutePath''
         [''AbsolutePath'', ''TargetFile'', ''StartLine'', ''EndLine'', ''ContentOffset'', ''IsSkillFile''] [''TargetFile'']),
      (''write_to_file'', mk_path_schema ''TargetFile''
         [''TargetFile'', ''Overwrite'', ''CodeContent'', ''Description'', ''IsArtifact'', ''ArtifactMetadata''] []),
      (''replace_file_content'', mk_path_schema ''TargetFile''
         [''TargetFile'', ''Instruction'', ''Description'', ''AllowMultiple'', ''TargetContent'', ''ReplacementContent'',
          ''StartLine'', ''EndLine'', ''TargetLintErrorIds''] []),
      (''multi_replace_file_content'', mk_path_schema ''TargetFile''
         [''TargetFile'', ''Instruction'', ''Description'', ''ReplacementChunks'', ''TargetLintErrorIds'', ''ArtifactMetadata''] []),
      (''list_dir'', mk_path_schema ''DirectoryPath'' [''DirectoryPath''] []),
      (''find_by_name'', mk_path_schema ''SearchDirectory''
         [''SearchDirectory'', ''Pattern'', ''Type'', ''Excludes'', ''Extensions'', ''FullPath'', ''MaxDepth''] []),
      (''grep_search'', mk_path_schema ''SearchPath''
         [''SearchPath'', ''Query'', ''IsRegex'', ''CaseInsensitive'', ''Includes'', ''MatchPerLine''] [])]"

definition first_path :: "(string \<times> json) list \<Rightarrow> string list \<Rightarrow> string option" where
  "first_path input keys = find (\<lambda>p. p \<noteq> '''') (List.map_filter (map_string input) keys)"

definition chunkKeys :: "string list" where
  "chunkKeys =
     allowedFields [''TargetFile'', ''FilePath'', ''Path'', ''TargetContent'', ''ReplacementContent'', ''StartLine'', ''EndLine'',
       ''Instruction'', ''AllowMultiple'']"

definition add_trimmed :: "string list \<Rightarrow> string \<Rightarrow> string list" where
  "add_trimmed paths p0 = (let p = trim_space p0 in if p \<noteq> '''' \<and> p \<notin> set paths then paths @ [p] else paths)"

fun chunk_paths :: "string list \<Rightarrow> json list \<Rightarrow> string list option" where
  "chunk_paths paths [] = Some paths"
| "chunk_paths paths (chunk # chunks) =
     (case chunk of
        JObject kvs \<Rightarrow>
          if \<not> list_all (\<lambda>p. fst p \<in> set chunkKeys) kvs then None
          else chunk_paths (case first_path (object_map kvs) [''TargetFile'', ''FilePath'', ''Path''] of
                              Some p \<Rightarrow> add_trimmed paths p | None \<Rightarrow> paths) chunks
      | _ \<Rightarrow> chunk_paths paths chunks)"

definition extractMultiReplacePaths :: "(string \<times> json) list \<Rightarrow> string list option" where
  "extractMultiReplacePaths input =
     (let start = (case map_string input ''TargetFile'' of Some t \<Rightarrow> if t \<noteq> '''' then add_trimmed [] t else [] | None \<Rightarrow> [])
      in case (case map_of input ''ReplacementChunks'' of Some (JArray chunks) \<Rightarrow> chunk_paths start chunks | _ \<Rightarrow> Some start) of
           Some (p # ps) \<Rightarrow> Some (p # ps)
         | _ \<Rightarrow> None)"

fun alias_path :: "(string \<times> json) list \<Rightarrow> string \<Rightarrow> string list \<Rightarrow> string option" where
  "alias_path input path [] = (if path = '''' then None else Some path)"
| "alias_path input path (al # aliases) =
     (let other = (case map_string input al of Some s \<Rightarrow> s | None \<Rightarrow> '''')
      in if other = '''' then alias_path input path aliases
         else if path = '''' then alias_path input other aliases
         else if other \<noteq> path then None
         else alias_path input path aliases)"

definition keyed_path :: "(string \<times> json) list \<Rightarrow> string list \<Rightarrow> string list option" where
  "keyed_path input keys = map_option (\<lambda>p. [p]) (first_path input keys)"

definition documentedAntigravityPaths :: "string \<Rightarrow> (string \<times> json) list \<Rightarrow> string list option" where
  "documentedAntigravityPaths tool input =
     (if tool = ''multi_replace_file_content'' then extractMultiReplacePaths input
      else if tool = ''notebook_edit'' then keyed_path input [''NotebookPath'', ''TargetFile'', ''FilePath'', ''Path'']
      else if tool = ''sed_file'' then keyed_path input [''TargetFile'', ''FilePath'', ''Path'', ''AbsolutePath'']
      else if tool = ''delete_knowledge'' then keyed_path input [''PathToDelete'', ''TargetFile'', ''FilePath'', ''Path'']
      else (case map_of antigravityPathSchemas tool of
              None \<Rightarrow> Some []
            | Some schema \<Rightarrow>
                if \<not> list_all (\<lambda>p. fst p \<in> set (psAllowed schema)) input then None
                else map_option (\<lambda>p. [p])
                       (alias_path input (case map_string input (psKey schema) of Some s \<Rightarrow> s | None \<Rightarrow> '''') (psAliases schema))))"

definition isAntigravityOneShotTimer :: "(string \<times> json) list \<Rightarrow> bool" where
  "isAntigravityOneShotTimer input \<longleftrightarrow>
     (case map_of input ''DurationSeconds'' of Some (JNumber _ m _) \<Rightarrow> m > 0 | _ \<Rightarrow> False) \<and>
     map_of input ''CronExpression'' = None \<and> map_of input ''MaxIterations'' = None"

definition AntigravityAppDataDir :: "adapter_env \<Rightarrow> string" where
  "AntigravityAppDataDir ae =
     (let dir = aeGetenv ae ''ANTIGRAVITY_APP_DATA_DIR''
      in if dir \<noteq> '''' then clean dir
         else (case aeHome ae of
                 Some home \<Rightarrow> if home = '''' then '''' else join_path (join_path home ''.gemini'') ''antigravity-cli''
               | None \<Rightarrow> ''''))"

definition AntigravityBrainDir :: "adapter_env \<Rightarrow> string \<Rightarrow> string" where
  "AntigravityBrainDir ae session0 =
     (let session = trim_space session0; appData = AntigravityAppDataDir ae
      in if session = '''' \<or> contains session ''..'' \<or> contains_any session [slash, backslash] then ''''
         else if appData = '''' then ''''
         else join_path (join_path appData ''brain'') session)"

record antigravity_payload =
  agConversationID :: string
  agTool :: string
  agCommandLine :: string
  agCwd :: string
  agArgs :: "json option"
  agWorkspacePaths :: "string list"

definition antigravity_decode :: "json \<Rightarrow> antigravity_payload option" where
  "antigravity_decode j = do {
     kvs \<leftarrow> members j;
     conversation \<leftarrow> string_field ''conversationId'' kvs;
     call \<leftarrow> struct_field ''toolCall'' kvs;
     name \<leftarrow> string_field ''name'' call;
     args \<leftarrow> struct_field ''args'' call;
     command \<leftarrow> string_field ''CommandLine'' args;
     cwd \<leftarrow> string_field ''Cwd'' args;
     _ \<leftarrow> string_field ''AbsolutePath'' args;
     _ \<leftarrow> string_field ''TargetFile'' args;
     workspaces \<leftarrow> strings_field ''workspacePaths'' kvs;
     Some \<lparr>agConversationID = conversation, agTool = name, agCommandLine = command, agCwd = cwd,
           agArgs = raw_field ''args'' call, agWorkspacePaths = workspaces\<rparr>}"

definition antigravity_capability :: "string \<Rightarrow> (string \<times> json) list \<Rightarrow> capability \<Rightarrow> capability" where
  "antigravity_capability tool input cap =
     (if tool = ''manage_task''
      then (if map_string input ''Action'' \<in> {Some ''list'', Some ''status'', Some ''kill''} then CapabilitySafeControl
            else CapabilityDeny)
      else if tool = ''schedule''
      then (if isAntigravityOneShotTimer input then CapabilitySafeControl else CapabilityExternal)
      else cap)"

definition antigravity_command :: "antigravity_payload \<Rightarrow> (string \<times> json) list \<Rightarrow> string" where
  "antigravity_command p input =
     (if agCommandLine p \<noteq> '''' then agCommandLine p
      else (case first_path input [''CommandLine'', ''Command'', ''Code''] of
              Some c \<Rightarrow> c
            | None \<Rightarrow>
                (case first_path input [''NotebookPath''] of Some nb \<Rightarrow> ''jupyter execute '' @ nb | None \<Rightarrow> '''')))"

definition antigravity_url :: "(string \<times> json) list \<Rightarrow> capability \<Rightarrow> string option" where
  "antigravity_url input cap =
     (if cap \<noteq> CapabilityWebFetch then Some ''''
      else if map_of input ''URL'' \<noteq> None \<or> map_of input ''url'' \<noteq> None then None
      else map_string input ''Url'')"

definition antigravity_call ::
  "adapter_env \<Rightarrow> string \<Rightarrow> antigravity_payload \<Rightarrow> (string \<times> json) list \<Rightarrow> tool_call option" where
  "antigravity_call ae phase p input =
     (let (spec, mcp) = typed_spec (agTool p) (AntigravityTool (agTool p));
          cap = antigravity_capability (agTool p) input (tsCapability spec);
          cwd = (if agCwd p = '''' \<and> agWorkspacePaths p \<noteq> [] then hd (agWorkspacePaths p) else agCwd p);
          brain = AntigravityBrainDir ae (agConversationID p)
      in do {
        paths \<leftarrow> (if takes_paths cap
                  then map_option (\<lambda>ps. ps @ mcp_paths mcp (agArgs p)) (documentedAntigravityPaths (agTool p) input)
                  else Some []);
        url \<leftarrow> antigravity_url input cap;
        let tc = zero_call\<lparr>tcPlane := ''antigravity'', tcEvent := (if phase = ''post'' then ''post'' else ''pre''),
              tcTool := tsTool spec, tcNativeTool := agTool p, tcCapability := cap,
              tcCommand := (if cap = CapabilityCommand then antigravity_command p input else agCommandLine p),
              tcSessionID := agConversationID p, tcCWD := cwd, tcArguments := raw_text ae (agArgs p),
              tcPermittedRoots := (if brain \<noteq> '''' then [brain] else []), tcPaths := paths, tcURL := url,
              tcInputShape := input_shape cap, tcRepoRoot := repoRoot ae cwd\<rparr>;
        Some (tc\<lparr>tcNativeWebResearch := nativeResearchCall ae tc (agArgs p)\<rparr>)})"

definition ParseAntigravity :: "adapter_env \<Rightarrow> string \<Rightarrow> string option \<Rightarrow> adapter_error + tool_call" where
  "ParseAntigravity ae phase input =
     and_then (required EnvelopeUnreadable input)
       (\<lambda>raw. and_then (required EnvelopeInvalid (Option.bind (aeDecode ae raw) antigravity_decode))
          (\<lambda>p. and_then (required InputInvalid (Option.bind (agArgs p) decode_map))
             (\<lambda>m. required InputInvalid (antigravity_call ae phase p m))))"

section \<open>Every path a call names is projected\<close>

lemma add_path_set:
  "set (foldl add_path acc vs) = set acc \<union> {p. p \<noteq> '''' \<and> Some (JString p) \<in> set vs}"
  by (induction vs arbitrary: acc) (auto simp: add_path_def split: option.splits json.splits)

lemma add_path_distinct: "distinct acc \<Longrightarrow> distinct (foldl add_path acc vs)"
  by (induction vs arbitrary: acc) (auto simp: add_path_def split: option.splits json.splits)

text \<open>What a path argument is: a non-empty string under one of the path keys.\<close>

definition names_path :: "(string \<times> json) list \<Rightarrow> string \<Rightarrow> bool" where
  "names_path m q \<longleftrightarrow> q \<noteq> '''' \<and> (\<exists>k\<in>set claudePathKeys. map_of m k = Some (JString q))"

definition edit_names_path :: "(string \<times> json) list \<Rightarrow> string \<Rightarrow> bool" where
  "edit_names_path m q \<longleftrightarrow>
     (\<exists>entries kvs. map_of m ''edits'' = Some (JArray entries) \<and> JObject kvs \<in> set entries \<and> names_path (object_map kvs) q)"

lemma path_values_iff: "q \<noteq> '''' \<and> Some (JString q) \<in> set (path_values m) \<longleftrightarrow> names_path m q"
  by (force simp: path_values_def names_path_def image_iff)

lemma edit_values_iff:
  "q \<noteq> '''' \<and> Some (JString q) \<in> set (concat (map (\<lambda>e. case e of JObject kvs \<Rightarrow> path_values (object_map kvs) | _ \<Rightarrow> []) entries)) \<longleftrightarrow>
   (\<exists>kvs. JObject kvs \<in> set entries \<and> names_path (object_map kvs) q)"
proof -
  have "Some (JString q) \<in> set (case e of JObject kvs \<Rightarrow> path_values (object_map kvs) | _ \<Rightarrow> []) \<longleftrightarrow>
      (\<exists>kvs. e = JObject kvs \<and> Some (JString q) \<in> set (path_values (object_map kvs)))" for e
    by (cases e) auto
  then show ?thesis by (auto simp flip: path_values_iff)
qed

lemma claude_path_values_iff:
  "q \<noteq> '''' \<and> Some (JString q) \<in> set (claude_path_values m) \<longleftrightarrow> names_path m q \<or> edit_names_path m q"
proof (cases "\<exists>entries. map_of m ''edits'' = Some (JArray entries)")
  case True
  then obtain entries where e: "map_of m ''edits'' = Some (JArray entries)" by blast
  show ?thesis
    using edit_values_iff [of q entries] path_values_iff [of q m]
    by (auto simp: claude_path_values_def edit_names_path_def e)
next
  case False
  then have "claude_path_values m = path_values m"
    by (auto simp: claude_path_values_def split: option.splits json.splits)
  with False show ?thesis using path_values_iff [of q m] by (auto simp: edit_names_path_def)
qed

lemma claudeInputPaths_set: "set (claudeInputPaths m) = {q. names_path m q \<or> edit_names_path m q}"
  using claude_path_values_iff [of _ m] by (auto simp: claudeInputPaths_def add_path_set)

text \<open>C10: No path of a Claude call escapes the rules.  When the contract says that a tool reads or changes files, the
  paths the engine judges are exactly the non-empty strings the call's input has under a path key, at
  the top or in any entry of its edits, each once; whatever else the input holds.\<close>

theorem claude_paths_complete:
  assumes "Option.bind (aeDecode ae raw) claude_decode = Some p" and "cpToolInput p = Some (JObject kvs)"
    and "claude_spec (cpToolName p) = (spec, None)" and "takes_paths (tsCapability spec)"
  shows "\<exists>tc. ParseClaude ae (Some raw) = Inr tc \<and> tcTool tc = tsTool spec \<and> tcCapability tc = tsCapability spec \<and>
    distinct (tcPaths tc) \<and>
    (\<forall>q. q \<in> set (tcPaths tc) \<longleftrightarrow> names_path (object_map kvs) q \<or> edit_names_path (object_map kvs) q)"
proof -
  let ?tc = "claude_call ae p (object_map kvs)"
  have "ParseClaude ae (Some raw) = Inr ?tc"
    using assms(1,2) by (simp add: ParseClaude_def required_def decode_map_def members_def)
  moreover have paths: "tcPaths ?tc = claudeInputPaths (object_map kvs)"
    and "tcTool ?tc = tsTool spec" "tcCapability ?tc = tsCapability spec"
    using assms(3,4) by (simp_all add: claude_call_def Let_def)
  moreover have "distinct (tcPaths ?tc)"
    by (simp add: paths claudeInputPaths_def add_path_distinct)
  ultimately show ?thesis by (auto simp: claudeInputPaths_set)
qed

text \<open>A host that sends one MultiEdit call, read back from its only envelope.\<close>

definition demo_edit :: json where
  "demo_edit =
     JObject [(''session_id'', JString ''s''), (''cwd'', JString ''/w''), (''hook_event_name'', JString ''PreToolUse''),
       (''tool_name'', JString ''MultiEdit''),
       (''tool_input'', JObject [(''file_path'', JString ''a.go''),
          (''edits'', JArray [JObject [(''file_path'', JString ''b.go'')], JObject [(''path'', JString ''a.go'')]])])]"

definition demo_host :: "json \<Rightarrow> adapter_env" where
  "demo_host j =
     \<lparr>aeDecode = (\<lambda>s. if s = ''body'' then Some j else None), aeRaw = (\<lambda>_. ''{}''), aeFindRepoRoot = Some,
      aeParseURL = (\<lambda>_. None), aeTimeOK = (\<lambda>_. True), aeHome = Some ''/home/u'', aeGetenv = (\<lambda>_. '''')\<rparr>"

definition tool_input_members :: "claude_payload \<Rightarrow> (string \<times> json) list" where
  "tool_input_members p = (case cpToolInput p of Some (JObject kvs) \<Rightarrow> kvs | _ \<Rightarrow> [])"

theorem claude_paths_complete_witness:
  "map_option (\<lambda>p. tsTool (fst (claude_spec (cpToolName p)))) (Option.bind (aeDecode (demo_host demo_edit) ''body'') claude_decode) =
     Some ''MultiEdit'' \<and>
   (\<exists>tc. ParseClaude (demo_host demo_edit) (Some ''body'') = Inr tc \<and> distinct (tcPaths tc) \<and>
      set (tcPaths tc) = {''a.go'', ''b.go''})"
proof -
  let ?p = "the (Option.bind (aeDecode (demo_host demo_edit) ''body'') claude_decode)"
  let ?kvs = "tool_input_members ?p"
  let ?m = "object_map ?kvs"
  let ?spec = "fst (claude_spec (cpToolName ?p))"
  have p: "Option.bind (aeDecode (demo_host demo_edit) ''body'') claude_decode = Some ?p"
    and kvs: "cpToolInput ?p = Some (JObject ?kvs)"
    and spec: "claude_spec (cpToolName ?p) = (?spec, None)" and cap: "takes_paths (tsCapability ?spec)"
    and tool: "map_option (\<lambda>p. tsTool (fst (claude_spec (cpToolName p)))) (Option.bind (aeDecode (demo_host demo_edit) ''body'') claude_decode) =
     Some ''MultiEdit''"
    by code_simp+
  obtain tc where tc: "ParseClaude (demo_host demo_edit) (Some ''body'') = Inr tc" "distinct (tcPaths tc)"
    and iff: "\<And>q. q \<in> set (tcPaths tc) \<longleftrightarrow> names_path ?m q \<or> edit_names_path ?m q"
    using claude_paths_complete [OF p kvs spec cap] by blast
  have "set (tcPaths tc) = set (claudeInputPaths ?m)" unfolding claudeInputPaths_set using iff by blast
  moreover have "claudeInputPaths ?m = [''a.go'', ''b.go'']" by code_simp
  ultimately have "set (tcPaths tc) = {''a.go'', ''b.go''}" by simp
  with tc tool show ?thesis by blast
qed

section \<open>Tools nobody has classified\<close>

lemma research_tools_contracted:
  "researchQueryKey ''claude'' t \<noteq> None \<or> ''claude/'' @ t \<in> set [''claude/WebFetch'', ''opencode/webfetch'', ''antigravity/read_url_content''] \<Longrightarrow> ClaudeTool t \<noteq> None"
  "researchQueryKey ''opencode'' t \<noteq> None \<or> ''opencode/'' @ t \<in> set [''claude/WebFetch'', ''opencode/webfetch'', ''antigravity/read_url_content''] \<Longrightarrow> OpencodeTool t \<noteq> None"
proof -
  have c: "ClaudeTool ''WebSearch'' \<noteq> None" "ClaudeTool ''WebFetch'' \<noteq> None"
    "OpencodeTool ''websearch'' \<noteq> None" "OpencodeTool ''webfetch'' \<noteq> None" by code_simp+
  show "ClaudeTool t \<noteq> None" if "researchQueryKey ''claude'' t \<noteq> None \<or> ''claude/'' @ t \<in> set [''claude/WebFetch'', ''opencode/webfetch'', ''antigravity/read_url_content'']"
    using that c by (auto simp: researchQueryKey_def Let_def split: if_splits)
  show "OpencodeTool t \<noteq> None" if "researchQueryKey ''opencode'' t \<noteq> None \<or> ''opencode/'' @ t \<in> set [''claude/WebFetch'', ''opencode/webfetch'', ''antigravity/read_url_content'']"
    using that c by (auto simp: researchQueryKey_def Let_def split: if_splits)
qed

lemma research_needs_name:
  assumes "nativeResearchCall ae tc args"
  shows "researchQueryKey (tcPlane tc) (tcNativeTool tc) \<noteq> None \<or>
    tcPlane tc @ ''/'' @ tcNativeTool tc \<in> set [''claude/WebFetch'', ''opencode/webfetch'', ''antigravity/read_url_content'']"
  using assms by (auto simp: nativeResearchCall_def split: option.splits)

lemma Evaluate_unknown:
  assumes "tcCapability tc = CapabilityUnknown" and "\<not> tcNativeWebResearch tc"
    and "tcPlane tc \<in> {''claude'', ''codex'', ''opencode''}"
  shows "vDecision (Evaluate cc tc pol) \<in> {Ask, Deny}"
  using assms by (auto simp: Evaluate_def early_verdict_def unknown_tool_def)

lemma required_Inr: "required e x = Inr y \<longleftrightarrow> x = Some y"
  by (simp add: required_def split: option.split)

lemma claude_unknown:
  assumes "ParseClaude ae input = Inr tc" and "ClaudeTool (tcNativeTool tc) = None" and "MatchMCPTool (tcNativeTool tc) = None"
  shows "tcCapability tc = CapabilityUnknown \<and> \<not> tcNativeWebResearch tc \<and> tcPlane tc = ''claude''"
proof -
  from assms(1) obtain p m where tc: "tc = claude_call ae p m"
    by (auto simp: ParseClaude_def required_Inr and_then_Inr)
  then have name: "tcNativeTool tc = cpToolName p" by (simp add: claude_call_def Let_def split: prod.splits)
  with assms have spec: "claude_spec (cpToolName p) = (mk_tool_spec (cpToolName p) (cpToolName p) CapabilityUnknown, None)"
    by (simp add: claude_spec_def)
  have "\<not> tcNativeWebResearch tc"
  proof
    assume "tcNativeWebResearch tc"
    then have "researchQueryKey ''claude'' (cpToolName p) \<noteq> None \<or>
        ''claude/'' @ cpToolName p \<in> set [''claude/WebFetch'', ''opencode/webfetch'', ''antigravity/read_url_content'']"
      by (auto simp: tc claude_call_def spec Let_def dest!: research_needs_name)
    from research_tools_contracted(1) [OF this] assms(2) name show False by simp
  qed
  then show ?thesis by (simp add: tc claude_call_def spec Let_def mk_tool_spec_def)
qed

lemma opencode_unknown:
  assumes "ParseOpencode ae input = Inr tc" and "OpencodeTool (tcNativeTool tc) = None" and "MatchMCPTool (tcNativeTool tc) = None"
  shows "tcCapability tc = CapabilityUnknown \<and> \<not> tcNativeWebResearch tc \<and> tcPlane tc = ''opencode''"
proof -
  from assms(1) obtain p event patched url where
    tc: "tc = opencode_call ae p event (typed_spec (opTool p) (OpencodeTool (opTool p))) patched url"
    by (auto simp: ParseOpencode_def required_Inr and_then_Inr Let_def split: if_splits)
  then have name: "tcNativeTool tc = opTool p" by (simp add: opencode_call_def Let_def split: prod.splits)
  with assms have spec: "typed_spec (opTool p) (OpencodeTool (opTool p)) = (mk_tool_spec (opTool p) (opTool p) CapabilityUnknown, None)"
    by (simp add: typed_spec_def)
  have "\<not> tcNativeWebResearch tc"
  proof
    assume "tcNativeWebResearch tc"
    then have "researchQueryKey ''opencode'' (opTool p) \<noteq> None \<or>
        ''opencode/'' @ opTool p \<in> set [''claude/WebFetch'', ''opencode/webfetch'', ''antigravity/read_url_content'']"
      by (auto simp: tc opencode_call_def spec Let_def dest!: research_needs_name)
    from research_tools_contracted(2) [OF this] assms(2) name show False by simp
  qed
  then show ?thesis by (simp add: tc opencode_call_def spec Let_def mk_tool_spec_def)
qed

lemma codex_web_contracted: "CodexTool t = None \<Longrightarrow> t \<noteq> ''web.run''"
proof
  assume "CodexTool t = None" "t = ''web.run''"
  moreover have "CodexTool ''web.run'' \<noteq> None" by code_simp
  ultimately show False by simp
qed

lemma codex_arguments_fields:
  assumes "codex_arguments tc input = Some tc'"
  shows "tcNativeTool tc' = tcNativeTool tc \<and> tcPlane tc' = tcPlane tc \<and> tcNativeWebResearch tc' = tcNativeWebResearch tc \<and>
    (tcCapability tc = CapabilityUnknown \<longrightarrow> tcCapability tc' = CapabilityUnknown)"
  using assms by (auto simp: codex_arguments_def bind_eq_Some_conv split: if_splits)

lemma codex_unknown:
  assumes "ParseCodex ae input = Inr tc" and "tcEvent tc \<noteq> ''session-start''"
    and "CodexTool (tcNativeTool tc) = None" and "MatchMCPTool (tcNativeTool tc) = None"
  shows "tcCapability tc = CapabilityUnknown \<and> \<not> tcNativeWebResearch tc \<and> tcPlane tc = ''codex''"
proof -
  from assms(1,2) obtain p event m where tc: "codex_tool_call ae p event m = Some tc"
    by (auto simp: ParseCodex_def required_Inr and_then_Inr codex_start_def split: if_splits option.splits)
  have name: "tcNativeTool tc = cxTool p"
    using tc by (auto simp: codex_tool_call_def codex_mcp_call_def codex_start_def Let_def zero_call_def
        dest!: codex_arguments_fields split: option.splits if_splits)
  with assms(3,4) codex_web_contracted [of "cxTool p"] tc
  have "codex_arguments ((codex_start ae p event)\<lparr>tcContractTool := '''', tcTool := cxTool p, tcCapability := CapabilityUnknown\<rparr>) m = Some tc"
    by (simp add: codex_tool_call_def Let_def mk_tool_spec_def)
  from codex_arguments_fields [OF this] show ?thesis by (simp add: codex_start_def zero_call_def)
qed

text \<open>C9: A tool that neither the contract of its plane nor the MCP registry knows is never let through: whatever a
  Claude, OpenCode or Codex host sends, when its envelope is read as a call of such a tool, the engine
  asks or denies, under every policy and for any arguments; the switch that turns native web research
  off cannot reach it.\<close>

theorem unclassified_tool_stopped:
  assumes "ParseClaude ae input = Inr tc \<and> ClaudeTool (tcNativeTool tc) = None \<or>
      ParseOpencode ae input = Inr tc \<and> OpencodeTool (tcNativeTool tc) = None \<or>
      ParseCodex ae input = Inr tc \<and> tcEvent tc \<noteq> ''session-start'' \<and> CodexTool (tcNativeTool tc) = None"
    and "MatchMCPTool (tcNativeTool tc) = None"
  shows "vDecision (Evaluate cc tc pol) \<in> {Ask, Deny}"
proof -
  have "tcCapability tc = CapabilityUnknown \<and> \<not> tcNativeWebResearch tc \<and> tcPlane tc \<in> {''claude'', ''codex'', ''opencode''}"
    using assms claude_unknown [of ae input tc] opencode_unknown [of ae input tc] codex_unknown [of ae input tc] by auto
  then show ?thesis by (intro Evaluate_unknown) auto
qed

definition demo_unknown :: json where
  "demo_unknown =
     JObject [(''session_id'', JString ''s''), (''cwd'', JString ''/w''), (''hook_event_name'', JString ''PreToolUse''),
       (''tool_name'', JString ''Teleport''), (''tool_input'', JObject [(''query'', JString ''x'')])]"

theorem unclassified_tool_stopped_witness:
  "map_sum id tcNativeTool (ParseClaude (demo_host demo_unknown) (Some ''body'')) = Inr ''Teleport'' \<and>
   vDecision (Evaluate silent_call (projr (ParseClaude (demo_host demo_unknown) (Some ''body''))) demo_policy) \<in> {Ask, Deny}"
proof -
  let ?r = "ParseClaude (demo_host demo_unknown) (Some ''body'')"
  have "isl ?r = False" "ClaudeTool (tcNativeTool (projr ?r)) = None" "MatchMCPTool (tcNativeTool (projr ?r)) = None"
    and name: "map_sum id tcNativeTool ?r = Inr ''Teleport''"
    by code_simp+
  moreover from this have "?r = Inr (projr ?r)" by (simp add: sum.exhaust_sel)
  ultimately show ?thesis using unclassified_tool_stopped by blast
qed

section \<open>Every file a patch touches is projected\<close>

definition patch_body :: "string \<Rightarrow> string list" where
  "patch_body patch = butlast (tl (split_on CHR 0x0A (trim_space (unix_lines patch))))"

definition patch_target :: "string \<Rightarrow> string \<Rightarrow> string" where
  "patch_target cwd path = (if is_abs path then path else join_path cwd path)"

definition header_of :: "string \<Rightarrow> string option" where
  "header_of line = find (has_prefix line) patchHeaders"

lemma header_of_all: "list_all (\<lambda>header. header_of (header @ path) = Some header) patchHeaders"
  by (simp add: header_of_def patchHeaders_def)

lemma header_of_header: "header \<in> set patchHeaders \<Longrightarrow> header_of (header @ path) = Some header"
  using header_of_all [of path] by (simp add: list_all_iff)

lemma patch_lines_pre:
  assumes "patch_lines cwd False (n, paths) ls = Some (n', paths')"
  shows "n' = n + length (filter (\<lambda>l. header_of l \<noteq> None) ls) \<and>
    paths' = paths @ map (\<lambda>l. patch_target cwd (drop (length (the (header_of l))) l)) (filter (\<lambda>l. header_of l \<noteq> None) ls) \<and>
    (\<forall>l\<in>set ls. \<forall>h. header_of l = Some h \<longrightarrow> trim_space (drop (length h) l) \<noteq> '''')"
  using assms
proof (induction ls arbitrary: n paths)
  case (Cons l ls)
  show ?case
  proof (cases "header_of l")
    case None
    with Cons show ?thesis by (auto simp: patch_line_def header_of_def)
  next
    case (Some h)
    with Cons.prems have "trim_space (drop (length h) l) \<noteq> ''''"
      "patch_lines cwd False (n + 1, paths @ [patch_target cwd (drop (length h) l)]) ls = Some (n', paths')"
      by (auto simp: patch_line_def patch_file_def patch_target_def header_of_def Let_def split: if_splits)
    from this(1) Cons.IH [OF this(2)] Some show ?thesis by auto
  qed
qed simp

text \<open>C35: Before a patch is applied, every file it adds, updates, deletes or moves something to is judged: an accepted patch
  has at least one file header, each header line of its body puts the path it names, made absolute in the call's
  directory, among the paths of the call, and there are no other paths; a header with a blank path is refused.\<close>

theorem patch_files_projected:
  assumes "applyPatchPaths patch cwd False = Some paths"
  shows "paths \<noteq> [] \<and>
    set paths = {patch_target cwd path | header path. header \<in> set patchHeaders \<and> header @ path \<in> set (patch_body patch)} \<and>
    (\<forall>header path. header \<in> set patchHeaders \<longrightarrow> header @ path \<in> set (patch_body patch) \<longrightarrow> trim_space path \<noteq> '''')"
proof -
  let ?hs = "filter (\<lambda>l. header_of l \<noteq> None) (patch_body patch)"
  let ?path = "\<lambda>l. drop (length (the (header_of l))) l"
  from assms obtain n where "patch_lines cwd False (0, []) (patch_body patch) = Some (n, paths)" "n \<noteq> 0"
    by (auto simp: applyPatchPaths_def patch_body_def Let_def split: if_splits option.splits)
  with patch_lines_pre [of cwd 0 "[]"]
  have paths: "paths = map (\<lambda>l. patch_target cwd (?path l)) ?hs" and ne: "?hs \<noteq> []"
    and blank: "\<And>l h. l \<in> set (patch_body patch) \<Longrightarrow> header_of l = Some h \<Longrightarrow> trim_space (drop (length h) l) \<noteq> ''''"
    by fastforce+
  have header: "header \<in> set patchHeaders \<and> l = header @ drop (length header) l" if "header_of l = Some header" for l header
    using that by (auto simp: header_of_def find_Some_iff has_prefix_iff_prefix prefix_def)
  have "set paths \<subseteq> {patch_target cwd path | header path. header \<in> set patchHeaders \<and> header @ path \<in> set (patch_body patch)}"
    using header unfolding paths by fastforce
  moreover have "patch_target cwd path \<in> set paths \<and> trim_space path \<noteq> ''''"
    if "header \<in> set patchHeaders" "header @ path \<in> set (patch_body patch)" for header path
    using header_of_header [OF that(1), of path] that(2) blank [OF that(2)] by (force simp: paths)
  ultimately show ?thesis using ne by (auto simp: paths)
qed

definition demo_patch :: string where
  "demo_patch =
     ''*** Begin Patch'' @ [CHR 0x0A] @ ''*** Update File: a.go'' @ [CHR 0x0A] @ ''*** Move to: /etc/passwd'' @ [CHR 0x0A] @
     ''+x'' @ [CHR 0x0A] @ ''*** End Patch''"

theorem patch_files_projected_witness:
  "applyPatchPaths demo_patch ''/w'' False = Some [''/w/a.go'', ''/etc/passwd''] \<and>
   ''/etc/passwd'' \<in> {patch_target ''/w'' path | header path. header \<in> set patchHeaders \<and> header @ path \<in> set (patch_body demo_patch)}"
proof -
  have p: "applyPatchPaths demo_patch ''/w'' False = Some [''/w/a.go'', ''/etc/passwd'']" by code_simp
  have "''/etc/passwd'' \<in> set [''/w/a.go'', ''/etc/passwd'']" by simp
  with patch_files_projected [OF p] p show ?thesis by blast
qed

section \<open>Reports of calls the plugin let pass\<close>

text \<open>Of the degraded allows a plugin reports, at most 32 are kept, each for a tool of the contract's two lists.\<close>

lemma degraded_reports_bounded:
  "length (sanitizeDegradedAllows ae reports) \<le> 32 \<and>
   (\<forall>r\<in>set (sanitizeDegradedAllows ae reports). r \<in> set reports \<and> length (darTool r) \<le> 64 \<and> length (darCallID r) \<le> 128 \<and>
      (DegradedAllow ''opencode'' (darTool r) \<or> FloorFallback ''opencode'' (darTool r)))"
  by (auto simp: sanitizeDegradedAllows_def report_kept_def dest!: in_set_takeD)

section \<open>Antigravity paths and the brain directory\<close>

lemma alias_path_agrees:
  "alias_path input path aliases = Some q \<Longrightarrow>
   q \<noteq> '''' \<and> (path = '''' \<or> path = q) \<and> (\<forall>al\<in>set aliases. map_string input al \<in> {None, Some '''', Some q})"
  by (induction aliases arbitrary: path) (auto simp: Let_def split: if_splits option.splits)

lemma schemas_not_special:
  "map_of antigravityPathSchemas tool = Some schema \<Longrightarrow> tool \<notin> {''notebook_edit'', ''sed_file'', ''delete_knowledge''}"
  by (auto simp: antigravityPathSchemas_def)

text \<open>A tool with a schema fails closed on an undocumented argument and on two path arguments that disagree.\<close>

lemma schema_path_unambiguous:
  assumes "map_of antigravityPathSchemas tool = Some schema" and "tool \<noteq> ''multi_replace_file_content''"
    and "documentedAntigravityPaths tool input = Some paths"
  obtains q where "paths = [q]" and "q \<noteq> ''''" and "\<forall>p\<in>set input. fst p \<in> set (psAllowed schema)"
    and "\<forall>k\<in>set (psKey schema # psAliases schema). map_string input k \<in> {None, Some '''', Some q}"
proof -
  from assms schemas_not_special [OF assms(1)] obtain q where
    q: "alias_path input (case map_string input (psKey schema) of Some s \<Rightarrow> s | None \<Rightarrow> '''') (psAliases schema) = Some q"
    and "paths = [q]" "\<forall>p\<in>set input. fst p \<in> set (psAllowed schema)"
    by (auto simp: documentedAntigravityPaths_def list_all_iff split: if_splits)
  with alias_path_agrees [OF q] show ?thesis by (intro that) (auto split: option.splits)
qed

text \<open>\<^verbatim>\<open>sed_file\<close> has no such check: of two paths that disagree only the first is judged.\<close>

lemma sed_second_path_unjudged:
  "documentedAntigravityPaths ''sed_file''
     [(''TargetFile'', JString ''a.txt''), (''FilePath'', JString ''/etc/passwd'')] = Some [''a.txt'']"
  by code_simp

text \<open>A conversation called \<^verbatim>\<open>.\<close> is given the directory of all conversations.\<close>

lemma dot_session_shares_brain:
  "AntigravityBrainDir (demo_host JNull) ''.'' = ''/home/u/.gemini/antigravity-cli/brain''"
  by code_simp

end
