(* ===== verification/Safe_Text.thy ===== *)
theory Safe_Text
  imports Guard_Prelude
begin

text \<open>
  Text shown to a model: \<^verbatim>\<open>src/internal/safetext/safetext.go\<close> and \<^verbatim>\<open>src/internal/adapter/sanitize.go\<close>.

  A Go string is its bytes; ranging over it decodes UTF-8, and a byte that starts no valid sequence is the
  rune U+FFFD.  \<open>runes\<close> and \<open>encode_runes\<close> are these two conversions, \<open>is_control\<close> and \<open>is_white\<close> the classes
  \<^verbatim>\<open>unicode.IsControl\<close> and \<^verbatim>\<open>unicode.IsSpace\<close>.  The facts: encoding and decoding are inverse on valid runes, and what
  is shown to a model is one bounded line without control characters.
\<close>

section \<open>UTF-8\<close>

type_synonym rune = nat

definition byte :: "char \<Rightarrow> nat" where
  "byte c = of_char c"

definition continues :: "nat \<Rightarrow> nat \<Rightarrow> char \<Rightarrow> bool" where
  "continues lo hi c \<longleftrightarrow> lo \<le> byte c \<and> byte c \<le> hi"

text \<open>The range of the second byte, by the first: no overlong form, no surrogate, nothing above U+10FFFF.\<close>

definition second_low :: "nat \<Rightarrow> nat" where
  "second_low n = (if n = 0xE0 then 0xA0 else if n = 0xF0 then 0x90 else 0x80)"

definition second_high :: "nat \<Rightarrow> nat" where
  "second_high n = (if n = 0xED then 0x9F else if n = 0xF4 then 0x8F else 0xBF)"

definition bad_rune :: "rune \<times> nat" where
  "bad_rune = (0xFFFD, 0)"

text \<open>The rune that starts with the byte \<open>n\<close>, and how many of the following bytes it takes.\<close>

definition rune_at :: "nat \<Rightarrow> string \<Rightarrow> rune \<times> nat" where
  "rune_at n s =
     (if n < 0x80 then (n, 0)
      else if 0xC2 \<le> n \<and> n \<le> 0xDF
      then (case s of
              b # _ \<Rightarrow> if continues 0x80 0xBF b then ((n - 0xC0) * 64 + (byte b - 0x80), 1) else bad_rune
            | _ \<Rightarrow> bad_rune)
      else if 0xE0 \<le> n \<and> n \<le> 0xEF
      then (case s of
              b # c # _ \<Rightarrow>
                if continues (second_low n) (second_high n) b \<and> continues 0x80 0xBF c
                then ((n - 0xE0) * 4096 + (byte b - 0x80) * 64 + (byte c - 0x80), 2) else bad_rune
            | _ \<Rightarrow> bad_rune)
      else if 0xF0 \<le> n \<and> n \<le> 0xF4
      then (case s of
              b # c # d # _ \<Rightarrow>
                if continues (second_low n) (second_high n) b \<and>
                   continues 0x80 0xBF c \<and> continues 0x80 0xBF d
                then ((n - 0xF0) * 262144 + (byte b - 0x80) * 4096 + (byte c - 0x80) * 64 + (byte d - 0x80), 3)
                else bad_rune
            | _ \<Rightarrow> bad_rune)
      else bad_rune)"

function runes :: "string \<Rightarrow> rune list" where
  "runes [] = []"
| "runes (a # s) = fst (rune_at (byte a) s) # runes (drop (snd (rune_at (byte a) s)) s)"
  by pat_completeness auto
termination by (relation "measure length") auto

definition valid_rune :: "rune \<Rightarrow> bool" where
  "valid_rune r \<longleftrightarrow> r < 0xD800 \<or> 0xE000 \<le> r \<and> r < 0x110000"

definition encode_rune :: "rune \<Rightarrow> string" where
  "encode_rune r0 =
     (let r = (if valid_rune r0 then r0 else 0xFFFD)
      in map char_of
           (if r < 0x80 then [r]
            else if r < 0x800 then [0xC0 + r div 64, 0x80 + r mod 64]
            else if r < 0x10000 then [0xE0 + r div 4096, 0x80 + r div 64 mod 64, 0x80 + r mod 64]
            else [0xF0 + r div 262144, 0x80 + r div 4096 mod 64, 0x80 + r div 64 mod 64, 0x80 + r mod 64]))"

definition encode_runes :: "rune list \<Rightarrow> string" where
  "encode_runes rs = concat (map encode_rune rs)"

lemma byte_char [simp]: "n < 256 \<Longrightarrow> byte (char_of n) = n"
  by (simp add: byte_def)

lemma byte_less: "byte c < 256"
  using nat_of_char_less_256 [of c] by (simp add: byte_def)

lemma mod_64_le: "(r::nat) mod 64 \<le> 63"
  by simp

lemma div_mod_64: "(r::nat) div 4096 * 4096 + r div 64 mod 64 * 64 + r mod 64 = r"
proof -
  have "r div 4096 = r div 64 div 64" by (simp add: div_mult2_eq [symmetric])
  then have "r div 4096 * 64 + r div 64 mod 64 = r div 64" by simp
  then have "(r div 4096 * 64 + r div 64 mod 64) * 64 + r mod 64 = r" by simp
  then show ?thesis by (simp add: algebra_simps)
qed

lemma div_mod_4096: "(r::nat) div 262144 * 262144 + r div 4096 mod 64 * 4096 + r div 64 mod 64 * 64 + r mod 64 = r"
proof -
  have "r div 262144 = r div 4096 div 64" by (simp add: div_mult2_eq [symmetric])
  then have "r div 262144 * 64 + r div 4096 mod 64 = r div 4096" by simp
  then have "(r div 262144 * 64 + r div 4096 mod 64) * 4096 + r div 64 mod 64 * 64 + r mod 64 = r"
    using div_mod_64 [of r] by simp
  then show ?thesis by (simp add: algebra_simps)
qed

lemma rune_at_three:
  assumes "a \<le> 15" and "b \<le> 63" and "c \<le> 63" and "a = 0 \<Longrightarrow> 32 \<le> b" and "a = 13 \<Longrightarrow> b \<le> 31"
  shows "rune_at (0xE0 + a) (char_of (0x80 + b) # char_of (0x80 + c) # s) = (a * 4096 + b * 64 + c, 2)"
proof -
  have "byte (char_of (0x80 + b)) = 0x80 + b" "byte (char_of (0x80 + c)) = 0x80 + c" using assms by simp_all
  with assms show ?thesis by (auto simp: rune_at_def continues_def second_low_def second_high_def)
qed

lemma rune_at_four:
  assumes "a \<le> 4" and "b \<le> 63" and "c \<le> 63" and "d \<le> 63" and "a = 0 \<Longrightarrow> 16 \<le> b" and "a = 4 \<Longrightarrow> b \<le> 15"
  shows "rune_at (0xF0 + a) (char_of (0x80 + b) # char_of (0x80 + c) # char_of (0x80 + d) # s) =
    (a * 262144 + b * 4096 + c * 64 + d, 3)"
proof -
  have "byte (char_of (0x80 + b)) = 0x80 + b" "byte (char_of (0x80 + c)) = 0x80 + c" "byte (char_of (0x80 + d)) = 0x80 + d"
    using assms by simp_all
  with assms show ?thesis by (auto simp: rune_at_def continues_def second_low_def second_high_def)
qed

lemma runes_encode_rune:
  assumes "valid_rune r"
  shows "runes (encode_rune r @ s) = r # runes s"
proof -
  consider "r < 0x80" | "0x80 \<le> r" "r < 0x800" | "0x800 \<le> r" "r < 0x10000" | "0x10000 \<le> r" "r < 0x110000"
    using assms by (force simp: valid_rune_def)
  then show ?thesis
  proof cases
    case 1
    with assms show ?thesis by (simp add: encode_rune_def rune_at_def)
  next
    case 2
    then have "2 \<le> r div 64" "r div 64 < 32" "r mod 64 \<le> 63" by simp_all
    with 2 assms show ?thesis by (simp add: encode_rune_def rune_at_def continues_def)
  next
    case 3
    let ?a = "r div 4096" and ?b = "r div 64 mod 64" and ?c = "r mod 64"
    have a: "?a \<le> 15" using 3 by simp
    have b: "?a = 0 \<Longrightarrow> 32 \<le> ?b" "?a = 13 \<Longrightarrow> ?b \<le> 31"
      using 3 assms div_mod_64 [of r] by (auto simp: valid_rune_def)
    have "rune_at (0xE0 + ?a) (char_of (0x80 + ?b) # char_of (0x80 + ?c) # s) = (r, 2)"
      using rune_at_three [OF a mod_64_le mod_64_le b] div_mod_64 [of r] by simp
    moreover have "encode_rune r = map char_of [0xE0 + ?a, 0x80 + ?b, 0x80 + ?c]" using 3 assms by (simp add: encode_rune_def)
    moreover have "byte (char_of (0xE0 + ?a)) = 0xE0 + ?a" using a by simp
    ultimately show ?thesis by simp
  next
    case 4
    let ?a = "r div 262144" and ?b = "r div 4096 mod 64" and ?c = "r div 64 mod 64" and ?d = "r mod 64"
    have a: "?a \<le> 4" using 4 by simp
    have b: "?a = 0 \<Longrightarrow> 16 \<le> ?b" "?a = 4 \<Longrightarrow> ?b \<le> 15"
      using 4 div_mod_4096 [of r] by auto
    have "rune_at (0xF0 + ?a) (char_of (0x80 + ?b) # char_of (0x80 + ?c) # char_of (0x80 + ?d) # s) = (r, 3)"
      using rune_at_four [OF a mod_64_le mod_64_le mod_64_le b] div_mod_4096 [of r] by simp
    moreover have "encode_rune r = map char_of [0xF0 + ?a, 0x80 + ?b, 0x80 + ?c, 0x80 + ?d]" using 4 assms by (simp add: encode_rune_def)
    moreover have "byte (char_of (0xF0 + ?a)) = 0xF0 + ?a" using a by simp
    ultimately show ?thesis by simp
  qed
qed

lemma runes_encode_runes: "\<forall>r\<in>set rs. valid_rune r \<Longrightarrow> runes (encode_runes rs) = rs"
  by (induction rs) (simp_all add: encode_runes_def runes_encode_rune)

lemma valid_bad_rune [simp]: "valid_rune (fst bad_rune)"
  by (simp add: bad_rune_def valid_rune_def)

lemma valid_low: "r < 0xD800 \<Longrightarrow> valid_rune r"
  by (simp add: valid_rune_def)

lemma valid_high: "0xE000 \<le> r \<Longrightarrow> r < 0x110000 \<Longrightarrow> valid_rune r"
  by (simp add: valid_rune_def)

lemma valid_three:
  assumes "0xE0 \<le> n" "n \<le> 0xEF" "b \<le> second_high n" "c \<le> 0xBF"
  shows "valid_rune ((n - 0xE0) * 4096 + (b - 0x80) * 64 + (c - 0x80))"
proof -
  have bc: "b - 0x80 \<le> 63" "c - 0x80 \<le> 63" using assms by (auto simp: second_high_def split: if_splits)
  consider "n \<le> 0xEC" | "n = 0xED" | "0xEE \<le> n" by linarith
  then show ?thesis
  proof cases
    case 1
    then have "n - 0xE0 \<le> 12" by simp
    with bc show ?thesis by (intro valid_low) linarith
  next
    case 2
    then have "b - 0x80 \<le> 31" using assms(3) by (simp add: second_high_def)
    with 2 bc show ?thesis by (intro valid_low) simp
  next
    case 3
    then have "14 \<le> n - 0xE0" "n - 0xE0 \<le> 15" using assms by simp_all
    with bc show ?thesis by (intro valid_high) linarith+
  qed
qed

lemma valid_four:
  assumes "0xF0 \<le> n" "n \<le> 0xF4" "second_low n \<le> b" "b \<le> second_high n"
    "c \<le> 0xBF" "d \<le> 0xBF"
  shows "valid_rune ((n - 0xF0) * 262144 + (b - 0x80) * 4096 + (c - 0x80) * 64 + (d - 0x80))"
proof -
  have bcd: "b - 0x80 \<le> 63" "c - 0x80 \<le> 63" "d - 0x80 \<le> 63" using assms by (auto simp: second_high_def split: if_splits)
  consider "n = 0xF0" | "n = 0xF4" | "0xF1 \<le> n" "n \<le> 0xF3" using assms by linarith
  then show ?thesis
  proof cases
    case 1
    then have "16 \<le> b - 0x80" "n - 0xF0 = 0" using assms(3) by (simp_all add: second_low_def)
    with bcd show ?thesis by (intro valid_high) linarith+
  next
    case 2
    then have "b - 0x80 \<le> 15" "n - 0xF0 = 4" using assms(4) by (simp_all add: second_high_def)
    with bcd show ?thesis by (intro valid_high) linarith+
  next
    case 3
    then have "1 \<le> n - 0xF0" "n - 0xF0 \<le> 3" by simp_all
    with bcd show ?thesis by (intro valid_high) linarith+
  qed
qed

lemma valid_rune_at: "valid_rune (fst (rune_at n s))"
proof -
  have two: "valid_rune ((n - 0xC0) * 64 + (b - 0x80))" if "n \<le> 0xDF" "b \<le> 0xBF" for b
  proof -
    from that have "n - 0xC0 \<le> 31" "b - 0x80 \<le> 63" by simp_all
    then show ?thesis by (intro valid_low) linarith
  qed
  have one: "valid_rune n" if "n < 0x80" using that by (intro valid_low) simp
  show ?thesis
    unfolding rune_at_def continues_def
    by (simp only: fst_conv valid_bad_rune split: if_split list.split) (blast intro: one two valid_three valid_four)
qed

lemma valid_runes: "r \<in> set (runes s) \<Longrightarrow> valid_rune r"
  by (induction s rule: runes.induct) (auto intro: valid_rune_at)

section \<open>One line\<close>

definition is_control :: "rune \<Rightarrow> bool" where
  "is_control r \<longleftrightarrow> r < 0x20 \<or> 0x7F \<le> r \<and> r < 0xA0"

definition is_white :: "rune \<Rightarrow> bool" where
  "is_white r \<longleftrightarrow>
     r \<in> set [0x09, 0x0A, 0x0B, 0x0C, 0x0D, 0x20, 0x85, 0xA0, 0x1680, 0x2028, 0x2029, 0x202F, 0x205F, 0x3000] \<or>
     0x2000 \<le> r \<and> r \<le> 0x200A"

fun rune_fields :: "rune list \<Rightarrow> rune list \<Rightarrow> rune list list" where
  "rune_fields w [] = (if w = [] then [] else [w])"
| "rune_fields w (r # rs) =
     (if is_white r then (if w = [] then [] else [w]) @ rune_fields [] rs else rune_fields (w @ [r]) rs)"

definition single_line_runes :: "rune list \<Rightarrow> rune list" where
  "single_line_runes rs = join [0x20] (rune_fields [] (map (\<lambda>r. if is_control r then 0x20 else r) rs))"

definition SingleLine :: "string \<Rightarrow> string" where
  "SingleLine s = encode_runes (single_line_runes (runes s))"

definition maxModelFacingRunes :: nat where
  "maxModelFacingRunes = 512"

definition ellipsis :: string where
  "ellipsis = [CHR 0xE2, CHR 0x80, CHR 0xA6]"

definition sanitizeForModel :: "string \<Rightarrow> string" where
  "sanitizeForModel s =
     (let out = SingleLine s; r = runes out
      in if length r > maxModelFacingRunes then encode_runes (take maxModelFacingRunes r) @ ellipsis else out)"

definition waiverIDPattern :: "string \<Rightarrow> bool" where
  "waiverIDPattern s \<longleftrightarrow>
     s \<noteq> '''' \<and> length s \<le> 64 \<and> list_all (\<lambda>c. is_letter c \<or> is_digit c \<or> c \<in> set ''._-'') s"

definition sanitizeWaiverIDs :: "string list \<Rightarrow> string list" where
  "sanitizeWaiverIDs ids = filter waiverIDPattern ids"

definition maxModelFacingWarnings :: nat where
  "maxModelFacingWarnings = 20"

definition sanitizeWarnings :: "string list \<Rightarrow> string list" where
  "sanitizeWarnings warnings = map sanitizeForModel (take maxModelFacingWarnings warnings)"

text \<open>The lines written to the stream the model reads.\<close>

definition EmitModelWarnings :: "string list \<Rightarrow> string" where
  "EmitModelWarnings warnings = concat (map (\<lambda>w. w @ [CHR 0x0A]) (sanitizeWarnings warnings))"

section \<open>What a model is shown\<close>

lemma rune_fields_words:
  "(\<forall>r\<in>set w. \<not> is_white r) \<Longrightarrow> u \<in> set (rune_fields w rs) \<Longrightarrow> u \<noteq> [] \<and> (\<forall>r\<in>set u. r \<in> set w \<union> set rs \<and> \<not> is_white r)"
proof (induction rs arbitrary: w)
  case (Cons r rs)
  show ?case
  proof (cases "is_white r")
    case True
    with Cons.prems Cons.IH [of "[]"] show ?thesis by (auto split: if_splits)
  next
    case False
    with Cons.prems Cons.IH [of "w @ [r]"] show ?thesis by auto
  qed
qed (auto split: if_splits)

lemma white_space [simp]: "is_white 0x20" and control_space [simp]: "\<not> is_control 0x20"
  by (simp_all add: is_white_def is_control_def)

lemma single_line_rune:
  assumes "r \<in> set (single_line_runes rs)"
  shows "r = 0x20 \<or> r \<in> set rs \<and> \<not> is_control r \<and> \<not> is_white r"
proof -
  let ?blank = "\<lambda>r. if is_control r then 0x20 else r"
  from set_join [OF assms [unfolded single_line_runes_def]] have "r = 0x20 \<or> (\<exists>u\<in>set (rune_fields [] (map ?blank rs)). r \<in> set u)"
    by simp
  then show ?thesis
  proof
    assume "\<exists>u\<in>set (rune_fields [] (map ?blank rs)). r \<in> set u"
    then have "r \<in> set (map ?blank rs) \<and> \<not> is_white r"
      using rune_fields_words [of "[]"] by fastforce
    then show ?thesis by (auto split: if_splits)
  qed simp
qed

lemma runes_SingleLine: "runes (SingleLine s) = single_line_runes (runes s)"
proof -
  have "valid_rune r" if "r \<in> set (single_line_runes (runes s))" for r
    using single_line_rune [OF that] valid_runes [of r s] by (auto simp: valid_rune_def)
  then show ?thesis by (simp add: SingleLine_def runes_encode_runes)
qed

lemma encode_ellipsis: "encode_runes [0x2026] = ellipsis"
  by (simp add: encode_runes_def encode_rune_def valid_rune_def ellipsis_def char_of_def bit_iff_odd)

lemma encode_runes_append [simp]: "encode_runes (rs @ rs') = encode_runes rs @ encode_runes rs'"
  by (simp add: encode_runes_def)

lemma runes_sanitizeForModel:
  "runes (sanitizeForModel s) =
     (let r = single_line_runes (runes s) in if length r > maxModelFacingRunes then take maxModelFacingRunes r @ [0x2026] else r)"
proof -
  let ?r = "single_line_runes (runes s)"
  have "\<forall>r\<in>set (take maxModelFacingRunes ?r @ [0x2026]). valid_rune r"
    using runes_SingleLine [of s] valid_runes [of _ "SingleLine s"] by (auto simp: valid_rune_def dest!: in_set_takeD)
  from runes_encode_runes [OF this]
  have "runes (encode_runes (take maxModelFacingRunes ?r) @ ellipsis) = take maxModelFacingRunes ?r @ [0x2026]"
    by (simp add: encode_ellipsis)
  then show ?thesis by (simp add: sanitizeForModel_def runes_SingleLine Let_def)
qed


definition two_lines :: string where
  "two_lines = ''a'' @ [CHR 0x0A, CHR 0x1B, CHR 0xFF] @ ''b''"


text \<open>The warnings shown are at most twenty such lines.\<close>

lemma model_warnings_bounded:
  "length (sanitizeWarnings ws) \<le> 20 \<and> set (sanitizeWarnings ws) \<subseteq> range sanitizeForModel"
  by (auto simp: sanitizeWarnings_def maxModelFacingWarnings_def)

end
