(* ===== verification/Adapter_Emit.thy ===== *)
theory Adapter_Emit
  imports Adapters Safe_Text Hook
begin

text \<open>
  From a verdict to what the host reads: the guidance texts of \<^verbatim>\<open>src/internal/adapter/guidance.go\<close> and
  \<^verbatim>\<open>guidance_metadata.go\<close>, the \<^verbatim>\<open>Emit\<close> functions of the four planes, the session posture, and the two ends of
  \<^verbatim>\<open>cmdHook\<close> that the theory \<open>Hook\<close> leaves open: the plane's parser and \<^verbatim>\<open>emitVerdict\<close>.

  An \<open>emitted\<close> is what the process leaves behind: its exit code, the JSON value on standard output and the
  text on standard error.  \<open>json.Marshal\<close> of the raw arguments and \<^verbatim>\<open>filepath.EvalSymlinks\<close> are the fields of
  \<open>emit_env\<close>; an object on standard output has its keys in the order \<^verbatim>\<open>json.Marshal\<close> gives them.  The
  Windows branches are not taken.
\<close>

record emit_env =
  emMarshal :: "string \<Rightarrow> string option"
  emEvalSymlinks :: "string \<Rightarrow> string option"

record emitted =
  exitCode :: nat
  stdoutJSON :: "json option"
  stderrText :: string

section \<open>Next steps\<close>

definition next_mention :: string where
  "next_mention =
     ''Only a mention was seen, but interpreter input cannot be inspected. Put this content in '' @
     ''the file with the Write or Edit tool instead of a shell literal, then continue.''"

definition next_secret_in_text :: string where
  "next_secret_in_text =
     ''The secret-tier path was mentioned in the command's text, not accessed. Content like '' @
     ''this belongs in the file, not a shell literal: write it with the Write or Edit tool, '' @ ''then continue.''"

definition next_call_mcp :: string where
  "next_call_mcp =
     ''Call it by its direct name, mcp_<server>_<tool>, if offered. If not, do not retry '' @
     ''through call_mcp_tool: work with native tools and tell the operator the server's tools '' @
     ''must be loaded eagerly.''"

definition next_capability :: string where
  "next_capability =
     ''This tool is outside the Guardrail boundary on this plane (it moves data or control to '' @
     ''another principal). Do not retry it: reach the outcome with in-session tools, or tell '' @
     ''the operator this step needs them; then continue.''"

definition next_delegation :: string where
  "next_delegation =
     ''This capability is unavailable on this plane. Do not delegate and do not retry: perform '' @
     ''the work yourself in this session, then continue.''"

definition next_unknown :: string where
  "next_unknown =
     ''This tool is unclassified on this plane. Accomplish the same outcome with a supported '' @
     ''tool (edit, read, or explicit command), then continue.''"

definition next_input :: string where
  "next_input =
     ''The call could not be projected for evaluation. Re-issue the work with a supported form '' @ em_dash @
     '' edits with explicit file paths, an explicit command, or a full HTTP URL '' @ em_dash @ '' then continue.''"

definition next_secret :: string where
  "next_secret =
     ''This is a secret-tier path: it is denied here, and only an authorized Overlay '' @
     ''secret_allow can allow a matching file secret (never directory secrets). Exclude this '' @
     ''path and continue the rest of the task.''"

definition next_self_config :: string where
  "next_self_config =
     ''This is Guardrail-protected machinery: never edit it from a session. If it genuinely '' @
     ''needs repair, tell the operator; `guardrail doctor` prints the exact repair command. '' @
     ''Continue other work.''"

definition next_operator :: string where
  "next_operator =
     ''This is an operator action this plane cannot ask for here. Tell the operator the exact '' @
     ''command from this message; they run it in their own terminal and answer its prompt. Do '' @
     ''not retry it or run it another way. Continue other work.''"

definition next_satisfied :: string where
  "next_satisfied =
     ''The grant already holds: do not request it again. Use it now (guardrail fetch <url>) '' @ ''and continue.''"

definition next_egress :: string where
  "next_egress =
     ''Web pages go through `guardrail fetch <url>`, not curl or wget; for an unapproved host '' @
     ''run `guardrail egress grant` yourself (host prompt or passkey) and continue offline '' @
     ''work. Do not skip a fetch because an earlier one was denied.''"

definition next_fetch :: string where
  "next_fetch =
     ''Run `guardrail fetch <the same URL>` as a shell command instead; if it names an '' @
     ''unapproved host, run the `guardrail egress grant` it prints yourself (operator '' @
     ''approves: host prompt or passkey), then retry. Do not skip a fetch because an earlier '' @ ''one was denied.''"

definition next_destructive :: string where
  "next_destructive =
     ''Destructive operation: do not retry it. Use a scoped, reversible alternative, or ask '' @
     ''the operator to run it manually; then continue the task.''"

definition next_git :: string where
  "next_git =
     ''Protected git state: use a non-destructive alternative (for example git revert instead '' @
     ''of reset --hard), or ask the operator if it is truly required; then continue.''"

definition next_symlink :: string where
  "next_symlink =
     ''Symlink escape: operate on the real target path inside the authorized root, then '' @ ''continue.''"

definition next_pipe :: string where
  "next_pipe =
     ''Download piped into a shell is denied. Download to a file, inspect it, then run it as a '' @
     ''separate reviewed step.''"

definition next_default :: string where
  "next_default =
     ''Do not retry this exact call. Complete the work by other means and involve the operator '' @
     ''only if this exact step is required; then continue.''"

definition destructiveRules :: "string list" where
  "destructiveRules =
     [''P1.rm-rf'', ''P1.dd'', ''P1.mkfs'', ''P1.shred'', ''P1.privesc'', ''P1.docker-down'', ''P1.docker-prune'',
      ''P1.docker-substituted'', ''P1.git-push-force'', ''P1.git-clean'']"

definition gitRules :: "string list" where
  "gitRules = [''P2.git-reset-hard'', ''P2.git-config-write'', ''P2.git-protected-path'']"

definition denyNextStep :: "verdict \<Rightarrow> string" where
  "denyNextStep v =
     (let rule = vRuleID v
      in if rule = ''P5.self-config'' \<and> (vReason v = NightMentionReason \<or> vReason v = SelfControlMentionReason)
         then next_mention
         else if rule = ''P4.secret-in-text'' then next_secret_in_text
         else if rule = ''call-mcp-tool-generic'' then next_call_mcp
         else if rule \<in> set [''capability-deny'', ''capability-invalid''] then next_capability
         else if rule = ''capability-delegation-unverified'' then next_delegation
         else if rule = ''unknown-native-tool'' then next_unknown
         else if rule \<in> set [''capability-input-missing'', ''capability-input-invalid''] then next_input
         else if rule \<in> set [''P4.secret-path'', ''P4.secret-path-ambiguous''] then next_secret
         else if rule = ''P5.self-config'' then next_self_config
         else if rule \<in> set [''operator-action-terminal'', ''operator-action-ticket''] then next_operator
         else if rule = ''operator-action-satisfied'' then next_satisfied
         else if rule = ''P6.egress'' then next_egress
         else if rule = ''web-fetch-native-deny'' then next_fetch
         else if rule \<in> set destructiveRules then next_destructive
         else if rule \<in> set gitRules then next_git
         else if rule = ''P4.symlink-escape'' then next_symlink
         else if rule = ''P6.download-pipe-shell'' then next_pipe
         else next_default)"

definition OperatorActionAskRuleID :: string where
  "OperatorActionAskRuleID = ''operator-action-ask''"

definition operatorAskNextStep :: string where
  "operatorAskNextStep =
     ''If the operator approves, this exact command runs once and applies; do not run it again '' @
     ''or another way. If they decline, or no prompt appears, do not retry or rephrase it: '' @
     ''tell the operator what you need; they can run the command in their own terminal. '' @ ''Continue other work.''"

definition operatorAskGuidance :: "verdict \<Rightarrow> string" where
  "operatorAskGuidance v = ''Approve this '' @ vReason v @ ''? Approve only if you asked for it. '' @ operatorAskNextStep"

definition path_operator_action :: string where
  "path_operator_action =
     ''Approval path: this is an operator action. Run the exact command once on its own: the '' @
     ''host asks the operator to approve it. If the verdict carries an approval URL, surface '' @
     ''it instead (passkey mode). If no prompt appears, tell the operator the command; they '' @
     ''run it in their own terminal.''"

definition path_conversational :: string where
  "path_conversational =
     ''Approval path: this is a conversational approval. There is no approval URL, no daemon '' @
     ''and no `guardrail approvals` command you can run for it '' @ em_dash @
     '' say what you need to the operator, and retry the exact call once they approve, on its '' @
     ''own: a retry that adds or drops a step is a new action and asks again.''"

definition path_grant :: string where
  "path_grant =
     '' If the operator would rather authorize it in policy than approve it in chat, they can '' @
     ''issue a single-use grant for this exact command from their own terminal. Ask for the '' @
     ''command you just ran, never a broader form of it.''"

definition askApprovalPath :: "verdict \<Rightarrow> string" where
  "askApprovalPath v =
     (if vRuleID v = OperatorActionAskRuleID then operatorAskNextStep
      else if vApprovalURL v \<noteq> '''' then
         ''Approval path: this is a broker approval '' @ em_dash @ '' open '' @ vApprovalURL v @
         '' and complete the passkey ceremony. Telling the operator in chat will not clear it.''
      else if vOperatorAction v \<noteq> '''' then path_operator_action
      else if NeverGrantable (vRuleID v) then path_conversational
      else path_conversational @ path_grant)"

definition Guidance :: "verdict \<Rightarrow> string \<Rightarrow> string" where
  "Guidance v action =
     (if vDecision v = Ask then
        (if vRuleID v = OperatorActionAskRuleID then operatorAskGuidance v
         else
         ''Operator authorization required: '' @ vReason v @ ''. Request authorization for this exact action: '' @
         action @ ''. If the operator approves, retry this exact tool call within 10 minutes. If the '' @
         ''authorization expires, stop and wait for the operator to return '' @ em_dash @
         '' say what you were doing and that approval expired; do not keep retrying. Do not alter '' @
         ''or broaden the action. '' @ askApprovalPath v)
      else if vDecision v = Deny then
         ''Guardrail denied this action: '' @ vReason v @ ''. '' @ denyNextStep v @
         '' If this verdict seems wrong or blocks legitimate work, report it to the operator with: '' @
         ''the exact tool call, the rule ID ('' @ vRuleID v @
         ''), your guardrail version, what you were trying to do, and what you did instead. Do not '' @
         ''work around it silently.''
      else vReason v)"

definition guidanceForModel :: "verdict \<Rightarrow> string \<Rightarrow> string" where
  "guidanceForModel v action =
     (if vDecision v = Ask then Guidance (v\<lparr>vReason := sanitizeForModel (vReason v)\<rparr>) action
      else sanitizeForModel (Guidance v action))"

definition operatorActionGuidance :: "verdict \<Rightarrow> string" where
  "operatorActionGuidance v =
     sanitizeForModel
       (
        ''Operator approval requested for '' @ vOperatorAction v @ '' (request '' @ vRequestID v @ '').'' @
        (if vApprovalURL v \<noteq> '''' then
          '' Approval URL: '' @ vApprovalURL v @ ''.'' else '''') @
        '' The operator approves with their passkey and the action is applied at that moment; do '' @
        ''not re-run this command (that files a new request). Continue other work meanwhile and '' @
        ''use the granted capability once they confirm.'')"

definition NextStep :: "verdict \<Rightarrow> string" where
  "NextStep v =
     (case vDecision v of
        Ask \<Rightarrow> askApprovalPath v
      | Deny \<Rightarrow> denyNextStep v
      | Complete \<Rightarrow> operatorActionGuidance v
      | _ \<Rightarrow> '''')"

section \<open>Remediation metadata\<close>

record guidanceMetadata =
  SuggestedTool :: string
  RemediationClass :: string

definition remediationUseFileTool :: string where
  "remediationUseFileTool = ''use_file_tool''"

definition remediationScopedAlternative :: string where
  "remediationScopedAlternative = ''scoped_alternative''"

definition remediationOperatorApproval :: string where
  "remediationOperatorApproval = ''operator_approval''"

definition remediationContinueOtherWork :: string where
  "remediationContinueOtherWork = ''continue_other_work''"

definition remediationFailClosed :: string where
  "remediationFailClosed = ''fail_closed''"

definition guidanceMetadataFor :: "verdict \<Rightarrow> guidanceMetadata" where
  "guidanceMetadataFor v =
     (let rule = vRuleID v
      in if rule = ''P4.secret-in-text'' then \<lparr>SuggestedTool = ''edit'', RemediationClass = remediationUseFileTool\<rparr>
         else if rule \<in> set [''capability-deny'', ''capability-invalid'']
         then \<lparr>SuggestedTool = '''', RemediationClass = remediationFailClosed\<rparr>
         else if rule \<in> set ([''P4.symlink-escape'', ''P6.download-pipe-shell'', ''web-fetch-native-deny''] @ destructiveRules @ gitRules)
         then \<lparr>SuggestedTool = '''', RemediationClass = remediationScopedAlternative\<rparr>
         else if rule = ''P6.egress'' then \<lparr>SuggestedTool = '''', RemediationClass = remediationOperatorApproval\<rparr>
         else \<lparr>SuggestedTool = '''', RemediationClass = remediationContinueOtherWork\<rparr>)"

section \<open>The session posture\<close>

definition posture_intro :: string where
  "posture_intro =
     ''guardrail is active. Operate autonomously on routine development steps '' @ em_dash @
     '' do not stop to ask conversational permission; guardrail enforces destructive-command '' @
     ''and secret-access boundaries deterministically. Pause only when guardrail returns an '' @
     ''explicit block/ask, or you face genuine ambiguity outside its scope. On an ask: tell '' @
     ''the operator in one sentence what you need and why, wait for their answer, then retry '' @
     ''the exact call on its own. On a deny: follow the next step the message gives; do not '' @
     ''work around it. Write shell commands guardrail can resolve, or each one asks the '' @
     ''operator: literal absolute paths rather than variables or `$(...)` results as paths, '' @
     ''redirect targets or command names; `&&` or `git -C <dir>` rather than `cd dir;`; '' @
     ''separate tool calls rather than one long chain.''"

definition PostureText :: "string list \<Rightarrow> string list \<Rightarrow> string" where
  "PostureText waivers0 warnings =
     (let waivers = sanitizeWaiverIDs waivers0
      in posture_intro @
         (if waivers \<noteq> [] then
     [CHR 0x0A] @ [CHR 0x0A] @ ''Active policy waivers in this repo (these rules are OFF): '' @ join '', '' waivers
          else '''') @
         concat (map ((@) [CHR 0x0A, CHR 0x0A]) (sanitizeWarnings warnings)))"

definition planeDisplayName :: "string \<Rightarrow> string" where
  "planeDisplayName plane =
     (if plane = ''claude'' then ''Claude''
      else if plane = ''opencode'' then ''OpenCode''
      else if plane = ''antigravity'' then ''Antigravity''
      else plane)"

definition plural :: "nat \<Rightarrow> string" where
  "plural n = (if n = 1 then '''' else ''s'')"

definition pronoun :: "nat \<Rightarrow> string" where
  "pronoun n = (if n = 1 then ''it'' else ''them'')"

definition PlaneLifecycleLine :: "string \<Rightarrow> string \<Rightarrow> nat \<Rightarrow> string" where
  "PlaneLifecycleLine plane state n =
     planeDisplayName plane @ '' plane lifecycle: '' @ sanitizeForModel state @ ''.'' @
     (if has_prefix state ''guardrail hook registered'' \<or> has_prefix state ''guardrail integration registered'' then
       (if n > 0 then
        '' '' @ itoa n @ '' unmarked legacy guardrail hook group'' @ plural n @
        '' remain (drift): run `guardrail plane enable '' @ plane @ ''` on its own to absorb '' @ pronoun n @
        ''; the host asks the operator to approve.''
        else '''')
      else
       '' This session is guarded by the hook that launched it, but future sessions may not be: '' @
       ''run `guardrail plane enable '' @ plane @ ''` on its own; the host asks the operator to approve.'')"

definition CoverageDriftLine :: "string \<Rightarrow> string \<Rightarrow> string list \<Rightarrow> string" where
  "CoverageDriftLine plane runtime uncontracted =
     (if uncontracted = [] then ''''
      else sanitizeForModel
       (
        plane @ '' coverage: '' @ runtime @ '' '' @ em_dash @ '' '' @ itoa (length uncontracted) @
        '' uncontracted '' @ (if length uncontracted = 1 then ''tool'' else ''tools'') @ '' ('' @
        join '', '' uncontracted @ ''); run guardrail doctor --coverage '' @ plane))"

definition EmitClaudeSessionStart :: "string \<Rightarrow> emitted" where
  "EmitClaudeSessionStart t =
     \<lparr>exitCode = 0,
      stdoutJSON = Some (JObject [(''hookSpecificOutput'',
        JObject [(''additionalContext'', JString t), (''hookEventName'', JString ''SessionStart'')])]),
      stderrText = ''''\<rparr>"

section \<open>The verdict of each plane\<close>

definition nativeAction :: "emit_env \<Rightarrow> tool_call \<Rightarrow> string" where
  "nativeAction em tc =
     (case emMarshal em (tcArguments tc) of
        None \<Rightarrow> tcNativeTool tc
      | Some b \<Rightarrow> tcNativeTool tc @ '' '' @ b)"

definition emit_json :: "nat \<Rightarrow> json \<Rightarrow> emitted" where
  "emit_json code j = \<lparr>exitCode = code, stdoutJSON = Some j, stderrText = ''''\<rparr>"

definition emit_text :: "nat \<Rightarrow> string \<Rightarrow> emitted" where
  "emit_text code t = \<lparr>exitCode = code, stdoutJSON = None, stderrText = t\<rparr>"

definition EmitClaude :: "emit_env \<Rightarrow> verdict \<Rightarrow> string \<Rightarrow> tool_call \<Rightarrow> emitted" where
  "EmitClaude em v event tc =
     (case vDecision v of
        Complete \<Rightarrow>
          emit_json 0 (JObject [(''hookSpecificOutput'', JObject
            ([(''additionalContext'', JString (operatorActionGuidance v))] @
             (if vApprovalURL v \<noteq> '''' then [(''approval_url'', JString (vApprovalURL v))] else []) @
             [(''hookEventName'', JString ''PreToolUse''), (''operator_action'', JString (vOperatorAction v)),
              (''permissionDecision'', JString ''deny''),
              (''permissionDecisionReason'', JString (operatorActionGuidance v)),
              (''request_id'', JString (vRequestID v))]))])
      | Deny \<Rightarrow> emit_text 2 (''guardrail: '' @ guidanceForModel v (nativeAction em tc) @ [CHR 0x0A])
      | Ask \<Rightarrow>
          emit_json 0 (JObject [(''hookSpecificOutput'', JObject
            [(''hookEventName'', JString (if event = ''post'' then ''PostToolUse'' else ''PreToolUse'')),
             (''permissionDecision'', JString ''ask''),
             (''permissionDecisionReason'', JString (guidanceForModel v (nativeAction em tc)))])])
      | _ \<Rightarrow> emit_text 0 '''')"

definition decision_string :: "decision \<Rightarrow> string" where
  "decision_string d =
     (case d of
        NoDecision \<Rightarrow> '''' | Allow \<Rightarrow> ''allow'' | Ask \<Rightarrow> ''ask'' | Deny \<Rightarrow> ''deny'' | Complete \<Rightarrow> ''complete''
      | OtherDecision s \<Rightarrow> s)"

definition EmitOpencode :: "emit_env \<Rightarrow> verdict \<Rightarrow> tool_call \<Rightarrow> emitted" where
  "EmitOpencode em v tc =
     (if vDecision v = Complete
      then emit_json 2 (JObject [(''approval_url'', JString (vApprovalURL v)), (''decision'', JString ''deny''),
             (''operator_action'', JString (vOperatorAction v)), (''request_id'', JString (vRequestID v)),
             (''status'', JString ''pending'')])
      else emit_json (if vDecision v = Deny then 2 else 0)
             (JObject [(''decision'', JString (decision_string (vDecision v))),
                (''reason'', JString (guidanceForModel v (nativeAction em tc)))]))"

definition EmitAntigravity :: "emit_env \<Rightarrow> verdict \<Rightarrow> string \<Rightarrow> tool_call \<Rightarrow> emitted" where
  "EmitAntigravity em v phase tc =
     (if phase = ''post'' then emit_json 0 (JObject [])
      else
        (let decision =
               (if vDecision v = Complete then ''deny''
                else if vDecision v = Ask then ''force_ask''
                else decision_string (vDecision v));
             reason = guidanceForModel v (nativeAction em tc)
         in emit_json 0 (JObject
              ([(''decision'', JString decision)] @
               (if vDecision v = Complete then [(''operator_action'', JString (vOperatorAction v))] else []) @
               (if reason \<noteq> '''' then [(''reason'', JString reason)] else []) @
               (if vDecision v = Complete
                then [(''request_id'', JString (vRequestID v)), (''status'', JString ''pending'')] else [])))))"

definition write_stdin_denied :: string where
  "write_stdin_denied =
     ''Guardrail denies write_stdin: Codex does not reliably run PreToolUse before delivering '' @
     ''terminal input (ADR-0014). Do not send or retry input to the running process. Use a '' @
     ''fresh, explicit non-interactive exec_command that can be reviewed before execution, or '' @
     ''ask the operator to perform the interactive step outside this session; continue '' @ ''independent work.''"

definition functions_exec_denied :: string where
  "functions_exec_denied =
     ''Guardrail denies functions.exec: composite tool indirection cannot guarantee mediation '' @
     ''of every nested action. Do not retry through another wrapper. Invoke the required '' @
     ''supported tools directly, then continue.''"

definition web_run_denied :: string where
  "web_run_denied =
     ''Guardrail cannot project this web.run request safely. Use a search-only request or open '' @
     ''one explicit HTTP(S) URL per call; do not mix operations or use opaque result '' @
     ''references. Continue independent work.''"

definition ask_never :: string where
  "ask_never =
     ''This rule cannot be granted. Report the finding to the operator and follow the rule's '' @
     ''diagnostic guidance before retrying; continue independent work. Chat approval cannot '' @
     ''clear this verdict.''"

definition ask_command :: string where
  "ask_command =
     ''Tell the operator this exact action: they can run it outside this session, or issue a '' @
     ''single-use grant for this exact command from their terminal (`guardrail explain` prints '' @
     ''it); continue independent work. Do not retry based on conversational approval.''"

definition ask_unrecorded :: string where
  "ask_unrecorded =
     ''No exact-action approval request was recorded. Report the complete action and this '' @
     ''finding to the operator; they can perform it outside this session. Continue independent '' @
     ''work. Chat approval cannot clear this verdict.''"

definition CodexAskGuidance :: "verdict \<Rightarrow> bool \<Rightarrow> string" where
  "CodexAskGuidance v command =
     ''Guardrail requires operator authorization: '' @ sanitizeForModel (vReason v) @
     ''. Codex PreToolUse cannot request approval. '' @
     (if NeverGrantable (vRuleID v) then ask_never
      else if vRequestID v \<noteq> '''' then
       ''Exact action request '' @ vRequestID v @
       '' is pending. Tell the operator to run `guardrail approvals grant --record '' @ vRequestID v @
       ''` in their terminal to review the complete action and approve or decline it. After '' @
       ''recorded approval, retry this identical action once; changed actions need a new '' @
       ''approval. Conversational approval is not authorization; continue independent work.''
      else if command then ask_command
      else ask_unrecorded)"

definition CodexPostGuidance :: "verdict \<Rightarrow> string" where
  "CodexPostGuidance v =
     ''Guardrail PostToolUse feedback: the tool already ran; its effects were not prevented or '' @
     ''undone by this hook. Policy finding: '' @
     sanitizeForModel (vReason v) @
     ''. No approval request was created by this post-tool check. Report the finding to the '' @
     ''operator and inspect the resulting state. Do not automatically repeat or undo the '' @
     ''action, or treat conversational approval as recorded authorization; continue '' @ ''independent work.''"

definition squote :: char where
  "squote = CHR 0x27"

text \<open>A word in single quotes; a single quote inside it is closed, written in double quotes and opened again.\<close>

definition sh_quote :: "string \<Rightarrow> string" where
  "sh_quote s =
     [squote] @ concat (map (\<lambda>c. if c = squote then [squote, dquote, squote, dquote, squote] else [c]) s) @ [squote]"

definition workdir_mismatch :: string where
  "workdir_mismatch =
     '' ]; then printf '%s'' @ [backslash] @
     ''n' 'guardrail: Codex workdir differs from the evaluated directory. Use the session '' @
     ''working directory and an explicit cd in the command so Guardrail can evaluate path '' @
     ''changes.' >&2; exit 1; fi'' @ [CHR 0x0A]"

definition workdirPrecondition :: "string \<Rightarrow> string" where
  "workdirPrecondition cwd =
     ''if [ '' @ [dquote] @ ''$(pwd -P)'' @ [dquote] @ '' != '' @ sh_quote cwd @ workdir_mismatch"

definition emitCodexAllowedCommand :: "emit_env \<Rightarrow> tool_call \<Rightarrow> emitted" where
  "emitCodexAllowedCommand em tc =
     (case emEvalSymlinks em (tcCWD tc) of
        None \<Rightarrow> emit_text 2 (
     ''guardrail: cannot verify Codex working directory; failing closed'' @ [CHR 0x0A])
      | Some cwd \<Rightarrow>
          emit_json 0 (JObject [(''hookSpecificOutput'', JObject
            [(''hookEventName'', JString ''PreToolUse''), (''permissionDecision'', JString ''allow''),
             (''updatedInput'', JObject [(''command'', JString (workdirPrecondition cwd @ tcCommand tc))])])]))"

text \<open>The last assignment to \<^verbatim>\<open>reason\<close> wins.\<close>

definition codex_reason :: "emit_env \<Rightarrow> verdict \<Rightarrow> string \<Rightarrow> tool_call \<Rightarrow> string" where
  "codex_reason em v event tc =
     (if event = ''post'' then CodexPostGuidance v
      else if vDecision v = Complete then
         ''Operator action pending: '' @ vOperatorAction v @ ''; request '' @ vRequestID v @ ''; open '' @
         vApprovalURL v @ ''. Wait for completion before continuing this action.''
      else if vDecision v = Ask then CodexAskGuidance v (tcTool tc = ''Bash'' \<and> tcCommand tc \<noteq> '''')
      else if vDecision v = Deny \<and> tcTool tc = ''web.run'' \<and> tcCapability tc = CapabilityDeny then web_run_denied
      else if vDecision v = Deny \<and> tcTool tc = ''functions.exec'' then functions_exec_denied
      else if vDecision v = Deny \<and> tcTool tc = ''write_stdin'' then write_stdin_denied
      else guidanceForModel v (nativeAction em tc))"

definition EmitCodex :: "emit_env \<Rightarrow> verdict \<Rightarrow> string \<Rightarrow> tool_call \<Rightarrow> emitted" where
  "EmitCodex em v event tc =
     (if vDecision v = Allow
      then (if event = ''pre'' \<and> tcCapability tc = CapabilityCommand then emitCodexAllowedCommand em tc else emit_text 0 '''')
      else emit_text 2 (''guardrail: policy denial: '' @ codex_reason em v event tc @ [CHR 0x0A]))"

definition emitVerdict :: "emit_env \<Rightarrow> string \<Rightarrow> string \<Rightarrow> tool_call \<Rightarrow> verdict \<Rightarrow> emitted" where
  "emitVerdict em plane phase tc v =
     (if plane = ''codex'' then EmitCodex em v (tcEvent tc) tc
      else if plane = ''claude'' then EmitClaude em v (tcEvent tc) tc
      else if plane = ''opencode'' then EmitOpencode em v tc
      else if plane = ''antigravity'' then EmitAntigravity em v phase tc
      else emit_text 2 '''')"

section \<open>From the envelope to the answer\<close>

definition hook_parse :: "adapter_env \<Rightarrow> string \<Rightarrow> string \<Rightarrow> string option \<Rightarrow> adapter_error + tool_call" where
  "hook_parse ae plane phase input =
     (if plane = ''codex'' then ParseCodex ae input
      else if plane = ''claude'' then ParseClaude ae input
      else if plane = ''opencode'' then ParseOpencode ae input
      else if plane = ''antigravity'' then ParseAntigravity ae phase input
      else Inl EnvelopeInvalid)"

text \<open>The warnings collected so far, and those about the audit record of the failure, surround the reason.\<close>

definition failClosed ::
  "emit_env \<Rightarrow> string \<Rightarrow> string \<Rightarrow> tool_call \<Rightarrow> string list \<Rightarrow> string \<Rightarrow> string list \<Rightarrow> emitted" where
  "failClosed em plane phase tc warnings reason0 audit =
     (let reason = (if plane = ''codex'' then ''guardrail: handler failure: '' @
                      (if has_prefix reason0 ''guardrail: '' then drop 11 reason0 else reason0) else reason0)
      in if plane = ''antigravity'' then EmitAntigravity em (mk_verdict Deny '''' reason) phase tc
         else emit_text 2 (EmitModelWarnings (warnings @ [reason] @ audit)))"

definition warned :: "string list \<Rightarrow> emitted \<Rightarrow> emitted" where
  "warned warnings out = out\<lparr>stderrText := EmitModelWarnings warnings @ stderrText out\<rparr>"

record hook_texts =
  htWarnings :: "string list"
  htReason :: string
  htAudit :: "string list"
  htPosture :: string

definition hook_reply ::
  "hook_env \<Rightarrow> adapter_env \<Rightarrow> emit_env \<Rightarrow> hook_texts \<Rightarrow> string \<Rightarrow> string option \<Rightarrow> hook_input \<Rightarrow> hook_world \<Rightarrow> emitted" where
  "hook_reply env ae em ht phase input hin w =
     (let plane = hiPlane hin;
          fail = (\<lambda>tc. failClosed em plane phase tc (htWarnings ht) (htReason ht) (htAudit ht))
      in case hook_parse ae plane phase input of
           Inl _ \<Rightarrow> fail zero_call
         | Inr tc \<Rightarrow>
             (case fst (cmdHook env (hin\<lparr>hiCall := Some tc\<rparr>) w) of
                FailedClosed \<Rightarrow> fail tc
              | SessionStarted \<Rightarrow> warned (htWarnings ht) (EmitClaudeSessionStart (htPosture ht))
              | Emitted v \<Rightarrow> warned (htWarnings ht) (emitVerdict em plane phase tc v)))"

section \<open>What the host reads\<close>

text \<open>The answer a host takes from the process: a blocking exit status, or the decision in the JSON.\<close>

definition emitted_answer :: "emitted \<Rightarrow> string option" where
  "emitted_answer out =
     (if exitCode out = 2 then Some ''deny''
      else (case stdoutJSON out of
              Some (JObject kvs) \<Rightarrow>
                (case map_of kvs ''hookSpecificOutput'' of
                   Some (JObject h) \<Rightarrow> map_string h ''permissionDecision''
                 | _ \<Rightarrow> map_string kvs ''decision'')
            | _ \<Rightarrow> None))"

lemma emitted_answer_warned [simp]: "emitted_answer (warned ws out) = emitted_answer out"
  by (simp add: emitted_answer_def warned_def)

definition ask_answer :: "string \<Rightarrow> string" where
  "ask_answer plane =
     (if plane = ''codex'' then ''deny'' else if plane = ''antigravity'' then ''force_ask'' else ''ask'')"

lemmas emit_defs = EmitCodex_def EmitClaude_def EmitOpencode_def EmitAntigravity_def emit_text_def emit_json_def
  emitted_answer_def map_string_def decision_string_def

lemma EmitAntigravity_answer:
  "phase \<noteq> ''post'' \<Longrightarrow>
   emitted_answer (EmitAntigravity em v phase tc) =
     Some (if vDecision v = Complete then ''deny'' else if vDecision v = Ask then ''force_ask'' else decision_string (vDecision v))"
  by (simp add: EmitAntigravity_def emit_json_def emitted_answer_def map_string_def Let_def)

lemma emit_refusal:
  assumes "plane \<in> set [''codex'', ''claude'', ''opencode'', ''antigravity'']" and "phase \<noteq> ''post''"
  shows "vDecision v \<in> {Deny, Complete} \<Longrightarrow> emitted_answer (emitVerdict em plane phase tc v) = Some ''deny''"
    and "vDecision v = Ask \<Longrightarrow> emitted_answer (emitVerdict em plane phase tc v) = Some (ask_answer plane)"
proof -
  consider "plane = ''codex''" | "plane = ''claude''" | "plane = ''opencode''" | "plane = ''antigravity''" using assms(1) by auto
  then show "emitted_answer (emitVerdict em plane phase tc v) = Some ''deny''" if d: "vDecision v \<in> {Deny, Complete}"
  proof cases
    case 4
    then show ?thesis using d assms(2) by (auto simp: emitVerdict_def EmitAntigravity_answer decision_string_def)
  qed (use d in \<open>auto simp: emitVerdict_def emit_defs\<close>)
  assume a: "vDecision v = Ask"
  consider "plane = ''codex''" | "plane = ''claude''" | "plane = ''opencode''" | "plane = ''antigravity''" using assms(1) by auto
  then show "emitted_answer (emitVerdict em plane phase tc v) = Some (ask_answer plane)"
  proof cases
    case 4
    then show ?thesis using a assms(2) by (simp add: emitVerdict_def EmitAntigravity_answer ask_answer_def)
  qed (use a in \<open>auto simp: emitVerdict_def emit_defs ask_answer_def\<close>)
qed

lemma failClosed_denies: "phase \<noteq> ''post'' \<Longrightarrow> emitted_answer (failClosed em plane phase tc ws reason audit) = Some ''deny''"
proof (cases "plane = ''antigravity''")
  case True
  assume "phase \<noteq> ''post''"
  with True show ?thesis by (simp add: failClosed_def Let_def EmitAntigravity_answer decision_string_def)
next
  case False
  then show ?thesis by (simp add: failClosed_def Let_def emit_text_def emitted_answer_def)
qed


definition demo_status :: json where
  "demo_status =
     JObject [(''session_id'', JString ''s''), (''cwd'', JString ''/w''), (''hook_event_name'', JString ''PreToolUse''),
       (''tool_name'', JString ''Bash''), (''tool_input'', JObject [(''command'', JString ''git status'')])]"

definition demo_emit :: emit_env where
  "demo_emit = \<lparr>emMarshal = Some, emEvalSymlinks = Some\<rparr>"

definition demo_texts :: hook_texts where
  "demo_texts = \<lparr>htWarnings = [], htReason = '''', htAudit = [], htPosture = ''''\<rparr>"


section \<open>The directory an allowed Codex command runs in\<close>

text \<open>How a POSIX shell reads a word made of quoted parts; \<open>None\<close> when it is not one, or when a double-quoted part has
  something to expand.\<close>

datatype quote_mode = Outside | InSingle | InDouble

fun sh_read :: "quote_mode \<Rightarrow> string \<Rightarrow> string option" where
  "sh_read Outside [] = Some []"
| "sh_read _ [] = None"
| "sh_read Outside (c # s) =
     (if c = squote then sh_read InSingle s else if c = dquote then sh_read InDouble s else None)"
| "sh_read InSingle (c # s) = (if c = squote then sh_read Outside s else map_option ((#) c) (sh_read InSingle s))"
| "sh_read InDouble (c # s) =
     (if c = dquote then sh_read Outside s
      else if c \<in> set [CHR ''$'', CHR 0x60, backslash] then None
      else map_option ((#) c) (sh_read InDouble s))"

lemma sh_read_quoted:
  "sh_read InSingle (concat (map (\<lambda>c. if c = squote then [squote, dquote, squote, dquote, squote] else [c]) s) @ [squote]) = Some s"
  by (induction s) (auto simp: squote_def)

lemma sh_read_sh_quote: "sh_read Outside (sh_quote s) = Some s"
  using sh_read_quoted [of s] by (simp add: sh_quote_def)


definition quoted_call :: tool_call where
  "quoted_call = (demo_call ''ls'')\<lparr>tcCWD := ''/w/it's''\<rparr>"


section \<open>What the texts keep\<close>

text \<open>An ask shows the action it asks for byte by byte: only the reason is shortened.\<close>

lemma sublist_here: "sublist x (x @ z)" and sublist_later: "sublist x z \<Longrightarrow> sublist x (w @ z)"
  by (simp, auto simp: sublist_def) (metis append_assoc)

lemma Guidance_shows_action:
  assumes "vDecision w = Ask" and "vRuleID w \<noteq> OperatorActionAskRuleID"
  shows "sublist action (Guidance w action)"
  unfolding Guidance_def if_P [OF assms(1)] if_not_P [OF assms(2)]
  by (rule sublist_here | rule sublist_later)+

lemma ask_shows_exact_action:
  assumes "vDecision v = Ask" and "vRuleID v \<noteq> OperatorActionAskRuleID"
  shows "sublist action (guidanceForModel v action)"
  unfolding guidanceForModel_def if_P [OF assms(1)] by (rule Guidance_shows_action) (use assms in simp_all)

text \<open>For a mention of a control in interpreter input the text says to use the Write or Edit tool; the metadata names no tool.\<close>

lemma mention_metadata_diverges:
  assumes "vRuleID v = ''P5.self-config''" and "vReason v = NightMentionReason"
  shows "denyNextStep v = next_mention" and "guidanceMetadataFor v = \<lparr>SuggestedTool = '''', RemediationClass = remediationContinueOtherWork\<rparr>"
  using assms by (simp_all add: denyNextStep_def guidanceMetadataFor_def destructiveRules_def gitRules_def)

end
