(* ===== verification/Spec2Isabelle.thy ===== *)
theory Spec2Isabelle
  imports Operator_Commands Policy_Merge Engine Adapter_Emit
begin

text \<open>
  Agent Guardrails: a verification development.

  \<^bold>\<open>The program.\<close>  \<^verbatim>\<open>guardrail\<close> stands between a coding agent and the machine.  The agent's host calls
  \<^verbatim>\<open>guardrail hook\<close> before every tool call; the hook reads the policy, asks the engine for a verdict
  (allow, ask or deny), may relax an ask by something the operator authorized earlier, writes an audit
  record and answers.  The operator authorizes through terminal commands, one-time tickets or an
  approval broker.  The parts, from the inside out:

  \<^item> The policy (\<^verbatim>\<open>src/internal/policy\<close>): the built-in Base, the repository's Overlay, the Operator config
    outside the repository, and the merge of the three.
  \<^item> The engine (\<^verbatim>\<open>src/internal/engine\<close>): a pure function from a tool call and a policy to a verdict.  A
    shell command is parsed into simple commands and each rule looks at each command; path and URL
    rules look at the other tools.
  \<^item> The adapters (\<^verbatim>\<open>src/internal/adapter\<close>, \<^verbatim>\<open>src/internal/planecontract\<close>): for each of the four hosts the table of its
    tools, the reader of its call and the writer of its answer.
  \<^item> The stores: per-session state with its lock (\<^verbatim>\<open>src/internal/session\<close>), exact-action grants
    (\<^verbatim>\<open>src/internal/actiongrant\<close>), command grants in the Operator config, approval tickets and the
    approval broker (\<^verbatim>\<open>src/internal/approval\<close>), the night marker (\<^verbatim>\<open>src/internal/night\<close>).
  \<^item> The command line (\<^verbatim>\<open>src/cmd/guardrail\<close>): the hook, the operator's commands, the handlers of approved
    actions, the journal that makes a change of two files atomic, and the audit journal.

  \<^bold>\<open>The theories.\<close>  Each opens with the source files it models and its conventions.

  \<^item> Foundations.  \<^verbatim>\<open>Guard_Prelude\<close> (Go strings, panics, the lemma collections), \<^verbatim>\<open>Go_Path\<close> (lexical path
    operations and \<^verbatim>\<open>pathutil/resolve.go\<close>), \<^verbatim>\<open>Ledger\<close> (the locale of one-time authorizations).
  \<^item> Policy.  \<^verbatim>\<open>Policy_Model\<close>, \<^verbatim>\<open>Operator_Config\<close>, \<^verbatim>\<open>Policy_Merge\<close>.  The merge theorems give its
    direction: a repository can only tighten on its own authority, and every loosening is one the
    Operator config names; loading and merging return for every file system.
  \<^item> Rules.  \<^verbatim>\<open>Tool_Call\<close> has the parsed command and the contract \<open>argv_rule\<close> of a command rule; the
    theories \<^verbatim>\<open>Rules_Power\<close>, \<^verbatim>\<open>Rules_Git\<close>, \<^verbatim>\<open>Rules_Gh\<close>, \<^verbatim>\<open>Rules_Credentialed\<close>, \<^verbatim>\<open>Rules_Install\<close> and
    \<^verbatim>\<open>Rules_Docker\<close> discharge it for the rules of the file each is named after, and show that no option, spelling
    or prefix the parsers know moves the dangerous form past the rule.
  \<^item> Paths.  \<^verbatim>\<open>Path_Authority\<close> has the host (a record of what the file system answers), the relation between
    two paths and the rm rule; \<^verbatim>\<open>Rules_Shells\<close> the PowerShell and cmd rules that reduce to it; \<^verbatim>\<open>Operands\<close> the
    operand grammars, with the contract \<open>operand_parser\<close>; \<^verbatim>\<open>Find_Actions\<close> find; \<^verbatim>\<open>Rules_Write\<close> the destinations
    of cp, mv, rsync and their kind, and words the parser could not read; \<^verbatim>\<open>Git_Repository\<close> the search for a
    repository; \<^verbatim>\<open>Rules_Path\<close> secrets, protected files and links; \<^verbatim>\<open>Rules_Net\<close> network destinations.  Each shows
    that what its rule lets pass lies within the roots or hosts the policy names.
  \<^item> Evaluation.  \<^verbatim>\<open>Bash_Eval\<close> folds the rules over a parsed command line and \<^verbatim>\<open>Evaluate_Call\<close> combines the
    rule families.  The lemmas read the nested folds as one maximum over all hits: no hit is lost, a
    waiver silences only its own rule, a panic becomes an ask, and the ways to an allow are listed.
    \<^verbatim>\<open>Engine\<close> puts the rules in their places and carries the facts of the rule theories to the verdict of a
    whole call: what names a secret or writes Guardrail's own files is denied, and what an allowed call
    deletes or contacts is inside the bounds of the policy.  No rule of the engine panics.
  \<^item> State.  \<^verbatim>\<open>Session_Store\<close> (transactions, refinement of a plain function on the state, mutual
    exclusion of the gate), \<^verbatim>\<open>Relaxation\<close> (night mode, grants, trifecta, OpenCode approvals, with the
    contracts \<open>ask_relaxer\<close> and \<open>guarded_relaxer\<close>), \<^verbatim>\<open>Action_Grants\<close>, \<^verbatim>\<open>Command_Grants\<close>, \<^verbatim>\<open>Tickets\<close> and
    \<^verbatim>\<open>Broker\<close>, each an interpretation of \<open>ledger\<close>: over every sequence of operations no more is spent
    than was authorized.
  \<^item> Operator side.  \<^verbatim>\<open>Operator_Action\<close> (recognising the canonical commands), \<^verbatim>\<open>Allowances\<close> (the two-file
    journal, a crash-atomic refinement), \<^verbatim>\<open>Action_Audit\<close>, \<^verbatim>\<open>Approved_Actions\<close>, \<^verbatim>\<open>Operator_Commands\<close>: every
    allowance goes back to an approval or to a command run by the operator.
  \<^item> Composition.  \<^verbatim>\<open>Hook\<close> runs all of it for one call: a deny is final, an allow is the engine's or is
    paid for by exactly one recorded authorization, and a relaxation that cannot be audited is undone.

  \<^item> Hosts.  \<^verbatim>\<open>Go_Json\<close> (what is used of \<^verbatim>\<open>encoding/json\<close>), \<^verbatim>\<open>Plane_Contract\<close> (the tool tables and the MCP registry),
    \<^verbatim>\<open>Adapters\<close> (the four parsers: every path a call or patch names reaches the rules, and a tool nobody has
    classified is stopped), \<^verbatim>\<open>Safe_Text\<close> (UTF-8 and the bound on text shown to a model) and \<^verbatim>\<open>Adapter_Emit\<close> (guidance and
    answers), which closes the chain: from the bytes a host sends to the answer it reads, a host lets a call pass
    only on a verdict that allows it.

  \<^bold>\<open>Conventions.\<close>  Strings are lists of bytes; case mapping is ASCII.  Times are integers in nanoseconds.
  Code outside the repository (the shell parser, \<^verbatim>\<open>doublestar\<close>, TOML, SHA-256) and the text-level parsers of the library (JSON, \<^verbatim>\<open>url.Parse\<close>) are
  arguments or fields of a record of answers.  The operating system is a record of outcomes per
  operation (the fields of \<open>txn_io\<close>, \<open>action_io\<close>, \<open>hook_env\<close> and the like), so that the theorems hold for every way its
  calls may fail; a crash is the failure of the operation it interrupts.  Concurrency is interleaving:
  a run is an arbitrary list of the operations that hold a lock.

  \<^bold>\<open>Loops.\<close>  Recursion is structural, or a \<open>function\<close> with a measure, except the walk of
  \<^verbatim>\<open>ResolveThroughExistingAncestor\<close>, a \<open>partial_function\<close> that is proved to return on absolute paths.

  \<^bold>\<open>Not modelled.\<close>  The shell parser of \<^verbatim>\<open>tokenize.go\<close> works on the syntax trees of a third-party
  package; its result, the list of simple commands, and \<^verbatim>\<open>literalWriteFindExemptions\<close>, which reads the tree
  again, are fields of \<open>engine_env\<close>.  On Windows some branches differ; the model is of the POSIX build.  The
  PowerShell precondition of \<^verbatim>\<open>codex_windows_shell.go\<close>, configuration generation, \<^verbatim>\<open>doctor\<close>, the daemon, WebAuthn,
  the Codex hook diagnostic and the text of the operator's terminal are input and output around the decisions
  modelled here.
\<close>

end
